(* ===== verification/Prelude.thy ===== *)
theory Prelude
  imports Main "HOL-Library.Word" "HOL-Library.Sublist" "HOL-Library.Char_ord"
    "HOL-Library.List_Lexorder"
begin

text \<open>
  What every component of the development shares: the types that stand for Go's strings,
  UUIDs, times and durations, the functions of Go's \<open>strings\<close> package the source
  calls, the record of standard-library functions the model takes as a parameter, and generic
  lemmas on lists and maps.

  A Go string is a sequence of bytes: a \<^typ>\<open>string\<close> whose characters are bytes.  A
  \<open>uuid.UUID\<close> is a 128-bit word, \<open>uuid.Nil\<close> is 0; the hexadecimal text of a
  UUID orders as its number.  A \<open>time.Time\<close> is an instant in nanoseconds since the Unix
  epoch; its zero value is the first instant of the year 1.
\<close>

named_theorems policy_simps "role tables and permission lookups"
named_theorems filter_simps "evaluation of traffic exclusion rules"
named_theorems store_simps "updates of the webhook tables"

subsection \<open>Types\<close>

type_synonym uuid = "128 word"
type_synonym time = int
type_synonym duration = int

definition uuid_Nil :: uuid where
  "uuid_Nil = 0"

abbreviation (input) nanosecond :: duration where "nanosecond \<equiv> 1"
abbreviation (input) millisecond :: duration where "millisecond \<equiv> 1000000"
abbreviation (input) second :: duration where "second \<equiv> 1000000000"
abbreviation (input) minute :: duration where "minute \<equiv> 60000000000"
abbreviation (input) hour :: duration where "hour \<equiv> 3600000000000"

definition time_zero :: time where
  "time_zero = - 62135596800 * second"

definition IsZero :: "time \<Rightarrow> bool" where
  "IsZero t \<longleftrightarrow> t = time_zero"

text \<open>Two's complement wrap-around of a Go \<open>int64\<close> (also \<open>int\<close> and \<open>time.Duration\<close>).\<close>

definition wrap64 :: "int \<Rightarrow> int" where
  "wrap64 x = (x + 2 ^ 63) mod 2 ^ 64 - 2 ^ 63"

lemma wrap64_id: "- (2 ^ 63) \<le> x \<Longrightarrow> x < 2 ^ 63 \<Longrightarrow> wrap64 x = x"
  by (simp add: wrap64_def)

lemma wrap64_lower: "- (2 ^ 63) \<le> wrap64 x"
  by (simp add: wrap64_def)

lemma wrap64_upper: "wrap64 x < 2 ^ 63"
  by (simp add: wrap64_def)

subsection \<open>Functions of Go's strings package\<close>

text \<open>
  \<open>strings.TrimSpace\<close> removes the code points with the Unicode property White_Space; the
  list holds their UTF-8 encodings.
\<close>

definition space_runes :: "string list" where
  "space_runes = map (map char_of)
     [[0x20], [0x09], [0x0A], [0x0B], [0x0C], [0x0D], [0xC2, 0x85], [0xC2, 0xA0],
      [0xE1, 0x9A, 0x80], [0xE2, 0x80, 0x80], [0xE2, 0x80, 0x81], [0xE2, 0x80, 0x82],
      [0xE2, 0x80, 0x83], [0xE2, 0x80, 0x84], [0xE2, 0x80, 0x85], [0xE2, 0x80, 0x86],
      [0xE2, 0x80, 0x87], [0xE2, 0x80, 0x88], [0xE2, 0x80, 0x89], [0xE2, 0x80, 0x8A],
      [0xE2, 0x80, 0xA8], [0xE2, 0x80, 0xA9], [0xE2, 0x80, 0xAF], [0xE2, 0x81, 0x9F],
      [0xE3, 0x80, 0x80 :: nat]]"

function trim_left :: "string list \<Rightarrow> string \<Rightarrow> string" where
  "trim_left ws s =
     (case find (\<lambda>w. w \<noteq> [] \<and> prefix w s) ws of
        None \<Rightarrow> s
      | Some w \<Rightarrow> trim_left ws (drop (length w) s))"
  by pat_completeness auto
termination
  by (relation "measure (\<lambda>(ws, s). length s)")
    (auto simp: find_Some_iff prefix_def)

declare trim_left.simps [simp del]

definition TrimSpace :: "string \<Rightarrow> string" where
  "TrimSpace s = rev (trim_left (map rev space_runes) (rev (trim_left space_runes s)))"

lemma trim_left_suffix: "suffix (trim_left ws s) s"
proof (induction ws s rule: trim_left.induct)
  case (1 ws s)
  then show ?case
    by (subst trim_left.simps) (auto split: option.splits intro: suffix_order.trans suffix_drop)
qed

lemma trim_left_done: "w \<in> set ws \<Longrightarrow> w \<noteq> [] \<Longrightarrow> \<not> prefix w (trim_left ws s)"
proof (induction ws s rule: trim_left.induct)
  case (1 ws s)
  then show ?case
    by (subst trim_left.simps) (auto split: option.splits simp: find_None_iff)
qed

lemma trim_left_fixed: "(\<And>w. w \<in> set ws \<Longrightarrow> w \<noteq> [] \<Longrightarrow> \<not> prefix w s) \<Longrightarrow> trim_left ws s = s"
  by (subst trim_left.simps) (auto split: option.splits simp: find_Some_iff)

lemma trim_left_idem [simp]: "trim_left ws (trim_left ws s) = trim_left ws s"
  by (rule trim_left_fixed) (rule trim_left_done)

lemma TrimSpace_idem [simp]: "TrimSpace (TrimSpace s) = TrimSpace s"
proof -
  let ?l = "trim_left space_runes s" and ?R = "trim_left (map rev space_runes)"
  have pre: "prefix (TrimSpace s) ?l"
    using trim_left_suffix [of "map rev space_runes" "rev ?l"]
    by (simp add: TrimSpace_def suffix_to_prefix)
  have "trim_left space_runes (TrimSpace s) = TrimSpace s"
    by (rule trim_left_fixed) (meson pre trim_left_done prefix_order.trans)
  moreover have "?R (rev (TrimSpace s)) = rev (TrimSpace s)"
    unfolding TrimSpace_def by simp
  ultimately show ?thesis unfolding TrimSpace_def by simp
qed

text \<open>Strings that begin and end with a visible ASCII character are their own trimming.\<close>

definition graphic :: "char \<Rightarrow> bool" where
  "graphic c \<longleftrightarrow> 33 \<le> (of_char c :: nat) \<and> (of_char c :: nat) < 127"

lemma graphic_no_space_start: "w \<in> set space_runes \<Longrightarrow> graphic c \<Longrightarrow> w \<noteq> [] \<and> hd w \<noteq> c"
  by (auto simp: space_runes_def graphic_def)

lemma graphic_no_space_end: "w \<in> set space_runes \<Longrightarrow> graphic c \<Longrightarrow> last w \<noteq> c"
  by (auto simp: space_runes_def graphic_def)

lemma trim_left_no_start:
  assumes "\<And>w. w \<in> set ws \<Longrightarrow> s \<noteq> [] \<Longrightarrow> hd w \<noteq> hd s"
  shows "trim_left ws s = s"
proof -
  have "find (\<lambda>w. w \<noteq> [] \<and> prefix w s) ws = None"
    using assms by (fastforce simp: find_None_iff prefix_def)
  then show ?thesis by (simp add: trim_left.simps)
qed

lemma TrimSpace_graphic:
  assumes "s \<noteq> []" and "graphic (hd s)" and "graphic (last s)"
  shows "TrimSpace s = s"
proof -
  have l: "trim_left space_runes s = s"
    using assms by (intro trim_left_no_start) (auto dest: graphic_no_space_start)
  have "trim_left (map rev space_runes) (rev s) = rev s"
    using assms graphic_no_space_end [of _ "last s"] by (intro trim_left_no_start) (auto simp: hd_rev)
  with l show ?thesis by (simp add: TrimSpace_def)
qed

lemma TrimSpace_space: "TrimSpace (CHR '' '' # s) = TrimSpace s"
proof -
  have "hd space_runes = '' ''" and "space_runes \<noteq> []" by code_simp+
  then obtain ws where r: "space_runes = '' '' # ws" by (metis list.collapse)
  have "find (\<lambda>w. w \<noteq> [] \<and> prefix w (CHR '' '' # s)) ('' '' # ws) = Some '' ''"
    by simp
  then show ?thesis unfolding TrimSpace_def r by (subst (1) trim_left.simps) simp
qed

lemma TrimSpace_Nil [simp]: "TrimSpace [] = []"
  by (simp add: TrimSpace_def trim_left_no_start)

definition is_ascii :: "string \<Rightarrow> bool" where
  "is_ascii s \<longleftrightarrow> list_all (\<lambda>c. of_char c < (128 :: nat)) s"

definition lower_byte :: "char \<Rightarrow> char" where
  "lower_byte c = (if 65 \<le> (of_char c :: nat) \<and> (of_char c :: nat) \<le> 90
                   then char_of (of_char c + 32 :: nat) else c)"

definition upper_byte :: "char \<Rightarrow> char" where
  "upper_byte c = (if 97 \<le> (of_char c :: nat) \<and> (of_char c :: nat) \<le> 122
                   then char_of (of_char c - 32 :: nat) else c)"

fun Split :: "char \<Rightarrow> string \<Rightarrow> string list" where
  "Split sep [] = [[]]"
| "Split sep (c # cs) =
     (if c = sep then [] # Split sep cs
      else (case Split sep cs of [] \<Rightarrow> [[c]] | p # ps \<Rightarrow> (c # p) # ps))"

fun Join :: "char \<Rightarrow> string list \<Rightarrow> string" where
  "Join sep [] = []"
| "Join sep [p] = p"
| "Join sep (p # q # ps) = p @ sep # Join sep (q # ps)"

definition TrimPrefix :: "string \<Rightarrow> string \<Rightarrow> string" where
  "TrimPrefix p s = (if prefix p s then drop (length p) s else s)"

text \<open>\<open>strings.Fields\<close>: the maximal runs without white space.\<close>

definition space_at :: "string \<Rightarrow> bool" where
  "space_at s \<longleftrightarrow> list_ex (\<lambda>w. prefix w s) space_runes"

fun field_prefix :: "string \<Rightarrow> string" where
  "field_prefix [] = []"
| "field_prefix (c # cs) = (if space_at (c # cs) then [] else c # field_prefix cs)"

lemma length_trim_left: "length (trim_left ws s) \<le> length s"
  using trim_left_suffix [of ws s] by (rule suffix_length_le)

lemma field_prefix_trimmed:
  assumes "trim_left space_runes s \<noteq> []"
  shows "field_prefix (trim_left space_runes s) \<noteq> []"
proof (cases "trim_left space_runes s")
  case (Cons c cs)
  have "w \<noteq> [] \<Longrightarrow> w \<in> set space_runes \<Longrightarrow> \<not> prefix w (trim_left space_runes s)" for w
    by (rule trim_left_done)
  moreover have "w \<in> set space_runes \<Longrightarrow> w \<noteq> []" for w by (auto simp: space_runes_def)
  ultimately have "\<not> space_at (c # cs)" using Cons by (auto simp: space_at_def list_ex_iff)
  then show ?thesis using Cons by simp
qed (use assms in simp)

function Fields :: "string \<Rightarrow> string list" where
  "Fields s =
     (let t = trim_left space_runes s in
      if t = [] then [] else field_prefix t # Fields (drop (length (field_prefix t)) t))"
  by pat_completeness auto
termination
proof (relation "measure length", goal_cases)
  case (2 s t)
  have "0 < length (field_prefix t)" using field_prefix_trimmed [of s] 2 by simp
  moreover have "0 < length t" using 2 by simp
  ultimately have "length t - length (field_prefix t) < length t" by simp
  moreover have "length t \<le> length s" using 2 length_trim_left by simp
  ultimately show ?case using 2 by simp
qed simp

declare Fields.simps [simp del]

text \<open>\<open>strings.Trim(s, cutset)\<close> for a one-byte cutset.\<close>

definition TrimByte :: "char \<Rightarrow> string \<Rightarrow> string" where
  "TrimByte c s = rev (dropWhile (\<lambda>x. x = c) (rev (dropWhile (\<lambda>x. x = c) s)))"

lemma Split_not_Nil [simp]: "Split sep s \<noteq> []"
  by (induction s) (auto split: list.splits)

lemma Join_Split: "Join sep (Split sep s) = s"
proof (induction s)
  case (Cons c cs)
  then show ?case
    by (cases "Split sep cs" rule: list.exhaust; cases "tl (Split sep cs)") auto
qed simp

lemma Split_no_sep: "p \<in> set (Split sep s) \<Longrightarrow> sep \<notin> set p"
  by (induction s arbitrary: p) (auto split: list.splits if_splits)

subsection \<open>Numbers\<close>

text \<open>Go's division truncates toward zero.\<close>

definition go_div :: "int \<Rightarrow> int \<Rightarrow> int" where
  "go_div a b = sgn a * sgn b * (\<bar>a\<bar> div \<bar>b\<bar>)"

lemma go_div_pos: "0 \<le> a \<Longrightarrow> 0 < b \<Longrightarrow> go_div a b = a div b"
  by (cases "a = 0") (simp_all add: go_div_def)

text \<open>Decimal numbers: \<open>strconv.FormatInt\<close> in base 10 and \<open>strconv.Atoi\<close>.\<close>

definition digit :: "nat \<Rightarrow> char" where
  "digit d = char_of (48 + d)"

fun nat_digits :: "nat \<Rightarrow> string" where
  "nat_digits n = (if n < 10 then [digit n] else nat_digits (n div 10) @ [digit (n mod 10)])"

declare nat_digits.simps [simp del]

definition FormatInt :: "int \<Rightarrow> string" where
  "FormatInt i = (if i < 0 then CHR ''-'' # nat_digits (nat (- i)) else nat_digits (nat i))"

definition is_digit :: "char \<Rightarrow> bool" where
  "is_digit c \<longleftrightarrow> 48 \<le> (of_char c :: nat) \<and> (of_char c :: nat) \<le> 57"

definition digits_value :: "string \<Rightarrow> nat" where
  "digits_value s = foldl (\<lambda>n c. n * 10 + (of_char c - 48)) 0 s"

definition Atoi :: "string \<Rightarrow> int option" where
  "Atoi s =
     (let (neg, body) = (case s of
            c # cs \<Rightarrow> if c = CHR ''-'' then (True, cs) else if c = CHR ''+'' then (False, cs) else (False, s)
          | [] \<Rightarrow> (False, []));
          v = int (digits_value body);
          v = (if neg then - v else v)
      in if body = [] \<or> \<not> list_all is_digit body \<or> v < - (2 ^ 63) \<or> 2 ^ 63 \<le> v then None else Some v)"

lemma is_digit_digit: "d < 10 \<Longrightarrow> is_digit (digit d)"
  by (simp add: is_digit_def digit_def)

lemma nat_digits_digits: "list_all is_digit (nat_digits n) \<and> nat_digits n \<noteq> []"
proof (induction n rule: nat_digits.induct)
  case (1 n)
  then show ?case by (subst (1 2) nat_digits.simps) (auto intro: is_digit_digit)
qed

lemma digits_value_nat_digits: "digits_value (nat_digits n) = n"
proof (induction n rule: nat_digits.induct)
  case (1 n)
  then show ?case
    by (subst nat_digits.simps) (auto simp: digits_value_def digit_def)
qed

lemma Atoi_FormatInt: "- (2 ^ 63) \<le> i \<Longrightarrow> i < 2 ^ 63 \<Longrightarrow> Atoi (FormatInt i) = Some i"
proof -
  assume b: "- (2 ^ 63) \<le> i" "i < 2 ^ 63"
  obtain c cs where c: "nat_digits (nat i) = c # cs" "is_digit c"
    using nat_digits_digits [of "nat i"] by (cases "nat_digits (nat i)") auto
  then have "c \<noteq> CHR ''-'' \<and> c \<noteq> CHR ''+''" by (auto simp: is_digit_def)
  note h = this
  show ?thesis
  proof (cases "i < 0")
    case True
    with b nat_digits_digits [of "nat (- i)"] digits_value_nat_digits [of "nat (- i)"] show ?thesis
      by (simp add: Atoi_def FormatInt_def)
  next
    case False
    with b c h nat_digits_digits [of "nat i"] digits_value_nat_digits [of "nat i"] show ?thesis
      by (simp add: Atoi_def FormatInt_def)
  qed
qed

subsection \<open>Standard library functions the model takes as a parameter\<close>

text \<open>
  The parsers and printers of \<open>net/url\<close>, \<open>net\<close> and \<open>net/netip\<close> the Unicode case
  tables and the case mapping of the database are not part of the repository.  A value of this record stands for them; every
  definition that calls one of them takes it as an argument, and every theorem holds for all of
  them unless it names a hypothesis.  \<open>'a\<close> is the type of addresses, \<open>'p\<close> that of
  prefixes.
\<close>

record url =
  Scheme :: string
  HasUser :: bool
  Host :: string
  Hostname :: string
  UrlPath :: string
  EscapedPath :: string
  Fragment :: string

record ('a, 'p) golib =
  unicode_lower :: "string \<Rightarrow> string"
  unicode_upper :: "string \<Rightarrow> string"
  unicode_EqualFold :: "string \<Rightarrow> string \<Rightarrow> bool"
  sql_unicode_lower :: "string \<Rightarrow> string"
  url_Parse :: "string \<Rightarrow> url option"
  netip_ParseAddr :: "string \<Rightarrow> 'a option"
  netip_ParsePrefix :: "string \<Rightarrow> 'p option"
  SplitHostPort :: "string \<Rightarrow> (string \<times> string) option"
  addr_String :: "'a \<Rightarrow> string"
  prefix_String :: "'p \<Rightarrow> string"

text \<open>
  \<open>strings.ToLower\<close> and \<open>strings.ToUpper\<close> map the ASCII letters of an ASCII string
  and consult the Unicode tables only when some byte is not ASCII.
\<close>

definition ToLower :: "('a, 'p) golib \<Rightarrow> string \<Rightarrow> string" where
  "ToLower L s = (if is_ascii s then map lower_byte s else unicode_lower L s)"

definition ToUpper :: "('a, 'p) golib \<Rightarrow> string \<Rightarrow> string" where
  "ToUpper L s = (if is_ascii s then map upper_byte s else unicode_upper L s)"

text \<open>\<open>strings.EqualFold\<close> and the \<open>lower\<close> of the database are alike.\<close>

definition EqualFold :: "('a, 'p) golib \<Rightarrow> string \<Rightarrow> string \<Rightarrow> bool" where
  "EqualFold L s t = (if is_ascii s \<and> is_ascii t then map lower_byte s = map lower_byte t else unicode_EqualFold L s t)"

definition sql_lower :: "('a, 'p) golib \<Rightarrow> string \<Rightarrow> string" where
  "sql_lower L s = (if is_ascii s then map lower_byte s else sql_unicode_lower L s)"

text \<open>
  A value of the record for the witnesses: a library whose case tables leave every string as it is
  and whose parsers accept nothing.
\<close>

definition bare_lib :: "(nat, nat) golib" where
  "bare_lib = \<lparr>unicode_lower = (\<lambda>s. s), unicode_upper = (\<lambda>s. s), unicode_EqualFold = (=),
     sql_unicode_lower = (\<lambda>s. s), url_Parse = (\<lambda>_. None),
     netip_ParseAddr = (\<lambda>_. None), netip_ParsePrefix = (\<lambda>_. None), SplitHostPort = (\<lambda>_. None),
     addr_String = (\<lambda>_. []), prefix_String = (\<lambda>_. [])\<rparr>"

subsection \<open>Lists and maps\<close>

lemma find_SomeD: "find P xs = Some x \<Longrightarrow> x \<in> set xs \<and> P x"
  by (auto simp: find_Some_iff)

lemma find_None_filter: "find P xs = None \<longleftrightarrow> filter P xs = []"
  by (induction xs) auto

text \<open>The first value of a list of optional results.\<close>

fun first_some :: "'a option list \<Rightarrow> 'a option" where
  "first_some [] = None"
| "first_some (x # xs) = (case x of None \<Rightarrow> first_some xs | Some y \<Rightarrow> Some y)"

lemma first_some_append:
  "first_some (xs @ ys) = (case first_some xs of None \<Rightarrow> first_some ys | Some v \<Rightarrow> Some v)"
  by (induction xs) (auto split: option.splits)

lemma first_some_None [simp]: "first_some xs = None \<longleftrightarrow> (\<forall>x \<in> set xs. x = None)"
  by (induction xs) (auto split: option.splits)

lemma first_some_in: "first_some xs = Some v \<Longrightarrow> Some v \<in> set xs"
  by (induction xs) (auto split: option.splits)

lemma list_all2_ex: "list_all2 P xs ys \<Longrightarrow> x \<in> set xs \<Longrightarrow> \<exists>y \<in> set ys. P x y"
  by (induction rule: list_all2_induct) auto

end
