(* ===== verification/Auth_Policy.thy ===== *)
theory Auth_Policy
  imports Prelude
begin

text \<open>
  The permission matrix and the authorization decisions of package \<open>auth\<close>
  (src/auth/permissions.go, capabilities.go, resource.go, oauth.go).  Roles, permissions,
  capabilities and resource kinds are Go strings, so a value read from the database that is no
  known role is covered: it has no permission and rank 99.
\<close>

subsection \<open>Roles and permissions\<close>

definition InstanceOwner :: string where "InstanceOwner = ''owner''"
definition InstanceAdmin :: string where "InstanceAdmin = ''admin''"
definition InstanceUser :: string where "InstanceUser = ''user''"

definition SiteOwner :: string where "SiteOwner = ''owner''"
definition SiteAdmin :: string where "SiteAdmin = ''admin''"
definition SiteEditor :: string where "SiteEditor = ''editor''"
definition SiteViewer :: string where "SiteViewer = ''viewer''"

definition PermSiteView :: string where "PermSiteView = ''site.view''"
definition PermSiteManageData :: string where "PermSiteManageData = ''site.manage_data''"
definition PermSiteDelete :: string where "PermSiteDelete = ''site.delete''"

lemmas role_names [policy_simps] = InstanceOwner_def InstanceAdmin_def InstanceUser_def
  SiteOwner_def SiteAdmin_def SiteEditor_def SiteViewer_def
  PermSiteView_def PermSiteManageData_def PermSiteDelete_def

definition instancePermissions :: "string \<Rightarrow> string list" where
  "instancePermissions role =
     (if role = InstanceOwner then
        [''instance.manage_users'', ''instance.view_all_sites'', ''instance.manage_settings'',
         ''instance.view_system'', ''instance.view_activation'', ''instance.manage_system'',
         ''instance.run_maintenance'', ''instance.view_audit'', ''instance.export_audit'',
         ''instance.manage_site_exclusions'', ''instance.manage_imports'',
         ''instance.manage_webhooks'', ''site.view'', ''site.manage_data'',
         ''site.manage_goals'', ''site.manage_annotations'', ''site.manage_team'',
         ''site.delete'', ''site.manage_webhooks'']
      else if role = InstanceAdmin then
        [''instance.view_all_sites'', ''instance.view_system'', ''instance.view_activation'',
         ''instance.run_maintenance'', ''instance.view_audit'',
         ''instance.manage_site_exclusions'', ''instance.manage_imports'',
         ''instance.manage_webhooks'', ''site.view'', ''site.manage_webhooks'']
      else [])"

definition sitePermissions :: "string \<Rightarrow> string list" where
  "sitePermissions role =
     (if role = SiteOwner then
        [''site.view'', ''site.manage_data'', ''site.manage_goals'', ''site.manage_annotations'',
         ''site.manage_team'', ''site.manage_webhooks'', ''site.delete'']
      else if role = SiteAdmin then
        [''site.view'', ''site.manage_data'', ''site.manage_goals'', ''site.manage_annotations'',
         ''site.manage_team'', ''site.manage_webhooks'']
      else if role = SiteEditor then
        [''site.view'', ''site.manage_goals'', ''site.manage_annotations'']
      else if role = SiteViewer then [''site.view'']
      else [])"

definition TeamCapabilities :: "('a, 'p) golib \<Rightarrow> string \<Rightarrow> string list" where
  "TeamCapabilities L role =
     (let r = TrimSpace (ToLower L role) in
      if r = ''owner'' then
        [''team.view_members'', ''team.manage_members'', ''team.view_audit'',
         ''team.manage_settings'', ''team.manage_api_clients'', ''team.manage_integrations'',
         ''team.transfer_ownership'', ''team.archive'']
      else if r = ''admin'' then
        [''team.view_members'', ''team.manage_members'', ''team.view_audit'',
         ''team.manage_settings'', ''team.manage_api_clients'', ''team.manage_integrations'']
      else if r = ''member'' then [''team.view_members'']
      else [])"

definition ResourceInstance :: string where "ResourceInstance = ''instance''"
definition ResourceTeam :: string where "ResourceTeam = ''team''"
definition ResourceSite :: string where "ResourceSite = ''site''"

lemmas resource_kinds [policy_simps] = ResourceInstance_def ResourceTeam_def ResourceSite_def

definition roleAllows :: "('a, 'p) golib \<Rightarrow> string \<Rightarrow> string \<Rightarrow> string \<Rightarrow> bool" where
  "roleAllows L kind role action =
     (if kind = ResourceInstance then action \<in> set (instancePermissions role)
      else if kind = ResourceSite then action \<in> set (sitePermissions role)
      else if kind = ResourceTeam then action \<in> set (TeamCapabilities L role)
      else False)"

definition instance_HasPermission :: "('a, 'p) golib \<Rightarrow> string \<Rightarrow> string \<Rightarrow> bool" where
  "instance_HasPermission L role perm = roleAllows L ResourceInstance role perm"

definition site_HasPermission :: "('a, 'p) golib \<Rightarrow> string \<Rightarrow> string \<Rightarrow> bool" where
  "site_HasPermission L role perm = roleAllows L ResourceSite role perm"

definition TeamRoleHasCapability :: "('a, 'p) golib \<Rightarrow> string \<Rightarrow> string \<Rightarrow> bool" where
  "TeamRoleHasCapability L role capability = roleAllows L ResourceTeam role capability"

text \<open>\<open>InstanceCapabilities\<close> and \<open>SiteCapabilities\<close> copy the role's row.\<close>

fun copy_permissions :: "string list \<Rightarrow> string list \<Rightarrow> string list" where
  "copy_permissions capabilities [] = capabilities"
| "copy_permissions capabilities (p # ps) = copy_permissions (capabilities @ [p]) ps"

definition InstanceCapabilities :: "string \<Rightarrow> string list" where
  "InstanceCapabilities role = copy_permissions [] (instancePermissions role)"

definition SiteCapabilities :: "string \<Rightarrow> string list" where
  "SiteCapabilities role = copy_permissions [] (sitePermissions role)"

definition BypassesCloudLimits :: "string \<Rightarrow> bool" where
  "BypassesCloudLimits r \<longleftrightarrow> r = InstanceOwner \<or> r = InstanceAdmin"

subsection \<open>Role order\<close>

definition IsValidInstanceRole :: "string \<Rightarrow> bool" where
  "IsValidInstanceRole role \<longleftrightarrow> role \<in> {InstanceOwner, InstanceAdmin, InstanceUser}"

definition IsValidSiteRole :: "string \<Rightarrow> bool" where
  "IsValidSiteRole role \<longleftrightarrow> role \<in> {SiteOwner, SiteAdmin, SiteEditor, SiteViewer}"

definition instanceRoleRank :: "string \<Rightarrow> nat" where
  "instanceRoleRank role =
     (if role = InstanceOwner then 0 else if role = InstanceAdmin then 1
      else if role = InstanceUser then 2 else 99)"

definition siteRoleRank :: "string \<Rightarrow> nat" where
  "siteRoleRank role =
     (if role = SiteOwner then 0 else if role = SiteAdmin then 1
      else if role = SiteEditor then 2 else if role = SiteViewer then 3 else 99)"

definition MinInstanceRole :: "string \<Rightarrow> string \<Rightarrow> string" where
  "MinInstanceRole a b = (if instanceRoleRank a \<ge> instanceRoleRank b then a else b)"

definition MinSiteRole :: "string \<Rightarrow> string \<Rightarrow> string" where
  "MinSiteRole a b = (if siteRoleRank a \<ge> siteRoleRank b then a else b)"

definition CanAssignInstanceRole :: "string \<Rightarrow> string \<Rightarrow> bool" where
  "CanAssignInstanceRole actor requested =
     (if \<not> IsValidInstanceRole actor \<or> \<not> IsValidInstanceRole requested then False
      else instanceRoleRank requested \<ge> instanceRoleRank actor)"

definition CanAssignSiteRole :: "string \<Rightarrow> string \<Rightarrow> bool" where
  "CanAssignSiteRole actor requested =
     (if \<not> IsValidSiteRole actor \<or> \<not> IsValidSiteRole requested then False
      else siteRoleRank requested \<ge> siteRoleRank actor)"

subsection \<open>The contract of a role order\<close>

text \<open>
  What the callers of \<open>Min*Role\<close> and \<open>CanAssign*Role\<close> rely on: the rank orders the
  permission bundles, the minimum picks the higher rank, and an assignment never goes to a
  lower rank than the actor's.
\<close>

locale role_order =
  fixes rank :: "string \<Rightarrow> nat"
    and perms :: "string \<Rightarrow> string list"
    and meet :: "string \<Rightarrow> string \<Rightarrow> string"
    and assignable :: "string \<Rightarrow> string \<Rightarrow> bool"
  assumes perms_antimono: "rank a \<le> rank b \<Longrightarrow> set (perms b) \<subseteq> set (perms a)"
    and meet_eq: "meet a b = (if rank b \<le> rank a then a else b)"
    and assignable_rank: "assignable a b \<Longrightarrow> rank a \<le> rank b"
begin

lemma meet_perms: "set (perms (meet a b)) = set (perms a) \<inter> set (perms b)"
  using perms_antimono [of a b] perms_antimono [of b a] by (auto simp: meet_eq)

lemma meet_assoc_perms:
  "set (perms (meet (meet a b) c)) = set (perms (meet a (meet b c)))"
  by (auto simp: meet_perms)

lemma assign_no_escalation: "assignable a b \<Longrightarrow> set (perms b) \<subseteq> set (perms a)"
  by (rule perms_antimono) (rule assignable_rank)

lemma assign_chain:
  assumes "assignable a b" and "assignable b c"
  shows "set (perms c) \<subseteq> set (perms a)"
  using assms by (blast dest: assign_no_escalation)

end

interpretation inst_roles: role_order instanceRoleRank instancePermissions MinInstanceRole
    CanAssignInstanceRole
  by unfold_locales
    (auto simp: instanceRoleRank_def instancePermissions_def MinInstanceRole_def
      CanAssignInstanceRole_def split: if_splits)

interpretation site_roles: role_order siteRoleRank sitePermissions MinSiteRole CanAssignSiteRole
  by unfold_locales
    (auto simp: siteRoleRank_def sitePermissions_def MinSiteRole_def CanAssignSiteRole_def
      split: if_splits)

lemma instance_HasPermission_iff [policy_simps]:
  "instance_HasPermission L role perm \<longleftrightarrow> perm \<in> set (instancePermissions role)"
  by (simp add: instance_HasPermission_def roleAllows_def)

lemma site_HasPermission_iff [policy_simps]:
  "site_HasPermission L role perm \<longleftrightarrow> perm \<in> set (sitePermissions role)"
  by (simp add: site_HasPermission_def roleAllows_def resource_kinds)

lemma copy_permissions_append: "copy_permissions acc ps = acc @ ps"
  by (induction acc ps rule: copy_permissions.induct) auto

subsection \<open>Resources, principals, grants\<close>

record Resource =
  res_Kind :: string
  res_ID :: uuid
  res_TeamID :: uuid

record Principal =
  pr_Kind :: string
  pr_InstanceRole :: string
  pr_SiteRole :: string
  pr_SiteID :: uuid
  pr_TeamRole :: string
  pr_TeamID :: uuid

record OAuthGrant =
  gr_ID :: uuid
  gr_UserID :: uuid
  gr_TeamID :: uuid
  gr_SiteIDs :: "uuid list"
  gr_Scopes :: "string list"
  gr_Audience :: string

definition PrincipalSession :: string where "PrincipalSession = ''session''"
definition PrincipalPersonalAPIClient :: string where
  "PrincipalPersonalAPIClient = ''personal_api_client''"
definition PrincipalTeamAPIClient :: string where "PrincipalTeamAPIClient = ''team_api_client''"
definition PrincipalOAuth :: string where "PrincipalOAuth = ''oauth''"

lemmas principal_kinds [policy_simps] = PrincipalSession_def PrincipalPersonalAPIClient_def
  PrincipalTeamAPIClient_def PrincipalOAuth_def

definition Authorize :: "('a, 'p) golib \<Rightarrow> Principal \<Rightarrow> string \<Rightarrow> Resource \<Rightarrow> bool" where
  "Authorize L pr action resource =
     (if pr_Kind pr \<notin> {PrincipalSession, PrincipalPersonalAPIClient,
           PrincipalTeamAPIClient, PrincipalOAuth} then False
      else if res_Kind resource = ResourceInstance then
        pr_Kind pr \<noteq> PrincipalOAuth \<and> res_ID resource = uuid_Nil
        \<and> res_TeamID resource = uuid_Nil \<and> prefix ''instance.'' action
        \<and> roleAllows L ResourceInstance (pr_InstanceRole pr) action
      else if res_Kind resource = ResourceTeam then
        pr_Kind pr = PrincipalSession \<and> res_ID resource \<noteq> uuid_Nil
        \<and> res_ID resource = pr_TeamID pr \<and> res_TeamID resource = uuid_Nil
        \<and> roleAllows L ResourceTeam (pr_TeamRole pr) action
      else if res_Kind resource = ResourceSite then
        (if res_ID resource = uuid_Nil \<or> res_TeamID resource = uuid_Nil
            \<or> res_ID resource \<noteq> pr_SiteID pr
            \<or> res_TeamID resource \<noteq> pr_TeamID pr \<or> \<not> prefix ''site.'' action
         then False
         else roleAllows L ResourceSite (pr_SiteRole pr) action
              \<or> roleAllows L ResourceInstance (pr_InstanceRole pr) action)
      else False)"

text \<open>The scope switch of \<open>AuthorizeOAuth\<close>: which action a protocol scope may stand for.\<close>

definition scope_action_ok :: "string \<Rightarrow> string \<Rightarrow> bool" where
  "scope_action_ok scope action =
     (if scope \<in> {''sites:read'', ''analytics:read'', ''tracking_domains:read''}
      then action = PermSiteView
      else if scope = ''ingest:write'' then action = PermSiteManageData
      else False)"

definition AuthorizeOAuth ::
  "('a, 'p) golib \<Rightarrow> OAuthGrant option \<Rightarrow> Principal \<Rightarrow> string \<Rightarrow> Resource \<Rightarrow> string \<Rightarrow> string \<Rightarrow> bool"
where
  "AuthorizeOAuth L grant pr action resource audience scope =
     (case grant of
        None \<Rightarrow> False
      | Some g \<Rightarrow>
          if gr_ID g = uuid_Nil \<or> gr_UserID g = uuid_Nil \<or> gr_TeamID g = uuid_Nil
             \<or> audience = [] \<or> gr_Audience g \<noteq> audience \<or> scope \<notin> set (gr_Scopes g)
          then False
          else if res_Kind resource \<noteq> ResourceSite \<or> res_TeamID resource \<noteq> gr_TeamID g
             \<or> res_ID resource \<notin> set (gr_SiteIDs g)
          then False
          else if \<not> scope_action_ok scope action then False
          else Authorize L (pr\<lparr>pr_Kind := PrincipalOAuth, pr_InstanceRole := []\<rparr>)
                 action resource)"

subsection \<open>The authorization contract\<close>

lemma Authorize_site_iff:
  assumes "res_Kind r = ResourceSite"
  shows "Authorize L p a r \<longleftrightarrow>
     pr_Kind p \<in> {PrincipalSession, PrincipalPersonalAPIClient, PrincipalTeamAPIClient,
       PrincipalOAuth}
     \<and> res_ID r \<noteq> uuid_Nil \<and> res_TeamID r \<noteq> uuid_Nil
     \<and> res_ID r = pr_SiteID p \<and> res_TeamID r = pr_TeamID p \<and> prefix ''site.'' a
     \<and> (a \<in> set (sitePermissions (pr_SiteRole p))
        \<or> a \<in> set (instancePermissions (pr_InstanceRole p)))"
  using assms by (auto simp: Authorize_def roleAllows_def resource_kinds)

lemma instance_row_no_role [simp]: "instancePermissions [] = []"
  by (simp add: instancePermissions_def role_names)

text \<open>A principal's roles cut down to the meet with delegated roles.\<close>

definition delegate :: "Principal \<Rightarrow> string \<Rightarrow> string \<Rightarrow> Principal" where
  "delegate p irole srole =
     p\<lparr>pr_InstanceRole := MinInstanceRole (pr_InstanceRole p) irole,
       pr_SiteRole := MinSiteRole (pr_SiteRole p) srole\<rparr>"

lemma assignment_chain_perms:
  "successively CanAssignSiteRole (actor # roles) \<Longrightarrow> role \<in> set (actor # roles) \<Longrightarrow>
   set (sitePermissions role) \<subseteq> set (sitePermissions actor)"
proof (induction roles arbitrary: actor)
  case (Cons r rs)
  then show ?case
    by (cases "role = actor") (auto dest!: site_roles.assign_no_escalation)
qed simp

lemma Authorize_site_roles_cong:
  assumes "res_Kind r = ResourceSite" and "Authorize L p a r"
    and "set (sitePermissions (pr_SiteRole p)) \<subseteq> set (sitePermissions (pr_SiteRole q))"
    and "set (instancePermissions (pr_InstanceRole p)) \<subseteq> set (instancePermissions (pr_InstanceRole q))"
    and "pr_Kind q = pr_Kind p" and "pr_SiteID q = pr_SiteID p" and "pr_TeamID q = pr_TeamID p"
  shows "Authorize L q a r"
  using assms by (auto simp: Authorize_site_iff)

lemma AuthorizeOAuth_Some:
  "AuthorizeOAuth L (Some g) p a r aud sc \<longleftrightarrow>
     gr_ID g \<noteq> uuid_Nil \<and> gr_UserID g \<noteq> uuid_Nil \<and> gr_TeamID g \<noteq> uuid_Nil
     \<and> aud \<noteq> [] \<and> gr_Audience g = aud \<and> sc \<in> set (gr_Scopes g)
     \<and> res_Kind r = ResourceSite \<and> res_TeamID r = gr_TeamID g \<and> res_ID r \<in> set (gr_SiteIDs g)
     \<and> scope_action_ok sc a
     \<and> Authorize L (p\<lparr>pr_Kind := PrincipalOAuth, pr_InstanceRole := []\<rparr>) a r"
  by (auto simp: AuthorizeOAuth_def)

text \<open>A grant over one site, used by the witnesses.\<close>

definition sample_grant :: OAuthGrant where
  "sample_grant = \<lparr>gr_ID = 1, gr_UserID = 2, gr_TeamID = 3, gr_SiteIDs = [4],
     gr_Scopes = [''sites:read'', ''ingest:write''], gr_Audience = ''hk''\<rparr>"

definition sample_principal :: Principal where
  "sample_principal = \<lparr>pr_Kind = PrincipalSession, pr_InstanceRole = InstanceOwner,
     pr_SiteRole = SiteAdmin, pr_SiteID = 4, pr_TeamRole = ''admin'', pr_TeamID = 3\<rparr>"

subsection \<open>Properties\<close>

text \<open>
  C1.  Role assignment cannot escalate: every role at the end of a chain of assignments, each
  allowed by \<open>CanAssignSiteRole\<close>, has only permissions the first actor has.
\<close>

theorem site_assignment_chain_no_escalation:
  assumes "successively CanAssignSiteRole (actor # roles)"
    and "role \<in> set roles" and "site_HasPermission L role perm"
  shows "site_HasPermission L actor perm"
  using assignment_chain_perms [OF assms(1), of role] assms(2,3)
  by (auto simp: site_HasPermission_iff)

theorem site_assignment_chain_no_escalation_witness:
  "site_HasPermission bare_lib ''owner'' ''site.view''"
proof -
  have "successively CanAssignSiteRole [''owner'', ''admin'', ''viewer'']"
    by (simp add: CanAssignSiteRole_def IsValidSiteRole_def siteRoleRank_def role_names)
  moreover have "''viewer'' \<in> set [''admin'', ''viewer'']" by simp
  moreover have "site_HasPermission bare_lib ''viewer'' ''site.view''"
    by (simp add: site_HasPermission_iff sitePermissions_def role_names)
  ultimately show ?thesis by (rule site_assignment_chain_no_escalation)
qed

text \<open>
  C2.  Delegation is intersection: the minimum of two site roles (or of two instance roles) has
  exactly the permissions both have, also when one is no known role; so a principal cut down to
  delegated roles is authorized for no site action that either the principal or the
  delegated roles alone are not.
\<close>

theorem delegation_is_intersection:
  "site_HasPermission L (MinSiteRole a b) perm
     = (site_HasPermission L a perm \<and> site_HasPermission L b perm)
   \<and> instance_HasPermission L (MinInstanceRole a b) perm
     = (instance_HasPermission L a perm \<and> instance_HasPermission L b perm)
   \<and> (res_Kind r = ResourceSite \<and> Authorize L (delegate p irole srole) act r \<longrightarrow>
        Authorize L p act r
        \<and> Authorize L (p\<lparr>pr_InstanceRole := irole, pr_SiteRole := srole\<rparr>) act r)"
proof (intro conjI impI)
  show "site_HasPermission L (MinSiteRole a b) perm
     = (site_HasPermission L a perm \<and> site_HasPermission L b perm)"
    by (simp add: site_HasPermission_iff site_roles.meet_perms)
  show "instance_HasPermission L (MinInstanceRole a b) perm
     = (instance_HasPermission L a perm \<and> instance_HasPermission L b perm)"
    by (simp add: instance_HasPermission_iff inst_roles.meet_perms)
  assume h: "res_Kind r = ResourceSite \<and> Authorize L (delegate p irole srole) act r"
  then show "Authorize L p act r"
    by (auto simp: Authorize_site_iff delegate_def site_roles.meet_perms inst_roles.meet_perms)
  from h show "Authorize L (p\<lparr>pr_InstanceRole := irole, pr_SiteRole := srole\<rparr>) act r"
    by (auto simp: Authorize_site_iff delegate_def site_roles.meet_perms inst_roles.meet_perms)
qed

theorem delegation_is_intersection_witness:
  "Authorize bare_lib sample_principal PermSiteView \<lparr>res_Kind = ResourceSite, res_ID = 4, res_TeamID = 3\<rparr>"
  using delegation_is_intersection [where L = bare_lib and p = sample_principal and irole = InstanceUser
      and srole = SiteViewer and act = PermSiteView
      and r = "\<lparr>res_Kind = ResourceSite, res_ID = 4, res_TeamID = 3\<rparr>"]
  by (simp add: Authorize_site_iff delegate_def sample_principal_def MinSiteRole_def
      MinInstanceRole_def siteRoleRank_def instanceRoleRank_def sitePermissions_def uuid_Nil_def
      policy_simps)

text \<open>
  C3.  The OAuth ceiling: whatever the scopes, consent and roles, an OAuth request is authorized
  only to view a site (read scopes) or to write analytics data (the ingest scope) of a site its
  grant names in the grant's team and for the grant's audience, only where the same principal's
  site role alone allows the action in a session, and never because of an instance role.
\<close>

theorem oauth_ceiling:
  assumes "AuthorizeOAuth L grant p a r aud sc"
  shows "(a = PermSiteView \<and> sc \<noteq> ''ingest:write'' \<or> a = PermSiteManageData \<and> sc = ''ingest:write'')
     \<and> (\<exists>g. grant = Some g \<and> sc \<in> set (gr_Scopes g) \<and> res_ID r \<in> set (gr_SiteIDs g)
          \<and> res_TeamID r = gr_TeamID g \<and> gr_Audience g = aud)
     \<and> site_HasPermission L (pr_SiteRole p) a
     \<and> Authorize L (p\<lparr>pr_Kind := PrincipalSession, pr_InstanceRole := []\<rparr>) a r
     \<and> AuthorizeOAuth L grant (p\<lparr>pr_InstanceRole := any\<rparr>) a r aud sc"
proof -
  from assms obtain g where g: "grant = Some g"
    by (cases grant) (auto simp: AuthorizeOAuth_def)
  note ok = assms [unfolded g AuthorizeOAuth_Some]
  from ok have k: "res_Kind r = ResourceSite" by simp
  from ok have az: "a \<in> set (sitePermissions (pr_SiteRole p))"
    by (simp add: Authorize_site_iff [OF k] instance_row_no_role)
  have "(a = PermSiteView \<and> sc \<noteq> ''ingest:write'' \<or> a = PermSiteManageData \<and> sc = ''ingest:write'')"
    using ok by (auto simp: scope_action_ok_def split: if_splits)
  moreover have "Authorize L (p\<lparr>pr_Kind := PrincipalSession, pr_InstanceRole := []\<rparr>) a r"
    using ok by (auto simp: Authorize_site_iff [OF k])
  moreover have "AuthorizeOAuth L grant (p\<lparr>pr_InstanceRole := any\<rparr>) a r aud sc"
    using ok g by (simp add: AuthorizeOAuth_Some)
  ultimately show ?thesis using ok g az by (simp add: site_HasPermission_iff)
qed

theorem oauth_ceiling_witness:
  "site_HasPermission bare_lib (pr_SiteRole sample_principal) PermSiteManageData"
proof -
  have "AuthorizeOAuth bare_lib (Some sample_grant) sample_principal PermSiteManageData
     \<lparr>res_Kind = ResourceSite, res_ID = 4, res_TeamID = 3\<rparr> ''hk'' ''ingest:write''"
    by (simp add: AuthorizeOAuth_Some sample_grant_def sample_principal_def uuid_Nil_def
        scope_action_ok_def Authorize_site_iff sitePermissions_def policy_simps)
  from oauth_ceiling [OF this] show ?thesis by blast
qed

end
