(* ===== verification/Role_Store.thy ===== *)
theory Role_Store
  imports Auth_Policy "HOL-Library.AList"
begin

text \<open>
  The role and membership tables of the control database and the queries that resolve roles from
  them (src/database/resource_permissions.go, store_permissions.go and the tenant queries of
  store_tenant.go and store_tenant_helpers.go).  A table with a key is an association list, a
  table read in an order is a list of rows; a SELECT is a lookup or a search, an INSERT with
  ON CONFLICT DO UPDATE is \<^const>\<open>AList.update\<close>, a DELETE is \<^const>\<open>AList.delete\<close>.
  A query on a database that is not reachable fails (\<open>db_ok\<close>).  The in-memory role
  caches are written and dropped here but not read by any of these functions, and are left out.
\<close>

datatype db_error = DbFailure | DefaultTenantNotFound | SiteNotFound | SiteAccessDenied
  | NoTenantAccess | TenantMembershipRequired | NotPartOfTenant | MemberNotFound

record TenantMember =
  tm_tenant :: uuid
  tm_user :: uuid
  tm_role :: string
  tm_added_at :: time

record PermissionAudit =
  pa_actor :: uuid
  pa_action :: string
  pa_resource_type :: string
  pa_resource :: "uuid option"
  pa_target :: uuid
  pa_old_role :: "string option"
  pa_new_role :: "string option"

record ReportRecipient =
  rr_id :: uuid
  rr_report :: uuid
  rr_user :: "uuid option"

record ReportDelivery =
  rd_report :: uuid
  rd_recipient :: uuid

record roles_db =
  db_ok :: bool
  tenants :: "(uuid \<times> bool) list"
  tenant_members :: "TenantMember list"
  tenant_archives :: "uuid list"
  sites :: "(uuid \<times> uuid) list"
  site_tenants :: "(uuid \<times> uuid) list"
  site_members :: "((uuid \<times> uuid) \<times> string) list"
  instance_roles :: "(uuid \<times> string) list"
  active_tenants :: "(uuid \<times> uuid option) list"
  permission_audit :: "PermissionAudit list"
  report_definitions :: "(uuid \<times> uuid) list"
  report_recipients :: "ReportRecipient list"
  report_deliveries :: "ReportDelivery list"

definition TenantRoleOwner :: string where "TenantRoleOwner = ''owner''"
definition TenantRoleAdmin :: string where "TenantRoleAdmin = ''admin''"
definition TenantRoleMember :: string where "TenantRoleMember = ''member''"

lemmas tenant_role_names [policy_simps] = TenantRoleOwner_def TenantRoleAdmin_def
  TenantRoleMember_def

subsection \<open>Tenants and memberships\<close>

text \<open>The columns of the table of tenants are the id and \<open>is_default\<close>.\<close>

definition getDefaultTenantID :: "roles_db \<Rightarrow> db_error + uuid" where
  "getDefaultTenantID db =
     (if \<not> db_ok db then Inl DbFailure
      else case find snd (tenants db) of
             None \<Rightarrow> Inl DefaultTenantNotFound
           | Some t \<Rightarrow> Inr (fst t))"

definition tenant_exists :: "roles_db \<Rightarrow> uuid \<Rightarrow> bool" where
  "tenant_exists db t \<longleftrightarrow> t \<in> fst ` set (tenants db)"

definition archived :: "roles_db \<Rightarrow> uuid \<Rightarrow> bool" where
  "archived db t \<longleftrightarrow> t \<in> set (tenant_archives db)"

text \<open>The rows of \<open>tenant_members\<close> of one user in teams that exist and are not archived.\<close>

definition live_memberships :: "roles_db \<Rightarrow> uuid \<Rightarrow> TenantMember list" where
  "live_memberships db u =
     filter (\<lambda>m. tm_user m = u \<and> tenant_exists db (tm_tenant m) \<and> \<not> archived db (tm_tenant m))
       (tenant_members db)"

definition role_order_by :: "string \<Rightarrow> nat" where
  "role_order_by role = (if role = ''owner'' then 0 else if role = ''admin'' then 1 else 2)"

text \<open>
  \<open>ORDER BY role, added_at LIMIT 1\<close>: two stable sorts, the minor key first.  The order of rows
  that agree on both keys is the table's.
\<close>

definition getPrimaryTenantID :: "roles_db \<Rightarrow> uuid \<Rightarrow> db_error + uuid" where
  "getPrimaryTenantID db u =
     (if \<not> db_ok db then Inl DbFailure
      else case sort_key (\<lambda>m. role_order_by (tm_role m)) (sort_key tm_added_at (live_memberships db u)) of
             [] \<Rightarrow> getDefaultTenantID db
           | m # _ \<Rightarrow> Inr (tm_tenant m))"

definition getActiveTenantID :: "roles_db \<Rightarrow> uuid \<Rightarrow> db_error + uuid" where
  "getActiveTenantID db u =
     (if \<not> db_ok db then Inl DbFailure
      else case map_of (active_tenants db) u of
             Some (Some t) \<Rightarrow>
               if t \<in> tm_tenant ` set (live_memberships db u) then Inr t
               else getPrimaryTenantID db u
           | _ \<Rightarrow> getPrimaryTenantID db u)"

definition IsTenantMember :: "roles_db \<Rightarrow> uuid \<Rightarrow> uuid \<Rightarrow> db_error + bool" where
  "IsTenantMember db tenant u =
     (if \<not> db_ok db then Inl DbFailure
      else Inr (0 < length (filter (\<lambda>m. tm_tenant m = tenant) (live_memberships db u))))"

definition GetTenantRole :: "roles_db \<Rightarrow> uuid \<Rightarrow> uuid \<Rightarrow> db_error + string" where
  "GetTenantRole db tenant u =
     (if \<not> db_ok db then Inl DbFailure
      else case find (\<lambda>m. tm_tenant m = tenant) (live_memberships db u) of
             None \<Rightarrow> Inl NoTenantAccess
           | Some m \<Rightarrow> Inr (TrimSpace (tm_role m)))"

definition SetActiveTenantID :: "roles_db \<Rightarrow> uuid \<Rightarrow> uuid \<Rightarrow> db_error + roles_db" where
  "SetActiveTenantID db u tenant =
     (case IsTenantMember db tenant u of
        Inl e \<Rightarrow> Inl e
      | Inr isMember \<Rightarrow>
          if \<not> isMember then Inl TenantMembershipRequired
          else Inr (db\<lparr>active_tenants := AList.update u (Some tenant) (active_tenants db)\<rparr>))"

definition querySiteTenantID :: "roles_db \<Rightarrow> uuid \<Rightarrow> db_error + uuid" where
  "querySiteTenantID db site =
     (if \<not> db_ok db then Inl DbFailure
      else case map_of (sites db) site of
             None \<Rightarrow> Inl SiteNotFound
           | Some _ \<Rightarrow>
               (case map_of (site_tenants db) site of
                  None \<Rightarrow> getDefaultTenantID db
                | Some t \<Rightarrow> Inr t))"

subsection \<open>Role resolution\<close>

definition GetInstanceRole :: "roles_db \<Rightarrow> uuid \<Rightarrow> db_error + string" where
  "GetInstanceRole db u =
     (if \<not> db_ok db then Inl DbFailure
      else case map_of (instance_roles db) u of
             None \<Rightarrow> Inr InstanceUser
           | Some role \<Rightarrow> Inr role)"

definition UpdateInstanceRole :: "roles_db \<Rightarrow> uuid \<Rightarrow> string \<Rightarrow> uuid \<Rightarrow> db_error + roles_db" where
  "UpdateInstanceRole db target role actor =
     (if \<not> db_ok db then Inl DbFailure
      else Inr (db\<lparr>instance_roles := AList.update target role (instance_roles db),
                 permission_audit := permission_audit db @
                   [\<lparr>pa_actor = actor, pa_action = ''update'', pa_resource_type = ''instance'',
                     pa_resource = None, pa_target = target,
                     pa_old_role = Some (case map_of (instance_roles db) target of
                        None \<Rightarrow> [] | Some old \<Rightarrow> old),
                     pa_new_role = Some role\<rparr>]\<rparr>))"

definition tenantRoleSiteRole :: "('a, 'p) golib \<Rightarrow> string \<Rightarrow> string option" where
  "tenantRoleSiteRole L role =
     (let r = TrimSpace (ToLower L role) in
      if r = TenantRoleOwner then Some SiteOwner
      else if r = TenantRoleAdmin then Some SiteAdmin
      else None)"

fun mergeRole :: "string option \<Rightarrow> string \<Rightarrow> string option" where
  "mergeRole None role = Some role"
| "mergeRole (Some effective) role = Some (MinSiteRole effective role)"

definition effectiveSiteRole ::
  "('a, 'p) golib \<Rightarrow> string option \<Rightarrow> bool \<Rightarrow> string \<Rightarrow> db_error + string" where
  "effectiveSiteRole L explicitRole isOwner tenantRole =
     (let r0 = None;
          r1 = (case explicitRole of Some role \<Rightarrow> mergeRole r0 role | None \<Rightarrow> r0);
          r2 = (if isOwner then mergeRole r1 SiteOwner else r1);
          r3 = (case tenantRoleSiteRole L tenantRole of Some role \<Rightarrow> mergeRole r2 role | None \<Rightarrow> r2)
      in case r3 of None \<Rightarrow> Inl SiteAccessDenied | Some role \<Rightarrow> Inr role)"

text \<open>\<open>COALESCE(st.tenant_id, default)\<close> of the site's row.\<close>

definition site_tenant_or :: "roles_db \<Rightarrow> uuid \<Rightarrow> uuid \<Rightarrow> uuid" where
  "site_tenant_or db dflt site =
     (case map_of (site_tenants db) site of None \<Rightarrow> dflt | Some t \<Rightarrow> t)"

definition getSiteRoleForTenant ::
  "('a, 'p) golib \<Rightarrow> roles_db \<Rightarrow> uuid \<Rightarrow> uuid \<Rightarrow> uuid \<Rightarrow> db_error + string" where
  "getSiteRoleForTenant L db u site tenant =
     (case getDefaultTenantID db of
        Inl e \<Rightarrow> Inl e
      | Inr dflt \<Rightarrow>
          let inTenant = (map_of (sites db) site \<noteq> None \<and> site_tenant_or db dflt site = tenant);
              explicitRole = (if inTenant then map_of (site_members db) (site, u) else None);
              isOwner = (inTenant \<and> map_of (sites db) site = Some u);
              tenantRole =
                (if inTenant \<and> \<not> archived db tenant
                 then (case find (\<lambda>m. tm_tenant m = tenant \<and> tm_user m = u) (tenant_members db) of
                         None \<Rightarrow> [] | Some m \<Rightarrow> tm_role m)
                 else [])
          in effectiveSiteRole L explicitRole isOwner tenantRole)"

definition GetSiteRoleForTenant ::
  "('a, 'p) golib \<Rightarrow> roles_db \<Rightarrow> uuid \<Rightarrow> uuid \<Rightarrow> uuid \<Rightarrow> db_error + string" where
  "GetSiteRoleForTenant L db u site tenant =
     (if u = uuid_Nil \<or> site = uuid_Nil \<or> tenant = uuid_Nil then Inl SiteAccessDenied
      else case IsTenantMember db tenant u of
             Inl e \<Rightarrow> Inl e
           | Inr member \<Rightarrow>
               if \<not> member then Inl SiteAccessDenied
               else getSiteRoleForTenant L db u site tenant)"

definition GetSiteRole :: "('a, 'p) golib \<Rightarrow> roles_db \<Rightarrow> uuid \<Rightarrow> uuid \<Rightarrow> db_error + string" where
  "GetSiteRole L db u site =
     (case getActiveTenantID db u of
        Inl e \<Rightarrow> Inl e
      | Inr t \<Rightarrow> getSiteRoleForTenant L db u site t)"

definition GetSiteResource :: "roles_db \<Rightarrow> uuid \<Rightarrow> db_error + Resource" where
  "GetSiteResource db site =
     (case querySiteTenantID db site of
        Inl e \<Rightarrow> Inl e
      | Inr team \<Rightarrow>
          if archived db team then Inl SiteAccessDenied
          else Inr \<lparr>res_Kind = ResourceSite, res_ID = site, res_TeamID = team\<rparr>)"

subsection \<open>Membership updates\<close>

definition addSiteMemberAccess ::
  "roles_db \<Rightarrow> uuid \<Rightarrow> uuid \<Rightarrow> string \<Rightarrow> uuid \<Rightarrow> db_error + roles_db" where
  "addSiteMemberAccess db site u role addedBy =
     (if \<not> db_ok db then Inl DbFailure
      else Inr (db\<lparr>site_members := AList.update (site, u) role (site_members db),
                 permission_audit := permission_audit db @
                   [\<lparr>pa_actor = addedBy, pa_action = ''grant'', pa_resource_type = ''site'',
                     pa_resource = Some site, pa_target = u, pa_old_role = None,
                     pa_new_role = Some role\<rparr>]\<rparr>))"

definition AddSiteMember ::
  "roles_db \<Rightarrow> uuid \<Rightarrow> uuid \<Rightarrow> string \<Rightarrow> uuid \<Rightarrow> db_error + roles_db" where
  "AddSiteMember db site u role addedBy =
     (case querySiteTenantID db site of
        Inl e \<Rightarrow> Inl e
      | Inr siteTenant \<Rightarrow>
          (case IsTenantMember db siteTenant u of
             Inl e \<Rightarrow> Inl e
           | Inr isMember \<Rightarrow>
               if \<not> isMember then Inl NotPartOfTenant
               else addSiteMemberAccess db site u role addedBy))"

definition AddPendingSiteMemberInviteAccess ::
  "roles_db \<Rightarrow> uuid \<Rightarrow> uuid \<Rightarrow> string \<Rightarrow> uuid \<Rightarrow> db_error + roles_db" where
  "AddPendingSiteMemberInviteAccess db site u role addedBy =
     (case querySiteTenantID db site of
        Inl e \<Rightarrow> Inl e
      | Inr _ \<Rightarrow> addSiteMemberAccess db site u role addedBy)"

definition RemoveSiteMember :: "roles_db \<Rightarrow> uuid \<Rightarrow> uuid \<Rightarrow> uuid \<Rightarrow> db_error + roles_db" where
  "RemoveSiteMember db site u removedBy =
     (if \<not> db_ok db then Inl MemberNotFound
      else case map_of (site_members db) (site, u) of
             None \<Rightarrow> Inl MemberNotFound
           | Some oldRole \<Rightarrow>
               Inr (db\<lparr>site_members := AList.delete (site, u) (site_members db),
                     permission_audit := permission_audit db @
                       [\<lparr>pa_actor = removedBy, pa_action = ''revoke'', pa_resource_type = ''site'',
                         pa_resource = Some site, pa_target = u, pa_old_role = Some oldRole,
                         pa_new_role = None\<rparr>]\<rparr>))"

text \<open>Owners by membership, and the owner column of the site when it is not counted already.\<close>

definition CountSiteOwners :: "roles_db \<Rightarrow> uuid \<Rightarrow> db_error + nat" where
  "CountSiteOwners db site =
     (if \<not> db_ok db then Inl DbFailure
      else let count = length (filter (\<lambda>((s, u), role). s = site \<and> role = ''owner'') (site_members db))
           in case map_of (sites db) site of
                None \<Rightarrow> Inr count
              | Some legacy \<Rightarrow>
                  if filter (\<lambda>((s, u), role). s = site \<and> u = legacy \<and> role = ''owner'')
                       (site_members db) = []
                  then Inr (count + 1) else Inr count)"

text \<open>
  Leaving a team removes the user's rows on the team's sites, the deliveries of the team's reports
  to the user's recipients, and then those recipients.
\<close>

definition removeUserTenantScopedSiteAccess ::
  "roles_db \<Rightarrow> uuid \<Rightarrow> uuid \<Rightarrow> db_error + roles_db" where
  "removeUserTenantScopedSiteAccess db tenant u =
     (case getDefaultTenantID db of
        Inl e \<Rightarrow> Inl e
      | Inr dflt \<Rightarrow>
          let teamReports = map fst (filter (\<lambda>(r, t). t = tenant) (report_definitions db));
              mine = map rr_id (filter (\<lambda>r. rr_user r = Some u) (report_recipients db))
          in Inr (db\<lparr>
               site_members := filter (\<lambda>((s, v), role).
                 \<not> (v = u \<and> map_of (sites db) s \<noteq> None \<and> site_tenant_or db dflt s = tenant))
               (site_members db),
               report_deliveries := filter (\<lambda>d.
                 \<not> (rd_recipient d \<in> set mine \<and> rd_report d \<in> set teamReports))
               (report_deliveries db),
               report_recipients := filter (\<lambda>r.
                 \<not> (rr_user r = Some u \<and> rr_report r \<in> set teamReports))
               (report_recipients db)\<rparr>))"

subsection \<open>The roles a site role is merged from\<close>

definition role_sources :: "('a, 'p) golib \<Rightarrow> string option \<Rightarrow> bool \<Rightarrow> string \<Rightarrow> string list" where
  "role_sources L explicitRole isOwner tenantRole =
     (case explicitRole of Some r \<Rightarrow> [r] | None \<Rightarrow> [])
     @ (if isOwner then [SiteOwner] else [])
     @ (case tenantRoleSiteRole L tenantRole of Some r \<Rightarrow> [r] | None \<Rightarrow> [])"

lemma effectiveSiteRole_sources:
  "effectiveSiteRole L e o' t =
     (case role_sources L e o' t of [] \<Rightarrow> Inl SiteAccessDenied
      | r # rs \<Rightarrow> Inr (foldl MinSiteRole r rs))"
  by (auto simp: effectiveSiteRole_def role_sources_def Let_def split: option.splits)

lemma foldl_MinSiteRole_perms:
  "set (sitePermissions (foldl MinSiteRole r rs))
     = (\<Inter>x \<in> set (r # rs). set (sitePermissions x))"
  by (induction rs arbitrary: r) (auto simp: site_roles.meet_perms)

lemma effectiveSiteRole_perms:
  assumes "effectiveSiteRole L e o' t = Inr role"
  shows "role_sources L e o' t \<noteq> []"
    and "set (sitePermissions role) = (\<Inter>x \<in> set (role_sources L e o' t). set (sitePermissions x))"
  using assms by (auto simp: effectiveSiteRole_sources foldl_MinSiteRole_perms split: list.splits)

lemma live_memberships_member:
  "m \<in> set (live_memberships db u) \<Longrightarrow>
     m \<in> set (tenant_members db) \<and> tm_user m = u \<and> tenant_exists db (tm_tenant m)
     \<and> \<not> archived db (tm_tenant m)"
  by (simp add: live_memberships_def)

lemma IsTenantMember_True:
  "IsTenantMember db t u = Inr True \<longleftrightarrow>
     db_ok db \<and> (\<exists>m \<in> set (live_memberships db u). tm_tenant m = t)"
  by (auto simp: IsTenantMember_def filter_empty_conv)

text \<open>
  What a binding between a user and a site in a tenant is: the tenant owns the site, and the user
  is a member of the site, its owner, or an owner or admin of the tenant while it is not archived.
\<close>

definition bound_to_site :: "('a, 'p) golib \<Rightarrow> roles_db \<Rightarrow> uuid \<Rightarrow> uuid \<Rightarrow> uuid \<Rightarrow> bool" where
  "bound_to_site L db u site tenant \<longleftrightarrow>
     (\<exists>dflt owner. getDefaultTenantID db = Inr dflt \<and> map_of (sites db) site = Some owner
        \<and> site_tenant_or db dflt site = tenant
        \<and> (map_of (site_members db) (site, u) \<noteq> None \<or> owner = u
           \<or> (\<not> archived db tenant \<and> (\<exists>m \<in> set (tenant_members db). tm_tenant m = tenant
                \<and> tm_user m = u \<and> tenantRoleSiteRole L (tm_role m) \<noteq> None))))"

lemma tenantRoleSiteRole_Nil [simp]: "tenantRoleSiteRole L [] = None"
  by (simp add: tenantRoleSiteRole_def is_ascii_def ToLower_def tenant_role_names)

lemma getSiteRoleForTenant_bound:
  assumes "getSiteRoleForTenant L db u site tenant = Inr role"
  shows "bound_to_site L db u site tenant"
proof -
  from assms obtain dflt where d: "getDefaultTenantID db = Inr dflt"
    by (auto simp: getSiteRoleForTenant_def split: sum.splits)
  note r = assms [unfolded getSiteRoleForTenant_def d Let_def, simplified]
  have inT: "map_of (sites db) site \<noteq> None \<and> site_tenant_or db dflt site = tenant"
    using effectiveSiteRole_perms(1) [OF r] by (auto simp: role_sources_def split: if_splits)
  show ?thesis
    using effectiveSiteRole_perms(1) [OF r] inT d
    by (auto simp: role_sources_def bound_to_site_def split: if_splits option.splits
        dest: find_SomeD)
qed


lemma getSiteRoleForTenant_explicit_only:
  assumes "getDefaultTenantID db = Inr dflt" and "map_of (sites db) site = Some owner"
    and "site_tenant_or db dflt site = tenant" and "owner \<noteq> u"
    and "\<And>m. m \<in> set (tenant_members db) \<Longrightarrow> tm_tenant m = tenant \<Longrightarrow> tm_user m = u
           \<Longrightarrow> tenantRoleSiteRole L (tm_role m) = None"
  shows "getSiteRoleForTenant L db u site tenant =
     (case map_of (site_members db) (site, u) of None \<Rightarrow> Inl SiteAccessDenied | Some r \<Rightarrow> Inr r)"
  using assms
  by (auto simp: getSiteRoleForTenant_def effectiveSiteRole_sources role_sources_def Let_def
      split: option.splits dest!: find_SomeD)

lemma site_tenant_or_query:
  "querySiteTenantID db site = Inr t \<Longrightarrow> getDefaultTenantID db = Inr dflt \<Longrightarrow>
   map_of (sites db) site \<noteq> None \<and> site_tenant_or db dflt site = t"
  by (auto simp: querySiteTenantID_def site_tenant_or_def split: if_splits option.splits)

text \<open>The lookups no membership update touches.\<close>

lemma tenant_lookups_frame [simp]:
  "getDefaultTenantID (db\<lparr>site_members := x, permission_audit := y\<rparr>) = getDefaultTenantID db"
  "live_memberships (db\<lparr>site_members := x, permission_audit := y\<rparr>) = live_memberships db"
  "site_tenant_or (db\<lparr>site_members := x, permission_audit := y\<rparr>) = site_tenant_or db"
  by (auto simp: getDefaultTenantID_def live_memberships_def site_tenant_or_def tenant_exists_def
      archived_def fun_eq_iff)

lemma active_tenant_frame [simp]:
  "getPrimaryTenantID (db\<lparr>site_members := x, permission_audit := y\<rparr>) = getPrimaryTenantID db"
  "getActiveTenantID (db\<lparr>site_members := x, permission_audit := y\<rparr>) = getActiveTenantID db"
  by (auto simp: getPrimaryTenantID_def getActiveTenantID_def fun_eq_iff
      split: option.splits list.splits)

lemma addSiteMemberAccess_frame:
  assumes "addSiteMemberAccess db site u role by = Inr db'"
  shows "getDefaultTenantID db' = getDefaultTenantID db" and "sites db' = sites db"
    and "site_tenant_or db' d x = site_tenant_or db d x"
    and "tenant_members db' = tenant_members db" and "getActiveTenantID db' v = getActiveTenantID db v"
    and "db_ok db'"
    and "map_of (site_members db') = (map_of (site_members db))((site, u) \<mapsto> role)"
    and "length (permission_audit db') = length (permission_audit db) + 1"
  using assms
  by (auto simp: addSiteMemberAccess_def update_conv' split: if_splits)

lemma RemoveSiteMember_frame:
  assumes "RemoveSiteMember db site u by = Inr db'"
  shows "getDefaultTenantID db' = getDefaultTenantID db" and "sites db' = sites db"
    and "site_tenant_or db' d x = site_tenant_or db d x"
    and "tenant_members db' = tenant_members db" and "getActiveTenantID db' v = getActiveTenantID db v"
    and "map_of (site_members db') = (map_of (site_members db))((site, u) := None)"
    and "length (permission_audit db') = length (permission_audit db) + 1"
  using assms
  by (auto simp: RemoveSiteMember_def delete_conv' split: if_splits option.splits)

subsection \<open>Properties\<close>

text \<open>
  C4.  Tenant isolation of the dashboard: a user gets a role on a site only when the site belongs
  to the user's active team and the user is bound to the site there, and the role has no
  permission that some binding (the membership row, ownership, the team role) does not give.
\<close>

theorem site_role_tenant_isolation:
  assumes "GetSiteRole L db u site = Inr role"
  shows "\<exists>t. getActiveTenantID db u = Inr t \<and> bound_to_site L db u site t
     \<and> (\<forall>r. map_of (site_members db) (site, u) = Some r \<longrightarrow>
           set (sitePermissions role) \<subseteq> set (sitePermissions r))"
proof -
  from assms obtain t where t: "getActiveTenantID db u = Inr t"
    and r: "getSiteRoleForTenant L db u site t = Inr role"
    by (auto simp: GetSiteRole_def split: sum.splits)
  from r have b: "bound_to_site L db u site t" by (rule getSiteRoleForTenant_bound)
  from b obtain dflt where d: "getDefaultTenantID db = Inr dflt"
    and inT: "map_of (sites db) site \<noteq> None \<and> site_tenant_or db dflt site = t"
    by (auto simp: bound_to_site_def)
  have "set (sitePermissions role) \<subseteq> set (sitePermissions e)"
    if "map_of (site_members db) (site, u) = Some e" for e
    using effectiveSiteRole_perms(2) [OF r [unfolded getSiteRoleForTenant_def d Let_def, simplified]]
      that inT
    by (auto simp: role_sources_def)
  with t b show ?thesis by blast
qed

text \<open>A control database with one team, one site and one member.\<close>

definition sample_db :: roles_db where
  "sample_db = \<lparr>db_ok = True, tenants = [(3, True)],
     tenant_members = [\<lparr>tm_tenant = 3, tm_user = 7, tm_role = ''member'', tm_added_at = 0\<rparr>],
     tenant_archives = [], sites = [(4, 2)], site_tenants = [(4, 3)],
     site_members = [((4, 7), ''editor'')], instance_roles = [(2, ''owner'')],
     active_tenants = [], permission_audit = [], report_definitions = [],
     report_recipients = [], report_deliveries = []\<rparr>"

lemma tenantRoleSiteRole_member: "tenantRoleSiteRole L ''member'' = None"
  by (simp add: tenantRoleSiteRole_def ToLower_def is_ascii_def lower_byte_def TrimSpace_graphic
      graphic_def tenant_role_names)

lemma sample_db_active: "getActiveTenantID sample_db 7 = Inr 3"
  by (simp add: getActiveTenantID_def getPrimaryTenantID_def live_memberships_def sample_db_def
      tenant_exists_def archived_def)

lemma sample_db_role: "GetSiteRole L sample_db 7 4 = Inr ''editor''"
proof -
  have "getSiteRoleForTenant L sample_db 7 4 3 =
     (case map_of (site_members sample_db) (4, 7) of None \<Rightarrow> Inl SiteAccessDenied | Some r \<Rightarrow> Inr r)"
    by (rule getSiteRoleForTenant_explicit_only [where dflt = 3 and owner = 2])
      (auto simp: sample_db_def getDefaultTenantID_def site_tenant_or_def tenantRoleSiteRole_member)
  then show ?thesis by (simp add: GetSiteRole_def sample_db_active) (simp add: sample_db_def)
qed

theorem site_role_tenant_isolation_witness:
  "\<exists>t. getActiveTenantID sample_db 7 = Inr t \<and> bound_to_site bare_lib sample_db 7 4 t"
  using site_role_tenant_isolation [OF sample_db_role, of bare_lib] by blast

text \<open>
   Granting and revoking site access: a team member with no other binding gets exactly the
  granted role from \<open>AddSiteMember\<close>, \<open>RemoveSiteMember\<close> then takes all access away, no other
  user's or site's row changes, and both leave one audit entry each.
\<close>

theorem grant_then_revoke:
  assumes grant: "AddSiteMember db site u role by = Inr db1"
    and dflt: "getDefaultTenantID db = Inr dflt"
    and active: "getActiveTenantID db u = querySiteTenantID db site"
    and not_owner: "map_of (sites db) site \<noteq> Some u"
    and plain: "\<And>m. m \<in> set (tenant_members db) \<Longrightarrow> tm_user m = u
           \<Longrightarrow> tenantRoleSiteRole L (tm_role m) = None"
  shows "GetSiteRole L db1 u site = Inr role
     \<and> (\<exists>db2. RemoveSiteMember db1 site u by' = Inr db2
          \<and> GetSiteRole L db2 u site = Inl SiteAccessDenied
          \<and> (\<forall>k. k \<noteq> (site, u) \<longrightarrow> map_of (site_members db2) k = map_of (site_members db) k)
          \<and> length (permission_audit db2) = length (permission_audit db) + 2)"
proof -
  from grant obtain t where q: "querySiteTenantID db site = Inr t"
    and acc: "addSiteMemberAccess db site u role by = Inr db1"
    by (auto simp: AddSiteMember_def split: sum.splits if_splits)
  note st = site_tenant_or_query [OF q dflt]
  then obtain owner where owner: "map_of (sites db) site = Some owner" by auto
  note f1 = addSiteMemberAccess_frame [OF acc]
  have exists1: "map_of (site_members db1) (site, u) = Some role" by (simp add: f1(7))
  obtain db2 where rm: "RemoveSiteMember db1 site u by' = Inr db2"
    using exists1 f1(6) by (auto simp: RemoveSiteMember_def)
  note f2 = RemoveSiteMember_frame [OF rm]
  have "getSiteRoleForTenant L db1 u site t = Inr role"
    using dflt owner st not_owner plain exists1
    by (subst getSiteRoleForTenant_explicit_only [where dflt = dflt and owner = owner])
      (auto simp: f1)
  moreover have "getSiteRoleForTenant L db2 u site t = Inl SiteAccessDenied"
    using dflt owner st not_owner plain
    by (subst getSiteRoleForTenant_explicit_only [where dflt = dflt and owner = owner])
      (auto simp: f1 f2)
  ultimately show ?thesis
    using active q rm by (auto simp: GetSiteRole_def f1 f2)
qed

theorem grant_then_revoke_witness:
  "\<exists>db1. AddSiteMember sample_db 4 7 ''viewer'' 2 = Inr db1 \<and> GetSiteRole bare_lib db1 7 4 = Inr ''viewer''"
proof -
  have q: "querySiteTenantID sample_db 4 = Inr 3"
    by (simp add: querySiteTenantID_def sample_db_def)
  have d: "getDefaultTenantID sample_db = Inr 3"
    by (simp add: getDefaultTenantID_def sample_db_def)
  have m: "IsTenantMember sample_db 3 7 = Inr True"
    by (simp add: IsTenantMember_True live_memberships_def tenant_exists_def archived_def
        sample_db_def)
  obtain db1 where g: "AddSiteMember sample_db 4 7 ''viewer'' 2 = Inr db1"
    by (simp add: AddSiteMember_def q m addSiteMemberAccess_def) (simp add: sample_db_def)
  have "GetSiteRole bare_lib db1 7 4 = Inr ''viewer''"
    using grant_then_revoke [OF g d, where L = bare_lib and by' = 2]
    by (simp add: sample_db_active q) (simp add: sample_db_def tenantRoleSiteRole_member)
  with g show ?thesis by blast
qed

end
