(* ===== verification/Access_Control.thy ===== *)
theory Access_Control
  imports Role_Store
begin

text \<open>
  The permission middleware of the HTTP server (src/server/shared/authz.go), the order in which a
  route's access checks run (src/server/shared/context.go) and the authorization of an OAuth
  request on a site (src/server/shared/oauth.go).  A middleware takes the request and either
  answers it with an HTTP error or passes it on, with the permission context added, to the next
  handler.  \<open>uuid.Parse\<close> of github.com/google/uuid is the parameter \<open>pu\<close>.
\<close>

record APIClientAuth =
  ac_ClientID :: uuid
  ac_UserID :: uuid
  ac_TenantID :: uuid
  ac_InstanceRole :: string
  ac_SiteRoles :: "(uuid \<times> string) list"

record PermissionContext =
  pc_UserID :: uuid
  pc_InstanceRole :: string
  pc_SiteRole :: string

text \<open>What the checks read of a request: the path value \<open>id\<close> and the context's values.\<close>

record Request =
  rq_path_id :: string
  rq_permission :: "PermissionContext option"
  rq_user_key :: "uuid option"
  rq_api_client :: "APIClientAuth option"
  rq_oauth_grant :: "OAuthGrant option"

datatype response = HttpError nat string | Next Request

abbreviation (input) StatusBadRequest :: nat where "StatusBadRequest \<equiv> 400"
abbreviation (input) StatusUnauthorized :: nat where "StatusUnauthorized \<equiv> 401"
abbreviation (input) StatusForbidden :: nat where "StatusForbidden \<equiv> 403"
abbreviation (input) StatusInternalServerError :: nat where "StatusInternalServerError \<equiv> 500"
abbreviation (input) StatusServiceUnavailable :: nat where "StatusServiceUnavailable \<equiv> 503"

definition GetUserIDFromContext :: "Request \<Rightarrow> uuid" where
  "GetUserIDFromContext r =
     (case rq_permission r of
        Some perms \<Rightarrow> pc_UserID perms
      | None \<Rightarrow> (case rq_user_key r of None \<Rightarrow> uuid_Nil | Some u \<Rightarrow> u))"

definition isSitePermission :: "string \<Rightarrow> bool" where
  "isSitePermission perm \<longleftrightarrow> prefix ''site.'' perm"

definition siteIDFromRequest :: "(string \<Rightarrow> uuid option) \<Rightarrow> Request \<Rightarrow> string + uuid" where
  "siteIDFromRequest pu r =
     (if rq_path_id r = [] then Inl ''site ID required''
      else case pu (rq_path_id r) of
             None \<Rightarrow> Inl ''invalid site ID''
           | Some s \<Rightarrow> Inr s)"

definition teamIDFromRequest :: "(string \<Rightarrow> uuid option) \<Rightarrow> Request \<Rightarrow> uuid option" where
  "teamIDFromRequest pu r = pu (TrimSpace (rq_path_id r))"

definition resolveInstanceRole ::
  "roles_db \<Rightarrow> uuid \<Rightarrow> APIClientAuth option \<Rightarrow> db_error + string" where
  "resolveInstanceRole db u api =
     (case (if u \<noteq> uuid_Nil then GetInstanceRole db u else Inr InstanceUser) of
        Inl e \<Rightarrow> Inl e
      | Inr role \<Rightarrow>
          (case api of
             None \<Rightarrow> Inr role
           | Some a \<Rightarrow> Inr (MinInstanceRole role (ac_InstanceRole a))))"

datatype site_role_error = StoreError db_error | ClientNotAllowed

definition resolveSiteRole ::
  "('a, 'p) golib \<Rightarrow> roles_db \<Rightarrow> uuid \<Rightarrow> APIClientAuth option \<Rightarrow> uuid \<Rightarrow> site_role_error + string"
where
  "resolveSiteRole L db u api site =
     (case (if u \<noteq> uuid_Nil then GetSiteRole L db u site else Inr []) of
        Inl e \<Rightarrow> Inl (StoreError e)
      | Inr role \<Rightarrow>
          (case api of
             None \<Rightarrow> Inr role
           | Some a \<Rightarrow>
               (case map_of (ac_SiteRoles a) site of
                  None \<Rightarrow> Inl ClientNotAllowed
                | Some delegated \<Rightarrow>
                    if u = uuid_Nil then Inr delegated
                    else Inr (MinSiteRole role delegated))))"

text \<open>\<open>next(w, r.WithContext(ctx))\<close> with the permission context of the caller.\<close>

definition with_perms :: "Request \<Rightarrow> uuid \<Rightarrow> string \<Rightarrow> string \<Rightarrow> response" where
  "with_perms r u irole srole =
     Next (r\<lparr>rq_permission := Some \<lparr>pc_UserID = u, pc_InstanceRole = irole, pc_SiteRole = srole\<rparr>\<rparr>)"

text \<open>
  The site check of \<open>RequirePermission\<close>: an answer when the site cannot be resolved or the
  role allows the permission, \<open>None\<close> when the role does not allow it.
\<close>

definition site_check ::
  "('a, 'p) golib \<Rightarrow> (string \<Rightarrow> uuid option) \<Rightarrow> roles_db \<Rightarrow> string \<Rightarrow> string \<Rightarrow> Request \<Rightarrow> response option"
where
  "site_check L pu db perm instanceRole r =
     (case siteIDFromRequest pu r of
        Inl msg \<Rightarrow> Some (HttpError StatusBadRequest msg)
      | Inr site \<Rightarrow>
          (case resolveSiteRole L db (GetUserIDFromContext r) (rq_api_client r) site of
             Inl _ \<Rightarrow> Some (HttpError StatusForbidden ''Access denied'')
           | Inr siteRole \<Rightarrow>
               if site_HasPermission L siteRole perm
               then Some (with_perms r (GetUserIDFromContext r) instanceRole siteRole)
               else None))"

definition RequirePermission ::
  "('a, 'p) golib \<Rightarrow> (string \<Rightarrow> uuid option) \<Rightarrow> roles_db \<Rightarrow> string \<Rightarrow> Request \<Rightarrow> response"
where
  "RequirePermission L pu db perm r =
     (let userID = GetUserIDFromContext r; api = rq_api_client r in
      if userID = uuid_Nil \<and> api = None then HttpError StatusUnauthorized ''Unauthorized''
      else case resolveInstanceRole db userID api of
        Inl _ \<Rightarrow> HttpError StatusInternalServerError ''Internal error''
      | Inr instanceRole \<Rightarrow>
          (case (if isSitePermission perm \<and> api \<noteq> None
                 then site_check L pu db perm instanceRole r else None) of
             Some resp \<Rightarrow> resp
           | None \<Rightarrow>
               if instance_HasPermission L instanceRole perm
               then with_perms r userID instanceRole []
               else (case (if isSitePermission perm
                           then site_check L pu db perm instanceRole r else None) of
                       Some resp \<Rightarrow> resp
                     | None \<Rightarrow> HttpError StatusForbidden ''Forbidden'')))"

definition userHasTeamCapability ::
  "('a, 'p) golib \<Rightarrow> roles_db \<Rightarrow> uuid \<Rightarrow> uuid \<Rightarrow> string \<Rightarrow> bool" where
  "userHasTeamCapability L db team u capability =
     (case GetTenantRole db team u of
        Inl _ \<Rightarrow> False
      | Inr role \<Rightarrow> TeamRoleHasCapability L role capability)"

definition RequireTeamCapability ::
  "('a, 'p) golib \<Rightarrow> (string \<Rightarrow> uuid option) \<Rightarrow> roles_db \<Rightarrow> string \<Rightarrow> Request \<Rightarrow> response"
where
  "RequireTeamCapability L pu db capability r =
     (let userID = GetUserIDFromContext r in
      if userID = uuid_Nil \<or> rq_api_client r \<noteq> None \<or> rq_oauth_grant r \<noteq> None
      then HttpError StatusUnauthorized ''Unauthorized''
      else case teamIDFromRequest pu r of
             None \<Rightarrow> HttpError StatusBadRequest ''Invalid team ID''
           | Some team \<Rightarrow>
               if \<not> userHasTeamCapability L db team userID capability
               then HttpError StatusForbidden ''Access denied''
               else Next r)"

definition RequireActiveTeamCapability ::
  "('a, 'p) golib \<Rightarrow> roles_db option \<Rightarrow> string \<Rightarrow> Request \<Rightarrow> response" where
  "RequireActiveTeamCapability L store capability r =
     (let userID = GetUserIDFromContext r in
      if userID = uuid_Nil \<or> rq_api_client r \<noteq> None \<or> rq_oauth_grant r \<noteq> None
      then HttpError StatusUnauthorized ''Unauthorized''
      else case store of
             None \<Rightarrow> HttpError StatusServiceUnavailable ''Service not available''
           | Some db \<Rightarrow>
               (case getActiveTenantID db userID of
                  Inl _ \<Rightarrow> HttpError StatusBadRequest ''Unable to resolve active team''
                | Inr team \<Rightarrow>
                    if \<not> userHasTeamCapability L db team userID capability
                    then HttpError StatusForbidden ''Access denied''
                    else Next r))"

definition sitePermissionContext ::
  "('a, 'p) golib \<Rightarrow> roles_db \<Rightarrow> string \<Rightarrow> uuid \<Rightarrow> string \<Rightarrow> Request \<Rightarrow> site_role_error + response option"
where
  "sitePermissionContext L db instanceRole site perm r =
     (case resolveSiteRole L db (GetUserIDFromContext r) (rq_api_client r) site of
        Inl e \<Rightarrow> Inl e
      | Inr siteRole \<Rightarrow>
          if \<not> site_HasPermission L siteRole perm then Inr None
          else Inr (Some (with_perms r (GetUserIDFromContext r) instanceRole siteRole)))"

definition RequireSiteOrInstancePermission ::
  "('a, 'p) golib \<Rightarrow> (string \<Rightarrow> uuid option) \<Rightarrow> roles_db \<Rightarrow> string \<Rightarrow> string \<Rightarrow> Request \<Rightarrow> response"
where
  "RequireSiteOrInstancePermission L pu db sitePerm instancePerm r =
     (let userID = GetUserIDFromContext r; api = rq_api_client r in
      if userID = uuid_Nil \<and> api = None then HttpError StatusUnauthorized ''Unauthorized''
      else case resolveInstanceRole db userID api of
        Inl _ \<Rightarrow> HttpError StatusInternalServerError ''Internal error''
      | Inr instanceRole \<Rightarrow>
          let viaInstance =
            (if instancePerm \<noteq> [] \<and> instance_HasPermission L instanceRole instancePerm
             then with_perms r userID instanceRole []
             else HttpError StatusForbidden ''Forbidden'')
          in if sitePerm = [] then viaInstance
             else case siteIDFromRequest pu r of
               Inl msg \<Rightarrow> HttpError StatusBadRequest msg
             | Inr site \<Rightarrow>
                 (case sitePermissionContext L db instanceRole site sitePerm r of
                    Inl _ \<Rightarrow>
                      if api \<noteq> None then HttpError StatusForbidden ''Access denied''
                      else viaInstance
                  | Inr (Some resp) \<Rightarrow> resp
                  | Inr None \<Rightarrow>
                      if api \<noteq> None then HttpError StatusForbidden ''Forbidden''
                      else viaInstance))"


subsection \<open>Route configuration\<close>

record HandlerConfig =
  hc_RequireAuth :: bool
  hc_InstancePerm :: string
  hc_SitePerm :: string
  hc_TeamCap :: string
  hc_ActiveTeamCap :: string
  hc_AllowAPIKey :: bool
  hc_APIClientOnly :: bool
  hc_HumanOnly :: bool

fun and_then :: "response \<Rightarrow> (Request \<Rightarrow> response) \<Rightarrow> response" where
  "and_then (HttpError code msg) h = HttpError code msg"
| "and_then (Next r) h = h r"

text \<open>
  \<open>applyAccessChecks\<close> wraps the handler in the site check, then the team check, then the
  active team check, then the instance check; a request meets them from the outside in.
\<close>

definition applyAccessChecks ::
  "('a, 'p) golib \<Rightarrow> (string \<Rightarrow> uuid option) \<Rightarrow> roles_db \<Rightarrow> HandlerConfig \<Rightarrow> Request \<Rightarrow> response"
where
  "applyAccessChecks L pu db cfg =
     (let h0 = Next;
          h1 = (if hc_SitePerm cfg \<noteq> []
                then (\<lambda>r. and_then (RequirePermission L pu db (hc_SitePerm cfg) r) h0) else h0);
          h2 = (if hc_TeamCap cfg \<noteq> []
                then (\<lambda>r. and_then (RequireTeamCapability L pu db (hc_TeamCap cfg) r) h1) else h1);
          h3 = (if hc_ActiveTeamCap cfg \<noteq> []
                then (\<lambda>r. and_then (RequireActiveTeamCapability L (Some db) (hc_ActiveTeamCap cfg) r) h2)
                else h2)
      in if hc_InstancePerm cfg \<noteq> []
         then (\<lambda>r. and_then (RequirePermission L pu db (hc_InstancePerm cfg) r) h3) else h3)"

definition requiresUserAuth :: "HandlerConfig \<Rightarrow> bool" where
  "requiresUserAuth cfg \<longleftrightarrow>
     hc_RequireAuth cfg \<or> hc_InstancePerm cfg \<noteq> [] \<or> hc_SitePerm cfg \<noteq> []
     \<or> hc_TeamCap cfg \<noteq> [] \<or> hc_ActiveTeamCap cfg \<noteq> []"

definition allowsAPIKey :: "HandlerConfig \<Rightarrow> bool" where
  "allowsAPIKey cfg =
     (if hc_HumanOnly cfg then False
      else hc_AllowAPIKey cfg \<or> hc_InstancePerm cfg \<noteq> [] \<or> hc_SitePerm cfg \<noteq> [])"

subsection \<open>OAuth requests on a site\<close>

datatype oauth_error = ErrOAuthAccessDenied

definition AuthorizeOAuthSite ::
  "('a, 'p) golib \<Rightarrow> roles_db option \<Rightarrow> OAuthGrant option \<Rightarrow> uuid \<Rightarrow> string \<Rightarrow> string \<Rightarrow> string
     \<Rightarrow> oauth_error + unit" where
  "AuthorizeOAuthSite L store grant site expectedAudience requiredScope permission =
     (case (store, grant) of
        (Some db, Some g) \<Rightarrow>
          if expectedAudience = [] \<or> gr_Audience g \<noteq> expectedAudience
             \<or> requiredScope \<notin> set (gr_Scopes g) \<or> site \<notin> set (gr_SiteIDs g)
          then Inl ErrOAuthAccessDenied
          else (case GetSiteRoleForTenant L db (gr_UserID g) site (gr_TeamID g) of
                  Inl _ \<Rightarrow> Inl ErrOAuthAccessDenied
                | Inr role \<Rightarrow>
                    let resource = \<lparr>res_Kind = ResourceSite, res_ID = site, res_TeamID = gr_TeamID g\<rparr>;
                        principal = \<lparr>pr_Kind = PrincipalOAuth, pr_InstanceRole = [],
                          pr_SiteRole = role, pr_SiteID = site, pr_TeamRole = [],
                          pr_TeamID = gr_TeamID g\<rparr>
                    in if \<not> AuthorizeOAuth L (Some g) principal permission resource
                            expectedAudience requiredScope
                       then Inl ErrOAuthAccessDenied
                       else Inr ())
      | _ \<Rightarrow> Inl ErrOAuthAccessDenied)"

subsection \<open>What the checks let through\<close>

lemma with_perms_user: "with_perms r u i s = Next r' \<Longrightarrow> GetUserIDFromContext r' = u"
  by (auto simp: with_perms_def GetUserIDFromContext_def)

lemma with_perms_frame:
  "with_perms r u i s = Next r' \<Longrightarrow>
     rq_path_id r' = rq_path_id r \<and> rq_api_client r' = rq_api_client r
     \<and> rq_oauth_grant r' = rq_oauth_grant r"
  by (auto simp: with_perms_def)

lemma with_perms_not_error [simp]: "with_perms r u i s \<noteq> HttpError c m"
  by (simp add: with_perms_def)

lemma instance_user_no_permission [simp]: "instancePermissions ''user'' = []"
  by (simp add: instancePermissions_def role_names)

text \<open>
  The evidence behind a permission: the instance role, met with an API client's, has it, or the
  request names a site on which the site role, met with an API client's grant, has it.
\<close>

definition instance_evidence :: "roles_db \<Rightarrow> uuid \<Rightarrow> APIClientAuth option \<Rightarrow> string \<Rightarrow> bool" where
  "instance_evidence db u api perm \<longleftrightarrow>
     u \<noteq> uuid_Nil \<and> (\<exists>role. GetInstanceRole db u = Inr role \<and> perm \<in> set (instancePermissions role))
     \<and> (\<forall>a. api = Some a \<longrightarrow> perm \<in> set (instancePermissions (ac_InstanceRole a)))"

definition site_evidence ::
  "('a, 'p) golib \<Rightarrow> roles_db \<Rightarrow> uuid \<Rightarrow> APIClientAuth option \<Rightarrow> uuid \<Rightarrow> string \<Rightarrow> bool" where
  "site_evidence L db u api site perm \<longleftrightarrow>
     (u \<noteq> uuid_Nil \<or> api \<noteq> None)
     \<and> (u \<noteq> uuid_Nil \<longrightarrow>
          (\<exists>role. GetSiteRole L db u site = Inr role \<and> perm \<in> set (sitePermissions role)))
     \<and> (\<forall>a. api = Some a \<longrightarrow>
          (\<exists>d. map_of (ac_SiteRoles a) site = Some d \<and> perm \<in> set (sitePermissions d)))"

lemma resolveInstanceRole_evidence:
  assumes "resolveInstanceRole db u api = Inr role" and "perm \<in> set (instancePermissions role)"
  shows "instance_evidence db u api perm"
  using assms
  by (auto simp: resolveInstanceRole_def instance_evidence_def inst_roles.meet_perms InstanceUser_def
      split: if_splits sum.splits option.splits)

lemma resolveSiteRole_evidence:
  assumes "resolveSiteRole L db u api site = Inr role" and "perm \<in> set (sitePermissions role)"
    and "u \<noteq> uuid_Nil \<or> api \<noteq> None"
  shows "site_evidence L db u api site perm"
  using assms
  by (auto simp: resolveSiteRole_def site_evidence_def site_roles.meet_perms
      split: if_splits sum.splits option.splits)

lemma resolveSiteRole_client:
  "resolveSiteRole L db u (Some a) site = Inr role \<Longrightarrow> map_of (ac_SiteRoles a) site \<noteq> None"
  by (auto simp: resolveSiteRole_def split: sum.splits option.splits)

lemma site_check_Next:
  assumes "site_check L pu db perm irole r = Some (Next r')"
    and "GetUserIDFromContext r \<noteq> uuid_Nil \<or> rq_api_client r \<noteq> None"
  shows "\<exists>site. siteIDFromRequest pu r = Inr site
     \<and> site_evidence L db (GetUserIDFromContext r) (rq_api_client r) site perm
     \<and> GetUserIDFromContext r' = GetUserIDFromContext r \<and> rq_api_client r' = rq_api_client r"
  using assms
  by (auto simp: site_check_def site_HasPermission_iff intro: resolveSiteRole_evidence
      split: sum.splits if_splits dest: with_perms_user with_perms_frame)

lemma site_check_None_client:
  assumes "site_check L pu db perm irole r = None" and "rq_api_client r = Some a"
  shows "\<exists>site. siteIDFromRequest pu r = Inr site \<and> map_of (ac_SiteRoles a) site \<noteq> None"
  using assms by (auto simp: site_check_def split: sum.splits if_splits dest!: resolveSiteRole_client)


lemma RequirePermission_Next:
  assumes "RequirePermission L pu db perm r = Next r'"
  shows "(GetUserIDFromContext r \<noteq> uuid_Nil \<or> rq_api_client r \<noteq> None)
     \<and> GetUserIDFromContext r' = GetUserIDFromContext r \<and> rq_api_client r' = rq_api_client r
     \<and> (instance_evidence db (GetUserIDFromContext r) (rq_api_client r) perm
        \<or> isSitePermission perm \<and> (\<exists>site. siteIDFromRequest pu r = Inr site
             \<and> site_evidence L db (GetUserIDFromContext r) (rq_api_client r) site perm))"
proof -
  let ?u = "GetUserIDFromContext r" and ?api = "rq_api_client r"
  from assms have auth: "?u \<noteq> uuid_Nil \<or> ?api \<noteq> None"
    by (auto simp: RequirePermission_def Let_def split: if_splits)
  from assms auth obtain irole where irole: "resolveInstanceRole db ?u ?api = Inr irole"
    by (auto simp: RequirePermission_def Let_def split: sum.splits)
  consider (site) "isSitePermission perm" "site_check L pu db perm irole r = Some (Next r')"
    | (inst) "instance_HasPermission L irole perm" "with_perms r ?u irole [] = Next r'"
    using assms auth irole by (auto simp: RequirePermission_def Let_def split: option.splits if_splits)
  then show ?thesis
  proof cases
    case site
    with site_check_Next [OF site(2) auth] auth show ?thesis by blast
  next
    case inst
    then have "instance_evidence db ?u ?api perm"
      by (intro resolveInstanceRole_evidence [OF irole]) (simp add: instance_HasPermission_iff)
    with auth inst(2) show ?thesis by (auto dest: with_perms_user with_perms_frame)
  qed
qed

lemma RequirePermission_client_grant:
  assumes "RequirePermission L pu db perm r = Next r'" and "rq_api_client r = Some a"
    and "isSitePermission perm"
  shows "\<exists>site. siteIDFromRequest pu r = Inr site \<and> map_of (ac_SiteRoles a) site \<noteq> None"
proof -
  from assms obtain irole where
    "resolveInstanceRole db (GetUserIDFromContext r) (Some a) = Inr irole"
    by (auto simp: RequirePermission_def Let_def split: sum.splits)
  with assms consider "site_check L pu db perm irole r = Some (Next r')"
    | "site_check L pu db perm irole r = None"
    by (auto simp: RequirePermission_def Let_def split: option.splits if_splits)
  then show ?thesis
  proof cases
    case 1
    with site_check_Next [OF this] assms(2) show ?thesis by (auto simp: site_evidence_def)
  next
    case 2
    from 2 assms(2) show ?thesis by (rule site_check_None_client)
  qed
qed

lemma RequirePermission_session:
  assumes "rq_api_client r = None" and "GetUserIDFromContext r = u" and "u \<noteq> uuid_Nil"
  shows "RequirePermission L pu db perm r =
     (case GetInstanceRole db u of
        Inl _ \<Rightarrow> HttpError StatusInternalServerError ''Internal error''
      | Inr irole \<Rightarrow>
          if perm \<in> set (instancePermissions irole) then with_perms r u irole []
          else if isSitePermission perm
          then (case site_check L pu db perm irole r of
                  Some resp \<Rightarrow> resp | None \<Rightarrow> HttpError StatusForbidden ''Forbidden'')
          else HttpError StatusForbidden ''Forbidden'')"
  using assms
  by (auto simp: RequirePermission_def resolveInstanceRole_def instance_HasPermission_iff Let_def
      split: sum.splits)

subsection \<open>Properties\<close>

text \<open>
  C5.  The permission check of a signed-in user is exactly the policy: \<open>RequirePermission\<close> lets
  the request through if and only if the user's instance role resolves and it has the permission,
  or the permission is a site permission and the user's role on the site named in the path has it.
\<close>

theorem require_permission_session_iff:
  assumes "rq_api_client r = None" and "GetUserIDFromContext r = u" and "u \<noteq> uuid_Nil"
  shows "(\<exists>r'. RequirePermission L pu db perm r = Next r') \<longleftrightarrow>
     (\<exists>irole. GetInstanceRole db u = Inr irole)
     \<and> (instance_evidence db u None perm
        \<or> isSitePermission perm \<and> (\<exists>site. siteIDFromRequest pu r = Inr site
             \<and> site_evidence L db u None site perm))"
  (is "?lhs \<longleftrightarrow> ?rhs")
proof
  assume ?lhs
  then obtain r' where r': "RequirePermission L pu db perm r = Next r'" ..
  then have "\<exists>irole. GetInstanceRole db u = Inr irole"
    by (auto simp: RequirePermission_session [OF assms] split: sum.splits)
  with RequirePermission_Next [OF r'] assms show ?rhs by auto
next
  assume ?rhs
  then obtain irole where irole: "GetInstanceRole db u = Inr irole" by blast
  show ?lhs
  proof (cases "perm \<in> set (instancePermissions irole)")
    case True
    with irole show ?thesis by (simp add: RequirePermission_session [OF assms] with_perms_def)
  next
    case False
    with \<open>?rhs\<close> irole obtain site where "isSitePermission perm"
      "siteIDFromRequest pu r = Inr site" "site_evidence L db u None site perm"
      by (auto simp: instance_evidence_def)
    with False irole assms show ?thesis
      by (auto simp: RequirePermission_session [OF assms] site_check_def resolveSiteRole_def
          site_evidence_def site_HasPermission_iff with_perms_def)
  qed
qed

definition sample_request :: "string \<Rightarrow> uuid option \<Rightarrow> APIClientAuth option \<Rightarrow> Request" where
  "sample_request pathid user api = \<lparr>rq_path_id = pathid, rq_permission = None,
     rq_user_key = user, rq_api_client = api, rq_oauth_grant = None\<rparr>"

definition sample_parse :: "string \<Rightarrow> uuid option" where
  "sample_parse s = (if s = ''4'' then Some 4 else None)"

theorem require_permission_session_iff_witness:
  "\<exists>r'. RequirePermission bare_lib sample_parse sample_db PermSiteView (sample_request ''4'' (Some 7) None)
     = Next r'"
proof -
  have s: "site_evidence bare_lib sample_db 7 None 4 PermSiteView"
    by (simp add: site_evidence_def sample_db_role uuid_Nil_def sitePermissions_def policy_simps)
  have "(\<exists>r'. RequirePermission bare_lib sample_parse sample_db PermSiteView
      (sample_request ''4'' (Some 7) None) = Next r') \<longleftrightarrow>
     (\<exists>irole. GetInstanceRole sample_db 7 = Inr irole)
     \<and> (instance_evidence sample_db 7 None PermSiteView
        \<or> isSitePermission PermSiteView
          \<and> (\<exists>site. siteIDFromRequest sample_parse (sample_request ''4'' (Some 7) None) = Inr site
             \<and> site_evidence bare_lib sample_db 7 None site PermSiteView))"
    by (rule require_permission_session_iff)
      (simp_all add: sample_request_def GetUserIDFromContext_def uuid_Nil_def)
  with s show ?thesis
    by (auto simp: GetInstanceRole_def isSitePermission_def siteIDFromRequest_def sample_request_def
        sample_parse_def sample_db_def policy_simps)
qed

text \<open>
  C6.  Confinement of API clients: an API client passes a site permission check only on a site its
  token names; a team client (no user) then holds the permission by the delegated site role itself,
  and a personal client only where the user's role and the delegated role both have it, on the site
  or on the instance.
\<close>

theorem api_client_confined:
  assumes "RequirePermission L pu db perm r = Next r'"
    and "rq_api_client r = Some a" and "isSitePermission perm"
  shows "\<exists>site d. siteIDFromRequest pu r = Inr site \<and> map_of (ac_SiteRoles a) site = Some d
     \<and> (GetUserIDFromContext r = uuid_Nil \<longrightarrow> site_HasPermission L d perm)
     \<and> (GetUserIDFromContext r \<noteq> uuid_Nil \<longrightarrow>
          (site_HasPermission L d perm \<and> (\<exists>role. GetSiteRole L db (GetUserIDFromContext r) site = Inr role
             \<and> site_HasPermission L role perm))
          \<or> (instance_HasPermission L (ac_InstanceRole a) perm
             \<and> (\<exists>role. GetInstanceRole db (GetUserIDFromContext r) = Inr role
                  \<and> instance_HasPermission L role perm)))"
proof -
  from RequirePermission_client_grant [OF assms] obtain site d where
    sd: "siteIDFromRequest pu r = Inr site" "map_of (ac_SiteRoles a) site = Some d"
    by auto
  from RequirePermission_Next [OF assms(1)] assms(2) sd(1)
  have "instance_evidence db (GetUserIDFromContext r) (Some a) perm
      \<or> site_evidence L db (GetUserIDFromContext r) (Some a) site perm"
    by auto
  with sd show ?thesis
    by (auto simp: instance_evidence_def site_evidence_def site_HasPermission_iff
        instance_HasPermission_iff)
qed

definition sample_client :: APIClientAuth where
  "sample_client = \<lparr>ac_ClientID = 9, ac_UserID = uuid_Nil, ac_TenantID = 3,
     ac_InstanceRole = ''owner'', ac_SiteRoles = [(4, ''viewer'')]\<rparr>"

theorem api_client_confined_witness:
  "site_HasPermission bare_lib ''viewer'' PermSiteView"
proof -
  have "\<exists>r'. RequirePermission bare_lib sample_parse sample_db PermSiteView
      (sample_request ''4'' None (Some sample_client)) = Next r'"
    by (simp add: RequirePermission_def sample_request_def GetUserIDFromContext_def
        resolveInstanceRole_def sample_client_def isSitePermission_def site_check_def
        siteIDFromRequest_def sample_parse_def resolveSiteRole_def site_HasPermission_iff
        sitePermissions_def with_perms_def Let_def policy_simps)
  then obtain r' where r': "RequirePermission bare_lib sample_parse sample_db PermSiteView
      (sample_request ''4'' None (Some sample_client)) = Next r'" ..
  have "\<exists>site d. siteIDFromRequest sample_parse (sample_request ''4'' None (Some sample_client)) = Inr site
     \<and> map_of (ac_SiteRoles sample_client) site = Some d \<and> site_HasPermission bare_lib d PermSiteView"
    using api_client_confined [OF r', of sample_client]
    by (auto simp: sample_request_def GetUserIDFromContext_def isSitePermission_def PermSiteView_def)
  then show ?thesis
    by (auto simp: siteIDFromRequest_def sample_request_def sample_parse_def sample_client_def)
qed

text \<open>
  C7.  OAuth requests on a site are decided on current state: when \<open>AuthorizeOAuthSite\<close> accepts,
  the granting user is now a member of the consented team, the team exists and is not archived, the
  site belongs to that team and was consented to, and the permission is viewing the site or, with
  the ingest scope, writing its data, allowed by the user's present role.
\<close>

theorem oauth_site_current_authority:
  assumes "AuthorizeOAuthSite L store grant site aud sc perm = Inr ()"
  shows "\<exists>db g role. store = Some db \<and> grant = Some g
     \<and> (\<exists>m \<in> set (tenant_members db). tm_tenant m = gr_TeamID g \<and> tm_user m = gr_UserID g)
     \<and> tenant_exists db (gr_TeamID g) \<and> \<not> archived db (gr_TeamID g)
     \<and> bound_to_site L db (gr_UserID g) site (gr_TeamID g)
     \<and> site \<in> set (gr_SiteIDs g) \<and> sc \<in> set (gr_Scopes g) \<and> gr_Audience g = aud
     \<and> getSiteRoleForTenant L db (gr_UserID g) site (gr_TeamID g) = Inr role
     \<and> site_HasPermission L role perm \<and> perm \<in> {PermSiteView, PermSiteManageData}"
proof -
  from assms obtain db g role where s: "store = Some db" and g: "grant = Some g"
    and role: "GetSiteRoleForTenant L db (gr_UserID g) site (gr_TeamID g) = Inr role"
    and az: "AuthorizeOAuth L (Some g) \<lparr>pr_Kind = PrincipalOAuth, pr_InstanceRole = [],
        pr_SiteRole = role, pr_SiteID = site, pr_TeamRole = [], pr_TeamID = gr_TeamID g\<rparr> perm
        \<lparr>res_Kind = ResourceSite, res_ID = site, res_TeamID = gr_TeamID g\<rparr> aud sc"
    by (auto simp: AuthorizeOAuthSite_def Let_def split: option.splits if_splits sum.splits)
  from role have live: "IsTenantMember db (gr_TeamID g) (gr_UserID g) = Inr True"
    and st: "getSiteRoleForTenant L db (gr_UserID g) site (gr_TeamID g) = Inr role"
    by (auto simp: GetSiteRoleForTenant_def split: if_splits sum.splits)
  from live obtain m where "m \<in> set (live_memberships db (gr_UserID g))" "tm_tenant m = gr_TeamID g"
    by (auto simp: IsTenantMember_True)
  then have mem: "\<exists>m \<in> set (tenant_members db). tm_tenant m = gr_TeamID g \<and> tm_user m = gr_UserID g"
    and tex: "tenant_exists db (gr_TeamID g) \<and> \<not> archived db (gr_TeamID g)"
    by (auto dest!: live_memberships_member)
  have ok: "sc \<in> set (gr_Scopes g) \<and> gr_Audience g = aud \<and> site \<in> set (gr_SiteIDs g)
      \<and> perm \<in> set (sitePermissions role) \<and> scope_action_ok sc perm"
    using az by (auto simp: AuthorizeOAuth_Some Authorize_site_iff)
  then have "perm \<in> {PermSiteView, PermSiteManageData}"
    by (auto simp: scope_action_ok_def split: if_splits)
  with ok s g mem tex st getSiteRoleForTenant_bound [OF st] show ?thesis
    by (auto simp: site_HasPermission_iff)
qed

theorem oauth_site_current_authority_witness:
  "tenant_exists sample_db 3 \<and> \<not> archived sample_db 3"
proof -
  let ?g = "sample_grant\<lparr>gr_UserID := 7\<rparr>"
  have live: "IsTenantMember sample_db 3 7 = Inr True"
    by (simp add: IsTenantMember_True live_memberships_def sample_db_def tenant_exists_def archived_def)
  have role: "getSiteRoleForTenant bare_lib sample_db 7 4 3 = Inr ''editor''"
    using sample_db_role by (simp add: GetSiteRole_def sample_db_active)
  have "AuthorizeOAuthSite bare_lib (Some sample_db) (Some ?g) 4 ''hk'' ''sites:read'' PermSiteView = Inr ()"
    by (simp add: AuthorizeOAuthSite_def sample_grant_def GetSiteRoleForTenant_def live role
        uuid_Nil_def AuthorizeOAuth_Some scope_action_ok_def Authorize_site_iff sitePermissions_def
        Let_def policy_simps)
  from oauth_site_current_authority [OF this]
  have "tenant_exists sample_db (gr_TeamID ?g) \<and> \<not> archived sample_db (gr_TeamID ?g)"
    by (elim exE conjE) simp
  then show ?thesis by (simp add: sample_grant_def)
qed

end
