(* ===== verification/Netip.thy ===== *)
theory Netip
  imports Prelude
begin

unbundle bit_operations_syntax

text \<open>
  Values of Go's \<open>net/netip\<close>: an address is a 32-bit word or a 128-bit word with a zone, a
  prefix an address and a number of bits (-1 for an invalid prefix).  The operations follow the
  documentation of the package; the parsers and printers are the fields of \<open>golib\<close>.  The
  invalid \<open>netip.Addr{}\<close> is \<open>None\<close> of an optional address.
\<close>

datatype addr = V4 "32 word" | V6 "128 word" string

record netprefix =
  prefix_Addr :: addr
  prefix_Bits :: int

fun Is4 :: "addr \<Rightarrow> bool" where
  "Is4 (V4 _) \<longleftrightarrow> True"
| "Is4 (V6 _ _) \<longleftrightarrow> False"

fun Is4In6 :: "addr \<Rightarrow> bool" where
  "Is4In6 (V4 _) \<longleftrightarrow> False"
| "Is4In6 (V6 w _) \<longleftrightarrow> drop_bit 32 w = 0xFFFF"

fun Unmap :: "addr \<Rightarrow> addr" where
  "Unmap (V4 w) = V4 w"
| "Unmap (V6 w z) = (if Is4In6 (V6 w z) then V4 (ucast w) else V6 w z)"

fun hasZone :: "addr \<Rightarrow> bool" where
  "hasZone (V4 _) \<longleftrightarrow> False"
| "hasZone (V6 _ z) \<longleftrightarrow> z \<noteq> []"

fun withoutZone :: "addr \<Rightarrow> addr" where
  "withoutZone (V4 w) = V4 w"
| "withoutZone (V6 w _) = V6 w []"

fun BitLen :: "addr \<Rightarrow> int" where
  "BitLen (V4 _) = 32"
| "BitLen (V6 _ _) = 128"

definition prefix_IsValid :: "netprefix \<Rightarrow> bool" where
  "prefix_IsValid p \<longleftrightarrow> 0 \<le> prefix_Bits p"

definition PrefixFrom :: "addr \<Rightarrow> int \<Rightarrow> netprefix" where
  "PrefixFrom a bits = \<lparr>prefix_Addr = withoutZone a,
     prefix_Bits = (if 0 \<le> bits \<and> bits \<le> BitLen a then bits else - 1)\<rparr>"

fun mask_addr :: "int \<Rightarrow> addr \<Rightarrow> addr" where
  "mask_addr bits (V4 w) = V4 (push_bit (32 - nat bits) (drop_bit (32 - nat bits) w))"
| "mask_addr bits (V6 w _) = V6 (push_bit (128 - nat bits) (drop_bit (128 - nat bits) w)) []"

definition Masked :: "netprefix \<Rightarrow> netprefix" where
  "Masked p = (if prefix_IsValid p then p\<lparr>prefix_Addr := mask_addr (prefix_Bits p) (prefix_Addr p)\<rparr> else p)"

fun same_bits :: "int \<Rightarrow> addr \<Rightarrow> addr \<Rightarrow> bool" where
  "same_bits bits (V4 v) (V4 w) \<longleftrightarrow> drop_bit (32 - nat bits) (v XOR w) = 0"
| "same_bits bits (V6 v _) (V6 w _) \<longleftrightarrow> drop_bit (128 - nat bits) (v XOR w) = 0"
| "same_bits bits _ _ \<longleftrightarrow> False"

definition Contains :: "netprefix \<Rightarrow> addr \<Rightarrow> bool" where
  "Contains p a \<longleftrightarrow> prefix_IsValid p \<and> \<not> hasZone a \<and> same_bits (prefix_Bits p) (prefix_Addr p) a"

subsection \<open>Facts\<close>

lemma XOR_eq_0: "(v XOR w = 0) \<longleftrightarrow> v = (w :: 'a::len word)"
  by (simp add: bit_eq_iff bit_simps)

lemma drop_push_drop: "drop_bit n (push_bit n (drop_bit n w)) = drop_bit n (w :: 'a::len word)"
  by (rule bit_word_eqI) (auto simp: bit_simps dest: bit_imp_le_length)

lemma same_bits_mask [simp]: "same_bits b (mask_addr b a) c = same_bits b a c"
  by (cases a; cases c) (simp_all add: XOR_eq_0 drop_push_drop)

lemma mask_addr_idem [simp]: "mask_addr b (mask_addr b a) = mask_addr b a"
  by (cases a) (simp_all add: drop_push_drop)

lemma Contains_Masked [simp]: "Contains (Masked p) a = Contains p a"
  by (simp add: Contains_def Masked_def prefix_IsValid_def)

lemma Masked_idem [simp]: "Masked (Masked p) = Masked p"
  by (simp add: Masked_def prefix_IsValid_def)

lemma mask_addr_full: "mask_addr (BitLen a) a = withoutZone a"
  by (cases a) simp_all

lemma BitLen_simps [simp]: "BitLen (withoutZone a) = BitLen a" "BitLen a \<ge> 0"
  by (cases a; simp)+

lemma withoutZone_idem [simp]: "withoutZone (withoutZone a) = withoutZone a"
  by (cases a) simp_all

lemma Masked_PrefixFrom_full: "Masked (PrefixFrom a (BitLen a)) = PrefixFrom a (BitLen a)"
  using mask_addr_full [of "withoutZone a"]
  by (simp add: Masked_def PrefixFrom_def prefix_IsValid_def)

lemma same_bits_full: "same_bits (BitLen a) a b \<longleftrightarrow> withoutZone a = withoutZone b"
  by (cases a; cases b) (auto simp: XOR_eq_0)

lemma Contains_PrefixFrom_full:
  "Contains (PrefixFrom a (BitLen a)) b \<longleftrightarrow> \<not> hasZone b \<and> withoutZone a = b"
  using same_bits_full [of "withoutZone a" b]
  by (cases b) (auto simp: Contains_def PrefixFrom_def prefix_IsValid_def)

lemma Unmap_Is4In6 [simp]: "\<not> Is4In6 (Unmap a)"
  by (cases a) auto

lemma Unmap_idem [simp]: "Unmap (Unmap a) = Unmap a"
  by (cases a) auto

text \<open>
  A prefix written in IPv4-mapped IPv6 form with at least 96 bits holds mapped addresses only, so
  it contains no unmapped address.
\<close>

lemma Contains_mapped_prefix:
  assumes "Is4In6 (prefix_Addr p)" and "96 \<le> prefix_Bits p"
  shows "\<not> Contains p (Unmap a)"
proof
  assume c: "Contains p (Unmap a)"
  obtain v z where v: "prefix_Addr p = V6 v z" "drop_bit 32 v = 0xFFFF"
    using assms(1) by (cases "prefix_Addr p") auto
  from c v(1) obtain w z' where w: "Unmap a = V6 w z'"
      and eq: "drop_bit (128 - nat (prefix_Bits p)) v = drop_bit (128 - nat (prefix_Bits p)) w"
    by (cases "Unmap a") (auto simp: Contains_def XOR_eq_0 simp del: nat_diff_distrib)
  let ?n = "128 - nat (prefix_Bits p)"
  have k: "32 - ?n + ?n = 32" using assms(2) by linarith
  have "drop_bit (32 - ?n) (drop_bit ?n v) = drop_bit (32 - ?n) (drop_bit ?n w)"
    by (simp only: eq)
  then have "drop_bit 32 v = drop_bit 32 w" by (simp only: drop_bit_drop_bit k)
  with v(2) have "drop_bit 32 w = 0xFFFF" by simp
  then have "Is4In6 (Unmap a)" by (simp add: w)
  then show False by simp
qed

end
