(* ===== verification/Traffic_Filter.thy ===== *)
theory Traffic_Filter
  imports Netip Role_Store
begin

text \<open>
  Traffic exclusions: the rules of \<open>database/store_exclusions.go\<close>, their compilation by
  \<open>IPFilter.Refresh\<close> and their evaluation (\<open>blocking/cidr.go\<close>,
  \<open>blocking/ip_filter.go\<close>).  The mutex of the filter only makes the replacement of the four
  compiled tables atomic, which a function on the state is.
\<close>

type_synonym traffic_lib = "(addr, netprefix) golib"

subsection \<open>Rules\<close>

record IPExclusion =
  ex_ID :: uuid
  ex_Scope :: string
  ex_TeamID :: "uuid option"
  ex_SiteID :: "uuid option"
  ex_Type :: string
  ex_CIDR :: string
  ex_CountryCode :: string
  ex_UserAgent :: string
  ex_Path :: string
  ex_Description :: string
  ex_CreatedAt :: time
  ex_CreatedBy :: "uuid option"
  ex_Inherited :: bool

definition TrafficExclusionScopeInstance :: string where
  "TrafficExclusionScopeInstance = ''instance''"

definition TrafficExclusionScopeTeam :: string where
  "TrafficExclusionScopeTeam = ''team''"

definition TrafficExclusionScopeSite :: string where
  "TrafficExclusionScopeSite = ''site''"

lemmas scope_names = TrafficExclusionScopeInstance_def TrafficExclusionScopeTeam_def
  TrafficExclusionScopeSite_def

declare scope_names [filter_simps]

subsection \<open>Normalisation of rule values\<close>

text \<open>The printed form and the prefix of a plain IP address or a CIDR string; \<open>None\<close> is an error.\<close>

definition NormalizeCIDR :: "traffic_lib \<Rightarrow> string \<Rightarrow> (string \<times> netprefix) option" where
  "NormalizeCIDR L input =
     (let trimmed = TrimSpace input in
      if trimmed = [] then None
      else if CHR ''/'' \<in> set trimmed then
        (case netip_ParsePrefix L trimmed of
           None \<Rightarrow> None
         | Some ipNet \<Rightarrow> let ipNet = Masked ipNet in Some (prefix_String L ipNet, ipNet))
      else
        (case netip_ParseAddr L trimmed of
           None \<Rightarrow> None
         | Some ip \<Rightarrow>
             let ip = Unmap ip;
                 bits = (if Is4 ip then 32 else 128);
                 ipNet = PrefixFrom ip bits
             in Some (prefix_String L ipNet, ipNet)))"

definition parseIP :: "traffic_lib \<Rightarrow> string \<Rightarrow> addr option" where
  "parseIP L value =
     (let trimmed = TrimSpace value in
      if trimmed = [] then None
      else
        let trimmed = (case SplitHostPort L trimmed of Some (host, _) \<Rightarrow> host | None \<Rightarrow> trimmed)
        in map_option Unmap (netip_ParseAddr L trimmed))"

definition normalizeCountryCode :: "traffic_lib \<Rightarrow> string \<Rightarrow> string" where
  "normalizeCountryCode L value =
     (let code = ToUpper L (TrimSpace value) in if length code \<noteq> 2 then [] else code)"

text \<open>
  \<open>path.Clean\<close> on a rooted path: empty and dot segments vanish, a dot-dot segment removes the
  segment before it (none at the root), and the rest is joined below the root.
\<close>

fun clean_step :: "string list \<Rightarrow> string \<Rightarrow> string list" where
  "clean_step stack seg =
     (if seg = [] \<or> seg = ''.'' then stack else if seg = ''..'' then tl stack else seg # stack)"

definition clean_segments :: "string \<Rightarrow> string list" where
  "clean_segments p = rev (foldl clean_step [] (Split (CHR ''/'') p))"

definition rooted :: "string list \<Rightarrow> string" where
  "rooted segs = CHR ''/'' # Join (CHR ''/'') segs"

definition path_Clean :: "string \<Rightarrow> string" where
  "path_Clean p = rooted (clean_segments p)"

definition NormalizeExclusionPath :: "('a, 'p) golib \<Rightarrow> string \<Rightarrow> string option" where
  "NormalizeExclusionPath L value =
     (let trimmed = TrimSpace value in
      if trimmed = [] then None
      else case url_Parse L trimmed of
        None \<Rightarrow> None
      | Some parsed \<Rightarrow>
          let cleaned = EscapedPath parsed;
              cleaned = (if cleaned = [] \<and> (Host parsed \<noteq> [] \<or> prefix ''/'' trimmed)
                         then ''/'' else cleaned);
              cleaned = (if cleaned = [] then UrlPath parsed else cleaned)
          in if cleaned = [] then None
             else
               let cleaned = (if \<not> prefix ''/'' cleaned then CHR ''/'' # cleaned else cleaned);
                   cleaned = path_Clean cleaned
               in if cleaned = ''.'' \<or> cleaned = [] then None else Some cleaned)"

definition pathMatches :: "string \<Rightarrow> string \<Rightarrow> bool" where
  "pathMatches rule candidate \<longleftrightarrow>
     rule = ''/'' \<or> candidate = rule \<or> prefix (rule @ ''/'') candidate"

subsection \<open>Compiled rules\<close>

record compiledTrafficExclusions =
  cidrs :: "netprefix list"
  countries :: "string set"
  userAgents :: "string list"
  paths :: "string list"

definition newCompiledTrafficExclusions :: compiledTrafficExclusions where
  "newCompiledTrafficExclusions = \<lparr>cidrs = [], countries = {}, userAgents = [], paths = []\<rparr>"

definition appendCompiledRule ::
  "traffic_lib \<Rightarrow> compiledTrafficExclusions \<Rightarrow> IPExclusion \<Rightarrow> compiledTrafficExclusions" where
  "appendCompiledRule L compiled rule =
     (if ex_Type rule = ''cidr'' then
        (case NormalizeCIDR L (ex_CIDR rule) of
           Some (_, p) \<Rightarrow> compiled\<lparr>cidrs := cidrs compiled @ [p]\<rparr>
         | None \<Rightarrow> compiled)
      else if ex_Type rule = ''country'' then
        (let countryCode = normalizeCountryCode L (ex_CountryCode rule)
         in if countryCode \<noteq> [] then compiled\<lparr>countries := insert countryCode (countries compiled)\<rparr>
            else compiled)
      else if ex_Type rule = ''user_agent'' then
        (let userAgent = ToLower L (TrimSpace (ex_UserAgent rule))
         in if userAgent \<noteq> [] then compiled\<lparr>userAgents := userAgents compiled @ [userAgent]\<rparr>
            else compiled)
      else if ex_Type rule = ''path'' then
        (case NormalizeExclusionPath L (ex_Path rule) of
           Some exclusionPath \<Rightarrow> compiled\<lparr>paths := paths compiled @ [exclusionPath]\<rparr>
         | None \<Rightarrow> compiled)
      else compiled)"

record IPFilter =
  instanceRules :: compiledTrafficExclusions
  teamRules :: "uuid \<rightharpoonup> compiledTrafficExclusions"
  siteRules :: "uuid \<rightharpoonup> compiledTrafficExclusions"
  siteTeams :: "uuid \<rightharpoonup> uuid"

definition NewIPFilter :: IPFilter where
  "NewIPFilter = \<lparr>instanceRules = newCompiledTrafficExclusions, teamRules = Map.empty,
     siteRules = Map.empty, siteTeams = Map.empty\<rparr>"

text \<open>One iteration of the loop of \<open>Refresh\<close> over the rules.\<close>

definition append_keyed :: "traffic_lib \<Rightarrow> (uuid \<rightharpoonup> compiledTrafficExclusions) \<Rightarrow> uuid option
    \<Rightarrow> IPExclusion \<Rightarrow> (uuid \<rightharpoonup> compiledTrafficExclusions)" where
  "append_keyed L tbl key rule =
     (case key of
        None \<Rightarrow> tbl
      | Some k \<Rightarrow>
          let compiled = (case tbl k of Some c \<Rightarrow> c | None \<Rightarrow> newCompiledTrafficExclusions)
          in tbl(k \<mapsto> appendCompiledRule L compiled rule))"

definition compile_rule :: "traffic_lib \<Rightarrow> IPFilter \<Rightarrow> IPExclusion \<Rightarrow> IPFilter" where
  "compile_rule L f rule =
     (if ex_Scope rule = TrafficExclusionScopeInstance then
        f\<lparr>instanceRules := appendCompiledRule L (instanceRules f) rule\<rparr>
      else if ex_Scope rule = TrafficExclusionScopeTeam then
        f\<lparr>teamRules := append_keyed L (teamRules f) (ex_TeamID rule) rule\<rparr>
      else if ex_Scope rule = TrafficExclusionScopeSite then
        f\<lparr>siteRules := append_keyed L (siteRules f) (ex_SiteID rule) rule\<rparr>
      else f)"

text \<open>
  The results of the two queries are arguments: a failing query leaves the filter as it was.
\<close>

definition Refresh :: "traffic_lib \<Rightarrow> 'e + IPExclusion list
    \<Rightarrow> 'e + (uuid \<times> uuid) list \<Rightarrow> IPFilter \<Rightarrow> 'e option \<times> IPFilter" where
  "Refresh L list_rules list_mappings f =
     (case list_rules of
        Inl err \<Rightarrow> (Some err, f)
      | Inr rules \<Rightarrow>
          (case list_mappings of
             Inl err \<Rightarrow> (Some err, f)
           | Inr mappings \<Rightarrow>
               let compiled = foldl (compile_rule L) NewIPFilter rules;
                   teams = foldl (\<lambda>m (site, team). m(site \<mapsto> team)) Map.empty mappings
               in (None, compiled\<lparr>siteTeams := teams\<rparr>)))"

subsection \<open>Evaluation\<close>

record TrafficExclusionContext =
  tr_IP :: string
  tr_CountryCode :: string
  tr_UserAgent :: string
  tr_Path :: string

record BlockDecision =
  Blocked :: bool
  Reason :: string

definition not_blocked :: BlockDecision where
  "not_blocked = \<lparr>Blocked = False, Reason = []\<rparr>"

definition evaluateCompiledRules :: "compiledTrafficExclusions \<Rightarrow> string \<Rightarrow> addr option \<Rightarrow> string
    \<Rightarrow> string \<Rightarrow> string option \<Rightarrow> BlockDecision" where
  "evaluateCompiledRules rules scope ip countryCode userAgent exclusionPath =
     (if (case ip of Some a \<Rightarrow> list_ex (\<lambda>network. Contains network a) (cidrs rules) | None \<Rightarrow> False)
      then \<lparr>Blocked = True, Reason = scope @ ''_cidr''\<rparr>
      else if countryCode \<noteq> [] \<and> countryCode \<in> countries rules
      then \<lparr>Blocked = True, Reason = scope @ ''_country''\<rparr>
      else if userAgent \<noteq> [] \<and> list_ex (\<lambda>rule. sublist rule userAgent) (userAgents rules)
      then \<lparr>Blocked = True, Reason = scope @ ''_user_agent''\<rparr>
      else if (case exclusionPath of
                 Some p \<Rightarrow> list_ex (\<lambda>rule. pathMatches rule p) (paths rules) | None \<Rightarrow> False)
      then \<lparr>Blocked = True, Reason = scope @ ''_path''\<rparr>
      else not_blocked)"

definition EvaluateTraffic :: "traffic_lib \<Rightarrow> IPFilter \<Rightarrow> uuid \<Rightarrow> TrafficExclusionContext \<Rightarrow> BlockDecision" where
  "EvaluateTraffic L f siteID traffic =
     (let ip = parseIP L (tr_IP traffic);
          countryCode = normalizeCountryCode L (tr_CountryCode traffic);
          userAgent = ToLower L (TrimSpace (tr_UserAgent traffic));
          exclusionPath = NormalizeExclusionPath L (tr_Path traffic);
          eval = (\<lambda>rules scope. evaluateCompiledRules rules scope ip countryCode userAgent exclusionPath);
          instance_decision = eval (instanceRules f) ''instance'';
          team_decision =
            (case siteTeams f siteID of
               Some teamID \<Rightarrow> (case teamRules f teamID of
                   Some rules \<Rightarrow> eval rules ''team'' | None \<Rightarrow> not_blocked)
             | None \<Rightarrow> not_blocked);
          site_decision =
            (case siteRules f siteID of Some rules \<Rightarrow> eval rules ''site'' | None \<Rightarrow> not_blocked)
      in if Blocked instance_decision then instance_decision
         else if Blocked team_decision then team_decision
         else if Blocked site_decision then site_decision
         else not_blocked)"

definition Evaluate :: "traffic_lib \<Rightarrow> IPFilter \<Rightarrow> uuid \<Rightarrow> string \<Rightarrow> string \<Rightarrow> BlockDecision" where
  "Evaluate L f siteID ipStr countryCode = EvaluateTraffic L f siteID
     \<lparr>tr_IP = ipStr, tr_CountryCode = countryCode, tr_UserAgent = [], tr_Path = []\<rparr>"

definition IsBlocked :: "traffic_lib \<Rightarrow> IPFilter \<Rightarrow> uuid \<Rightarrow> string \<Rightarrow> bool" where
  "IsBlocked L f siteID ipStr = Blocked (Evaluate L f siteID ipStr [])"

subsection \<open>The compiled tables hold the rules\<close>

definition compiled_of :: "traffic_lib \<Rightarrow> IPExclusion list \<Rightarrow> compiledTrafficExclusions" where
  "compiled_of L rules = foldl (appendCompiledRule L) newCompiledTrafficExclusions rules"

lemma compiled_of_Nil: "compiled_of L [] = newCompiledTrafficExclusions"
  by (simp add: compiled_of_def)

lemma compiled_of_snoc: "compiled_of L (rules @ [r]) = appendCompiledRule L (compiled_of L rules) r"
  by (simp add: compiled_of_def)

definition keyed :: "(IPExclusion \<Rightarrow> uuid option) \<Rightarrow> string \<Rightarrow> uuid \<Rightarrow> IPExclusion \<Rightarrow> bool" where
  "keyed key scope k r \<longleftrightarrow> ex_Scope r = scope \<and> key r = Some k"

definition table_of :: "traffic_lib \<Rightarrow> IPExclusion list \<Rightarrow> compiledTrafficExclusions option" where
  "table_of L rules = (if rules = [] then None else Some (compiled_of L rules))"

lemma table_of_snoc: "table_of L (rules @ [r]) = Some (appendCompiledRule L
    (case table_of L rules of Some c \<Rightarrow> c | None \<Rightarrow> newCompiledTrafficExclusions) r)"
  by (simp add: table_of_def compiled_of_snoc compiled_of_Nil)

lemma append_keyed_apply: "append_keyed L tbl key r k =
    (if key = Some k then Some (appendCompiledRule L
        (case tbl k of Some c \<Rightarrow> c | None \<Rightarrow> newCompiledTrafficExclusions) r) else tbl k)"
  by (auto simp: append_keyed_def Let_def split: option.splits)

lemma compile_rules:
  "instanceRules (foldl (compile_rule L) NewIPFilter rules)
     = compiled_of L (filter (\<lambda>r. ex_Scope r = ''instance'') rules)"
  "teamRules (foldl (compile_rule L) NewIPFilter rules) t
     = table_of L (filter (keyed ex_TeamID ''team'' t) rules)"
  "siteRules (foldl (compile_rule L) NewIPFilter rules) s
     = table_of L (filter (keyed ex_SiteID ''site'' s) rules)"
proof (induction rules rule: rev_induct)
  case Nil
  { case 1 show ?case by (simp add: NewIPFilter_def compiled_of_Nil) }
  { case 2 show ?case by (simp add: NewIPFilter_def table_of_def) }
  { case 3 show ?case by (simp add: NewIPFilter_def table_of_def) }
next
  case (snoc r rules)
  { case 1 show ?case using snoc by (simp add: compile_rule_def compiled_of_snoc filter_simps) }
  { case 2 show ?case using snoc
      by (simp add: compile_rule_def table_of_snoc keyed_def append_keyed_apply filter_simps) }
  { case 3 show ?case using snoc
      by (simp add: compile_rule_def table_of_snoc keyed_def append_keyed_apply filter_simps) }
qed

lemma compiled_fields:
  "set (cidrs (compiled_of L rules))
     = {p. \<exists>r \<in> set rules. ex_Type r = ''cidr'' \<and> (\<exists>txt. NormalizeCIDR L (ex_CIDR r) = Some (txt, p))}"
  "countries (compiled_of L rules)
     = {c. c \<noteq> [] \<and> (\<exists>r \<in> set rules. ex_Type r = ''country'' \<and> normalizeCountryCode L (ex_CountryCode r) = c)}"
  "set (userAgents (compiled_of L rules))
     = {u. u \<noteq> [] \<and> (\<exists>r \<in> set rules. ex_Type r = ''user_agent'' \<and> ToLower L (TrimSpace (ex_UserAgent r)) = u)}"
  "set (paths (compiled_of L rules))
     = {p. \<exists>r \<in> set rules. ex_Type r = ''path'' \<and> NormalizeExclusionPath L (ex_Path r) = Some p}"
proof (induction rules rule: rev_induct)
  case Nil
  { case 1 show ?case by (simp add: compiled_of_Nil newCompiledTrafficExclusions_def) }
  { case 2 show ?case by (simp add: compiled_of_Nil newCompiledTrafficExclusions_def) }
  { case 3 show ?case by (simp add: compiled_of_Nil newCompiledTrafficExclusions_def) }
  { case 4 show ?case by (simp add: compiled_of_Nil newCompiledTrafficExclusions_def) }
next
  case (snoc r rules)
  { case 1 show ?case using snoc(1)
      by (auto simp: compiled_of_snoc appendCompiledRule_def Let_def split: option.splits) }
  { case 2 show ?case using snoc(2)
      by (auto simp: compiled_of_snoc appendCompiledRule_def Let_def split: option.splits) }
  { case 3 show ?case using snoc(3)
      by (auto simp: compiled_of_snoc appendCompiledRule_def Let_def split: option.splits) }
  { case 4 show ?case using snoc(4)
      by (auto simp: compiled_of_snoc appendCompiledRule_def Let_def split: option.splits) }
qed

subsection \<open>What one rule says\<close>

text \<open>Whether the traffic matches the rule, read off the stored rule itself.\<close>

definition rule_hits :: "traffic_lib \<Rightarrow> TrafficExclusionContext \<Rightarrow> IPExclusion \<Rightarrow> bool" where
  "rule_hits L t r \<longleftrightarrow>
     (if ex_Type r = ''cidr'' then
        (\<exists>txt p a. NormalizeCIDR L (ex_CIDR r) = Some (txt, p) \<and> parseIP L (tr_IP t) = Some a \<and> Contains p a)
      else if ex_Type r = ''country'' then
        normalizeCountryCode L (ex_CountryCode r) \<noteq> []
        \<and> normalizeCountryCode L (tr_CountryCode t) = normalizeCountryCode L (ex_CountryCode r)
      else if ex_Type r = ''user_agent'' then
        ToLower L (TrimSpace (ex_UserAgent r)) \<noteq> []
        \<and> sublist (ToLower L (TrimSpace (ex_UserAgent r))) (ToLower L (TrimSpace (tr_UserAgent t)))
      else if ex_Type r = ''path'' then
        (\<exists>rule p. NormalizeExclusionPath L (ex_Path r) = Some rule
           \<and> NormalizeExclusionPath L (tr_Path t) = Some p \<and> pathMatches rule p)
      else False)"

definition rule_kinds :: "string list" where
  "rule_kinds = [''cidr'', ''country'', ''user_agent'', ''path'']"

definition hit_of_kind :: "traffic_lib \<Rightarrow> TrafficExclusionContext \<Rightarrow> IPExclusion list \<Rightarrow> string \<Rightarrow> bool" where
  "hit_of_kind L t rules k \<longleftrightarrow> (\<exists>r \<in> set rules. ex_Type r = k \<and> rule_hits L t r)"

definition reason_of :: "traffic_lib \<Rightarrow> TrafficExclusionContext \<Rightarrow> IPExclusion list \<Rightarrow> string \<Rightarrow> string option" where
  "reason_of L t rules scope =
     map_option (\<lambda>k. scope @ ''_'' @ k) (find (hit_of_kind L t rules) rule_kinds)"

definition decision :: "string option \<Rightarrow> BlockDecision" where
  "decision r = (case r of Some why \<Rightarrow> \<lparr>Blocked = True, Reason = why\<rparr> | None \<Rightarrow> not_blocked)"

lemma decision_simps [simp]:
  "Blocked (decision r) = (r \<noteq> None)" "Reason (decision r) = (case r of Some why \<Rightarrow> why | None \<Rightarrow> [])"
  by (auto simp: decision_def not_blocked_def split: option.splits)

lemma hit_of_kind_compiled:
  "hit_of_kind L t rules ''cidr'' \<longleftrightarrow> (case parseIP L (tr_IP t) of
     Some a \<Rightarrow> list_ex (\<lambda>n. Contains n a) (cidrs (compiled_of L rules)) | None \<Rightarrow> False)"
  "hit_of_kind L t rules ''country'' \<longleftrightarrow> normalizeCountryCode L (tr_CountryCode t) \<noteq> []
     \<and> normalizeCountryCode L (tr_CountryCode t) \<in> countries (compiled_of L rules)"
  "hit_of_kind L t rules ''user_agent'' \<longleftrightarrow> ToLower L (TrimSpace (tr_UserAgent t)) \<noteq> []
     \<and> list_ex (\<lambda>r. sublist r (ToLower L (TrimSpace (tr_UserAgent t)))) (userAgents (compiled_of L rules))"
  "hit_of_kind L t rules ''path'' \<longleftrightarrow> (case NormalizeExclusionPath L (tr_Path t) of
     Some p \<Rightarrow> list_ex (\<lambda>r. pathMatches r p) (paths (compiled_of L rules)) | None \<Rightarrow> False)"
proof -
  have kind: "hit_of_kind L t rules k \<longleftrightarrow> (\<exists>r. r \<in> set rules \<and> ex_Type r = k \<and> rule_hits L t r)" for k
    by (auto simp: hit_of_kind_def)
  show "hit_of_kind L t rules ''cidr'' \<longleftrightarrow> (case parseIP L (tr_IP t) of
      Some a \<Rightarrow> list_ex (\<lambda>n. Contains n a) (cidrs (compiled_of L rules)) | None \<Rightarrow> False)"
    by (auto simp: kind rule_hits_def list_ex_iff compiled_fields split: option.splits)
  show "hit_of_kind L t rules ''country'' \<longleftrightarrow> normalizeCountryCode L (tr_CountryCode t) \<noteq> []
      \<and> normalizeCountryCode L (tr_CountryCode t) \<in> countries (compiled_of L rules)"
    by (simp add: kind rule_hits_def compiled_fields cong: conj_cong) metis
  show "hit_of_kind L t rules ''user_agent'' \<longleftrightarrow> ToLower L (TrimSpace (tr_UserAgent t)) \<noteq> []
      \<and> list_ex (\<lambda>r. sublist r (ToLower L (TrimSpace (tr_UserAgent t)))) (userAgents (compiled_of L rules))"
    by (auto simp: kind rule_hits_def list_ex_iff compiled_fields)
  show "hit_of_kind L t rules ''path'' \<longleftrightarrow> (case NormalizeExclusionPath L (tr_Path t) of
      Some p \<Rightarrow> list_ex (\<lambda>r. pathMatches r p) (paths (compiled_of L rules)) | None \<Rightarrow> False)"
    by (auto simp: kind rule_hits_def list_ex_iff compiled_fields split: option.splits)
qed

lemma evaluate_compiled:
  "evaluateCompiledRules (compiled_of L rules) scope (parseIP L (tr_IP t))
     (normalizeCountryCode L (tr_CountryCode t)) (ToLower L (TrimSpace (tr_UserAgent t)))
     (NormalizeExclusionPath L (tr_Path t)) = decision (reason_of L t rules scope)"
  by (simp add: evaluateCompiledRules_def reason_of_def rule_kinds_def decision_def
      flip: hit_of_kind_compiled)

lemma table_of_eval:
  "(case table_of L rules of Some c \<Rightarrow> evaluateCompiledRules c scope (parseIP L (tr_IP t))
       (normalizeCountryCode L (tr_CountryCode t)) (ToLower L (TrimSpace (tr_UserAgent t)))
       (NormalizeExclusionPath L (tr_Path t)) | None \<Rightarrow> not_blocked)
   = decision (reason_of L t rules scope)"
  by (simp add: table_of_def evaluate_compiled)
    (simp add: reason_of_def rule_kinds_def hit_of_kind_def decision_def)

lemma foldl_map_upd: "foldl (\<lambda>m (k, v). m(k \<mapsto> v)) m0 xs = m0 ++ map_of (rev xs)"
  by (induction xs arbitrary: m0) (auto simp: fun_eq_iff map_add_def split: option.splits)

text \<open>
  The rules that apply to a site: all instance rules, the rules of the team the last mapping gives
  the site, and the site's own rules; the reason of the first scope that has one decides.
\<close>

definition exclusion_reason :: "traffic_lib \<Rightarrow> IPExclusion list \<Rightarrow> (uuid \<times> uuid) list \<Rightarrow> uuid
    \<Rightarrow> TrafficExclusionContext \<Rightarrow> string option" where
  "exclusion_reason L rules mappings site t = first_some
     [reason_of L t (filter (\<lambda>r. ex_Scope r = ''instance'') rules) ''instance'',
      (case map_of (rev mappings) site of
         Some team \<Rightarrow> reason_of L t (filter (keyed ex_TeamID ''team'' team) rules) ''team''
       | None \<Rightarrow> None),
      reason_of L t (filter (keyed ex_SiteID ''site'' site) rules) ''site'']"

text \<open>Some rule that applies to the site hits the traffic.\<close>

definition rule_applies :: "(uuid \<times> uuid) list \<Rightarrow> uuid \<Rightarrow> IPExclusion \<Rightarrow> bool" where
  "rule_applies mappings site r \<longleftrightarrow> ex_Scope r = ''instance''
     \<or> (\<exists>team. map_of (rev mappings) site = Some team \<and> keyed ex_TeamID ''team'' team r)
     \<or> keyed ex_SiteID ''site'' site r"

lemma reason_of_Some: "reason_of L t rules scope \<noteq> None \<longleftrightarrow> (\<exists>r \<in> set rules. rule_hits L t r)"
proof -
  have "rule_hits L t r \<Longrightarrow> ex_Type r \<in> set rule_kinds" for r
    by (auto simp: rule_hits_def rule_kinds_def split: if_splits)
  then show ?thesis
    by (simp add: reason_of_def find_None_iff hit_of_kind_def) blast
qed

lemma exclusion_reason_Some:
  "exclusion_reason L rules mappings site t \<noteq> None
     \<longleftrightarrow> (\<exists>r \<in> set rules. rule_applies mappings site r \<and> rule_hits L t r)"
proof -
  have "exclusion_reason L rules mappings site t \<noteq> None \<longleftrightarrow>
      reason_of L t (filter (\<lambda>r. ex_Scope r = ''instance'') rules) ''instance'' \<noteq> None
    \<or> (\<exists>team. map_of (rev mappings) site = Some team
         \<and> reason_of L t (filter (keyed ex_TeamID ''team'' team) rules) ''team'' \<noteq> None)
    \<or> reason_of L t (filter (keyed ex_SiteID ''site'' site) rules) ''site'' \<noteq> None"
    by (simp add: exclusion_reason_def split: option.splits)
  then show ?thesis unfolding reason_of_Some rule_applies_def by auto
qed

lemma Refresh_decision:
  "EvaluateTraffic L (snd (Refresh L (Inr rules) (Inr mappings) f)) site t
     = decision (exclusion_reason L rules mappings site t)"
proof -
  have f': "snd (Refresh L (Inr rules) (Inr mappings) f)
      = (foldl (compile_rule L) NewIPFilter rules)\<lparr>siteTeams := map_of (rev mappings)\<rparr>"
    by (auto simp: Refresh_def Let_def foldl_map_upd)
  show ?thesis
    unfolding f'
    by (cases "map_of (rev mappings) site")
      (simp_all add: EvaluateTraffic_def Let_def compile_rules evaluate_compiled table_of_eval
        exclusion_reason_def not_blocked_def decision_def split: option.splits)
qed

text \<open>
  C8.  The compiled filter implements the stored rules: after a refresh, the decision on any
  traffic is the one read off the rules themselves, instance rules before the rules of the site's
  team before the site's rules, and within a scope networks before countries before user agents
  before paths; a failed query changes nothing.
\<close>

theorem refresh_implements_rules:
  "snd (Refresh L (Inr rules) (Inl err) f) = f \<and> snd (Refresh L (Inl err) q f) = f
   \<and> EvaluateTraffic L (snd (Refresh L (Inr rules) (Inr mappings) f)) site t
     = decision (exclusion_reason L rules mappings site t)"
  by (simp add: Refresh_decision) (simp add: Refresh_def)

subsection \<open>Paths as lists of segments\<close>

definition segment :: "string \<Rightarrow> bool" where
  "segment s \<longleftrightarrow> s \<noteq> [] \<and> s \<noteq> ''.'' \<and> s \<noteq> ''..'' \<and> CHR ''/'' \<notin> set s"

lemma Split_append: "Split sep (p @ sep # t) = Split sep p @ Split sep t"
  by (induction p) (auto split: list.splits)

lemma Split_noop: "sep \<notin> set p \<Longrightarrow> Split sep p = [p]"
  by (induction p) auto

lemma Split_Join: "ss \<noteq> [] \<Longrightarrow> \<forall>s \<in> set ss. sep \<notin> set s \<Longrightarrow> Split sep (Join sep ss) = ss"
  by (induction ss rule: Join.induct) (auto simp: Split_noop Split_append)

lemma Join_append: "xs \<noteq> [] \<Longrightarrow> ys \<noteq> [] \<Longrightarrow> Join sep (xs @ ys) = Join sep xs @ sep # Join sep ys"
proof (induction sep xs rule: Join.induct)
  case (2 sep p)
  then show ?case by (cases ys) auto
qed auto

lemma Split_rooted:
  "list_all segment ss \<Longrightarrow> Split (CHR ''/'') (rooted ss) = [] # (if ss = [] then [[]] else ss)"
  by (auto simp: rooted_def Split_Join segment_def list_all_iff)

lemma rooted_inj: "list_all segment xs \<Longrightarrow> list_all segment ys \<Longrightarrow> rooted xs = rooted ys \<longleftrightarrow> xs = ys"
proof
  assume h: "list_all segment xs" "list_all segment ys" "rooted xs = rooted ys"
  then have "(if xs = [] then [[]] else xs) = (if ys = [] then [[]] else ys)"
    using Split_rooted [OF h(1)] Split_rooted [OF h(2)] by simp
  with h(1,2) show "xs = ys" by (auto simp: segment_def split: if_splits)
qed simp

lemma rooted_below:
  assumes "list_all segment xs" and "list_all segment ys" and "xs \<noteq> []"
  shows "prefix (rooted xs @ ''/'') (rooted ys) \<longleftrightarrow> strict_prefix xs ys"
proof
  assume "prefix (rooted xs @ ''/'') (rooted ys)"
  then obtain t where "rooted ys = rooted xs @ CHR ''/'' # t" by (auto simp: prefix_def)
  then have "Split (CHR ''/'') (rooted ys) = Split (CHR ''/'') (rooted xs) @ Split (CHR ''/'') t"
    by (simp add: Split_append)
  then have eq: "(if ys = [] then [[]] else ys) = xs @ Split (CHR ''/'') t"
    using assms by (simp add: Split_rooted)
  have "Split (CHR ''/'') t \<noteq> []" by simp
  then have "xs @ Split (CHR ''/'') t \<noteq> [[]]" using assms(3) by (cases xs) auto
  with eq have "ys = xs @ Split (CHR ''/'') t" by (simp split: if_splits)
  then show "strict_prefix xs ys" by (simp add: strict_prefix_def)
next
  assume "strict_prefix xs ys"
  then obtain z zs where "ys = xs @ z # zs" by (elim strict_prefixE')
  then show "prefix (rooted xs @ ''/'') (rooted ys)"
    using assms(3) by (simp add: rooted_def Join_append)
qed

lemma clean_step_segment:
  "list_all segment st \<Longrightarrow> CHR ''/'' \<notin> set seg \<Longrightarrow> list_all segment (clean_step st seg)"
  by (cases st) (auto simp: segment_def)

declare clean_step.simps [simp del]

lemma clean_foldl_segment:
  "list_all segment st \<Longrightarrow> \<forall>s \<in> set ss. CHR ''/'' \<notin> set s
     \<Longrightarrow> list_all segment (foldl clean_step st ss)"
  by (induction ss arbitrary: st) (auto simp: clean_step_segment)

lemma clean_segments_segment: "list_all segment (clean_segments p)"
  unfolding clean_segments_def
  using clean_foldl_segment [of "[]" "Split (CHR ''/'') p"] Split_no_sep [of _ "CHR ''/''" p]
  by (auto simp: list_all_iff)

lemma clean_foldl_id: "list_all segment ss \<Longrightarrow> foldl clean_step st ss = rev ss @ st"
  by (induction ss arbitrary: st) (auto simp: clean_step.simps segment_def)

lemma clean_segments_rooted: "list_all segment ss \<Longrightarrow> clean_segments (rooted ss) = ss"
  by (simp add: clean_segments_def Split_rooted clean_foldl_id) (simp add: clean_step.simps clean_foldl_id)

lemma NormalizeExclusionPath_clean:
  "NormalizeExclusionPath L v = Some p \<Longrightarrow> \<exists>q. p = path_Clean q"
  by (auto simp: NormalizeExclusionPath_def Let_def split: if_splits option.splits)

lemma NormalizeExclusionPath_rooted:
  assumes "NormalizeExclusionPath L v = Some p"
  shows "list_all segment (clean_segments p)" and "p = rooted (clean_segments p)"
  using NormalizeExclusionPath_clean [OF assms]
  by (auto simp: path_Clean_def clean_segments_rooted clean_segments_segment)

text \<open>
   A path exclusion covers exactly a subtree: the normalised form of a rule or of a request
  path is rooted and free of empty, dot and dot-dot segments, and a rule matches a candidate exactly
  when the rule's segments are an initial part of the candidate's, so that \<open>/admin\<close> matches
  \<open>/admin/x\<close> but not \<open>/administrator\<close>.
\<close>

theorem path_exclusion_is_subtree:
  assumes "NormalizeExclusionPath L v = Some rule" and "NormalizeExclusionPath L' w = Some cand"
  shows "rule = rooted (clean_segments rule) \<and> list_all segment (clean_segments rule)
     \<and> path_Clean rule = rule
     \<and> pathMatches rule cand = prefix (clean_segments rule) (clean_segments cand)"
proof -
  let ?r = "clean_segments rule" and ?c = "clean_segments cand"
  have r: "list_all segment ?r" "rule = rooted ?r" and c: "list_all segment ?c" "cand = rooted ?c"
    using assms NormalizeExclusionPath_rooted by blast+
  have "pathMatches rule cand \<longleftrightarrow> ?r = [] \<or> ?c = ?r \<or> ?r \<noteq> [] \<and> strict_prefix ?r ?c"
  proof (cases "?r = []")
    case True
    with r(2) show ?thesis by (simp add: pathMatches_def rooted_def)
  next
    case False
    then have "rule \<noteq> ''/''"
      using rooted_inj [OF r(1), of "[]"] r(2) by (metis Join.simps(1) list.pred_inject(1) rooted_def)
    moreover have "cand = rule \<longleftrightarrow> ?c = ?r" using rooted_inj [OF c(1) r(1)] r(2) c(2) by metis
    moreover have "prefix (rule @ ''/'') cand \<longleftrightarrow> strict_prefix ?r ?c"
      using rooted_below [OF r(1) c(1) False] r(2) c(2) by metis
    ultimately show ?thesis using False by (simp add: pathMatches_def)
  qed
  then have "pathMatches rule cand = prefix ?r ?c" by (auto simp: strict_prefix_def)
  with r show ?thesis by (simp add: path_Clean_def flip: r(2))
qed

text \<open>A library for the witnesses that knows two networks, three addresses and two paths.\<close>

definition sample_net :: "string \<Rightarrow> netprefix option" where
  "sample_net s = (if s = ''10.0.0.0/8'' then Some (PrefixFrom (V4 0x0A000000) 8)
     else if s = ''::ffff:10.0.0.0/104'' then Some (PrefixFrom (V6 0xFFFF0A000000 []) 104) else None)"

definition sample_addr :: "string \<Rightarrow> addr option" where
  "sample_addr s = (if s = ''10.1.2.3'' then Some (V4 0x0A010203)
     else if s = ''198.51.100.7'' then Some (V4 0xC6336407)
     else if s = ''203.0.113.9'' then Some (V4 0xCB007109) else None)"

definition sample_url :: "string \<Rightarrow> url option" where
  "sample_url s = (if s = ''/admin/'' \<or> s = ''/administrator'' \<or> s = ''/admin/x'' then
     Some \<lparr>Scheme = [], HasUser = False, Host = [], Hostname = [], UrlPath = s, EscapedPath = s,
       Fragment = []\<rparr> else None)"

definition sample_lib :: traffic_lib where
  "sample_lib = \<lparr>unicode_lower = map lower_byte, unicode_upper = (\<lambda>s. s), unicode_EqualFold = (=), sql_unicode_lower = (\<lambda>s. s), url_Parse = sample_url,
     netip_ParseAddr = sample_addr, netip_ParsePrefix = sample_net, SplitHostPort = (\<lambda>_. None),
     addr_String = (\<lambda>a. if a = V4 0x0A010203 then ''10.1.2.3'' else ''198.51.100.7''),
     prefix_String = (\<lambda>p. if prefix_Bits p = 8 then ''10.0.0.0/8'' else ''::ffff:10.0.0.0/104'')\<rparr>"

lemmas sample_lib_eval = sample_lib_def sample_net_def sample_addr_def sample_url_def
  TrimSpace_graphic graphic_def

theorem path_exclusion_is_subtree_witness:
  "\<exists>rule cand other. NormalizeExclusionPath sample_lib ''/admin/'' = Some rule
     \<and> NormalizeExclusionPath sample_lib ''/admin/x'' = Some cand
     \<and> NormalizeExclusionPath sample_lib ''/administrator'' = Some other
     \<and> pathMatches rule cand \<and> \<not> pathMatches rule other"
proof -
  have n: "NormalizeExclusionPath sample_lib ''/admin/'' = Some ''/admin''"
    "NormalizeExclusionPath sample_lib ''/admin/x'' = Some ''/admin/x''"
    "NormalizeExclusionPath sample_lib ''/administrator'' = Some ''/administrator''"
    by (simp_all add: NormalizeExclusionPath_def sample_lib_eval Let_def path_Clean_def
        clean_segments_def clean_step.simps rooted_def)
  have "pathMatches ''/admin'' ''/admin/x'' = prefix (clean_segments ''/admin'') (clean_segments ''/admin/x'')"
    using path_exclusion_is_subtree [OF n(1,2)] by blast
  moreover have "pathMatches ''/admin'' ''/administrator''
      = prefix (clean_segments ''/admin'') (clean_segments ''/administrator'')"
    using path_exclusion_is_subtree [OF n(1,3)] by blast
  ultimately show ?thesis using n by (simp add: clean_segments_def clean_step.simps)
qed

text \<open>The documented contract of \<open>Prefix.String\<close>: a valid prefix prints to a text that parses back to it.\<close>

definition prefix_text :: "traffic_lib \<Rightarrow> netprefix \<Rightarrow> bool" where
  "prefix_text L p \<longleftrightarrow> CHR ''/'' \<in> set (prefix_String L p)
     \<and> TrimSpace (prefix_String L p) = prefix_String L p
     \<and> netip_ParsePrefix L (prefix_String L p) = Some p"

text \<open>
  C9.  Network rules are canonical: \<open>NormalizeCIDR\<close> returns a masked prefix and its text, is
  idempotent on that text, keeps the set of addresses of a prefix it is given, and turns a plain
  address into the prefix that contains that (unmapped) address and no other.
\<close>

theorem normalize_cidr_canonical:
  assumes "NormalizeCIDR L s = Some (txt, p)" and "prefix_text L p"
  shows "txt = prefix_String L p \<and> Masked p = p \<and> NormalizeCIDR L txt = Some (txt, p)
     \<and> (\<exists>q. CHR ''/'' \<in> set (TrimSpace s) \<and> netip_ParsePrefix L (TrimSpace s) = Some q
            \<and> (\<forall>a. Contains p a = Contains q a)
        \<or> (\<exists>b. CHR ''/'' \<notin> set (TrimSpace s) \<and> netip_ParseAddr L (TrimSpace s) = Some b
            \<and> (\<forall>a. Contains p a \<longleftrightarrow> \<not> hasZone a \<and> a = withoutZone (Unmap b))))"
proof -
  let ?t = "TrimSpace s"
  have ne: "?t \<noteq> []" using assms(1) by (auto simp: NormalizeCIDR_def)
  have full: "PrefixFrom a (if Is4 a then 32 else 128) = PrefixFrom a (BitLen a)" for a
    by (cases a) auto
  have shape: "Masked p = p \<and> txt = prefix_String L p
     \<and> (\<exists>q. CHR ''/'' \<in> set ?t \<and> netip_ParsePrefix L ?t = Some q \<and> p = Masked q
        \<or> (\<exists>b. CHR ''/'' \<notin> set ?t \<and> netip_ParseAddr L ?t = Some b
             \<and> p = PrefixFrom (Unmap b) (BitLen (Unmap b))))"
    using assms(1) ne
    by (auto simp: NormalizeCIDR_def Let_def full Masked_PrefixFrom_full
        split: if_splits option.splits)
  then have "NormalizeCIDR L txt = Some (txt, p)"
    using assms(2) by (auto simp: NormalizeCIDR_def prefix_text_def Let_def)
  with shape show ?thesis by (auto simp: Contains_PrefixFrom_full)
qed

theorem normalize_cidr_canonical_witness:
  "NormalizeCIDR sample_lib ''10.0.0.0/8'' = Some (''10.0.0.0/8'', PrefixFrom (V4 0x0A000000) 8)
   \<and> Masked (PrefixFrom (V4 0x0A000000) 8) = PrefixFrom (V4 0x0A000000) 8"
proof -
  let ?p = "PrefixFrom (V4 0x0A000000) 8"
  have p: "Masked ?p = ?p"
    by (simp add: Masked_def PrefixFrom_def prefix_IsValid_def)
  then have n: "NormalizeCIDR sample_lib ''10.0.0.0/8'' = Some (''10.0.0.0/8'', ?p)"
    by (simp add: NormalizeCIDR_def sample_lib_eval Let_def) (simp add: PrefixFrom_def)
  have "prefix_text sample_lib ?p"
    by (simp add: prefix_text_def sample_lib_eval) (simp add: PrefixFrom_def TrimSpace_graphic graphic_def)
  from normalize_cidr_canonical [OF n this] n show ?thesis by blast
qed

text \<open>
  A network rule written in IPv4-mapped IPv6 form with 96 or more bits is accepted but hits
  no traffic at all, since client addresses are unmapped before they are compared.
\<close>

theorem mapped_network_rule_inert:
  assumes "NormalizeCIDR L (ex_CIDR r) = Some (txt, p)" and "ex_Type r = ''cidr''"
    and "CHR ''/'' \<in> set (TrimSpace (ex_CIDR r))"
    and "netip_ParsePrefix L (TrimSpace (ex_CIDR r)) = Some q"
    and "Is4In6 (prefix_Addr q)" and "96 \<le> prefix_Bits q"
  shows "\<not> rule_hits L t r"
proof -
  have "p = Masked q"
    using assms(1,3,4) by (auto simp: NormalizeCIDR_def Let_def split: if_splits)
  then have "\<not> Contains p (Unmap a)" for a
    using Contains_mapped_prefix [OF assms(5,6)] by simp
  then show ?thesis
    using assms(1,2) by (auto simp: rule_hits_def parseIP_def Let_def split: if_splits)
qed

theorem mapped_network_rule_inert_witness:
  "\<exists>txt p. NormalizeCIDR sample_lib ''::ffff:10.0.0.0/104'' = Some (txt, p)
     \<and> (\<forall>t. \<not> rule_hits sample_lib t \<lparr>ex_ID = 1, ex_Scope = ''instance'', ex_TeamID = None,
          ex_SiteID = None, ex_Type = ''cidr'', ex_CIDR = ''::ffff:10.0.0.0/104'',
          ex_CountryCode = [], ex_UserAgent = [], ex_Path = [], ex_Description = [],
          ex_CreatedAt = 0, ex_CreatedBy = None, ex_Inherited = False\<rparr>)"
proof -
  let ?p = "PrefixFrom (V6 0xFFFF0A000000 []) 104"
  have n: "NormalizeCIDR sample_lib ''::ffff:10.0.0.0/104''
      = Some (prefix_String sample_lib (Masked ?p), Masked ?p)"
    by (simp add: NormalizeCIDR_def sample_lib_eval Let_def)
  have q: "netip_ParsePrefix sample_lib (TrimSpace ''::ffff:10.0.0.0/104'') = Some ?p"
    "CHR ''/'' \<in> set (TrimSpace ''::ffff:10.0.0.0/104'')"
    by (simp_all add: sample_lib_eval)
  have "\<not> rule_hits sample_lib t r" if "ex_CIDR r = ''::ffff:10.0.0.0/104''" "ex_Type r = ''cidr''" for t r
    by (rule mapped_network_rule_inert [where q = ?p]) (simp_all add: that n q, simp_all add: PrefixFrom_def)
  with n show ?thesis by auto
qed

end
