(* ===== verification/Exclusion_Store.thy ===== *)
theory Exclusion_Store
  imports Traffic_Filter
begin

text \<open>
  The table of traffic exclusions (\<open>database/store_exclusions.go\<close> and the table's constraints
  in its migration): creation, listing and deletion of rules, and the mapping of sites to teams the
  filter loads with them.  A row keeps a nullable column as an option.  What the database decides
  by itself (whether the referenced team, site and user exist and whether the statement runs) is
  the argument \<open>accepts\<close>.
\<close>

record exclusion_row =
  xr_id :: uuid
  xr_scope :: string
  xr_tenant_id :: "uuid option"
  xr_site_id :: "uuid option"
  xr_rule_type :: string
  xr_cidr :: "string option"
  xr_country_code :: "string option"
  xr_user_agent :: "string option"
  xr_path :: "string option"
  xr_description :: "string option"
  xr_created_at :: time
  xr_created_by :: "uuid option"

record TrafficExclusionValues =
  va_Type :: string
  va_CIDR :: string
  va_CountryCode :: string
  va_UserAgent :: string
  va_Path :: string
  va_Description :: string

text \<open>The two CHECK constraints of the table.\<close>

definition scope_check :: "exclusion_row \<Rightarrow> bool" where
  "scope_check r \<longleftrightarrow>
     xr_scope r = ''instance'' \<and> xr_tenant_id r = None \<and> xr_site_id r = None
   \<or> xr_scope r = ''team'' \<and> xr_tenant_id r \<noteq> None \<and> xr_site_id r = None
   \<or> xr_scope r = ''site'' \<and> xr_tenant_id r = None \<and> xr_site_id r \<noteq> None"

definition type_check :: "exclusion_row \<Rightarrow> bool" where
  "type_check r \<longleftrightarrow>
     xr_rule_type r = ''cidr'' \<and> xr_cidr r \<noteq> None \<and> xr_country_code r = None
       \<and> xr_user_agent r = None \<and> xr_path r = None
   \<or> xr_rule_type r = ''country'' \<and> xr_cidr r = None \<and> xr_country_code r \<noteq> None
       \<and> xr_user_agent r = None \<and> xr_path r = None
   \<or> xr_rule_type r = ''user_agent'' \<and> xr_cidr r = None \<and> xr_country_code r = None
       \<and> xr_user_agent r \<noteq> None \<and> xr_path r = None
   \<or> xr_rule_type r = ''path'' \<and> xr_cidr r = None \<and> xr_country_code r = None
       \<and> xr_user_agent r = None \<and> xr_path r \<noteq> None"

definition nullableString :: "string \<Rightarrow> string option" where
  "nullableString value = (let trimmed = TrimSpace value in if trimmed = [] then None else Some trimmed)"

definition nullableUUID :: "uuid \<Rightarrow> uuid option" where
  "nullableUUID value = (if value = uuid_Nil then None else Some value)"

definition storedCountryCode :: "('a, 'p) golib \<Rightarrow> string \<Rightarrow> string" where
  "storedCountryCode L value = ToUpper L (TrimSpace value)"

text \<open>The new identifier and the current time are arguments.\<close>

definition createTrafficExclusion :: "('a, 'p) golib \<Rightarrow> (exclusion_row \<Rightarrow> bool) \<Rightarrow> uuid \<Rightarrow> time
    \<Rightarrow> string \<Rightarrow> uuid \<Rightarrow> TrafficExclusionValues \<Rightarrow> uuid \<Rightarrow> exclusion_row list
    \<Rightarrow> (string + IPExclusion) \<times> exclusion_row list" where
  "createTrafficExclusion L accepts new_id now scope ownerID vals createdBy tbl =
     (let rule = \<lparr>ex_ID = new_id, ex_Scope = scope, ex_TeamID = None, ex_SiteID = None,
            ex_Type = TrimSpace (va_Type vals), ex_CIDR = TrimSpace (va_CIDR vals),
            ex_CountryCode = storedCountryCode L (va_CountryCode vals),
            ex_UserAgent = TrimSpace (va_UserAgent vals), ex_Path = TrimSpace (va_Path vals),
            ex_Description = TrimSpace (va_Description vals), ex_CreatedAt = now,
            ex_CreatedBy = None, ex_Inherited = False\<rparr>;
          scoped =
            (if scope = TrafficExclusionScopeInstance then Inr rule
             else if scope = TrafficExclusionScopeTeam then
               (if ownerID = uuid_Nil then Inl ''team exclusion requires team id''
                else Inr (rule\<lparr>ex_TeamID := Some ownerID\<rparr>))
             else if scope = TrafficExclusionScopeSite then
               (if ownerID = uuid_Nil then Inl ''site exclusion requires site id''
                else Inr (rule\<lparr>ex_SiteID := Some ownerID\<rparr>))
             else Inl ''invalid traffic exclusion scope'')
      in case scoped of
           Inl err \<Rightarrow> (Inl err, tbl)
         | Inr rule \<Rightarrow>
             let rule = rule\<lparr>ex_CreatedBy := nullableUUID createdBy\<rparr>;
                 row = \<lparr>xr_id = ex_ID rule, xr_scope = ex_Scope rule, xr_tenant_id = ex_TeamID rule,
                   xr_site_id = ex_SiteID rule, xr_rule_type = ex_Type rule,
                   xr_cidr = nullableString (ex_CIDR rule),
                   xr_country_code = nullableString (ex_CountryCode rule),
                   xr_user_agent = nullableString (ex_UserAgent rule),
                   xr_path = nullableString (ex_Path rule),
                   xr_description = nullableString (ex_Description rule),
                   xr_created_at = ex_CreatedAt rule, xr_created_by = nullableUUID createdBy\<rparr>
             in if accepts row \<and> scope_check row \<and> type_check row
                   \<and> new_id \<notin> set (map xr_id tbl)
                then (Inr rule, tbl @ [row])
                else (Inl ''failed to create traffic exclusion'', tbl))"

definition scanTrafficExclusion :: "('a, 'p) golib \<Rightarrow> exclusion_row \<Rightarrow> IPExclusion" where
  "scanTrafficExclusion L r =
     (let text = (\<lambda>c. TrimSpace (case c of Some v \<Rightarrow> v | None \<Rightarrow> [])) in
      \<lparr>ex_ID = xr_id r, ex_Scope = TrimSpace (xr_scope r), ex_TeamID = xr_tenant_id r,
       ex_SiteID = xr_site_id r, ex_Type = TrimSpace (xr_rule_type r), ex_CIDR = text (xr_cidr r),
       ex_CountryCode = storedCountryCode L (case xr_country_code r of Some v \<Rightarrow> v | None \<Rightarrow> []),
       ex_UserAgent = text (xr_user_agent r), ex_Path = text (xr_path r),
       ex_Description = text (xr_description r), ex_CreatedAt = xr_created_at r,
       ex_CreatedBy = xr_created_by r, ex_Inherited = False\<rparr>)"

definition by_created_desc :: "exclusion_row list \<Rightarrow> exclusion_row list" where
  "by_created_desc rows = sort_key (\<lambda>r. - xr_created_at r) rows"

definition ListAllTrafficExclusions :: "('a, 'p) golib \<Rightarrow> exclusion_row list \<Rightarrow> IPExclusion list" where
  "ListAllTrafficExclusions L tbl = map (scanTrafficExclusion L) (by_created_desc tbl)"

definition ListInstanceExclusions :: "('a, 'p) golib \<Rightarrow> exclusion_row list \<Rightarrow> IPExclusion list" where
  "ListInstanceExclusions L tbl = map (scanTrafficExclusion L)
     (by_created_desc (filter (\<lambda>r. xr_scope r = ''instance'') tbl))"

definition ListTeamExclusions :: "('a, 'p) golib \<Rightarrow> uuid \<Rightarrow> exclusion_row list \<Rightarrow> IPExclusion list" where
  "ListTeamExclusions L teamID tbl = map (scanTrafficExclusion L)
     (by_created_desc (filter (\<lambda>r. xr_scope r = ''team'' \<and> xr_tenant_id r = Some teamID) tbl))"

definition ListSiteExclusions :: "('a, 'p) golib \<Rightarrow> uuid \<Rightarrow> exclusion_row list \<Rightarrow> IPExclusion list" where
  "ListSiteExclusions L siteID tbl = map (scanTrafficExclusion L)
     (by_created_desc (filter (\<lambda>r. xr_scope r = ''site'' \<and> xr_site_id r = Some siteID) tbl))"

definition scope_rank :: "string \<Rightarrow> int" where
  "scope_rank s = (if s = ''instance'' then 0 else if s = ''team'' then 1 else 2)"

definition by_scope_created_desc :: "exclusion_row list \<Rightarrow> exclusion_row list" where
  "by_scope_created_desc rows = sort_key (\<lambda>r. scope_rank (xr_scope r)) (by_created_desc rows)"

definition markInheritedExclusions :: "IPExclusion list \<Rightarrow> string \<Rightarrow> IPExclusion list" where
  "markInheritedExclusions rules ownedScope = map (\<lambda>r.
     let r = r\<lparr>ex_Inherited := ex_Scope r \<noteq> ownedScope\<rparr>
     in if ex_Inherited r then r\<lparr>ex_CreatedBy := None\<rparr> else r) rules"

definition ListEffectiveTeamExclusions :: "('a, 'p) golib \<Rightarrow> uuid \<Rightarrow> exclusion_row list \<Rightarrow> IPExclusion list" where
  "ListEffectiveTeamExclusions L teamID tbl = markInheritedExclusions
     (map (scanTrafficExclusion L) (by_scope_created_desc
       (filter (\<lambda>r. xr_scope r = ''instance'' \<or> xr_scope r = ''team'' \<and> xr_tenant_id r = Some teamID) tbl)))
     TrafficExclusionScopeTeam"

definition ListEffectiveSiteExclusions ::
  "('a, 'p) golib \<Rightarrow> uuid \<Rightarrow> uuid \<Rightarrow> exclusion_row list \<Rightarrow> IPExclusion list" where
  "ListEffectiveSiteExclusions L teamID siteID tbl = markInheritedExclusions
     (map (scanTrafficExclusion L) (by_scope_created_desc
       (filter (\<lambda>r. xr_scope r = ''instance'' \<or> xr_scope r = ''team'' \<and> xr_tenant_id r = Some teamID
          \<or> xr_scope r = ''site'' \<and> xr_site_id r = Some siteID) tbl)))
     TrafficExclusionScopeSite"

definition deleteTrafficExclusion ::
  "(exclusion_row \<Rightarrow> bool) \<Rightarrow> exclusion_row list \<Rightarrow> bool \<times> exclusion_row list" where
  "deleteTrafficExclusion cond tbl = (filter cond tbl \<noteq> [], filter (\<lambda>r. \<not> cond r) tbl)"

definition DeleteInstanceExclusion :: "uuid \<Rightarrow> exclusion_row list \<Rightarrow> bool \<times> exclusion_row list" where
  "DeleteInstanceExclusion ruleID = deleteTrafficExclusion (\<lambda>r. xr_id r = ruleID \<and> xr_scope r = ''instance'')"

definition DeleteTeamExclusion :: "uuid \<Rightarrow> uuid \<Rightarrow> exclusion_row list \<Rightarrow> bool \<times> exclusion_row list" where
  "DeleteTeamExclusion teamID ruleID = deleteTrafficExclusion
     (\<lambda>r. xr_id r = ruleID \<and> xr_scope r = ''team'' \<and> xr_tenant_id r = Some teamID)"

definition DeleteSiteExclusion :: "uuid \<Rightarrow> uuid \<Rightarrow> exclusion_row list \<Rightarrow> bool \<times> exclusion_row list" where
  "DeleteSiteExclusion siteID ruleID = deleteTrafficExclusion
     (\<lambda>r. xr_id r = ruleID \<and> xr_scope r = ''site'' \<and> xr_site_id r = Some siteID)"

text \<open>Sites joined with their teams; a site without a row belongs to the default team.\<close>

definition ListSiteTeamMappings :: "roles_db \<Rightarrow> db_error + (uuid \<times> uuid) list" where
  "ListSiteTeamMappings db =
     (case getDefaultTenantID db of
        Inl e \<Rightarrow> Inl e
      | Inr defaultTeamID \<Rightarrow> Inr (map (\<lambda>(s, _). (s, site_tenant_or db defaultTeamID s)) (sites db)))"

subsection \<open>Life of a rule\<close>

definition row_owner :: "exclusion_row \<Rightarrow> uuid option" where
  "row_owner r = (if xr_scope r = ''team'' then xr_tenant_id r
     else if xr_scope r = ''site'' then xr_site_id r else None)"

lemma createTrafficExclusion_Inr:
  assumes "createTrafficExclusion L accepts new_id now scope owner vals by tbl = (Inr rule, tbl')"
  obtains row where "tbl' = tbl @ [row]" and "xr_id row = new_id" and "new_id \<notin> set (map xr_id tbl)"
    and "scope_check row" and "type_check row" and "xr_scope row = scope"
    and "scope \<noteq> ''instance'' \<Longrightarrow> row_owner row = Some owner \<and> owner \<noteq> uuid_Nil"
    and "(scanTrafficExclusion L row)\<lparr>ex_CountryCode := ex_CountryCode rule\<rparr> = rule"
proof -
  have null: "TrimSpace (case nullableString (TrimSpace s) of Some v \<Rightarrow> v | None \<Rightarrow> []) = TrimSpace s" for s
    by (simp add: nullableString_def Let_def)
  have "TrimSpace ''instance'' = ''instance''" "TrimSpace ''team'' = ''team''"
    "TrimSpace ''site'' = ''site''" by (simp_all add: TrimSpace_graphic graphic_def)
  with assms that show thesis
    by (auto simp: createTrafficExclusion_def Let_def scope_names scanTrafficExclusion_def null
        row_owner_def nullableUUID_def split: if_splits)
qed

text \<open>
   Creating a rule enforces it: once \<open>createTrafficExclusion\<close> succeeds, the next refresh
  blocks a site's traffic exactly when it was blocked before or the new rule (as read back) applies
  to the site and hits the traffic; a rule of a team or site names its owner, which is not nil.
\<close>

theorem created_exclusion_enforced:
  assumes created: "createTrafficExclusion L accepts new_id now scope owner vals by tbl = (Inr rule, tbl')"
  shows "\<exists>rule'. rule'\<lparr>ex_CountryCode := ex_CountryCode rule\<rparr> = rule
     \<and> (\<forall>mappings f site t.
          Blocked (EvaluateTraffic L' (snd (Refresh L' (Inr (ListAllTrafficExclusions L tbl')) (Inr mappings) f)) site t)
          = (Blocked (EvaluateTraffic L' (snd (Refresh L' (Inr (ListAllTrafficExclusions L tbl)) (Inr mappings) f)) site t)
             \<or> rule_applies mappings site rule' \<and> rule_hits L' t rule'))
     \<and> (ex_TeamID rule = Some owner \<and> ex_SiteID rule = None \<and> owner \<noteq> uuid_Nil
        \<or> ex_SiteID rule = Some owner \<and> ex_TeamID rule = None \<and> owner \<noteq> uuid_Nil
        \<or> ex_TeamID rule = None \<and> ex_SiteID rule = None \<and> ex_Scope rule = ''instance'')"
proof -
  obtain row where row: "tbl' = tbl @ [row]" "scope_check row" "xr_scope row = scope"
      "scope \<noteq> ''instance'' \<Longrightarrow> row_owner row = Some owner \<and> owner \<noteq> uuid_Nil"
      "(scanTrafficExclusion L row)\<lparr>ex_CountryCode := ex_CountryCode rule\<rparr> = rule"
    using createTrafficExclusion_Inr [OF created] by metis
  let ?r = "scanTrafficExclusion L row"
  have set: "set (ListAllTrafficExclusions L (tbl @ [row])) = insert ?r (set (ListAllTrafficExclusions L tbl))"
    by (auto simp: ListAllTrafficExclusions_def by_created_desc_def)
  have ids: "ex_TeamID rule = xr_tenant_id row" "ex_SiteID rule = xr_site_id row"
    "ex_Scope rule = TrimSpace (xr_scope row)"
    using row(5) [THEN arg_cong [where f = ex_TeamID]] row(5) [THEN arg_cong [where f = ex_SiteID]]
      row(5) [THEN arg_cong [where f = ex_Scope]]
    by (simp_all add: scanTrafficExclusion_def Let_def)
  have "ex_TeamID rule = Some owner \<and> ex_SiteID rule = None \<and> owner \<noteq> uuid_Nil
      \<or> ex_SiteID rule = Some owner \<and> ex_TeamID rule = None \<and> owner \<noteq> uuid_Nil
      \<or> ex_TeamID rule = None \<and> ex_SiteID rule = None \<and> ex_Scope rule = ''instance''"
    using row(2,3,4) ids by (auto simp: scope_check_def row_owner_def TrimSpace_graphic graphic_def)
  moreover have "exclusion_reason L' (ListAllTrafficExclusions L tbl') mappings site t \<noteq> None
      \<longleftrightarrow> exclusion_reason L' (ListAllTrafficExclusions L tbl) mappings site t \<noteq> None
        \<or> rule_applies mappings site ?r \<and> rule_hits L' t ?r" for mappings site t
    unfolding exclusion_reason_Some row(1) set by auto
  ultimately show ?thesis using row(5) by (intro exI [of _ ?r]) (simp add: Refresh_decision)
qed

definition sample_values :: TrafficExclusionValues where
  "sample_values = \<lparr>va_Type = ''cidr'', va_CIDR = ''10.0.0.0/8'', va_CountryCode = [],
     va_UserAgent = [], va_Path = [], va_Description = []\<rparr>"

theorem created_exclusion_enforced_witness:
  "\<exists>rule tbl' rule'. createTrafficExclusion sample_lib (\<lambda>_. True) 9 0 ''site'' 4 sample_values 2 [] = (Inr rule, tbl')
     \<and> rule'\<lparr>ex_CountryCode := ex_CountryCode rule\<rparr> = rule
     \<and> (ex_SiteID rule = Some 4 \<or> ex_TeamID rule = Some 4 \<or> ex_Scope rule = ''instance'')"
proof -
  obtain rule tbl' where c: "createTrafficExclusion sample_lib (\<lambda>_. True) 9 0 ''site'' 4 sample_values 2 []
      = (Inr rule, tbl')"
    by (simp add: createTrafficExclusion_def sample_values_def scope_names Let_def uuid_Nil_def
        TrimSpace_graphic graphic_def storedCountryCode_def ToUpper_def is_ascii_def nullableString_def
        nullableUUID_def scope_check_def type_check_def)
  from created_exclusion_enforced [OF c, of sample_lib] c show ?thesis by blast
qed

text \<open>
   A rule is deleted only within its own scope: each delete operation removes no row of another
  scope or another owner, says whether it removed a row, and removes a freshly created rule of its
  owner exactly, restoring the table.
\<close>

theorem exclusion_delete_confined:
  assumes created: "createTrafficExclusion L accepts new_id now scope owner vals by tbl = (Inr rule, tbl')"
  shows "(scope = ''team'' \<longrightarrow> DeleteTeamExclusion owner new_id tbl' = (True, tbl)
         \<and> (\<forall>o'. o' \<noteq> owner \<longrightarrow> DeleteTeamExclusion o' new_id tbl' = (False, tbl')))
     \<and> (scope = ''site'' \<longrightarrow> DeleteSiteExclusion owner new_id tbl' = (True, tbl)
         \<and> (\<forall>o'. o' \<noteq> owner \<longrightarrow> DeleteSiteExclusion o' new_id tbl' = (False, tbl')))
     \<and> (scope = ''instance'' \<longrightarrow> DeleteInstanceExclusion new_id tbl' = (True, tbl))
     \<and> (scope \<noteq> ''instance'' \<longrightarrow> DeleteInstanceExclusion new_id tbl' = (False, tbl'))
     \<and> (scope \<noteq> ''team'' \<longrightarrow> (\<forall>o'. DeleteTeamExclusion o' new_id tbl' = (False, tbl')))
     \<and> (scope \<noteq> ''site'' \<longrightarrow> (\<forall>o'. DeleteSiteExclusion o' new_id tbl' = (False, tbl')))"
proof -
  obtain row where row: "tbl' = tbl @ [row]" "xr_id row = new_id" "new_id \<notin> set (map xr_id tbl)"
      "xr_scope row = scope" "scope \<noteq> ''instance'' \<Longrightarrow> row_owner row = Some owner \<and> owner \<noteq> uuid_Nil"
    using createTrafficExclusion_Inr [OF created] by metis
  have fresh: "x \<in> set tbl \<Longrightarrow> xr_id x \<noteq> new_id" for x using row(3) by auto
  have only: "deleteTrafficExclusion (\<lambda>r. xr_id r = new_id \<and> C r) tbl'
      = (if C row then (True, tbl) else (False, tbl'))" for C
    using row(1,2) by (auto simp: deleteTrafficExclusion_def filter_id_conv filter_empty_conv dest: fresh)
  show ?thesis
    unfolding DeleteTeamExclusion_def DeleteSiteExclusion_def DeleteInstanceExclusion_def only
    using row(4,5) by (auto simp: row_owner_def)
qed

theorem exclusion_delete_confined_witness:
  "\<exists>rule tbl'. createTrafficExclusion sample_lib (\<lambda>_. True) 9 0 ''site'' 4 sample_values 2 [] = (Inr rule, tbl')
     \<and> DeleteSiteExclusion 4 9 tbl' = (True, []) \<and> DeleteSiteExclusion 5 9 tbl' = (False, tbl')"
proof -
  obtain rule tbl' where c: "createTrafficExclusion sample_lib (\<lambda>_. True) 9 0 ''site'' 4 sample_values 2 []
      = (Inr rule, tbl')"
    by (simp add: createTrafficExclusion_def sample_values_def scope_names Let_def uuid_Nil_def
        TrimSpace_graphic graphic_def storedCountryCode_def ToUpper_def is_ascii_def nullableString_def
        nullableUUID_def scope_check_def type_check_def)
  from exclusion_delete_confined [OF c] have "DeleteSiteExclusion 4 9 tbl' = (True, [])"
    and "DeleteSiteExclusion 5 9 tbl' = (False, tbl')" by auto
  with c show ?thesis by blast
qed

end
