(* ===== verification/Spam_Filter.thy ===== *)
theory Spam_Filter
  imports Traffic_Filter
begin

text \<open>
  The spam filter (\<open>blocking/spam_filter.go\<close>), its feed data
  (\<open>blocking/spamfeed/data.go\<close>) and the fetching of the public feeds
  (\<open>blocking/spamfeed/updater.go\<close>).  The HTTP client, the JSON decoder and the file system
  are arguments: a client answers a URL with a failure or a status and a body, a decoder turns a
  body into its records, the last of which may be a failure.
\<close>

subsection \<open>Feed data\<close>

definition matomoReferrerSpamSource :: string where
  "matomoReferrerSpamSource = ''matomo_referrer_spam_list''"

definition spamhausDropSource :: string where
  "spamhausDropSource = ''spamhaus_drop''"

definition spamhausDropV6Source :: string where
  "spamhausDropV6Source = ''spamhaus_dropv6''"

record SpamFeedSourceMetadata =
  sm_Timestamp :: int
  sm_Copyright :: string
  sm_Terms :: string

record SpamFeedData =
  GeneratedAt :: time
  Sources :: "string \<rightharpoonup> string"
  SourceMetadata :: "string \<rightharpoonup> SpamFeedSourceMetadata"
  ReferrerHostDenylist :: "string list"
  NetworkDenylist :: "string list"

text \<open>
  The loop keeps the set of values it has seen; the result is sorted byte-wise, and empty for an
  empty input.
\<close>

fun normalize_loop :: "('a, 'p) golib \<Rightarrow> string set \<Rightarrow> string list \<Rightarrow> string list" where
  "normalize_loop L seen [] = []"
| "normalize_loop L seen (v # vs) =
     (let trimmed = TrimSpace (ToLower L v) in
      if trimmed = [] \<or> trimmed \<in> seen then normalize_loop L seen vs
      else trimmed # normalize_loop L (insert trimmed seen) vs)"

definition normalizeStringList :: "('a, 'p) golib \<Rightarrow> string list \<Rightarrow> string list" where
  "normalizeStringList L vals = sort (normalize_loop L {} vals)"

definition Normalize :: "('a, 'p) golib \<Rightarrow> SpamFeedData \<Rightarrow> SpamFeedData" where
  "Normalize L d = d\<lparr>ReferrerHostDenylist := normalizeStringList L (ReferrerHostDenylist d),
     NetworkDenylist := normalizeStringList L (NetworkDenylist d)\<rparr>"

definition ValidateEmbeddedSpamFeedData :: "traffic_lib \<Rightarrow> SpamFeedData \<Rightarrow> string + unit" where
  "ValidateEmbeddedSpamFeedData L data =
     (let src_missing = (\<lambda>s. TrimSpace (case Sources data s of Some v \<Rightarrow> v | None \<Rightarrow> []) = []);
          parsed = map (netip_ParsePrefix L) (NetworkDenylist data);
          meta_error = (\<lambda>s. case SourceMetadata data s of
              None \<Rightarrow> Some ''missing metadata''
            | Some m \<Rightarrow> if sm_Timestamp m \<le> 0 then Some ''no timestamp''
                        else if TrimSpace (sm_Copyright m) = [] then Some ''no copyright''
                        else if TrimSpace (sm_Terms m) = [] then Some ''no terms'' else None)
      in if IsZero (GeneratedAt data) then Inl ''missing its generation timestamp''
         else if list_ex src_missing [matomoReferrerSpamSource, spamhausDropSource, spamhausDropV6Source]
         then Inl ''missing source''
         else if ReferrerHostDenylist data = [] then Inl ''no referrer hosts''
         else if None \<in> set parsed then Inl ''invalid network''
         else if \<not> list_ex (\<lambda>q. case q of Some p \<Rightarrow> Is4 (prefix_Addr p) | None \<Rightarrow> False) parsed
         then Inl ''no IPv4 networks''
         else if \<not> list_ex (\<lambda>q. case q of Some p \<Rightarrow> \<not> Is4 (prefix_Addr p) | None \<Rightarrow> False) parsed
         then Inl ''no IPv6 networks''
         else case first_some (map meta_error [spamhausDropSource, spamhausDropV6Source]) of
                Some err \<Rightarrow> Inl err
              | None \<Rightarrow> Inr ())"

subsection \<open>Fetching the feeds\<close>

definition maxFeedResponseBytes :: nat where
  "maxFeedResponseBytes = 10 * 2 ^ 20"

type_synonym http_client = "string \<Rightarrow> string + int \<times> string"

definition fetchURL :: "http_client \<Rightarrow> string \<Rightarrow> string + string" where
  "fetchURL client sourceURL =
     (case client sourceURL of
        Inl err \<Rightarrow> Inl err
      | Inr (status, body) \<Rightarrow>
          if status < 200 \<or> 300 \<le> status then Inl ''unexpected HTTP status''
          else if length body > maxFeedResponseBytes then Inl ''response body too large''
          else Inr body)"

text \<open>
  The lines of a \<open>bufio.Scanner\<close>: split at newlines, a final empty line dropped, one carriage
  return removed from the end of each; a line of 64 KiB or more is an error.
\<close>

definition drop_cr :: "string \<Rightarrow> string" where
  "drop_cr l = (if l \<noteq> [] \<and> last l = CHR 0x0D then butlast l else l)"

definition scan_lines :: "string \<Rightarrow> string list option" where
  "scan_lines body =
     (let raw = Split (CHR 0x0A) body;
          raw = (if last raw = [] then butlast raw else raw)
      in if list_ex (\<lambda>l. length l \<ge> 65536) raw then None else Some (map drop_cr raw))"

definition referrer_line :: "('a, 'p) golib \<Rightarrow> string \<Rightarrow> string option" where
  "referrer_line L text =
     (let line = TrimSpace text in
      if line = [] \<or> prefix ''#'' line then None else Some (TrimPrefix ''www.'' (ToLower L line)))"

definition matomoReferrerSpamURL :: string where
  "matomoReferrerSpamURL = ''https://raw.githubusercontent.com/matomo-org/referrer-spam-list/master/spammers.txt''"

definition spamhausDropURL :: string where
  "spamhausDropURL = ''https://www.spamhaus.org/drop/drop_v4.json''"

definition spamhausDropV6URL :: string where
  "spamhausDropV6URL = ''https://www.spamhaus.org/drop/drop_v6.json''"

definition fetchMatomoReferrers :: "('a, 'p) golib \<Rightarrow> http_client \<Rightarrow> string + string list" where
  "fetchMatomoReferrers L client =
     (case fetchURL client matomoReferrerSpamURL of
        Inl err \<Rightarrow> Inl err
      | Inr body \<Rightarrow>
          (case scan_lines body of
             None \<Rightarrow> Inl ''scan matomo referrer spam list''
           | Some ls \<Rightarrow> Inr (normalizeStringList L (List.map_filter (referrer_line L) ls))))"

record spamhausDROPRecord =
  dr_Type :: string
  dr_CIDR :: string
  dr_Timestamp :: int
  dr_Records :: int
  dr_Copyright :: string
  dr_Terms :: string

record spamhausFeed =
  CIDRs :: "string list"
  Metadata :: SpamFeedSourceMetadata

text \<open>The variables of the decoding loop.\<close>

record drop_state =
  out :: "string list"
  meta :: SpamFeedSourceMetadata
  declaredRecords :: int
  seenMetadata :: bool

definition drop_step :: "traffic_lib \<Rightarrow> int \<Rightarrow> drop_state \<Rightarrow> spamhausDROPRecord \<Rightarrow> string + drop_state" where
  "drop_step L expectedBitLen s record =
     (if seenMetadata s then
        (if dr_Type record = ''metadata'' then Inl ''duplicate metadata records''
         else Inl ''metadata record must be terminal'')
      else if dr_Type record \<noteq> [] then
        (if dr_Type record \<noteq> ''metadata'' then Inl ''unknown record type''
         else if dr_Timestamp record \<le> 0 then Inl ''metadata is missing timestamp''
         else if TrimSpace (dr_Copyright record) = [] then Inl ''metadata is missing copyright''
         else if TrimSpace (dr_Terms record) = [] then Inl ''metadata is missing terms''
         else Inr (s\<lparr>meta := \<lparr>sm_Timestamp = dr_Timestamp record, sm_Copyright = dr_Copyright record,
                      sm_Terms = dr_Terms record\<rparr>,
                    declaredRecords := dr_Records record, seenMetadata := True\<rparr>))
      else
        (let cidr = TrimSpace (dr_CIDR record) in
         if cidr = [] then Inl ''record is missing cidr''
         else case netip_ParsePrefix L cidr of
                None \<Rightarrow> Inl ''record has invalid cidr''
              | Some p \<Rightarrow>
                  if BitLen (prefix_Addr p) \<noteq> expectedBitLen then Inl ''record of the other family''
                  else Inr (s\<lparr>out := out s @ [cidr]\<rparr>)))"

fun drop_loop :: "traffic_lib \<Rightarrow> int \<Rightarrow> drop_state \<Rightarrow> (string + spamhausDROPRecord) list
    \<Rightarrow> string + drop_state" where
  "drop_loop L bits s [] = Inr s"
| "drop_loop L bits s (Inl err # _) = Inl err"
| "drop_loop L bits s (Inr record # rest) =
     (case drop_step L bits s record of Inl err \<Rightarrow> Inl err | Inr s' \<Rightarrow> drop_loop L bits s' rest)"

definition drop_start :: drop_state where
  "drop_start = \<lparr>out = [], meta = \<lparr>sm_Timestamp = 0, sm_Copyright = [], sm_Terms = []\<rparr>,
     declaredRecords = 0, seenMetadata = False\<rparr>"

definition fetchSpamhausCIDRs :: "traffic_lib \<Rightarrow> (string \<Rightarrow> (string + spamhausDROPRecord) list)
    \<Rightarrow> http_client \<Rightarrow> string \<Rightarrow> int \<Rightarrow> string + spamhausFeed" where
  "fetchSpamhausCIDRs L decode client sourceURL expectedBitLen =
     (case fetchURL client sourceURL of
        Inl err \<Rightarrow> Inl err
      | Inr body \<Rightarrow>
          if expectedBitLen \<noteq> 32 \<and> expectedBitLen \<noteq> 128 then Inl ''unsupported spamhaus address size''
          else case drop_loop L expectedBitLen drop_start (decode body) of
            Inl err \<Rightarrow> Inl err
          | Inr s \<Rightarrow>
              if \<not> seenMetadata s then Inl ''missing terminal metadata record''
              else if out s = [] then Inl ''contains no CIDR records''
              else if declaredRecords s \<noteq> int (length (out s)) then Inl ''declares another number of records''
              else Inr \<lparr>CIDRs = normalizeStringList L (out s), Metadata = meta s\<rparr>)"

text \<open>A feed that fails contributes nothing; the fetch fails only when no feed has an entry.\<close>

definition FetchSpamFeedData :: "traffic_lib \<Rightarrow> (string \<Rightarrow> (string + spamhausDROPRecord) list)
    \<Rightarrow> http_client \<Rightarrow> time \<Rightarrow> string + SpamFeedData" where
  "FetchSpamFeedData L decode client now =
     (let none = \<lparr>CIDRs = [], Metadata = \<lparr>sm_Timestamp = 0, sm_Copyright = [], sm_Terms = []\<rparr>\<rparr>;
          referrers = (case fetchMatomoReferrers L client of Inr r \<Rightarrow> r | Inl _ \<Rightarrow> []);
          dropv4 = (case fetchSpamhausCIDRs L decode client spamhausDropURL 32 of Inr f \<Rightarrow> f | Inl _ \<Rightarrow> none);
          dropv6 = (case fetchSpamhausCIDRs L decode client spamhausDropV6URL 128 of Inr f \<Rightarrow> f | Inl _ \<Rightarrow> none)
      in if referrers = [] \<and> CIDRs dropv4 = [] \<and> CIDRs dropv6 = [] then Inl ''all spam feeds failed''
         else
           let m4 = (if CIDRs dropv4 \<noteq> [] then Map.empty(spamhausDropSource \<mapsto> Metadata dropv4) else Map.empty);
               m6 = (if CIDRs dropv6 \<noteq> [] then m4(spamhausDropV6Source \<mapsto> Metadata dropv6) else m4)
           in Inr (Normalize L \<lparr>GeneratedAt = now,
                Sources = [matomoReferrerSpamSource \<mapsto> matomoReferrerSpamURL,
                  spamhausDropSource \<mapsto> spamhausDropURL, spamhausDropV6Source \<mapsto> spamhausDropV6URL],
                SourceMetadata = m6, ReferrerHostDenylist = referrers,
                NetworkDenylist = CIDRs dropv4 @ CIDRs dropv6\<rparr>))"

subsection \<open>The filter\<close>

text \<open>
  \<open>disk\<close> is the cache file at the filter's path.  The channel \<open>transition\<close> lets one update
  or reload run at a time, so each is one step of the state.  The results of \<open>ctx.Err()\<close> at the
  points the code asks, of reading and of writing the file, and of the fetch are arguments.
\<close>

record SpamFilter =
  sf_path :: string
  sf_data :: SpamFeedData
  referrerHosts :: "string set"
  networks :: "netprefix list"
  disk :: "SpamFeedData option"

definition spam_apply :: "traffic_lib \<Rightarrow> SpamFeedData \<Rightarrow> SpamFilter \<Rightarrow> SpamFilter" where
  "spam_apply L data f = f\<lparr>sf_data := data, referrerHosts := set (ReferrerHostDenylist data),
     networks := map Masked (List.map_filter (netip_ParsePrefix L) (NetworkDenylist data))\<rparr>"

definition refreshFromDisk :: "traffic_lib \<Rightarrow> string option \<Rightarrow> string option \<Rightarrow> SpamFilter
    \<Rightarrow> string option \<times> SpamFilter" where
  "refreshFromDisk L ctx_err read_err f =
     (if TrimSpace (sf_path f) = [] then (None, f)
      else case ctx_err of
        Some e \<Rightarrow> (Some e, f)
      | None \<Rightarrow>
          (case read_err of
             Some e \<Rightarrow> (Some e, f)
           | None \<Rightarrow>
               (case disk f of
                  None \<Rightarrow> (None, f)
                | Some data \<Rightarrow> (None, spam_apply L (Normalize L data) f))))"

definition SaveSpamFeedData :: "traffic_lib \<Rightarrow> string option \<Rightarrow> SpamFeedData \<Rightarrow> SpamFilter
    \<Rightarrow> string option \<times> SpamFilter" where
  "SaveSpamFeedData L write_err data f =
     (case write_err of
        Some e \<Rightarrow> (Some e, f)
      | None \<Rightarrow> (None, f\<lparr>disk := Some (Normalize L data)\<rparr>))"

definition saveAndApply :: "traffic_lib \<Rightarrow> string option \<Rightarrow> string option \<Rightarrow> SpamFeedData \<Rightarrow> SpamFilter
    \<Rightarrow> string option \<times> SpamFilter" where
  "saveAndApply L ctx_err write_err data f =
     (case ctx_err of
        Some e \<Rightarrow> (Some e, f)
      | None \<Rightarrow>
          let data = Normalize L data in
          if TrimSpace (sf_path f) \<noteq> [] then
            (case SaveSpamFeedData L write_err data f of
               (Some e, f') \<Rightarrow> (Some e, f')
             | (None, f') \<Rightarrow> (None, spam_apply L data f'))
          else (None, spam_apply L data f))"

definition spam_Update :: "traffic_lib \<Rightarrow> (nat \<Rightarrow> string option) \<Rightarrow> string + SpamFeedData
    \<Rightarrow> string option \<Rightarrow> SpamFilter \<Rightarrow> string option \<times> SpamFilter" where
  "spam_Update L ctx_err fetched write_err f =
     (case first_some [ctx_err 0, ctx_err 1, ctx_err 2] of
        Some e \<Rightarrow> (Some e, f)
      | None \<Rightarrow>
          (case fetched of
             Inl e \<Rightarrow> (Some e, f)
           | Inr data \<Rightarrow>
               (case ctx_err 3 of
                  Some e \<Rightarrow> (Some e, f)
                | None \<Rightarrow> saveAndApply L (ctx_err 4) write_err data f)))"

definition LastRefresh :: "SpamFilter \<Rightarrow> time option" where
  "LastRefresh f = (if IsZero (GeneratedAt (sf_data f)) then None else Some (GeneratedAt (sf_data f)))"

definition stripWWW :: "string \<Rightarrow> string" where
  "stripWWW value = TrimPrefix ''www.'' value"

definition normalizeHostname :: "('a, 'p) golib \<Rightarrow> string \<Rightarrow> string" where
  "normalizeHostname L value = stripWWW (ToLower L (TrimSpace value))"

definition normalizeReferrerHost :: "('a, 'p) golib \<Rightarrow> string option \<Rightarrow> string" where
  "normalizeReferrerHost L referrer =
     (case referrer of
        None \<Rightarrow> []
      | Some r \<Rightarrow>
          let value = TrimSpace (ToLower L r);
              plain = stripWWW (TrimByte (CHR ''/'') value) in
          if value = [] then []
          else if prefix ''http://'' value \<or> prefix ''https://'' value then
            (case url_Parse L value of
               Some u \<Rightarrow> stripWWW (ToLower L (Hostname u))
             | None \<Rightarrow> plain)
          else plain)"

definition isSameSiteHost :: "('a, 'p) golib \<Rightarrow> string \<Rightarrow> string \<Rightarrow> bool" where
  "isSameSiteHost L referrerHost siteDomain =
     (let normalizedSite = normalizeHostname L siteDomain in
      if normalizedSite = [] \<or> referrerHost = [] then False
      else referrerHost = normalizedSite \<or> suffix (CHR ''.'' # normalizedSite) referrerHost)"

definition isBlockedIP :: "traffic_lib \<Rightarrow> SpamFilter \<Rightarrow> string \<Rightarrow> bool" where
  "isBlockedIP L f value =
     (case parseIP L value of
        None \<Rightarrow> False
      | Some a \<Rightarrow> list_ex (\<lambda>p. Contains p a) (networks f))"

definition spam_Evaluate :: "traffic_lib \<Rightarrow> SpamFilter \<Rightarrow> string \<Rightarrow> string \<Rightarrow> string option \<Rightarrow> BlockDecision" where
  "spam_Evaluate L f siteDomain userIP referrer =
     (if isBlockedIP L f userIP then \<lparr>Blocked = True, Reason = ''spamhaus_drop''\<rparr>
      else
        let referrerHost = normalizeReferrerHost L referrer in
        if referrerHost = [] \<or> isSameSiteHost L referrerHost siteDomain then not_blocked
        else if referrerHost \<in> referrerHosts f
        then \<lparr>Blocked = True, Reason = ''matomo_referrer_spam''\<rparr>
        else not_blocked)"

subsection \<open>Normalised lists\<close>

lemma set_mapfilter: "set (List.map_filter f xs) = {y. \<exists>x \<in> set xs. f x = Some y}"
  by (induction xs) (auto simp: List.map_filter_simps split: option.splits)

lemma normalize_loop_props:
  "distinct (normalize_loop L seen vs) \<and> set (normalize_loop L seen vs)
     = {TrimSpace (ToLower L v) | v. v \<in> set vs} - seen - {[]}"
  by (induction L seen vs rule: normalize_loop.induct) (auto simp: Let_def)

lemma set_normalizeStringList:
  "set (normalizeStringList L vs) = {TrimSpace (ToLower L v) | v. v \<in> set vs} - {[]}"
  using normalize_loop_props [of L "{}" vs] by (simp add: normalizeStringList_def)

lemma strictly_sorted_normalizeStringList: "sorted_wrt (<) (normalizeStringList L vs)"
  using normalize_loop_props [of L "{}" vs]
  by (simp add: normalizeStringList_def strict_sorted_iff)

lemma normalizeStringList_unique:
  "sorted_wrt (<) xs \<Longrightarrow> set xs = {TrimSpace (ToLower L v) | v. v \<in> set vs} - {[]}
     \<Longrightarrow> xs = normalizeStringList L vs"
  by (metis set_normalizeStringList strict_sorted_equal strictly_sorted_normalizeStringList)

subsection \<open>Feeds\<close>

definition cidr_record :: "traffic_lib \<Rightarrow> int \<Rightarrow> spamhausDROPRecord \<Rightarrow> bool" where
  "cidr_record L bits r \<longleftrightarrow> dr_Type r = [] \<and> TrimSpace (dr_CIDR r) \<noteq> []
     \<and> (\<exists>p. netip_ParsePrefix L (TrimSpace (dr_CIDR r)) = Some p \<and> BitLen (prefix_Addr p) = bits)"

definition meta_record :: "spamhausDROPRecord \<Rightarrow> bool" where
  "meta_record r \<longleftrightarrow> dr_Type r = ''metadata'' \<and> dr_Timestamp r > 0
     \<and> TrimSpace (dr_Copyright r) \<noteq> [] \<and> TrimSpace (dr_Terms r) \<noteq> []"

definition meta_of :: "spamhausDROPRecord \<Rightarrow> SpamFeedSourceMetadata" where
  "meta_of r = \<lparr>sm_Timestamp = dr_Timestamp r, sm_Copyright = dr_Copyright r, sm_Terms = dr_Terms r\<rparr>"

lemma drop_step_cidr: "\<not> seenMetadata s \<Longrightarrow> cidr_record L bits r
    \<Longrightarrow> drop_step L bits s r = Inr (s\<lparr>out := out s @ [TrimSpace (dr_CIDR r)]\<rparr>)"
  by (auto simp: drop_step_def cidr_record_def Let_def)

lemma drop_step_meta: "\<not> seenMetadata s \<Longrightarrow> meta_record r
    \<Longrightarrow> drop_step L bits s r
      = Inr (s\<lparr>meta := meta_of r, declaredRecords := dr_Records r, seenMetadata := True\<rparr>)"
  by (auto simp: drop_step_def meta_record_def meta_of_def)

lemma drop_step_Inr: "drop_step L bits s r = Inr s' \<Longrightarrow> \<not> seenMetadata s \<and> (cidr_record L bits r \<or> meta_record r)"
  by (auto simp: drop_step_def cidr_record_def meta_record_def Let_def split: if_splits option.splits)

lemma drop_loop_seen: "seenMetadata s \<Longrightarrow> drop_loop L bits s xs = Inr s' \<Longrightarrow> xs = [] \<and> s' = s"
  by (induction L bits s xs rule: drop_loop.induct) (auto split: sum.splits dest: drop_step_Inr)

lemma drop_loop_cidrs:
  "\<not> seenMetadata s \<Longrightarrow> list_all (cidr_record L bits) rs
     \<Longrightarrow> drop_loop L bits s (map Inr rs @ xs)
       = drop_loop L bits (s\<lparr>out := out s @ map (\<lambda>r. TrimSpace (dr_CIDR r)) rs\<rparr>) xs"
  by (induction rs arbitrary: s) (auto simp: drop_step_cidr)

lemma drop_loop_complete:
  "drop_loop L bits s xs = Inr s' \<Longrightarrow> \<not> seenMetadata s \<Longrightarrow> seenMetadata s'
     \<Longrightarrow> \<exists>rs m. xs = map Inr rs @ [Inr m] \<and> list_all (cidr_record L bits) rs \<and> meta_record m"
proof (induction L bits s xs rule: drop_loop.induct)
  case (3 L bits s r rest)
  from "3.prems"(1) obtain s1 where s1: "drop_step L bits s r = Inr s1" "drop_loop L bits s1 rest = Inr s'"
    by (auto split: sum.splits)
  from drop_step_Inr [OF s1(1)] consider "cidr_record L bits r" | "meta_record r" by blast
  then show ?case
  proof cases
    case 1
    with s1(1) "3.prems"(2) have "\<not> seenMetadata s1" by (auto simp: drop_step_cidr)
    from "3.IH" [OF s1(1) s1(2) this "3.prems"(3)] obtain rs m
      where "rest = map Inr rs @ [Inr m]" "list_all (cidr_record L bits) rs" "meta_record m" by blast
    with 1 show ?thesis by (intro exI [of _ "r # rs"] exI [of _ m]) simp
  next
    case 2
    with s1(1) "3.prems"(2) have "seenMetadata s1" by (auto simp: drop_step_meta)
    from drop_loop_seen [OF this s1(2)] 2 show ?thesis
      by (intro exI [of _ "[]"] exI [of _ r]) simp
  qed
qed auto

text \<open>
   A Spamhaus feed is accepted exactly when it is complete: some CIDR records, each a prefix of
  the expected family, closed by one metadata record with a timestamp, a copyright, terms and the
  number of the CIDR records; the feed's networks are then exactly those, sorted without duplicates.
\<close>

theorem spamhaus_feed_accepted_iff:
  "fetchSpamhausCIDRs L decode client url bits = Inr feed \<longleftrightarrow>
     (\<exists>body rs m. fetchURL client url = Inr body \<and> (bits = 32 \<or> bits = 128)
        \<and> decode body = map Inr rs @ [Inr m] \<and> rs \<noteq> [] \<and> list_all (cidr_record L bits) rs
        \<and> meta_record m \<and> dr_Records m = int (length rs)
        \<and> feed = \<lparr>CIDRs = normalizeStringList L (map (\<lambda>r. TrimSpace (dr_CIDR r)) rs), Metadata = meta_of m\<rparr>)"
  (is "?l \<longleftrightarrow> ?r")
proof
  assume ?l
  then obtain body s where s: "fetchURL client url = Inr body" "bits = 32 \<or> bits = 128"
      "drop_loop L bits drop_start (decode body) = Inr s" "seenMetadata s"
    by (auto simp: fetchSpamhausCIDRs_def split: sum.splits if_splits)
  from drop_loop_complete [OF s(3) _ s(4)] obtain rs m
    where d: "decode body = map Inr rs @ [Inr m]" "list_all (cidr_record L bits) rs" "meta_record m"
    by (auto simp: drop_start_def)
  with \<open>?l\<close> s show ?r
    by (auto simp: fetchSpamhausCIDRs_def drop_loop_cidrs drop_step_meta drop_start_def split: if_splits)
next
  assume ?r
  then show ?l
    by (auto simp: fetchSpamhausCIDRs_def drop_loop_cidrs drop_step_meta drop_start_def)
qed

subsection \<open>Decisions of the filter\<close>

definition lower_stable :: "('a, 'p) golib \<Rightarrow> bool" where
  "lower_stable L \<longleftrightarrow> (\<forall>s. ToLower L (TrimSpace (ToLower L s)) = TrimSpace (ToLower L s))"

lemma Normalize_idem: "lower_stable L \<Longrightarrow> Normalize L (Normalize L d) = Normalize L d"
proof -
  assume st: "lower_stable L"
  then have g: "TrimSpace (ToLower L (TrimSpace (ToLower L s))) = TrimSpace (ToLower L s)" for s
    by (simp add: lower_stable_def)
  have "normalizeStringList L (normalizeStringList L vs) = normalizeStringList L vs" for vs
  proof (rule normalizeStringList_unique [symmetric])
    show "sorted_wrt (<) (normalizeStringList L vs)" by (rule strictly_sorted_normalizeStringList)
    show "set (normalizeStringList L vs)
        = {TrimSpace (ToLower L v) |v. v \<in> set (normalizeStringList L vs)} - {[]}"
      unfolding set_normalizeStringList using g by (intro set_eqI iffI) (auto, metis)
  qed
  then show ?thesis by (simp add: Normalize_def)
qed

text \<open>
   An update reaches every replica: when \<open>Update\<close> succeeds on a filter with a cache file,
  the filter holds the normalised data (strictly sorted, hence duplicate-free, lower-case lists),
  and any filter that then reloads the file holds the same hosts and networks; when it fails, the
  filter decides as before.
\<close>

theorem spam_update_replicates:
  assumes "spam_Update L ctx_err fetched write_err f = (res, f')" and "lower_stable L"
    and "TrimSpace (sf_path f) \<noteq> []"
  shows "(res \<noteq> None \<longrightarrow> referrerHosts f' = referrerHosts f \<and> networks f' = networks f \<and> disk f' = disk f)
     \<and> (res = None \<longrightarrow> (\<exists>data. fetched = Inr data \<and> sf_data f' = Normalize L data
          \<and> sorted_wrt (<) (ReferrerHostDenylist (sf_data f'))
          \<and> (\<forall>g. TrimSpace (sf_path g) \<noteq> [] \<longrightarrow> disk g = disk f' \<longrightarrow>
               (\<exists>g'. refreshFromDisk L None None g = (None, g') \<and> sf_data g' = sf_data f'
                  \<and> referrerHosts g' = referrerHosts f' \<and> networks g' = networks f'))))"
proof (cases "first_some [ctx_err 0, ctx_err 1, ctx_err 2]")
  case (Some e)
  have "f' = f \<and> res \<noteq> None"
    using assms(1) unfolding spam_Update_def Some option.case by auto
  then show ?thesis by auto
next
  case None
  show ?thesis
  proof (cases res)
    case (Some e)
    with assms(1) None have "f' = f"
      by (auto simp: spam_Update_def saveAndApply_def SaveSpamFeedData_def Let_def
          split: sum.splits option.splits if_splits)
    with Some show ?thesis by simp
  next
    case res: None
    with assms(1,3) None obtain data where "fetched = Inr data"
        "f' = spam_apply L (Normalize L data) (f\<lparr>disk := Some (Normalize L (Normalize L data))\<rparr>)"
      by (auto simp: spam_Update_def saveAndApply_def SaveSpamFeedData_def Let_def
          split: sum.splits option.splits if_splits)
    moreover have "sorted_wrt (<) (ReferrerHostDenylist (Normalize L data))"
      by (simp add: Normalize_def strictly_sorted_normalizeStringList)
    ultimately show ?thesis using res Normalize_idem [OF assms(2)]
      by (auto simp: refreshFromDisk_def spam_apply_def)
  qed
qed

text \<open>
   What the spam filter blocks after new data was applied: a client in one of the listed
  networks, or a referrer whose host is on the normalised denylist and is neither the site's own
  host nor below it; a request without referrer, and one from the site itself, is only judged by its
  address.
\<close>

theorem spam_decision:
  assumes "saveAndApply L None None data f = (None, f')"
  shows "Blocked (spam_Evaluate L f' site ip referrer) \<longleftrightarrow>
       (\<exists>a v p. parseIP L ip = Some a \<and> v \<in> set (NetworkDenylist data) \<and> TrimSpace (ToLower L v) \<noteq> []
          \<and> netip_ParsePrefix L (TrimSpace (ToLower L v)) = Some p \<and> Contains p a)
     \<or> (\<exists>v \<in> set (ReferrerHostDenylist data). normalizeReferrerHost L referrer = TrimSpace (ToLower L v)
          \<and> normalizeReferrerHost L referrer \<noteq> []
          \<and> \<not> isSameSiteHost L (normalizeReferrerHost L referrer) site)"
proof -
  have f': "referrerHosts f' = set (normalizeStringList L (ReferrerHostDenylist data))"
    "networks f' = map Masked (List.map_filter (netip_ParsePrefix L) (normalizeStringList L (NetworkDenylist data)))"
    using assms by (auto simp: saveAndApply_def SaveSpamFeedData_def spam_apply_def Normalize_def
        Let_def split: if_splits)
  have ip: "isBlockedIP L f' ip \<longleftrightarrow> (\<exists>a v p. parseIP L ip = Some a \<and> v \<in> set (NetworkDenylist data)
      \<and> TrimSpace (ToLower L v) \<noteq> [] \<and> netip_ParsePrefix L (TrimSpace (ToLower L v)) = Some p \<and> Contains p a)"
    unfolding isBlockedIP_def f' list_ex_iff set_map set_mapfilter set_normalizeStringList
    by (cases "parseIP L ip") auto
  have "Blocked (spam_Evaluate L f' site ip referrer) \<longleftrightarrow> isBlockedIP L f' ip
      \<or> normalizeReferrerHost L referrer \<noteq> [] \<and> \<not> isSameSiteHost L (normalizeReferrerHost L referrer) site
        \<and> normalizeReferrerHost L referrer \<in> referrerHosts f'"
    by (simp add: spam_Evaluate_def Let_def not_blocked_def)
  then show ?thesis unfolding ip f'(1) set_normalizeStringList by blast
qed

subsection \<open>A filter for the witnesses\<close>

definition sample_feed :: SpamFeedData where
  "sample_feed = \<lparr>GeneratedAt = 5, Sources = Map.empty, SourceMetadata = Map.empty,
     ReferrerHostDenylist = [''Spam.example'', ''ads.example''], NetworkDenylist = [''10.0.0.0/8'']\<rparr>"

definition sample_filter :: SpamFilter where
  "sample_filter = \<lparr>sf_path = ''spam.json'', sf_data = sample_feed, referrerHosts = {}, networks = [],
     disk = None\<rparr>"

lemma set_TrimSpace: "set (TrimSpace t) \<subseteq> set t"
proof -
  have "set (TrimSpace t) \<subseteq> set (trim_left space_runes t)"
    using set_mono_suffix [OF trim_left_suffix [of "map rev space_runes" "rev (trim_left space_runes t)"]]
    by (simp add: TrimSpace_def)
  with set_mono_suffix [OF trim_left_suffix [of space_runes t]] show ?thesis by blast
qed

lemma lower_stable_sample: "lower_stable sample_lib"
proof -
  have g: "lower_byte (lower_byte c) = lower_byte c" for c
    by (auto simp: lower_byte_def)
  have l: "ToLower sample_lib s = map lower_byte s" for s
    by (simp add: ToLower_def sample_lib_def)
  have "map lower_byte (TrimSpace (map lower_byte s)) = TrimSpace (map lower_byte s)" for s
    using set_TrimSpace [of "map lower_byte s"] g by (intro map_idI) auto
  then show ?thesis by (simp add: lower_stable_def l)
qed

theorem spam_update_replicates_witness:
  "\<exists>f'. spam_Update sample_lib (\<lambda>_. None) (Inr sample_feed) None sample_filter = (None, f')
     \<and> sorted_wrt (<) (ReferrerHostDenylist (sf_data f'))"
proof -
  have p: "TrimSpace (sf_path sample_filter) \<noteq> []"
    by (simp add: sample_filter_def TrimSpace_graphic graphic_def)
  obtain f' where u: "spam_Update sample_lib (\<lambda>_. None) (Inr sample_feed) None sample_filter = (None, f')"
    using p by (simp add: spam_Update_def saveAndApply_def SaveSpamFeedData_def Let_def)
  from spam_update_replicates [OF u lower_stable_sample p] u show ?thesis by blast
qed

theorem spam_decision_witness:
  "\<exists>f'. saveAndApply sample_lib None None sample_feed sample_filter = (None, f')
     \<and> Blocked (spam_Evaluate sample_lib f' ''example.org'' [] (Some ''ads.example''))
     \<and> \<not> Blocked (spam_Evaluate sample_lib f' ''ads.example'' [] (Some ''ads.example''))"
proof -
  have p: "TrimSpace (sf_path sample_filter) \<noteq> []"
    by (simp add: sample_filter_def TrimSpace_graphic graphic_def)
  obtain f' where u: "saveAndApply sample_lib None None sample_feed sample_filter = (None, f')"
    using p by (simp add: saveAndApply_def SaveSpamFeedData_def Let_def)
  have l: "TrimSpace (ToLower sample_lib ''ads.example'') = ''ads.example''"
    by (simp add: ToLower_def sample_lib_def is_ascii_def lower_byte_def TrimSpace_graphic graphic_def)
  then have h: "normalizeReferrerHost sample_lib (Some ''ads.example'') = ''ads.example''"
    by (simp add: normalizeReferrerHost_def Let_def TrimByte_def stripWWW_def TrimPrefix_def)
  have s: "isSameSiteHost sample_lib ''ads.example'' ''ads.example''"
    "\<not> isSameSiteHost sample_lib ''ads.example'' ''example.org''"
    by (simp_all add: isSameSiteHost_def normalizeHostname_def ToLower_def sample_lib_def is_ascii_def
        lower_byte_def TrimSpace_graphic graphic_def stripWWW_def TrimPrefix_def suffix_def)
  have ip: "parseIP sample_lib [] = None" by (simp add: parseIP_def)
  show ?thesis
    using spam_decision [OF u, of "''example.org''" "[]" "Some ''ads.example''"]
      spam_decision [OF u, of "''ads.example''" "[]" "Some ''ads.example''"] u l s h ip
    by (simp add: sample_feed_def)
qed

end
