(* ===== verification/Webhook_Target.thy ===== *)
theory Webhook_Target
  imports Netip
begin

text \<open>
  What a webhook may select and where it may be sent: the event catalogue and its scopes
  (\<open>webhooks/catalog.go\<close>), the validation of destinations and addresses
  (\<open>webhooks/url.go\<close>), the dialer of the delivery client
  (\<open>safeDialContext\<close> in \<open>webhookdispatcher/dispatcher.go\<close>) and the version in the
  user agent (\<open>webhooks/version.go\<close>).  The DNS resolver and the network are arguments.
\<close>

subsection \<open>Event catalogue\<close>

definition ScopeInstance :: string where "ScopeInstance = ''instance''"
definition ScopeSite :: string where "ScopeSite = ''site''"

definition EventWebhookTest :: string where "EventWebhookTest = ''webhook.test''"

record EventDescriptor =
  ev_Type :: string
  SiteScoped :: bool
  Scopes :: "string list"

definition instance_event :: "string \<Rightarrow> EventDescriptor" where
  "instance_event t = \<lparr>ev_Type = t, SiteScoped = False, Scopes = [ScopeInstance]\<rparr>"

definition site_event :: "string \<Rightarrow> EventDescriptor" where
  "site_event t = \<lparr>ev_Type = t, SiteScoped = True, Scopes = [ScopeInstance, ScopeSite]\<rparr>"

definition catalog :: "EventDescriptor list" where
  "catalog = [instance_event ''site.created'', site_event ''site.updated'', site_event ''site.deleted'',
     site_event ''goal.created'', site_event ''goal.updated'', site_event ''goal.deleted'',
     site_event ''goal.converted'', site_event ''import.completed'', site_event ''import.failed'',
     site_event EventWebhookTest, instance_event ''system.user.updated'',
     instance_event ''system.user.deleted'', instance_event ''team.created'',
     instance_event ''team.updated'', instance_event ''team.archived'',
     instance_event ''team.member.added'', instance_event ''team.member.removed'']"

definition Catalog :: "string \<Rightarrow> EventDescriptor list" where
  "Catalog scope = filter (\<lambda>event. scope \<in> set (Scopes event)) catalog"

definition EventAllowedForScope :: "string \<Rightarrow> string \<Rightarrow> bool" where
  "EventAllowedForScope eventType scope =
     (case find (\<lambda>event. ev_Type event = TrimSpace eventType) catalog of
        Some event \<Rightarrow> scope \<in> set (Scopes event)
      | None \<Rightarrow> False)"

datatype selection_error = UnknownScope | NoEvents | NotAvailable string | DuplicateEvent string

fun select_loop :: "string \<Rightarrow> string set \<Rightarrow> string list \<Rightarrow> selection_error + unit" where
  "select_loop scope seen [] = Inr ()"
| "select_loop scope seen (raw # rest) =
     (let eventType = TrimSpace raw in
      if \<not> EventAllowedForScope eventType scope then Inl (NotAvailable eventType)
      else if eventType \<in> seen then Inl (DuplicateEvent eventType)
      else select_loop scope (insert eventType seen) rest)"

definition ValidateEventSelection :: "string \<Rightarrow> string list \<Rightarrow> selection_error + unit" where
  "ValidateEventSelection scope eventTypes =
     (if scope \<noteq> ScopeInstance \<and> scope \<noteq> ScopeSite then Inl UnknownScope
      else if eventTypes = [] then Inl NoEvents
      else select_loop scope {} eventTypes)"

definition ScopeForSiteID :: "bool \<Rightarrow> string" where
  "ScopeForSiteID hasSiteID = (if hasSiteID then ScopeSite else ScopeInstance)"

subsection \<open>Addresses\<close>

definition ip4 :: "nat \<Rightarrow> nat \<Rightarrow> nat \<Rightarrow> nat \<Rightarrow> addr" where
  "ip4 a b c d = V4 (of_nat (((a * 256 + b) * 256 + c) * 256 + d))"

fun IsLoopback :: "addr \<Rightarrow> bool" where
  "IsLoopback (V4 w) \<longleftrightarrow> drop_bit 24 w = 127"
| "IsLoopback (V6 w _) \<longleftrightarrow> w = 1"

fun IsMulticast :: "addr \<Rightarrow> bool" where
  "IsMulticast (V4 w) \<longleftrightarrow> drop_bit 28 w = 0xE"
| "IsMulticast (V6 w _) \<longleftrightarrow> drop_bit 120 w = 0xFF"

fun IsLinkLocalUnicast :: "addr \<Rightarrow> bool" where
  "IsLinkLocalUnicast (V4 w) \<longleftrightarrow> drop_bit 16 w = 0xA9FE"
| "IsLinkLocalUnicast (V6 w _) \<longleftrightarrow> drop_bit 118 w = 0x3FA"

text \<open>
  \<open>netip.Addr.IsGlobalUnicast\<close> of an unmapped address; an address with a zone is never equal to
  the unspecified address.
\<close>

definition IsGlobalUnicast :: "addr \<Rightarrow> bool" where
  "IsGlobalUnicast a \<longleftrightarrow> a \<noteq> V4 0 \<and> a \<noteq> V4 0xFFFFFFFF \<and> a \<noteq> V6 0 []
     \<and> \<not> IsLoopback a \<and> \<not> IsMulticast a \<and> \<not> IsLinkLocalUnicast a"

definition nonPublicAddressPrefixes :: "netprefix list" where
  "nonPublicAddressPrefixes =
     [PrefixFrom (ip4 0 0 0 0) 8, PrefixFrom (ip4 10 0 0 0) 8, PrefixFrom (ip4 100 64 0 0) 10,
      PrefixFrom (ip4 127 0 0 0) 8, PrefixFrom (ip4 169 254 0 0) 16, PrefixFrom (ip4 172 16 0 0) 12,
      PrefixFrom (ip4 192 0 0 0) 24, PrefixFrom (ip4 192 0 2 0) 24, PrefixFrom (ip4 192 88 99 0) 24,
      PrefixFrom (ip4 192 168 0 0) 16, PrefixFrom (ip4 198 18 0 0) 15, PrefixFrom (ip4 198 51 100 0) 24,
      PrefixFrom (ip4 203 0 113 0) 24, PrefixFrom (ip4 224 0 0 0) 4, PrefixFrom (ip4 240 0 0 0) 4,
      PrefixFrom (V6 0 []) 96,
      PrefixFrom (V6 0x0064FF9B000000000000000000000000 []) 96,
      PrefixFrom (V6 0x0064FF9B000100000000000000000000 []) 48,
      PrefixFrom (V6 0x01000000000000000000000000000000 []) 64,
      PrefixFrom (V6 0x20010000000000000000000000000000 []) 32,
      PrefixFrom (V6 0x20010002000000000000000000000000 []) 48,
      PrefixFrom (V6 0x20010010000000000000000000000000 []) 28,
      PrefixFrom (V6 0x20010020000000000000000000000000 []) 28,
      PrefixFrom (V6 0x20010DB8000000000000000000000000 []) 32,
      PrefixFrom (V6 0x20020000000000000000000000000000 []) 16,
      PrefixFrom (V6 0x5F000000000000000000000000000000 []) 16,
      PrefixFrom (V6 0xFC000000000000000000000000000000 []) 7,
      PrefixFrom (V6 0xFE800000000000000000000000000000 []) 10,
      PrefixFrom (V6 0xFF000000000000000000000000000000 []) 8]"

definition blockedAddress :: "addr \<Rightarrow> bool" where
  "blockedAddress address \<longleftrightarrow>
     \<not> IsGlobalUnicast address \<or> list_ex (\<lambda>p. Contains p address) nonPublicAddressPrefixes"

definition AddressAllowed :: "addr \<Rightarrow> bool" where
  "AddressAllowed address \<longleftrightarrow> \<not> blockedAddress (Unmap address)"

subsection \<open>Destinations\<close>

datatype dest_error = InvalidURL | NotHTTPS | HasCredentials | HasFragment | ResolveFailed
  | NoAddress | PrivateAddress

type_synonym resolver = "string \<Rightarrow> addr list option"

definition ValidateDestination ::
  "('a, 'p) golib \<Rightarrow> resolver \<Rightarrow> bool \<Rightarrow> string \<Rightarrow> dest_error + url" where
  "ValidateDestination L resolve allowDevelopmentTargets rawURL =
     (case url_Parse L (TrimSpace rawURL) of
        None \<Rightarrow> Inl InvalidURL
      | Some destination \<Rightarrow>
          if Hostname destination = [] then Inl InvalidURL
          else if Scheme destination \<noteq> ''https''
                  \<and> (\<not> allowDevelopmentTargets \<or> Scheme destination \<noteq> ''http'') then Inl NotHTTPS
          else if HasUser destination then Inl HasCredentials
          else if Fragment destination \<noteq> [] then Inl HasFragment
          else if allowDevelopmentTargets then Inr destination
          else case resolve (Hostname destination) of
            None \<Rightarrow> Inl ResolveFailed
          | Some addresses \<Rightarrow>
              if addresses = [] then Inl NoAddress
              else if list_ex (\<lambda>address. \<not> AddressAllowed address) addresses then Inl PrivateAddress
              else Inr destination)"

datatype 'c dial_result = DialRefused dest_error | BadAddress | DialFailed | Connected 'c

text \<open>
  The dial function of the delivery client.  \<open>dial\<close> tries one address and port and gives a
  connection or fails; the result carries the addresses tried, in order.
\<close>

fun dial_loop :: "(addr \<Rightarrow> 'c option) \<Rightarrow> addr list \<Rightarrow> addr list \<times> 'c dial_result" where
  "dial_loop dial [] = ([], DialFailed)"
| "dial_loop dial (a # rest) =
     (case dial a of
        Some conn \<Rightarrow> ([a], Connected conn)
      | None \<Rightarrow> let (tried, r) = dial_loop dial rest in (a # tried, r))"

definition safeDialContext :: "(addr, 'p) golib \<Rightarrow> resolver \<Rightarrow> (addr \<Rightarrow> string \<Rightarrow> 'c option)
    \<Rightarrow> string \<Rightarrow> addr list \<times> 'c dial_result" where
  "safeDialContext L resolve dial address =
     (case SplitHostPort L address of
        None \<Rightarrow> ([], BadAddress)
      | Some (host, port) \<Rightarrow>
          let resolved = (case netip_ParseAddr L host of
                            Some literal \<Rightarrow> Some [literal]
                          | None \<Rightarrow> resolve host)
          in case resolved of
               None \<Rightarrow> ([], DialRefused ResolveFailed)
             | Some addresses \<Rightarrow>
                 if addresses = [] then ([], DialRefused NoAddress)
                 else if list_ex (\<lambda>a. \<not> AddressAllowed a) addresses then ([], DialRefused PrivateAddress)
                 else dial_loop (\<lambda>a. dial a port) addresses)"

subsection \<open>Prefixes as ranges\<close>

lemma div_range: "0 < d \<Longrightarrow> x div d = q \<longleftrightarrow> q * d \<le> x \<and> x < q * d + (d :: nat)"
  by (metis add.commute div_mult_self3 div_nat_eqI dividend_less_div_times mult.commute mult_Suc
      mult_Suc_right times_div_less_eq_dividend)

lemma drop_bit_range:
  "drop_bit n w = (c :: 'a::len word) \<longleftrightarrow> unat c * 2 ^ n \<le> unat w \<and> unat w < unat c * 2 ^ n + 2 ^ n"
proof -
  have "drop_bit n w = c \<longleftrightarrow> unat w div 2 ^ n = unat c"
    by (simp only: word_unat_eq_iff unat_drop_bit_eq) (simp add: drop_bit_eq_div)
  then show ?thesis by (simp add: div_range)
qed

lemma Contains_ip4: "0 \<le> b \<Longrightarrow> b \<le> 32 \<Longrightarrow> Contains (PrefixFrom (V4 c) b) (V4 w)
    \<longleftrightarrow> drop_bit (32 - nat b) w = drop_bit (32 - nat b) c"
  by (auto simp: Contains_def PrefixFrom_def prefix_IsValid_def XOR_eq_0)

lemma Contains_ip6: "0 \<le> b \<Longrightarrow> b \<le> 128 \<Longrightarrow> Contains (PrefixFrom (V6 c z) b) (V6 w z')
    \<longleftrightarrow> z' = [] \<and> drop_bit (128 - nat b) w = drop_bit (128 - nat b) c"
  by (auto simp: Contains_def PrefixFrom_def prefix_IsValid_def XOR_eq_0)

lemma Contains_mixed [simp]:
  "\<not> Contains (PrefixFrom (V4 c) b) (V6 w z)" "\<not> Contains (PrefixFrom (V6 d z) b) (V4 v)"
  by (auto simp: Contains_def PrefixFrom_def)

text \<open>
  The reserved blocks as ranges of numbers: the first address and the number of addresses.
\<close>

definition quad :: "nat \<Rightarrow> nat \<Rightarrow> nat \<Rightarrow> nat \<Rightarrow> nat" where
  "quad a b c d = ((a * 256 + b) * 256 + c) * 256 + d"

definition reserved_v4 :: "(nat \<times> nat) list" where
  "reserved_v4 =
     [(quad 0 0 0 0, 2 ^ 24), (quad 10 0 0 0, 2 ^ 24), (quad 100 64 0 0, 2 ^ 22),
      (quad 127 0 0 0, 2 ^ 24), (quad 169 254 0 0, 2 ^ 16), (quad 172 16 0 0, 2 ^ 20),
      (quad 192 0 0 0, 2 ^ 8), (quad 192 0 2 0, 2 ^ 8), (quad 192 88 99 0, 2 ^ 8),
      (quad 192 168 0 0, 2 ^ 16), (quad 198 18 0 0, 2 ^ 17), (quad 198 51 100 0, 2 ^ 8),
      (quad 203 0 113 0, 2 ^ 8), (quad 224 0 0 0, 2 ^ 28), (quad 240 0 0 0, 2 ^ 28)]"

definition reserved_v6 :: "(nat \<times> nat) list" where
  "reserved_v6 =
     [(0, 2 ^ 32), (0x64FF9B * 2 ^ 96, 2 ^ 32), (0x64FF9B0001 * 2 ^ 80, 2 ^ 80), (0x0100 * 2 ^ 112, 2 ^ 64),
      (0x2001 * 2 ^ 112, 2 ^ 96), (0x20010002 * 2 ^ 96, 2 ^ 80), (0x2001001 * 2 ^ 100, 2 ^ 100),
      (0x2001002 * 2 ^ 100, 2 ^ 100), (0x20010DB8 * 2 ^ 96, 2 ^ 96), (0x2002 * 2 ^ 112, 2 ^ 112),
      (0x5F00 * 2 ^ 112, 2 ^ 112), (0xFC00 * 2 ^ 112, 2 ^ 121), (0xFE80 * 2 ^ 112, 2 ^ 118),
      (0xFF00 * 2 ^ 112, 2 ^ 120)]"

definition in_range :: "nat \<Rightarrow> nat \<times> nat \<Rightarrow> bool" where
  "in_range n r \<longleftrightarrow> fst r \<le> n \<and> n < fst r + snd r"

definition reserved :: "addr \<Rightarrow> bool" where
  "reserved a = (case a of
     V4 w \<Rightarrow> list_ex (in_range (unat w)) reserved_v4
   | V6 w _ \<Rightarrow> list_ex (in_range (unat w)) reserved_v6)"

lemma reserved_V4I: "r \<in> set reserved_v4 \<Longrightarrow> in_range (unat w) r \<Longrightarrow> reserved (V4 w)"
  by (auto simp: reserved_def list_ex_iff)

lemma reserved_V6I: "r \<in> set reserved_v6 \<Longrightarrow> in_range (unat w) r \<Longrightarrow> reserved (V6 w z)"
  by (auto simp: reserved_def list_ex_iff)

lemma not_global_V4:
  assumes "\<not> IsGlobalUnicast (V4 w)"
  shows "reserved (V4 w)"
proof -
  consider "w = 0" | "w = 0xFFFFFFFF" | "drop_bit 24 w = 127" | "drop_bit 28 w = 0xE" | "drop_bit 16 w = 0xA9FE"
    using assms by (auto simp: IsGlobalUnicast_def)
  then show ?thesis
  proof cases
    case 1
    then show ?thesis
      by (intro reserved_V4I [of "(quad 0 0 0 0, 2 ^ 24)"]) (simp_all add: reserved_v4_def in_range_def quad_def)
  next
    case 2
    then show ?thesis
      by (intro reserved_V4I [of "(quad 240 0 0 0, 2 ^ 28)"]) (simp_all add: reserved_v4_def in_range_def quad_def)
  next
    case 3
    then show ?thesis
      by (intro reserved_V4I [of "(quad 127 0 0 0, 2 ^ 24)"])
        (simp_all add: reserved_v4_def in_range_def quad_def drop_bit_range)
  next
    case 4
    then show ?thesis
      by (intro reserved_V4I [of "(quad 224 0 0 0, 2 ^ 28)"])
        (simp_all add: reserved_v4_def in_range_def quad_def drop_bit_range)
  next
    case 5
    then show ?thesis
      by (intro reserved_V4I [of "(quad 169 254 0 0, 2 ^ 16)"])
        (simp_all add: reserved_v4_def in_range_def quad_def drop_bit_range)
  qed
qed

lemma not_global_V6:
  assumes "\<not> IsGlobalUnicast (V6 w [])"
  shows "reserved (V6 w [])"
proof -
  consider "w = 0" | "w = 1" | "drop_bit 120 w = 0xFF" | "drop_bit 118 w = 0x3FA"
    using assms by (auto simp: IsGlobalUnicast_def)
  then show ?thesis
  proof cases
    case 1
    then show ?thesis
      by (intro reserved_V6I [of "(0, 2 ^ 32)"]) (simp_all add: reserved_v6_def in_range_def)
  next
    case 2
    then show ?thesis
      by (intro reserved_V6I [of "(0, 2 ^ 32)"]) (simp_all add: reserved_v6_def in_range_def)
  next
    case 3
    then show ?thesis
      by (intro reserved_V6I [of "(0xFF00 * 2 ^ 112, 2 ^ 120)"])
        (simp_all add: reserved_v6_def in_range_def drop_bit_range)
  next
    case 4
    then show ?thesis
      by (intro reserved_V6I [of "(0xFE80 * 2 ^ 112, 2 ^ 118)"])
        (simp_all add: reserved_v6_def in_range_def drop_bit_range)
  qed
qed

fun addr_range :: "int \<Rightarrow> addr \<Rightarrow> nat \<times> nat" where
  "addr_range bits (V4 c) = (unat (drop_bit (32 - nat bits) c) * 2 ^ (32 - nat bits), 2 ^ (32 - nat bits))"
| "addr_range bits (V6 c _) = (unat (drop_bit (128 - nat bits) c) * 2 ^ (128 - nat bits), 2 ^ (128 - nat bits))"

definition prefix_range :: "netprefix \<Rightarrow> nat \<times> nat" where
  "prefix_range p = addr_range (prefix_Bits p) (prefix_Addr p)"

lemma drop_bit_same: "drop_bit k c = drop_bit k v
    \<longleftrightarrow> in_range (unat (v :: 'a::len word)) (unat (drop_bit k c) * 2 ^ k, 2 ^ k)"
  using drop_bit_range [of k v "drop_bit k c"] by (auto simp: in_range_def)

lemma Contains_range:
  "Contains p (V4 w) \<longleftrightarrow> prefix_IsValid p \<and> Is4 (prefix_Addr p) \<and> in_range (unat w) (prefix_range p)"
  "Contains p (V6 v []) \<longleftrightarrow> prefix_IsValid p \<and> \<not> Is4 (prefix_Addr p) \<and> in_range (unat v) (prefix_range p)"
  by (cases "prefix_Addr p"; simp add: Contains_def XOR_eq_0 prefix_range_def flip: drop_bit_same)+

lemma list_ex_ranges: "list_ex (\<lambda>p. Q p \<and> R p \<and> in_range n (prefix_range p)) ps
    = list_ex (in_range n) (map prefix_range (filter (\<lambda>p. Q p \<and> R p) ps))"
  by (auto simp: list_ex_iff)

lemma ranges_evaluated:
  "map prefix_range (filter (\<lambda>p. prefix_IsValid p \<and> Is4 (prefix_Addr p)) nonPublicAddressPrefixes) = reserved_v4"
  "map prefix_range (filter (\<lambda>p. prefix_IsValid p \<and> \<not> Is4 (prefix_Addr p)) nonPublicAddressPrefixes) = reserved_v6"
  by (simp_all add: nonPublicAddressPrefixes_def ip4_def PrefixFrom_def prefix_IsValid_def
      prefix_range_def reserved_v4_def reserved_v6_def quad_def)

lemma Contains_reserved:
  "list_ex (\<lambda>p. Contains p (V4 w)) nonPublicAddressPrefixes = reserved (V4 w)"
  "list_ex (\<lambda>p. Contains p (V6 v [])) nonPublicAddressPrefixes = reserved (V6 v [])"
  unfolding Contains_range list_ex_ranges ranges_evaluated by (simp_all add: reserved_def)

lemma blockedAddress_reserved:
  "blockedAddress (V4 w) = reserved (V4 w)" "blockedAddress (V6 v []) = reserved (V6 v [])"
  using not_global_V4 [of w] not_global_V6 [of v] unfolding blockedAddress_def Contains_reserved
  by blast+

subsection \<open>The guard against internal targets\<close>

text \<open>
  C10.  The address guard is exact on addresses without a zone: an IPv4 address is allowed exactly
  outside the fifteen reserved IPv4 blocks, an IPv6 address exactly outside the fourteen reserved
  IPv6 blocks, and an IPv4-mapped IPv6 address exactly when the IPv4 address it carries is.
\<close>

theorem address_guard_exact:
  "AddressAllowed (V4 w) = (\<not> reserved (V4 w))
   \<and> AddressAllowed (V6 v []) =
       (if drop_bit 32 v = 0xFFFF then \<not> reserved (V4 (ucast v)) else \<not> reserved (V6 v []))"
  by (simp add: AddressAllowed_def blockedAddress_reserved)

lemma dial_loop_tried: "dial_loop dial as = (tried, r) \<Longrightarrow> prefix tried as
    \<and> (\<forall>a \<in> set (butlast tried). dial a = None)
    \<and> (\<forall>c. r = Connected c \<longrightarrow> tried \<noteq> [] \<and> dial (last tried) = Some c)"
proof (induction as arbitrary: tried r)
  case (Cons a rest)
  show ?case
  proof (cases "dial a")
    case None
    obtain t q where t: "dial_loop dial rest = (t, q)" by fastforce
    with Cons.prems None have "tried = a # t" "r = q" by auto
    with Cons.IH [OF t] None show ?thesis by auto
  qed (use Cons.prems in auto)
qed simp

text \<open>
  C11.  Deliveries never reach internal addresses by the dialer: whatever the resolver answers, also
  a different answer than the one validated before, the addresses dialled are the first ones of that
  answer (or the address the host is), every one of them passes the guard, one rejected address in the
  answer refuses the whole dial, and an established connection is the one to the last address tried,
  all earlier ones having failed.
\<close>

theorem safe_dial_only_allowed:
  assumes "safeDialContext L resolve dial address = (tried, r)"
  shows "list_all AddressAllowed tried
    \<and> (tried \<noteq> [] \<longrightarrow> (\<exists>host port addrs. SplitHostPort L address = Some (host, port)
        \<and> (case netip_ParseAddr L host of Some literal \<Rightarrow> addrs = [literal] | None \<Rightarrow> resolve host = Some addrs)
        \<and> prefix tried addrs \<and> list_all AddressAllowed addrs \<and> (\<forall>a \<in> set (butlast tried). dial a port = None)
        \<and> (\<forall>c. r = Connected c \<longrightarrow> dial (last tried) port = Some c)))
    \<and> (\<forall>c. r = Connected c \<longrightarrow> tried \<noteq> [])
    \<and> (\<forall>host port addrs. SplitHostPort L address = Some (host, port) \<longrightarrow> netip_ParseAddr L host = None
          \<longrightarrow> resolve host = Some addrs \<longrightarrow> \<not> list_all AddressAllowed addrs \<longrightarrow> tried = [])"
proof (cases "SplitHostPort L address")
  case None
  with assms show ?thesis by (auto simp: safeDialContext_def)
next
  case (Some hp)
  obtain host port where hp: "hp = (host, port)" by fastforce
  define resolved where "resolved = (case netip_ParseAddr L host of Some l \<Rightarrow> Some [l] | None \<Rightarrow> resolve host)"
  have eq: "safeDialContext L resolve dial address = (case resolved of
      None \<Rightarrow> ([], DialRefused ResolveFailed)
    | Some addresses \<Rightarrow> if addresses = [] then ([], DialRefused NoAddress)
        else if list_ex (\<lambda>a. \<not> AddressAllowed a) addresses then ([], DialRefused PrivateAddress)
        else dial_loop (\<lambda>a. dial a port) addresses)"
    by (simp add: safeDialContext_def Some hp resolved_def)
  consider "tried = []" "\<forall>c. r \<noteq> Connected c"
    | addrs where "resolved = Some addrs" "list_all AddressAllowed addrs"
        "dial_loop (\<lambda>a. dial a port) addrs = (tried, r)"
    using assms unfolding eq
    by (auto simp: list_all_iff list_ex_iff split: option.splits if_splits)
  then show ?thesis
  proof cases
    case 1
    then show ?thesis by auto
  next
    case 2
    note t = dial_loop_tried [OF 2(3)]
    have "list_all AddressAllowed tried" using t 2(2) by (auto simp: list_all_iff dest: set_mono_prefix)
    moreover have "case netip_ParseAddr L host of Some literal \<Rightarrow> addrs = [literal] | None \<Rightarrow> resolve host = Some addrs"
      using 2(1) by (simp add: resolved_def split: option.splits)
    moreover have "\<not> list_all AddressAllowed other \<longrightarrow> tried = []" if "netip_ParseAddr L host = None" "resolve host = Some other" for other
      using that 2(1,2) by (simp add: resolved_def)
    ultimately show ?thesis using t 2(2) Some hp by auto
  qed
qed

definition dial_lib :: "(addr, nat) golib" where
  "dial_lib = \<lparr>unicode_lower = (\<lambda>s. s), unicode_upper = (\<lambda>s. s), unicode_EqualFold = (=), sql_unicode_lower = (\<lambda>s. s), url_Parse = (\<lambda>_. None),
     netip_ParseAddr = (\<lambda>_. None), netip_ParsePrefix = (\<lambda>_. None),
     SplitHostPort = (\<lambda>s. Some (''example.org'', ''443'')), addr_String = (\<lambda>_. []), prefix_String = (\<lambda>_. [])\<rparr>"

theorem safe_dial_only_allowed_witness:
  "fst (safeDialContext dial_lib (\<lambda>_. Some [ip4 8 8 8 8, ip4 10 0 0 1]) (\<lambda>_ _. Some ()) ''example.org:443'') = []
   \<and> \<not> AddressAllowed (ip4 10 0 0 1)"
proof -
  have n: "\<not> AddressAllowed (ip4 10 0 0 1)"
    by (simp add: ip4_def AddressAllowed_def blockedAddress_reserved)
      (simp add: reserved_def reserved_v4_def in_range_def quad_def)
  obtain tried r where r: "safeDialContext dial_lib (\<lambda>_. Some [ip4 8 8 8 8, ip4 10 0 0 1]) (\<lambda>_ _. Some ())
      ''example.org:443'' = (tried, r)" by fastforce
  have host: "SplitHostPort dial_lib ''example.org:443'' = Some (''example.org'', ''443'')" "netip_ParseAddr dial_lib ''example.org'' = None"
    by (simp_all add: dial_lib_def)
  have "tried = []"
    using safe_dial_only_allowed [OF r, THEN conjunct2, THEN conjunct2, THEN conjunct2, rule_format, OF host refl] n by simp
  with r n show ?thesis by simp
qed

text \<open>
  The guard is blind to a zone: an IPv6 address with a zone that is not loopback, link-local,
  multicast or IPv4-mapped is allowed whatever block it lies in, for instance a unique local address
  that is refused without the zone.
\<close>

theorem zoned_address_bypasses_guard:
  "AddressAllowed (V6 0xFD000000000000000000000000000001 ''eth0'')
   \<and> \<not> AddressAllowed (V6 0xFD000000000000000000000000000001 [])"
proof
  let ?w = "0xFD000000000000000000000000000001 :: 128 word"
  have z: "\<not> Contains p (V6 ?w ''eth0'')" for p by (simp add: Contains_def)
  have "IsGlobalUnicast (V6 ?w ''eth0'')"
    by (simp add: IsGlobalUnicast_def)
  then show "AddressAllowed (V6 ?w ''eth0'')"
    using z by (simp add: AddressAllowed_def blockedAddress_def list_ex_iff)
  show "\<not> AddressAllowed (V6 ?w [])"
    by (simp add: AddressAllowed_def blockedAddress_reserved)
      (simp add: reserved_def reserved_v6_def in_range_def)
qed

subsection \<open>Selections\<close>

lemma catalog_distinct: "distinct (map ev_Type catalog)"
  by (simp add: catalog_def instance_event_def site_event_def EventWebhookTest_def)

lemma EventAllowedForScope_iff:
  "EventAllowedForScope t scope \<longleftrightarrow> TrimSpace t \<in> ev_Type ` set (Catalog scope)"
proof
  assume "EventAllowedForScope t scope"
  then show "TrimSpace t \<in> ev_Type ` set (Catalog scope)"
    by (auto simp: EventAllowedForScope_def Catalog_def split: option.splits dest!: find_SomeD
        intro: rev_image_eqI)
next
  assume "TrimSpace t \<in> ev_Type ` set (Catalog scope)"
  then obtain e where e: "e \<in> set catalog" "ev_Type e = TrimSpace t" "scope \<in> set (Scopes e)"
    by (auto simp: Catalog_def)
  then obtain e' where e': "find (\<lambda>event. ev_Type event = TrimSpace t) catalog = Some e'"
    by (cases "find (\<lambda>event. ev_Type event = TrimSpace t) catalog") (auto simp: find_None_iff)
  then have "e' \<in> set catalog" "ev_Type e' = TrimSpace t" by (auto dest: find_SomeD)
  moreover have "inj_on ev_Type (set catalog)" using catalog_distinct by (simp add: distinct_map)
  ultimately have "e' = e" using e by (metis inj_onD)
  with e e' show "EventAllowedForScope t scope" by (simp add: EventAllowedForScope_def)
qed

lemma select_loop_Inr:
  "select_loop scope seen ts = Inr () \<longleftrightarrow> distinct (map TrimSpace ts) \<and> TrimSpace ` set ts \<inter> seen = {}
     \<and> (\<forall>t \<in> set ts. EventAllowedForScope (TrimSpace t) scope)"
  by (induction scope seen ts rule: select_loop.induct) (auto simp: Let_def)

text \<open>
  A selection of events is accepted exactly when the scope is known, something is selected,
  nothing is selected twice (up to surrounding space) and every event is offered by the catalogue to
  the scope; everything offered to site webhooks is offered to instance webhooks too.
\<close>

theorem event_selection_iff:
  "(ValidateEventSelection scope ts = Inr () \<longleftrightarrow>
      (scope = ScopeInstance \<or> scope = ScopeSite) \<and> ts \<noteq> [] \<and> distinct (map TrimSpace ts)
      \<and> TrimSpace ` set ts \<subseteq> ev_Type ` set (Catalog scope))
   \<and> set (Catalog ScopeSite) \<subseteq> set (Catalog ScopeInstance)"
proof -
  have "set (Catalog ScopeSite) \<subseteq> set (Catalog ScopeInstance)"
    by (simp add: Catalog_def catalog_def instance_event_def site_event_def ScopeInstance_def ScopeSite_def)
  moreover have "ValidateEventSelection scope ts = Inr () \<longleftrightarrow>
      (scope = ScopeInstance \<or> scope = ScopeSite) \<and> ts \<noteq> [] \<and> distinct (map TrimSpace ts)
      \<and> TrimSpace ` set ts \<subseteq> ev_Type ` set (Catalog scope)"
    by (auto simp: ValidateEventSelection_def select_loop_Inr EventAllowedForScope_iff)
  ultimately show ?thesis by (intro conjI)
qed

end
