(* ===== verification/Programs.thy ===== *)
theory Programs
  imports Prelude
begin

text \<open>
  Operations on a store: functions from the state to a result or an error and the state afterwards,
  composed the way Go code composes calls that return an error.  An invariant that every statement of
  an operation keeps is kept by the operation.
\<close>

type_synonym ('s, 'e, 'a) prog = "'s \<Rightarrow> ('e + 'a) \<times> 's"

definition ret :: "'a \<Rightarrow> ('s, 'e, 'a) prog" where
  "ret x s = (Inr x, s)"

definition abort :: "'e \<Rightarrow> ('s, 'e, 'a) prog" where
  "abort e s = (Inl e, s)"

definition bind_op :: "('s, 'e, 'a) prog \<Rightarrow> ('a \<Rightarrow> ('s, 'e, 'b) prog) \<Rightarrow> ('s, 'e, 'b) prog" where
  "bind_op m k s = (case m s of (Inl e, s') \<Rightarrow> (Inl e, s') | (Inr x, s') \<Rightarrow> k x s')"

fun for_each :: "('a \<Rightarrow> ('s, 'e, 'b) prog) \<Rightarrow> 'a list \<Rightarrow> ('s, 'e, 'b list) prog" where
  "for_each f [] = ret []"
| "for_each f (x # xs) = bind_op (f x) (\<lambda>y. bind_op (for_each f xs) (\<lambda>ys. ret (y # ys)))"

text \<open>A query, a change, a condition, and a transaction that forgets its changes on an error.\<close>

definition reads :: "('s \<Rightarrow> 'e + 'a) \<Rightarrow> ('s, 'e, 'a) prog" where
  "reads f s = (f s, s)"

definition writes :: "('s \<Rightarrow> 's) \<Rightarrow> ('s, 'e, unit) prog" where
  "writes f s = (Inr (), f s)"

definition require :: "'e \<Rightarrow> ('s \<Rightarrow> bool) \<Rightarrow> ('s, 'e, unit) prog" where
  "require e P s = (if P s then (Inr (), s) else (Inl e, s))"

definition committed :: "('s, 'e, 'a) prog \<Rightarrow> ('s, 'e, 'a) prog" where
  "committed m s = (case m s of (Inl e, _) \<Rightarrow> (Inl e, s) | (Inr x, s') \<Rightarrow> (Inr x, s'))"

lemma bind_op_Inr: "bind_op m k s = (Inr y, s2) \<Longrightarrow> \<exists>x s1. m s = (Inr x, s1) \<and> k x s1 = (Inr y, s2)"
  by (auto simp: bind_op_def split: prod.splits sum.splits)

text \<open>Rows changed by an UPDATE, and their number.\<close>

definition update_where :: "('r \<Rightarrow> bool) \<Rightarrow> ('r \<Rightarrow> 'r) \<Rightarrow> 'r list \<Rightarrow> 'r list" where
  "update_where c f rows = map (\<lambda>r. if c r then f r else r) rows"

definition count_where :: "('r \<Rightarrow> bool) \<Rightarrow> 'r list \<Rightarrow> int" where
  "count_where c rows = int (length (filter c rows))"

lemma map_update_where: "(\<And>r. g (f r) = g r) \<Longrightarrow> map g (update_where c f rows) = map g rows"
  by (simp add: update_where_def)

lemma update_where_all:
  "list_all P rows \<Longrightarrow> (\<And>r. P r \<Longrightarrow> c r \<Longrightarrow> P (f r)) \<Longrightarrow> list_all P (update_where c f rows)"
  by (auto simp: update_where_def list_all_iff)

lemma update_where_ex: "(\<And>r. Q (f r) = Q r) \<Longrightarrow> list_ex Q (update_where c f rows) = list_ex Q rows"
  by (induction rows) (auto simp: update_where_def)

lemma update_where_member: "r \<in> set rows \<Longrightarrow> c r \<Longrightarrow> f r \<in> set (update_where c f rows)"
  by (force simp: update_where_def)

lemma update_whereE:
  assumes "r' \<in> set (update_where c f rows)"
  obtains r where "r \<in> set rows" and "r' = (if c r then f r else r)"
  using assms by (auto simp: update_where_def)

lemma find_distinct: "distinct (map f xs) \<Longrightarrow> x \<in> set xs \<Longrightarrow> find (\<lambda>y. f y = f x) xs = Some x"
  by (induction xs) auto

subsection \<open>Invariants and relations of operations\<close>

definition keeps :: "('s \<Rightarrow> bool) \<Rightarrow> ('s, 'e, 'a) prog \<Rightarrow> bool" where
  "keeps I m \<longleftrightarrow> (\<forall>s. I s \<longrightarrow> I (snd (m s)))"

lemma keepsD: "keeps I m \<Longrightarrow> I s \<Longrightarrow> I (snd (m s))"
  by (simp add: keeps_def)

lemma prog_keeps_ret: "keeps I (ret x)"
  by (simp add: keeps_def ret_def)

lemma prog_keeps_abort: "keeps I (abort e)"
  by (simp add: keeps_def abort_def)

lemma prog_keeps_bind: "keeps I m \<Longrightarrow> (\<And>x. keeps I (k x)) \<Longrightarrow> keeps I (bind_op m k)"
  by (fastforce simp: keeps_def bind_op_def split: prod.splits sum.splits)

lemma prog_keeps_bind_post:
  assumes "\<And>s. I s \<Longrightarrow> (case m s of (Inl _, s') \<Rightarrow> I s' | (Inr x, s') \<Rightarrow> J x s')"
    and "\<And>x s. J x s \<Longrightarrow> I (snd (k x s))"
  shows "keeps I (bind_op m k)"
  using assms by (fastforce simp: keeps_def bind_op_def split: prod.splits sum.splits)

lemma prog_keeps_for_each: "(\<And>x. x \<in> set xs \<Longrightarrow> keeps I (f x)) \<Longrightarrow> keeps I (for_each f xs)"
  by (induction xs) (auto intro!: prog_keeps_bind prog_keeps_ret)

lemma prog_keeps_reads: "keeps I (reads f)"
  by (simp add: keeps_def reads_def)

lemma prog_keeps_require: "keeps I (require e P)"
  by (simp add: keeps_def require_def)

lemma prog_keeps_writes: "(\<And>s. I s \<Longrightarrow> I (f s)) \<Longrightarrow> keeps I (writes f)"
  by (simp add: keeps_def writes_def)

lemma prog_keeps_committed: "keeps I m \<Longrightarrow> keeps I (committed m)"
  by (auto simp: keeps_def committed_def split: prod.splits sum.splits)

lemmas prog_rules = prog_keeps_bind prog_keeps_ret prog_keeps_abort prog_keeps_for_each

end
