(* ===== verification/Webhook_Store.thy ===== *)
theory Webhook_Store
  imports Webhook_Target Programs
begin

text \<open>
  The webhook tables and the statements on them: webhooks and their subscriptions
  (\<open>database/store_webhooks.go\<close>), events, deliveries, attempts and the outbox of site
  deletions (\<open>database/store_webhook_delivery.go\<close>), and transactions
  (\<open>Store.Transact\<close> in \<open>database/query_helpers.go\<close>).

  An operation takes the database to a result and a database.  The field \<open>faults\<close> scripts which
  statement fails for reasons outside the program: every statement, including the begin and the
  commit of a transaction, consumes one entry, and an exhausted script means no more failures.
  Identifiers, secrets and times the code generates are arguments.
\<close>

subsection \<open>Tables\<close>

definition WebhookDeliveryPending :: string where "WebhookDeliveryPending = ''pending''"
definition WebhookDeliveryProcessing :: string where "WebhookDeliveryProcessing = ''processing''"
definition WebhookDeliveryRetrying :: string where "WebhookDeliveryRetrying = ''retrying''"
definition WebhookDeliverySucceeded :: string where "WebhookDeliverySucceeded = ''succeeded''"
definition WebhookDeliveryFailed :: string where "WebhookDeliveryFailed = ''failed''"

lemmas delivery_status_defs [store_simps] = WebhookDeliveryPending_def WebhookDeliveryProcessing_def
  WebhookDeliveryRetrying_def WebhookDeliverySucceeded_def WebhookDeliveryFailed_def

record Webhook =
  w_id :: uuid
  w_site :: "uuid option"
  w_name :: string
  w_description :: string
  w_url :: string
  w_secret :: string
  w_enabled :: bool
  w_created :: time
  w_updated :: time

record WebhookEventRow =
  e_id :: uuid
  e_site :: "uuid option"
  e_type :: string
  e_version :: string
  e_payload :: string
  e_occurred :: time
  e_created :: time

record WebhookDeliveryRecord =
  d_id :: uuid
  d_event :: uuid
  d_webhook :: uuid
  d_site :: "uuid option"
  d_type :: string
  d_name :: string
  d_url :: string
  d_secret :: string
  d_payload :: string
  d_status :: string
  d_attempts :: int
  d_next :: "time option"
  d_last :: "time option"
  d_completed :: "time option"
  d_response :: "int option"
  d_error :: string
  d_message :: string
  d_queued :: "time option"
  d_created :: time
  d_updated :: time

record WebhookAttemptRow =
  a_id :: uuid
  a_delivery :: uuid
  a_site :: "uuid option"
  a_number :: int
  a_status :: string
  a_response :: "int option"
  a_error :: string
  a_message :: string
  a_started :: time
  a_completed :: time
  a_next :: "time option"

record StagedDelivery =
  s_delivery :: uuid
  s_event :: uuid
  s_site :: uuid
  s_webhook :: uuid
  s_type :: string
  s_version :: string
  s_name :: string
  s_url :: string
  s_secret :: string
  s_event_payload :: string
  s_payload :: string
  s_occurred :: time
  s_created :: time

record webhook_db =
  webhooks :: "Webhook list"
  subscriptions :: "(uuid \<times> string) list"
  events :: "WebhookEventRow list"
  deliveries :: "WebhookDeliveryRecord list"
  attempts :: "WebhookAttemptRow list"
  outbox :: "StagedDelivery list"
  live_sites :: "uuid list"
  webhook_audit :: "(string \<times> uuid \<times> string) list"
  faults :: "bool list"

datatype wh_error = Fault | Conflict | ErrWebhookNotFound | DeliveryNotFound | BadInput string
  | BadSelection selection_error

type_synonym 'a op = "(webhook_db, wh_error, 'a) prog"

subsection \<open>Statements and transactions\<close>

definition exec :: "'a op \<Rightarrow> 'a op" where
  "exec f db =
     (case faults db of
        [] \<Rightarrow> f db
      | b # bs \<Rightarrow> if b then (Inl Fault, db\<lparr>faults := bs\<rparr>) else f (db\<lparr>faults := bs\<rparr>))"

definition query :: "(webhook_db \<Rightarrow> 'a) \<Rightarrow> 'a op" where
  "query f = exec (\<lambda>db. (Inr (f db), db))"

definition modify :: "(webhook_db \<Rightarrow> webhook_db) \<Rightarrow> unit op" where
  "modify f = exec (\<lambda>db. (Inr (), f db))"

definition Transact :: "'a op \<Rightarrow> 'a op" where
  "Transact m db =
     (case bind_op (exec (ret ())) (\<lambda>_. bind_op m (\<lambda>x. bind_op (exec (ret ())) (\<lambda>_. ret x))) db of
        (Inl e, db') \<Rightarrow> (Inl e, db\<lparr>faults := faults db'\<rparr>)
      | (Inr x, db') \<Rightarrow> (Inr x, db'))"

definition update_deliveries ::
  "(WebhookDeliveryRecord \<Rightarrow> bool) \<Rightarrow> (WebhookDeliveryRecord \<Rightarrow> WebhookDeliveryRecord) \<Rightarrow> int op" where
  "update_deliveries c f = exec (\<lambda>db. (Inr (count_where c (deliveries db)),
     db\<lparr>deliveries := update_where c f (deliveries db)\<rparr>))"

text \<open>Inserts into a table with a primary key.\<close>

definition insert_event :: "WebhookEventRow \<Rightarrow> unit op" where
  "insert_event r = exec (\<lambda>db. if e_id r \<in> set (map e_id (events db)) then (Inl Conflict, db)
     else (Inr (), db\<lparr>events := events db @ [r]\<rparr>))"

definition insert_delivery :: "WebhookDeliveryRecord \<Rightarrow> unit op" where
  "insert_delivery r = exec (\<lambda>db. if d_id r \<in> set (map d_id (deliveries db)) then (Inl Conflict, db)
     else (Inr (), db\<lparr>deliveries := deliveries db @ [r]\<rparr>))"

definition insert_attempt :: "WebhookAttemptRow \<Rightarrow> unit op" where
  "insert_attempt r = exec (\<lambda>db. if a_id r \<in> set (map a_id (attempts db)) then (Inl Conflict, db)
     else (Inr (), db\<lparr>attempts := attempts db @ [r]\<rparr>))"

definition insert_staged :: "StagedDelivery \<Rightarrow> unit op" where
  "insert_staged r = exec (\<lambda>db. if s_delivery r \<in> set (map s_delivery (outbox db)) then (Inl Conflict, db)
     else (Inr (), db\<lparr>outbox := outbox db @ [r]\<rparr>))"

subsection \<open>Webhooks and subscriptions\<close>

record WebhookInput =
  in_Name :: string
  in_Description :: string
  in_URL :: string
  in_Enabled :: bool
  in_Events :: "string list"

definition webhookScopeWhere :: "uuid option \<Rightarrow> Webhook \<Rightarrow> bool" where
  "webhookScopeWhere siteID w \<longleftrightarrow>
     (case siteID of None \<Rightarrow> w_site w = None | Some s \<Rightarrow> w_site w = Some s)"

definition normalizeWebhookInput :: "uuid option \<Rightarrow> WebhookInput \<Rightarrow> wh_error + WebhookInput" where
  "normalizeWebhookInput siteID input =
     (let input = input\<lparr>in_Name := TrimSpace (in_Name input),
            in_Description := TrimSpace (in_Description input), in_URL := TrimSpace (in_URL input)\<rparr>
      in if in_Name input = [] then Inl (BadInput ''webhook name is required'')
         else if in_URL input = [] then Inl (BadInput ''webhook URL is required'')
         else case ValidateEventSelection (ScopeForSiteID (siteID \<noteq> None)) (in_Events input) of
                Inl e \<Rightarrow> Inl (BadSelection e)
              | Inr _ \<Rightarrow> Inr (input\<lparr>in_Events := sort (in_Events input)\<rparr>))"

definition listWebhookSubscriptions :: "uuid \<Rightarrow> string list op" where
  "listWebhookSubscriptions wid =
     query (\<lambda>db. sort (map snd (filter (\<lambda>(w, _). w = wid) (subscriptions db))))"

definition GetWebhook :: "uuid \<Rightarrow> uuid option \<Rightarrow> (Webhook \<times> string list) option op" where
  "GetWebhook wid siteID =
     bind_op (query (\<lambda>db. find (\<lambda>w. w_id w = wid \<and> webhookScopeWhere siteID w) (webhooks db)))
       (\<lambda>found. case found of
          None \<Rightarrow> ret None
        | Some w \<Rightarrow> bind_op (listWebhookSubscriptions (w_id w)) (\<lambda>evs. ret (Some (w, evs))))"

definition ListWebhooks :: "uuid option \<Rightarrow> (Webhook \<times> string list) list op" where
  "ListWebhooks siteID =
     bind_op (query (\<lambda>db. sort_key (\<lambda>w. - w_created w) (filter (webhookScopeWhere siteID) (webhooks db))))
       (for_each (\<lambda>w. bind_op (listWebhookSubscriptions (w_id w)) (\<lambda>evs. ret (w, evs))))"

definition insertWebhookSubscriptions :: "uuid \<Rightarrow> string list \<Rightarrow> unit list op" where
  "insertWebhookSubscriptions wid evs = for_each (\<lambda>e. exec (\<lambda>db.
     if (wid, e) \<in> set (subscriptions db) then (Inl Conflict, db)
     else (Inr (), db\<lparr>subscriptions := subscriptions db @ [(wid, e)]\<rparr>))) evs"

definition appendWebhookAuditTx :: "string option \<Rightarrow> uuid \<Rightarrow> string \<Rightarrow> unit op" where
  "appendWebhookAuditTx audit wid name =
     (case audit of
        None \<Rightarrow> ret ()
      | Some action \<Rightarrow> modify (\<lambda>db. db\<lparr>webhook_audit := webhook_audit db @ [(action, wid, name)]\<rparr>))"

definition createWebhook :: "uuid \<Rightarrow> string \<Rightarrow> time \<Rightarrow> string option \<Rightarrow> uuid option \<Rightarrow> WebhookInput
    \<Rightarrow> ((Webhook \<times> string list) option \<times> string) op" where
  "createWebhook wid secret now audit siteID input =
     (case normalizeWebhookInput siteID input of
        Inl e \<Rightarrow> abort e
      | Inr input \<Rightarrow>
          bind_op (Transact
            (bind_op (exec (\<lambda>db. if wid \<in> set (map w_id (webhooks db)) \<or> \<not> set_option siteID \<subseteq> set (live_sites db)
                 then (Inl Conflict, db)
                 else (Inr (), db\<lparr>webhooks := webhooks db @
                   [\<lparr>w_id = wid, w_site = siteID, w_name = in_Name input, w_description = in_Description input,
                     w_url = in_URL input, w_secret = secret, w_enabled = in_Enabled input,
                     w_created = now, w_updated = now\<rparr>]\<rparr>)))
              (\<lambda>_. bind_op (insertWebhookSubscriptions wid (in_Events input))
                (\<lambda>_. appendWebhookAuditTx audit wid (in_Name input)))))
          (\<lambda>_. bind_op (GetWebhook wid siteID) (\<lambda>created. ret (created, secret))))"

definition updateWebhook :: "time \<Rightarrow> string option \<Rightarrow> uuid \<Rightarrow> uuid option \<Rightarrow> WebhookInput
    \<Rightarrow> (Webhook \<times> string list) op" where
  "updateWebhook now audit wid siteID input =
     (case normalizeWebhookInput siteID input of
        Inl e \<Rightarrow> abort e
      | Inr input \<Rightarrow>
          bind_op (GetWebhook wid siteID) (\<lambda>existing.
            case existing of
              None \<Rightarrow> abort ErrWebhookNotFound
            | Some _ \<Rightarrow>
                bind_op (Transact
                  (bind_op (exec (\<lambda>db.
                      let c = (\<lambda>w. w_id w = wid \<and> webhookScopeWhere siteID w) in
                      (Inr (count_where c (webhooks db)), db\<lparr>webhooks := update_where c
                         (\<lambda>w. w\<lparr>w_name := in_Name input, w_description := in_Description input,
                            w_url := in_URL input, w_enabled := in_Enabled input, w_updated := now\<rparr>)
                         (webhooks db)\<rparr>)))
                    (\<lambda>affected. if affected = 0 then abort ErrWebhookNotFound
                     else bind_op (modify (\<lambda>db. db\<lparr>subscriptions := filter (\<lambda>(w, _). w \<noteq> wid) (subscriptions db)\<rparr>))
                       (\<lambda>_. bind_op (insertWebhookSubscriptions wid (in_Events input))
                         (\<lambda>_. appendWebhookAuditTx audit wid (in_Name input))))))
                (\<lambda>_. bind_op (GetWebhook wid siteID) (\<lambda>updated.
                   case updated of None \<Rightarrow> abort ErrWebhookNotFound | Some w \<Rightarrow> ret w))))"

definition outstanding :: "string \<Rightarrow> bool" where
  "outstanding st \<longleftrightarrow> st = WebhookDeliveryPending \<or> st = WebhookDeliveryRetrying \<or> st = WebhookDeliveryProcessing"

definition rotateWebhookSecret :: "string \<Rightarrow> time \<Rightarrow> string option \<Rightarrow> uuid \<Rightarrow> uuid option
    \<Rightarrow> ((Webhook \<times> string list) \<times> string) op" where
  "rotateWebhookSecret secret now audit wid siteID =
     bind_op (GetWebhook wid siteID) (\<lambda>existing.
       case existing of
         None \<Rightarrow> abort ErrWebhookNotFound
       | Some (w, _) \<Rightarrow>
           bind_op (Transact
             (bind_op (exec (\<lambda>db.
                 let c = (\<lambda>w. w_id w = wid \<and> webhookScopeWhere siteID w) in
                 (Inr (count_where c (webhooks db)), db\<lparr>webhooks := update_where c
                    (\<lambda>w. w\<lparr>w_secret := secret, w_updated := now\<rparr>) (webhooks db)\<rparr>)))
               (\<lambda>affected. if affected = 0 then abort ErrWebhookNotFound
                else bind_op (update_deliveries (\<lambda>d. d_webhook d = wid \<and> outstanding (d_status d))
                       (\<lambda>d. d\<lparr>d_secret := secret, d_updated := now\<rparr>))
                  (\<lambda>_. appendWebhookAuditTx audit wid (w_name w)))))
           (\<lambda>_. bind_op (GetWebhook wid siteID) (\<lambda>updated.
              case updated of None \<Rightarrow> abort ErrWebhookNotFound | Some u \<Rightarrow> ret (u, secret))))"

definition deleteWebhook :: "string option \<Rightarrow> uuid \<Rightarrow> uuid option \<Rightarrow> unit op" where
  "deleteWebhook audit wid siteID =
     bind_op (GetWebhook wid siteID) (\<lambda>found.
       case found of
         None \<Rightarrow> abort ErrWebhookNotFound
       | Some (w, _) \<Rightarrow>
           Transact (bind_op (modify (\<lambda>db. db\<lparr>subscriptions := filter (\<lambda>(w', _). w' \<noteq> wid) (subscriptions db)\<rparr>))
             (\<lambda>_. bind_op (modify (\<lambda>db. db\<lparr>webhooks :=
                    filter (\<lambda>w'. \<not> (w_id w' = wid \<and> webhookScopeWhere siteID w')) (webhooks db)\<rparr>))
               (\<lambda>_. appendWebhookAuditTx audit wid (w_name w)))))"

subsection \<open>Invariants of operations\<close>

text \<open>
  An invariant that does not look at the fault script is kept by a failing statement, so an operation
  keeps it when its statements do when they run.
\<close>

locale op_invariant =
  fixes I :: "webhook_db \<Rightarrow> bool"
  assumes I_faults: "I (db\<lparr>faults := fs\<rparr>) = I db"
begin

lemmas keeps_ret = prog_keeps_ret [where I = I]
lemmas keeps_abort = prog_keeps_abort [where I = I]
lemmas keeps_bind = prog_keeps_bind [where I = I]
lemmas keeps_bind_post = prog_keeps_bind_post [where I = I]
lemmas keeps_for_each = prog_keeps_for_each [where I = I]

lemma keeps_exec: "(\<And>db. I db \<Longrightarrow> I (snd (f db))) \<Longrightarrow> keeps I (exec f)"
  by (auto simp: keeps_def exec_def I_faults split: list.splits)

lemma keeps_query: "keeps I (query f)"
  by (simp add: query_def keeps_exec)

lemma keeps_modify: "(\<And>db. I db \<Longrightarrow> I (f db)) \<Longrightarrow> keeps I (modify f)"
  by (simp add: modify_def keeps_exec)

lemma keeps_Transact: "keeps I m \<Longrightarrow> keeps I (Transact m)"
proof -
  assume m: "keeps I m"
  have "keeps I (bind_op (exec (ret ())) (\<lambda>_. bind_op m (\<lambda>x. bind_op (exec (ret ())) (\<lambda>_. ret x))))"
    using m by (intro keeps_bind keeps_exec keeps_ret) (simp_all add: ret_def)
  then show ?thesis
    by (fastforce simp: keeps_def Transact_def I_faults split: prod.splits sum.splits)
qed

text \<open>A statement may establish more than the invariant for the statements after it.\<close>

lemma keeps_exec_then:
  assumes "\<And>db. I db \<Longrightarrow> (case f db of (Inl _, db') \<Rightarrow> I db' | (Inr _, db') \<Rightarrow> J db')"
    and "keeps J m" and "\<And>db. J db \<Longrightarrow> I db"
  shows "keeps I (bind_op (exec f) (\<lambda>_. m))"
proof (rule keeps_bind_post [where J = "\<lambda>_. J"])
  fix db assume I: "I db"
  then have "I (db\<lparr>faults := bs\<rparr>)" for bs by (simp add: I_faults)
  with I show "case exec f db of (Inl _, db') \<Rightarrow> I db' | (Inr x, db') \<Rightarrow> J db'"
    using assms(1) by (auto simp: exec_def split: list.splits)
qed (use assms(2,3) in \<open>auto dest: keepsD\<close>)

lemma keeps_option: "keeps I m \<Longrightarrow> (\<And>x. keeps I (k x)) \<Longrightarrow> keeps I (case z of None \<Rightarrow> m | Some x \<Rightarrow> k x)"
  by (cases z) auto

end

text \<open>A transaction that fails leaves every table as it was.\<close>

lemma Transact_atomic: "Transact m db = (Inl e, db') \<Longrightarrow> db' = db\<lparr>faults := faults db'\<rparr>"
  by (auto simp: Transact_def split: prod.splits sum.splits)

lemma exec_Inr: "exec f db = (Inr x, db') \<Longrightarrow> \<exists>fs. f (db\<lparr>faults := fs\<rparr>) = (Inr x, db')"
proof (cases "faults db")
  case Nil
  assume "exec f db = (Inr x, db')"
  with Nil have "f db = (Inr x, db')" by (simp add: exec_def)
  moreover have "db\<lparr>faults := faults db\<rparr> = db" by simp
  ultimately have "f (db\<lparr>faults := faults db\<rparr>) = (Inr x, db')" by metis
  then show ?thesis ..
qed (auto simp: exec_def split: if_splits)

lemma Transact_Inr:
  assumes "Transact m db = (Inr x, db')"
  shows "\<exists>fs db''. m (db\<lparr>faults := fs\<rparr>) = (Inr x, db'') \<and> db' = db''\<lparr>faults := faults db'\<rparr>"
proof -
  have "bind_op (exec (ret ())) (\<lambda>_. bind_op m (\<lambda>x. bind_op (exec (ret ())) (\<lambda>_. ret x))) db = (Inr x, db')"
    using assms by (auto simp: Transact_def split: prod.splits sum.splits)
  then show ?thesis
    by (auto simp: ret_def dest!: bind_op_Inr exec_Inr) (metis webhook_db.surjective webhook_db.update_convs(9))
qed

lemma exec_no_faults: "faults db = [] \<Longrightarrow> exec f db = f db"
  by (simp add: exec_def)

subsection \<open>Well-formed tables\<close>

definition delivery_ok :: "WebhookDeliveryRecord \<Rightarrow> bool" where
  "delivery_ok d \<longleftrightarrow> 0 \<le> d_attempts d \<and>
     ((d_status d = WebhookDeliveryPending \<or> d_status d = WebhookDeliveryRetrying)
        \<and> d_next d \<noteq> None \<and> d_completed d = None
      \<or> d_status d = WebhookDeliveryProcessing \<and> d_last d \<noteq> None \<and> d_completed d = None \<and> d_queued d = None
      \<or> (d_status d = WebhookDeliverySucceeded \<or> d_status d = WebhookDeliveryFailed)
        \<and> d_completed d \<noteq> None \<and> d_queued d = None)"

definition has_event :: "uuid \<Rightarrow> uuid option \<Rightarrow> webhook_db \<Rightarrow> bool" where
  "has_event evid site db \<longleftrightarrow> (\<exists>e \<in> set (events db). e_id e = evid \<and> e_site e = site)"

definition wf_db :: "webhook_db \<Rightarrow> bool" where
  "wf_db db \<longleftrightarrow> distinct (map d_id (deliveries db)) \<and> distinct (map e_id (events db))
     \<and> distinct (map a_id (attempts db)) \<and> distinct (map s_delivery (outbox db))
     \<and> distinct (map w_id (webhooks db)) \<and> list_all delivery_ok (deliveries db)
     \<and> list_all (\<lambda>d. has_event (d_event d) (d_site d) db) (deliveries db)"

lemma wf_db_faults: "wf_db (db\<lparr>faults := fs\<rparr>) = wf_db db"
  by (simp add: wf_db_def has_event_def)

interpretation wfi: op_invariant wf_db
  by unfold_locales (rule wf_db_faults)

interpretation evi: op_invariant "\<lambda>db. wf_db db \<and> has_event evid site db" for evid site
  by unfold_locales (simp add: wf_db_faults has_event_def)

lemma wf_db_other [simp]:
  "wf_db (db\<lparr>subscriptions := x\<rparr>) = wf_db db" "wf_db (db\<lparr>webhook_audit := a\<rparr>) = wf_db db"
  "wf_db (db\<lparr>live_sites := l\<rparr>) = wf_db db"
  by (simp_all add: wf_db_def has_event_def)

lemma distinct_map_filter_keep: "distinct (map f xs) \<Longrightarrow> distinct (map f (filter P xs))"
  by (rule distinct_map_filter)

lemma wf_update_webhooks:
  "wf_db db \<Longrightarrow> (\<And>w. w_id (f w) = w_id w) \<Longrightarrow> wf_db (db\<lparr>webhooks := update_where c f (webhooks db)\<rparr>)"
  by (simp add: wf_db_def has_event_def map_update_where)

lemma wf_filter_webhooks: "wf_db db \<Longrightarrow> wf_db (db\<lparr>webhooks := filter P (webhooks db)\<rparr>)"
  by (simp add: wf_db_def has_event_def distinct_map_filter)

lemma keeps_update_deliveries:
  assumes "\<And>d. d_id (f d) = d_id d \<and> d_event (f d) = d_event d \<and> d_site (f d) = d_site d"
    and "\<And>d. c d \<Longrightarrow> delivery_ok d \<Longrightarrow> delivery_ok (f d)"
  shows "keeps wf_db (update_deliveries c f)"
  unfolding update_deliveries_def
proof (rule wfi.keeps_exec)
  fix db assume wf: "wf_db db"
  have "map d_id (update_where c f (deliveries db)) = map d_id (deliveries db)"
    using assms(1) by (simp add: map_update_where)
  moreover have "list_all delivery_ok (update_where c f (deliveries db))"
    using wf assms(2) by (auto simp: wf_db_def intro: update_where_all)
  moreover have "list_all (\<lambda>d. has_event (d_event d) (d_site d) db) (update_where c f (deliveries db))"
    using wf assms(1) by (auto simp: wf_db_def intro: update_where_all)
  ultimately show "wf_db (snd (Inr (count_where c (deliveries db)) :: wh_error + int,
      db\<lparr>deliveries := update_where c f (deliveries db)\<rparr>))"
    using wf by (simp add: wf_db_def has_event_def)
qed

text \<open>The rules that take an operation apart down to its statements.\<close>

lemmas wf_rules = wfi.keeps_bind wfi.keeps_Transact wfi.keeps_exec wfi.keeps_modify wfi.keeps_ret
  wfi.keeps_abort wfi.keeps_query wfi.keeps_for_each

lemma keeps_audit: "keeps wf_db (appendWebhookAuditTx audit wid name)"
  by (cases audit) (auto simp: appendWebhookAuditTx_def intro!: wf_rules)

lemma keeps_subscriptions: "keeps wf_db (insertWebhookSubscriptions wid evs)"
  by (auto simp: insertWebhookSubscriptions_def intro!: wf_rules)

lemma keeps_GetWebhook: "keeps wf_db (GetWebhook wid site)"
  by (auto simp: GetWebhook_def listWebhookSubscriptions_def split: option.splits intro!: wf_rules)

lemmas wf_calls = keeps_audit keeps_subscriptions keeps_GetWebhook

lemma wf_insert_webhook: "wf_db db \<Longrightarrow> w_id w \<notin> set (map w_id (webhooks db))
    \<Longrightarrow> wf_db (db\<lparr>webhooks := webhooks db @ [w]\<rparr>)"
  by (simp add: wf_db_def has_event_def)

lemma keeps_createWebhook: "keeps wf_db (createWebhook wid secret now audit site input)"
  by (auto simp: createWebhook_def split: sum.splits intro!: wf_rules wf_calls wf_insert_webhook)

lemma keeps_updateWebhook: "keeps wf_db (updateWebhook now audit wid site input)"
  by (auto simp: updateWebhook_def Let_def split: sum.splits option.splits
      intro!: wf_rules wf_calls wf_update_webhooks)

lemma keeps_rotateWebhookSecret: "keeps wf_db (rotateWebhookSecret secret now audit wid site)"
  by (auto simp: rotateWebhookSecret_def Let_def delivery_ok_def split: option.splits
      intro!: wf_rules wf_calls keeps_update_deliveries wf_update_webhooks)

lemma keeps_deleteWebhook: "keeps wf_db (deleteWebhook audit wid site)"
  by (auto simp: deleteWebhook_def split: option.splits
      intro!: wf_rules wf_calls wf_filter_webhooks)

end
