(* ===== verification/Webhook_Delivery.thy ===== *)
theory Webhook_Delivery
  imports Webhook_Store
begin

text \<open>
  Events and deliveries (\<open>database/store_webhook_delivery.go\<close>): enqueueing with
  deduplication, the outbox of site deletions, the lists of due deliveries, claiming, recording
  attempts, recovery and retention.  The JSON encoder and the value that stands for an empty
  payload are the parameter \<open>J\<close>.
\<close>

record 'd WebhookEventInput =
  ei_ID :: uuid
  ei_SiteID :: "uuid option"
  ei_Target :: "uuid option"
  ei_Type :: string
  ei_APIVersion :: string
  ei_OccurredAt :: time
  ei_Data :: "'d option"
  ei_Preserve :: bool
  ei_Deduplicate :: bool

record 'd webhookPayload =
  p_APIVersion :: string
  p_ID :: uuid
  p_DeliveryID :: "uuid option"
  p_Type :: string
  p_CreatedAt :: time
  p_Data :: 'd

record 'd json_lib =
  Marshal :: "'d webhookPayload \<Rightarrow> string option"
  empty_object :: 'd

record WebhookDeliveryJob =
  j_DeliveryID :: uuid
  j_EventID :: uuid
  j_WebhookID :: uuid
  j_Payload :: string

definition job_of :: "WebhookDeliveryRecord \<Rightarrow> WebhookDeliveryJob" where
  "job_of d = \<lparr>j_DeliveryID = d_id d, j_EventID = d_event d, j_WebhookID = d_webhook d, j_Payload = d_payload d\<rparr>"

subsection \<open>Enqueueing\<close>

definition subscriber_matches :: "uuid option \<Rightarrow> uuid option \<Rightarrow> string \<Rightarrow> (uuid \<times> string) set \<Rightarrow> Webhook \<Rightarrow> bool" where
  "subscriber_matches siteID target eventType subs w \<longleftrightarrow>
     w_enabled w
     \<and> (case siteID of None \<Rightarrow> w_site w = None | Some s \<Rightarrow> w_site w = None \<or> w_site w = Some s)
     \<and> (case target of None \<Rightarrow> True | Some t \<Rightarrow> w_id w = t)
     \<and> (target \<noteq> None \<and> eventType = EventWebhookTest \<or> (w_id w, eventType) \<in> subs)"

definition enabledWebhookSubscribers :: "uuid option \<Rightarrow> uuid option \<Rightarrow> string \<Rightarrow> Webhook list op" where
  "enabledWebhookSubscribers siteID target eventType = query (\<lambda>db.
     sort_key w_created (sort_key w_id
       (filter (subscriber_matches siteID target eventType (set (subscriptions db))) (webhooks db))))"

definition HasEnabledWebhookSubscribers :: "uuid option \<Rightarrow> string \<Rightarrow> bool op" where
  "HasEnabledWebhookSubscribers siteID eventType =
     bind_op (enabledWebhookSubscribers siteID None eventType) (\<lambda>subs. ret (subs \<noteq> []))"

definition existingWebhookDeliveryJobs ::
  "'d WebhookEventInput list \<Rightarrow> (uuid \<Rightarrow> WebhookDeliveryJob list option) op" where
  "existingWebhookDeliveryJobs inputs =
     (let ids = map ei_ID (filter (\<lambda>i. ei_Deduplicate i \<and> ei_ID i \<noteq> uuid_Nil) inputs) in
      if ids = [] then ret (\<lambda>_. None)
      else query (\<lambda>db evid.
        if evid \<in> set ids \<and> evid \<in> set (map e_id (events db))
        then Some (map job_of (sort_key d_id (filter (\<lambda>d. d_event d = evid) (deliveries db))))
        else None))"

text \<open>The prepared input, the event body and the stored site.\<close>

definition prepareWebhookEventInput :: "'d json_lib \<Rightarrow> uuid \<Rightarrow> time \<Rightarrow> 'd WebhookEventInput
    \<Rightarrow> wh_error + 'd WebhookEventInput \<times> string \<times> uuid option" where
  "prepareWebhookEventInput J new_id now input =
     (if \<not> EventAllowedForScope (ei_Type input) ScopeInstance then Inl (BadInput ''unsupported webhook event type'')
      else if ei_APIVersion input = [] then Inl (BadInput ''webhook API version is required'')
      else
        let input = (if ei_ID input = uuid_Nil then input\<lparr>ei_ID := new_id\<rparr> else input);
            input = (if IsZero (ei_OccurredAt input) then input\<lparr>ei_OccurredAt := now\<rparr> else input);
            data = (case ei_Data input of None \<Rightarrow> empty_object J | Some d \<Rightarrow> d);
            input = input\<lparr>ei_Data := Some data\<rparr>
        in case Marshal J \<lparr>p_APIVersion = ei_APIVersion input, p_ID = ei_ID input, p_DeliveryID = None,
                  p_Type = ei_Type input, p_CreatedAt = ei_OccurredAt input, p_Data = data\<rparr> of
             None \<Rightarrow> Inl (BadInput ''marshal webhook event payload'')
           | Some body \<Rightarrow> Inr (input, body, if ei_Preserve input then None else ei_SiteID input))"

definition delivery_payload :: "'d json_lib \<Rightarrow> 'd WebhookEventInput \<Rightarrow> uuid \<Rightarrow> string option" where
  "delivery_payload J input did = Marshal J \<lparr>p_APIVersion = ei_APIVersion input, p_ID = ei_ID input,
     p_DeliveryID = Some did, p_Type = ei_Type input, p_CreatedAt = ei_OccurredAt input,
     p_Data = (case ei_Data input of None \<Rightarrow> empty_object J | Some d \<Rightarrow> d)\<rparr>"

definition new_delivery :: "uuid \<Rightarrow> uuid \<Rightarrow> uuid \<Rightarrow> uuid option \<Rightarrow> string \<Rightarrow> string \<Rightarrow> string \<Rightarrow> string
    \<Rightarrow> string \<Rightarrow> time \<Rightarrow> WebhookDeliveryRecord" where
  "new_delivery did evid wid site type name url secret payload now =
     \<lparr>d_id = did, d_event = evid, d_webhook = wid, d_site = site, d_type = type, d_name = name, d_url = url,
      d_secret = secret, d_payload = payload, d_status = WebhookDeliveryPending, d_attempts = 0,
      d_next = Some now, d_last = None, d_completed = None, d_response = None, d_error = [], d_message = [],
      d_queued = None, d_created = now, d_updated = now\<rparr>"

definition insertWebhookEventTx :: "'d json_lib \<Rightarrow> (nat \<Rightarrow> uuid) \<Rightarrow> 'd WebhookEventInput \<Rightarrow> uuid option
    \<Rightarrow> string \<Rightarrow> Webhook list \<Rightarrow> time \<Rightarrow> WebhookDeliveryJob list op" where
  "insertWebhookEventTx J new_id input site body subs now =
     bind_op (insert_event \<lparr>e_id = ei_ID input, e_site = site, e_type = ei_Type input,
         e_version = ei_APIVersion input, e_payload = body, e_occurred = ei_OccurredAt input, e_created = now\<rparr>)
       (\<lambda>_. for_each (\<lambda>(k, w).
          case delivery_payload J input (new_id k) of
            None \<Rightarrow> abort (BadInput ''marshal webhook delivery payload'')
          | Some payload \<Rightarrow>
              let d = new_delivery (new_id k) (ei_ID input) (w_id w) site (ei_Type input) (w_name w)
                        (w_url w) (w_secret w) payload now
              in bind_op (insert_delivery d) (\<lambda>_. ret (job_of d)))
          (enumerate 0 subs))"

text \<open>
  What the first loop leaves for an input: jobs that are settled, or an event to insert.  The new
  event identifier and the delivery identifiers of the input at an index come from \<open>new_event\<close>
  and \<open>new_delivery_id\<close>.
\<close>

datatype 'd slot = Settled "WebhookDeliveryJob list"
  | ToInsert nat "'d WebhookEventInput" "uuid option" string "Webhook list"

definition prepare_slot :: "'d json_lib \<Rightarrow> (nat \<Rightarrow> uuid) \<Rightarrow> time \<Rightarrow> (uuid \<Rightarrow> WebhookDeliveryJob list option)
    \<Rightarrow> nat \<times> 'd WebhookEventInput \<Rightarrow> 'd slot op" where
  "prepare_slot J new_event now existing iin =
     (case existing (ei_ID (snd iin)) of
        Some jobs \<Rightarrow> ret (Settled jobs)
      | None \<Rightarrow>
          (case prepareWebhookEventInput J (new_event (fst iin)) now (snd iin) of
             Inl e \<Rightarrow> abort e
           | Inr (input, body, site) \<Rightarrow>
               bind_op (enabledWebhookSubscribers (ei_SiteID input) (ei_Target input) (ei_Type input))
                 (\<lambda>subs. ret (if subs = [] then Settled [] else ToInsert (fst iin) input site body subs))))"

definition insert_slot :: "'d json_lib \<Rightarrow> (nat \<Rightarrow> nat \<Rightarrow> uuid) \<Rightarrow> time \<Rightarrow> 'd slot \<Rightarrow> WebhookDeliveryJob list op" where
  "insert_slot J new_delivery_id now sl =
     (case sl of
        Settled jobs \<Rightarrow> ret jobs
      | ToInsert i input site body subs \<Rightarrow> insertWebhookEventTx J (new_delivery_id i) input site body subs now)"

definition is_settled :: "'d slot \<Rightarrow> bool" where
  "is_settled sl = (case sl of Settled _ \<Rightarrow> True | ToInsert _ _ _ _ _ \<Rightarrow> False)"

definition EnqueueWebhookEvents :: "'d json_lib \<Rightarrow> (nat \<Rightarrow> uuid) \<Rightarrow> (nat \<Rightarrow> nat \<Rightarrow> uuid) \<Rightarrow> time
    \<Rightarrow> 'd WebhookEventInput list \<Rightarrow> WebhookDeliveryJob list list op" where
  "EnqueueWebhookEvents J new_event new_delivery_id now inputs =
     (if inputs = [] then ret []
      else bind_op (existingWebhookDeliveryJobs inputs) (\<lambda>existing.
        bind_op (for_each (prepare_slot J new_event now existing) (enumerate 0 inputs)) (\<lambda>slots.
          if list_all is_settled slots
          then ret (map (\<lambda>sl. case sl of Settled jobs \<Rightarrow> jobs | ToInsert _ _ _ _ _ \<Rightarrow> []) slots)
          else Transact (for_each (insert_slot J new_delivery_id now) slots))))"

subsection \<open>The outbox of site deletions\<close>

definition stageSiteDeletionWebhookEvent :: "'d json_lib \<Rightarrow> (nat \<Rightarrow> uuid) \<Rightarrow> uuid \<Rightarrow> 'd WebhookEventInput
    \<Rightarrow> string \<Rightarrow> Webhook list \<Rightarrow> time \<Rightarrow> unit list op" where
  "stageSiteDeletionWebhookEvent J new_id siteID input body subs now =
     Transact (for_each (\<lambda>(k, w).
       case delivery_payload J input (new_id k) of
         None \<Rightarrow> abort (BadInput ''marshal final site webhook delivery'')
       | Some payload \<Rightarrow> insert_staged \<lparr>s_delivery = new_id k, s_event = ei_ID input, s_site = siteID,
           s_webhook = w_id w, s_type = ei_Type input, s_version = ei_APIVersion input, s_name = w_name w,
           s_url = w_url w, s_secret = w_secret w, s_event_payload = body, s_payload = payload,
           s_occurred = ei_OccurredAt input, s_created = now\<rparr>)
       (enumerate 0 subs))"

definition cancelStagedSiteDeletionWebhookEvent :: "uuid \<Rightarrow> unit op" where
  "cancelStagedSiteDeletionWebhookEvent evid =
     modify (\<lambda>db. db\<lparr>outbox := filter (\<lambda>r. s_event r \<noteq> evid) (outbox db)\<rparr>)"

definition materialize_row :: "uuid \<Rightarrow> time \<Rightarrow> StagedDelivery \<Rightarrow> WebhookDeliveryJob op" where
  "materialize_row evid now r =
     (let d = new_delivery (s_delivery r) evid (s_webhook r) None (s_type r) (s_name r) (s_url r)
                (s_secret r) (s_payload r) now
      in bind_op (insert_delivery d) (\<lambda>_. ret (job_of d)))"

definition materialize_staged :: "uuid \<Rightarrow> time \<Rightarrow> StagedDelivery list \<Rightarrow> WebhookDeliveryJob list op" where
  "materialize_staged evid now staged =
     (case staged of
        [] \<Rightarrow> ret []
      | first # _ \<Rightarrow>
          Transact (bind_op (insert_event \<lparr>e_id = evid, e_site = None, e_type = s_type first,
               e_version = s_version first, e_payload = s_event_payload first,
               e_occurred = s_occurred first, e_created = now\<rparr>)
            (\<lambda>_. bind_op (for_each (materialize_row evid now) staged)
              (\<lambda>jobs. bind_op (modify (\<lambda>db. db\<lparr>outbox := filter (\<lambda>r. s_event r \<noteq> evid) (outbox db)\<rparr>))
                (\<lambda>_. ret jobs)))))"

definition CommitStagedSiteDeletionWebhookEvent :: "uuid \<Rightarrow> time \<Rightarrow> WebhookDeliveryJob list op" where
  "CommitStagedSiteDeletionWebhookEvent evid now =
     bind_op (query (\<lambda>db. sort_key s_delivery (filter (\<lambda>r. s_event r = evid) (outbox db))))
       (materialize_staged evid now)"

definition RecoverStagedSiteDeletionWebhookEvents :: "time \<Rightarrow> WebhookDeliveryJob list list op" where
  "RecoverStagedSiteDeletionWebhookEvents now =
     bind_op (query (\<lambda>db. sort (remdups (map s_event
         (filter (\<lambda>r. s_site r \<notin> set (live_sites db)) (outbox db))))))
       (for_each (\<lambda>evid. CommitStagedSiteDeletionWebhookEvent evid now))"

definition DeleteAbandonedStagedSiteDeletionWebhookEvents :: "time \<Rightarrow> int op" where
  "DeleteAbandonedStagedSiteDeletionWebhookEvents before = exec (\<lambda>db.
     let c = (\<lambda>r. s_created r < before \<and> s_site r \<in> set (live_sites db)) in
     (Inr (count_where c (outbox db)), db\<lparr>outbox := filter (\<lambda>r. \<not> c r) (outbox db)\<rparr>))"

text \<open>
  Deleting a site: one transaction removes the rows that name the site, of the webhook tables here,
  then a statement of its own removes the site.
\<close>

definition DeleteSite :: "uuid \<Rightarrow> unit op" where
  "DeleteSite site =
     bind_op (Transact (bind_op (modify (\<lambda>db. db\<lparr>subscriptions :=
           filter (\<lambda>(w, _). \<not> (\<exists>h \<in> set (webhooks db). w_id h = w \<and> w_site h = Some site)) (subscriptions db)\<rparr>))
       (\<lambda>_. bind_op (modify (\<lambda>db. db\<lparr>webhooks := filter (\<lambda>w. w_site w \<noteq> Some site) (webhooks db)\<rparr>))
         (\<lambda>_. bind_op (modify (\<lambda>db. db\<lparr>attempts := filter (\<lambda>a. a_site a \<noteq> Some site) (attempts db)\<rparr>))
           (\<lambda>_. bind_op (modify (\<lambda>db. db\<lparr>deliveries := filter (\<lambda>d. d_site d \<noteq> Some site) (deliveries db)\<rparr>))
             (\<lambda>_. modify (\<lambda>db. db\<lparr>events := filter (\<lambda>e. e_site e \<noteq> Some site) (events db)\<rparr>)))))))
     (\<lambda>_. modify (\<lambda>db. db\<lparr>live_sites := filter (\<lambda>s. s \<noteq> site) (live_sites db)\<rparr>))"

definition DeleteSiteWithWebhookEvent :: "'d json_lib \<Rightarrow> uuid \<Rightarrow> (nat \<Rightarrow> uuid) \<Rightarrow> time \<Rightarrow> uuid
    \<Rightarrow> 'd WebhookEventInput \<Rightarrow> WebhookDeliveryJob list op" where
  "DeleteSiteWithWebhookEvent J new_event new_id now site event db =
     (case prepareWebhookEventInput J new_event now (event\<lparr>ei_SiteID := Some site, ei_Preserve := True\<rparr>) of
        Inl e \<Rightarrow> (Inl e, db)
      | Inr (prepared, body, _) \<Rightarrow>
          (case enabledWebhookSubscribers (Some site) (ei_Target prepared) (ei_Type prepared) db of
             (Inl e, db) \<Rightarrow> (Inl e, db)
           | (Inr [], db) \<Rightarrow> bind_op (DeleteSite site) (\<lambda>_. ret []) db
           | (Inr subs, db) \<Rightarrow>
               (case stageSiteDeletionWebhookEvent J new_id site prepared body subs now db of
                  (Inl e, db) \<Rightarrow> (Inl e, db)
                | (Inr _, db) \<Rightarrow>
                    (case DeleteSite site db of
                       (Inl e, db) \<Rightarrow> (Inl e, snd (cancelStagedSiteDeletionWebhookEvent (ei_ID prepared) db))
                     | (Inr _, db) \<Rightarrow>
                         (case CommitStagedSiteDeletionWebhookEvent (ei_ID prepared) now db of
                            (Inl _, db) \<Rightarrow> (Inr [], db)
                          | (Inr jobs, db) \<Rightarrow> (Inr jobs, db))))))"

subsection \<open>Due deliveries and queue markers\<close>

definition waiting :: "string \<Rightarrow> bool" where
  "waiting st \<longleftrightarrow> st = WebhookDeliveryPending \<or> st = WebhookDeliveryRetrying"

definition is_due :: "time \<Rightarrow> time option \<Rightarrow> WebhookDeliveryRecord \<Rightarrow> bool" where
  "is_due dueAt queuedBefore d \<longleftrightarrow> waiting (d_status d)
     \<and> (case d_next d of Some t \<Rightarrow> t \<le> dueAt | None \<Rightarrow> False)
     \<and> (case queuedBefore of None \<Rightarrow> True
         | Some q \<Rightarrow> (case d_queued d of None \<Rightarrow> True | Some t \<Rightarrow> t \<le> q))"

definition listWebhookDeliveryJobs :: "time \<Rightarrow> time option \<Rightarrow> int \<Rightarrow> WebhookDeliveryJob list op" where
  "listWebhookDeliveryJobs dueAt queuedBefore limit =
     (let limit = (if limit \<le> 0 \<or> limit > 1000 then 100 else limit) in
      query (\<lambda>db. sort_key j_DeliveryID (map job_of (take (nat limit)
        (sort_key (\<lambda>d. the (d_next d)) (sort_key d_created
          (filter (is_due dueAt queuedBefore) (deliveries db))))))))"

definition ListDueWebhookDeliveryJobs :: "time \<Rightarrow> int \<Rightarrow> WebhookDeliveryJob list op" where
  "ListDueWebhookDeliveryJobs dueAt limit = listWebhookDeliveryJobs dueAt None limit"

definition ListDispatchableWebhookDeliveryJobs :: "time \<Rightarrow> time \<Rightarrow> int \<Rightarrow> WebhookDeliveryJob list op" where
  "ListDispatchableWebhookDeliveryJobs dueAt queuedBefore limit =
     listWebhookDeliveryJobs dueAt (Some queuedBefore) limit"

definition MarkWebhookDeliveryQueued :: "uuid \<Rightarrow> time \<Rightarrow> int op" where
  "MarkWebhookDeliveryQueued did at = update_deliveries (\<lambda>d. d_id d = did \<and> waiting (d_status d))
     (\<lambda>d. d\<lparr>d_queued := Some at, d_updated := at\<rparr>)"

definition ClearWebhookDeliveryQueued :: "uuid \<Rightarrow> time \<Rightarrow> int op" where
  "ClearWebhookDeliveryQueued did at = update_deliveries (\<lambda>d. d_id d = did \<and> waiting (d_status d))
     (\<lambda>d. d\<lparr>d_queued := None, d_updated := at\<rparr>)"

subsection \<open>Claiming and recording\<close>

definition GetWebhookDelivery :: "uuid \<Rightarrow> WebhookDeliveryRecord option op" where
  "GetWebhookDelivery did = query (\<lambda>db. find (\<lambda>d. d_id d = did) (deliveries db))"

definition claimable :: "uuid \<Rightarrow> time \<Rightarrow> WebhookDeliveryRecord \<Rightarrow> bool" where
  "claimable did now d \<longleftrightarrow> d_id d = did \<and> waiting (d_status d)
     \<and> (case d_next d of None \<Rightarrow> True | Some t \<Rightarrow> t \<le> now)"

definition ClaimWebhookDelivery :: "uuid \<Rightarrow> time \<Rightarrow> WebhookDeliveryRecord option op" where
  "ClaimWebhookDelivery did now =
     bind_op (update_deliveries (claimable did now)
         (\<lambda>d. d\<lparr>d_status := WebhookDeliveryProcessing, d_last := Some now, d_queued := None, d_updated := now\<rparr>))
       (\<lambda>affected. if affected = 0 then ret None
        else bind_op (GetWebhookDelivery did) (\<lambda>delivery.
          case delivery of
            None \<Rightarrow> ret None
          | Some d \<Rightarrow> ret (if d_status d \<noteq> WebhookDeliveryProcessing then None else Some d)))"

record WebhookAttemptResult =
  r_Status :: string
  r_ResponseStatus :: int
  r_ErrorCode :: string
  r_ErrorMessage :: string
  r_StartedAt :: time
  r_CompletedAt :: time
  r_NextAttemptAt :: "time option"

definition recordAttemptTx :: "uuid \<Rightarrow> time \<Rightarrow> uuid \<Rightarrow> WebhookAttemptResult \<Rightarrow> WebhookDeliveryRecord \<Rightarrow> unit op" where
  "recordAttemptTx new_id clock did result delivery =
     (let started = (if IsZero (r_StartedAt result) then clock else r_StartedAt result);
          completed = (if IsZero (r_CompletedAt result) then clock else r_CompletedAt result);
          attemptNumber = d_attempts delivery + 1;
          responseStatus = (if r_ResponseStatus result > 0 then Some (r_ResponseStatus result) else None);
          completedAt = (if r_Status result = WebhookDeliverySucceeded
                            \<or> r_Status result = WebhookDeliveryFailed then Some completed else None)
      in Transact (bind_op (insert_attempt \<lparr>a_id = new_id, a_delivery = did, a_site = d_site delivery,
             a_number = attemptNumber, a_status = r_Status result, a_response = responseStatus,
             a_error = r_ErrorCode result, a_message = r_ErrorMessage result, a_started = started,
             a_completed = completed, a_next = r_NextAttemptAt result\<rparr>)
           (\<lambda>_. bind_op (update_deliveries (\<lambda>d. d_id d = did)
              (\<lambda>d. d\<lparr>d_status := r_Status result, d_attempts := attemptNumber,
                 d_next := r_NextAttemptAt result, d_completed := completedAt,
                 d_response := responseStatus, d_error := r_ErrorCode result,
                 d_message := r_ErrorMessage result, d_queued := None, d_updated := completed\<rparr>))
            (\<lambda>_. ret ()))))"

definition RecordWebhookDeliveryAttempt :: "uuid \<Rightarrow> time \<Rightarrow> uuid \<Rightarrow> WebhookAttemptResult \<Rightarrow> unit op" where
  "RecordWebhookDeliveryAttempt new_id clock did result =
     bind_op (GetWebhookDelivery did) (\<lambda>found.
       case found of
         None \<Rightarrow> abort DeliveryNotFound
       | Some delivery \<Rightarrow>
           if r_Status result \<noteq> WebhookDeliverySucceeded \<and> r_Status result \<noteq> WebhookDeliveryRetrying
              \<and> r_Status result \<noteq> WebhookDeliveryFailed
           then abort (BadInput ''invalid webhook delivery result status'')
           else recordAttemptTx new_id clock did result delivery)"

definition stale :: "time \<Rightarrow> WebhookDeliveryRecord \<Rightarrow> bool" where
  "stale before d \<longleftrightarrow> d_status d = WebhookDeliveryProcessing
     \<and> (case d_last d of Some t \<Rightarrow> t < before | None \<Rightarrow> False)"

definition RecoverStaleWebhookDeliveries :: "time \<Rightarrow> time \<Rightarrow> int op" where
  "RecoverStaleWebhookDeliveries staleBefore now = update_deliveries (stale staleBefore)
     (\<lambda>d. d\<lparr>d_status := WebhookDeliveryRetrying, d_next := Some now, d_error := ''worker_interrupted'',
        d_message := ''delivery worker stopped before recording an outcome'', d_queued := None,
        d_updated := now\<rparr>)"

definition expired :: "time \<Rightarrow> WebhookDeliveryRecord \<Rightarrow> bool" where
  "expired cutoff d \<longleftrightarrow> (d_status d = WebhookDeliverySucceeded \<or> d_status d = WebhookDeliveryFailed)
     \<and> (case d_completed d of Some t \<Rightarrow> t < cutoff | None \<Rightarrow> False)"

definition DeleteWebhookHistoryBefore :: "time \<Rightarrow> (int \<times> int \<times> int) op" where
  "DeleteWebhookHistoryBefore cutoff =
     bind_op (exec (\<lambda>db. (Inr (count_where (\<lambda>a. a_completed a < cutoff) (attempts db)),
         db\<lparr>attempts := filter (\<lambda>a. \<not> a_completed a < cutoff) (attempts db)\<rparr>)))
       (\<lambda>na. bind_op (exec (\<lambda>db. (Inr (count_where (expired cutoff) (deliveries db)),
            db\<lparr>deliveries := filter (\<lambda>d. \<not> expired cutoff d) (deliveries db)\<rparr>)))
         (\<lambda>nd. bind_op (exec (\<lambda>db.
              let c = (\<lambda>e. e_created e < cutoff \<and> e_id e \<notin> set (map d_event (deliveries db))) in
              (Inr (count_where c (events db)), db\<lparr>events := filter (\<lambda>e. \<not> c e) (events db)\<rparr>)))
           (\<lambda>ne. ret (na, nd, ne))))"

subsection \<open>Every operation keeps the tables well-formed\<close>

lemma keeps_subscribers: "keeps wf_db (enabledWebhookSubscribers site target type)"
  by (auto simp: enabledWebhookSubscribers_def intro!: wf_rules)

lemma keeps_GetWebhookDelivery: "keeps wf_db (GetWebhookDelivery did)"
  by (auto simp: GetWebhookDelivery_def intro!: wf_rules)

lemma keeps_existing: "keeps wf_db (existingWebhookDeliveryJobs inputs)"
  by (auto simp: existingWebhookDeliveryJobs_def Let_def intro!: wf_rules)

lemma delivery_ok_new: "delivery_ok (new_delivery did evid wid site type name url secret payload now)"
  by (simp add: new_delivery_def delivery_ok_def)

lemma new_delivery_simps [simp]:
  "d_event (new_delivery did evid wid site type name url secret payload now) = evid"
  "d_site (new_delivery did evid wid site type name url secret payload now) = site"
  "d_id (new_delivery did evid wid site type name url secret payload now) = did"
  by (simp_all add: new_delivery_def)

lemma wf_insert_delivery:
  "wf_db db \<Longrightarrow> delivery_ok d \<Longrightarrow> has_event (d_event d) (d_site d) db \<Longrightarrow> d_id d \<notin> set (map d_id (deliveries db))
     \<Longrightarrow> wf_db (db\<lparr>deliveries := deliveries db @ [d]\<rparr>)"
  by (simp add: wf_db_def has_event_def)

lemma wf_insert_event: "wf_db db \<Longrightarrow> e_id e \<notin> set (map e_id (events db))
    \<Longrightarrow> wf_db (db\<lparr>events := events db @ [e]\<rparr>) \<and> has_event (e_id e) (e_site e) (db\<lparr>events := events db @ [e]\<rparr>)"
  by (auto simp: wf_db_def has_event_def list_all_iff)

lemma keeps_insert_delivery:
  assumes "delivery_ok d" and "d_event d = evid" and "d_site d = site"
  shows "keeps (\<lambda>db. wf_db db \<and> has_event evid site db) (insert_delivery d)"
  unfolding insert_delivery_def
  by (rule evi.keeps_exec) (use assms wf_insert_delivery in \<open>auto simp: has_event_def\<close>)

lemma insert_event_then:
  assumes "keeps (\<lambda>db. wf_db db \<and> has_event (e_id e) (e_site e) db) m"
  shows "keeps wf_db (bind_op (insert_event e) (\<lambda>_. m))"
  unfolding insert_event_def
  by (rule wfi.keeps_exec_then [OF _ assms]) (auto simp: wf_insert_event)

lemmas ev_rules = evi.keeps_bind evi.keeps_ret evi.keeps_abort evi.keeps_for_each keeps_insert_delivery

lemma keeps_insertWebhookEventTx: "keeps wf_db (insertWebhookEventTx J new_id input site body subs now)"
  unfolding insertWebhookEventTx_def
  by (rule insert_event_then)
    (auto simp: Let_def delivery_ok_new split: option.splits intro!: ev_rules)

lemma keeps_prepare_slot: "keeps wf_db (prepare_slot J ne now existing iin)"
  by (auto simp: prepare_slot_def split: option.splits sum.splits intro!: wf_rules keeps_subscribers)

lemma keeps_insert_slot: "keeps wf_db (insert_slot J nd now sl)"
  by (cases sl) (auto simp: insert_slot_def intro!: wf_rules keeps_insertWebhookEventTx)

lemma keeps_EnqueueWebhookEvents: "keeps wf_db (EnqueueWebhookEvents J ne nd now inputs)"
  by (auto simp: EnqueueWebhookEvents_def
      intro!: wf_rules keeps_existing keeps_prepare_slot keeps_insert_slot)

lemma wf_outbox: "wf_db db \<Longrightarrow> distinct (map s_delivery xs) \<Longrightarrow> wf_db (db\<lparr>outbox := xs\<rparr>)"
  by (simp add: wf_db_def has_event_def)

lemma wf_outbox_distinct: "wf_db db \<Longrightarrow> distinct (map s_delivery (outbox db))"
  by (simp add: wf_db_def)

lemma wf_filter_outbox: "wf_db db \<Longrightarrow> wf_db (db\<lparr>outbox := filter P (outbox db)\<rparr>)"
  by (simp add: wf_outbox wf_outbox_distinct distinct_map_filter)

lemma keeps_stage: "keeps wf_db (stageSiteDeletionWebhookEvent J new_id site input body subs now)"
  by (auto simp: stageSiteDeletionWebhookEvent_def insert_staged_def wf_outbox_distinct
      split: option.splits intro!: wf_rules wf_outbox)

lemma keeps_cancel: "keeps wf_db (cancelStagedSiteDeletionWebhookEvent evid)"
  by (auto simp: cancelStagedSiteDeletionWebhookEvent_def intro!: wf_rules wf_filter_outbox)

lemma keeps_CommitStaged: "keeps wf_db (CommitStagedSiteDeletionWebhookEvent evid now)"
proof -
  have m: "keeps (\<lambda>db. wf_db db \<and> has_event evid None db) (modify (\<lambda>db. db\<lparr>outbox := filter P (outbox db)\<rparr>))" for P
    by (rule evi.keeps_modify) (auto simp: wf_filter_outbox has_event_def)
  show ?thesis
    unfolding CommitStagedSiteDeletionWebhookEvent_def materialize_staged_def materialize_row_def
    by (auto simp: Let_def delivery_ok_new split: list.splits
        intro!: wf_rules insert_event_then ev_rules m)
qed

lemma keeps_RecoverStaged: "keeps wf_db (RecoverStagedSiteDeletionWebhookEvents now)"
  by (auto simp: RecoverStagedSiteDeletionWebhookEvents_def intro!: wf_rules keeps_CommitStaged)

lemma keeps_DeleteAbandoned: "keeps wf_db (DeleteAbandonedStagedSiteDeletionWebhookEvents before)"
  by (auto simp: DeleteAbandonedStagedSiteDeletionWebhookEvents_def Let_def intro!: wf_rules wf_filter_outbox)

lemma keeps_Mark: "keeps wf_db (MarkWebhookDeliveryQueued did at)"
  by (auto simp: MarkWebhookDeliveryQueued_def waiting_def delivery_ok_def store_simps
      intro!: keeps_update_deliveries)

lemma keeps_Clear: "keeps wf_db (ClearWebhookDeliveryQueued did at)"
  by (auto simp: ClearWebhookDeliveryQueued_def waiting_def delivery_ok_def store_simps
      intro!: keeps_update_deliveries)

lemma keeps_Claim: "keeps wf_db (ClaimWebhookDelivery did now)"
  by (auto simp: ClaimWebhookDelivery_def claimable_def waiting_def delivery_ok_def store_simps
      split: option.splits intro!: wf_rules keeps_update_deliveries keeps_GetWebhookDelivery)

lemma keeps_RecoverStale: "keeps wf_db (RecoverStaleWebhookDeliveries before now)"
  by (auto simp: RecoverStaleWebhookDeliveries_def stale_def delivery_ok_def store_simps
      intro!: keeps_update_deliveries)

text \<open>A result that asks for a retry names the time of the next attempt.\<close>

definition result_ok :: "WebhookAttemptResult \<Rightarrow> bool" where
  "result_ok r \<longleftrightarrow> (r_Status r = WebhookDeliveryRetrying \<longrightarrow> r_NextAttemptAt r \<noteq> None)"

lemma wf_attempts: "wf_db db \<Longrightarrow> distinct (map a_id xs) \<Longrightarrow> wf_db (db\<lparr>attempts := xs\<rparr>)"
  by (simp add: wf_db_def has_event_def)

lemma wf_attempts_distinct: "wf_db db \<Longrightarrow> distinct (map a_id (attempts db))"
  by (simp add: wf_db_def)

lemma keeps_insert_attempt: "keeps wf_db (insert_attempt a)"
  by (auto simp: insert_attempt_def wf_attempts_distinct intro!: wf_rules wf_attempts)

lemma wf_delivery: "wf_db db \<Longrightarrow> d \<in> set (deliveries db) \<Longrightarrow> delivery_ok d"
  by (auto simp: wf_db_def list_all_iff)

lemma keeps_recordAttemptTx:
  assumes "result_ok result" and "0 \<le> d_attempts d"
    and "r_Status result \<in> {WebhookDeliverySucceeded, WebhookDeliveryRetrying, WebhookDeliveryFailed}"
  shows "keeps wf_db (recordAttemptTx new_id clock did result d)"
  unfolding recordAttemptTx_def Let_def
  by (intro wf_rules keeps_insert_attempt keeps_update_deliveries)
    (use assms in \<open>auto simp: delivery_ok_def result_ok_def store_simps\<close>)

lemma keeps_Record:
  assumes "result_ok result"
  shows "keeps wf_db (RecordWebhookDeliveryAttempt new_id clock did result)"
  unfolding RecordWebhookDeliveryAttempt_def
proof (rule wfi.keeps_bind_post [where J = "\<lambda>found db. wf_db db \<and> (\<forall>d. found = Some d \<longrightarrow> 0 \<le> d_attempts d)"])
  fix db assume wf: "wf_db db"
  obtain r db' where g: "GetWebhookDelivery did db = (r, db')" by fastforce
  have wf': "wf_db db'" using keepsD [OF keeps_GetWebhookDelivery wf, of did] g by simp
  have "r = Inr (find (\<lambda>d. d_id d = did) (deliveries db)) \<or> r = Inl Fault"
    using g by (cases "faults db") (auto simp: GetWebhookDelivery_def query_def exec_def split: if_splits)
  moreover have "find (\<lambda>d. d_id d = did) (deliveries db) = Some d \<Longrightarrow> 0 \<le> d_attempts d" for d
    using wf_delivery [OF wf] by (auto dest!: find_SomeD simp: delivery_ok_def)
  ultimately show "case GetWebhookDelivery did db of (Inl _, db') \<Rightarrow> wf_db db'
      | (Inr found, db') \<Rightarrow> wf_db db' \<and> (\<forall>d. found = Some d \<longrightarrow> 0 \<le> d_attempts d)"
    using g wf' by auto
qed (use assms in \<open>auto simp: abort_def intro!: keepsD [OF keeps_recordAttemptTx] split: option.splits\<close>)

lemma wf_delete_deliveries: "wf_db db \<Longrightarrow> wf_db (db\<lparr>deliveries := filter P (deliveries db)\<rparr>)"
  by (auto simp: wf_db_def has_event_def distinct_map_filter list_all_iff)

lemma wf_delete_events:
  assumes "wf_db db" and "\<And>d e. d \<in> set (deliveries db) \<Longrightarrow> e_id e = d_event d \<Longrightarrow> e_site e = d_site d \<Longrightarrow> P db e"
  shows "wf_db (db\<lparr>events := filter (P db) (events db)\<rparr>)"
  using assms by (fastforce simp: wf_db_def has_event_def distinct_map_filter list_all_iff)

lemma keeps_DeleteHistory: "keeps wf_db (DeleteWebhookHistoryBefore cutoff)"
proof -
  have e: "wf_db db \<Longrightarrow> wf_db (db\<lparr>events := filter (\<lambda>e. e_created e < cutoff \<longrightarrow> e_id e \<in> d_event ` set (deliveries db))
      (events db)\<rparr>)" for db
    by (rule wf_delete_events) auto
  show ?thesis
    by (auto simp: DeleteWebhookHistoryBefore_def Let_def wf_attempts_distinct distinct_map_filter
        intro!: wf_rules wf_attempts wf_delete_deliveries e)
qed

text \<open>The children of a site are removed together, deliveries before the events they name.\<close>

definition no_delivery_of :: "uuid \<Rightarrow> webhook_db \<Rightarrow> bool" where
  "no_delivery_of site db \<longleftrightarrow> (\<forall>d \<in> set (deliveries db). d_site d \<noteq> Some site)"

interpretation nod: op_invariant "\<lambda>db. wf_db db \<and> no_delivery_of site db" for site
  by unfold_locales (simp add: wf_db_faults no_delivery_of_def)

lemma keeps_DeleteSite: "keeps wf_db (DeleteSite site)"
proof -
  have ev: "wf_db (db\<lparr>events := filter (\<lambda>e. e_site e \<noteq> Some site) (events db)\<rparr>)"
    if "wf_db db" "no_delivery_of site db" for db
    by (rule wf_delete_events) (use that in \<open>auto simp: no_delivery_of_def\<close>)
  have "keeps (\<lambda>db. wf_db db \<and> no_delivery_of site db)
      (modify (\<lambda>db. db\<lparr>events := filter (\<lambda>e. e_site e \<noteq> Some site) (events db)\<rparr>))"
    by (rule nod.keeps_modify) (auto simp: ev no_delivery_of_def)
  then have last: "keeps wf_db (bind_op (modify (\<lambda>db. db\<lparr>deliveries := filter (\<lambda>d. d_site d \<noteq> Some site) (deliveries db)\<rparr>))
      (\<lambda>_. modify (\<lambda>db. db\<lparr>events := filter (\<lambda>e. e_site e \<noteq> Some site) (events db)\<rparr>)))"
    unfolding modify_def
    by (rule wfi.keeps_exec_then [rotated]) (auto simp: wf_delete_deliveries no_delivery_of_def)
  show ?thesis
    unfolding DeleteSite_def
    by (intro wf_rules last) (simp_all add: wf_filter_webhooks wf_attempts wf_attempts_distinct distinct_map_filter)
qed

lemma keeps_DeleteSiteWithWebhookEvent: "keeps wf_db (DeleteSiteWithWebhookEvent J ne nd now site event)"
proof -
  note k = keepsD [OF keeps_subscribers] keepsD [OF keeps_stage] keepsD [OF keeps_DeleteSite]
    keepsD [OF keeps_cancel] keepsD [OF keeps_CommitStaged]
    keepsD [OF wfi.keeps_bind [OF keeps_DeleteSite wfi.keeps_ret [where x = "[]"]]]
  show ?thesis
    unfolding keeps_def DeleteSiteWithWebhookEvent_def
    by (auto split: sum.splits prod.splits list.splits) (metis k snd_conv)+
qed

end
