(* ===== verification/Webhook_Enqueue.thy ===== *)
theory Webhook_Enqueue
  imports Webhook_Delivery
begin

text \<open>
  What enqueueing an event and deleting a site promise: fan-out to exactly the subscribers,
  deduplication, atomicity of a batch, and a final event of a deleted site that is never lost.
  Databases are compared by \<open>tables\<close>, which forgets the script of failures.
\<close>

definition tables :: "webhook_db \<Rightarrow> webhook_db" where
  "tables db = db\<lparr>faults := []\<rparr>"

lemma tables_simps [simp]:
  "tables (db\<lparr>faults := fs\<rparr>) = tables db" "tables (tables db) = tables db"
  "webhooks (tables db) = webhooks db" "subscriptions (tables db) = subscriptions db"
  "events (tables db) = events db" "deliveries (tables db) = deliveries db"
  "outbox (tables db) = outbox db" "live_sites (tables db) = live_sites db" "attempts (tables db) = attempts db"
  by (simp_all add: tables_def)

lemma tables_fields:
  assumes "tables db' = tables db"
  shows "events db' = events db" "deliveries db' = deliveries db" "outbox db' = outbox db"
    "live_sites db' = live_sites db" "webhooks db' = webhooks db" "subscriptions db' = subscriptions db"
    "attempts db' = attempts db"
  using assms by (metis tables_simps)+

interpretation frm: op_invariant "\<lambda>db. tables db = tables db0" for db0
  by unfold_locales simp

lemmas frame_rules = frm.keeps_bind frm.keeps_ret frm.keeps_abort frm.keeps_query frm.keeps_for_each

lemma frame: "keeps (\<lambda>db. tables db = tables db0) m \<Longrightarrow> m db0 = (r, db') \<Longrightarrow> tables db' = tables db0"
  by (auto dest: keepsD [where s = db0])

lemma frame_subscribers: "keeps (\<lambda>db. tables db = tables db0) (enabledWebhookSubscribers site target type)"
  by (auto simp: enabledWebhookSubscribers_def intro!: frame_rules)

lemma frame_existing: "keeps (\<lambda>db. tables db = tables db0) (existingWebhookDeliveryJobs inputs)"
  by (auto simp: existingWebhookDeliveryJobs_def Let_def intro!: frame_rules)

lemma frame_prepare_slot: "keeps (\<lambda>db. tables db = tables db0) (prepare_slot J ne now existing iin)"
  by (auto simp: prepare_slot_def split: option.splits sum.splits intro!: frame_rules frame_subscribers)

lemma query_Inr: "query f db = (Inr x, db') \<Longrightarrow> (\<And>db fs. f (db\<lparr>faults := fs\<rparr>) = f db)
    \<Longrightarrow> x = f db \<and> tables db' = tables db"
  by (cases "faults db") (auto simp: query_def exec_def split: if_splits)

lemma modify_Inr: "modify f db = (Inr x, db') \<Longrightarrow> (\<And>db fs. f (db\<lparr>faults := fs\<rparr>) = (f db)\<lparr>faults := fs\<rparr>)
    \<Longrightarrow> tables db' = tables (f db)"
  by (cases "faults db") (auto simp: modify_def exec_def split: if_splits)

lemma Transact_tables:
  "Transact m db = (Inl e, db') \<Longrightarrow> tables db' = tables db"
  "Transact m db = (Inr x, db') \<Longrightarrow> \<exists>db1 db2. tables db1 = tables db \<and> m db1 = (Inr x, db2) \<and> tables db' = tables db2"
proof -
  show "Transact m db = (Inl e, db') \<Longrightarrow> tables db' = tables db"
    using Transact_atomic by (metis tables_simps(1))
  assume "Transact m db = (Inr x, db')"
  from Transact_Inr [OF this] obtain fs db2
    where d: "m (db\<lparr>faults := fs\<rparr>) = (Inr x, db2)" "db' = db2\<lparr>faults := faults db'\<rparr>" by blast
  have "tables db' = tables db2" using d(2) by (metis tables_simps(1))
  with d(1) show "\<exists>db1 db2. tables db1 = tables db \<and> m db1 = (Inr x, db2) \<and> tables db' = tables db2"
    by (intro exI [of _ "db\<lparr>faults := fs\<rparr>"] exI [of _ db2]) simp
qed

text \<open>A batch that fails changes no table.\<close>

lemma enqueue_fails_clean:
  assumes "EnqueueWebhookEvents J ne nd now inputs db = (Inl e, db')"
  shows "tables db' = tables db"
proof (cases "existingWebhookDeliveryJobs inputs db")
  case (Pair r1 db1)
  have t1: "tables db1 = tables db" by (rule frame [OF frame_existing Pair])
  show ?thesis
  proof (cases r1)
    case (Inl e1)
    with assms Pair t1 show ?thesis
      by (auto simp: EnqueueWebhookEvents_def bind_op_def ret_def split: if_splits)
  next
    case (Inr existing)
    obtain r2 db2 where p: "for_each (prepare_slot J ne now existing) (enumerate 0 inputs) db1 = (r2, db2)"
      by fastforce
    have t2: "tables db2 = tables db1"
      by (rule frame [OF frm.keeps_for_each [OF frame_prepare_slot] p])
    show ?thesis
    proof (cases r2)
      case (Inl e2)
      with assms Pair Inr p t1 t2 show ?thesis
        by (auto simp: EnqueueWebhookEvents_def bind_op_def ret_def split: if_splits)
    next
      case (Inr slots)
      with assms Pair \<open>r1 = Inr existing\<close> p
      have "Transact (for_each (insert_slot J nd now) slots) db2 = (Inl e, db')"
        by (auto simp: EnqueueWebhookEvents_def bind_op_def ret_def split: if_splits)
      from Transact_tables(1) [OF this] t1 t2 show ?thesis by simp
    qed
  qed
qed

subsection \<open>Fan-out\<close>

text \<open>A sequence of inserts appends one row per element.\<close>

lemma foldl_tables:
  assumes "\<And>r db db'. tables db' = tables db \<Longrightarrow> tables (add r db') = tables (add r db)"
  shows "tables db' = tables db
    \<Longrightarrow> tables (foldl (\<lambda>db r. add r db) db' rs) = tables (foldl (\<lambda>db r. add r db) db rs)"
proof (induction rs arbitrary: db db')
  case (Cons r rs)
  from Cons.IH [OF assms [OF Cons.prems]] show ?case by simp
qed simp

lemma for_each_rows:
  assumes "for_each f xs db = (Inr ys, db')"
    and step: "\<And>x y db db'. x \<in> set xs \<Longrightarrow> f x db = (Inr y, db') \<Longrightarrow> \<exists>r. P x y r \<and> tables db' = tables (add r db)"
    and add: "\<And>r db db'. tables db' = tables db \<Longrightarrow> tables (add r db') = tables (add r db)"
  shows "\<exists>rs. list_all2 (\<lambda>x (y, r). P x y r) xs (zip ys rs) \<and> length rs = length ys \<and> length ys = length xs
      \<and> tables db' = tables (foldl (\<lambda>db r. add r db) db rs)"
  using assms(1) step
proof (induction xs arbitrary: db ys)
  case Nil
  then show ?case by (auto simp: ret_def)
next
  case (Cons x xs)
  from Cons.prems(1) obtain y db1 ys' where
    f: "f x db = (Inr y, db1)" and rest: "for_each f xs db1 = (Inr ys', db')" and ys: "ys = y # ys'"
    by (auto simp: ret_def dest!: bind_op_Inr)
  from Cons.prems(2) [OF _ f] obtain r where r: "P x y r" "tables db1 = tables (add r db)" by auto
  from Cons.IH [OF rest] Cons.prems(2) obtain rs where
    rs: "list_all2 (\<lambda>x (y, r). P x y r) xs (zip ys' rs)" "length rs = length ys'" "length ys' = length xs"
      "tables db' = tables (foldl (\<lambda>db r. add r db) db1 rs)" by auto
  have "tables (foldl (\<lambda>db r. add r db) db1 rs) = tables (foldl (\<lambda>db r. add r db) (add r db) rs)"
    by (rule foldl_tables [OF add r(2)])
  with r rs ys show ?case by (intro exI [of _ "r # rs"]) simp
qed

definition add_delivery :: "WebhookDeliveryRecord \<Rightarrow> webhook_db \<Rightarrow> webhook_db" where
  "add_delivery d db = db\<lparr>deliveries := deliveries db @ [d]\<rparr>"

lemma foldl_add_delivery:
  "foldl (\<lambda>db r. add_delivery r db) db rs = db\<lparr>deliveries := deliveries db @ rs\<rparr>"
  by (induction rs arbitrary: db) (simp_all add: add_delivery_def)

lemma tables_add_delivery: "tables db' = tables db \<Longrightarrow> tables (add_delivery r db') = tables (add_delivery r db)"
proof -
  have "tables (add_delivery r d) = add_delivery r (tables d)" for d
    by (simp add: tables_def add_delivery_def)
  then show "tables db' = tables db \<Longrightarrow> tables (add_delivery r db') = tables (add_delivery r db)" by simp
qed

lemma insert_delivery_Inr: "insert_delivery d db = (Inr x, db') \<Longrightarrow> tables db' = tables (add_delivery d db)"
  by (cases "faults db") (auto simp: insert_delivery_def exec_def add_delivery_def tables_def split: if_splits)

lemma insert_event_Inr: "insert_event e db = (Inr x, db') \<Longrightarrow> e_id e \<notin> set (map e_id (events db))
    \<and> tables db' = tables (db\<lparr>events := events db @ [e]\<rparr>)"
  by (cases "faults db") (auto simp: insert_event_def exec_def tables_def split: if_splits)

text \<open>What a delivery of an event to a subscriber looks like when it is created.\<close>

definition delivery_for :: "'d WebhookEventInput \<Rightarrow> uuid option \<Rightarrow> time \<Rightarrow> Webhook \<Rightarrow> WebhookDeliveryRecord \<Rightarrow> bool" where
  "delivery_for input site now w d \<longleftrightarrow> d_event d = ei_ID input \<and> d_webhook d = w_id w \<and> d_url d = w_url w
     \<and> d_secret d = w_secret w \<and> d_site d = site \<and> d_type d = ei_Type input
     \<and> d_status d = WebhookDeliveryPending \<and> d_attempts d = 0 \<and> d_next d = Some now"

lemma list_all2_enumerate: "list_all2 (\<lambda>(k, x) y. P x y) (enumerate n xs) ys = list_all2 P xs ys"
  by (simp add: list_all2_conv_all_nth nth_enumerate_eq)

lemma insertWebhookEventTx_Inr:
  assumes "insertWebhookEventTx J new_id input site body subs now db = (Inr jobs, db')"
  shows "\<exists>e ds. list_all2 (delivery_for input site now) subs ds \<and> jobs = map job_of ds
     \<and> e_id e = ei_ID input \<and> e_site e = site \<and> ei_ID input \<notin> set (map e_id (events db))
     \<and> tables db' = tables (db\<lparr>events := events db @ [e], deliveries := deliveries db @ ds\<rparr>)"
proof -
  define e where "e = \<lparr>e_id = ei_ID input, e_site = site, e_type = ei_Type input,
     e_version = ei_APIVersion input, e_payload = body, e_occurred = ei_OccurredAt input, e_created = now\<rparr>"
  define P where "P = (\<lambda>(k :: nat, w) j d. delivery_for input site now w d \<and> j = job_of d)"
  obtain x db1 where ev: "insert_event e db = (Inr x, db1)"
    and fe: "for_each (\<lambda>(k, w). case delivery_payload J input (new_id k) of
            None \<Rightarrow> abort (BadInput ''marshal webhook delivery payload'')
          | Some payload \<Rightarrow>
              let d = new_delivery (new_id k) (ei_ID input) (w_id w) site (ei_Type input) (w_name w)
                        (w_url w) (w_secret w) payload now
              in bind_op (insert_delivery d) (\<lambda>_. ret (job_of d))) (enumerate 0 subs) db1 = (Inr jobs, db')"
    using assms unfolding insertWebhookEventTx_def e_def by (blast dest!: bind_op_Inr)
  have "\<exists>ds. list_all2 (\<lambda>x (y, r). P x y r) (enumerate 0 subs) (zip jobs ds) \<and> length ds = length jobs
      \<and> length jobs = length (enumerate 0 subs) \<and> tables db' = tables (foldl (\<lambda>db r. add_delivery r db) db1 ds)"
  proof (rule for_each_rows [OF fe])
    fix kw :: "nat \<times> Webhook" and j dba dbb
    assume a: "(case kw of (k, w) \<Rightarrow> case delivery_payload J input (new_id k) of
            None \<Rightarrow> abort (BadInput ''marshal webhook delivery payload'')
          | Some payload \<Rightarrow>
              let d = new_delivery (new_id k) (ei_ID input) (w_id w) site (ei_Type input) (w_name w)
                        (w_url w) (w_secret w) payload now
              in bind_op (insert_delivery d) (\<lambda>_. ret (job_of d))) dba = (Inr j, dbb)"
    obtain k w where kw: "kw = (k, w)" by fastforce
    with a obtain payload where p: "delivery_payload J input (new_id k) = Some payload"
      by (auto simp: abort_def split: option.splits)
    define d where "d = new_delivery (new_id k) (ei_ID input) (w_id w) site (ei_Type input) (w_name w)
        (w_url w) (w_secret w) payload now"
    from a kw p have "bind_op (insert_delivery d) (\<lambda>_. ret (job_of d)) dba = (Inr j, dbb)"
      by (simp add: Let_def d_def)
    then have "j = job_of d \<and> tables dbb = tables (add_delivery d dba)"
      by (auto simp: ret_def dest!: bind_op_Inr insert_delivery_Inr)
    moreover have "delivery_for input site now w d"
      by (simp add: delivery_for_def d_def new_delivery_def)
    ultimately show "\<exists>r. P kw j r \<and> tables dbb = tables (add_delivery r dba)"
      by (intro exI [of _ d]) (simp add: P_def kw)
  qed (rule tables_add_delivery)
  then obtain ds where ds: "list_all2 (\<lambda>x (y, r). P x y r) (enumerate 0 subs) (zip jobs ds)"
      "length ds = length jobs" "length jobs = length subs"
      "tables db' = tables (db1\<lparr>deliveries := deliveries db1 @ ds\<rparr>)"
    by (auto simp: foldl_add_delivery)
  have all: "list_all2 (delivery_for input site now) subs ds" "jobs = map job_of ds"
    using ds(1-3) by (auto simp: list_all2_conv_all_nth P_def nth_enumerate_eq list_eq_iff_nth_eq split: prod.splits)
  from insert_event_Inr [OF ev] have t1: "tables db1 = tables (db\<lparr>events := events db @ [e]\<rparr>)"
    and fresh: "ei_ID input \<notin> set (map e_id (events db))" by (auto simp: e_def)
  have "tables (foldl (\<lambda>db r. add_delivery r db) db1 ds)
      = tables (foldl (\<lambda>db r. add_delivery r db) (db\<lparr>events := events db @ [e]\<rparr>) ds)"
    by (rule foldl_tables [OF tables_add_delivery t1])
  then have "tables db' = tables (db\<lparr>events := events db @ [e], deliveries := deliveries db @ ds\<rparr>)"
    using ds(4) by (simp add: foldl_add_delivery)
  with all fresh show ?thesis
    by (intro exI [of _ e] exI [of _ ds]) (simp add: e_def)
qed

text \<open>The queries before the transaction, on a database with the tables of \<open>db\<close>.\<close>

definition matching :: "'d WebhookEventInput \<Rightarrow> webhook_db \<Rightarrow> Webhook list" where
  "matching input db = sort_key w_created (sort_key w_id
     (filter (subscriber_matches (ei_SiteID input) (ei_Target input) (ei_Type input) (set (subscriptions db)))
       (webhooks db)))"

lemma matching_tables: "tables db' = tables db \<Longrightarrow> matching input db' = matching input db"
  using tables_fields(5,6) [of db' db] by (simp add: matching_def)

lemma enabledWebhookSubscribers_Inr:
  "enabledWebhookSubscribers (ei_SiteID input) (ei_Target input) (ei_Type input) db = (Inr subs, db')
     \<Longrightarrow> subs = matching input db \<and> tables db' = tables db"
  using query_Inr [of "\<lambda>db. sort_key w_created (sort_key w_id (filter (subscriber_matches (ei_SiteID input)
      (ei_Target input) (ei_Type input) (set (subscriptions db))) (webhooks db)))" db subs db']
  by (simp add: enabledWebhookSubscribers_def matching_def)

definition existing_jobs :: "'d WebhookEventInput list \<Rightarrow> webhook_db \<Rightarrow> uuid \<Rightarrow> WebhookDeliveryJob list option" where
  "existing_jobs inputs db evid =
     (if (\<exists>i \<in> set inputs. ei_Deduplicate i \<and> ei_ID i \<noteq> uuid_Nil \<and> ei_ID i = evid)
         \<and> evid \<in> e_id ` set (events db)
      then Some (map job_of (sort_key d_id (filter (\<lambda>d. d_event d = evid) (deliveries db)))) else None)"

lemma existing_Inr:
  assumes "existingWebhookDeliveryJobs inputs db = (Inr ex, db')"
  shows "ex = existing_jobs inputs db \<and> tables db' = tables db"
proof -
  define ids where "ids = map ei_ID (filter (\<lambda>i. ei_Deduplicate i \<and> ei_ID i \<noteq> uuid_Nil) inputs)"
  have mem: "evid \<in> set ids \<longleftrightarrow> (\<exists>i \<in> set inputs. ei_Deduplicate i \<and> ei_ID i \<noteq> uuid_Nil \<and> ei_ID i = evid)" for evid
    by (auto simp: ids_def)
  let ?q = "\<lambda>db evid. if evid \<in> set ids \<and> evid \<in> set (map e_id (events db))
        then Some (map job_of (sort_key d_id (filter (\<lambda>d. d_event d = evid) (deliveries db)))) else None"
  have q: "existing_jobs inputs db = ?q db" by (simp add: existing_jobs_def mem fun_eq_iff)
  show ?thesis
  proof (cases "ids = []")
    case True
    then have "existing_jobs inputs db = (\<lambda>_. None)" unfolding q by simp
    with True assms show ?thesis
      by (simp add: existingWebhookDeliveryJobs_def ret_def flip: ids_def)
  next
    case False
    with assms have "query ?q db = (Inr ex, db')"
      by (simp add: existingWebhookDeliveryJobs_def flip: ids_def)
    from query_Inr [OF this] show ?thesis unfolding q by (simp cong: if_cong)
  qed
qed

text \<open>The input as the first loop prepares it.\<close>

lemma prepare_Inr: "prepareWebhookEventInput J nid now input = Inr (input', body, site) \<Longrightarrow>
    ei_SiteID input' = ei_SiteID input \<and> ei_Target input' = ei_Target input \<and> ei_Type input' = ei_Type input
    \<and> ei_ID input' = (if ei_ID input = uuid_Nil then nid else ei_ID input)
    \<and> site = (if ei_Preserve input then None else ei_SiteID input)"
  by (auto simp: prepareWebhookEventInput_def Let_def split: if_splits option.splits)

lemma matching_cong: "ei_SiteID i = ei_SiteID j \<Longrightarrow> ei_Target i = ei_Target j \<Longrightarrow> ei_Type i = ei_Type j
    \<Longrightarrow> matching i db = matching j db"
  by (simp add: matching_def)

lemma prepare_slot_Inr:
  assumes "prepare_slot J ne now ex (k, input) db = (Inr sl, db')"
  shows "tables db' = tables db \<and>
    (case ex (ei_ID input) of
       Some jobs \<Rightarrow> sl = Settled jobs
     | None \<Rightarrow> (\<exists>input' body site. prepareWebhookEventInput J (ne k) now input = Inr (input', body, site)
         \<and> sl = (if matching input db = [] then Settled [] else ToInsert k input' site body (matching input db))))"
proof (cases "ex (ei_ID input)")
  case (Some jobs)
  with assms show ?thesis by (auto simp: prepare_slot_def ret_def)
next
  case None
  with assms obtain input' body site where p: "prepareWebhookEventInput J (ne k) now input = Inr (input', body, site)"
    and b: "bind_op (enabledWebhookSubscribers (ei_SiteID input') (ei_Target input') (ei_Type input'))
         (\<lambda>subs. ret (if subs = [] then Settled [] else ToInsert k input' site body subs)) db = (Inr sl, db')"
    unfolding prepare_slot_def fst_conv snd_conv
    by (auto simp: abort_def split: sum.splits)
  from bind_op_Inr [OF b] obtain subs db1
    where q: "enabledWebhookSubscribers (ei_SiteID input') (ei_Target input') (ei_Type input') db = (Inr subs, db1)"
      and r: "ret (if subs = [] then Settled [] else ToInsert k input' site body subs) db1 = (Inr sl :: wh_error + _, db')" by blast
  have "matching input' db = matching input db"
    using prepare_Inr [OF p] by (intro matching_cong) auto
  with enabledWebhookSubscribers_Inr [OF q] r None p show ?thesis by (auto simp: ret_def)
qed

lemma enqueue_steps:
  assumes "EnqueueWebhookEvents J ne nd now inputs db = (Inr rs, db')" and "inputs \<noteq> []"
  obtains db1 slots db2 where "tables db1 = tables db"
    and "for_each (prepare_slot J ne now (existing_jobs inputs db)) (enumerate 0 inputs) db1 = (Inr slots, db2)"
    and "tables db2 = tables db"
    and "list_all is_settled slots \<Longrightarrow> tables db' = tables db
           \<and> rs = map (\<lambda>sl. case sl of Settled jobs \<Rightarrow> jobs | ToInsert _ _ _ _ _ \<Rightarrow> []) slots"
    and "\<not> list_all is_settled slots \<Longrightarrow> \<exists>db3 db4. tables db3 = tables db
           \<and> for_each (insert_slot J nd now) slots db3 = (Inr rs, db4) \<and> tables db' = tables db4"
proof -
  have "bind_op (existingWebhookDeliveryJobs inputs) (\<lambda>existing.
        bind_op (for_each (prepare_slot J ne now existing) (enumerate 0 inputs)) (\<lambda>slots.
          if list_all is_settled slots
          then ret (map (\<lambda>sl. case sl of Settled jobs \<Rightarrow> jobs | ToInsert _ _ _ _ _ \<Rightarrow> []) slots)
          else Transact (for_each (insert_slot J nd now) slots))) db = (Inr rs, db')"
    using assms by (simp add: EnqueueWebhookEvents_def)
  from bind_op_Inr [OF this] obtain ex db1 where e: "existingWebhookDeliveryJobs inputs db = (Inr ex, db1)"
    and r1: "bind_op (for_each (prepare_slot J ne now ex) (enumerate 0 inputs)) (\<lambda>slots.
          if list_all is_settled slots
          then ret (map (\<lambda>sl. case sl of Settled jobs \<Rightarrow> jobs | ToInsert _ _ _ _ _ \<Rightarrow> []) slots)
          else Transact (for_each (insert_slot J nd now) slots)) db1 = (Inr rs, db')" by blast
  from bind_op_Inr [OF r1] obtain slots db2 where
    f: "for_each (prepare_slot J ne now ex) (enumerate 0 inputs) db1 = (Inr slots, db2)" and
    r2: "(if list_all is_settled slots
          then ret (map (\<lambda>sl. case sl of Settled jobs \<Rightarrow> jobs | ToInsert _ _ _ _ _ \<Rightarrow> []) slots)
          else Transact (for_each (insert_slot J nd now) slots)) db2 = (Inr rs, db')" by blast
  have t1: "tables db1 = tables db" "ex = existing_jobs inputs db" using existing_Inr [OF e] by auto
  have t2: "tables db2 = tables db"
    using frame [OF frm.keeps_for_each [OF frame_prepare_slot] f] t1 by simp
  show thesis
  proof (rule that)
    show "tables db1 = tables db" by (rule t1)
    show "for_each (prepare_slot J ne now (existing_jobs inputs db)) (enumerate 0 inputs) db1 = (Inr slots, db2)"
      using f t1 by simp
    show "tables db2 = tables db" by (rule t2)
    show "tables db' = tables db
        \<and> rs = map (\<lambda>sl. case sl of Settled jobs \<Rightarrow> jobs | ToInsert _ _ _ _ _ \<Rightarrow> []) slots"
      if "list_all is_settled slots"
      using r2 that t2 by (auto simp: ret_def)
    show "\<exists>db3 db4. tables db3 = tables db \<and> for_each (insert_slot J nd now) slots db3 = (Inr rs, db4)
        \<and> tables db' = tables db4" if "\<not> list_all is_settled slots"
      using r2 that t2 Transact_tables(2) [of _ db2 rs db'] by fastforce
  qed
qed

text \<open>
  How an input of a batch is stored: an event that is already there is answered with its jobs, an event
  without subscribers stores nothing, any other one adds its event and a delivery for each subscriber.
\<close>

definition stored_input :: "'d WebhookEventInput list \<Rightarrow> webhook_db \<Rightarrow> uuid \<Rightarrow> time \<Rightarrow> 'd WebhookEventInput
    \<Rightarrow> WebhookDeliveryJob list \<Rightarrow> WebhookEventRow list \<Rightarrow> WebhookDeliveryRecord list \<Rightarrow> bool" where
  "stored_input inputs db new_id now input jobs es ds \<longleftrightarrow>
     (case existing_jobs inputs db (ei_ID input) of
        Some old \<Rightarrow> jobs = old \<and> es = [] \<and> ds = []
      | None \<Rightarrow>
          if matching input db = [] then jobs = [] \<and> es = [] \<and> ds = []
          else \<exists>e (input' :: 'd WebhookEventInput). es = [e] \<and> e_id e = ei_ID input' \<and> ei_Type input' = ei_Type input
            \<and> ei_ID input' = (if ei_ID input = uuid_Nil then new_id else ei_ID input)
            \<and> e_site e = (if ei_Preserve input then None else ei_SiteID input)
            \<and> list_all2 (delivery_for input' (e_site e) now) (matching input db) ds \<and> jobs = map job_of ds)"

definition slot_rows :: "time \<Rightarrow> 'd slot \<Rightarrow> WebhookDeliveryJob list \<Rightarrow> WebhookEventRow list \<times> WebhookDeliveryRecord list \<Rightarrow> bool" where
  "slot_rows now sl jobs r \<longleftrightarrow>
     (case sl of
        Settled old \<Rightarrow> jobs = old \<and> r = ([], [])
      | ToInsert i input site body subs \<Rightarrow> \<exists>e ds. r = ([e], ds) \<and> e_id e = ei_ID input \<and> e_site e = site
            \<and> list_all2 (delivery_for input site now) subs ds \<and> jobs = map job_of ds)"

definition add_rows :: "WebhookEventRow list \<times> WebhookDeliveryRecord list \<Rightarrow> webhook_db \<Rightarrow> webhook_db" where
  "add_rows r db = db\<lparr>events := events db @ fst r, deliveries := deliveries db @ snd r\<rparr>"

lemma tables_add_rows: "tables db' = tables db \<Longrightarrow> tables (add_rows r db') = tables (add_rows r db)"
proof -
  have "tables (add_rows r d) = add_rows r (tables d)" for d
    by (simp add: tables_def add_rows_def)
  then show "tables db' = tables db \<Longrightarrow> tables (add_rows r db') = tables (add_rows r db)" by simp
qed

lemma foldl_add_rows: "foldl (\<lambda>db r. add_rows r db) db rs
     = db\<lparr>events := events db @ concat (map fst rs), deliveries := deliveries db @ concat (map snd rs)\<rparr>"
  by (induction rs arbitrary: db) (simp_all add: add_rows_def)

lemma insert_slot_rows:
  assumes "insert_slot J nd now sl db = (Inr jobs, db')"
  shows "\<exists>r. slot_rows now sl jobs r \<and> tables db' = tables (add_rows r db)"
proof (cases sl)
  case (Settled old)
  with assms show ?thesis by (auto simp: insert_slot_def ret_def slot_rows_def add_rows_def)
next
  case (ToInsert i input site body subs)
  with assms have "insertWebhookEventTx J (nd i) input site body subs now db = (Inr jobs, db')"
    by (simp add: insert_slot_def)
  from insertWebhookEventTx_Inr [OF this] obtain e ds where
    "list_all2 (delivery_for input site now) subs ds" "jobs = map job_of ds" "e_id e = ei_ID input" "e_site e = site"
    "tables db' = tables (db\<lparr>events := events db @ [e], deliveries := deliveries db @ ds\<rparr>)" by blast
  then show ?thesis using ToInsert
    by (intro exI [of _ "([e], ds)"]) (simp add: slot_rows_def add_rows_def)
qed

text \<open>The slots of a batch, input by input.\<close>

lemma prepared_slots:
  assumes "for_each (prepare_slot J ne now ex) (enumerate n inputs) db1 = (Inr slots, db2)" and "tables db1 = tables db"
  shows "length slots = length inputs \<and> (\<forall>k < length inputs. \<exists>dba dbb. tables dba = tables db
     \<and> prepare_slot J ne now ex (n + k, inputs ! k) dba = (Inr (slots ! k), dbb))"
  using assms
proof (induction inputs arbitrary: n db1 slots)
  case Nil
  then show ?case by (simp add: ret_def)
next
  case (Cons i inputs)
  from Cons.prems(1) obtain sl dbx rest where f: "prepare_slot J ne now ex (n, i) db1 = (Inr sl, dbx)"
    and g: "for_each (prepare_slot J ne now ex) (enumerate (Suc n) inputs) dbx = (Inr rest, db2)" and s: "slots = sl # rest"
    by (auto simp: ret_def dest!: bind_op_Inr)
  have "tables dbx = tables db" using prepare_slot_Inr [OF f] Cons.prems(2) by simp
  note IH = Cons.IH [OF g this]
  show ?case
  proof (intro conjI allI impI)
    fix k
    assume k: "k < length (i # inputs)"
    show "\<exists>dba dbb. tables dba = tables db \<and> prepare_slot J ne now ex (n + k, (i # inputs) ! k) dba = (Inr (slots ! k), dbb)"
    proof (cases k)
      case 0
      then show ?thesis using f Cons.prems(2) s by auto
    next
      case (Suc j)
      then show ?thesis using IH k s by simp
    qed
  qed (use IH s in simp)
qed

lemma slot_stored:
  fixes input :: "'d WebhookEventInput"
  assumes "prepare_slot J ne now (existing_jobs inputs db) (k, input) dba = (Inr sl, dbb)" and "tables dba = tables db"
    and "slot_rows now sl jobs r"
  shows "stored_input inputs db (ne k) now input jobs (fst r) (snd r)"
proof (cases "existing_jobs inputs db (ei_ID input)")
  case (Some old)
  then show ?thesis using prepare_slot_Inr [OF assms(1)] assms(3) by (simp add: stored_input_def slot_rows_def)
next
  case None
  then obtain input' body site where p: "prepareWebhookEventInput J (ne k) now input = Inr (input', body, site)"
    and sl: "sl = (if matching input db = [] then Settled [] else ToInsert k input' site body (matching input db))"
    using prepare_slot_Inr [OF assms(1)] matching_tables [OF assms(2), of input] by auto
  show ?thesis
  proof (cases "matching input db = []")
    case True
    then show ?thesis using None assms(3) sl by (simp add: stored_input_def slot_rows_def)
  next
    case False
    with assms(3) sl obtain e ds where r: "r = ([e], ds)" "e_id e = ei_ID input'" "e_site e = site"
      "list_all2 (delivery_for input' site now) (matching input db) ds" "jobs = map job_of ds"
      by (auto simp: slot_rows_def)
    show ?thesis
      unfolding stored_input_def None option.case if_not_P [OF False]
      by (rule exI [of _ e], rule exI [of _ input']) (use r prepare_Inr [OF p] in simp)
  qed
qed

text \<open>
  C12.  A batch of events is stored whole or not at all.  When \<open>EnqueueWebhookEvents\<close> fails, at
  whatever statement, no table has changed.  When it succeeds every input has been stored or was there
  before: the tables have gained exactly the event of each new input that has subscribers and a delivery
  for each of them, and the answer is the jobs of the inputs in their order.
\<close>

theorem enqueue_all_or_nothing:
  assumes "EnqueueWebhookEvents J ne nd now inputs db = (r, db')"
  shows "case r of
       Inl e \<Rightarrow> tables db' = tables db
     | Inr jobs \<Rightarrow> \<exists>rows. length jobs = length inputs \<and> length rows = length inputs
          \<and> (\<forall>k < length inputs. stored_input inputs db (ne k) now (inputs ! k) (jobs ! k) (fst (rows ! k)) (snd (rows ! k)))
          \<and> tables db' = tables (db\<lparr>events := events db @ concat (map fst rows), deliveries := deliveries db @ concat (map snd rows)\<rparr>)"
proof (cases r)
  case (Inl e)
  then show ?thesis using enqueue_fails_clean [of J ne nd now inputs db e db'] assms by simp
next
  case (Inr jobs)
  have "\<exists>rows. length jobs = length inputs \<and> length rows = length inputs
      \<and> (\<forall>k < length inputs. stored_input inputs db (ne k) now (inputs ! k) (jobs ! k) (fst (rows ! k)) (snd (rows ! k)))
      \<and> tables db' = tables (db\<lparr>events := events db @ concat (map fst rows), deliveries := deliveries db @ concat (map snd rows)\<rparr>)"
  proof (cases "inputs = []")
    case True
    then show ?thesis using assms Inr by (simp add: EnqueueWebhookEvents_def ret_def)
  next
    case False
    obtain db1 slots db2 where t1: "tables db1 = tables db"
      and f: "for_each (prepare_slot J ne now (existing_jobs inputs db)) (enumerate 0 inputs) db1 = (Inr slots, db2)"
      and settled: "list_all is_settled slots \<Longrightarrow> tables db' = tables db
           \<and> jobs = map (\<lambda>sl. case sl of Settled jobs \<Rightarrow> jobs | ToInsert _ _ _ _ _ \<Rightarrow> []) slots"
      and ins: "\<not> list_all is_settled slots \<Longrightarrow> \<exists>db3 db4. tables db3 = tables db
           \<and> for_each (insert_slot J nd now) slots db3 = (Inr jobs, db4) \<and> tables db' = tables db4"
      using enqueue_steps [OF assms [unfolded Inr] False] by metis
    note slots = prepared_slots [OF f t1]
    obtain rows where rows: "length rows = length slots" "length jobs = length slots"
      "\<forall>k < length slots. slot_rows now (slots ! k) (jobs ! k) (rows ! k)"
      "tables db' = tables (foldl (\<lambda>db r. add_rows r db) db rows)"
    proof (cases "list_all is_settled slots")
      case True
      have "slot_rows now (slots ! k) (jobs ! k) (replicate (length slots) ([], []) ! k)" if "k < length slots" for k
        using that settled [OF True] True
        by (cases "slots ! k") (auto simp: slot_rows_def list_all_length is_settled_def)
      then show thesis
        using settled [OF True] that [of "replicate (length slots) ([], [])"] by (simp add: foldl_add_rows)
    next
      case False
      obtain db3 db4 where d: "tables db3 = tables db" "for_each (insert_slot J nd now) slots db3 = (Inr jobs, db4)" "tables db' = tables db4"
        using ins [OF False] by blast
      have step: "\<exists>r. slot_rows now x y r \<and> tables dbb = tables (add_rows r dba)"
        if "x \<in> set slots" "insert_slot J nd now x dba = (Inr y, dbb)" for x y dba dbb
        using insert_slot_rows [OF that(2)] .
      obtain rs where rs: "list_all2 (\<lambda>x (y, r). slot_rows now x y r) slots (zip jobs rs)" "length rs = length jobs"
        "length jobs = length slots" "tables db4 = tables (foldl (\<lambda>db r. add_rows r db) db3 rs)"
        using for_each_rows [of "insert_slot J nd now" slots db3 jobs db4 "slot_rows now" add_rows, OF d(2) step tables_add_rows]
        by blast
      have "tables db' = tables (foldl (\<lambda>db r. add_rows r db) db rs)"
        using rs(4) d(3) foldl_tables [of add_rows, OF tables_add_rows d(1)] by simp
      then show thesis using rs that [of rs] by (simp add: list_all2_conv_all_nth)
    qed
    have "stored_input inputs db (ne k) now (inputs ! k) (jobs ! k) (fst (rows ! k)) (snd (rows ! k))" if k: "k < length inputs" for k
    proof -
      obtain dba dbb where d: "tables dba = tables db"
        "prepare_slot J ne now (existing_jobs inputs db) (k, inputs ! k) dba = (Inr (slots ! k), dbb)"
        using slots k by auto
      show ?thesis by (rule slot_stored [OF d(2,1)]) (use rows(3) slots k in simp)
    qed
    then show ?thesis using rows slots by (intro exI [of _ rows]) (simp add: foldl_add_rows)
  qed
  then show ?thesis using Inr by simp
qed

lemma event_fanout_lemma:
  fixes input :: "'d WebhookEventInput"
  assumes "EnqueueWebhookEvents J ne nd now [input] db = (Inr [jobs], db')"
    and "\<not> ei_Deduplicate input \<or> ei_ID input \<notin> e_id ` set (events db)"
  shows "if matching input db = [] then jobs = [] \<and> tables db' = tables db
     else \<exists>e ds (input' :: 'd WebhookEventInput). ei_ID input' = (if ei_ID input = uuid_Nil then ne 0 else ei_ID input)
        \<and> list_all2 (delivery_for input' (if ei_Preserve input then None else ei_SiteID input) now) (matching input db) ds
        \<and> jobs = map job_of ds \<and> e_id e = ei_ID input' \<and> e_id e \<notin> e_id ` set (events db)
        \<and> tables db' = tables (db\<lparr>events := events db @ [e], deliveries := deliveries db @ ds\<rparr>)"
proof -
  from enqueue_steps [OF assms(1)] obtain db1 slots db2 where
    t1: "tables db1 = tables db" and
    f: "for_each (prepare_slot J ne now (existing_jobs [input] db)) (enumerate 0 [input]) db1 = (Inr slots, db2)" and
    settled: "list_all is_settled slots \<Longrightarrow> tables db' = tables db
           \<and> [jobs] = map (\<lambda>sl. case sl of Settled jobs \<Rightarrow> jobs | ToInsert _ _ _ _ _ \<Rightarrow> []) slots" and
    ins: "\<not> list_all is_settled slots \<Longrightarrow> \<exists>db3 db4. tables db3 = tables db
           \<and> for_each (insert_slot J nd now) slots db3 = (Inr [jobs], db4) \<and> tables db' = tables db4"
    by (metis list.distinct(1))
  from f obtain sl where sl: "slots = [sl]"
    "\<exists>d. prepare_slot J ne now (existing_jobs [input] db) (0, input) db1 = (Inr sl, d)"
    by (auto simp: ret_def dest!: bind_op_Inr)
  have none: "existing_jobs [input] db (ei_ID input) = None"
    using assms(2) by (auto simp: existing_jobs_def)
  from sl(2) obtain d where "prepare_slot J ne now (existing_jobs [input] db) (0, input) db1 = (Inr sl, d)" ..
  from prepare_slot_Inr [OF this] obtain input' body site where
    p: "prepareWebhookEventInput J (ne 0) now input = Inr (input', body, site)"
    and s: "sl = (if matching input db = [] then Settled [] else ToInsert 0 input' site body (matching input db))"
    unfolding none option.case matching_tables [OF t1] by blast
  note pp = prepare_Inr [OF p]
  show ?thesis
  proof (cases "matching input db = []")
    case True
    with s sl settled show ?thesis by (simp add: is_settled_def)
  next
    case False
    with ins s sl(1) obtain db3 db4 where
      d3: "tables db3 = tables db" and t': "tables db' = tables db4" and
      i: "for_each (insert_slot J nd now) [ToInsert 0 input' site body (matching input db)] db3 = (Inr [jobs], db4)"
      by (auto simp: is_settled_def)
    from i have "insertWebhookEventTx J (nd 0) input' site body (matching input db) now db3 = (Inr jobs, db4)"
      by (auto simp: ret_def insert_slot_def dest!: bind_op_Inr)
    from insertWebhookEventTx_Inr [OF this] obtain e ds where
      x: "list_all2 (delivery_for input' site now) (matching input db) ds" "jobs = map job_of ds"
        "e_id e = ei_ID input'" "ei_ID input' \<notin> set (map e_id (events db3))"
        "tables db4 = tables (db3\<lparr>events := events db3 @ [e], deliveries := deliveries db3 @ ds\<rparr>)" by blast
    have "tables (db3\<lparr>events := events db3 @ [e], deliveries := deliveries db3 @ ds\<rparr>)
        = (tables db3)\<lparr>events := events db3 @ [e], deliveries := deliveries db3 @ ds\<rparr>"
      by (simp add: tables_def)
    also have "\<dots> = tables (db\<lparr>events := events db @ [e], deliveries := deliveries db @ ds\<rparr>)"
      using d3 tables_fields(1,2) [OF d3] by (simp add: tables_def)
    finally have "tables db' = tables (db\<lparr>events := events db @ [e], deliveries := deliveries db @ ds\<rparr>)"
      using t' x(5) by simp
    moreover have "site = (if ei_Preserve input then None else ei_SiteID input)"
      "ei_ID input' = (if ei_ID input = uuid_Nil then ne 0 else ei_ID input)" using pp by auto
    moreover have "e_id e \<notin> e_id ` set (events db)" using x(3,4) tables_fields(1) [OF d3] by simp
    ultimately show ?thesis
      unfolding if_not_P [OF False] using x(1-3) by (intro exI [of _ e] exI [of _ ds] exI [of _ input']) simp
  qed
qed

text \<open>
   Fan-out: enqueueing a new event creates one event row and exactly one pending delivery, due at
  once and signed with the current secret, for each enabled webhook that is subscribed to the event
  and belongs to the instance or to the event's site (and is the targeted one, if one is named); with
  no such webhook nothing is stored.
\<close>

theorem event_fanout:
  fixes input :: "'d WebhookEventInput"
  assumes "EnqueueWebhookEvents J ne nd now [input] db = (Inr [jobs], db')"
    and "\<not> ei_Deduplicate input \<or> ei_ID input \<notin> e_id ` set (events db)"
  shows "if matching input db = [] then jobs = [] \<and> tables db' = tables db
     else \<exists>e ds (input' :: 'd WebhookEventInput). ei_ID input' = (if ei_ID input = uuid_Nil then ne 0 else ei_ID input)
        \<and> list_all2 (delivery_for input' (if ei_Preserve input then None else ei_SiteID input) now) (matching input db) ds
        \<and> jobs = map job_of ds \<and> e_id e = ei_ID input' \<and> e_id e \<notin> e_id ` set (events db)
        \<and> tables db' = tables (db\<lparr>events := events db @ [e], deliveries := deliveries db @ ds\<rparr>)"
  using assms by (rule event_fanout_lemma)

text \<open>
   Deduplication: storing a deduplicated event again changes nothing and answers with the jobs of
  the deliveries the first call created, whatever else the second call carries.
\<close>

theorem enqueue_idempotent:
  fixes input :: "'d WebhookEventInput"
  assumes "EnqueueWebhookEvents J ne nd now [input] db = (Inr [jobs], db')"
    and "wf_db db" and "ei_ID input \<noteq> uuid_Nil" and "ei_ID input \<notin> e_id ` set (events db)"
    and "matching input db \<noteq> []"
    and "EnqueueWebhookEvents J' ne' nd' now' [again] db' = (Inr [jobs'], db'')"
    and "ei_ID again = ei_ID input" and "ei_Deduplicate again"
  shows "tables db'' = tables db' \<and> set jobs' = set jobs \<and> length jobs' = length (matching input db)"
proof -
  obtain e ds and input' :: "'d WebhookEventInput" where
    x: "ei_ID input' = ei_ID input" "e_id e = ei_ID input"
      "list_all2 (delivery_for input' (if ei_Preserve input then None else ei_SiteID input) now) (matching input db) ds"
      "jobs = map job_of ds"
      "tables db' = tables (db\<lparr>events := events db @ [e], deliveries := deliveries db @ ds\<rparr>)"
    using event_fanout_lemma [OF assms(1)] assms(3-5) by auto
  have ev: "events db' = events db @ [e]" and dl: "deliveries db' = deliveries db @ ds"
    using tables_fields(1,2) [OF x(5)] by simp_all
  have "d_event d \<noteq> ei_ID input" if "d \<in> set (deliveries db)" for d
  proof -
    from assms(2) that obtain e' where "e' \<in> set (events db)" "e_id e' = d_event d"
      by (auto simp: wf_db_def has_event_def list_all_iff)
    with assms(4) show ?thesis by (metis image_eqI)
  qed
  then have old: "filter (\<lambda>d. d_event d = ei_ID input) (deliveries db) = []"
    by (simp add: filter_empty_conv)
  have new: "\<forall>d \<in> set ds. d_event d = ei_ID input"
    using x(1,3) by (auto simp: list_all2_conv_all_nth in_set_conv_nth delivery_for_def)
  have ex: "existing_jobs [again] db' (ei_ID again) = Some (map job_of (sort_key d_id ds))"
    using assms(3,7,8) ev dl old new x(2) by (simp add: existing_jobs_def)
  from enqueue_steps [OF assms(6)] obtain db1 slots db2 where
    f: "for_each (prepare_slot J' ne' now' (existing_jobs [again] db')) (enumerate 0 [again]) db1 = (Inr slots, db2)" and
    settled: "list_all is_settled slots \<Longrightarrow> tables db'' = tables db'
           \<and> [jobs'] = map (\<lambda>sl. case sl of Settled jobs \<Rightarrow> jobs | ToInsert _ _ _ _ _ \<Rightarrow> []) slots"
    by (metis list.distinct(1))
  from f ex have "slots = [Settled (map job_of (sort_key d_id ds))]"
    by (auto simp: ret_def prepare_slot_def dest!: bind_op_Inr)
  with settled have "tables db'' = tables db' \<and> jobs' = map job_of (sort_key d_id ds)"
    by (simp add: is_settled_def)
  with x(3,4) show ?thesis by (auto dest: list_all2_lengthD)
qed

text \<open>
  A batch that carries the same new deduplicated event twice cannot be stored: the lookup of
  existing events runs before any insert, so the second insert meets the first one's primary key.
\<close>

theorem duplicate_in_batch_rejected:
  assumes "ei_ID input \<noteq> uuid_Nil" and "ei_ID input \<notin> e_id ` set (events db)" and "matching input db \<noteq> []"
  shows "fst (EnqueueWebhookEvents J ne nd now [input, input] db) \<noteq> Inr rs"
proof
  assume "fst (EnqueueWebhookEvents J ne nd now [input, input] db) = Inr rs"
  then obtain db' where "EnqueueWebhookEvents J ne nd now [input, input] db = (Inr rs, db')" by (metis prod.collapse)
  from enqueue_steps [OF this] obtain db1 slots db2 where
    t1: "tables db1 = tables db" and
    f: "for_each (prepare_slot J ne now (existing_jobs [input, input] db)) (enumerate 0 [input, input]) db1 = (Inr slots, db2)" and
    ins: "\<not> list_all is_settled slots \<Longrightarrow> \<exists>db3 db4. tables db3 = tables db
           \<and> for_each (insert_slot J nd now) slots db3 = (Inr rs, db4)"
    by (metis list.distinct(1))
  let ?ex = "existing_jobs [input, input] db"
  have none: "?ex (ei_ID input) = None" using assms(2) by (auto simp: existing_jobs_def)
  from f obtain s1 s2 d1 d2 where sl: "slots = [s1, s2]"
    "prepare_slot J ne now ?ex (0, input) db1 = (Inr s1, d1)" "prepare_slot J ne now ?ex (1, input) d1 = (Inr s2, d2)"
    by (auto simp: ret_def dest!: bind_op_Inr)
  have td1: "tables d1 = tables db" using prepare_slot_Inr [OF sl(2)] t1 by simp
  have shape: "\<exists>input' body site. s = ToInsert k input' site body (matching input db) \<and> ei_ID input' = ei_ID input"
    if p: "prepare_slot J ne now ?ex (k, input) d = (Inr s, d')" and t: "tables d = tables db" for k s d d'
  proof -
    from prepare_slot_Inr [OF p] obtain input' body site where
      "prepareWebhookEventInput J (ne k) now input = Inr (input', body, site)"
      "s = ToInsert k input' site body (matching input db)"
      using assms(3) unfolding none option.case matching_tables [OF t] by auto
    then show ?thesis using prepare_Inr assms(1) by fastforce
  qed
  from shape [OF sl(2) t1] obtain i1 b1 p1 where
    s1: "s1 = ToInsert 0 i1 p1 b1 (matching input db)" "ei_ID i1 = ei_ID input" by auto
  from shape [OF sl(3) td1] obtain i2 b2 p2 where
    s2: "s2 = ToInsert 1 i2 p2 b2 (matching input db)" "ei_ID i2 = ei_ID input" by auto
  from ins sl(1) s1 s2 obtain db3 db4 where
    "for_each (insert_slot J nd now) [s1, s2] db3 = (Inr rs, db4)" by (auto simp: is_settled_def)
  then obtain j1 j2 e1 e2 where
    "insert_slot J nd now s1 db3 = (Inr j1, e1)" "insert_slot J nd now s2 e1 = (Inr j2, e2)"
    by (auto simp: ret_def dest!: bind_op_Inr)
  then have i1: "insertWebhookEventTx J (nd 0) i1 p1 b1 (matching input db) now db3 = (Inr j1, e1)"
    and i2: "insertWebhookEventTx J (nd 1) i2 p2 b2 (matching input db) now e1 = (Inr j2, e2)"
    by (simp_all add: insert_slot_def s1 s2)
  from insertWebhookEventTx_Inr [OF i1] obtain e ds where
    "e_id e = ei_ID i1" "tables e1 = tables (db3\<lparr>events := events db3 @ [e], deliveries := deliveries db3 @ ds\<rparr>)"
    by blast
  then have "ei_ID input \<in> set (map e_id (events e1))" using tables_fields(1) [of e1] s1(2) by fastforce
  with insertWebhookEventTx_Inr [OF i2] s2(2) show False by auto
qed

subsection \<open>Sample tables for the witnesses\<close>

definition sample_json :: "nat json_lib" where
  "sample_json = \<lparr>Marshal = (\<lambda>_. Some ''{}''), empty_object = 0\<rparr>"

definition sample_hook :: Webhook where
  "sample_hook = \<lparr>w_id = 1, w_site = None, w_name = ''hook'', w_description = [],
     w_url = ''https://example.org/hook'', w_secret = ''secret'', w_enabled = True, w_created = 0, w_updated = 0\<rparr>"

definition sample_tables :: webhook_db where
  "sample_tables = \<lparr>webhooks = [sample_hook], subscriptions = [(1, ''site.updated'')], events = [],
     deliveries = [], attempts = [], outbox = [], live_sites = [4], webhook_audit = [], faults = []\<rparr>"

definition sample_event :: "nat WebhookEventInput" where
  "sample_event = \<lparr>ei_ID = 9, ei_SiteID = Some 4, ei_Target = None, ei_Type = ''site.updated'',
     ei_APIVersion = ''2.1'', ei_OccurredAt = 3, ei_Data = None, ei_Preserve = False, ei_Deduplicate = True\<rparr>"

lemma sample_wf: "wf_db sample_tables"
  by (simp add: wf_db_def sample_tables_def)

lemma sample_matching: "matching sample_event sample_tables = [sample_hook]"
  by (simp add: matching_def sample_tables_def sample_event_def subscriber_matches_def sample_hook_def)

lemma sample_allowed: "EventAllowedForScope ''site.updated'' ScopeInstance"
  by (simp add: EventAllowedForScope_def TrimSpace_graphic graphic_def catalog_def instance_event_def
      site_event_def ScopeInstance_def)

definition sample_delivery :: "time \<Rightarrow> WebhookDeliveryRecord" where
  "sample_delivery now = new_delivery 20 9 1 (Some 4) ''site.updated'' ''hook'' ''https://example.org/hook''
     ''secret'' ''{}'' now"

definition sample_stored :: "time \<Rightarrow> webhook_db" where
  "sample_stored now = sample_tables\<lparr>events := [\<lparr>e_id = 9, e_site = Some 4, e_type = ''site.updated'',
     e_version = ''2.1'', e_payload = ''{}'', e_occurred = 3, e_created = now\<rparr>],
     deliveries := [sample_delivery now]\<rparr>"

lemmas run_defs = bind_op_def exec_def ret_def abort_def query_def modify_def Transact_def

lemma sample_enqueue:
  "EnqueueWebhookEvents sample_json (\<lambda>_. 8) (\<lambda>_ k. 20 + of_nat k) now [sample_event] sample_tables
     = (Inr [[job_of (sample_delivery now)]], sample_stored now)"
  using sample_allowed
  by (simp add: EnqueueWebhookEvents_def run_defs existingWebhookDeliveryJobs_def Let_def sample_event_def
      sample_tables_def prepare_slot_def prepareWebhookEventInput_def uuid_Nil_def IsZero_def time_zero_def
      sample_json_def enabledWebhookSubscribers_def subscriber_matches_def sample_hook_def is_settled_def
      insert_slot_def insertWebhookEventTx_def insert_event_def insert_delivery_def delivery_payload_def
      sample_stored_def sample_delivery_def new_delivery_def)

theorem enqueue_all_or_nothing_witness:
  "(\<exists>e db'. EnqueueWebhookEvents sample_json (\<lambda>_. 8) (\<lambda>_ k. 20 + of_nat k) 5 [sample_event, sample_event]
       sample_tables = (Inl e, db') \<and> tables db' = tables sample_tables)
   \<and> (\<exists>jobs db' es ds. EnqueueWebhookEvents sample_json (\<lambda>_. 8) (\<lambda>_ k. 20 + of_nat k) 5 [sample_event]
       sample_tables = (Inr [jobs], db') \<and> stored_input [sample_event] sample_tables 8 5 sample_event jobs es ds
       \<and> tables db' = tables (sample_tables\<lparr>events := es, deliveries := ds\<rparr>))"
proof -
  obtain e db' where "EnqueueWebhookEvents sample_json (\<lambda>_. 8) (\<lambda>_ k. 20 + of_nat k) 5
      [sample_event, sample_event] sample_tables = (Inl e, db')"
    using sample_allowed
    by (simp add: EnqueueWebhookEvents_def run_defs existingWebhookDeliveryJobs_def Let_def sample_event_def
        sample_tables_def prepare_slot_def prepareWebhookEventInput_def uuid_Nil_def IsZero_def time_zero_def
        sample_json_def enabledWebhookSubscribers_def subscriber_matches_def sample_hook_def is_settled_def
        insert_slot_def insertWebhookEventTx_def insert_event_def insert_delivery_def delivery_payload_def)
  note fails = enqueue_all_or_nothing [OF this]
  note stores = enqueue_all_or_nothing [OF sample_enqueue [of 5]]
  from stores obtain rows where rows: "length rows = 1"
    "stored_input [sample_event] sample_tables 8 5 sample_event [job_of (sample_delivery 5)] (fst (rows ! 0)) (snd (rows ! 0))"
    "tables (sample_stored 5) = tables (sample_tables\<lparr>events := events sample_tables @ concat (map fst rows),
       deliveries := deliveries sample_tables @ concat (map snd rows)\<rparr>)"
    by auto
  then obtain r where r: "rows = [r]" by (cases rows) auto
  have empty: "events sample_tables = []" "deliveries sample_tables = []" by (simp_all add: sample_tables_def)
  show ?thesis
  proof
    show "\<exists>jobs db' es ds. EnqueueWebhookEvents sample_json (\<lambda>_. 8) (\<lambda>_ k. 20 + of_nat k) 5 [sample_event]
         sample_tables = (Inr [jobs], db') \<and> stored_input [sample_event] sample_tables 8 5 sample_event jobs es ds
         \<and> tables db' = tables (sample_tables\<lparr>events := es, deliveries := ds\<rparr>)"
      using sample_enqueue [of 5] rows(2,3) unfolding r empty by auto
  qed (use fails \<open>EnqueueWebhookEvents _ _ _ _ _ _ = (Inl e, db')\<close> in auto)
qed

theorem event_fanout_witness:
  "\<exists>(i :: nat WebhookEventInput) ds. ei_ID i = 9 \<and> list_all2 (delivery_for i (Some 4) 5) [sample_hook] ds"
proof -
  have "\<not> ei_Deduplicate sample_event \<or> ei_ID sample_event \<notin> e_id ` set (events sample_tables)"
    by (simp add: sample_tables_def)
  from event_fanout [OF sample_enqueue this, of 5] obtain i :: "nat WebhookEventInput" and ds where
    "ei_ID i = 9" "list_all2 (delivery_for i (if ei_Preserve sample_event then None else ei_SiteID sample_event) 5)
       [sample_hook] ds"
    unfolding sample_matching by (auto simp: sample_event_def uuid_Nil_def)
  then show ?thesis by (intro exI [of _ i] exI [of _ ds]) (simp add: sample_event_def)
qed

theorem enqueue_idempotent_witness:
  "\<exists>jobs' db''. EnqueueWebhookEvents sample_json (\<lambda>_. 8) (\<lambda>_ k. 30 + of_nat k) 6 [sample_event] (sample_stored 5)
       = (Inr [jobs'], db'') \<and> set jobs' = {job_of (sample_delivery 5)}"
proof -
  obtain jobs' db'' where again: "EnqueueWebhookEvents sample_json (\<lambda>_. 8) (\<lambda>_ k. 30 + of_nat k) 6
      [sample_event] (sample_stored 5) = (Inr [jobs'], db'')"
    by (simp add: EnqueueWebhookEvents_def run_defs existingWebhookDeliveryJobs_def Let_def sample_event_def
        sample_stored_def sample_tables_def prepare_slot_def is_settled_def uuid_Nil_def)
  have "set jobs' = set [job_of (sample_delivery 5)]"
    using enqueue_idempotent [OF sample_enqueue sample_wf _ _ _ again] sample_matching
    by (simp add: sample_event_def uuid_Nil_def sample_tables_def)
  with again show ?thesis by simp
qed

theorem duplicate_in_batch_rejected_witness:
  "fst (EnqueueWebhookEvents sample_json (\<lambda>_. 8) (\<lambda>_ k. 20 + of_nat k) 5 [sample_event, sample_event]
     sample_tables) \<noteq> Inr []"
  by (rule duplicate_in_batch_rejected)
    (simp_all add: sample_matching, simp_all add: sample_event_def uuid_Nil_def sample_tables_def)

end
