(* ===== verification/Webhook_Outbox.thy ===== *)
theory Webhook_Outbox
  imports Webhook_Enqueue
begin

text \<open>
  The final event of a deleted site.  Its deliveries are staged in the outbox before the site is
  deleted and become deliveries afterwards, in the same call or by the sweeper's recovery; here it is
  shown that none is lost and none appears while the site lives, whichever statement fails.
\<close>

text \<open>A staged row and the delivery it becomes.\<close>

definition staged_for :: "'d WebhookEventInput \<Rightarrow> uuid \<Rightarrow> Webhook \<Rightarrow> StagedDelivery \<Rightarrow> bool" where
  "staged_for input site w r \<longleftrightarrow> s_event r = ei_ID input \<and> s_site r = site \<and> s_webhook r = w_id w
     \<and> s_url r = w_url w \<and> s_secret r = w_secret w \<and> s_type r = ei_Type input"

definition delivered_from :: "StagedDelivery \<Rightarrow> WebhookDeliveryRecord \<Rightarrow> bool" where
  "delivered_from r d \<longleftrightarrow> d_id d = s_delivery r \<and> d_event d = s_event r \<and> d_webhook d = s_webhook r
     \<and> d_url d = s_url r \<and> d_secret d = s_secret r \<and> d_type d = s_type r \<and> d_payload d = s_payload r
     \<and> d_site d = None \<and> d_status d = WebhookDeliveryPending"

definition add_staged :: "StagedDelivery \<Rightarrow> webhook_db \<Rightarrow> webhook_db" where
  "add_staged r db = db\<lparr>outbox := outbox db @ [r]\<rparr>"

lemma foldl_add_staged: "foldl (\<lambda>db r. add_staged r db) db rs = db\<lparr>outbox := outbox db @ rs\<rparr>"
  by (induction rs arbitrary: db) (simp_all add: add_staged_def)

lemma tables_add_staged: "tables db' = tables db \<Longrightarrow> tables (add_staged r db') = tables (add_staged r db)"
proof -
  have "tables (add_staged r d) = add_staged r (tables d)" for d
    by (simp add: tables_def add_staged_def)
  then show "tables db' = tables db \<Longrightarrow> tables (add_staged r db') = tables (add_staged r db)" by simp
qed

lemma insert_staged_Inr: "insert_staged r db = (Inr x, db') \<Longrightarrow> tables db' = tables (add_staged r db)"
  by (cases "faults db") (auto simp: insert_staged_def exec_def add_staged_def tables_def split: if_splits)

lemma stage_Inr:
  assumes "stageSiteDeletionWebhookEvent J nid site input body subs now db = (Inr x, db')"
  shows "\<exists>rows. list_all2 (staged_for input site) subs rows
     \<and> tables db' = tables (db\<lparr>outbox := outbox db @ rows\<rparr>)"
proof -
  let ?f = "\<lambda>(k, w). case delivery_payload J input (nid k) of
         None \<Rightarrow> abort (BadInput ''marshal final site webhook delivery'')
       | Some payload \<Rightarrow> insert_staged \<lparr>s_delivery = nid k, s_event = ei_ID input, s_site = site,
           s_webhook = w_id w, s_type = ei_Type input, s_version = ei_APIVersion input, s_name = w_name w,
           s_url = w_url w, s_secret = w_secret w, s_event_payload = body, s_payload = payload,
           s_occurred = ei_OccurredAt input, s_created = now\<rparr>"
  from Transact_tables(2) [OF assms [unfolded stageSiteDeletionWebhookEvent_def]]
  obtain db1 db2 where t: "tables db1 = tables db" "for_each ?f (enumerate 0 subs) db1 = (Inr x, db2)"
      "tables db' = tables db2" by blast
  have "\<exists>rows. list_all2 (\<lambda>kw (y, r). staged_for input site (snd kw) r) (enumerate 0 subs) (zip x rows)
      \<and> length rows = length x \<and> length x = length (enumerate 0 subs)
      \<and> tables db2 = tables (foldl (\<lambda>db r. add_staged r db) db1 rows)"
  proof (rule for_each_rows [OF t(2)])
    fix kw :: "nat \<times> Webhook" and y dba dbb
    assume "?f kw dba = (Inr y, dbb)"
    moreover obtain k w where kw: "kw = (k, w)" by fastforce
    ultimately obtain payload where "insert_staged \<lparr>s_delivery = nid k, s_event = ei_ID input, s_site = site,
           s_webhook = w_id w, s_type = ei_Type input, s_version = ei_APIVersion input, s_name = w_name w,
           s_url = w_url w, s_secret = w_secret w, s_event_payload = body, s_payload = payload,
           s_occurred = ei_OccurredAt input, s_created = now\<rparr> dba = (Inr y, dbb)" (is "insert_staged ?r _ = _")
      by (auto simp: abort_def split: option.splits)
    then have "tables dbb = tables (add_staged ?r dba)" by (rule insert_staged_Inr)
    moreover have "staged_for input site (snd kw) ?r" by (simp add: staged_for_def kw)
    ultimately show "\<exists>r. staged_for input site (snd kw) r \<and> tables dbb = tables (add_staged r dba)" by blast
  qed (rule tables_add_staged)
  then obtain rows where r: "list_all2 (\<lambda>kw (y, r). staged_for input site (snd kw) r) (enumerate 0 subs) (zip x rows)"
      "length rows = length x" "length x = length subs" "tables db2 = tables (foldl (\<lambda>db r. add_staged r db) db1 rows)"
    by auto
  have "list_all2 (staged_for input site) subs rows"
    using r(1-3) by (auto simp: list_all2_conv_all_nth nth_enumerate_eq)
  moreover have "tables db' = tables (db\<lparr>outbox := outbox db @ rows\<rparr>)"
    using foldl_tables [where add = add_staged and rs = rows, OF tables_add_staged t(1)] r(4) t(3) by (simp add: foldl_add_staged)
  ultimately show ?thesis by blast
qed

text \<open>Deleting a site leaves the outbox alone, adds no delivery, and removes the site when it succeeds.\<close>

definition site_frame :: "webhook_db \<Rightarrow> webhook_db \<Rightarrow> bool" where
  "site_frame db0 db \<longleftrightarrow> outbox db = outbox db0 \<and> live_sites db = live_sites db0
     \<and> set (deliveries db) \<subseteq> set (deliveries db0)"

interpretation sfr: op_invariant "site_frame db0" for db0
  by unfold_locales (simp add: site_frame_def)

lemma DeleteSite_frame:
  assumes "DeleteSite site db = (r, db')"
  shows "outbox db' = outbox db \<and> set (deliveries db') \<subseteq> set (deliveries db)
     \<and> (case r of Inl _ \<Rightarrow> live_sites db' = live_sites db | Inr _ \<Rightarrow> site \<notin> set (live_sites db'))"
proof -
  let ?tx = "Transact (bind_op (modify (\<lambda>db. db\<lparr>subscriptions :=
           filter (\<lambda>(w, _). \<not> (\<exists>h \<in> set (webhooks db). w_id h = w \<and> w_site h = Some site)) (subscriptions db)\<rparr>))
       (\<lambda>_. bind_op (modify (\<lambda>db. db\<lparr>webhooks := filter (\<lambda>w. w_site w \<noteq> Some site) (webhooks db)\<rparr>))
         (\<lambda>_. bind_op (modify (\<lambda>db. db\<lparr>attempts := filter (\<lambda>a. a_site a \<noteq> Some site) (attempts db)\<rparr>))
           (\<lambda>_. bind_op (modify (\<lambda>db. db\<lparr>deliveries := filter (\<lambda>d. d_site d \<noteq> Some site) (deliveries db)\<rparr>))
             (\<lambda>_. modify (\<lambda>db. db\<lparr>events := filter (\<lambda>e. e_site e \<noteq> Some site) (events db)\<rparr>))))))"
  obtain r1 db1 where tx: "?tx db = (r1, db1)" by fastforce
  have "keeps (site_frame db) ?tx"
    by (intro sfr.keeps_Transact sfr.keeps_bind sfr.keeps_modify) (auto simp: site_frame_def)
  then have f: "site_frame db db1" using tx by (auto dest!: keepsD simp: site_frame_def)
  show ?thesis
    using assms tx f
    by (cases "faults db1")
      (auto simp: DeleteSite_def bind_op_def modify_def exec_def site_frame_def split: sum.splits if_splits)
qed

lemma cancel_frame: "live_sites (snd (cancelStagedSiteDeletionWebhookEvent evid db)) = live_sites db
    \<and> deliveries (snd (cancelStagedSiteDeletionWebhookEvent evid db)) = deliveries db"
  by (cases "faults db") (auto simp: cancelStagedSiteDeletionWebhookEvent_def modify_def exec_def)

text \<open>Committing a staged event turns its rows into deliveries and touches no other row.\<close>

lemma materialize_row_Inr:
  assumes "materialize_row evid now r db = (Inr y, db')" and "s_event r = evid"
  shows "\<exists>d. delivered_from r d \<and> tables db' = tables (add_delivery d db)"
proof -
  let ?d = "new_delivery (s_delivery r) evid (s_webhook r) None (s_type r) (s_name r) (s_url r)
      (s_secret r) (s_payload r) now"
  have "tables db' = tables (add_delivery ?d db)"
    using assms(1) by (auto simp: materialize_row_def Let_def ret_def dest!: bind_op_Inr insert_delivery_Inr)
  moreover have "delivered_from r ?d"
    using assms(2) by (simp add: delivered_from_def new_delivery_def)
  ultimately show ?thesis by blast
qed

lemma materialize_rows:
  assumes "for_each (materialize_row evid now) staged db = (Inr jobs, db')"
    and "\<And>r. r \<in> set staged \<Longrightarrow> s_event r = evid"
  shows "\<exists>ds. list_all2 delivered_from staged ds \<and> tables db' = tables (db\<lparr>deliveries := deliveries db @ ds\<rparr>)"
proof -
  have "\<exists>ds. list_all2 (\<lambda>r (y, d). delivered_from r d) staged (zip jobs ds) \<and> length ds = length jobs
      \<and> length jobs = length staged \<and> tables db' = tables (foldl (\<lambda>db r. add_delivery r db) db ds)"
    by (rule for_each_rows [OF assms(1)])
      (use assms(2) in \<open>auto intro: materialize_row_Inr tables_add_delivery\<close>)
  then obtain ds where ds: "list_all2 (\<lambda>r (y, d). delivered_from r d) staged (zip jobs ds)"
      "length ds = length jobs" "length jobs = length staged"
      "tables db' = tables (foldl (\<lambda>db r. add_delivery r db) db ds)" by blast
  have "list_all2 delivered_from staged ds"
    using ds(1-3) by (auto simp: list_all2_conv_all_nth)
  with ds(4) show ?thesis unfolding foldl_add_delivery by blast
qed

lemma materialize_staged_Inr:
  assumes "materialize_staged evid now (first # rest) db = (Inr jobs, db')"
    and "\<And>r. r \<in> set (first # rest) \<Longrightarrow> s_event r = evid"
  shows "\<exists>ds. list_all2 delivered_from (first # rest) ds \<and> live_sites db' = live_sites db
     \<and> deliveries db' = deliveries db @ ds \<and> outbox db' = filter (\<lambda>r. s_event r \<noteq> evid) (outbox db)"
proof -
  define e where "e = \<lparr>e_id = evid, e_site = None, e_type = s_type first, e_version = s_version first,
      e_payload = s_event_payload first, e_occurred = s_occurred first, e_created = now\<rparr>"
  let ?clear = "\<lambda>db. db\<lparr>outbox := filter (\<lambda>r. s_event r \<noteq> evid) (outbox db)\<rparr>"
  let ?rest = "bind_op (for_each (materialize_row evid now) (first # rest))
      (\<lambda>jobs. bind_op (modify ?clear) (\<lambda>_. ret jobs))"
  have "Transact (bind_op (insert_event e) (\<lambda>_. ?rest)) db = (Inr jobs, db')"
    using assms(1) unfolding materialize_staged_def list.case e_def .
  from Transact_tables(2) [OF this] obtain db2 db3 where
    t2: "tables db2 = tables db" and b: "bind_op (insert_event e) (\<lambda>_. ?rest) db2 = (Inr jobs, db3)" and
    t3: "tables db' = tables db3" by blast
  from bind_op_Inr [OF b] obtain x db4 where ie: "insert_event e db2 = (Inr x, db4)" and r: "?rest db4 = (Inr jobs, db3)"
    by blast
  from bind_op_Inr [OF r] obtain js db5 where
    f: "for_each (materialize_row evid now) (first # rest) db4 = (Inr js, db5)" and
    m: "bind_op (modify ?clear) (\<lambda>_. ret js) db5 = (Inr jobs, db3)" by blast
  obtain ds where ds: "list_all2 delivered_from (first # rest) ds"
      "tables db5 = tables (db4\<lparr>deliveries := deliveries db4 @ ds\<rparr>)"
    using materialize_rows [OF f assms(2)] by blast
  have t4: "tables db4 = tables (db2\<lparr>events := events db2 @ [e]\<rparr>)" using insert_event_Inr [OF ie] by simp
  obtain u db6 where "modify ?clear db5 = (Inr u, db6)" "tables db3 = tables db6"
    using bind_op_Inr [OF m] by (auto simp: ret_def)
  with modify_Inr [of ?clear db5] have t6: "tables db3 = tables (?clear db5)" by simp
  show ?thesis
    using ds(1) tables_fields [OF t2] tables_fields [OF t3] tables_fields [OF t4]
      tables_fields [OF ds(2)] tables_fields [OF t6] by auto
qed

lemma commit_Inr:
  assumes "CommitStagedSiteDeletionWebhookEvent evid now db = (Inr jobs, db')"
  shows "live_sites db' = live_sites db \<and> outbox db' = filter (\<lambda>r. s_event r \<noteq> evid) (outbox db)
     \<and> set (deliveries db) \<subseteq> set (deliveries db')
     \<and> (\<forall>r \<in> set (outbox db). s_event r = evid \<longrightarrow> (\<exists>d \<in> set (deliveries db'). delivered_from r d))"
proof -
  let ?q = "\<lambda>db. sort_key s_delivery (filter (\<lambda>r. s_event r = evid) (outbox db))"
  obtain staged db1 where q: "query ?q db = (Inr staged, db1)" and m: "materialize_staged evid now staged db1 = (Inr jobs, db')"
    using bind_op_Inr [OF assms [unfolded CommitStagedSiteDeletionWebhookEvent_def]] by blast
  have st: "staged = ?q db" "tables db1 = tables db" using query_Inr [OF q] by auto
  note f1 = tables_fields [OF st(2)]
  have mem: "r \<in> set staged \<longleftrightarrow> r \<in> set (outbox db) \<and> s_event r = evid" for r by (simp add: st)
  show ?thesis
  proof (cases staged)
    case Nil
    then have none: "\<forall>r \<in> set (outbox db). s_event r \<noteq> evid" using mem by auto
    have "db' = db1" using m Nil by (simp add: materialize_staged_def ret_def)
    with none f1 show ?thesis by (simp add: filter_True)
  next
    case (Cons first rest)
    have ev: "r \<in> set (first # rest) \<Longrightarrow> s_event r = evid" for r using mem Cons by auto
    obtain ds where ds: "list_all2 delivered_from staged ds" "live_sites db' = live_sites db1"
        "deliveries db' = deliveries db1 @ ds" "outbox db' = filter (\<lambda>r. s_event r \<noteq> evid) (outbox db1)"
      using materialize_staged_Inr [OF m [unfolded Cons] ev] Cons by blast
    have "\<exists>d \<in> set ds. delivered_from r d" if "r \<in> set staged" for r
      using ds(1) that by (rule list_all2_ex)
    with ds(2-4) f1 mem show ?thesis by auto
  qed
qed

lemma materialize_staged_Inl:
  "materialize_staged evid now staged db = (Inl e, db') \<Longrightarrow> tables db' = tables db"
  using Transact_tables(1) by (auto simp: materialize_staged_def ret_def split: list.splits)

lemma commit_Inl:
  assumes "CommitStagedSiteDeletionWebhookEvent evid now db = (Inl e, db')"
  shows "tables db' = tables db"
proof -
  let ?q = "\<lambda>db. sort_key s_delivery (filter (\<lambda>r. s_event r = evid) (outbox db))"
  obtain r1 db1 where q: "query ?q db = (r1, db1)" by fastforce
  have t1: "tables db1 = tables db" by (rule frame [OF frm.keeps_query q])
  show ?thesis
  proof (cases r1)
    case (Inr staged)
    with assms q have "materialize_staged evid now staged db1 = (Inl e, db')"
      by (simp add: CommitStagedSiteDeletionWebhookEvent_def bind_op_def)
    from materialize_staged_Inl [OF this] t1 show ?thesis by simp
  qed (use assms q t1 in \<open>simp add: CommitStagedSiteDeletionWebhookEvent_def bind_op_def\<close>)
qed

text \<open>
  C13.  The final event of a deleted site is not lost and not early: whatever statement fails,
  afterwards either the site is gone and every subscriber has a pending delivery of the event or a
  staged row for it, or the site is still there, the call reports an error and no delivery was added.
\<close>

theorem final_event_of_site:
  assumes "DeleteSiteWithWebhookEvent J ne nd now site event db = (r, db')"
    and "site \<in> set (live_sites db)"
    and "prepareWebhookEventInput J ne now (event\<lparr>ei_SiteID := Some site, ei_Preserve := True\<rparr>) = Inr (input, body, s)"
    and "w \<in> set (matching input db)"
  shows "if site \<in> set (live_sites db')
     then (\<exists>e. r = Inl e) \<and> set (deliveries db') \<subseteq> set (deliveries db)
     else (\<exists>d \<in> set (deliveries db'). \<exists>g. staged_for input site w g \<and> delivered_from g d)
        \<or> (\<exists>g \<in> set (outbox db'). staged_for input site w g)"
proof -
  have inp: "ei_SiteID input = Some site" using prepare_Inr [OF assms(3)] by simp
  obtain r1 db1 where q: "enabledWebhookSubscribers (ei_SiteID input) (ei_Target input) (ei_Type input) db = (r1, db1)"
    by fastforce
  note eq = assms(1) [unfolded DeleteSiteWithWebhookEvent_def assms(3) sum.case prod.case]
  show ?thesis
  proof (cases r1)
    case (Inl e)
    have "tables db1 = tables db" by (rule frame [OF frame_subscribers q])
    then have "live_sites db1 = live_sites db" "deliveries db1 = deliveries db" by (rule tables_fields)+
    moreover have "r = Inl e \<and> db' = db1" using eq q inp Inl by simp
    ultimately show ?thesis using assms(2) by simp
  next
    case (Inr subs)
    have subs: "subs = matching input db" and t1: "tables db1 = tables db"
      using enabledWebhookSubscribers_Inr [OF q [unfolded Inr]] by auto
    have ne: "subs \<noteq> []" using assms(4) subs by auto
    obtain r2 db2 where st: "stageSiteDeletionWebhookEvent J nd site input body subs now db1 = (r2, db2)" by fastforce
    note eq2 = eq [unfolded inp [symmetric] q Inr prod.case sum.case]
    show ?thesis
    proof (cases r2)
      case (Inl e)
      then have "tables db2 = tables db1"
        using st Transact_tables(1) by (auto simp: stageSiteDeletionWebhookEvent_def)
      moreover have "r = Inl e \<and> db' = db2" using eq2 st Inl ne by (auto split: list.splits)
      ultimately show ?thesis
        using assms(2) tables_fields(2,4) [OF t1] tables_fields(2,4) [of db2 db1] by simp
    next
      case r2: (Inr u)
      obtain rows where rows: "list_all2 (staged_for input site) subs rows"
          "tables db2 = tables (db1\<lparr>outbox := outbox db1 @ rows\<rparr>)"
        using stage_Inr [OF st [unfolded r2]] by blast
      obtain g where g: "g \<in> set rows" "staged_for input site w g"
        using list_all2_ex [OF rows(1)] assms(4) subs by blast
      have f2: "g \<in> set (outbox db2)" "deliveries db2 = deliveries db" "live_sites db2 = live_sites db"
        using tables_fields [OF rows(2)] tables_fields [OF t1] g(1) by auto
      obtain r3 db3 where d: "DeleteSite site db2 = (r3, db3)" by fastforce
      note f3 = DeleteSite_frame [OF d]
      show ?thesis
      proof (cases r3)
        case (Inl e)
        then have "r = Inl e \<and> db' = snd (cancelStagedSiteDeletionWebhookEvent (ei_ID input) db3)"
          using eq2 st r2 ne d by (auto split: list.splits)
        with f3 f2 Inl assms(2) show ?thesis by (auto simp: cancel_frame)
      next
        case r3: (Inr v)
        obtain r4 db4 where c: "CommitStagedSiteDeletionWebhookEvent (ei_ID input) now db3 = (r4, db4)" by fastforce
        have res: "db' = db4"
          using eq2 st r2 ne d r3 c by (auto split: list.splits sum.splits)
        have g3: "g \<in> set (outbox db3)" "site \<notin> set (live_sites db3)" using f2 f3 r3 by auto
        show ?thesis
        proof (cases r4)
          case (Inl e)
          have "outbox db4 = outbox db3 \<and> live_sites db4 = live_sites db3"
            using commit_Inl [OF c [unfolded Inl]] tables_fields by blast
          with res g3 g(2) show ?thesis by auto
        next
          case (Inr jobs)
          note cc = commit_Inr [OF c [unfolded Inr]]
          have "s_event g = ei_ID input" using g(2) by (simp add: staged_for_def)
          with cc g3(1) obtain d where "d \<in> set (deliveries db4)" "delivered_from g d" by blast
          moreover have "site \<notin> set (live_sites db4)" using cc g3(2) by simp
          ultimately show ?thesis using res g(2) by auto
        qed
      qed
    qed
  qed
qed

text \<open>
  C14.  Recovery finishes interrupted deletions: when it succeeds, no row of a deleted site is left in
  the outbox.  Exactly the rows of the events that have a row of a deleted site have left it, and each
  of them has become a pending delivery with its identifier, address, secret and payload; the rows of
  all other events, the deliveries and the sites are still there.
\<close>

theorem recovery_drains_outbox:
  assumes "RecoverStagedSiteDeletionWebhookEvents now db = (Inr jobs, db')"
  shows "let lost = s_event ` {r \<in> set (outbox db). s_site r \<notin> set (live_sites db)} in
     outbox db' = filter (\<lambda>r. s_event r \<notin> lost) (outbox db)
     \<and> (\<forall>r \<in> set (outbox db). s_event r \<in> lost \<longrightarrow> (\<exists>d \<in> set (deliveries db'). delivered_from r d))
     \<and> (\<forall>r \<in> set (outbox db'). s_site r \<in> set (live_sites db'))
     \<and> live_sites db' = live_sites db \<and> set (deliveries db) \<subseteq> set (deliveries db')"
proof -
  let ?q = "\<lambda>db. sort (remdups (map s_event (filter (\<lambda>r. s_site r \<notin> set (live_sites db)) (outbox db))))"
  obtain ids db1 where q: "query ?q db = (Inr ids, db1)" and
    f: "for_each (\<lambda>evid. CommitStagedSiteDeletionWebhookEvent evid now) ids db1 = (Inr jobs, db')"
    using bind_op_Inr [OF assms(1) [unfolded RecoverStagedSiteDeletionWebhookEvents_def]] by blast
  have t: "ids = ?q db" "tables db1 = tables db" using query_Inr [OF q] by auto
  have loop: "live_sites db' = live_sites db1 \<and> outbox db' = filter (\<lambda>r. s_event r \<notin> set ids) (outbox db1)
      \<and> set (deliveries db1) \<subseteq> set (deliveries db')
      \<and> (\<forall>r \<in> set (outbox db1). s_event r \<in> set ids \<longrightarrow> (\<exists>d \<in> set (deliveries db'). delivered_from r d))"
    using f
  proof (induction ids arbitrary: db1 jobs)
    case Nil
    then show ?case by (simp add: ret_def)
  next
    case (Cons evid ids)
    from Cons.prems obtain j js db2 where
      c: "CommitStagedSiteDeletionWebhookEvent evid now db1 = (Inr j, db2)" and
      rest: "for_each (\<lambda>evid. CommitStagedSiteDeletionWebhookEvent evid now) ids db2 = (Inr js, db')"
      by (auto simp: ret_def dest!: bind_op_Inr)
    note c' = commit_Inr [OF c] and r' = Cons.IH [OF rest]
    have "\<exists>d \<in> set (deliveries db'). delivered_from r d"
      if "r \<in> set (outbox db1)" "s_event r \<in> set (evid # ids)" for r
    proof (cases "s_event r = evid")
      case True
      with c' r' that(1) show ?thesis by blast
    next
      case False
      with c' that have "r \<in> set (outbox db2)" "s_event r \<in> set ids" by auto
      with r' show ?thesis by blast
    qed
    with c' r' show ?case by (simp add: conj_commute) blast
  qed
  have ids: "set ids = s_event ` {r \<in> set (outbox db). s_site r \<notin> set (live_sites db)}"
    by (auto simp: t(1))
  have l: "live_sites db' = live_sites db" "outbox db' = filter (\<lambda>r. s_event r \<notin> set ids) (outbox db)"
    "set (deliveries db) \<subseteq> set (deliveries db')"
    "\<forall>r \<in> set (outbox db). s_event r \<in> set ids \<longrightarrow> (\<exists>d \<in> set (deliveries db'). delivered_from r d)"
    using loop unfolding tables_fields(2,3,4) [OF t(2)] by auto
  show ?thesis
    unfolding Let_def ids [symmetric]
  proof (intro conjI)
    show "\<forall>r \<in> set (outbox db'). s_site r \<in> set (live_sites db')" unfolding l(1,2) using ids by auto
  qed (use l in simp_all)
qed

definition sample_deletion :: "nat WebhookEventInput" where
  "sample_deletion = \<lparr>ei_ID = 9, ei_SiteID = None, ei_Target = None, ei_Type = ''site.deleted'',
     ei_APIVersion = ''2.1'', ei_OccurredAt = 3, ei_Data = Some 0, ei_Preserve = False, ei_Deduplicate = False\<rparr>"

definition deletion_tables :: webhook_db where
  "deletion_tables = sample_tables\<lparr>subscriptions := [(1, ''site.deleted'')]\<rparr>"

theorem final_event_of_site_witness:
  "\<exists>r db'. DeleteSiteWithWebhookEvent sample_json 8 (\<lambda>k. 20 + of_nat k) 5 4 sample_deletion
       (deletion_tables\<lparr>faults := [False, False, False, False, False, True]\<rparr>) = (r, db')
     \<and> (if 4 \<in> set (live_sites db') then (\<exists>e. r = Inl e) \<and> set (deliveries db') \<subseteq> {}
        else deliveries db' \<noteq> [] \<or> outbox db' \<noteq> [])"
proof -
  let ?db = "deletion_tables\<lparr>faults := [False, False, False, False, False, True]\<rparr>"
  let ?input = "sample_deletion\<lparr>ei_SiteID := Some 4, ei_Preserve := True\<rparr>"
  obtain r db' where run: "DeleteSiteWithWebhookEvent sample_json 8 (\<lambda>k. 20 + of_nat k) 5 4 sample_deletion ?db
      = (r, db')" by fastforce
  have allowed: "EventAllowedForScope ''site.deleted'' ScopeInstance"
    by (simp add: EventAllowedForScope_def TrimSpace_graphic graphic_def catalog_def instance_event_def
        site_event_def ScopeInstance_def)
  have prep: "prepareWebhookEventInput sample_json 8 5 ?input = Inr (?input, ''{}'', None)"
    using allowed
    by (simp add: prepareWebhookEventInput_def sample_deletion_def sample_json_def uuid_Nil_def IsZero_def
        time_zero_def Let_def)
  have m: "sample_hook \<in> set (matching ?input ?db)"
    by (simp add: matching_def deletion_tables_def sample_tables_def sample_deletion_def subscriber_matches_def
        sample_hook_def)
  have live: "4 \<in> set (live_sites ?db)" by (simp add: deletion_tables_def sample_tables_def)
  have "deliveries ?db = []" by (simp add: deletion_tables_def sample_tables_def)
  with final_event_of_site [OF run live prep m] run show ?thesis
    by (intro exI [of _ r] exI [of _ db']) (auto split: if_splits)
qed

theorem recovery_drains_outbox_witness:
  "\<exists>jobs db'. RecoverStagedSiteDeletionWebhookEvents 5 (sample_tables\<lparr>live_sites := [], outbox :=
       [\<lparr>s_delivery = 20, s_event = 9, s_site = 4, s_webhook = 1, s_type = ''site.deleted'', s_version = ''2.1'',
         s_name = ''hook'', s_url = ''https://example.org/hook'', s_secret = ''secret'', s_event_payload = ''{}'',
         s_payload = ''{}'', s_occurred = 3, s_created = 4\<rparr>]\<rparr>) = (Inr jobs, db')
     \<and> (\<forall>r \<in> set (outbox db'). s_site r \<in> set (live_sites db'))"
proof -
  obtain jobs db' where run: "RecoverStagedSiteDeletionWebhookEvents 5 (sample_tables\<lparr>live_sites := [], outbox :=
       [\<lparr>s_delivery = 20, s_event = 9, s_site = 4, s_webhook = 1, s_type = ''site.deleted'', s_version = ''2.1'',
         s_name = ''hook'', s_url = ''https://example.org/hook'', s_secret = ''secret'', s_event_payload = ''{}'',
         s_payload = ''{}'', s_occurred = 3, s_created = 4\<rparr>]\<rparr>) = (Inr jobs, db')"
    by (simp add: RecoverStagedSiteDeletionWebhookEvents_def CommitStagedSiteDeletionWebhookEvent_def run_defs
        sample_tables_def materialize_staged_def materialize_row_def insert_event_def insert_delivery_def Let_def)
  from recovery_drains_outbox [OF run] run show ?thesis by simp
qed

end
