(* ===== verification/Webhook_Dispatch.thy ===== *)
theory Webhook_Dispatch
  imports Webhook_Outbox
begin

text \<open>
  Delivering: the dispatcher and its retry delays (\<open>webhookdispatcher/dispatcher.go\<close>), the
  worker and its limit per endpoint (\<open>worker.go\<close>), the sweeper (\<open>sweeper.go\<close>), the
  emitter (\<open>emitter.go\<close>) and the version in the user agent (\<open>webhooks/version.go\<close>).
  The receiver, the HMAC and the message queue are arguments.
\<close>

record webhook_config =
  AllowDevelopmentTargets :: bool
  TimeoutSeconds :: int
  PerEndpointConcurrency :: int
  MaxAttempts :: int
  RetryBaseSeconds :: int
  RetryMaxSeconds :: int
  RetentionDays :: int
  SweepSeconds :: int
  Version :: string

definition seconds :: "int \<Rightarrow> duration" where
  "seconds n = wrap64 (n * second)"

subsection \<open>Version\<close>

definition MinorAPIVersion :: "string \<Rightarrow> string" where
  "MinorAPIVersion runtimeVersion =
     (let parts = Split (CHR ''.'') (TrimPrefix ''v'' (TrimSpace runtimeVersion)) in
      case parts of
        p0 # p1 # _ \<Rightarrow>
          (case Atoi p0 of
             None \<Rightarrow> ''0.0''
           | Some major \<Rightarrow>
               if major < 0 then ''0.0''
               else case Atoi (takeWhile (\<lambda>c. c \<noteq> CHR ''-'' \<and> c \<noteq> CHR ''+'') p1) of
                      None \<Rightarrow> ''0.0''
                    | Some minor \<Rightarrow> if minor < 0 then ''0.0''
                        else FormatInt major @ ''.'' @ FormatInt minor)
      | _ \<Rightarrow> ''0.0'')"

subsection \<open>Retry delays\<close>

text \<open>The loop of \<open>boundedRetryDelay\<close>; the first argument is the number of rounds left.\<close>

fun retry_loop :: "nat \<Rightarrow> duration \<Rightarrow> duration \<Rightarrow> duration" where
  "retry_loop 0 delay maximum = delay"
| "retry_loop (Suc n) delay maximum =
     (if delay < maximum
      then (if delay > go_div maximum 2 then maximum else retry_loop n (wrap64 (delay * 2)) maximum)
      else delay)"

definition boundedRetryDelay :: "int \<Rightarrow> duration \<Rightarrow> duration \<Rightarrow> duration" where
  "boundedRetryDelay attempt base maximum =
     (let attempt = (if attempt < 1 then 1 else attempt);
          delay = retry_loop (nat (attempt - 1)) base maximum
      in if delay > maximum then maximum else delay)"

definition RetryDelay :: "int \<Rightarrow> duration" where
  "RetryDelay attempt = boundedRetryDelay attempt (30 * second) (6 * hour)"

definition retryDelay :: "webhook_config \<Rightarrow> int \<Rightarrow> duration" where
  "retryDelay conf attempt =
     (let base = seconds (RetryBaseSeconds conf);
          base = (if base \<le> 0 then 30 * second else base);
          maximum = seconds (RetryMaxSeconds conf);
          maximum = (if maximum \<le> 0 then 6 * hour else maximum);
          maximum = (if maximum < base then base else maximum)
      in boundedRetryDelay attempt base maximum)"

subsection \<open>One attempt\<close>

record WebhookRequest =
  rq_url :: url
  rq_body :: string
  rq_user_agent :: string
  rq_timestamp :: string
  rq_signature :: string
  rq_event :: uuid
  rq_delivery :: uuid

datatype http_outcome = BuildFailed | RequestFailed | TimedOut | Response int

text \<open>\<open>hmac\<close> maps a secret and a message to the hexadecimal digest.\<close>

definition signPayload :: "(string \<Rightarrow> string \<Rightarrow> string) \<Rightarrow> string \<Rightarrow> string \<Rightarrow> string \<Rightarrow> string" where
  "signPayload hmac secret timestamp payload = ''v1='' @ hmac secret (timestamp @ ''.'' @ payload)"

definition effective_max_attempts :: "webhook_config \<Rightarrow> int" where
  "effective_max_attempts conf = (if MaxAttempts conf \<le> 0 then 6 else MaxAttempts conf)"

definition finishAttempt :: "webhook_config \<Rightarrow> time \<Rightarrow> uuid \<Rightarrow> WebhookDeliveryRecord \<Rightarrow> WebhookAttemptResult
    \<Rightarrow> unit op" where
  "finishAttempt conf clock new_id delivery result =
     (let result = result\<lparr>r_CompletedAt := clock\<rparr>;
          nextAttemptNumber = d_attempts delivery + 1;
          result = (if nextAttemptNumber \<ge> effective_max_attempts conf
                    then result\<lparr>r_Status := WebhookDeliveryFailed, r_NextAttemptAt := None\<rparr>
                    else result\<lparr>r_Status := WebhookDeliveryRetrying,
                           r_NextAttemptAt := Some (clock + retryDelay conf nextAttemptNumber)\<rparr>)
      in RecordWebhookDeliveryAttempt new_id clock (d_id delivery) result)"

text \<open>
  The environment of a dispatch: standard library, resolver, HMAC, the receiver (which sees the
  request), the time when the attempt has completed, and the identifier of the attempt.
\<close>

record ('a, 'p) dispatch_env =
  env_lib :: "('a, 'p) golib"
  env_resolve :: resolver
  env_hmac :: "string \<Rightarrow> string \<Rightarrow> string"
  env_http :: "WebhookRequest \<Rightarrow> http_outcome"
  env_done :: time
  env_attempt_id :: uuid

definition dispatch_request :: "('a, 'p) dispatch_env \<Rightarrow> webhook_config \<Rightarrow> time \<Rightarrow> WebhookDeliveryRecord
    \<Rightarrow> url \<Rightarrow> WebhookRequest" where
  "dispatch_request env conf startedAt delivery destination =
     (let timestamp = FormatInt (startedAt div second) in
      \<lparr>rq_url = destination, rq_body = d_payload delivery,
       rq_user_agent = ''HitKeep-Webhook/'' @ MinorAPIVersion (Version conf), rq_timestamp = timestamp,
       rq_signature = signPayload (env_hmac env) (d_secret delivery) timestamp (d_payload delivery),
       rq_event = d_event delivery, rq_delivery = d_id delivery\<rparr>)"

definition attempt_claimed :: "('a, 'p) dispatch_env \<Rightarrow> webhook_config \<Rightarrow> time \<Rightarrow> WebhookDeliveryRecord \<Rightarrow> unit op" where
  "attempt_claimed env conf startedAt delivery =
     (let result = \<lparr>r_Status = [], r_ResponseStatus = 0, r_ErrorCode = [], r_ErrorMessage = [],
            r_StartedAt = startedAt, r_CompletedAt = time_zero, r_NextAttemptAt = None\<rparr>;
          finish = finishAttempt conf (env_done env) (env_attempt_id env) delivery
      in case ValidateDestination (env_lib env) (env_resolve env) (AllowDevelopmentTargets conf) (d_url delivery) of
           Inl _ \<Rightarrow> finish (result\<lparr>r_ErrorCode := ''invalid_destination'',
             r_ErrorMessage := ''destination failed safety validation''\<rparr>)
         | Inr destination \<Rightarrow>
             (case env_http env (dispatch_request env conf startedAt delivery destination) of
                BuildFailed \<Rightarrow> finish (result\<lparr>r_ErrorCode := ''request_build_failed'',
                  r_ErrorMessage := ''delivery request could not be created''\<rparr>)
              | RequestFailed \<Rightarrow> finish (result\<lparr>r_ErrorCode := ''request_failed'',
                  r_ErrorMessage := ''delivery request failed''\<rparr>)
              | TimedOut \<Rightarrow> finish (result\<lparr>r_ErrorCode := ''timeout'',
                  r_ErrorMessage := ''delivery request timed out''\<rparr>)
              | Response code \<Rightarrow>
                  let result = result\<lparr>r_ResponseStatus := code\<rparr> in
                  if 200 \<le> code \<and> code < 300
                  then RecordWebhookDeliveryAttempt (env_attempt_id env) (env_done env) (d_id delivery)
                         (result\<lparr>r_Status := WebhookDeliverySucceeded, r_CompletedAt := env_done env\<rparr>)
                  else finish (result\<lparr>r_ErrorCode := ''http_status'',
                         r_ErrorMessage := ''receiver returned HTTP '' @ FormatInt code\<rparr>)))"

definition Dispatch :: "('a, 'p) dispatch_env \<Rightarrow> webhook_config \<Rightarrow> uuid \<Rightarrow> time \<Rightarrow> unit op" where
  "Dispatch env conf deliveryID startedAt =
     bind_op (ClaimWebhookDelivery deliveryID startedAt) (\<lambda>delivery.
       case delivery of
         None \<Rightarrow> ret ()
       | Some d \<Rightarrow> attempt_claimed env conf startedAt d)"

subsection \<open>The worker's limit per endpoint\<close>

text \<open>Messages being handled per endpoint: the tokens in each semaphore.\<close>

type_synonym limits = "uuid \<Rightarrow> nat"

definition effective_limit :: "webhook_config \<Rightarrow> nat" where
  "effective_limit conf = (if PerEndpointConcurrency conf \<le> 0 then 1 else nat (PerEndpointConcurrency conf))"

definition tryAcquire :: "webhook_config \<Rightarrow> uuid \<Rightarrow> limits \<Rightarrow> limits option" where
  "tryAcquire conf webhookID sem =
     (if sem webhookID < effective_limit conf then Some (sem(webhookID := sem webhookID + 1)) else None)"

definition release :: "uuid \<Rightarrow> limits \<Rightarrow> limits" where
  "release webhookID sem = sem(webhookID := sem webhookID - 1)"

datatype handled = HandlerError wh_error | DecodeError | Dropped | Requeued | Dispatched

text \<open>
  \<open>handleMessage\<close>: \<open>message\<close> is the decoded delivery identifier, or nothing when the body is no
  valid message.  The semaphore is taken for the duration of the dispatch.
\<close>

definition handleMessage :: "('a, 'p) dispatch_env \<Rightarrow> webhook_config \<Rightarrow> time \<Rightarrow> uuid option \<Rightarrow> limits
    \<Rightarrow> webhook_db \<Rightarrow> handled \<times> limits \<times> webhook_db" where
  "handleMessage env conf now message sem db =
     (case message of
        None \<Rightarrow> (DecodeError, sem, db)
      | Some did \<Rightarrow>
          if did = uuid_Nil then (DecodeError, sem, db)
          else case GetWebhookDelivery did db of
            (Inl e, db) \<Rightarrow> (HandlerError e, sem, db)
          | (Inr None, db) \<Rightarrow> (Dropped, sem, db)
          | (Inr (Some delivery), db) \<Rightarrow>
              (case tryAcquire conf (d_webhook delivery) sem of
                 None \<Rightarrow> (Requeued, sem, db)
               | Some taken \<Rightarrow>
                   (case Dispatch env conf did now db of
                      (Inl e, db) \<Rightarrow> (HandlerError e, release (d_webhook delivery) taken, db)
                    | (Inr _, db) \<Rightarrow> (Dispatched, release (d_webhook delivery) taken, db))))"

subsection \<open>Publishing\<close>

text \<open>
  \<open>publish\<close> says whether the queue accepts a delivery's message; the state is the database and the
  list of published deliveries.  A queue marker is set before publishing and cleared when it fails.
\<close>

definition publish_one :: "(uuid \<Rightarrow> bool) \<Rightarrow> time \<Rightarrow> time \<Rightarrow> uuid \<Rightarrow> webhook_db \<times> uuid list
    \<Rightarrow> webhook_db \<times> uuid list" where
  "publish_one publish now later did st =
     (let (db, sent) = st;
          (marked, db) = MarkWebhookDeliveryQueued did now db
      in if publish did then (db, sent @ [did])
         else case marked of
                Inr _ \<Rightarrow> (snd (ClearWebhookDeliveryQueued did later db), sent)
              | Inl _ \<Rightarrow> (db, sent))"

definition PublishDeliveries :: "(uuid \<Rightarrow> bool) \<Rightarrow> time \<Rightarrow> time \<Rightarrow> uuid list \<Rightarrow> webhook_db \<times> uuid list
    \<Rightarrow> webhook_db \<times> uuid list" where
  "PublishDeliveries publish now later ids st = foldl (\<lambda>st did. publish_one publish now later did st) st ids"

record 'd Event =
  event_ID :: uuid
  event_SiteID :: "uuid option"
  event_Target :: "uuid option"
  event_Type :: string
  event_Data :: "'d option"
  event_Preserve :: bool

definition emit_input :: "string \<Rightarrow> (nat \<Rightarrow> uuid) \<Rightarrow> nat \<times> 'd Event \<Rightarrow> 'd WebhookEventInput" where
  "emit_input apiVersion new_event ie =
     (let (i, event) = ie in
      \<lparr>ei_ID = (if event_ID event = uuid_Nil then new_event i else event_ID event),
       ei_SiteID = event_SiteID event, ei_Target = event_Target event, ei_Type = event_Type event,
       ei_APIVersion = apiVersion, ei_OccurredAt = time_zero, ei_Data = event_Data event,
       ei_Preserve = event_Preserve event, ei_Deduplicate = event_ID event \<noteq> uuid_Nil\<rparr>)"

definition EmitBatch :: "'d json_lib \<Rightarrow> string \<Rightarrow> (nat \<Rightarrow> uuid) \<Rightarrow> (nat \<Rightarrow> nat \<Rightarrow> uuid) \<Rightarrow> (uuid \<Rightarrow> bool)
    \<Rightarrow> time \<Rightarrow> 'd Event list \<Rightarrow> webhook_db \<times> uuid list
    \<Rightarrow> (wh_error + (uuid \<times> uuid list) list) \<times> webhook_db \<times> uuid list" where
  "EmitBatch J apiVersion new_event new_delivery_id publish now evs st =
     (let inputs = map (emit_input apiVersion new_event) (enumerate 0 evs) in
      case EnqueueWebhookEvents J new_event new_delivery_id now inputs (fst st) of
        (Inl e, db) \<Rightarrow> (Inl e, db, snd st)
      | (Inr jobs, db) \<Rightarrow>
          (Inr (map2 (\<lambda>i js. (ei_ID i, map j_DeliveryID js)) inputs jobs),
           PublishDeliveries publish now now (map j_DeliveryID (concat jobs)) (db, snd st)))"

subsection \<open>The sweeper\<close>

definition retentionDue :: "time \<Rightarrow> time \<Rightarrow> bool" where
  "retentionDue lastGC now \<longleftrightarrow> IsZero lastGC \<or> now - lastGC \<ge> 24 * hour"

text \<open>
  One sweep.  A failing statement stops it; the result is the error, the database, the published
  deliveries and the time of the last retention run.
\<close>

definition RunOnce :: "webhook_config \<Rightarrow> (uuid \<Rightarrow> bool) \<Rightarrow> time \<Rightarrow> time \<Rightarrow> webhook_db \<times> uuid list
    \<Rightarrow> (wh_error + unit) \<times> (webhook_db \<times> uuid list) \<times> time" where
  "RunOnce conf publish now lastGC st =
     (let timeout = seconds (TimeoutSeconds conf);
          timeout = (if timeout \<le> 0 then 10 * second else timeout);
          staleAfter = max (wrap64 (2 * timeout)) minute;
          sweepInterval = seconds (SweepSeconds conf);
          sweepInterval = (if sweepInterval \<le> 0 then 30 * second else sweepInterval);
          queueLease = max (wrap64 (2 * sweepInterval)) minute;
          retentionDays = (if RetentionDays conf \<le> 0 then 30 else RetentionDays conf)
      in case bind_op (RecoverStaleWebhookDeliveries (now - staleAfter) now)
           (\<lambda>_. bind_op (RecoverStagedSiteDeletionWebhookEvents now)
             (\<lambda>_. bind_op (DeleteAbandonedStagedSiteDeletionWebhookEvents (now - 24 * hour))
               (\<lambda>_. ListDispatchableWebhookDeliveryJobs now (now - queueLease) 500))) (fst st) of
           (Inl e, db) \<Rightarrow> (Inl e, (db, snd st), lastGC)
         | (Inr jobs, db) \<Rightarrow>
             let (db, sent) = PublishDeliveries publish now now (map j_DeliveryID jobs) (db, snd st) in
             if retentionDue lastGC now then
               (case DeleteWebhookHistoryBefore (now - retentionDays * 24 * hour) db of
                  (Inl e, db) \<Rightarrow> (Inl e, (db, sent), lastGC)
                | (Inr _, db) \<Rightarrow> (Inr (), (db, sent), now))
             else (Inr (), (db, sent), lastGC))"

subsection \<open>Retry delays are exponential and bounded\<close>

lemma retry_loop_min:
  "0 < d \<Longrightarrow> d \<le> m \<Longrightarrow> m < 2 ^ 63 \<Longrightarrow> retry_loop n d m = min m (d * 2 ^ n)"
proof (induction n arbitrary: d)
  case (Suc n)
  have div: "go_div m 2 = m div 2" using Suc.prems by (simp add: go_div_pos)
  have pow: "1 \<le> (2 :: int) ^ n" by simp
  show ?case
  proof (cases "d < m")
    case True
    show ?thesis
    proof (cases "d > m div 2")
      case over: True
      then have "m < d * 2" by linarith
      also have "d * 2 \<le> d * 2 * 2 ^ n" using Suc.prems pow by simp
      finally show ?thesis using True over div by (simp add: mult.assoc)
    next
      case False
      then have le: "d * 2 \<le> m" by linarith
      then have "wrap64 (d * 2) = d * 2" using Suc.prems by (intro wrap64_id) auto
      with True False div Suc.IH [of "d * 2"] Suc.prems le show ?thesis by (simp add: mult.assoc)
    qed
  next
    case False
    with Suc.prems have "d = m" by simp
    moreover have "1 \<le> 2 * (2 :: int) ^ n" using pow by linarith
    then have "m \<le> m * (2 * 2 ^ n)" using Suc.prems by (simp add: mult_le_cancel_left1)
    ultimately show ?thesis by simp
  qed
qed simp

lemma boundedRetryDelay_min:
  "0 < base \<Longrightarrow> base \<le> m \<Longrightarrow> m < 2 ^ 63
     \<Longrightarrow> boundedRetryDelay attempt base m = min m (base * 2 ^ nat (attempt - 1))"
  by (cases "attempt < 1") (auto simp: boundedRetryDelay_def retry_loop_min)

definition retry_base :: "webhook_config \<Rightarrow> duration" where
  "retry_base conf = (if seconds (RetryBaseSeconds conf) \<le> 0 then 30 * second else seconds (RetryBaseSeconds conf))"

definition retry_max :: "webhook_config \<Rightarrow> duration" where
  "retry_max conf = max (retry_base conf)
     (if seconds (RetryMaxSeconds conf) \<le> 0 then 6 * hour else seconds (RetryMaxSeconds conf))"

lemma retry_base_range: "0 < retry_base conf \<and> retry_base conf < 2 ^ 63"
  using wrap64_upper [of "RetryBaseSeconds conf * second"] by (auto simp: retry_base_def seconds_def)

lemma retry_max_range: "retry_base conf \<le> retry_max conf \<and> retry_max conf < 2 ^ 63"
  using wrap64_upper [of "RetryMaxSeconds conf * second"] retry_base_range [of conf]
  by (auto simp: retry_max_def seconds_def)

lemma retryDelay_min: "retryDelay conf attempt = min (retry_max conf) (retry_base conf * 2 ^ nat (attempt - 1))"
proof -
  have "retryDelay conf attempt = boundedRetryDelay attempt (retry_base conf) (retry_max conf)"
    by (simp add: retryDelay_def Let_def retry_base_def retry_max_def max_def)
  then show ?thesis
    using boundedRetryDelay_min retry_base_range [of conf] retry_max_range [of conf] by simp
qed

text \<open>
  C15.  Retry delays: for every configuration, also one whose seconds overflow, the delay before the
  next attempt is the base doubled once per attempt and capped by the maximum, computed without
  overflow; it is at least the base, at most the maximum and never shrinks.
\<close>

theorem retry_delay_exponential_capped:
  "retryDelay conf attempt = min (retry_max conf) (retry_base conf * 2 ^ nat (attempt - 1))
   \<and> 0 < retry_base conf \<and> retry_base conf \<le> retryDelay conf attempt
   \<and> retryDelay conf attempt \<le> retry_max conf \<and> retry_max conf < 2 ^ 63
   \<and> retryDelay conf attempt \<le> retryDelay conf (attempt + 1)"
proof -
  have b: "0 < retry_base conf" "retry_base conf \<le> retry_max conf" "retry_max conf < 2 ^ 63"
    using retry_base_range [of conf] retry_max_range [of conf] by auto
  have "retry_base conf \<le> retry_base conf * 2 ^ nat (attempt - 1)"
    using b(1) by (simp add: mult_le_cancel_left1)
  moreover have "retry_base conf * 2 ^ nat (attempt - 1) \<le> retry_base conf * 2 ^ nat attempt"
    using b(1) by (intro mult_left_mono power_increasing) auto
  moreover have "retryDelay conf (attempt + 1) = min (retry_max conf) (retry_base conf * 2 ^ nat attempt)"
    by (simp add: retryDelay_min)
  moreover have "retryDelay conf attempt = min (retry_max conf) (retry_base conf * 2 ^ nat (attempt - 1))"
    by (rule retryDelay_min)
  ultimately show ?thesis using b by (metis min.mono min.cobounded1 min.bounded_iff order_refl order_trans)
qed

end
