(* ===== verification/Webhook_Lifecycle.thy ===== *)
theory Webhook_Lifecycle
  imports Webhook_Dispatch
begin

text \<open>
  Runs of the webhook subsystem.  A state of a run is the database, the deliveries that workers have
  claimed and not yet recorded, and the identifiers issued so far; a step is one call of a store
  operation, of any process, with any script of failing statements.  A new identifier has not been
  issued before (\<open>uuid.New\<close>).  When \<open>leased\<close> holds, the sweeper's recovery does not take back a
  delivery that a worker still has: the HTTP client's timeout is shorter than the time after which
  \<open>RunOnce\<close> calls a claim stale.
\<close>

record world =
  store :: webhook_db
  flights :: "WebhookDeliveryRecord list"
  issued :: "uuid set"

definition terminal :: "string \<Rightarrow> bool" where
  "terminal st \<longleftrightarrow> st = WebhookDeliverySucceeded \<or> st = WebhookDeliveryFailed"

definition still_leased :: "time \<Rightarrow> WebhookDeliveryRecord list \<Rightarrow> bool" where
  "still_leased before fl \<longleftrightarrow> list_all (\<lambda>f. case d_last f of Some t \<Rightarrow> \<not> t < before | None \<Rightarrow> True) fl"

text \<open>The records a worker hands to \<open>RecordWebhookDeliveryAttempt\<close> at the end of an attempt.\<close>

definition success_result :: "time \<Rightarrow> time \<Rightarrow> int \<Rightarrow> WebhookAttemptResult" where
  "success_result started completed code = \<lparr>r_Status = WebhookDeliverySucceeded, r_ResponseStatus = code,
     r_ErrorCode = [], r_ErrorMessage = [], r_StartedAt = started, r_CompletedAt = completed, r_NextAttemptAt = None\<rparr>"

inductive wh_step :: "bool \<Rightarrow> webhook_config \<Rightarrow> 'd json_lib \<Rightarrow> world \<Rightarrow> world \<Rightarrow> bool"
  for leased conf J where
  create: "wh_step leased conf J w (w\<lparr>store := snd (createWebhook wid secret now audit site input (store w))\<rparr>)"
| update: "wh_step leased conf J w (w\<lparr>store := snd (updateWebhook now audit wid site input (store w))\<rparr>)"
| rotate: "wh_step leased conf J w (w\<lparr>store := snd (rotateWebhookSecret secret now audit wid site (store w))\<rparr>)"
| remove: "wh_step leased conf J w (w\<lparr>store := snd (deleteWebhook audit wid site (store w))\<rparr>)"
| enqueue: "\<forall>i k. nd i k \<notin> issued w \<Longrightarrow> wh_step leased conf J w
    (w\<lparr>store := snd (EnqueueWebhookEvents J ne nd now inputs (store w)), issued := issued w \<union> {x. \<exists>i k. x = nd i k}\<rparr>)"
| delete_site: "\<forall>k. nid k \<notin> issued w \<Longrightarrow> wh_step leased conf J w
    (w\<lparr>store := snd (DeleteSiteWithWebhookEvent J ne nid now site event (store w)), issued := issued w \<union> range nid\<rparr>)"
| recover_staged: "wh_step leased conf J w (w\<lparr>store := snd (RecoverStagedSiteDeletionWebhookEvents now (store w))\<rparr>)"
| abandon: "wh_step leased conf J w (w\<lparr>store := snd (DeleteAbandonedStagedSiteDeletionWebhookEvents before (store w))\<rparr>)"
| mark: "wh_step leased conf J w (w\<lparr>store := snd (MarkWebhookDeliveryQueued did now (store w))\<rparr>)"
| clear: "wh_step leased conf J w (w\<lparr>store := snd (ClearWebhookDeliveryQueued did now (store w))\<rparr>)"
| claim: "ClaimWebhookDelivery did now (store w) = (r, db') \<Longrightarrow> wh_step leased conf J w
    (w\<lparr>store := db', flights := (case r of Inr (Some d) \<Rightarrow> d # flights w | _ \<Rightarrow> flights w)\<rparr>)"
| succeed: "f \<in> set (flights w) \<Longrightarrow> wh_step leased conf J w
    (w\<lparr>store := snd (RecordWebhookDeliveryAttempt aid clock (d_id f) (success_result started clock code) (store w)),
       flights := remove1 f (flights w)\<rparr>)"
| fail: "f \<in> set (flights w) \<Longrightarrow> wh_step leased conf J w
    (w\<lparr>store := snd (finishAttempt conf clock aid f result (store w)), flights := remove1 f (flights w)\<rparr>)"
| crash: "f \<in> set (flights w) \<Longrightarrow> wh_step leased conf J w (w\<lparr>flights := remove1 f (flights w)\<rparr>)"
| recover: "leased \<longrightarrow> still_leased before (flights w) \<Longrightarrow> wh_step leased conf J w
    (w\<lparr>store := snd (RecoverStaleWebhookDeliveries before now (store w))\<rparr>)"
| retention: "wh_step leased conf J w (w\<lparr>store := snd (DeleteWebhookHistoryBefore cutoff (store w))\<rparr>)"
| script: "wh_step leased conf J w (w\<lparr>store := (store w)\<lparr>faults := fs\<rparr>\<rparr>)"

inductive_cases wh_stepE: "wh_step leased conf J w w'"

inductive wh_run :: "bool \<Rightarrow> webhook_config \<Rightarrow> 'd json_lib \<Rightarrow> world \<Rightarrow> world \<Rightarrow> bool"
  for leased conf J w where
  here: "wh_run leased conf J w w"
| there: "wh_run leased conf J w w' \<Longrightarrow> wh_step leased conf J w' w'' \<Longrightarrow> wh_run leased conf J w w''"

definition initial :: "world \<Rightarrow> bool" where
  "initial w \<longleftrightarrow> wf_db (store w) \<and> deliveries (store w) = [] \<and> outbox (store w) = [] \<and> flights w = []"

subsection \<open>Well-formed tables in every run\<close>

lemma result_ok_success: "result_ok (success_result started completed code)"
  by (simp add: result_ok_def success_result_def store_simps)

lemma keeps_finishAttempt: "keeps wf_db (finishAttempt conf clock aid f result)"
  by (auto simp: finishAttempt_def Let_def result_ok_def store_simps intro!: keeps_Record)

lemma step_wf: "wh_step leased conf J w w' \<Longrightarrow> wf_db (store w) \<Longrightarrow> wf_db (store w')"
proof (induction rule: wh_step.induct)
  case (claim did now w r db')
  then show ?case using keepsD [OF keeps_Claim, of "store w" did now] by simp
qed (simp_all add: wf_db_faults keepsD [OF keeps_createWebhook] keepsD [OF keeps_updateWebhook]
    keepsD [OF keeps_rotateWebhookSecret] keepsD [OF keeps_deleteWebhook] keepsD [OF keeps_EnqueueWebhookEvents]
    keepsD [OF keeps_DeleteSiteWithWebhookEvent] keepsD [OF keeps_RecoverStaged] keepsD [OF keeps_DeleteAbandoned]
    keepsD [OF keeps_Mark] keepsD [OF keeps_Clear] keepsD [OF keeps_Record [OF result_ok_success]]
    keepsD [OF keeps_finishAttempt] keepsD [OF keeps_RecoverStale] keepsD [OF keeps_DeleteHistory])

lemma run_wf: "wh_run leased conf J w w' \<Longrightarrow> wf_db (store w) \<Longrightarrow> wf_db (store w')"
  by (induction rule: wh_run.induct) (auto intro: step_wf)

subsection \<open>The lease invariant\<close>

text \<open>
  A pinned delivery is one that no operation but its own may change: one that is being attempted, or
  one that is finished.  The invariant of the database, for the pins: the budget of attempts, the
  identifiers in use, and the outbox apart from the deliveries.  The further arguments serve the
  statements inside an operation: the identifiers a delivery and a staged row may have, the event
  whose rows are being moved and the rows that are still in the outbox.
\<close>

definition pinned :: "WebhookDeliveryRecord \<Rightarrow> WebhookDeliveryRecord \<Rightarrow> bool" where
  "pinned p d \<longleftrightarrow> (d_id d = d_id p \<longrightarrow> d_status d = d_status p \<and> d_attempts d = d_attempts p
     \<and> d_last d = d_last p \<and> d_completed d = d_completed p \<and> d_response d = d_response p)"

definition budget :: "webhook_config \<Rightarrow> WebhookDeliveryRecord \<Rightarrow> bool" where
  "budget conf d \<longleftrightarrow> d_attempts d \<le> effective_max_attempts conf
     \<and> (terminal (d_status d) \<or> d_attempts d < effective_max_attempts conf)"

definition lease :: "webhook_config \<Rightarrow> WebhookDeliveryRecord list \<Rightarrow> uuid set \<Rightarrow> uuid set \<Rightarrow> uuid set
    \<Rightarrow> StagedDelivery set \<Rightarrow> webhook_db \<Rightarrow> bool" where
  "lease conf pins UD UO X S db \<longleftrightarrow> distinct (map s_delivery (outbox db)) \<and> S \<subseteq> set (outbox db)
     \<and> (\<forall>d \<in> set (deliveries db). budget conf d \<and> d_id d \<in> UD \<and> (\<forall>p \<in> set pins. pinned p d))
     \<and> (\<forall>r \<in> set (outbox db). s_delivery r \<in> UO \<and> (\<forall>p \<in> set pins. d_id p \<noteq> s_delivery r)
          \<and> (s_event r \<in> X \<or> (\<forall>d \<in> set (deliveries db). d_id d \<noteq> s_delivery r)))"

interpretation lsi: op_invariant "lease conf pins UD UO X S" for conf pins UD UO X S
  by unfold_locales (simp add: lease_def)

lemmas lease_rules = lsi.keeps_bind lsi.keeps_Transact lsi.keeps_exec lsi.keeps_modify lsi.keeps_ret
  lsi.keeps_abort lsi.keeps_query lsi.keeps_for_each

lemma lease_mono: "lease conf pins UD UO X S db \<Longrightarrow> set pins' \<subseteq> set pins \<Longrightarrow> UD \<subseteq> UD' \<Longrightarrow> UO \<subseteq> UO'
    \<Longrightarrow> X \<subseteq> X' \<Longrightarrow> S' \<subseteq> S \<Longrightarrow> lease conf pins' UD' UO' X' S' db"
  unfolding lease_def by (intro conjI ballI; blast)

lemma lease_other [simp]:
  "lease conf pins UD UO X S (db\<lparr>subscriptions := a\<rparr>) = lease conf pins UD UO X S db"
  "lease conf pins UD UO X S (db\<lparr>webhook_audit := b\<rparr>) = lease conf pins UD UO X S db"
  "lease conf pins UD UO X S (db\<lparr>live_sites := c\<rparr>) = lease conf pins UD UO X S db"
  "lease conf pins UD UO X S (db\<lparr>webhooks := d\<rparr>) = lease conf pins UD UO X S db"
  "lease conf pins UD UO X S (db\<lparr>events := e\<rparr>) = lease conf pins UD UO X S db"
  "lease conf pins UD UO X S (db\<lparr>attempts := f\<rparr>) = lease conf pins UD UO X S db"
  by (simp_all add: lease_def)

lemma lease_filter_deliveries: "lease conf pins UD UO X S db
    \<Longrightarrow> lease conf pins UD UO X S (db\<lparr>deliveries := filter P (deliveries db)\<rparr>)"
  by (auto simp: lease_def)

lemma lease_filter_outbox: "lease conf pins UD UO X {} db
    \<Longrightarrow> lease conf pins UD UO X {} (db\<lparr>outbox := filter P (outbox db)\<rparr>)"
  by (auto simp: lease_def distinct_map_filter)

lemma lease_update_deliveries:
  assumes "\<And>d. d_id (f d) = d_id d"
    and "\<And>d. c d \<Longrightarrow> budget conf d \<Longrightarrow> \<forall>p \<in> set pins. pinned p d
           \<Longrightarrow> budget conf (f d) \<and> (\<forall>p \<in> set pins. pinned p (f d))"
  shows "keeps (lease conf pins UD UO X S) (update_deliveries c f)"
  unfolding update_deliveries_def
  by (rule lsi.keeps_exec) (use assms in \<open>auto simp: lease_def update_where_def\<close>)

lemma lease_audit: "keeps (lease conf pins UD UO X S) (appendWebhookAuditTx audit wid name)"
  by (cases audit) (auto simp: appendWebhookAuditTx_def intro!: lease_rules)

lemma lease_subscriptions: "keeps (lease conf pins UD UO X S) (insertWebhookSubscriptions wid evs)"
  by (auto simp: insertWebhookSubscriptions_def intro!: lease_rules)

lemma lease_GetWebhook: "keeps (lease conf pins UD UO X S) (GetWebhook wid site)"
  by (auto simp: GetWebhook_def listWebhookSubscriptions_def split: option.splits intro!: lease_rules)

lemmas lease_calls = lease_audit lease_subscriptions lease_GetWebhook

lemma lease_createWebhook: "keeps (lease conf pins UD UO X S) (createWebhook wid secret now audit site input)"
  by (auto simp: createWebhook_def split: sum.splits intro!: lease_rules lease_calls)

lemma lease_updateWebhook: "keeps (lease conf pins UD UO X S) (updateWebhook now audit wid site input)"
  by (auto simp: updateWebhook_def Let_def split: sum.splits option.splits intro!: lease_rules lease_calls)

text \<open>Updates that leave the pinned columns alone.\<close>

lemma lease_columns:
  assumes "\<And>d. d_id (f d) = d_id d \<and> d_status (f d) = d_status d \<and> d_attempts (f d) = d_attempts d
      \<and> d_last (f d) = d_last d \<and> d_completed (f d) = d_completed d \<and> d_response (f d) = d_response d"
  shows "keeps (lease conf pins UD UO X S) (update_deliveries c f)"
  by (rule lease_update_deliveries) (use assms in \<open>auto simp: budget_def pinned_def\<close>)

lemma lease_rotate: "keeps (lease conf pins UD UO X S) (rotateWebhookSecret secret now audit wid site)"
  by (auto simp: rotateWebhookSecret_def Let_def split: option.splits
      intro!: lease_rules lease_calls lease_columns)

lemma lease_deleteWebhook: "keeps (lease conf pins UD UO X S) (deleteWebhook audit wid site)"
  by (auto simp: deleteWebhook_def split: option.splits intro!: lease_rules lease_calls)

lemma lease_Mark: "keeps (lease conf pins UD UO X S) (MarkWebhookDeliveryQueued did at)"
  by (auto simp: MarkWebhookDeliveryQueued_def intro!: lease_columns)

lemma lease_Clear: "keeps (lease conf pins UD UO X S) (ClearWebhookDeliveryQueued did at)"
  by (auto simp: ClearWebhookDeliveryQueued_def intro!: lease_columns)

lemma lease_GetDelivery: "keeps (lease conf pins UD UO X S) (GetWebhookDelivery did)"
  by (auto simp: GetWebhookDelivery_def intro!: lease_rules)

lemma lease_DeleteSite: "keeps (lease conf pins UD UO X S) (DeleteSite site)"
  by (auto simp: DeleteSite_def intro!: lease_rules lease_filter_deliveries)

lemma lease_DeleteHistory: "keeps (lease conf pins UD UO X S) (DeleteWebhookHistoryBefore cutoff)"
  by (auto simp: DeleteWebhookHistoryBefore_def Let_def intro!: lease_rules lease_filter_deliveries)

lemma lease_DeleteAbandoned: "keeps (lease conf pins UD UO X {}) (DeleteAbandonedStagedSiteDeletionWebhookEvents before)"
  by (auto simp: DeleteAbandonedStagedSiteDeletionWebhookEvents_def Let_def intro!: lease_rules lease_filter_outbox)

lemma lease_cancel: "keeps (lease conf pins UD UO X {}) (cancelStagedSiteDeletionWebhookEvent evid)"
  by (auto simp: cancelStagedSiteDeletionWebhookEvent_def intro!: lease_rules lease_filter_outbox)

text \<open>Inserting deliveries and staged rows under new identifiers.\<close>

lemma effective_max_pos: "0 < effective_max_attempts conf"
  by (simp add: effective_max_attempts_def)

lemma budget_new: "budget conf (new_delivery did evid wid site type name url secret payload now)"
  using effective_max_pos [of conf] by (simp add: budget_def new_delivery_def)

lemma lease_insert_delivery:
  assumes "budget conf d" and "d_id d \<in> UD" and "\<forall>p \<in> set pins. d_id p \<noteq> d_id d" and "d_id d \<notin> UO"
  shows "keeps (lease conf pins UD UO X S) (insert_delivery d)"
  unfolding insert_delivery_def
  by (rule lsi.keeps_exec) (use assms in \<open>auto simp: lease_def pinned_def\<close>)

lemma lease_insert_event: "keeps (lease conf pins UD UO X S) (insert_event e)"
  unfolding insert_event_def by (rule lsi.keeps_exec) simp

lemma lease_insert_attempt: "keeps (lease conf pins UD UO X S) (insert_attempt a)"
  unfolding insert_attempt_def by (rule lsi.keeps_exec) simp

lemma lease_insert_staged:
  assumes "s_delivery r \<in> UO" and "\<forall>p \<in> set pins. d_id p \<noteq> s_delivery r" and "s_delivery r \<notin> UD"
  shows "keeps (lease conf pins UD UO X {}) (insert_staged r)"
  unfolding insert_staged_def
  by (rule lsi.keeps_exec) (use assms in \<open>auto simp: lease_def\<close>)

text \<open>\<open>U\<close> are the identifiers issued before the operation, \<open>N\<close> the ones it may use.\<close>

definition unused :: "uuid set \<Rightarrow> uuid set \<Rightarrow> WebhookDeliveryRecord list \<Rightarrow> bool" where
  "unused N U pins \<longleftrightarrow> N \<inter> U = {} \<and> d_id ` set pins \<subseteq> U"

lemma unused_new:
  assumes "unused N U pins" and "\<And>k. nid k \<in> N"
  shows "\<forall>k. nid k \<notin> U \<and> nid k \<in> N \<and> (\<forall>p \<in> set pins. d_id p \<noteq> nid k)"
proof
  fix k
  have n: "nid k \<in> N" "nid k \<notin> U" using assms(1) assms(2) [of k] by (auto simp: unused_def)
  then have "d_id p \<noteq> nid k" if "p \<in> set pins" for p
    using that assms(1) by (auto simp: unused_def)
  with n show "nid k \<notin> U \<and> nid k \<in> N \<and> (\<forall>p \<in> set pins. d_id p \<noteq> nid k)" by blast
qed

lemma lease_enqueue_tx:
  assumes "unused N U pins" and "\<And>k. nid k \<in> N"
  shows "keeps (lease conf pins (U \<union> N) U {} {}) (insertWebhookEventTx J nid input site body subs now)"
  unfolding insertWebhookEventTx_def
  using unused_new [of N U pins nid, OF assms] by (auto simp: Let_def split: option.splits
      intro!: lease_rules lease_insert_event lease_insert_delivery budget_new)

lemma lease_subscribers: "keeps (lease conf pins UD UO X S) (enabledWebhookSubscribers site target type)"
  by (auto simp: enabledWebhookSubscribers_def intro!: lease_rules)

lemma lease_existing: "keeps (lease conf pins UD UO X S) (existingWebhookDeliveryJobs inputs)"
  by (auto simp: existingWebhookDeliveryJobs_def Let_def intro!: lease_rules)

lemma lease_prepare_slot: "keeps (lease conf pins UD UO X S) (prepare_slot J ne now existing iin)"
  by (auto simp: prepare_slot_def split: option.splits sum.splits intro!: lease_rules lease_subscribers)

lemma lease_EnqueueWebhookEvents:
  assumes "unused N U pins" and "\<And>i k. nd i k \<in> N"
  shows "keeps (lease conf pins (U \<union> N) U {} {}) (EnqueueWebhookEvents J ne nd now inputs)"
proof -
  have "keeps (lease conf pins (U \<union> N) U {} {}) (insert_slot J nd now sl)" for sl
    by (cases sl) (auto simp: insert_slot_def intro!: lease_rules lease_enqueue_tx assms)
  then show ?thesis
    by (auto simp: EnqueueWebhookEvents_def intro!: lease_rules lease_existing lease_prepare_slot)
qed

lemma lease_stage:
  assumes "unused N U pins" and "\<And>k. nid k \<in> N"
  shows "keeps (lease conf pins U (U \<union> N) {} {}) (stageSiteDeletionWebhookEvent J nid site input body subs now)"
  unfolding stageSiteDeletionWebhookEvent_def
  using unused_new [of N U pins nid, OF assms] by (auto split: option.splits intro!: lease_rules lease_insert_staged)

text \<open>Moving the staged rows of an event to the deliveries.\<close>

lemma lease_materialize_row:
  assumes "r \<in> S" and "s_event r = evid"
  shows "keeps (lease conf pins U U {evid} S) (materialize_row evid now r)"
proof -
  let ?d = "new_delivery (s_delivery r) evid (s_webhook r) None (s_type r) (s_name r) (s_url r) (s_secret r) (s_payload r) now"
  have "keeps (lease conf pins U U {evid} S) (insert_delivery ?d)"
    unfolding insert_delivery_def
  proof (rule lsi.keeps_exec)
    fix db assume l: "lease conf pins U U {evid} S db"
    have in_outbox: "r \<in> set (outbox db)" using l assms(1) by (auto simp: lease_def)
    moreover have "r' = r" if "r' \<in> set (outbox db)" "s_delivery r' = s_delivery r" for r'
      using l that in_outbox by (auto simp: lease_def distinct_map inj_on_def)
    moreover have "d_id p \<noteq> s_delivery r" if "p \<in> set pins" for p
      using l in_outbox that by (auto simp: lease_def)
    moreover have "s_delivery r \<in> U" using l in_outbox by (auto simp: lease_def)
    ultimately have "lease conf pins U U {evid} S (db\<lparr>deliveries := deliveries db @ [?d]\<rparr>)"
      using l assms(2) budget_new unfolding lease_def pinned_def by (simp, metis)
    with l show "lease conf pins U U {evid} S (snd (if d_id ?d \<in> set (map d_id (deliveries db))
        then (Inl Conflict, db) else (Inr () :: wh_error + unit, db\<lparr>deliveries := deliveries db @ [?d]\<rparr>)))"
      by simp
  qed
  then show ?thesis by (auto simp: materialize_row_def Let_def intro!: lease_rules)
qed

lemma lease_moved: "lease conf pins U U {evid} S db
    \<Longrightarrow> lease conf pins U U {} {} (db\<lparr>outbox := filter (\<lambda>r. s_event r \<noteq> evid) (outbox db)\<rparr>)"
  by (auto simp: lease_def distinct_map_filter)

lemma lease_materialize:
  assumes "lease conf pins U U {} (set staged) db" and "\<And>r. r \<in> set staged \<Longrightarrow> s_event r = evid"
  shows "lease conf pins U U {} {} (snd (materialize_staged evid now staged db))"
proof (cases staged)
  case Nil
  with assms show ?thesis by (simp add: materialize_staged_def ret_def)
next
  case (Cons first rest)
  let ?e = "\<lparr>e_id = evid, e_site = None, e_type = s_type first, e_version = s_version first,
      e_payload = s_event_payload first, e_occurred = s_occurred first, e_created = now\<rparr>"
  let ?move = "\<lambda>jobs. bind_op (modify (\<lambda>db. db\<lparr>outbox := filter (\<lambda>r. s_event r \<noteq> evid) (outbox db)\<rparr>)) (\<lambda>_. ret jobs)"
  let ?m = "bind_op (insert_event ?e) (\<lambda>_. bind_op (for_each (materialize_row evid now) staged) ?move)"
  show ?thesis
  proof (cases "materialize_staged evid now staged db")
    case (Pair res db')
    have tx: "Transact ?m db = (res, db')" using Pair Cons by (simp add: materialize_staged_def)
    show ?thesis
    proof (cases res)
      case (Inl e)
      with tx have "db' = db\<lparr>faults := faults db'\<rparr>" using Transact_atomic by blast
      with assms(1) have "lease conf pins U U {} (set staged) db'" by (metis lsi.I_faults)
      with Pair show ?thesis using lease_mono [where S' = "{}"] by force
    next
      case (Inr jobs)
      from Transact_Inr [OF tx [unfolded Inr]] obtain fs db2
        where m: "?m (db\<lparr>faults := fs\<rparr>) = (Inr jobs, db2)" and db': "db' = db2\<lparr>faults := faults db'\<rparr>" by blast
      have l0: "lease conf pins U U {evid} (set staged) (db\<lparr>faults := fs\<rparr>)"
        using assms(1) lease_mono [where X' = "{evid}"] by (force simp: lsi.I_faults)
      from bind_op_Inr [OF m] obtain x db3 where e: "insert_event ?e (db\<lparr>faults := fs\<rparr>) = (Inr x, db3)"
        and r: "bind_op (for_each (materialize_row evid now) staged) ?move db3 = (Inr jobs, db2)" by blast
      from bind_op_Inr [OF r] obtain y db4 where f: "for_each (materialize_row evid now) staged db3 = (Inr y, db4)"
        and mv: "?move y db4 = (Inr jobs, db2)" by blast
      have l3: "lease conf pins U U {evid} (set staged) db3"
        using keepsD [OF lease_insert_event l0, of ?e] e by simp
      have l4: "lease conf pins U U {evid} (set staged) db4"
        using keepsD [OF lsi.keeps_for_each l3, of staged "materialize_row evid now"] lease_materialize_row assms(2) f
        by simp
      have "modify (\<lambda>db. db\<lparr>outbox := filter (\<lambda>r. s_event r \<noteq> evid) (outbox db)\<rparr>) db4 = (Inr (), db2)"
        using bind_op_Inr [OF mv] by (auto simp: ret_def)
      from exec_Inr [OF this [unfolded modify_def]] obtain gs
        where "db2 = (db4\<lparr>faults := gs\<rparr>)\<lparr>outbox := filter (\<lambda>r. s_event r \<noteq> evid) (outbox (db4\<lparr>faults := gs\<rparr>))\<rparr>"
        by auto
      then have "lease conf pins U U {} {} db2"
        using lease_moved [of conf pins U evid "set staged" "db4\<lparr>faults := gs\<rparr>"] l4 by (simp only: lsi.I_faults)
      with db' have "lease conf pins U U {} {} db'" by (metis lsi.I_faults)
      with Pair show ?thesis by simp
    qed
  qed
qed

lemma lease_Commit: "keeps (lease conf pins U U {} {}) (CommitStagedSiteDeletionWebhookEvent evid now)"
  unfolding CommitStagedSiteDeletionWebhookEvent_def
proof (rule lsi.keeps_bind_post [where J = "\<lambda>staged db. lease conf pins U U {} (set staged) db
      \<and> (\<forall>r \<in> set staged. s_event r = evid)"])
  fix db assume "lease conf pins U U {} {} db"
  then show "case query (\<lambda>db. sort_key s_delivery (filter (\<lambda>r. s_event r = evid) (outbox db))) db of
      (Inl _, db') \<Rightarrow> lease conf pins U U {} {} db'
    | (Inr staged, db') \<Rightarrow> lease conf pins U U {} (set staged) db' \<and> (\<forall>r \<in> set staged. s_event r = evid)"
    by (auto simp: query_def exec_def lease_def split: list.splits)
qed (auto intro: lease_materialize)

lemma lease_RecoverStaged: "keeps (lease conf pins U U {} {}) (RecoverStagedSiteDeletionWebhookEvents now)"
  by (auto simp: RecoverStagedSiteDeletionWebhookEvents_def intro!: lease_rules lease_Commit)

lemma lease_DeleteSiteWithWebhookEvent:
  assumes n: "unused N U pins" "\<And>k. nid k \<in> N" and l: "lease conf pins U U {} {} db"
  shows "lease conf pins (U \<union> N) (U \<union> N) {} {} (snd (DeleteSiteWithWebhookEvent J ne nid now site event db))"
proof -
  have start: "lease conf pins U (U \<union> N) {} {} db'" if "lease conf pins U U {} {} db'" for db'
    using that by (rule lease_mono) auto
  have grow: "lease conf pins (U \<union> N) (U \<union> N) {} {} db'" if "lease conf pins U (U \<union> N) {} {} db'" for db'
    using that by (rule lease_mono) auto
  have l': "lease conf pins U (U \<union> N) {} {} db" by (rule start [OF l])
  show ?thesis
  proof (cases "prepareWebhookEventInput J ne now (event\<lparr>ei_SiteID := Some site, ei_Preserve := True\<rparr>)")
    case (Inr prep)
    obtain prepared body pst where p: "prep = (prepared, body, pst)" by (cases prep)
    obtain r1 db1 where s: "enabledWebhookSubscribers (Some site) (ei_Target prepared) (ei_Type prepared) db = (r1, db1)"
      by fastforce
    have l1: "lease conf pins U U {} {} db1" using keepsD [OF lease_subscribers l] s by (metis snd_conv)
    show ?thesis
    proof (cases "\<exists>w ws. r1 = Inr (w # ws)")
      case True
      then obtain subs where subs: "r1 = Inr subs" "subs \<noteq> []" by blast
      obtain r2 db2 where st: "stageSiteDeletionWebhookEvent J nid site prepared body subs now db1 = (r2, db2)"
        by fastforce
      have l2: "lease conf pins (U \<union> N) (U \<union> N) {} {} db2"
      proof (rule grow)
        have "lease conf pins U (U \<union> N) {} {} (snd (stageSiteDeletionWebhookEvent J nid site prepared body subs now db1))"
          by (rule keepsD [OF lease_stage [OF n] start [OF l1]])
        then show "lease conf pins U (U \<union> N) {} {} db2" by (simp add: st)
      qed
      obtain r3 db3 where ds: "DeleteSite site db2 = (r3, db3)" by fastforce
      have l3: "lease conf pins (U \<union> N) (U \<union> N) {} {} db3" using keepsD [OF lease_DeleteSite l2] ds by (metis snd_conv)
      have "lease conf pins (U \<union> N) (U \<union> N) {} {} (snd (cancelStagedSiteDeletionWebhookEvent (ei_ID prepared) db3))"
        by (rule keepsD [OF lease_cancel l3])
      moreover have "lease conf pins (U \<union> N) (U \<union> N) {} {} (snd (CommitStagedSiteDeletionWebhookEvent (ei_ID prepared) now db3))"
        by (rule keepsD [OF lease_Commit l3])
      moreover obtain w ws where "subs = w # ws" using subs(2) by (cases subs) auto
      moreover obtain r4 db4 where c: "CommitStagedSiteDeletionWebhookEvent (ei_ID prepared) now db3 = (r4, db4)"
        by fastforce
      ultimately show ?thesis
        using Inr p s st ds subs(1) l2
        by (cases r2; cases r3; cases r4) (simp_all add: DeleteSiteWithWebhookEvent_def)
    next
      case False
      have "lease conf pins U U {} {} (snd (bind_op (DeleteSite site) (\<lambda>_. ret []) db1))"
        by (rule keepsD [OF lsi.keeps_bind [OF lease_DeleteSite lsi.keeps_ret] l1])
      then have g: "lease conf pins (U \<union> N) (U \<union> N) {} {} (snd (bind_op (DeleteSite site) (\<lambda>_. ret []) db1))"
        "lease conf pins (U \<union> N) (U \<union> N) {} {} db1"
        using l1 start grow by blast+
      have "(\<exists>e. r1 = Inl e) \<or> r1 = Inr []"
      proof (cases r1)
        case (Inr subs)
        with False show ?thesis by (cases subs) auto
      qed simp
      then show ?thesis using Inr p s g by (auto simp: DeleteSiteWithWebhookEvent_def)
    qed
  qed (use l' grow in \<open>simp add: DeleteSiteWithWebhookEvent_def\<close>)
qed

text \<open>Claiming pins the claimed delivery.\<close>

definition not_waiting :: "WebhookDeliveryRecord list \<Rightarrow> bool" where
  "not_waiting pins \<longleftrightarrow> (\<forall>p \<in> set pins. \<not> waiting (d_status p))"

lemma lease_claim_update:
  assumes "not_waiting pins"
  shows "keeps (lease conf pins UD UO X S) (update_deliveries (claimable did now)
     (\<lambda>d. d\<lparr>d_status := WebhookDeliveryProcessing, d_last := Some now, d_queued := None, d_updated := now\<rparr>))"
proof (rule lease_update_deliveries)
  fix d assume c: "claimable did now d" and b: "budget conf d" and p: "\<forall>p \<in> set pins. pinned p d"
  have w: "waiting (d_status d)" using c by (simp add: claimable_def)
  then have "\<not> terminal (d_status d)" by (auto simp: waiting_def terminal_def store_simps)
  moreover have "\<forall>p \<in> set pins. d_id p \<noteq> d_id d" using p w assms by (auto simp: pinned_def not_waiting_def)
  ultimately show "budget conf (d\<lparr>d_status := WebhookDeliveryProcessing, d_last := Some now, d_queued := None, d_updated := now\<rparr>)
      \<and> (\<forall>p \<in> set pins. pinned p (d\<lparr>d_status := WebhookDeliveryProcessing, d_last := Some now,
            d_queued := None, d_updated := now\<rparr>))"
    using b by (auto simp: budget_def pinned_def)
qed simp

lemma Claim_cases:
  assumes "ClaimWebhookDelivery did now db = (r, db')"
  shows "(case r of Inr (Some d) \<Rightarrow> d \<in> set (deliveries db') \<and> d_id d = did \<and> d_status d = WebhookDeliveryProcessing
       \<and> (\<exists>d0 \<in> set (deliveries db). claimable did now d0)
     | _ \<Rightarrow> True)"
proof (cases r)
  case (Inr found)
  show ?thesis
  proof (cases found)
    case (Some d)
    let ?u = "update_deliveries (claimable did now)
     (\<lambda>d. d\<lparr>d_status := WebhookDeliveryProcessing, d_last := Some now, d_queued := None, d_updated := now\<rparr>)"
    obtain n db1 where u: "?u db = (Inr n, db1)" and g: "(if n = 0 then ret None
        else bind_op (GetWebhookDelivery did) (\<lambda>delivery. case delivery of
            None \<Rightarrow> ret None
          | Some d \<Rightarrow> ret (if d_status d \<noteq> WebhookDeliveryProcessing then None else Some d))) db1 = (Inr (Some d), db')"
      using bind_op_Inr [OF assms [unfolded ClaimWebhookDelivery_def Inr Some]] by blast
    have n: "n \<noteq> 0" using g by (auto simp: ret_def split: if_splits)
    then have "filter (claimable did now) (deliveries db) \<noteq> []"
      using u by (cases "faults db") (auto simp: update_deliveries_def exec_def count_where_def split: if_splits)
    then have c: "\<exists>d0 \<in> set (deliveries db). claimable did now d0" by (auto simp: filter_empty_conv)
    have "bind_op (GetWebhookDelivery did) (\<lambda>delivery. case delivery of
            None \<Rightarrow> ret None
          | Some d \<Rightarrow> ret (if d_status d \<noteq> WebhookDeliveryProcessing then None else Some d)) db1 = (Inr (Some d), db')"
      using g n by simp
    from bind_op_Inr [OF this] obtain f db2 where q: "GetWebhookDelivery did db1 = (Inr f, db2)" and
      k: "(case f of None \<Rightarrow> ret None
          | Some d \<Rightarrow> ret (if d_status d \<noteq> WebhookDeliveryProcessing then None else Some d)) db2 = (Inr (Some d) :: wh_error + _, db')"
      by blast
    have f: "f = Some d" "d_status d = WebhookDeliveryProcessing" "db' = db2"
      using k by (auto simp: ret_def split: option.splits if_splits)
    have "f = find (\<lambda>d. d_id d = did) (deliveries db1)" "deliveries db2 = deliveries db1"
      using q by (cases "faults db1", auto simp: GetWebhookDelivery_def query_def exec_def split: if_splits)+
    with f c Inr Some show ?thesis by (auto dest!: find_SomeD)
  qed (simp add: Inr)
qed simp

lemma lease_Claim: "not_waiting pins \<Longrightarrow> keeps (lease conf pins UD UO X S) (ClaimWebhookDelivery did now)"
  unfolding ClaimWebhookDelivery_def
  by (auto split: option.splits intro!: lease_rules lease_claim_update lease_GetDelivery)

text \<open>A pin may be added for a row of the table, when the row is the only one with its identifier.\<close>

lemma lease_pin:
  assumes "lease conf pins UD UO {} S db" and "d \<in> set (deliveries db)" and "distinct (map d_id (deliveries db))"
  shows "lease conf (d # pins) UD UO {} S db"
proof -
  have "pinned d d'" if "d' \<in> set (deliveries db)" for d'
    using assms(2,3) that by (auto simp: pinned_def distinct_map inj_on_def)
  with assms(1,2) show ?thesis by (fastforce simp: lease_def)
qed

lemma lease_pins_cong: "set pins = set pins' \<Longrightarrow> lease conf pins = lease conf pins'"
  by (intro ext) (simp add: lease_def)

subsection \<open>Recording\<close>

definition recorded_ok :: "webhook_config \<Rightarrow> WebhookAttemptResult \<Rightarrow> int \<Rightarrow> bool" where
  "recorded_ok conf r n \<longleftrightarrow> n \<le> effective_max_attempts conf
     \<and> (terminal (r_Status r) \<or> n < effective_max_attempts conf)"

lemma lease_recordAttemptTx:
  assumes "recorded_ok conf result (d_attempts d + 1)" and "\<forall>p \<in> set pins. d_id p \<noteq> did"
  shows "keeps (lease conf pins UD UO X S) (recordAttemptTx aid clock did result d)"
  unfolding recordAttemptTx_def Let_def
  by (intro lease_rules lease_insert_attempt lease_update_deliveries)
    (use assms in \<open>auto simp: budget_def recorded_ok_def pinned_def\<close>)

lemma GetDelivery_cases:
  assumes "GetWebhookDelivery did db = (r, db')"
  shows "(r = Inl Fault \<or> r = Inr (find (\<lambda>d. d_id d = did) (deliveries db))) \<and> tables db' = tables db"
  using assms by (cases "faults db") (auto simp: GetWebhookDelivery_def query_def exec_def split: if_splits)

lemma lease_tables: "tables db' = tables db \<Longrightarrow> lease conf pins UD UO X S db' = lease conf pins UD UO X S db"
  using tables_fields(2,3) [of db' db] by (simp add: lease_def)

text \<open>
  Recording the outcome of a claimed delivery: the pins besides it are those of other deliveries, or
  of one whose row is gone.
\<close>

lemma lease_Record:
  assumes l: "lease conf pins U U {} {} db"
    and own: "\<And>d. d \<in> set (deliveries db) \<Longrightarrow> d_id d = did
        \<Longrightarrow> (\<forall>p \<in> set pins. d_id p \<noteq> did) \<and> recorded_ok conf result (d_attempts d + 1)"
  shows "lease conf pins U U {} {} (snd (RecordWebhookDeliveryAttempt aid clock did result db))"
proof -
  obtain r db1 where g: "GetWebhookDelivery did db = (r, db1)" by fastforce
  note c = GetDelivery_cases [OF g]
  have l1: "lease conf pins U U {} {} db1" using l c lease_tables by blast
  show ?thesis
  proof (cases "find (\<lambda>d. d_id d = did) (deliveries db)")
    case None
    with c g l1 show ?thesis by (auto simp: RecordWebhookDeliveryAttempt_def bind_op_def abort_def)
  next
    case (Some d)
    then have d: "d \<in> set (deliveries db)" "d_id d = did" by (auto dest!: find_SomeD)
    have "lease conf pins U U {} {} (snd (recordAttemptTx aid clock did result d db1))"
      using own [OF d] by (intro keepsD [OF lease_recordAttemptTx l1]) auto
    with Some c g l1 show ?thesis by (auto simp: RecordWebhookDeliveryAttempt_def bind_op_def abort_def)
  qed
qed

subsection \<open>The invariant of a run\<close>

definition run_inv :: "webhook_config \<Rightarrow> WebhookDeliveryRecord list \<Rightarrow> world \<Rightarrow> bool" where
  "run_inv conf done w \<longleftrightarrow> wf_db (store w) \<and> distinct (map d_id (flights w))
     \<and> (\<forall>f \<in> set (flights w). d_status f = WebhookDeliveryProcessing)
     \<and> (\<forall>p \<in> set done. terminal (d_status p))
     \<and> d_id ` (set (flights w) \<union> set done) \<subseteq> issued w
     \<and> lease conf (flights w @ done) (issued w) (issued w) {} {} (store w)"

lemma run_inv_not_waiting: "run_inv conf done w \<Longrightarrow> not_waiting (flights w @ done)"
  by (auto simp: run_inv_def not_waiting_def terminal_def waiting_def store_simps)

lemma run_inv_store:
  assumes "run_inv conf done w" and "wf_db db'" and "issued w \<subseteq> U'"
    and "lease conf (flights w @ done) U' U' {} {} db'"
  shows "run_inv conf done (w\<lparr>store := db', issued := U'\<rparr>)"
  using assms by (auto simp: run_inv_def)

lemma run_inv_store_same:
  assumes "run_inv conf done w" and "wf_db db'" and "lease conf (flights w @ done) (issued w) (issued w) {} {} db'"
  shows "run_inv conf done (w\<lparr>store := db'\<rparr>)"
  using run_inv_store [OF assms(1,2) order_refl assms(3)] by simp

lemma remove1_distinct: "distinct (map f xs) \<Longrightarrow> x \<in> set xs \<Longrightarrow> y \<in> set (remove1 x xs) \<Longrightarrow> f y \<noteq> f x"
  by (induction xs) (auto dest: notin_set_remove1 simp: image_iff split: if_splits)

lemma run_inv_drop:
  assumes "run_inv conf done w"
  shows "run_inv conf done (w\<lparr>flights := remove1 f (flights w)\<rparr>)"
proof -
  have sub: "set (remove1 f (flights w)) \<subseteq> set (flights w)" by (rule set_remove1_subset)
  have w: "wf_db (store w)" "distinct (map d_id (flights w))"
    "\<forall>f \<in> set (flights w). d_status f = WebhookDeliveryProcessing" "\<forall>p \<in> set done. terminal (d_status p)"
    "d_id ` (set (flights w) \<union> set done) \<subseteq> issued w"
    "lease conf (flights w @ done) (issued w) (issued w) {} {} (store w)"
    using assms by (simp_all add: run_inv_def)
  have "distinct (map d_id (remove1 f (flights w)))"
    using w(2) sub unfolding distinct_map by (meson distinct_remove1 inj_on_subset)
  moreover have "lease conf (remove1 f (flights w) @ done) (issued w) (issued w) {} {} (store w)"
    by (rule lease_mono [OF w(6)]) (use sub in auto)
  ultimately show ?thesis
    unfolding run_inv_def using w sub by (simp add: subset_iff image_iff) blast
qed

text \<open>Recording an outcome of a flight that holds its lease.\<close>

lemma finishAttempt_record:
  "\<exists>res. finishAttempt conf clock aid f result = RecordWebhookDeliveryAttempt aid clock (d_id f) res
     \<and> (recorded_ok conf res (d_attempts f + 1) \<or> effective_max_attempts conf \<le> d_attempts f)"
proof (cases "d_attempts f + 1 \<ge> effective_max_attempts conf")
  case True
  then show ?thesis
    by (intro exI [of _ "result\<lparr>r_CompletedAt := clock, r_Status := WebhookDeliveryFailed, r_NextAttemptAt := None\<rparr>"])
      (auto simp: finishAttempt_def Let_def recorded_ok_def terminal_def)
next
  case False
  then show ?thesis
    by (intro exI [of _ "result\<lparr>r_CompletedAt := clock, r_Status := WebhookDeliveryRetrying,
          r_NextAttemptAt := Some (clock + retryDelay conf (d_attempts f + 1))\<rparr>"])
      (auto simp: finishAttempt_def Let_def recorded_ok_def)
qed

lemma run_inv_record:
  assumes inv: "run_inv conf done w" and f: "f \<in> set (flights w)"
    and ok: "recorded_ok conf result (d_attempts f + 1) \<or> effective_max_attempts conf \<le> d_attempts f"
    and wf: "wf_db (snd (RecordWebhookDeliveryAttempt aid clock (d_id f) result (store w)))"
  shows "run_inv conf done (w\<lparr>store := snd (RecordWebhookDeliveryAttempt aid clock (d_id f) result (store w)),
           flights := remove1 f (flights w)\<rparr>)"
proof -
  let ?w = "w\<lparr>flights := remove1 f (flights w)\<rparr>"
  have drop: "run_inv conf done ?w" by (rule run_inv_drop [OF inv])
  have pf: "d_status f = WebhookDeliveryProcessing" using inv f by (auto simp: run_inv_def)
  have "lease conf (flights ?w @ done) (issued ?w) (issued ?w) {} {}
      (snd (RecordWebhookDeliveryAttempt aid clock (d_id f) result (store ?w)))"
  proof (rule lease_Record)
    show "lease conf (flights ?w @ done) (issued ?w) (issued ?w) {} {} (store ?w)"
      using drop by (simp add: run_inv_def)
    fix d assume d: "d \<in> set (deliveries (store ?w))" "d_id d = d_id f"
    have pin: "pinned p d" if "p \<in> set (flights w @ done)" for p
      using inv d(1) that by (auto simp: run_inv_def lease_def)
    then have same: "d_status d = WebhookDeliveryProcessing" "d_attempts d = d_attempts f"
      using pin [of f] f d(2) pf by (simp_all add: pinned_def)
    then have "d_attempts f < effective_max_attempts conf"
      using inv d(1) by (auto simp: run_inv_def lease_def budget_def terminal_def store_simps)
    with ok same have rec: "recorded_ok conf result (d_attempts d + 1)" by auto
    have "d_id p \<noteq> d_id f" if "p \<in> set (remove1 f (flights w))" for p
      using inv f that remove1_distinct [of d_id "flights w" f p] by (simp add: run_inv_def)
    moreover have "d_id p \<noteq> d_id f" if "p \<in> set done" for p
      using that pin [of p] inv d(2) same by (auto simp: run_inv_def pinned_def terminal_def store_simps)
    ultimately show "(\<forall>p \<in> set (flights ?w @ done). d_id p \<noteq> d_id f) \<and> recorded_ok conf result (d_attempts d + 1)"
      using rec by auto
  qed
  from run_inv_store_same [OF drop _ this] wf
  have "run_inv conf done (w\<lparr>flights := remove1 f (flights w),
      store := snd (RecordWebhookDeliveryAttempt aid clock (d_id f) result (store w))\<rparr>)" by simp
  moreover have swap: "w\<lparr>store := x, flights := y\<rparr> = w\<lparr>flights := y, store := x\<rparr>" for x y by (cases w) simp
  ultimately show ?thesis by (simp only: swap)
qed

lemma run_inv_claim:
  assumes inv: "run_inv conf done w" and c: "ClaimWebhookDelivery did now (store w) = (r, db')" and wf: "wf_db db'"
  shows "run_inv conf done (w\<lparr>store := db', flights := (case r of Inr (Some d) \<Rightarrow> d # flights w | _ \<Rightarrow> flights w)\<rparr>)"
proof -
  have nw: "not_waiting (flights w @ done)" by (rule run_inv_not_waiting [OF inv])
  have l: "lease conf (flights w @ done) (issued w) (issued w) {} {} db'"
    using keepsD [OF lease_Claim [OF nw], of conf "issued w" "issued w" "{}" "{}" "store w" did now] inv c
    by (simp add: run_inv_def)
  have same: "run_inv conf done (w\<lparr>store := db'\<rparr>)" by (rule run_inv_store_same [OF inv wf l])
  show ?thesis
  proof (cases "\<exists>d. r = Inr (Some d)")
    case True
    then obtain d where r: "r = Inr (Some d)" by blast
    from Claim_cases [OF c] r obtain d0 where
      d: "d \<in> set (deliveries db')" "d_id d = did" "d_status d = WebhookDeliveryProcessing" and
      d0: "d0 \<in> set (deliveries (store w))" "claimable did now d0" by auto
    have "did \<noteq> d_id f" if "f \<in> set (flights w)" for f
    proof
      assume "did = d_id f"
      moreover have "pinned f d0" using inv d0(1) that by (auto simp: run_inv_def lease_def)
      ultimately have "waiting (d_status f)" using d0(2) by (auto simp: pinned_def claimable_def)
      with nw that show False by (auto simp: not_waiting_def)
    qed
    moreover have "d_id d \<in> issued w" using l d(1) by (auto simp: lease_def)
    moreover have "lease conf (d # flights w @ done) (issued w) (issued w) {} {} db'"
      using wf by (intro lease_pin [OF l d(1)]) (simp add: wf_db_def)
    ultimately show ?thesis using inv wf d r by (auto simp: run_inv_def)
  next
    case False
    then have "(case r of Inr (Some d) \<Rightarrow> d # flights w | _ \<Rightarrow> flights w) = flights w"
      by (auto split: sum.splits option.splits)
    with same show ?thesis by simp
  qed
qed

lemma lease_RecoverStale:
  assumes "still_leased before fl" and "\<forall>p \<in> set done. terminal (d_status p)"
  shows "keeps (lease conf (fl @ done) UD UO X S) (RecoverStaleWebhookDeliveries before now)"
  unfolding RecoverStaleWebhookDeliveries_def
proof (rule lease_update_deliveries)
  fix d assume s: "stale before d" and b: "budget conf d" and p: "\<forall>p \<in> set (fl @ done). pinned p d"
  have "d_id p \<noteq> d_id d" if "p \<in> set (fl @ done)" for p
  proof
    assume "d_id p = d_id d"
    then have "d_status p = WebhookDeliveryProcessing" "d_last p = d_last d"
      using p that s by (auto simp: pinned_def stale_def)
    then show False
      using assms s that
      by (auto simp: stale_def still_leased_def list_all_iff terminal_def store_simps split: option.splits)
  qed
  then have "\<forall>p \<in> set (fl @ done). d_id d \<noteq> d_id p" by metis
  then show "budget conf (d\<lparr>d_status := WebhookDeliveryRetrying, d_next := Some now, d_error := ''worker_interrupted'',
        d_message := ''delivery worker stopped before recording an outcome'', d_queued := None, d_updated := now\<rparr>)
     \<and> (\<forall>p \<in> set (fl @ done). pinned p (d\<lparr>d_status := WebhookDeliveryRetrying, d_next := Some now,
        d_error := ''worker_interrupted'',
        d_message := ''delivery worker stopped before recording an outcome'', d_queued := None, d_updated := now\<rparr>))"
    using b s by (auto simp: pinned_def budget_def stale_def terminal_def store_simps)
qed simp

lemma step_inv:
  assumes "wh_step True conf J w w'" and inv: "run_inv conf done w"
  shows "run_inv conf done w'"
proof -
  have wf: "wf_db (store w')" using step_wf [OF assms(1)] inv by (simp add: run_inv_def)
  have l: "lease conf (flights w @ done) (issued w) (issued w) {} {} (store w)" using inv by (simp add: run_inv_def)
  have fresh: "unused N (issued w) (flights w @ done)" if "N \<inter> issued w = {}" for N
    using inv that by (auto simp: run_inv_def unused_def)
  note keep = run_inv_store_same [OF inv]
  from assms(1) wf show ?thesis
  proof cases
    case (enqueue nd ne now inputs)
    let ?N = "{x. \<exists>i k. x = nd i k}"
    have n: "unused ?N (issued w) (flights w @ done)" using enqueue(2) by (intro fresh) auto
    have "lease conf (flights w @ done) (issued w \<union> ?N) (issued w) {} {} (store w)"
      by (rule lease_mono [OF l]) auto
    from keepsD [OF lease_EnqueueWebhookEvents [OF n] this]
    have "lease conf (flights w @ done) (issued w \<union> ?N) (issued w) {} {}
        (snd (EnqueueWebhookEvents J ne nd now inputs (store w)))" by blast
    then have "lease conf (flights w @ done) (issued w \<union> ?N) (issued w \<union> ?N) {} {}
        (snd (EnqueueWebhookEvents J ne nd now inputs (store w)))" by (rule lease_mono) auto
    with wf enqueue(1) show ?thesis by (auto intro: run_inv_store [OF inv])
  next
    case (delete_site nid ne now site event)
    have n: "unused (range nid) (issued w) (flights w @ done)" using delete_site(2) by (intro fresh) auto
    have "lease conf (flights w @ done) (issued w \<union> range nid) (issued w \<union> range nid) {} {}
        (snd (DeleteSiteWithWebhookEvent J ne nid now site event (store w)))"
      by (rule lease_DeleteSiteWithWebhookEvent [OF n _ l]) simp
    with wf delete_site(1) show ?thesis by (auto intro: run_inv_store [OF inv])
  next
    case (claim did now r db')
    with wf show ?thesis by (auto intro: run_inv_claim [OF inv])
  next
    case (succeed f aid clock started code)
    have "recorded_ok conf (success_result started clock code) (d_attempts f + 1) \<or> effective_max_attempts conf \<le> d_attempts f"
      by (auto simp: recorded_ok_def success_result_def terminal_def)
    from run_inv_record [OF inv succeed(2) this] wf succeed(1) show ?thesis by simp
  next
    case (fail f clock aid result)
    obtain res where res: "finishAttempt conf clock aid f result = RecordWebhookDeliveryAttempt aid clock (d_id f) res"
      "recorded_ok conf res (d_attempts f + 1) \<or> effective_max_attempts conf \<le> d_attempts f"
      using finishAttempt_record by blast
    from run_inv_record [OF inv fail(2) res(2)] wf fail(1) res(1) show ?thesis by simp
  next
    case (crash f)
    with run_inv_drop [OF inv] show ?thesis by simp
  next
    case (recover before now)
    have "still_leased before (flights w)" using recover(2) by simp
    moreover have "\<forall>p \<in> set done. terminal (d_status p)" using inv by (simp add: run_inv_def)
    ultimately show ?thesis
      using recover(1) wf keepsD [OF lease_RecoverStale l] by (auto intro: keep)
  next
    case (script fs)
    with wf l show ?thesis by (auto intro: keep simp: lsi.I_faults)
  qed (use l in \<open>auto intro!: keep
      intro: keepsD [OF lease_createWebhook] keepsD [OF lease_updateWebhook] keepsD [OF lease_rotate]
        keepsD [OF lease_deleteWebhook] keepsD [OF lease_RecoverStaged] keepsD [OF lease_DeleteAbandoned]
        keepsD [OF lease_Mark] keepsD [OF lease_Clear] keepsD [OF lease_DeleteHistory]\<close>)
qed

lemma run_preserves_inv: "wh_run True conf J w w' \<Longrightarrow> run_inv conf done w \<Longrightarrow> run_inv conf done w'"
  by (induction rule: wh_run.induct) (auto intro: step_inv)

lemma initial_inv: "initial w \<Longrightarrow> run_inv conf [] w"
  by (simp add: initial_def run_inv_def lease_def)

end
