(* ===== verification/Webhook_Runs.thy ===== *)
theory Webhook_Runs
  imports Webhook_Lifecycle
begin

text \<open>
  What holds in every run of the webhook subsystem: the tables are well-formed; with leases respected
  a delivery is attempted by one worker at a time, its recorded attempts stay within its budget and a
  finished one stays finished; without them a late
  result reopens a finished delivery.  A receiver that keeps failing ends in the status
  \<open>failed\<close>, and the sweeper publishes every delivery that is due.
\<close>

subsection \<open>Properties of runs\<close>

text \<open>
  C16.  Whatever the store operations, the workers and the sweeper do, in any order and with any
  statements failing, the tables stay well-formed: keys are unique, every delivery has its event, its
  status is one of the five and its time columns are those of that status.
\<close>

theorem webhook_tables_invariant:
  assumes "initial w" and "wh_run leased conf J w w'" and "d \<in> set (deliveries (store w'))"
  shows "wf_db (store w') \<and> delivery_ok d \<and> has_event (d_event d) (d_site d) (store w')"
proof -
  have "wf_db (store w')" using run_wf [OF assms(2)] assms(1) by (simp add: initial_def)
  with assms(3) show ?thesis by (auto simp: wf_db_def list_all_iff)
qed

text \<open>
  C17.  When recovery respects the leases of running attempts, no two workers attempt a delivery at
  the same time, the row of a delivery under attempt stays as its worker claimed it, and the attempts
  recorded for a delivery never exceed the configured number, which only a finished delivery reaches.
  The counter is written with the result: an attempt that is cut off before its result is recorded is
  not counted, and the delivery is attempted again after recovery, however often that happens.
\<close>

theorem single_flight:
  assumes "initial w" and "wh_run True conf J w w'" and "d \<in> set (deliveries (store w'))"
  shows "distinct (map d_id (flights w'))
     \<and> (\<forall>f \<in> set (flights w'). d_id f = d_id d \<longrightarrow> d_status d = WebhookDeliveryProcessing
          \<and> d_attempts d = d_attempts f \<and> d_last d = d_last f)
     \<and> (if terminal (d_status d) then d_attempts d \<le> effective_max_attempts conf
        else d_attempts d < effective_max_attempts conf)"
proof -
  have inv: "run_inv conf [] w'" using run_preserves_inv [OF assms(2) initial_inv [OF assms(1)]] .
  then have "pinned f d \<and> d_status f = WebhookDeliveryProcessing" if "f \<in> set (flights w')" for f
    using assms(3) that by (auto simp: run_inv_def lease_def)
  moreover have "budget conf d" using inv assms(3) by (auto simp: run_inv_def lease_def)
  moreover have "distinct (map d_id (flights w'))" using inv by (simp add: run_inv_def)
  ultimately show ?thesis by (auto simp: pinned_def budget_def)
qed

text \<open>
   When recovery respects the leases, a finished delivery stays finished: in every later state
  its row, while it is kept, has the same status, number of attempts, completion time and response.
\<close>

theorem finished_is_final:
  assumes "initial w0" and "wh_run True conf J w0 w" and "d \<in> set (deliveries (store w))" and "terminal (d_status d)"
    and "wh_run True conf J w w'" and "d' \<in> set (deliveries (store w'))" and "d_id d' = d_id d"
  shows "d_status d' = d_status d \<and> d_attempts d' = d_attempts d \<and> d_completed d' = d_completed d
     \<and> d_response d' = d_response d"
proof -
  have inv: "run_inv conf [] w" using run_preserves_inv [OF assms(2) initial_inv [OF assms(1)]] .
  have "lease conf (d # flights w) (issued w) (issued w) {} {} (store w)"
    using inv assms(3) by (intro lease_pin) (auto simp: run_inv_def wf_db_def)
  then have "lease conf (flights w @ [d]) (issued w) (issued w) {} {} (store w)"
    by (rule lease_mono) auto
  moreover have "d_id d \<in> issued w" using inv assms(3) by (auto simp: run_inv_def lease_def)
  ultimately have "run_inv conf [d] w" using inv assms(4) by (simp add: run_inv_def)
  from run_preserves_inv [OF assms(5) this] assms(6,7) show ?thesis
    by (auto simp: run_inv_def lease_def pinned_def)
qed


subsection \<open>A run, step by step\<close>

definition sample_config :: webhook_config where
  "sample_config = \<lparr>AllowDevelopmentTargets = False, TimeoutSeconds = 10, PerEndpointConcurrency = 2,
     MaxAttempts = 6, RetryBaseSeconds = 30, RetryMaxSeconds = 3600, RetentionDays = 30, SweepSeconds = 30,
     Version = ''v2.1.3''\<rparr>"

definition sample_ids :: "nat \<Rightarrow> nat \<Rightarrow> uuid" where
  "sample_ids i k = 20 + of_nat k"

definition sample_world :: "webhook_db \<Rightarrow> WebhookDeliveryRecord list \<Rightarrow> world" where
  "sample_world db fl = \<lparr>store = db, flights = fl, issued = {x. \<exists>i k. x = sample_ids i k}\<rparr>"

definition sample_start :: world where
  "sample_start = \<lparr>store = sample_tables, flights = [], issued = {}\<rparr>"

definition sample_row :: "WebhookDeliveryRecord \<Rightarrow> webhook_db" where
  "sample_row d = (sample_stored 5)\<lparr>deliveries := [d]\<rparr>"

definition claimed :: "time \<Rightarrow> WebhookDeliveryRecord \<Rightarrow> WebhookDeliveryRecord" where
  "claimed now d = d\<lparr>d_status := WebhookDeliveryProcessing, d_last := Some now, d_queued := None, d_updated := now\<rparr>"

lemma sample_initial: "initial sample_start"
  by (simp add: initial_def sample_start_def sample_wf) (simp add: sample_tables_def)

lemma sample_step_enqueue: "wh_step leased conf sample_json sample_start (sample_world (sample_stored 5) [])"
proof -
  have "\<forall>i k. sample_ids i k \<notin> issued sample_start" by (simp add: sample_start_def)
  from wh_step.enqueue [OF this, of leased conf sample_json "\<lambda>_. 8" 5 "[sample_event]"]
  show ?thesis by (simp add: sample_start_def sample_enqueue sample_world_def sample_ids_def [abs_def])
qed

lemma sample_claim_row:
  assumes "claimable 20 now d" and "deliveries db = [d]" and "faults db = []"
  shows "ClaimWebhookDelivery 20 now db = (Inr (Some (claimed now d)), db\<lparr>deliveries := [claimed now d]\<rparr>)"
  using assms
  by (simp add: ClaimWebhookDelivery_def run_defs update_deliveries_def update_where_def count_where_def
      GetWebhookDelivery_def claimed_def claimable_def)

lemma sample_stored_row: "sample_stored 5 = sample_row (sample_delivery 5)"
  by (simp add: sample_row_def sample_stored_def)

lemma sample_row_simps: "deliveries (sample_row d) = [d]" "faults (sample_row d) = []"
  "attempts (sample_row d) = []" "(sample_row d)\<lparr>deliveries := [d']\<rparr> = sample_row d'"
  by (simp_all add: sample_row_def sample_stored_def sample_tables_def)

lemma sample_step_claim:
  "wh_step leased conf sample_json (sample_world (sample_row (sample_delivery 5)) [])
     (sample_world (sample_row (claimed 6 (sample_delivery 5))) [claimed 6 (sample_delivery 5)])"
proof -
  have "claimable 20 6 (sample_delivery 5)"
    by (simp add: claimable_def sample_delivery_def new_delivery_def waiting_def)
  from sample_claim_row [OF this, of "sample_row (sample_delivery 5)"]
  have "ClaimWebhookDelivery 20 6 (store (sample_world (sample_row (sample_delivery 5)) []))
      = (Inr (Some (claimed 6 (sample_delivery 5))), sample_row (claimed 6 (sample_delivery 5)))"
    by (simp add: sample_row_simps sample_world_def)
  from wh_step.claim [OF this, of leased conf sample_json] show ?thesis by (simp add: sample_world_def)
qed

lemma sample_run_claimed: "wh_run leased conf sample_json sample_start
    (sample_world (sample_row (claimed 6 (sample_delivery 5))) [claimed 6 (sample_delivery 5)])"
  using sample_step_claim wh_run.there [OF wh_run.there [OF wh_run.here sample_step_enqueue]]
  by (simp add: sample_stored_row)

theorem webhook_tables_invariant_witness:
  "wf_db (sample_row (claimed 6 (sample_delivery 5)))"
  using webhook_tables_invariant [OF sample_initial sample_run_claimed, of "claimed 6 (sample_delivery 5)"]
  by (simp add: sample_world_def sample_row_simps)

theorem single_flight_witness:
  "(\<exists>f \<in> set [claimed 6 (sample_delivery 5)]. d_id f = 20)
     \<and> d_attempts (claimed 6 (sample_delivery 5)) < effective_max_attempts sample_config"
  using single_flight [OF sample_initial sample_run_claimed, of "claimed 6 (sample_delivery 5)" sample_config]
  by (simp add: sample_world_def sample_row_simps terminal_def claimed_def sample_delivery_def new_delivery_def store_simps)

subsection \<open>Recording without failing statements\<close>

definition completion :: "time \<Rightarrow> WebhookAttemptResult \<Rightarrow> time" where
  "completion clock r = (if IsZero (r_CompletedAt r) then clock else r_CompletedAt r)"

definition recorded :: "time \<Rightarrow> WebhookAttemptResult \<Rightarrow> int \<Rightarrow> WebhookDeliveryRecord \<Rightarrow> WebhookDeliveryRecord" where
  "recorded clock r n d = d\<lparr>d_status := r_Status r, d_attempts := n, d_next := r_NextAttemptAt r,
     d_completed := (if terminal (r_Status r) then Some (completion clock r) else None),
     d_response := (if r_ResponseStatus r > 0 then Some (r_ResponseStatus r) else None),
     d_error := r_ErrorCode r, d_message := r_ErrorMessage r, d_queued := None, d_updated := completion clock r\<rparr>"

definition attempt_row :: "uuid \<Rightarrow> time \<Rightarrow> WebhookAttemptResult \<Rightarrow> WebhookDeliveryRecord \<Rightarrow> WebhookAttemptRow" where
  "attempt_row aid clock r d = \<lparr>a_id = aid, a_delivery = d_id d, a_site = d_site d, a_number = d_attempts d + 1,
     a_status = r_Status r, a_response = (if r_ResponseStatus r > 0 then Some (r_ResponseStatus r) else None),
     a_error = r_ErrorCode r, a_message = r_ErrorMessage r,
     a_started = (if IsZero (r_StartedAt r) then clock else r_StartedAt r), a_completed = completion clock r,
     a_next = r_NextAttemptAt r\<rparr>"

lemma Record_runs:
  assumes "faults db = []" and "find (\<lambda>d. d_id d = did) (deliveries db) = Some d"
    and "terminal (r_Status r) \<or> r_Status r = WebhookDeliveryRetrying" and "aid \<notin> set (map a_id (attempts db))"
  shows "RecordWebhookDeliveryAttempt aid clock did r db = (Inr (), db\<lparr>attempts := attempts db @ [attempt_row aid clock r d],
     deliveries := update_where (\<lambda>d. d_id d = did) (recorded clock r (d_attempts d + 1)) (deliveries db)\<rparr>)"
proof -
  have "d_id d = did" using assms(2) by (auto dest!: find_SomeD)
  then show ?thesis
    using assms
    by (auto simp: RecordWebhookDeliveryAttempt_def GetWebhookDelivery_def recordAttemptTx_def Let_def run_defs
        insert_attempt_def update_deliveries_def terminal_def recorded_def [abs_def] attempt_row_def completion_def)
qed

definition sample_success :: WebhookAttemptResult where
  "sample_success = success_result 6 8 200"

definition sample_done :: webhook_db where
  "sample_done = (sample_row (recorded 8 sample_success 1 (claimed 6 (sample_delivery 5))))\<lparr>attempts :=
     [attempt_row 40 8 sample_success (claimed 6 (sample_delivery 5))]\<rparr>"

lemma sample_record_first:
  assumes "d_id d = 20" and "d_attempts d = 0" and "d_id c = 20" and "d_attempts c = 0" and "d_site c = d_site d"
  shows "RecordWebhookDeliveryAttempt 40 8 20 sample_success (sample_row d)
     = (Inr (), (sample_row (recorded 8 sample_success 1 d))\<lparr>attempts := [attempt_row 40 8 sample_success c]\<rparr>)"
proof -
  have ok: "terminal (r_Status sample_success) \<or> r_Status sample_success = WebhookDeliveryRetrying"
    by (simp add: sample_success_def success_result_def terminal_def)
  have "find (\<lambda>d. d_id d = 20) (deliveries (sample_row d)) = Some d" using assms by (simp add: sample_row_simps)
  from Record_runs [OF _ this ok, of 40 8] assms show ?thesis
    by (simp add: sample_row_simps update_where_def attempt_row_def) (simp add: sample_row_def)
qed

lemma sample_step_succeed:
  "wh_step leased conf J (sample_world (sample_row (claimed 6 (sample_delivery 5))) [claimed 6 (sample_delivery 5)])
     (sample_world sample_done [])"
proof -
  let ?d = "claimed 6 (sample_delivery 5)"
  have "?d \<in> set (flights (sample_world (sample_row ?d) [?d]))" by (simp add: sample_world_def)
  from wh_step.succeed [OF this, of leased conf J 40 8 6 200]
  show ?thesis
    using sample_record_first [of ?d ?d]
    by (simp add: sample_world_def sample_done_def claimed_def sample_delivery_def new_delivery_def
        sample_success_def)
qed

lemma sample_run_done: "wh_run leased conf sample_json sample_start (sample_world sample_done [])"
  using wh_run.there [OF sample_run_claimed sample_step_succeed] .

lemma sample_run_marked: "wh_run leased conf J (sample_world sample_done []) (sample_world sample_done [])"
proof -
  have "snd (MarkWebhookDeliveryQueued 20 9 sample_done) = sample_done"
    by (simp add: MarkWebhookDeliveryQueued_def update_deliveries_def exec_def update_where_def sample_done_def
        sample_row_simps recorded_def sample_success_def success_result_def waiting_def store_simps)
  with wh_step.mark [of leased conf J "sample_world sample_done []" 20 9]
  have "wh_step leased conf J (sample_world sample_done []) (sample_world sample_done [])"
    by (simp add: sample_world_def)
  from wh_run.there [OF wh_run.here this] show ?thesis .
qed

theorem finished_is_final_witness:
  "\<exists>d \<in> set (deliveries sample_done). d_id d = 20 \<and> d_status d = WebhookDeliverySucceeded \<and> d_attempts d = 1"
proof -
  let ?d = "recorded 8 sample_success 1 (claimed 6 (sample_delivery 5))"
  have d: "?d \<in> set (deliveries (store (sample_world sample_done [])))"
    by (simp add: sample_world_def sample_done_def sample_row_simps)
  have st: "d_status ?d = WebhookDeliverySucceeded" "d_attempts ?d = 1" "d_id ?d = 20"
    by (simp_all add: recorded_def sample_success_def success_result_def claimed_def sample_delivery_def new_delivery_def)
  have t: "terminal (d_status ?d)" using st by (simp add: terminal_def)
  from finished_is_final [OF sample_initial sample_run_done d t sample_run_marked d] st d
  show ?thesis by (auto simp: sample_world_def)
qed

subsection \<open>Without leases\<close>

definition sample_failure :: WebhookAttemptResult where
  "sample_failure = \<lparr>r_Status = [], r_ResponseStatus = 0, r_ErrorCode = ''timeout'', r_ErrorMessage = [],
     r_StartedAt = 100, r_CompletedAt = 0, r_NextAttemptAt = None\<rparr>"

text \<open>
  The lease is needed: \<open>RecordWebhookDeliveryAttempt\<close> updates the row of a delivery whatever its
  status, so when the sweeper takes back a delivery whose worker is still running, a second worker's
  failure that is recorded after the first worker's success reopens the delivery, and it is sent again.
\<close>

theorem late_result_reopens:
  "\<exists>w w' d d'. wh_run False sample_config sample_json sample_start w \<and> d \<in> set (deliveries (store w))
     \<and> d_status d = WebhookDeliverySucceeded
     \<and> wh_run False sample_config sample_json w w' \<and> d' \<in> set (deliveries (store w')) \<and> d_id d' = d_id d
     \<and> d_status d' = WebhookDeliveryRetrying"
proof -
  let ?c = "sample_config" and ?J = sample_json
  define d1 where "d1 = claimed 6 (sample_delivery 5)"
  define d2 where "d2 = d1\<lparr>d_status := WebhookDeliveryRetrying, d_next := Some 100, d_error := ''worker_interrupted'',
        d_message := ''delivery worker stopped before recording an outcome'', d_queued := None, d_updated := 100\<rparr>"
  define d3 where "d3 = claimed 100 d2"
  define d4 where "d4 = recorded 8 sample_success 1 d3"
  define a1 where "a1 = attempt_row 40 8 sample_success d1"
  define fin where "fin = (sample_row d4)\<lparr>attempts := [a1]\<rparr>"
  have ids: "d_id d1 = 20" "d_id d2 = 20" "d_id d3 = 20" "d_id d4 = 20" "d_attempts d1 = 0" "d_attempts d3 = 0"
    "d_attempts d4 = 1" "d_site d3 = d_site d1"
    by (simp_all add: d1_def d2_def d3_def d4_def claimed_def recorded_def sample_delivery_def new_delivery_def)
  have s1: "wh_step False ?c ?J (sample_world (sample_row d1) [d1]) (sample_world (sample_row d2) [d1])"
  proof -
    have "snd (RecoverStaleWebhookDeliveries 50 100 (sample_row d1)) = sample_row d2"
      by (simp add: RecoverStaleWebhookDeliveries_def update_deliveries_def exec_def sample_row_simps update_where_def
          stale_def d1_def d2_def claimed_def)
    with wh_step.recover [of False 50 "sample_world (sample_row d1) [d1]" ?c ?J 100]
    show ?thesis by (simp add: sample_world_def)
  qed
  have s2: "wh_step False ?c ?J (sample_world (sample_row d2) [d1]) (sample_world (sample_row d3) [d3, d1])"
  proof -
    have "claimable 20 100 d2" by (simp add: claimable_def ids waiting_def) (simp add: d2_def)
    from sample_claim_row [OF this, of "sample_row d2"]
    have "ClaimWebhookDelivery 20 100 (store (sample_world (sample_row d2) [d1])) = (Inr (Some d3), sample_row d3)"
      by (simp add: sample_row_simps sample_world_def d3_def)
    from wh_step.claim [OF this, of False ?c ?J] show ?thesis by (simp add: sample_world_def)
  qed
  have s3: "wh_step False ?c ?J (sample_world (sample_row d3) [d3, d1]) (sample_world fin [d3])"
  proof -
    have "d_last d3 \<noteq> d_last d1" by (simp add: d3_def d1_def claimed_def)
    then have ne: "d3 \<noteq> d1" by metis
    have "d1 \<in> set (flights (sample_world (sample_row d3) [d3, d1]))" by (simp add: sample_world_def)
    from wh_step.succeed [OF this, of False ?c ?J 40 8 6 200]
    show ?thesis
      using sample_record_first [of d3 d1] ne ids
      by (simp add: sample_world_def fin_def sample_success_def a1_def d4_def)
  qed
  let ?w = "sample_world fin [d3]"
  let ?w' = "?w\<lparr>store := snd (finishAttempt ?c 110 41 d3 sample_failure (store ?w)), flights := []\<rparr>"
  have s4: "wh_step False ?c ?J ?w ?w'"
    using wh_step.fail [of d3 ?w False ?c ?J 110 41 sample_failure] by (simp add: sample_world_def)
  have run: "wh_run False ?c ?J sample_start ?w"
    using wh_run.there [OF wh_run.there [OF wh_run.there [OF sample_run_claimed [folded d1_def] s1] s2] s3] .
  obtain r where r: "finishAttempt ?c 110 41 d3 sample_failure = RecordWebhookDeliveryAttempt 41 110 20 r"
    "r_Status r = WebhookDeliveryRetrying"
    by (simp add: finishAttempt_def Let_def ids sample_config_def effective_max_attempts_def)
  have "deliveries (store ?w') = [recorded 110 r 2 d4]"
    using Record_runs [of fin 20 d4 r 41 110] r ids
    by (simp add: sample_world_def fin_def sample_row_simps a1_def attempt_row_def update_where_def)
  then have "recorded 110 r 2 d4 \<in> set (deliveries (store ?w'))" by simp
  moreover have "d_status (recorded 110 r 2 d4) = WebhookDeliveryRetrying" "d_id (recorded 110 r 2 d4) = d_id d4"
    using r by (simp_all add: recorded_def)
  moreover have "d4 \<in> set (deliveries (store ?w))" "d_status d4 = WebhookDeliverySucceeded"
    by (simp_all add: sample_world_def fin_def sample_row_simps)
      (simp add: d4_def recorded_def sample_success_def success_result_def)
  ultimately show ?thesis using run wh_run.there [OF wh_run.here s4] by blast
qed

subsection \<open>A receiver that keeps failing\<close>

definition receiver_fails :: "('a, 'p) dispatch_env \<Rightarrow> bool" where
  "receiver_fails env \<longleftrightarrow> (\<forall>rq. case env_http env rq of Response code \<Rightarrow> \<not> (200 \<le> code \<and> code < 300) | _ \<Rightarrow> True)"

definition failure_of :: "webhook_config \<Rightarrow> time \<Rightarrow> WebhookDeliveryRecord \<Rightarrow> WebhookAttemptResult \<Rightarrow> WebhookAttemptResult" where
  "failure_of conf clock d r = (if d_attempts d + 1 \<ge> effective_max_attempts conf
     then r\<lparr>r_CompletedAt := clock, r_Status := WebhookDeliveryFailed, r_NextAttemptAt := None\<rparr>
     else r\<lparr>r_CompletedAt := clock, r_Status := WebhookDeliveryRetrying,
            r_NextAttemptAt := Some (clock + retryDelay conf (d_attempts d + 1))\<rparr>)"

lemma finishAttempt_failure: "finishAttempt conf clock aid d r
    = RecordWebhookDeliveryAttempt aid clock (d_id d) (failure_of conf clock d r)"
  by (simp add: finishAttempt_def failure_of_def Let_def)

lemma attempt_claimed_fails:
  assumes "receiver_fails env"
  shows "\<exists>r. attempt_claimed env conf started d
    = RecordWebhookDeliveryAttempt (env_attempt_id env) (env_done env) (d_id d) (failure_of conf (env_done env) d r)"
proof (cases "ValidateDestination (env_lib env) (env_resolve env) (AllowDevelopmentTargets conf) (d_url d)")
  case (Inr dest)
  show ?thesis
  proof (cases "env_http env (dispatch_request env conf started d dest)")
    case (Response code)
    have "\<not> (200 \<le> code \<and> code < 300)"
      using assms Response by (auto simp: receiver_fails_def dest: spec [of _ "dispatch_request env conf started d dest"])
    with Inr Response show ?thesis
      unfolding attempt_claimed_def Let_def finishAttempt_failure by auto
  qed (use Inr in \<open>auto simp: attempt_claimed_def Let_def finishAttempt_failure\<close>)
qed (auto simp: attempt_claimed_def Let_def finishAttempt_failure)

text \<open>The row after a failed attempt of a delivery with the given number of attempts.\<close>

definition gave_up :: "webhook_config \<Rightarrow> int \<Rightarrow> time \<Rightarrow> WebhookDeliveryRecord \<Rightarrow> bool" where
  "gave_up conf n completed d \<longleftrightarrow> d_attempts d = n
     \<and> (if n \<ge> effective_max_attempts conf then d_status d = WebhookDeliveryFailed
        else d_status d = WebhookDeliveryRetrying \<and> d_next d = Some (completed + retryDelay conf n))"

definition ready :: "uuid \<Rightarrow> time \<Rightarrow> int \<Rightarrow> uuid set \<Rightarrow> webhook_db \<Rightarrow> bool" where
  "ready did start n aids db \<longleftrightarrow> faults db = [] \<and> distinct (map d_id (deliveries db))
     \<and> a_id ` set (attempts db) \<inter> aids = {}
     \<and> (\<exists>d \<in> set (deliveries db). claimable did start d \<and> d_attempts d = n)"

lemma Claim_runs:
  assumes "faults db = []" and "distinct (map d_id (deliveries db))" and "d \<in> set (deliveries db)" and "claimable did now d"
  shows "\<exists>db'. ClaimWebhookDelivery did now db = (Inr (Some (claimed now d)), db') \<and> faults db' = []
    \<and> attempts db' = attempts db \<and> distinct (map d_id (deliveries db'))
    \<and> find (\<lambda>d. d_id d = did) (deliveries db') = Some (claimed now d)"
proof -
  let ?db = "db\<lparr>deliveries := update_where (claimable did now) (claimed now) (deliveries db)\<rparr>"
  have ids: "map d_id (deliveries ?db) = map d_id (deliveries db)"
    by (simp add: map_update_where claimed_def)
  have mem: "claimed now d \<in> set (deliveries ?db)" using assms(3,4) by (simp add: update_where_member)
  have "d_id (claimed now d) = did" using assms(4) by (simp add: claimed_def claimable_def)
  then have f: "find (\<lambda>d. d_id d = did) (deliveries ?db) = Some (claimed now d)"
    using find_distinct [of d_id, OF _ mem] ids assms(2) by simp
  have c: "count_where (claimable did now) (deliveries db) \<noteq> 0"
    using assms(3,4) by (auto simp: count_where_def filter_empty_conv)
  have upd: "(\<lambda>d. d\<lparr>d_status := WebhookDeliveryProcessing, d_last := Some now, d_queued := None, d_updated := now\<rparr>)
      = claimed now" by (rule ext) (simp add: claimed_def)
  have "ClaimWebhookDelivery did now db = (Inr (Some (claimed now d)), ?db)"
    using assms(1) c f unfolding ClaimWebhookDelivery_def upd
    by (simp add: run_defs update_deliveries_def GetWebhookDelivery_def) (simp add: claimed_def)
  then show ?thesis using f ids assms(1,2) by (intro exI [of _ ?db]) simp
qed

lemma Dispatch_fails:
  assumes r: "ready did start n aids db" and fails: "receiver_fails env" and aid: "env_attempt_id env \<in> aids"
  shows "\<exists>db'. Dispatch env conf did start db = (Inr (), db') \<and> faults db' = []
    \<and> distinct (map d_id (deliveries db')) \<and> a_id ` set (attempts db') \<inter> (aids - {env_attempt_id env}) = {}
    \<and> (\<exists>d \<in> set (deliveries db'). d_id d = did \<and> gave_up conf (n + 1) (env_done env) d)"
proof -
  obtain d where d: "d \<in> set (deliveries db)" "claimable did start d" "d_attempts d = n"
    using r by (auto simp: ready_def)
  have "faults db = []" "distinct (map d_id (deliveries db))" using r by (auto simp: ready_def)
  from Claim_runs [OF this d(1,2)] obtain db1 where
    c: "ClaimWebhookDelivery did start db = (Inr (Some (claimed start d)), db1)" and
    db1: "faults db1 = []" "attempts db1 = attempts db" "distinct (map d_id (deliveries db1))"
      "find (\<lambda>d. d_id d = did) (deliveries db1) = Some (claimed start d)" by blast
  let ?c = "claimed start d"
  have ids: "d_id ?c = did" "d_attempts ?c = n" using d by (simp_all add: claimed_def claimable_def)
  obtain res where a: "attempt_claimed env conf start ?c = RecordWebhookDeliveryAttempt (env_attempt_id env)
      (env_done env) did (failure_of conf (env_done env) ?c res)"
    using attempt_claimed_fails [OF fails] ids by metis
  let ?r = "failure_of conf (env_done env) ?c res"
  have ok: "terminal (r_Status ?r) \<or> r_Status ?r = WebhookDeliveryRetrying"
    by (simp add: failure_of_def terminal_def)
  have fresh: "env_attempt_id env \<notin> set (map a_id (attempts db1))"
    using r aid db1(2) by (auto simp: ready_def)
  note rec = Record_runs [OF db1(1) db1(4) ok fresh, of "env_done env"]
  let ?ds = "update_where (\<lambda>d. d_id d = did) (recorded (env_done env) ?r (d_attempts ?c + 1)) (deliveries db1)"
  have mem: "?c \<in> set (deliveries db1)" using db1(4) by (auto dest!: find_SomeD)
  have "recorded (env_done env) ?r (n + 1) ?c \<in> set ?ds"
    using update_where_member [OF mem, of "\<lambda>d. d_id d = did"] ids by simp
  moreover have "gave_up conf (n + 1) (env_done env) (recorded (env_done env) ?r (n + 1) ?c)"
    using ids by (simp add: gave_up_def recorded_def failure_of_def)
  moreover have "d_id (recorded (env_done env) ?r (n + 1) ?c) = did" using ids by (simp add: recorded_def)
  moreover have "distinct (map d_id ?ds)" using db1(3) by (simp add: map_update_where recorded_def)
  moreover have "Dispatch env conf did start db = RecordWebhookDeliveryAttempt (env_attempt_id env) (env_done env) did ?r db1"
    using c a by (simp add: Dispatch_def bind_op_def)
  ultimately show ?thesis
    using rec db1(1,2) r by (fastforce simp: ready_def attempt_row_def)
qed

text \<open>Dispatching a delivery repeatedly, each time in its own environment and at its own time.\<close>

fun redispatch :: "webhook_config \<Rightarrow> uuid \<Rightarrow> (('a, 'p) dispatch_env \<times> time) list \<Rightarrow> webhook_db \<Rightarrow> webhook_db" where
  "redispatch conf did [] db = db"
| "redispatch conf did ((env, start) # rounds) db = redispatch conf did rounds (snd (Dispatch env conf did start db))"

text \<open>Each round starts when the retry delay after the previous one is over.\<close>

fun waits :: "webhook_config \<Rightarrow> int \<Rightarrow> (('a, 'p) dispatch_env \<times> time) list \<Rightarrow> bool" where
  "waits conf n ((env, _) # (env', start) # rounds) \<longleftrightarrow>
     env_done env + retryDelay conf (n + 1) \<le> start \<and> waits conf (n + 1) ((env', start) # rounds)"
| "waits conf n _ \<longleftrightarrow> True"

lemma redispatch_fails:
  assumes "ready did (snd (hd rounds)) n aids db" and "rounds \<noteq> []" and "\<forall>(env, _) \<in> set rounds. receiver_fails env"
    and "env_attempt_id ` fst ` set rounds \<subseteq> aids" and "distinct (map (env_attempt_id \<circ> fst) rounds)"
    and "waits conf n rounds" and "n + int (length rounds) \<le> effective_max_attempts conf"
  shows "\<exists>d \<in> set (deliveries (redispatch conf did rounds db)). d_id d = did
    \<and> gave_up conf (n + int (length rounds)) (env_done (fst (last rounds))) d"
  using assms
proof (induction rounds arbitrary: n aids db)
  case (Cons round rounds)
  obtain env start where round: "round = (env, start)" by fastforce
  have "ready did start n aids db" "receiver_fails env" "env_attempt_id env \<in> aids"
    using Cons.prems round by auto
  from Dispatch_fails [OF this, of conf] obtain db' where
    run: "Dispatch env conf did start db = (Inr (), db')" and
    db': "faults db' = []" "distinct (map d_id (deliveries db'))"
      "a_id ` set (attempts db') \<inter> (aids - {env_attempt_id env}) = {}"
      "\<exists>d \<in> set (deliveries db'). d_id d = did \<and> gave_up conf (n + 1) (env_done env) d" by blast
  show ?case
  proof (cases rounds)
    case Nil
    with run round db'(4) show ?thesis by simp
  next
    case (Cons round' rest)
    obtain env' start' where round': "round' = (env', start')" by fastforce
    have w: "env_done env + retryDelay conf (n + 1) \<le> start'" "waits conf (n + 1) rounds"
      using Cons.prems(6) round round' Cons by auto
    have "n + 1 < effective_max_attempts conf" using Cons.prems(7) Cons by simp
    then have "ready did (snd (hd rounds)) (n + 1) (aids - {env_attempt_id env}) db'"
      using db' w(1) round' Cons
      by (auto simp: ready_def gave_up_def claimable_def waiting_def intro!: bexI)
    moreover have "env_attempt_id ` fst ` set rounds \<subseteq> aids - {env_attempt_id env}"
      using Cons.prems(4,5) round by (auto simp: image_iff)
    ultimately have "\<exists>d \<in> set (deliveries (redispatch conf did rounds db')). d_id d = did
        \<and> gave_up conf (n + 1 + int (length rounds)) (env_done (fst (last rounds))) d"
      using Cons.prems(3,5,7) Cons w(2) by (intro Cons.IH) auto
    then show ?thesis using run round Cons by (simp add: algebra_simps)
  qed
qed simp

text \<open>
  C18.  A delivery whose receiver always fails is given up: attempted each time its retry delay is
  over, it stays retrying for fewer than the configured number of attempts, and has the status
  failed, with nothing further scheduled, after exactly that many.
\<close>

theorem failing_receiver_gives_up:
  assumes "faults db = []" and "distinct (map d_id (deliveries db))" and "d \<in> set (deliveries db)"
    and "claimable did (snd (hd rounds)) d" and "d_attempts d = 0"
    and "\<forall>(env, _) \<in> set rounds. receiver_fails env" and "distinct (map (env_attempt_id \<circ> fst) rounds)"
    and "a_id ` set (attempts db) \<inter> env_attempt_id ` fst ` set rounds = {}" and "waits conf 0 rounds"
    and "rounds \<noteq> []" and "int (length rounds) \<le> effective_max_attempts conf"
  shows "\<exists>d' \<in> set (deliveries (redispatch conf did rounds db)). d_id d' = did \<and> d_attempts d' = int (length rounds)
    \<and> (if int (length rounds) = effective_max_attempts conf then d_status d' = WebhookDeliveryFailed
       else d_status d' = WebhookDeliveryRetrying
         \<and> d_next d' = Some (env_done (fst (last rounds)) + retryDelay conf (int (length rounds))))"
proof -
  have "ready did (snd (hd rounds)) 0 (env_attempt_id ` fst ` set rounds) db"
    using assms(1-5,8) by (auto simp: ready_def)
  from redispatch_fails [OF this assms(10,6) order_refl assms(7,9)] assms(11)
  obtain d' where d': "d' \<in> set (deliveries (redispatch conf did rounds db))" "d_id d' = did"
    "gave_up conf (int (length rounds)) (env_done (fst (last rounds))) d'" by auto
  then show ?thesis using assms(11) by (intro bexI [OF _ d'(1)]) (simp add: gave_up_def)
qed

definition failing_env :: "uuid \<Rightarrow> time \<Rightarrow> (nat, nat) dispatch_env" where
  "failing_env aid t = \<lparr>env_lib = bare_lib, env_resolve = (\<lambda>_. None), env_hmac = (\<lambda>_ _. []),
     env_http = (\<lambda>_. Response 500), env_done = t, env_attempt_id = aid\<rparr>"

theorem failing_receiver_gives_up_witness:
  "\<exists>d \<in> set (deliveries (redispatch (sample_config\<lparr>MaxAttempts := 2\<rparr>) 20
       [(failing_env 40 8, 6), (failing_env 41 (10 ^ 12), 10 ^ 12)] (sample_stored 5))).
     d_attempts d = 2 \<and> d_status d = WebhookDeliveryFailed"
proof -
  let ?c = "sample_config\<lparr>MaxAttempts := 2\<rparr>"
  let ?r = "[(failing_env 40 8, 6), (failing_env 41 (10 ^ 12), 10 ^ 12)]"
  have delay: "retryDelay ?c 1 = 30 * second"
    by (simp add: retryDelay_def sample_config_def seconds_def boundedRetryDelay_def Let_def wrap64_def)
  have fails: "\<forall>(env, _) \<in> set ?r. receiver_fails env" by (simp add: receiver_fails_def failing_env_def)
  have "claimable 20 (snd (hd ?r)) (sample_delivery 5)" "d_attempts (sample_delivery 5) = 0"
    by (simp_all add: claimable_def sample_delivery_def new_delivery_def waiting_def)
  moreover have "faults (sample_stored 5) = []" "distinct (map d_id (deliveries (sample_stored 5)))"
    "sample_delivery 5 \<in> set (deliveries (sample_stored 5))" "attempts (sample_stored 5) = []"
    by (simp_all add: sample_stored_row sample_row_simps)
  moreover have "waits ?c 0 ?r" using delay by (simp add: failing_env_def)
  moreover have "effective_max_attempts ?c = 2" by (simp add: effective_max_attempts_def)
  ultimately show ?thesis
    using failing_receiver_gives_up [of "sample_stored 5" "sample_delivery 5" 20 ?r ?c, OF _ _ _ _ _ fails]
    by (simp add: failing_env_def) blast
qed

end
