(* ===== verification/OAuth_Store.thy ===== *)
theory OAuth_Store
  imports Access_Control Programs
begin

text \<open>
  The OAuth tables and one protocol operation on them (\<open>database/store_oauth.go\<close>,
  \<open>store_oauth_clients.go\<close>), and the storage that the OAuth library is given
  (\<open>oauth/storage.go\<close>).  The operation is a transaction: a program on the tables whose final
  state is kept by a commit and forgotten by a rollback.  The time of the operation is an argument.
  The JSON payload of a credential is the request snapshot it encodes.
\<close>

subsection \<open>Snapshots\<close>

record ClientMetadata =
  cm_RegistrationTeamID :: uuid
  cm_RegistrationVersion :: string
  cm_ID :: string
  cm_Name :: string
  cm_URI :: string
  cm_RedirectURIs :: "string list"
  cm_GrantTypes :: "string list"
  cm_ResponseTypes :: "string list"
  cm_AuthMethod :: string
  cm_AuthMethods :: "string list"

datatype token_type = AuthorizeCode | AccessToken | RefreshToken

record oauthSession =
  se_Subject :: string
  se_GrantID :: uuid
  se_GrantExpiry :: time
  se_Expires :: "token_type \<Rightarrow> time option"

definition SetExpiresAt :: "token_type \<Rightarrow> time \<Rightarrow> oauthSession \<Rightarrow> oauthSession" where
  "SetExpiresAt kind expires s =
     (let expires = (if \<not> IsZero (se_GrantExpiry s) \<and> se_GrantExpiry s < expires then se_GrantExpiry s else expires)
      in s\<lparr>se_Expires := (se_Expires s)(kind \<mapsto> expires)\<rparr>)"

definition GetExpiresAt :: "token_type \<Rightarrow> oauthSession \<Rightarrow> time" where
  "GetExpiresAt kind s = (case se_Expires s kind of Some t \<Rightarrow> t | None \<Rightarrow> time_zero)"

record storedRequest =
  sr_ID :: string
  sr_RequestedAt :: time
  sr_Client :: ClientMetadata
  sr_RequestedScopes :: "string list"
  sr_GrantedScopes :: "string list"
  sr_Audience :: string
  sr_RedirectURI :: string
  sr_Challenge :: string
  sr_ChallengeMethod :: string
  sr_Session :: oauthSession

text \<open>UUID text, SHA-256 in hexadecimal, the JSON encoder and the length of base64 data.\<close>

record oauth_lib =
  ol_String :: "uuid \<Rightarrow> string"
  ol_Parse :: "string \<Rightarrow> uuid option"
  ol_hash :: "string \<Rightarrow> string"
  ol_encode :: "storedRequest \<Rightarrow> string"
  ol_b64_length :: "string \<Rightarrow> nat option"

subsection \<open>Tables\<close>

record grant_row =
  gw_id :: uuid
  gw_user :: uuid
  gw_tenant :: uuid
  gw_client :: string
  gw_name :: string
  gw_uri :: string
  gw_audience :: string
  gw_scopes :: "string list"
  gw_created :: time
  gw_expires :: time
  gw_last_used :: "time option"
  gw_revoked :: "time option"
  gw_revision :: string

record credential_row =
  cw_kind :: string
  cw_signature :: string
  cw_grant :: uuid
  cw_tenant :: uuid
  cw_payload :: storedRequest
  cw_access :: string
  cw_expires :: time
  cw_consumed :: "time option"
  cw_revoked :: "time option"

record pending_row =
  pw_signature :: string
  pw_browser :: string
  pw_payload :: string
  pw_expires :: time

record client_row =
  kw_id :: string
  kw_tenant :: uuid
  kw_metadata :: string
  kw_revision :: string
  kw_revoked :: "time option"

record oauth_db =
  od_roles :: roles_db
  od_users :: "uuid list"
  od_grants :: "grant_row list"
  od_credentials :: "credential_row list"
  od_grant_sites :: "(uuid \<times> uuid \<times> uuid) list"
  od_pending :: "pending_row list"
  od_clients :: "client_row list"
  od_audit :: "(uuid \<times> uuid \<times> uuid \<times> string) list"

datatype oauth_err = ErrOAuthNotFound | ErrOAuthConsumed | ErrOAuthInactive | ErrOAuthConflict | ErrOAuthCapacity
  | OAuthFailure string

type_synonym 'a otx = "(oauth_db, oauth_err, 'a) prog"

subsection \<open>Grants\<close>

record StoredGrant =
  sg_ID :: uuid
  sg_UserID :: uuid
  sg_TeamID :: uuid
  sg_ClientRevision :: string
  sg_ClientID :: string
  sg_ClientName :: string
  sg_ClientURI :: string
  sg_Audience :: string
  sg_Scopes :: "string list"
  sg_SiteIDs :: "uuid list"
  sg_CreatedAt :: time
  sg_ExpiresAt :: time
  sg_LastUsedAt :: "time option"
  sg_RevokedAt :: "time option"
  sg_Active :: bool

text \<open>The oldest expired grants go, 32 at a time, with the rows that name them.\<close>

definition drop_grant :: "time \<Rightarrow> uuid \<Rightarrow> oauth_db \<Rightarrow> oauth_db" where
  "drop_grant now gid db = db\<lparr>
     od_credentials := filter (\<lambda>c. cw_grant c \<noteq> gid) (od_credentials db),
     od_grant_sites := filter (\<lambda>(g, _). g \<noteq> gid) (od_grant_sites db),
     od_grants := filter (\<lambda>g. \<not> (gw_id g = gid \<and> gw_expires g \<le> now)) (od_grants db)\<rparr>"

definition pruneExpiredGrants :: "time \<Rightarrow> unit otx" where
  "pruneExpiredGrants now = writes (\<lambda>db.
     let ids = map gw_id (take 32 (sort_key gw_expires (filter (\<lambda>g. gw_expires g \<le> now) (od_grants db))))
     in fold (drop_grant now) ids db)"

definition member_of :: "oauth_db \<Rightarrow> uuid \<Rightarrow> uuid \<Rightarrow> bool" where
  "member_of db tenant user \<longleftrightarrow>
     (\<exists>m \<in> set (tenant_members (od_roles db)). tm_tenant m = tenant \<and> tm_user m = user)"

definition team_archived :: "oauth_db \<Rightarrow> uuid \<Rightarrow> bool" where
  "team_archived db tenant \<longleftrightarrow> tenant \<in> set (tenant_archives (od_roles db))"

definition grant_wellformed :: "StoredGrant \<Rightarrow> bool" where
  "grant_wellformed g \<longleftrightarrow> \<not> (sg_ID g = uuid_Nil \<or> sg_UserID g = uuid_Nil \<or> sg_TeamID g = uuid_Nil
     \<or> length (sg_SiteIDs g) = 0 \<or> length (sg_SiteIDs g) > 512 \<or> length (sg_Scopes g) = 0
     \<or> length (sg_Scopes g) > 4 \<or> sg_ClientID g = [] \<or> sg_ClientName g = [] \<or> sg_Audience g = []
     \<or> \<not> sg_ExpiresAt g > sg_CreatedAt g)"

definition grant_allowed :: "StoredGrant \<Rightarrow> oauth_db \<Rightarrow> bool" where
  "grant_allowed g db \<longleftrightarrow> member_of db (sg_TeamID g) (sg_UserID g) \<and> \<not> team_archived db (sg_TeamID g)
     \<and> (sg_ClientRevision g = [] \<or> (\<exists>c \<in> set (od_clients db). kw_id c = sg_ClientID g
          \<and> kw_tenant c = sg_TeamID g \<and> kw_revision c = sg_ClientRevision g \<and> kw_revoked c = None))"

definition insert_grant :: "StoredGrant \<Rightarrow> unit otx" where
  "insert_grant g db =
     (if \<not> grant_allowed g db then (Inl ErrOAuthInactive, db)
      else if sg_ID g \<in> set (map gw_id (od_grants db)) then (Inl (OAuthFailure ''duplicate grant''), db)
      else (Inr (), db\<lparr>od_grants := od_grants db @ [\<lparr>gw_id = sg_ID g, gw_user = sg_UserID g,
             gw_tenant = sg_TeamID g, gw_client = sg_ClientID g, gw_name = sg_ClientName g, gw_uri = sg_ClientURI g,
             gw_audience = sg_Audience g, gw_scopes = sg_Scopes g, gw_created = sg_CreatedAt g,
             gw_expires = sg_ExpiresAt g, gw_last_used = None, gw_revoked = None,
             gw_revision = sg_ClientRevision g\<rparr>]\<rparr>))"

definition insert_grant_site :: "StoredGrant \<Rightarrow> uuid \<Rightarrow> unit otx" where
  "insert_grant_site g site db =
     (if map_of (site_tenants (od_roles db)) site \<noteq> Some (sg_TeamID g) then (Inl ErrOAuthInactive, db)
      else if (sg_ID g, sg_TeamID g, site) \<in> set (od_grant_sites db) then (Inl (OAuthFailure ''duplicate site''), db)
      else (Inr (), db\<lparr>od_grant_sites := od_grant_sites db @ [(sg_ID g, sg_TeamID g, site)]\<rparr>))"

text \<open>The loop over the sites; the second argument holds the sites seen.\<close>

fun grant_sites_loop :: "StoredGrant \<Rightarrow> uuid set \<Rightarrow> uuid list \<Rightarrow> unit otx" where
  "grant_sites_loop g seen [] = ret ()"
| "grant_sites_loop g seen (gid # ids) =
     (if gid = uuid_Nil \<or> gid \<in> seen then abort (OAuthFailure ''invalid OAuth grant site'')
      else bind_op (insert_grant_site g gid) (\<lambda>_. grant_sites_loop g (insert gid seen) ids))"

definition live_grants_of :: "time \<Rightarrow> uuid \<Rightarrow> oauth_db \<Rightarrow> grant_row list" where
  "live_grants_of now user db = filter (\<lambda>g. gw_user g = user \<and> gw_revoked g = None \<and> gw_expires g > now) (od_grants db)"

definition CreateGrant :: "time \<Rightarrow> StoredGrant \<Rightarrow> unit otx" where
  "CreateGrant now g =
     bind_op (pruneExpiredGrants now) (\<lambda>_.
       if \<not> grant_wellformed g then abort (OAuthFailure ''invalid OAuth grant'')
       else bind_op (require ErrOAuthCapacity (\<lambda>db. length (live_grants_of now (sg_UserID g) db) < 200))
         (\<lambda>_. bind_op (insert_grant g) (\<lambda>_. grant_sites_loop g {} (sg_SiteIDs g))))"

definition client_live :: "oauth_db \<Rightarrow> string \<Rightarrow> uuid \<Rightarrow> bool" where
  "client_live db client tenant \<longleftrightarrow> (\<exists>c \<in> set (od_clients db). kw_id c = client \<and> kw_tenant c = tenant
     \<and> kw_revoked c = None \<and> \<not> team_archived db (kw_tenant c))"

definition GetGrant :: "time \<Rightarrow> uuid \<Rightarrow> StoredGrant otx" where
  "GetGrant now gid = reads (\<lambda>db.
     case find (\<lambda>g. gw_id g = gid) (od_grants db) of
       None \<Rightarrow> Inl ErrOAuthNotFound
     | Some g \<Rightarrow>
         let selected = (gw_user g \<in> set (od_users db) \<and> member_of db (gw_tenant g) (gw_user g))
               \<and> \<not> team_archived db (gw_tenant g)
               \<and> (gw_revision g = [] \<or> client_live db (gw_client g) (gw_tenant g));
             siteIDs = sort (map (\<lambda>(_, _, s). s) (filter (\<lambda>(i, t, s). i = gid \<and> t = gw_tenant g
               \<and> map_of (site_tenants (od_roles db)) s = Some t) (od_grant_sites db)))
         in Inr \<lparr>sg_ID = gw_id g, sg_UserID = gw_user g, sg_TeamID = gw_tenant g, sg_ClientRevision = [],
               sg_ClientID = gw_client g, sg_ClientName = gw_name g, sg_ClientURI = gw_uri g,
               sg_Audience = gw_audience g, sg_Scopes = gw_scopes g, sg_SiteIDs = siteIDs,
               sg_CreatedAt = gw_created g, sg_ExpiresAt = gw_expires g, sg_LastUsedAt = gw_last_used g,
               sg_RevokedAt = gw_revoked g,
               sg_Active = selected \<and> gw_revoked g = None \<and> now < gw_expires g \<and> length siteIDs > 0\<rparr>)"

subsection \<open>Credentials\<close>

record OAuthCredential =
  cr_Kind :: string
  cr_Signature :: string
  cr_GrantID :: uuid
  cr_TeamID :: uuid
  cr_Payload :: storedRequest
  cr_AccessSignature :: string
  cr_ExpiresAt :: time
  cr_Consumed :: bool
  cr_Revoked :: bool

definition has_live_grant :: "time \<Rightarrow> uuid \<Rightarrow> uuid \<Rightarrow> oauth_db \<Rightarrow> bool" where
  "has_live_grant now gid tenant db \<longleftrightarrow> (\<exists>g \<in> set (od_grants db). gw_id g = gid \<and> gw_tenant g = tenant
     \<and> gw_revoked g = None \<and> gw_expires g > now)"

definition CreateCredential :: "oauth_lib \<Rightarrow> time \<Rightarrow> OAuthCredential \<Rightarrow> unit otx" where
  "CreateCredential L now c db =
     (if cr_Kind c \<noteq> ''code'' \<and> cr_Kind c \<noteq> ''access'' \<and> cr_Kind c \<noteq> ''refresh'' \<and> cr_Kind c \<noteq> ''pkce''
      then (Inl (OAuthFailure ''invalid OAuth credential kind''), db)
      else if length (cr_Signature c) \<noteq> 64 \<or> length (ol_encode L (cr_Payload c)) > 65536
          \<or> cr_GrantID c = uuid_Nil \<or> cr_TeamID c = uuid_Nil
      then (Inl (OAuthFailure ''invalid OAuth credential''), db)
      else if \<not> has_live_grant now (cr_GrantID c) (cr_TeamID c) db then (Inl ErrOAuthInactive, db)
      else if (cr_Kind c, cr_Signature c) \<in> set (map (\<lambda>r. (cw_kind r, cw_signature r)) (od_credentials db))
      then (Inl (OAuthFailure ''duplicate credential''), db)
      else (Inr (), db\<lparr>od_credentials := od_credentials db @ [\<lparr>cw_kind = cr_Kind c,
             cw_signature = cr_Signature c, cw_grant = cr_GrantID c, cw_tenant = cr_TeamID c,
             cw_payload = cr_Payload c, cw_access = cr_AccessSignature c, cw_expires = cr_ExpiresAt c,
             cw_consumed = None, cw_revoked = None\<rparr>]\<rparr>))"

definition is_credential :: "string \<Rightarrow> string \<Rightarrow> credential_row \<Rightarrow> bool" where
  "is_credential kind signature c \<longleftrightarrow> cw_kind c = kind \<and> cw_signature c = signature"

definition credential_of :: "credential_row \<Rightarrow> OAuthCredential" where
  "credential_of c = \<lparr>cr_Kind = cw_kind c, cr_Signature = cw_signature c, cr_GrantID = cw_grant c,
     cr_TeamID = cw_tenant c, cr_Payload = cw_payload c, cr_AccessSignature = cw_access c,
     cr_ExpiresAt = cw_expires c, cr_Consumed = cw_consumed c \<noteq> None, cr_Revoked = cw_revoked c \<noteq> None\<rparr>"

definition GetCredential :: "string \<Rightarrow> string \<Rightarrow> OAuthCredential otx" where
  "GetCredential kind signature = reads (\<lambda>db.
     case find (\<lambda>c. is_credential kind signature c
         \<and> (\<exists>g \<in> set (od_grants db). gw_id g = cw_grant c \<and> gw_tenant g = cw_tenant c)) (od_credentials db) of
       None \<Rightarrow> Inl ErrOAuthNotFound
     | Some c \<Rightarrow> Inr (credential_of c))"

definition usable :: "credential_row \<Rightarrow> bool" where
  "usable c \<longleftrightarrow> cw_consumed c = None \<and> cw_revoked c = None"

definition ConsumeCredential :: "time \<Rightarrow> string \<Rightarrow> string \<Rightarrow> unit otx" where
  "ConsumeCredential now kind signature db =
     (let c = (\<lambda>r. is_credential kind signature r \<and> usable r) in
      if filter c (od_credentials db) = [] then (Inl ErrOAuthConsumed, db)
      else (Inr (), db\<lparr>od_credentials := update_where c (\<lambda>r. r\<lparr>cw_consumed := Some now\<rparr>) (od_credentials db)\<rparr>))"

definition COALESCE :: "'a option \<Rightarrow> 'a \<Rightarrow> 'a option" where
  "COALESCE old new = (case old of Some x \<Rightarrow> Some x | None \<Rightarrow> Some new)"

definition RevokeCredential :: "time \<Rightarrow> string \<Rightarrow> string \<Rightarrow> unit otx" where
  "RevokeCredential now kind signature = writes (\<lambda>db. db\<lparr>od_credentials :=
     update_where (is_credential kind signature) (\<lambda>r. r\<lparr>cw_revoked := COALESCE (cw_revoked r) now\<rparr>) (od_credentials db)\<rparr>)"

definition RevokeGrant :: "time \<Rightarrow> uuid \<Rightarrow> unit otx" where
  "RevokeGrant now gid = writes (\<lambda>db. db\<lparr>od_grants :=
     update_where (\<lambda>g. gw_id g = gid) (\<lambda>g. g\<lparr>gw_revoked := COALESCE (gw_revoked g) now\<rparr>) (od_grants db)\<rparr>)"

definition TouchGrant :: "time \<Rightarrow> uuid \<Rightarrow> unit otx" where
  "TouchGrant now gid = writes (\<lambda>db. db\<lparr>od_grants :=
     update_where (\<lambda>g. gw_id g = gid \<and> gw_revoked g = None) (\<lambda>g. g\<lparr>gw_last_used := Some now\<rparr>) (od_grants db)\<rparr>)"

subsection \<open>Audit and whole transactions\<close>

definition audit_actions :: "string list" where
  "audit_actions = [''oauth.consent_approved'', ''oauth.consent_denied'', ''oauth.grant_revoked'',
     ''oauth.refresh_reused'', ''oauth.code_reused'']"

definition AppendAudit :: "uuid \<Rightarrow> uuid \<Rightarrow> uuid \<Rightarrow> string \<Rightarrow> unit otx" where
  "AppendAudit actor team grant action =
     (if action \<notin> set audit_actions then abort (OAuthFailure ''invalid OAuth audit action'')
      else writes (\<lambda>db. db\<lparr>od_audit := od_audit db @ [(actor, team, grant, action)]\<rparr>))"

definition GetOAuthGrant :: "time \<Rightarrow> uuid \<Rightarrow> StoredGrant otx" where
  "GetOAuthGrant now gid = GetGrant now gid"

definition RevokeOAuthGrant :: "time \<Rightarrow> uuid \<Rightarrow> uuid \<Rightarrow> unit otx" where
  "RevokeOAuthGrant now user gid = committed
     (bind_op (require ErrOAuthNotFound (\<lambda>db. \<exists>g \<in> set (od_grants db). gw_id g = gid \<and> gw_user g = user))
       (\<lambda>_. bind_op (writes (\<lambda>db. db\<lparr>od_grants := update_where (\<lambda>g. gw_id g = gid \<and> gw_user g = user)
              (\<lambda>g. g\<lparr>gw_revoked := COALESCE (gw_revoked g) now\<rparr>) (od_grants db)\<rparr>))
         (\<lambda>_. bind_op (GetGrant now gid)
           (\<lambda>grant. AppendAudit user (sg_TeamID grant) gid ''oauth.grant_revoked''))))"

definition ListOAuthGrants :: "time \<Rightarrow> uuid \<Rightarrow> StoredGrant list otx" where
  "ListOAuthGrants now user db =
     for_each (GetGrant now) (map gw_id (take 200 (sort_key (\<lambda>g. - gw_created g) (live_grants_of now user db)))) db"

subsection \<open>Pending requests\<close>

record OAuthPending =
  pe_Signature :: string
  pe_BrowserSignature :: string
  pe_Payload :: string
  pe_ExpiresAt :: time

definition CreateOAuthPending :: "time \<Rightarrow> OAuthPending \<Rightarrow> unit otx" where
  "CreateOAuthPending now p =
     (if length (pe_Signature p) \<noteq> 64 \<or> length (pe_BrowserSignature p) \<noteq> 64 \<or> length (pe_Payload p) > 65536
         \<or> \<not> pe_ExpiresAt p > now \<or> pe_ExpiresAt p > now + 16 * minute
      then abort (OAuthFailure ''invalid OAuth pending request'')
      else committed
        (bind_op (writes (\<lambda>db. db\<lparr>od_pending := filter (\<lambda>r. \<not> pw_expires r \<le> now) (od_pending db)\<rparr>))
          (\<lambda>_. bind_op (require ErrOAuthCapacity (\<lambda>db. length (od_pending db) < 4096))
            (\<lambda>_. bind_op (writes (\<lambda>db. db\<lparr>od_pending := filter (\<lambda>r. pw_browser r \<noteq> pe_BrowserSignature p) (od_pending db)\<rparr>))
              (\<lambda>_. bind_op (require (OAuthFailure ''duplicate'') (\<lambda>db. pe_Signature p \<notin> set (map pw_signature (od_pending db))))
                (\<lambda>_. writes (\<lambda>db. db\<lparr>od_pending := od_pending db @ [\<lparr>pw_signature = pe_Signature p,
                   pw_browser = pe_BrowserSignature p, pw_payload = pe_Payload p, pw_expires = pe_ExpiresAt p\<rparr>]\<rparr>)))))))"

definition pending_match :: "time \<Rightarrow> string \<Rightarrow> string \<Rightarrow> pending_row \<Rightarrow> bool" where
  "pending_match now signature browser r \<longleftrightarrow> pw_signature r = signature \<and> pw_browser r = browser \<and> pw_expires r > now"

definition GetOAuthPending :: "time \<Rightarrow> string \<Rightarrow> string \<Rightarrow> OAuthPending otx" where
  "GetOAuthPending now signature browser = reads (\<lambda>db.
     case find (pending_match now signature browser) (od_pending db) of
       None \<Rightarrow> Inl ErrOAuthNotFound
     | Some r \<Rightarrow> Inr \<lparr>pe_Signature = pw_signature r, pe_BrowserSignature = pw_browser r,
          pe_Payload = pw_payload r, pe_ExpiresAt = pw_expires r\<rparr>)"

definition ConsumePending :: "time \<Rightarrow> string \<Rightarrow> string \<Rightarrow> unit otx" where
  "ConsumePending now signature browser =
     bind_op (require ErrOAuthNotFound (\<lambda>db. filter (pending_match now signature browser) (od_pending db) \<noteq> []))
       (\<lambda>_. writes (\<lambda>db. db\<lparr>od_pending := filter (\<lambda>r. \<not> pending_match now signature browser r) (od_pending db)\<rparr>))"

subsection \<open>Registered clients\<close>

definition OAuthManagedClientPrefix :: string where "OAuthManagedClientPrefix = ''hk_client_''"

definition ListOAuthClients :: "uuid \<Rightarrow> client_row list otx" where
  "ListOAuthClients team = reads (\<lambda>db. Inr (filter (\<lambda>c. kw_tenant c = team \<and> kw_revoked c = None) (od_clients db)))"

definition GetOAuthClient :: "string \<Rightarrow> client_row otx" where
  "GetOAuthClient gid = reads (\<lambda>db.
     case find (\<lambda>c. kw_id c = gid \<and> kw_revoked c = None \<and> \<not> team_archived db (kw_tenant c)) (od_clients db) of
       None \<Rightarrow> Inl ErrOAuthNotFound | Some c \<Rightarrow> Inr c)"

definition CheckOAuthClient :: "string \<Rightarrow> string \<Rightarrow> unit otx" where
  "CheckOAuthClient gid revision =
     (if revision = [] then ret ()
      else require ErrOAuthInactive (\<lambda>db. length (filter (\<lambda>c. kw_id c = gid \<and> kw_revision c = revision
          \<and> kw_revoked c = None \<and> \<not> team_archived db (kw_tenant c)) (od_clients db)) = 1))"

definition administers :: "oauth_db \<Rightarrow> uuid \<Rightarrow> uuid \<Rightarrow> bool" where
  "administers db team actor \<longleftrightarrow> length (filter (\<lambda>m. tm_tenant m = team \<and> tm_user m = actor
     \<and> (tm_role m = ''owner'' \<or> tm_role m = ''admin'')) (tenant_members (od_roles db))) = 1 \<and> \<not> team_archived db team"

text \<open>\<open>valid\<close> says whether the metadata is a JSON value.\<close>

definition SaveOAuthClient :: "(string \<Rightarrow> bool) \<Rightarrow> time \<Rightarrow> uuid \<Rightarrow> uuid \<Rightarrow> client_row \<Rightarrow> bool \<Rightarrow> bool \<Rightarrow> unit otx" where
  "SaveOAuthClient valid now actor team c create revoke =
     (if \<not> prefix OAuthManagedClientPrefix (kw_id c)
         \<or> (\<not> revoke \<and> (\<not> valid (kw_metadata c) \<or> length (kw_metadata c) > 65536))
      then abort ErrOAuthInactive
      else committed
        (bind_op (require ErrOAuthNotFound (\<lambda>db. administers db team actor)) (\<lambda>_.
          bind_op
           (if create then
              bind_op (require ErrOAuthCapacity (\<lambda>db. length (filter (\<lambda>k. kw_tenant k = team \<and> kw_revoked k = None)
                  (od_clients db)) < 128))
                (\<lambda>_. bind_op (require (OAuthFailure ''duplicate'') (\<lambda>db. kw_id c \<notin> set (map kw_id (od_clients db))))
                  (\<lambda>_. writes (\<lambda>db. db\<lparr>od_clients := od_clients db @ [c\<lparr>kw_tenant := team, kw_revoked := None\<rparr>]\<rparr>)))
            else
              let own = (\<lambda>k. kw_id k = kw_id c \<and> kw_tenant k = team \<and> kw_revoked k = None) in
              bind_op (require ErrOAuthNotFound (\<lambda>db. length (filter own (od_clients db)) = 1))
                (\<lambda>_. bind_op (writes (\<lambda>db. db\<lparr>od_clients := update_where own
                       (\<lambda>k. if revoke then k\<lparr>kw_revoked := Some now, kw_revision := kw_revision c\<rparr>
                            else k\<lparr>kw_metadata := kw_metadata c, kw_revision := kw_revision c\<rparr>) (od_clients db)\<rparr>))
                  (\<lambda>_. writes (\<lambda>db. db\<lparr>od_grants := update_where (\<lambda>g. gw_client g = kw_id c \<and> gw_revoked g = None)
                       (\<lambda>g. g\<lparr>gw_revoked := Some now\<rparr>) (od_grants db)\<rparr>))))
           (\<lambda>_. writes (\<lambda>db. db\<lparr>od_audit := od_audit db @ [(actor, team, uuid_Nil,
               if create then ''oauth.client_registered'' else if revoke then ''oauth.client_revoked''
               else ''oauth.client_updated'')]\<rparr>)))))"

text \<open>Deleting a user removes the user's grants with the rows that name them.\<close>

definition drop_user_grant :: "uuid \<Rightarrow> uuid \<Rightarrow> oauth_db \<Rightarrow> oauth_db" where
  "drop_user_grant user gid db = db\<lparr>
     od_credentials := filter (\<lambda>c. cw_grant c \<noteq> gid) (od_credentials db),
     od_grant_sites := filter (\<lambda>(g, _). g \<noteq> gid) (od_grant_sites db),
     od_grants := filter (\<lambda>g. \<not> (gw_id g = gid \<and> gw_user g = user)) (od_grants db)\<rparr>"

definition cleanupOAuthUserRows :: "uuid \<Rightarrow> unit otx" where
  "cleanupOAuthUserRows user = writes (\<lambda>db.
     fold (drop_user_grant user) (map gw_id (filter (\<lambda>g. gw_user g = user) (od_grants db))) db)"

end
