(* ===== verification/OAuth_Provider.thy ===== *)
theory OAuth_Provider
  imports OAuth_Store
begin

text \<open>
  The OAuth provider: opaque tokens (\<open>oauth/opaque.go\<close>), the storage adapter
  (\<open>oauth/storage.go\<close>), the token, revocation and authentication endpoints
  (\<open>oauth/provider.go\<close>) and the consent flow (\<open>oauth/consent.go\<close>).  The protocol
  library is the parameter \<open>core\<close>: a program on the storage adapter.
\<close>

subsection \<open>Opaque tokens\<close>

definition accessTokenPrefix :: string where "accessTokenPrefix = ''hk_oauth_at_''"
definition refreshTokenPrefix :: string where "refreshTokenPrefix = ''hk_oauth_rt_''"
definition authorizeCodePrefix :: string where "authorizeCodePrefix = ''hk_oauth_ac_''"

definition IsAccessToken :: "string \<Rightarrow> bool" where
  "IsAccessToken token \<longleftrightarrow> prefix accessTokenPrefix token"

definition IsOAuthToken :: "string \<Rightarrow> bool" where
  "IsOAuthToken token \<longleftrightarrow> prefix ''hk_oauth_'' token"

definition tokenSignature :: "oauth_lib \<Rightarrow> string \<Rightarrow> string" where
  "tokenSignature L token = ol_hash L token"

definition validOpaqueToken :: "oauth_lib \<Rightarrow> string \<Rightarrow> string \<Rightarrow> bool" where
  "validOpaqueToken L token pre \<longleftrightarrow> prefix pre token \<and> length (drop (length pre) token) = 43
     \<and> ol_b64_length L (drop (length pre) token) = Some 32"

datatype fosite_err = FNotFound | FInactiveToken | FInvalidatedCode | FSerializationFailure | FServerError
  | FInvalidGrant | FTemporarilyUnavailable | FInvalidTokenFormat | FTokenExpired | FInvalidClient | FInvalidRequest
  | FStore oauth_err

text \<open>The request is the session of the stored request; a token without an expiry is expired.\<close>

definition validateOpaqueToken :: "oauth_lib \<Rightarrow> time \<Rightarrow> string \<Rightarrow> string \<Rightarrow> oauthSession option \<Rightarrow> token_type
    \<Rightarrow> fosite_err option" where
  "validateOpaqueToken L now token pre session kind =
     (case session of
        None \<Rightarrow> Some FInvalidTokenFormat
      | Some s \<Rightarrow>
          if \<not> validOpaqueToken L token pre then Some FInvalidTokenFormat
          else let expires = GetExpiresAt kind s in
            if IsZero expires \<or> \<not> now < expires then Some FTokenExpired else None)"

subsection \<open>Storage adapter\<close>

record provider =
  pv_APIResource :: string
  pv_MCPResource :: string
  pv_mcpEnabled :: bool
  pv_browserKey :: string

record providerOperation =
  op_tx :: oauth_db
  op_client :: ClientMetadata
  op_resource :: string
  op_securityRevocation :: bool
  op_rollback :: bool
  op_revoking :: bool

type_synonym 'a storage = "(providerOperation, fosite_err, 'a) prog"

definition storageError :: "oauth_err \<Rightarrow> fosite_err" where
  "storageError e = (case e of ErrOAuthNotFound \<Rightarrow> FNotFound | ErrOAuthConsumed \<Rightarrow> FInactiveToken
     | ErrOAuthConflict \<Rightarrow> FSerializationFailure | _ \<Rightarrow> FStore e)"

text \<open>A store operation on the transaction of the operation, its errors translated.\<close>

definition on_tx :: "'a otx \<Rightarrow> 'a storage" where
  "on_tx m p = (case m (op_tx p) of
     (Inl e, db) \<Rightarrow> (Inl (storageError e), p\<lparr>op_tx := db\<rparr>) | (Inr x, db) \<Rightarrow> (Inr x, p\<lparr>op_tx := db\<rparr>))"

text \<open>What the adapter reads of a request of the protocol library.\<close>

record Requester =
  rr_ID :: string
  rr_RequestedAt :: time
  rr_ClientID :: string
  rr_RequestedScopes :: "string list"
  rr_GrantedScopes :: "string list"
  rr_RedirectURI :: string
  rr_Challenge :: string
  rr_ChallengeMethod :: string
  rr_Session :: "oauthSession option"

definition storage_GetClient :: "string \<Rightarrow> ClientMetadata storage" where
  "storage_GetClient cid p = (if cm_ID (op_client p) \<noteq> cid then (Inl FNotFound, p) else (Inr (op_client p), p))"

definition storage_Rollback :: "unit storage" where
  "storage_Rollback p = (Inr (), p\<lparr>op_rollback := True\<rparr>)"

definition snapshot_of :: "Requester \<Rightarrow> oauthSession \<Rightarrow> providerOperation \<Rightarrow> storedRequest" where
  "snapshot_of r session p = \<lparr>sr_ID = rr_ID r, sr_RequestedAt = rr_RequestedAt r, sr_Client = op_client p,
     sr_RequestedScopes = rr_RequestedScopes r, sr_GrantedScopes = rr_GrantedScopes r, sr_Audience = op_resource p,
     sr_RedirectURI = rr_RedirectURI r, sr_Challenge = rr_Challenge r, sr_ChallengeMethod = rr_ChallengeMethod r,
     sr_Session = session\<rparr>"

definition save :: "oauth_lib \<Rightarrow> time \<Rightarrow> string \<Rightarrow> string \<Rightarrow> string \<Rightarrow> Requester \<Rightarrow> unit storage" where
  "save L now kind signature accessSignature r p =
     (case rr_Session r of
        None \<Rightarrow> (Inl FServerError, p)
      | Some session \<Rightarrow>
          if rr_ID r \<noteq> ol_String L (se_GrantID session) \<or> cm_ID (op_client p) \<noteq> rr_ClientID r
          then (Inl FServerError, p)
          else
            let snapshot = snapshot_of r session p;
                tokenKind = (if kind = ''access'' then AccessToken else if kind = ''refresh'' then RefreshToken else AuthorizeCode)
            in bind_op (on_tx (GetGrant now (se_GrantID session)))
                 (\<lambda>grant. on_tx (CreateCredential L now \<lparr>cr_Kind = kind, cr_Signature = signature,
                    cr_GrantID = se_GrantID session, cr_TeamID = sg_TeamID grant, cr_Payload = snapshot,
                    cr_AccessSignature = accessSignature, cr_ExpiresAt = GetExpiresAt tokenKind session,
                    cr_Consumed = False, cr_Revoked = False\<rparr>)) p)"

definition request_of :: "storedRequest \<Rightarrow> Requester" where
  "request_of s = \<lparr>rr_ID = sr_ID s, rr_RequestedAt = sr_RequestedAt s, rr_ClientID = cm_ID (sr_Client s),
     rr_RequestedScopes = sr_RequestedScopes s, rr_GrantedScopes = sr_GrantedScopes s,
     rr_RedirectURI = sr_RedirectURI s, rr_Challenge = sr_Challenge s, rr_ChallengeMethod = sr_ChallengeMethod s,
     rr_Session = Some (sr_Session s)\<rparr>"

text \<open>A load may return the request together with an error.\<close>

definition load :: "oauth_lib \<Rightarrow> time \<Rightarrow> string \<Rightarrow> string \<Rightarrow> providerOperation \<Rightarrow> Requester option \<times> fosite_err option" where
  "load L now kind signature p =
     (case fst (GetCredential kind signature (op_tx p)) of
        Inl e \<Rightarrow> (None, Some (storageError e))
      | Inr credential \<Rightarrow>
          (case fst (GetGrant now (cr_GrantID credential) (op_tx p)) of
             Inl e \<Rightarrow> (None, Some (storageError e))
           | Inr grant \<Rightarrow>
               let snapshot = cr_Payload credential in
               if sr_ID snapshot \<noteq> ol_String L (sg_ID grant) \<or> se_GrantID (sr_Session snapshot) \<noteq> sg_ID grant
                  \<or> cm_ID (sr_Client snapshot) \<noteq> sg_ClientID grant \<or> sr_Audience snapshot \<noteq> sg_Audience grant
                  \<or> cm_ID (op_client p) \<noteq> sg_ClientID grant \<or> op_resource p \<noteq> sg_Audience grant
               then (None, Some FNotFound)
               else let request = request_of snapshot in
                 if op_revoking p then (Some request, None)
                 else if cr_Consumed credential
                 then (Some request, Some (if kind = ''code'' then FInvalidatedCode else FInactiveToken))
                 else if cr_Revoked credential \<or> \<not> sg_Active grant then (Some request, Some FNotFound)
                 else (Some request, None)))"

definition InvalidateAuthorizeCodeSession :: "time \<Rightarrow> string \<Rightarrow> unit storage" where
  "InvalidateAuthorizeCodeSession now sig = on_tx (ConsumeCredential now ''code'' sig)"

definition DeleteAccessTokenSession :: "time \<Rightarrow> string \<Rightarrow> unit storage" where
  "DeleteAccessTokenSession now sig = on_tx (RevokeCredential now ''access'' sig)"

definition DeletePKCERequestSession :: "time \<Rightarrow> string \<Rightarrow> unit storage" where
  "DeletePKCERequestSession now sig = on_tx (ConsumeCredential now ''pkce'' sig)"

definition DeleteRefreshTokenSession :: "time \<Rightarrow> string \<Rightarrow> unit storage" where
  "DeleteRefreshTokenSession now sig p =
     (case ConsumeCredential now ''refresh'' sig (op_tx p) of
        (Inl ErrOAuthConsumed, db) \<Rightarrow> (Inr (), p\<lparr>op_tx := db\<rparr>)
      | _ \<Rightarrow> on_tx (ConsumeCredential now ''refresh'' sig) p)"

definition RotateRefreshToken :: "oauth_lib \<Rightarrow> time \<Rightarrow> string \<Rightarrow> string \<Rightarrow> unit storage" where
  "RotateRefreshToken L now requestID sig =
     bind_op (on_tx (GetCredential ''refresh'' sig)) (\<lambda>c.
       if ol_String L (cr_GrantID c) \<noteq> requestID then abort FNotFound
       else bind_op (on_tx (ConsumeCredential now ''refresh'' sig)) (\<lambda>_.
         if cr_AccessSignature c \<noteq> [] then on_tx (RevokeCredential now ''access'' (cr_AccessSignature c))
         else ret ()))"

definition revokeFamily :: "oauth_lib \<Rightarrow> time \<Rightarrow> string \<Rightarrow> unit storage" where
  "revokeFamily L now requestID =
     (case ol_Parse L requestID of
        None \<Rightarrow> abort FNotFound
      | Some gid \<Rightarrow> bind_op (on_tx (RevokeGrant now gid)) (\<lambda>_. writes (\<lambda>p. p\<lparr>op_securityRevocation := True\<rparr>)))"

text \<open>
  The calls the protocol library can make; what it does in an operation is a sequence of them.  The
  loads change nothing and are left out.
\<close>

inductive storage_call :: "oauth_lib \<Rightarrow> time \<Rightarrow> providerOperation \<Rightarrow> providerOperation \<Rightarrow> bool" for L now where
  save: "kind \<in> {''code'', ''access'', ''refresh'', ''pkce''}
     \<Longrightarrow> storage_call L now p (snd (save L now kind sig asig r p))"
| invalidate_code: "storage_call L now p (snd (InvalidateAuthorizeCodeSession now sig p))"
| delete_access: "storage_call L now p (snd (DeleteAccessTokenSession now sig p))"
| delete_refresh: "storage_call L now p (snd (DeleteRefreshTokenSession now sig p))"
| delete_pkce: "storage_call L now p (snd (DeletePKCERequestSession now sig p))"
| rotate: "storage_call L now p (snd (RotateRefreshToken L now rid sig p))"
| revoke_family: "storage_call L now p (snd (revokeFamily L now rid p))"
| rollback: "storage_call L now p (snd (storage_Rollback p))"

definition storage_calls :: "oauth_lib \<Rightarrow> time \<Rightarrow> providerOperation \<Rightarrow> providerOperation \<Rightarrow> bool" where
  "storage_calls L now = (storage_call L now)\<^sup>*\<^sup>*"

text \<open>A program of the protocol library that only uses the storage.\<close>

definition uses_storage :: "oauth_lib \<Rightarrow> time \<Rightarrow> 'a storage \<Rightarrow> bool" where
  "uses_storage L now core \<longleftrightarrow> (\<forall>p. storage_calls L now p (snd (core p)))"

subsection \<open>Scopes of a resource\<close>

definition ScopeSitesRead :: string where "ScopeSitesRead = ''sites:read''"
definition ScopeAnalyticsRead :: string where "ScopeAnalyticsRead = ''analytics:read''"
definition ScopeTrackingDomainsRead :: string where "ScopeTrackingDomainsRead = ''tracking_domains:read''"
definition ScopeIngestWrite :: string where "ScopeIngestWrite = ''ingest:write''"

definition scopesForResource :: "provider \<Rightarrow> string \<Rightarrow> string list" where
  "scopesForResource P resource =
     (if resource = pv_APIResource P
      then [ScopeSitesRead, ScopeAnalyticsRead, ScopeTrackingDomainsRead, ScopeIngestWrite]
      else if pv_mcpEnabled P \<and> resource = pv_MCPResource P then [ScopeSitesRead, ScopeAnalyticsRead]
      else [])"

subsection \<open>Endpoints\<close>

datatype auth_err = ErrUnavailable | ErrInvalidToken | ErrInvalidConsent | ErrConsentForbidden | ConsentStore oauth_err

text \<open>\<open>ready\<close> says whether this node leads, when asked first and last.\<close>

definition Authenticate :: "oauth_lib \<Rightarrow> provider \<Rightarrow> bool \<times> bool \<Rightarrow> time \<Rightarrow> string \<Rightarrow> string \<Rightarrow> oauth_db
    \<Rightarrow> auth_err + OAuthGrant option" where
  "Authenticate L P ready now token audience db =
     (if \<not> IsOAuthToken token then Inr None
      else if \<not> fst ready then Inl ErrUnavailable
      else if \<not> validOpaqueToken L token accessTokenPrefix \<or> length (scopesForResource P audience) = 0
      then Inl ErrInvalidToken
      else case fst (GetCredential ''access'' (tokenSignature L token) db) of
        Inl e \<Rightarrow> Inl (if e = ErrOAuthNotFound then ErrInvalidToken else ErrUnavailable)
      | Inr c \<Rightarrow>
          if cr_Consumed c \<or> cr_Revoked c \<or> \<not> now < cr_ExpiresAt c then Inl ErrInvalidToken
          else case fst (GetGrant now (cr_GrantID c) db) of
            Inl e \<Rightarrow> Inl (if e = ErrOAuthNotFound then ErrInvalidToken else ErrUnavailable)
          | Inr grant \<Rightarrow>
              if \<not> sg_Active grant \<or> sg_Audience grant \<noteq> audience then Inl ErrInvalidToken
              else if \<not> snd ready then Inl ErrUnavailable
              else Inr (Some \<lparr>gr_ID = sg_ID grant, gr_UserID = sg_UserID grant, gr_TeamID = sg_TeamID grant,
                     gr_SiteIDs = sg_SiteIDs grant, gr_Scopes = sg_Scopes grant, gr_Audience = sg_Audience grant\<rparr>))"

type_synonym form = "string \<Rightarrow> string option"

definition Get :: "form \<Rightarrow> string \<Rightarrow> string" where
  "Get f k = (case f k of Some v \<Rightarrow> v | None \<Rightarrow> [])"

datatype 'r token_result = TokenError string | CoreError fosite_err | Conflicted | Issued 'r

text \<open>
  What one attempt of the token endpoint meets: the time, whether a transaction can be begun, whether
  the provider is still ready, the result of the commit, whether the grant can be read and the audit
  entry written after it, and the protocol library.
\<close>

record 'r token_env =
  te_now :: time
  te_begin :: bool
  te_ready :: bool
  te_commit :: "oauth_err option"
  te_audit :: bool
  te_core :: "form \<Rightarrow> 'r storage"

text \<open>The audit of a reuse follows the commit; when it fails that is only logged.\<close>

definition reuse_audit :: "bool \<Rightarrow> time \<Rightarrow> uuid \<Rightarrow> bool \<Rightarrow> oauth_db \<Rightarrow> oauth_db" where
  "reuse_audit ok now gid refresh db =
     (if \<not> ok then db
      else case fst (GetOAuthGrant now gid db) of
        Inl _ \<Rightarrow> db
      | Inr grant \<Rightarrow> snd (AppendAudit (sg_UserID grant) (sg_TeamID grant) (sg_ID grant)
          (if refresh then ''oauth.refresh_reused'' else ''oauth.code_reused'') db))"

definition core_form :: "string \<Rightarrow> storedRequest \<Rightarrow> form \<Rightarrow> form" where
  "core_form kind snapshot f =
     (let f = (if kind = ''code'' \<and> f ''redirect_uri'' = None then f(''redirect_uri'' \<mapsto> sr_RedirectURI snapshot) else f)
      in f(''audience'' \<mapsto> sr_Audience snapshot))"

text \<open>The end of an attempt: what the library returned decides whether the transaction is kept.\<close>

definition token_commit :: "'r token_env \<Rightarrow> string \<Rightarrow> storedRequest \<Rightarrow> (fosite_err + 'r) \<Rightarrow> providerOperation \<Rightarrow> oauth_db
    \<Rightarrow> 'r token_result \<times> oauth_db" where
  "token_commit env kind snapshot r p db =
     (let r = (case r of Inl e \<Rightarrow> Inl e | Inr x \<Rightarrow>
            if \<not> te_ready env \<or> op_rollback p then Inl FTemporarilyUnavailable else Inr x);
          commit = ((case r of Inl _ \<Rightarrow> False | Inr _ \<Rightarrow> True) \<or> op_securityRevocation p \<and> \<not> op_rollback p \<and> r = Inl FInvalidGrant)
      in if commit then
           (case te_commit env of
              Some e \<Rightarrow> ((if e = ErrOAuthConflict then Conflicted else CoreError (FStore e)), db)
            | None \<Rightarrow>
                ((case r of Inl e \<Rightarrow> CoreError e | Inr x \<Rightarrow> Issued x),
                 (if op_securityRevocation p
                  then reuse_audit (te_audit env) (te_now env) (se_GrantID (sr_Session snapshot)) (kind = ''refresh'') (op_tx p)
                  else op_tx p)))
         else ((case r of
             Inl e \<Rightarrow> if e = FSerializationFailure \<or> e = FStore ErrOAuthConflict then Conflicted else CoreError e
           | Inr x \<Rightarrow> Issued x), db))"

definition token_attempt :: "oauth_lib \<Rightarrow> 'r token_env \<Rightarrow> string \<Rightarrow> string \<Rightarrow> form \<Rightarrow> oauth_db \<Rightarrow> 'r token_result \<times> oauth_db" where
  "token_attempt L env kind raw f db =
     (if \<not> te_begin env then (TokenError ''temporarily_unavailable'', db)
      else case fst (GetCredential kind (tokenSignature L raw) db) of
        Inl e \<Rightarrow> (TokenError (if e \<noteq> ErrOAuthNotFound then ''temporarily_unavailable'' else ''invalid_grant''), db)
      | Inr credential \<Rightarrow>
          let snapshot = cr_Payload credential in
          if cm_ID (sr_Client snapshot) \<noteq> Get f ''client_id'' \<or> sr_Audience snapshot \<noteq> Get f ''resource''
          then (TokenError ''invalid_grant'', db)
          else if Get f ''scope'' \<noteq> [] \<and> Join (CHR '' '') (Fields (Get f ''scope'')) \<noteq> Join (CHR '' '') (sr_GrantedScopes snapshot)
          then (TokenError ''invalid_scope'', db)
          else
            let (r, p) = te_core env (core_form kind snapshot f)
                  \<lparr>op_tx = db, op_client = sr_Client snapshot, op_resource = sr_Audience snapshot,
                   op_securityRevocation = False, op_rollback = False, op_revoking = False\<rparr>
            in token_commit env kind snapshot r p db)"

text \<open>Conflicting attempts are repeated until the time is over: one environment per attempt.\<close>

fun token_attempts :: "oauth_lib \<Rightarrow> 'r token_env list \<Rightarrow> string \<Rightarrow> string \<Rightarrow> form \<Rightarrow> oauth_db \<Rightarrow> 'r token_result \<times> oauth_db" where
  "token_attempts L [] kind raw f db = (TokenError ''temporarily_unavailable'', db)"
| "token_attempts L (env # envs) kind raw f db =
     (case token_attempt L env kind raw f db of
        (Conflicted, db) \<Rightarrow> token_attempts L envs kind raw f db
      | (r, db) \<Rightarrow> (r, db))"

definition Token :: "oauth_lib \<Rightarrow> provider \<Rightarrow> bool \<Rightarrow> 'r token_env list \<Rightarrow> (fosite_err + form) \<Rightarrow> oauth_db
    \<Rightarrow> 'r token_result \<times> oauth_db" where
  "Token L P ready envs parsed db =
     (if \<not> ready then (TokenError ''temporarily_unavailable'', db)
      else case parsed of
        Inl e \<Rightarrow> (CoreError e, db)
      | Inr f \<Rightarrow>
          if Get f ''grant_type'' \<noteq> ''refresh_token'' \<and> Get f ''grant_type'' \<noteq> ''authorization_code''
          then (TokenError ''unsupported_grant_type'', db)
          else
            let (kind, raw, pre) = (if Get f ''grant_type'' = ''refresh_token''
                  then (''refresh'', Get f ''refresh_token'', refreshTokenPrefix)
                  else (''code'', Get f ''code'', authorizeCodePrefix))
            in if \<not> validOpaqueToken L raw pre \<or> Get f ''client_id'' = []
                  \<or> length (scopesForResource P (Get f ''resource'')) = 0
               then (TokenError ''invalid_grant'', db)
               else token_attempts L envs kind raw f db)"

datatype revoke_result = RevokeOk | RevokeUnavailable | RevokeError fosite_err

definition revoke_tx :: "bool \<Rightarrow> oauth_err option \<Rightarrow> unit storage \<Rightarrow> StoredGrant \<Rightarrow> OAuthCredential \<Rightarrow> oauth_db
    \<Rightarrow> revoke_result \<times> oauth_db" where
  "revoke_tx ready commit core grant c db =
     (case core \<lparr>op_tx = db, op_client = sr_Client (cr_Payload c), op_resource = sg_Audience grant,
              op_securityRevocation = False, op_rollback = False, op_revoking = True\<rparr> of
        (Inl _, _) \<Rightarrow> (RevokeUnavailable, db)
      | (Inr _, p) \<Rightarrow>
          if op_rollback p \<or> \<not> ready then (RevokeUnavailable, db)
          else case AppendAudit (sg_UserID grant) (sg_TeamID grant) (sg_ID grant) ''oauth.grant_revoked'' (op_tx p) of
                 (Inl _, _) \<Rightarrow> (RevokeUnavailable, db)
               | (Inr _, db') \<Rightarrow> if commit = None then (RevokeOk, db') else (RevokeUnavailable, db))"

definition Revoke :: "oauth_lib \<Rightarrow> bool \<times> bool \<Rightarrow> bool \<Rightarrow> time \<Rightarrow> oauth_err option \<Rightarrow> (form \<Rightarrow> unit storage)
    \<Rightarrow> (fosite_err + form) \<Rightarrow> oauth_db \<Rightarrow> revoke_result \<times> oauth_db" where
  "Revoke L ready begin_ok now commit core parsed db =
     (if \<not> fst ready then (RevokeUnavailable, db)
      else case parsed of
        Inl e \<Rightarrow> (RevokeError e, db)
      | Inr f \<Rightarrow>
          let raw = Get f ''token'';
              (kind, pre) = (if prefix refreshTokenPrefix raw then (''refresh'', refreshTokenPrefix)
                             else (''access'', accessTokenPrefix))
          in if \<not> validOpaqueToken L raw pre \<or> Get f ''client_id'' = [] then (RevokeOk, db)
             else if \<not> begin_ok then (RevokeUnavailable, db)
             else case fst (GetCredential kind (tokenSignature L raw) db) of
               Inl e \<Rightarrow> ((if e = ErrOAuthNotFound then RevokeOk else RevokeUnavailable), db)
             | Inr c \<Rightarrow>
                 (case fst (GetGrant now (cr_GrantID c) db) of
                    Inl _ \<Rightarrow> (RevokeUnavailable, db)
                  | Inr grant \<Rightarrow>
                      if sg_ClientID grant \<noteq> Get f ''client_id''
                         \<or> (Get f ''resource'' \<noteq> [] \<and> sg_Audience grant \<noteq> Get f ''resource'')
                      then (RevokeOk, db)
                      else revoke_tx (snd ready) commit (core f) grant c db))"

end
