(* ===== verification/OAuth_Consent.thy ===== *)
theory OAuth_Consent
  imports OAuth_Provider
begin

text \<open>
  Redirect destinations (\<open>oauth/client_metadata.go\<close>) and the consent flow
  (\<open>oauth/consent.go\<close>): the pending request that is bound to a browser, the consent token and
  the decision.  URL parsing, the HMAC and the encoding of the pending request are parameters.
\<close>

subsection \<open>Redirect destinations\<close>

record parsed_url =
  pu_Scheme :: string
  pu_Opaque :: string
  pu_User :: bool
  pu_Host :: string
  pu_Hostname :: string
  pu_Port :: string
  pu_Fragment :: string
  pu_RawFragment :: string
  pu_String :: string

text \<open>
  \<open>cl_loopback\<close> tells whether a host is the text of a loopback address without a zone;
  \<open>cl_with_host\<close> is the text of a URL after its host is replaced; \<open>cl_space\<close> is
  \<open>unicode.IsSpace\<close> of some rune of a string.
\<close>

record consent_lib =
  cl_Parse :: "string \<Rightarrow> parsed_url option"
  cl_with_host :: "parsed_url \<Rightarrow> string \<Rightarrow> string"
  cl_loopback :: "string \<Rightarrow> bool"
  cl_space :: "string \<Rightarrow> bool"
  cl_hmac :: "string \<Rightarrow> string \<Rightarrow> string"

definition port_ok :: "string \<Rightarrow> bool" where
  "port_ok port \<longleftrightarrow> port = [] \<or> (case Atoi port of None \<Rightarrow> False | Some n \<Rightarrow> \<not> (n < 1 \<or> n > 65535))"

definition contains_any :: "string \<Rightarrow> string \<Rightarrow> bool" where
  "contains_any s chars \<longleftrightarrow> list_ex (\<lambda>c. c \<in> set chars) s"

definition callbackURL :: "consent_lib \<Rightarrow> string \<Rightarrow> parsed_url option" where
  "callbackURL C raw =
     (case cl_Parse C raw of
        None \<Rightarrow> None
      | Some u \<Rightarrow>
          if length raw > 2048 \<or> pu_Hostname u = [] \<or> pu_Opaque u \<noteq> [] \<or> pu_User u \<or> pu_Fragment u \<noteq> []
             \<or> pu_RawFragment u \<noteq> [] \<or> contains_any raw [CHR ''#'', CHR 0x5C, CHR 0x0D, CHR 0x0A, CHR 0x09]
             \<or> cl_space C raw \<or> CHR ''*'' \<in> set (pu_Host u) \<or> suffix '':'' (pu_Host u) \<or> pu_String u \<noteq> raw
          then None
          else if \<not> port_ok (pu_Port u) then None
          else if pu_Scheme u = ''https'' then Some u
          else if pu_Scheme u \<noteq> ''http'' \<or> (pu_Hostname u \<noteq> ''localhost'' \<and> \<not> cl_loopback C (pu_Hostname u)) then None
          else
            let bracketed = (if CHR '':'' \<in> set (pu_Hostname u) then ''['' @ pu_Hostname u @ '']'' else pu_Hostname u);
                host = (if pu_Port u \<noteq> [] then bracketed @ '':'' @ pu_Port u else bracketed)
            in if pu_Host u \<noteq> host then None else Some u)"

definition redirectAllowed :: "consent_lib \<Rightarrow> ClientMetadata \<Rightarrow> string \<Rightarrow> bool" where
  "redirectAllowed C m redirect =
     (case callbackURL C redirect of
        None \<Rightarrow> False
      | Some requested \<Rightarrow>
          if redirect \<in> set (cm_RedirectURIs m) then True
          else if pu_Scheme requested \<noteq> ''http'' \<or> pu_Port requested = [] then False
          else list_ex (\<lambda>raw. case callbackURL C raw of
                 None \<Rightarrow> False
               | Some registered \<Rightarrow>
                   pu_Scheme registered = ''http'' \<and> pu_Hostname registered = pu_Hostname requested
                   \<and> cl_with_host C requested (pu_Host registered) = raw) (cm_RedirectURIs m))"

subsection \<open>Pending authorizations\<close>

record pendingAuthorization =
  pa_Client :: ClientMetadata
  pa_RedirectURI :: string
  pa_Resource :: string
  pa_Scopes :: "string list"
  pa_State :: string
  pa_Challenge :: string
  pa_ExpiresAt :: time

definition Unix :: "time \<Rightarrow> int" where
  "Unix t = t div second"

definition signedHandle :: "consent_lib \<Rightarrow> provider \<Rightarrow> string \<Rightarrow> int \<Rightarrow> string \<Rightarrow> string" where
  "signedHandle C P handle seconds browser =
     (let value = handle @ ''.'' @ FormatInt seconds
      in value @ ''.'' @ cl_hmac C (pv_browserKey P) (''pending'' @ [CHR 0x00] @ value @ [CHR 0x00] @ browser))"

definition csrfToken :: "consent_lib \<Rightarrow> oauth_lib \<Rightarrow> provider \<Rightarrow> string \<Rightarrow> string \<Rightarrow> uuid \<Rightarrow> string" where
  "csrfToken C L P signature browserSignature userID =
     cl_hmac C (pv_browserKey P) (''consent'' @ [CHR 0x00] @ signature @ [CHR 0x00] @ browserSignature @ [CHR 0x00] @ ol_String L userID)"

text \<open>The cookies of the request, the signed handle and the browser.\<close>

definition pending :: "consent_lib \<Rightarrow> oauth_lib \<Rightarrow> provider \<Rightarrow> (string \<Rightarrow> pendingAuthorization option) \<Rightarrow> bool \<Rightarrow> time
    \<Rightarrow> string option \<Rightarrow> string option \<Rightarrow> oauth_db \<Rightarrow> auth_err + pendingAuthorization \<times> string \<times> string" where
  "pending C L P decode ready now cookie browser db =
     (if \<not> ready then Inl ErrUnavailable
      else case (cookie, browser) of
        (Some cookie, Some browser) \<Rightarrow>
          if \<not> validOpaqueToken L browser [] then Inl ErrInvalidConsent
          else (case Split (CHR ''.'') cookie of
            [handle, seconds, mac] \<Rightarrow>
              if \<not> validOpaqueToken L handle [] then Inl ErrInvalidConsent
              else (case Atoi seconds of
                None \<Rightarrow> Inl ErrInvalidConsent
              | Some seconds \<Rightarrow>
                  if \<not> now < seconds * second then Inl ErrInvalidConsent
                  else if signedHandle C P handle seconds browser \<noteq> cookie then Inl ErrInvalidConsent
                  else (case fst (GetOAuthPending now (tokenSignature L handle) (tokenSignature L browser) db) of
                    Inl e \<Rightarrow> Inl (if e = ErrOAuthNotFound then ErrInvalidConsent else ErrUnavailable)
                  | Inr record \<Rightarrow>
                      (case decode (pe_Payload record) of
                         None \<Rightarrow> Inl ErrInvalidConsent
                       | Some pa \<Rightarrow>
                           if Unix (pa_ExpiresAt pa) \<noteq> seconds \<or> \<not> now < pa_ExpiresAt pa
                              \<or> \<not> redirectAllowed C (pa_Client pa) (pa_RedirectURI pa)
                           then Inl ErrInvalidConsent
                           else
                             let allowed = scopesForResource P (pa_Resource pa) in
                             if length allowed = 0 \<or> length (pa_Scopes pa) = 0
                                \<or> \<not> set (pa_Scopes pa) \<subseteq> set allowed
                             then Inl ErrInvalidConsent
                             else Inr (pa, pe_Signature record, pe_BrowserSignature record))))
          | _ \<Rightarrow> Inl ErrInvalidConsent)
      | _ \<Rightarrow> Inl ErrInvalidConsent)"

subsection \<open>The decision\<close>

definition grantLifetime :: duration where "grantLifetime = 90 * 24 * hour"

record consent_env =
  ce_now :: time
  ce_ready :: "bool \<times> bool \<times> bool"
  ce_begin :: "oauth_err option"
  ce_grant_id :: uuid
  ce_authorize :: "(OAuthGrant \<Rightarrow> uuid \<Rightarrow> oauth_db \<Rightarrow> auth_err option) option"
  ce_core :: "StoredGrant \<Rightarrow> oauthSession \<Rightarrow> pendingAuthorization \<Rightarrow> string storage"
  ce_commit :: "oauth_err option"

record consent_request =
  cq_signed :: "string option"
  cq_browser :: "string option"
  cq_user :: uuid
  cq_team :: uuid
  cq_sites :: "uuid list"
  cq_decision :: string
  cq_csrf :: string

datatype consent_result = Denied string | Approved string string | ConsentError auth_err | CoreRejected fosite_err

text \<open>The loop over the sites asks the given check for each.\<close>

fun sites_loop :: "(OAuthGrant \<Rightarrow> uuid \<Rightarrow> oauth_db \<Rightarrow> auth_err option) \<Rightarrow> OAuthGrant \<Rightarrow> oauth_db \<Rightarrow> uuid set \<Rightarrow> uuid list
    \<Rightarrow> auth_err option" where
  "sites_loop authorize grantee db seen [] = None"
| "sites_loop authorize grantee db seen (site # rest) =
     (if site = uuid_Nil \<or> site \<in> seen then Some ErrInvalidConsent
      else case authorize grantee site db of
             Some e \<Rightarrow> Some e
           | None \<Rightarrow> sites_loop authorize grantee db (insert site seen) rest)"

definition new_grant :: "consent_env \<Rightarrow> consent_request \<Rightarrow> pendingAuthorization \<Rightarrow> StoredGrant" where
  "new_grant env q pa = \<lparr>sg_ID = ce_grant_id env, sg_UserID = cq_user q, sg_TeamID = cq_team q,
     sg_ClientRevision = cm_RegistrationVersion (pa_Client pa), sg_ClientID = cm_ID (pa_Client pa),
     sg_ClientName = cm_Name (pa_Client pa), sg_ClientURI = cm_URI (pa_Client pa), sg_Audience = pa_Resource pa,
     sg_Scopes = pa_Scopes pa, sg_SiteIDs = cq_sites q, sg_CreatedAt = ce_now env,
     sg_ExpiresAt = ce_now env + grantLifetime, sg_LastUsedAt = None, sg_RevokedAt = None, sg_Active = False\<rparr>"

definition principal_of :: "StoredGrant \<Rightarrow> OAuthGrant" where
  "principal_of g = \<lparr>gr_ID = sg_ID g, gr_UserID = sg_UserID g, gr_TeamID = sg_TeamID g, gr_SiteIDs = sg_SiteIDs g,
     gr_Scopes = sg_Scopes g, gr_Audience = sg_Audience g\<rparr>"

text \<open>The transaction of an approval, after the pending request is consumed.\<close>

definition approve_tx :: "oauth_lib \<Rightarrow> consent_env \<Rightarrow> consent_request \<Rightarrow> pendingAuthorization \<Rightarrow> oauth_db
    \<Rightarrow> consent_result + string \<times> oauth_db" where
  "approve_tx L env q pa db =
     (let grant = new_grant env q pa in
      case sites_loop (the (ce_authorize env)) (principal_of grant) db {} (cq_sites q) of
        Some e \<Rightarrow> Inl (ConsentError e)
      | None \<Rightarrow>
          (case CheckOAuthClient (cm_ID (pa_Client pa)) (cm_RegistrationVersion (pa_Client pa)) db of
             (Inl _, _) \<Rightarrow> Inl (ConsentError ErrInvalidConsent)
           | (Inr _, db) \<Rightarrow>
               (case CreateGrant (ce_now env) grant db of
                  (Inl e, _) \<Rightarrow> Inl (ConsentError (ConsentStore e))
                | (Inr _, db) \<Rightarrow>
                    let p0 = \<lparr>op_tx = db, op_client = pa_Client pa, op_resource = pa_Resource pa,
                           op_securityRevocation = False, op_rollback = False, op_revoking = False\<rparr>;
                        session = \<lparr>se_Subject = ol_String L (cq_user q), se_GrantID = sg_ID grant,
                           se_GrantExpiry = sg_ExpiresAt grant, se_Expires = (\<lambda>_. None)\<rparr>
                    in case ce_core env grant session pa p0 of
                         (Inl e, _) \<Rightarrow> Inl (CoreRejected e)
                       | (Inr code, p) \<Rightarrow>
                           if \<not> snd (snd (ce_ready env)) \<or> op_rollback p then Inl (ConsentError ErrUnavailable)
                           else case AppendAudit (cq_user q) (cq_team q) (sg_ID grant) ''oauth.consent_approved'' (op_tx p) of
                                  (Inl e, _) \<Rightarrow> Inl (ConsentError (ConsentStore e))
                                | (Inr _, db) \<Rightarrow> Inr (code, db))))"

text \<open>The transaction of a decision; its first statement consumes the pending request.\<close>

definition deny_tx :: "consent_env \<Rightarrow> consent_request \<Rightarrow> pendingAuthorization \<Rightarrow> oauth_db \<Rightarrow> consent_result + string \<times> oauth_db" where
  "deny_tx env q pa db =
     (case AppendAudit (cq_user q) uuid_Nil uuid_Nil ''oauth.consent_denied'' db of
        (Inl e, _) \<Rightarrow> Inl (ConsentError (ConsentStore e))
      | (Inr _, db) \<Rightarrow>
          if \<not> snd (snd (ce_ready env)) then Inl (ConsentError ErrUnavailable)
          else case ce_commit env of
                 Some e \<Rightarrow> Inl (ConsentError (ConsentStore e))
               | None \<Rightarrow> Inr (pa_RedirectURI pa, db))"

definition decide_tx :: "oauth_lib \<Rightarrow> consent_env \<Rightarrow> consent_request \<Rightarrow> pendingAuthorization \<Rightarrow> string \<Rightarrow> string \<Rightarrow> oauth_db
    \<Rightarrow> consent_result \<times> oauth_db" where
  "decide_tx L env q pa signature browser db =
     (case ConsumePending (ce_now env) signature browser db of
        (Inl _, _) \<Rightarrow> (ConsentError ErrInvalidConsent, db)
      | (Inr _, db1) \<Rightarrow>
          if cq_decision q = ''deny'' then
            (case deny_tx env q pa db1 of
               Inl r \<Rightarrow> (r, db)
             | Inr (redirect, db2) \<Rightarrow> (Denied redirect, db2))
          else
            (case approve_tx L env q pa db1 of
               Inl r \<Rightarrow> (r, db)
             | Inr (code, db2) \<Rightarrow>
                 (case ce_commit env of
                    Some e \<Rightarrow> (ConsentError (ConsentStore e), db)
                  | None \<Rightarrow> (Approved (pa_RedirectURI pa) code, db2))))"

definition CompleteConsent :: "consent_lib \<Rightarrow> oauth_lib \<Rightarrow> provider \<Rightarrow> (string \<Rightarrow> pendingAuthorization option)
    \<Rightarrow> consent_env \<Rightarrow> consent_request \<Rightarrow> oauth_db \<Rightarrow> consent_result \<times> oauth_db" where
  "CompleteConsent C L P decode env q db =
     (if \<not> fst (ce_ready env) then (ConsentError ErrUnavailable, db)
      else if cq_user q = uuid_Nil \<or> length (cq_sites q) > 512 then (ConsentError ErrInvalidConsent, db)
      else case pending C L P decode (fst (snd (ce_ready env))) (ce_now env) (cq_signed q) (cq_browser q) db of
        Inl e \<Rightarrow> (ConsentError e, db)
      | Inr (pa, signature, browser) \<Rightarrow>
          if csrfToken C L P signature browser (cq_user q) \<noteq> cq_csrf q then (ConsentError ErrInvalidConsent, db)
          else if cq_decision q \<noteq> ''approve'' \<and> cq_decision q \<noteq> ''deny'' then (ConsentError ErrInvalidConsent, db)
          else if cq_decision q = ''approve'' \<and> cm_RegistrationTeamID (pa_Client pa) \<noteq> uuid_Nil
                  \<and> cm_RegistrationTeamID (pa_Client pa) \<noteq> cq_team q
          then (ConsentError ErrConsentForbidden, db)
          else if cq_decision q = ''approve'' \<and> (cq_team q = uuid_Nil \<or> length (cq_sites q) = 0 \<or> ce_authorize env = None)
          then (ConsentError ErrInvalidConsent, db)
          else case ce_begin env of
            Some e \<Rightarrow> (ConsentError (ConsentStore e), db)
          | None \<Rightarrow> decide_tx L env q pa signature browser db)"

end
