(* ===== verification/OAuth_Runs.thy ===== *)
theory OAuth_Runs
  imports OAuth_Consent
begin

text \<open>
  Invariants of the OAuth tables: contracts over the statements of the store, what follows from them
  for every operation, endpoint and run, and the two invariants the promises rest on, that a revoked
  grant stays revoked and that a used credential stays used.
\<close>

subsection \<open>Properties of the storage\<close>

text \<open>
  What the four statements of the storage adapter keep, the adapter keeps on its transaction, and so
  does the protocol library.
\<close>

locale storage_invariant =
  fixes I :: "oauth_db \<Rightarrow> bool"
  assumes create: "keeps I (CreateCredential L now c)"
    and consume: "keeps I (ConsumeCredential now kind sig)"
    and revoke_credential: "keeps I (RevokeCredential now kind sig)"
    and revoke_grant: "keeps I (RevokeGrant now gid)"
begin

lemma keeps_on_tx: "keeps I m \<Longrightarrow> keeps (\<lambda>p. I (op_tx p)) (on_tx m)"
  by (fastforce simp: keeps_def on_tx_def split: prod.splits sum.splits)

lemma keeps_op_writes: "(\<And>p. op_tx (f p) = op_tx p) \<Longrightarrow> keeps (\<lambda>p. I (op_tx p)) (writes f)"
  by (simp add: keeps_def writes_def)

lemma storage_call_keeps: "storage_call L now p q \<Longrightarrow> I (op_tx p) \<Longrightarrow> I (op_tx q)"
proof (induction rule: storage_call.induct)
  case (save kind p sig asig r)
  have k: "keeps (\<lambda>p. I (op_tx p)) (bind_op (on_tx (GetGrant now g)) (\<lambda>x. on_tx (CreateCredential L now (c x))))" for g c
    by (intro prog_rules keeps_on_tx create) (simp add: GetGrant_def keeps_def reads_def)
  show ?case
    using save keepsD [OF k] by (auto simp: save_def Let_def split: option.splits)
next
  case (invalidate_code p sig)
  then show ?case
    unfolding InvalidateAuthorizeCodeSession_def using keepsD [OF keeps_on_tx [OF consume]] by blast
next
  case (delete_access p sig)
  then show ?case
    unfolding DeleteAccessTokenSession_def using keepsD [OF keeps_on_tx [OF revoke_credential]] by blast
next
  case (delete_refresh p sig)
  have "I (op_tx (snd (on_tx (ConsumeCredential now ''refresh'' sig) p)))"
    using keepsD [OF keeps_on_tx [OF consume] delete_refresh] .
  moreover have "I (snd (ConsumeCredential now ''refresh'' sig (op_tx p)))"
    by (rule keepsD [OF consume delete_refresh])
  ultimately show ?case
    by (auto simp: DeleteRefreshTokenSession_def split: prod.splits sum.splits oauth_err.splits)
next
  case (delete_pkce p sig)
  then show ?case
    unfolding DeletePKCERequestSession_def using keepsD [OF keeps_on_tx [OF consume]] by blast
next
  case (rotate p rid sig)
  have "keeps (\<lambda>p. I (op_tx p)) (RotateRefreshToken L now rid sig)"
    unfolding RotateRefreshToken_def
    by (auto intro!: prog_rules keeps_on_tx consume revoke_credential simp: GetCredential_def keeps_def [of _ "reads f" for f] reads_def)
  with rotate show ?case by (rule keepsD [rotated])
next
  case (revoke_family p rid)
  have "keeps (\<lambda>p. I (op_tx p)) (revokeFamily L now rid)"
    unfolding revokeFamily_def
    by (auto split: option.splits intro!: prog_rules keeps_on_tx revoke_grant keeps_op_writes)
  with revoke_family show ?case by (rule keepsD [rotated])
qed (simp add: storage_Rollback_def)

lemma storage_calls_keep: "storage_calls L now p q \<Longrightarrow> I (op_tx p) \<Longrightarrow> I (op_tx q)"
  unfolding storage_calls_def
  by (induction rule: rtranclp_induct) (auto intro: storage_call_keeps)

lemma uses_storage_keeps: "uses_storage L now m \<Longrightarrow> I (op_tx p) \<Longrightarrow> I (op_tx (snd (m p)))"
  unfolding uses_storage_def using storage_calls_keep by blast

end

subsection \<open>Invariants of the tables\<close>

text \<open>
  An invariant of the OAuth tables that only depends on grants and credentials, and that the
  statements of the store keep.  \<open>fresh\<close> are the identifiers a new grant may have.
\<close>

definition drop_rows :: "(grant_row \<Rightarrow> bool) \<Rightarrow> uuid \<Rightarrow> oauth_db \<Rightarrow> oauth_db" where
  "drop_rows R i db = db\<lparr>
     od_credentials := filter (\<lambda>c. cw_grant c \<noteq> i) (od_credentials db),
     od_grant_sites := filter (\<lambda>(g, _). g \<noteq> i) (od_grant_sites db),
     od_grants := filter (\<lambda>g. \<not> (gw_id g = i \<and> R g)) (od_grants db)\<rparr>"

lemma drop_rows_simps:
  "drop_grant now i db = drop_rows (\<lambda>g. gw_expires g \<le> now) i db"
  "drop_user_grant user i db = drop_rows (\<lambda>g. gw_user g = user) i db"
  by (simp_all add: drop_grant_def drop_user_grant_def drop_rows_def)

lemma distinct_key_all:
  "distinct (map f xs) \<Longrightarrow> x \<in> set xs \<Longrightarrow> R x \<Longrightarrow> list_all (\<lambda>y. f y = f x \<longrightarrow> R y) xs"
  by (auto simp: list_all_iff dest: inj_onD simp: distinct_map)

locale table_invariant =
  fixes I :: "oauth_db \<Rightarrow> bool"
  assumes frame: "od_grants db' = od_grants db \<Longrightarrow> od_credentials db' = od_credentials db \<Longrightarrow> I db \<Longrightarrow> I db'"
    and create: "keeps I (CreateCredential L now c)"
    and update_credentials: "I db \<Longrightarrow> (\<And>c. cw_kind (f c) = cw_kind c \<and> cw_signature (f c) = cw_signature c
        \<and> cw_grant (f c) = cw_grant c \<and> (\<not> usable c \<longrightarrow> \<not> usable (f c)))
      \<Longrightarrow> I (db\<lparr>od_credentials := update_where P f (od_credentials db)\<rparr>)"
    and update_grants: "I db \<Longrightarrow> (\<And>g. gw_id (h g) = gw_id g \<and> gw_user (h g) = gw_user g \<and> gw_tenant (h g) = gw_tenant g
        \<and> (gw_revoked g \<noteq> None \<longrightarrow> gw_revoked (h g) \<noteq> None))
      \<Longrightarrow> I (db\<lparr>od_grants := update_where Q h (od_grants db)\<rparr>)"
begin

lemma keeps_Consume: "keeps I (ConsumeCredential now kind sig)"
  by (auto simp: keeps_def ConsumeCredential_def Let_def usable_def intro: update_credentials)

lemma keeps_RevokeCredential: "keeps I (RevokeCredential now kind sig)"
  unfolding RevokeCredential_def
  by (rule prog_keeps_writes) (auto simp: usable_def COALESCE_def split: option.splits intro!: update_credentials)

lemma keeps_RevokeGrant: "keeps I (RevokeGrant now gid)"
  unfolding RevokeGrant_def
  by (rule prog_keeps_writes) (auto simp: COALESCE_def split: option.splits intro!: update_grants)

lemma keeps_TouchGrant: "keeps I (TouchGrant now gid)"
  unfolding TouchGrant_def by (rule prog_keeps_writes) (auto intro!: update_grants)

lemma other_tables:
  assumes "I db"
  shows "I (db\<lparr>od_audit := a\<rparr>)" and "I (db\<lparr>od_pending := p\<rparr>)" and "I (db\<lparr>od_clients := k\<rparr>)"
    and "I (db\<lparr>od_grant_sites := s\<rparr>)"
  by (rule frame [OF _ _ assms], simp, simp)+

lemma keeps_AppendAudit: "keeps I (AppendAudit actor team gid action)"
  by (auto simp: AppendAudit_def other_tables intro!: prog_keeps_abort prog_keeps_writes)

lemma keeps_insert_site: "keeps I (insert_grant_site g s)"
  by (simp add: keeps_def insert_grant_site_def other_tables)

lemma keeps_sites: "keeps I (grant_sites_loop g seen ids)"
  by (induction g seen ids rule: grant_sites_loop.induct) (auto intro!: prog_rules keeps_insert_site)

lemma keeps_RevokeOAuthGrant: "keeps I (RevokeOAuthGrant now user gid)"
  unfolding RevokeOAuthGrant_def GetGrant_def
  by (intro prog_keeps_committed prog_rules prog_keeps_require prog_keeps_writes prog_keeps_reads keeps_AppendAudit)
    (auto simp: COALESCE_def split: option.splits intro!: update_grants)

lemma keeps_SaveOAuthClient: "keeps I (SaveOAuthClient valid now actor team c cr rv)"
proof -
  have u: "I (db\<lparr>od_grants := update_where (\<lambda>g. gw_client g = k \<and> gw_revoked g = None)
      (\<lambda>g. g\<lparr>gw_revoked := Some now\<rparr>) (od_grants db)\<rparr>)" if "I db" for db k
    using that by (auto intro: update_grants)
  show ?thesis
    unfolding SaveOAuthClient_def Let_def
    by (auto intro!: prog_rules prog_keeps_committed prog_keeps_require prog_keeps_writes simp: other_tables u)
qed

lemma keeps_CreateOAuthPending: "keeps I (CreateOAuthPending now p)"
  unfolding CreateOAuthPending_def
  by (auto intro!: prog_rules prog_keeps_committed prog_keeps_require prog_keeps_writes simp: other_tables)

lemma keeps_ConsumePending: "keeps I (ConsumePending now sig browser)"
  unfolding ConsumePending_def
  by (auto intro!: prog_rules prog_keeps_require prog_keeps_writes simp: other_tables)

lemma reuse_audit_keeps: "I db \<Longrightarrow> I (reuse_audit ok now gid r db)"
  by (auto simp: reuse_audit_def split: sum.splits intro!: keepsD [OF keeps_AppendAudit])

end


sublocale table_invariant \<subseteq> storage: storage_invariant I
  by unfold_locales (rule create keeps_Consume keeps_RevokeCredential keeps_RevokeGrant)+

text \<open>An invariant that also survives the end of a grant and the start of a new one.\<close>

locale oauth_invariant = table_invariant +
  fixes fresh :: "uuid \<Rightarrow> bool"
  assumes distinct: "I db \<Longrightarrow> distinct (map gw_id (od_grants db))"
    and drop: "I db \<Longrightarrow> list_all (\<lambda>g. gw_id g = i \<longrightarrow> R g) (od_grants db) \<Longrightarrow> I (drop_rows R i db)"
    and new_grant: "fresh (sg_ID g) \<Longrightarrow> keeps I (insert_grant g)"
begin

lemma fold_drop:
  "I db \<Longrightarrow> (\<And>i. i \<in> set ids \<Longrightarrow> list_all (\<lambda>g. gw_id g = i \<longrightarrow> R g) (od_grants db)) \<Longrightarrow> I (fold (drop_rows R) ids db)"
proof (induction ids arbitrary: db)
  case (Cons i ids)
  have "I (drop_rows R i db)"
    using Cons.prems by (auto intro: drop)
  moreover have "list_all (\<lambda>g. gw_id g = j \<longrightarrow> R g) (od_grants (drop_rows R i db))" if "j \<in> set ids" for j
    using Cons.prems(2) [of j] that by (auto simp: drop_rows_def list_all_iff)
  ultimately show ?case
    using Cons.IH by simp
qed simp

lemma fold_drop_rows_of:
  assumes "I db" and "set ids \<subseteq> gw_id ` {g \<in> set (od_grants db). R g}"
  shows "I (fold (drop_rows R) ids db)"
  using assms(1)
proof (rule fold_drop)
  fix i assume "i \<in> set ids"
  then obtain g where "g \<in> set (od_grants db)" "R g" "i = gw_id g"
    using assms(2) by auto
  then show "list_all (\<lambda>g. gw_id g = i \<longrightarrow> R g) (od_grants db)"
    using distinct_key_all [OF distinct [OF assms(1)]] by simp
qed

lemma prune: "keeps I (pruneExpiredGrants now)"
proof -
  have "I (fold (drop_rows R) (map gw_id (take 32 (sort_key gw_expires (filter R (od_grants db))))) db)" if "I db" for db R
    using that by (rule fold_drop_rows_of) (auto dest!: in_set_takeD)
  then show ?thesis
    by (simp add: pruneExpiredGrants_def keeps_def writes_def drop_rows_simps [abs_def] Let_def)
qed

lemma cleanup: "keeps I (cleanupOAuthUserRows user)"
proof -
  have "I (fold (drop_rows R) (map gw_id (filter R (od_grants db))) db)" if "I db" for db R
    using that by (rule fold_drop_rows_of) auto
  then show ?thesis
    by (simp add: cleanupOAuthUserRows_def keeps_def writes_def drop_rows_simps [abs_def])
qed

lemma keeps_CreateGrant: "fresh (sg_ID g) \<Longrightarrow> keeps I (CreateGrant now g)"
  unfolding CreateGrant_def
  by (intro prog_rules prune) (auto intro!: prog_rules prog_keeps_require new_grant keeps_sites)

end

subsection \<open>A revoked grant and a used credential\<close>

definition dead :: "uuid \<Rightarrow> oauth_db \<Rightarrow> bool" where
  "dead gid db \<longleftrightarrow> distinct (map gw_id (od_grants db))
     \<and> list_all (\<lambda>g. gw_id g = gid \<longrightarrow> gw_revoked g \<noteq> None) (od_grants db)"

definition settled :: "uuid \<Rightarrow> string \<Rightarrow> string \<Rightarrow> oauth_db \<Rightarrow> bool" where
  "settled gid kind sig db \<longleftrightarrow> distinct (map gw_id (od_grants db))
     \<and> list_all (\<lambda>c. is_credential kind sig c \<and> cw_grant c = gid \<longrightarrow> \<not> usable c) (od_credentials db)
     \<and> (list_ex (\<lambda>c. is_credential kind sig c \<and> cw_grant c = gid) (od_credentials db)
        \<or> list_all (\<lambda>g. gw_id g \<noteq> gid) (od_grants db))"

lemma distinct_filter_key: "distinct (map f xs) \<Longrightarrow> distinct (map f (filter P xs))"
  by (simp add: distinct_map_filter)

interpretation dead: oauth_invariant "dead gid" "\<lambda>i. i \<noteq> gid"
proof unfold_locales
  fix db db' :: oauth_db assume "od_grants db' = od_grants db" and "dead gid db"
  then show "dead gid db'" by (simp add: dead_def)
next
  fix L now c show "keeps (dead gid) (CreateCredential L now c)"
    by (simp add: keeps_def CreateCredential_def dead_def)
next
  fix db :: oauth_db and P f assume "dead gid db"
  then show "dead gid (db\<lparr>od_credentials := update_where P f (od_credentials db)\<rparr>)" by (simp add: dead_def)
next
  fix db :: oauth_db and Q and h :: "grant_row \<Rightarrow> grant_row"
  assume d: "dead gid db" and h: "\<And>g. gw_id (h g) = gw_id g \<and> gw_user (h g) = gw_user g \<and> gw_tenant (h g) = gw_tenant g
      \<and> (gw_revoked g \<noteq> None \<longrightarrow> gw_revoked (h g) \<noteq> None)"
  then show "dead gid (db\<lparr>od_grants := update_where Q h (od_grants db)\<rparr>)"
    using map_update_where [of gw_id h Q "od_grants db"] by (auto simp: dead_def intro: update_where_all)
next
  fix g :: StoredGrant assume "sg_ID g \<noteq> gid"
  then show "keeps (dead gid) (insert_grant g)"
    by (simp add: keeps_def insert_grant_def dead_def)
next
  fix db :: oauth_db and i R assume "dead gid db"
  then show "dead gid (drop_rows R i db)"
    by (auto simp: dead_def drop_rows_def list_all_iff distinct_filter_key)
qed (simp add: dead_def)

lemma settled_update:
  assumes "settled gid kind sig db"
    and f: "\<And>c. cw_kind (f c) = cw_kind c \<and> cw_signature (f c) = cw_signature c \<and> cw_grant (f c) = cw_grant c
      \<and> (\<not> usable c \<longrightarrow> \<not> usable (f c))"
  shows "settled gid kind sig (db\<lparr>od_credentials := update_where P f (od_credentials db)\<rparr>)"
proof -
  have i: "is_credential kind sig (f c) = is_credential kind sig c" for c
    using f by (simp add: is_credential_def)
  have "list_all (\<lambda>c. is_credential kind sig c \<and> cw_grant c = gid \<longrightarrow> \<not> usable c) (update_where P f (od_credentials db))"
    using assms(1) f i by (intro update_where_all) (auto simp: settled_def)
  moreover have "list_ex (\<lambda>c. is_credential kind sig c \<and> cw_grant c = gid) (update_where P f (od_credentials db))
      = list_ex (\<lambda>c. is_credential kind sig c \<and> cw_grant c = gid) (od_credentials db)"
    using f i by (intro update_where_ex) simp
  ultimately show ?thesis
    using assms(1) by (simp add: settled_def)
qed

lemma four_guards:
  assumes "snd (if a then (x, s) else if b then (y, s) else if c then (z, s) else if d then (w, s) else (v, t)) \<noteq> s"
  shows "snd (if a then (x, s) else if b then (y, s) else if c then (z, s) else if d then (w, s) else (v, t)) = t"
    and "\<not> c" and "\<not> d"
  using assms by (auto split: if_splits)

lemma CreateCredential_cases:
  obtains (same) "snd (CreateCredential L now c db) = db"
  | (created) r where "snd (CreateCredential L now c db) = db\<lparr>od_credentials := od_credentials db @ [r]\<rparr>"
      and "has_live_grant now (cw_grant r) (cw_tenant r) db"
      and "(cw_kind r, cw_signature r) \<notin> set (map (\<lambda>r. (cw_kind r, cw_signature r)) (od_credentials db))"
proof (cases "snd (CreateCredential L now c db) = db")
  case False
  let ?r = "\<lparr>cw_kind = cr_Kind c, cw_signature = cr_Signature c, cw_grant = cr_GrantID c, cw_tenant = cr_TeamID c,
     cw_payload = cr_Payload c, cw_access = cr_AccessSignature c, cw_expires = cr_ExpiresAt c,
     cw_consumed = None, cw_revoked = None\<rparr>"
  note guards = four_guards [OF False [unfolded CreateCredential_def]]
  have "snd (CreateCredential L now c db) = db\<lparr>od_credentials := od_credentials db @ [?r]\<rparr>"
    unfolding CreateCredential_def using guards(1) .
  moreover have "has_live_grant now (cw_grant ?r) (cw_tenant ?r) db"
    using guards(2) by (simp only: credential_row.simps not_not)
  moreover have "(cw_kind ?r, cw_signature ?r) \<notin> set (map (\<lambda>r. (cw_kind r, cw_signature r)) (od_credentials db))"
    using guards(3) by simp
  ultimately show thesis by (rule created)
qed (rule same)

lemma settled_create: "keeps (settled gid kind sig) (CreateCredential L now c)"
  unfolding keeps_def
proof (intro allI impI)
  fix db assume i: "settled gid kind sig db"
  show "settled gid kind sig (snd (CreateCredential L now c db))"
  proof (cases rule: CreateCredential_cases [of L now c db])
    case same
    then show ?thesis using i by simp
  next
    case (created r)
    then have "\<not> list_all (\<lambda>g. gw_id g \<noteq> cw_grant r) (od_grants db)"
      by (auto simp: has_live_grant_def list_all_iff)
    moreover have "\<not> list_ex (\<lambda>q. is_credential (cw_kind r) (cw_signature r) q \<and> cw_grant q = gid) (od_credentials db)"
    proof
      assume "list_ex (\<lambda>q. is_credential (cw_kind r) (cw_signature r) q \<and> cw_grant q = gid) (od_credentials db)"
      then obtain q where "q \<in> set (od_credentials db)" "cw_kind q = cw_kind r" "cw_signature q = cw_signature r"
        by (auto simp: list_ex_iff is_credential_def)
      then show False
        using created(3) by (metis (no_types, lifting) image_eqI set_map)
    qed
    ultimately have "\<not> (is_credential kind sig r \<and> cw_grant r = gid)"
      using i by (auto simp: settled_def is_credential_def)
    then show ?thesis
      using i created(1) by (auto simp: settled_def)
  qed
qed

interpretation settled: oauth_invariant "settled gid kind sig" "\<lambda>i. i \<noteq> gid"
proof unfold_locales
  fix db db' :: oauth_db
  assume "od_grants db' = od_grants db" "od_credentials db' = od_credentials db" "settled gid kind sig db"
  then show "settled gid kind sig db'" by (simp add: settled_def)
next
  fix L now c show "keeps (settled gid kind sig) (CreateCredential L now c)"
    by (rule settled_create)
next
  fix db P f
  assume "settled gid kind sig db" and "\<And>c. cw_kind (f c) = cw_kind c \<and> cw_signature (f c) = cw_signature c
    \<and> cw_grant (f c) = cw_grant c \<and> (\<not> usable c \<longrightarrow> \<not> usable (f c))"
  then show "settled gid kind sig (db\<lparr>od_credentials := update_where P f (od_credentials db)\<rparr>)"
    by (rule settled_update)
next
  fix db :: oauth_db and Q and h :: "grant_row \<Rightarrow> grant_row"
  assume d: "settled gid kind sig db" and h: "\<And>g. gw_id (h g) = gw_id g \<and> gw_user (h g) = gw_user g \<and> gw_tenant (h g) = gw_tenant g
      \<and> (gw_revoked g \<noteq> None \<longrightarrow> gw_revoked (h g) \<noteq> None)"
  then show "settled gid kind sig (db\<lparr>od_grants := update_where Q h (od_grants db)\<rparr>)"
    using map_update_where [of gw_id h Q "od_grants db"] by (auto simp: settled_def intro: update_where_all)
next
  fix g :: StoredGrant assume "sg_ID g \<noteq> gid"
  then show "keeps (settled gid kind sig) (insert_grant g)"
    by (auto simp: keeps_def insert_grant_def settled_def)
next
  fix db i R
  assume "settled gid kind sig db" and "list_all (\<lambda>g. gw_id g = i \<longrightarrow> R g) (od_grants db)"
  then show "settled gid kind sig (drop_rows R i db)"
    by (cases "i = gid") (auto simp: settled_def drop_rows_def distinct_filter_key list_all_iff list_ex_iff)
qed (simp add: settled_def)


subsection \<open>The endpoints keep the invariants\<close>

lemma token_commit_state:
  "snd (token_commit env kind snapshot r p db) = db \<or> snd (token_commit env kind snapshot r p db) = op_tx p
   \<or> snd (token_commit env kind snapshot r p db)
     = reuse_audit (te_audit env) (te_now env) (se_GrantID (sr_Session snapshot)) (kind = ''refresh'') (op_tx p)"
  by (simp add: token_commit_def Let_def del: not_None_eq not_Some_eq split: option.split)

context table_invariant
begin

lemma if_state: "I (snd x) \<Longrightarrow> I (snd y) \<Longrightarrow> I (snd (if b then x else y))"
  by simp

lemma token_commit_keeps: "I db \<Longrightarrow> I (op_tx p) \<Longrightarrow> I (snd (token_commit env kind snapshot r p db))"
  using token_commit_state [of env kind snapshot r p db] reuse_audit_keeps by auto

lemma token_attempt_keeps:
  assumes "\<And>f. uses_storage L (te_now env) (te_core env f)" and "I db"
  shows "I (snd (token_attempt L env kind raw f db))"
proof (cases "fst (GetCredential kind (tokenSignature L raw) db)")
  case (Inl e)
  then show ?thesis
    using assms(2) by (simp add: token_attempt_def)
next
  case (Inr c)
  let ?s = "cr_Payload c"
  let ?p0 = "\<lparr>op_tx = db, op_client = sr_Client ?s, op_resource = sr_Audience ?s,
    op_securityRevocation = False, op_rollback = False, op_revoking = False\<rparr>"
  obtain r p where c: "te_core env (core_form kind ?s f) ?p0 = (r, p)" by fastforce
  have "I (op_tx p)"
    using storage.uses_storage_keeps [OF assms(1), of ?p0 "core_form kind ?s f"] assms(2) c by simp
  then have "I (snd (token_commit env kind ?s r p db))"
    using assms(2) by (rule token_commit_keeps [rotated])
  then show ?thesis
    unfolding token_attempt_def Inr sum.case Let_def c prod.case by (intro if_state) (simp_all add: assms(2))
qed

lemma token_attempts_keep:
  assumes "\<And>env f. env \<in> set envs \<Longrightarrow> uses_storage L (te_now env) (te_core env f)" and "I db"
  shows "I (snd (token_attempts L envs kind raw f db))"
  using assms
proof (induction L envs kind raw f db rule: token_attempts.induct)
  case (2 L env envs kind raw f db)
  obtain r db1 where a: "token_attempt L env kind raw f db = (r, db1)" by fastforce
  have "I db1"
    using token_attempt_keeps [OF _ "2.prems"(2), of L env kind raw f] "2.prems"(1) a by simp
  moreover have "I (snd (token_attempts L envs kind raw f db1))" if "r = Conflicted"
    using "2.IH" [OF a [symmetric] that] "2.prems"(1) \<open>I db1\<close> by simp
  ultimately show ?case
    by (cases r) (simp_all add: a)
qed simp

lemma Token_keeps:
  assumes "\<And>env f. env \<in> set envs \<Longrightarrow> uses_storage L (te_now env) (te_core env f)" and "I db"
  shows "I (snd (Token L P ready envs parsed db))"
  using assms token_attempts_keep [OF assms] by (simp add: Token_def Let_def split: sum.split)

lemma revoke_tx_keeps:
  assumes "uses_storage L now core" and "I db"
  shows "I (snd (revoke_tx ready commit core grant c db))"
proof -
  let ?p0 = "\<lparr>op_tx = db, op_client = sr_Client (cr_Payload c), op_resource = sg_Audience grant,
    op_securityRevocation = False, op_rollback = False, op_revoking = True\<rparr>"
  obtain r p where c: "core ?p0 = (r, p)" by fastforce
  have "I (op_tx p)"
    using storage.uses_storage_keeps [OF assms(1), of ?p0] assms(2) c by simp
  then have "I (snd (AppendAudit u t i a (op_tx p)))" for u t i a
    by (rule keepsD [OF keeps_AppendAudit])
  then show ?thesis
    unfolding revoke_tx_def c using assms(2) by (auto split: sum.splits prod.splits) (metis snd_conv)
qed

lemma Revoke_keeps:
  assumes "\<And>f. uses_storage L now (core f)" and "I db"
  shows "I (snd (Revoke L ready begin_ok now commit core parsed db))"
proof -
  have "I (snd (revoke_tx r c (core f) g cr db))" for r c f g cr
    using assms by (rule revoke_tx_keeps)
  then show ?thesis
    using assms(2) unfolding Revoke_def Let_def
    by (auto split: sum.split prod.split)
qed

end

context oauth_invariant
begin

lemma approve_tx_keeps:
  assumes core: "\<And>g s p. uses_storage L (ce_now env) (ce_core env g s p)" and fresh: "fresh (ce_grant_id env)"
    and "I db" and a: "approve_tx L env q pa db = Inr (code, db2)"
  shows "I db2"
proof -
  let ?g = "new_grant env q pa"
  have same: "db1 = db" if "CheckOAuthClient a b db = (r, db1)" for a b r db1
    using that by (auto simp: CheckOAuthClient_def ret_def require_def split: if_splits)
  obtain db1 where c: "CreateGrant (ce_now env) ?g db = (Inr (), db1)"
    using a by (auto simp: approve_tx_def Let_def dest!: same split: option.splits prod.splits sum.splits if_splits)
  have "I db1"
    using keepsD [OF keeps_CreateGrant [of ?g], of db "ce_now env"] c fresh \<open>I db\<close> by (simp add: new_grant_def)
  let ?p0 = "\<lparr>op_tx = db1, op_client = pa_Client pa, op_resource = pa_Resource pa,
    op_securityRevocation = False, op_rollback = False, op_revoking = False\<rparr>"
  let ?s = "\<lparr>se_Subject = ol_String L (cq_user q), se_GrantID = sg_ID ?g, se_GrantExpiry = sg_ExpiresAt ?g,
    se_Expires = (\<lambda>_. None)\<rparr>"
  obtain r p where p: "ce_core env ?g ?s pa ?p0 = (r, p)" by fastforce
  have "I (op_tx p)"
    using storage.uses_storage_keeps [OF core, of ?p0 ?g ?s pa] \<open>I db1\<close> p by simp
  moreover have "AppendAudit (cq_user q) (cq_team q) (sg_ID ?g) ''oauth.consent_approved'' (op_tx p) = (Inr (), db2)"
    using a c p by (auto simp: approve_tx_def Let_def dest!: same split: option.splits prod.splits sum.splits if_splits)
  ultimately show ?thesis
    using keepsD [OF keeps_AppendAudit] by (metis snd_conv)
qed

lemma deny_tx_keeps: "deny_tx env q pa db = Inr (redirect, db2) \<Longrightarrow> I db \<Longrightarrow> I db2"
  using keepsD [OF keeps_AppendAudit] by (auto simp: deny_tx_def split: prod.splits sum.splits option.splits if_splits) (metis snd_conv)

lemma decide_tx_keeps:
  assumes "\<And>g s p. uses_storage L (ce_now env) (ce_core env g s p)" and "fresh (ce_grant_id env)" and "I db"
  shows "I (snd (decide_tx L env q pa signature browser db))"
proof -
  obtain r db1 where c: "ConsumePending (ce_now env) signature browser db = (r, db1)" by fastforce
  have "I db1"
    using keepsD [OF keeps_ConsumePending \<open>I db\<close>] c by (metis snd_conv)
  then show ?thesis
    unfolding decide_tx_def c using \<open>I db\<close> approve_tx_keeps [OF assms(1,2)] deny_tx_keeps
    by (auto split: sum.split prod.split option.split)
qed

lemma CompleteConsent_keeps:
  assumes "\<And>g s p. uses_storage L (ce_now env) (ce_core env g s p)" and "fresh (ce_grant_id env)" and "I db"
  shows "I (snd (CompleteConsent C L P decode env q db))"
  using decide_tx_keeps [OF assms, of q] assms(3) unfolding CompleteConsent_def
  by (auto split: sum.split prod.split option.split)

end

subsection \<open>Runs\<close>

text \<open>
  The state is the tables and the grant identifiers drawn so far; a new identifier is one not drawn
  before.  Users, teams, sites and memberships change by themselves.
\<close>

inductive oauth_step :: "consent_lib \<Rightarrow> oauth_lib \<Rightarrow> provider \<Rightarrow> (string \<Rightarrow> pendingAuthorization option)
    \<Rightarrow> oauth_db \<times> uuid set \<Rightarrow> oauth_db \<times> uuid set \<Rightarrow> bool" for C L P decode where
  token: "(\<And>env f. env \<in> set (envs :: string token_env list) \<Longrightarrow> uses_storage L (te_now env) (te_core env f))
     \<Longrightarrow> oauth_step C L P decode (db, drawn) (snd (Token L P ready envs parsed db), drawn)"
| revoke: "(\<And>f. uses_storage L now (core f))
     \<Longrightarrow> oauth_step C L P decode (db, drawn) (snd (Revoke L ready2 begin_ok now commit core parsed db), drawn)"
| consent: "(\<And>g s pa. uses_storage L (ce_now env) (ce_core env g s pa)) \<Longrightarrow> ce_grant_id env \<notin> drawn
     \<Longrightarrow> oauth_step C L P decode (db, drawn)
           (snd (CompleteConsent C L P decode env q db), insert (ce_grant_id env) drawn)"
| start: "oauth_step C L P decode (db, drawn) (snd (CreateOAuthPending now pe db), drawn)"
| revoke_grant: "oauth_step C L P decode (db, drawn) (snd (RevokeOAuthGrant now user g db), drawn)"
| client: "oauth_step C L P decode (db, drawn) (snd (SaveOAuthClient valid now actor team k create rv db), drawn)"
| touch: "oauth_step C L P decode (db, drawn) (snd (TouchGrant now g db), drawn)"
| delete_user: "oauth_step C L P decode (db, drawn) (snd (cleanupOAuthUserRows user db), drawn)"
| environment: "oauth_step C L P decode (db, drawn) (db\<lparr>od_roles := roles, od_users := users\<rparr>, drawn)"

definition oauth_run :: "consent_lib \<Rightarrow> oauth_lib \<Rightarrow> provider \<Rightarrow> (string \<Rightarrow> pendingAuthorization option)
    \<Rightarrow> oauth_db \<times> uuid set \<Rightarrow> oauth_db \<times> uuid set \<Rightarrow> bool" where
  "oauth_run C L P decode = (oauth_step C L P decode)\<^sup>*\<^sup>*"

context oauth_invariant
begin

lemma step_keeps:
  assumes "oauth_step C L P decode s t" and "I (fst s)" and "\<And>i. i \<notin> snd s \<Longrightarrow> fresh i"
  shows "I (fst t) \<and> (\<forall>i. i \<notin> snd t \<longrightarrow> fresh i)"
  using assms
proof (induction rule: oauth_step.induct)
  case (token envs db drawn ready parsed)
  then show ?case using Token_keeps [of envs L db P ready parsed] by simp
next
  case (revoke now core db drawn ready2 begin_ok commit parsed)
  then show ?case using Revoke_keeps [of L now core db ready2 begin_ok commit parsed] by simp
next
  case (consent env drawn db q)
  then show ?case using CompleteConsent_keeps [of L env db C P decode q] by simp
next
  case (start db drawn now pe)
  then show ?case using keepsD [OF keeps_CreateOAuthPending] by simp
next
  case (revoke_grant db drawn now user g)
  then show ?case using keepsD [OF keeps_RevokeOAuthGrant] by simp
next
  case (client db drawn valid now actor team k create rv)
  then show ?case using keepsD [OF keeps_SaveOAuthClient] by simp
next
  case (touch db drawn now g)
  then show ?case using keepsD [OF keeps_TouchGrant] by simp
next
  case (delete_user db drawn user)
  then show ?case using keepsD [OF cleanup] by simp
next
  case (environment db drawn users roles)
  then show ?case using frame [of "db\<lparr>od_roles := roles, od_users := users\<rparr>" db] by simp
qed

lemma run_keeps:
  assumes "oauth_run C L P decode s t" and "I (fst s)" and "\<And>i. i \<notin> snd s \<Longrightarrow> fresh i"
  shows "I (fst t)"
proof -
  have "I (fst t) \<and> (\<forall>i. i \<notin> snd t \<longrightarrow> fresh i)"
    using assms unfolding oauth_run_def
    by (induction rule: rtranclp_induct) (use step_keeps in blast)+
  then show ?thesis ..
qed

end

end
