(* ===== verification/OAuth_Promises.thy ===== *)
theory OAuth_Promises
  imports OAuth_Runs
begin

text \<open>
  What the OAuth endpoints promise: a token stands for current authority, a revoked grant and a used
  credential stay so in every run, a replayed credential revokes its family, and a grant exists only by
  consent.
\<close>

subsection \<open>Properties\<close>

lemma GetGrant_Inr:
  assumes "fst (GetGrant now gid db) = Inr g"
  obtains r where "r \<in> set (od_grants db)" and "gw_id r = gid" and "sg_ID g = gid" and "sg_UserID g = gw_user r"
    and "sg_TeamID g = gw_tenant r" and "sg_Audience g = gw_audience r" and "sg_Scopes g = gw_scopes r"
    and "sg_SiteIDs g = sort (map (\<lambda>(_, _, s). s) (filter (\<lambda>(i, t, s). i = gid \<and> t = gw_tenant r
               \<and> map_of (site_tenants (od_roles db)) s = Some t) (od_grant_sites db)))"
    and "sg_Active g \<longleftrightarrow> gw_user r \<in> set (od_users db) \<and> member_of db (gw_tenant r) (gw_user r)
               \<and> \<not> team_archived db (gw_tenant r)
               \<and> (gw_revision r = [] \<or> client_live db (gw_client r) (gw_tenant r))
               \<and> gw_revoked r = None \<and> now < gw_expires r \<and> sg_SiteIDs g \<noteq> []"
proof -
  from assms obtain r where f: "find (\<lambda>g. gw_id g = gid) (od_grants db) = Some r"
    by (auto simp: GetGrant_def reads_def split: option.splits)
  have "r \<in> set (od_grants db)" and i: "gw_id r = gid"
    using f by (auto simp: find_Some_iff in_set_conv_nth)
  then show thesis
    using assms f by (intro that [of r]) (auto simp: GetGrant_def reads_def Let_def)
qed

lemma GetCredential_Inr:
  assumes "fst (GetCredential kind sig db) = Inr c"
  obtains r where "r \<in> set (od_credentials db)" and "is_credential kind sig r" and "c = credential_of r"
  using assms by (auto simp: GetCredential_def reads_def find_Some_iff in_set_conv_nth split: option.splits)

lemma Authenticate_Some:
  assumes "Authenticate L P ready now token audience db = Inr (Some a)"
  obtains c g where "fst (GetCredential ''access'' (tokenSignature L token) db) = Inr c" and "\<not> cr_Consumed c"
    and "\<not> cr_Revoked c" and "now < cr_ExpiresAt c" and "fst (GetGrant now (cr_GrantID c) db) = Inr g"
    and "sg_Active g" and "sg_Audience g = audience" and "scopesForResource P audience \<noteq> []"
    and "validOpaqueToken L token accessTokenPrefix" and "a = principal_of g"
  using assms unfolding Authenticate_def principal_of_def
  by (auto split: if_splits sum.splits)

text \<open>
  C19. A token stands for current authority.  When \<open>Authenticate\<close> accepts an access token for an
  audience, the token's credential is stored, unused, unrevoked and unexpired; its grant is stored,
  unrevoked and unexpired, made for that audience and its scopes are the consented ones; the user still
  exists and is a member of the team, the team is not archived, a registered client still stands; and
  the sites are the consented ones that are still sites of the team, at least one.
\<close>

theorem access_token_authority:
  assumes "Authenticate L P ready now token audience db = Inr (Some a)"
  shows "\<exists>c \<in> set (od_credentials db). \<exists>g \<in> set (od_grants db).
      is_credential ''access'' (tokenSignature L token) c \<and> usable c \<and> now < cw_expires c \<and> gw_id g = cw_grant c
    \<and> gw_revoked g = None \<and> now < gw_expires g \<and> gw_audience g = audience
    \<and> (gw_revision g = [] \<or> client_live db (gw_client g) (gw_tenant g))
    \<and> gr_ID a = gw_id g \<and> gr_UserID a = gw_user g \<and> gr_TeamID a = gw_tenant g \<and> gr_Scopes a = gw_scopes g
    \<and> gr_Audience a = audience \<and> gw_user g \<in> set (od_users db) \<and> member_of db (gw_tenant g) (gw_user g)
    \<and> \<not> team_archived db (gw_tenant g) \<and> gr_SiteIDs a \<noteq> []
    \<and> set (gr_SiteIDs a) = {s. (gw_id g, gw_tenant g, s) \<in> set (od_grant_sites db)
         \<and> map_of (site_tenants (od_roles db)) s = Some (gw_tenant g)}"
proof -
  obtain c g where c: "fst (GetCredential ''access'' (tokenSignature L token) db) = Inr c" "\<not> cr_Consumed c"
      "\<not> cr_Revoked c" "now < cr_ExpiresAt c" and g: "fst (GetGrant now (cr_GrantID c) db) = Inr g"
    and a: "sg_Active g" "sg_Audience g = audience" "a = principal_of g"
    using assms by (rule Authenticate_Some)
  from c(1) obtain r where r: "r \<in> set (od_credentials db)" "is_credential ''access'' (tokenSignature L token) r"
      "c = credential_of r"
    by (rule GetCredential_Inr)
  from g show ?thesis
  proof (rule GetGrant_Inr)
    fix q assume q: "q \<in> set (od_grants db)" "gw_id q = cr_GrantID c" "sg_ID g = cr_GrantID c"
    assume "sg_UserID g = gw_user q" "sg_TeamID g = gw_tenant q" "sg_Audience g = gw_audience q" "sg_Scopes g = gw_scopes q"
      and "sg_SiteIDs g = sort (map (\<lambda>(_, _, s). s) (filter (\<lambda>(i, t, s). i = cr_GrantID c \<and> t = gw_tenant q
               \<and> map_of (site_tenants (od_roles db)) s = Some t) (od_grant_sites db)))"
      and "sg_Active g \<longleftrightarrow> gw_user q \<in> set (od_users db) \<and> member_of db (gw_tenant q) (gw_user q)
               \<and> \<not> team_archived db (gw_tenant q)
               \<and> (gw_revision q = [] \<or> client_live db (gw_client q) (gw_tenant q))
               \<and> gw_revoked q = None \<and> now < gw_expires q \<and> sg_SiteIDs g \<noteq> []"
    with q r c(2-4) a show ?thesis
      by (intro bexI [OF _ r(1)] bexI [OF _ q(1)]) (force simp: principal_of_def usable_def credential_of_def)
  qed
qed

text \<open>
  C22. A revoked grant stays revoked in every run of the provider and its environment: no token of it is
  accepted again, whatever is issued, consented, registered or deleted in between.
\<close>

theorem revoked_grant_is_final:
  assumes run: "oauth_run C L P decode (db, drawn) (db', drawn')"
    and "distinct (map gw_id (od_grants db))" and "gid \<in> drawn"
    and "list_all (\<lambda>g. gw_id g = gid \<longrightarrow> gw_revoked g \<noteq> None) (od_grants db)"
  shows "case Authenticate L P ready now token audience db' of Inr (Some a) \<Rightarrow> gr_ID a \<noteq> gid | _ \<Rightarrow> True"
proof -
  have "gr_ID a \<noteq> gid" if a: "Authenticate L P ready now token audience db' = Inr (Some a)" for a
  proof -
  have "dead gid db'"
    using dead.run_keeps [OF run, of gid] assms(2-4) by (auto simp: dead_def)
  moreover obtain c :: OAuthCredential and g where "fst (GetGrant now (cr_GrantID c) db') = Inr g" "sg_Active g" "a = principal_of g"
    using a by (rule Authenticate_Some) blast
  ultimately show ?thesis
    by (auto elim!: GetGrant_Inr simp: dead_def list_all_iff principal_of_def)
  qed
  then show ?thesis by (simp split: sum.split option.split)
qed

text \<open>
  A consumed or revoked credential is never usable for its grant again in any run: no later state
  loads a request of that grant from it without an error.
\<close>

theorem used_credential_is_final:
  assumes run: "oauth_run C L P decode (db, drawn) (db', drawn')"
    and "distinct (map gw_id (od_grants db))" and "gid \<in> drawn"
    and "list_all (\<lambda>c. is_credential kind sig c \<and> cw_grant c = gid \<longrightarrow> \<not> usable c) (od_credentials db)"
    and "list_ex (\<lambda>c. is_credential kind sig c \<and> cw_grant c = gid) (od_credentials db)"
  shows "list_all (\<lambda>c. \<not> (is_credential kind sig c \<and> cw_grant c = gid \<and> usable c)) (od_credentials db')
    \<and> (case load L now kind sig \<lparr>op_tx = db', op_client = client, op_resource = resource,
           op_securityRevocation = security, op_rollback = rollback, op_revoking = False\<rparr> of
         (Some r, None) \<Rightarrow> map_option se_GrantID (rr_Session r) \<noteq> Some gid | _ \<Rightarrow> True)"
proof -
  let ?p = "\<lparr>op_tx = db', op_client = client, op_resource = resource,
    op_securityRevocation = security, op_rollback = rollback, op_revoking = False\<rparr>"
  have s: "settled gid kind sig db'"
    using settled.run_keeps [OF run, of gid kind sig] assms(2-5) by (auto simp: settled_def)
  then have "list_all (\<lambda>c. \<not> (is_credential kind sig c \<and> cw_grant c = gid \<and> usable c)) (od_credentials db')"
    by (auto simp: settled_def list_all_iff)
  moreover have "map_option se_GrantID (rr_Session r) \<noteq> Some gid" if l: "load L now kind sig ?p = (Some r, None)" for r
  proof -
    obtain c g where c: "fst (GetCredential kind sig db') = Inr c" and g: "fst (GetGrant now (cr_GrantID c) db') = Inr g"
      using l by (auto simp: load_def split: sum.splits)
    obtain q where q: "q \<in> set (od_credentials db')" "is_credential kind sig q" "c = credential_of q"
      using c by (rule GetCredential_Inr)
    have "sg_ID g = cr_GrantID c"
      using g by (rule GetGrant_Inr) simp
    moreover have "map_option se_GrantID (rr_Session r) = Some (sg_ID g) \<and> \<not> cr_Consumed c \<and> \<not> cr_Revoked c"
      using l c g by (auto simp: load_def Let_def request_of_def split: if_splits)
    ultimately show ?thesis
      using s q by (auto simp: settled_def list_all_iff usable_def credential_of_def)
  qed
  ultimately show ?thesis
    by (auto split: option.split)
qed

lemma grants_CreateCredential: "od_grants (snd (CreateCredential L now c db)) = od_grants db"
  by (rule CreateCredential_cases [of L now c db]) simp_all

interpretation rows: table_invariant "\<lambda>db. map (\<lambda>g. (gw_id g, gw_user g, gw_tenant g)) (od_grants db) = rows"
proof unfold_locales
  fix L now c
  show "keeps (\<lambda>db. map (\<lambda>g. (gw_id g, gw_user g, gw_tenant g)) (od_grants db) = rows) (CreateCredential L now c)"
    by (simp add: keeps_def grants_CreateCredential)
next
  fix db :: oauth_db and Q and h :: "grant_row \<Rightarrow> grant_row"
  assume "map (\<lambda>g. (gw_id g, gw_user g, gw_tenant g)) (od_grants db) = rows"
    and "\<And>g. gw_id (h g) = gw_id g \<and> gw_user (h g) = gw_user g \<and> gw_tenant (h g) = gw_tenant g
      \<and> (gw_revoked g \<noteq> None \<longrightarrow> gw_revoked (h g) \<noteq> None)"
  then show "map (\<lambda>g. (gw_id g, gw_user g, gw_tenant g)) (od_grants (db\<lparr>od_grants := update_where Q h (od_grants db)\<rparr>)) = rows"
    by (simp add: map_update_where)
qed simp_all

text \<open>A security revocation stays noted in the operation.\<close>

lemma on_tx_flags: "op_securityRevocation (snd (on_tx m p)) = op_securityRevocation p"
  by (auto simp: on_tx_def split: prod.splits sum.splits)

lemma keeps_flag: "keeps op_securityRevocation (on_tx m)"
  by (simp add: keeps_def on_tx_flags)

lemma storage_call_flag: "storage_call L now p q \<Longrightarrow> op_securityRevocation p \<Longrightarrow> op_securityRevocation q"
proof (induction rule: storage_call.induct)
  case (save kind p sig asig r)
  have "keeps op_securityRevocation (bind_op (on_tx (GetGrant now g)) (\<lambda>x. on_tx (CreateCredential L now (c x))))" for g c
    by (intro prog_rules keeps_flag)
  from keepsD [OF this] save show ?case
    by (auto simp: save_def Let_def split: option.splits)
next
  case (rotate p rid sig)
  have "keeps op_securityRevocation (RotateRefreshToken L now rid sig)"
    unfolding RotateRefreshToken_def by (auto intro!: prog_rules keeps_flag)
  with rotate show ?case by (rule keepsD [rotated])
next
  case (revoke_family p rid)
  have "keeps op_securityRevocation (revokeFamily L now rid)"
    unfolding revokeFamily_def
    by (auto split: option.split intro!: prog_rules keeps_flag) (simp add: keeps_def writes_def)
  with revoke_family show ?case by (rule keepsD [rotated])
qed (auto simp: on_tx_flags InvalidateAuthorizeCodeSession_def DeleteAccessTokenSession_def DeleteRefreshTokenSession_def
  DeletePKCERequestSession_def storage_Rollback_def split: prod.splits sum.splits oauth_err.splits)

lemma storage_calls_flag: "storage_calls L now p q \<Longrightarrow> op_securityRevocation p \<Longrightarrow> op_securityRevocation q"
  unfolding storage_calls_def by (induction rule: rtranclp_induct) (auto intro: storage_call_flag)

text \<open>
  A token request that presents the credential \<open>raw\<close> of a kind, and the clients that the library is told
  may make such a request.
\<close>

definition token_form :: "string \<Rightarrow> string \<Rightarrow> form \<Rightarrow> bool" where
  "token_form kind raw f \<longleftrightarrow>
     kind = ''refresh'' \<and> Get f ''grant_type'' = ''refresh_token'' \<and> Get f ''refresh_token'' = raw
   \<or> kind = ''code'' \<and> Get f ''grant_type'' = ''authorization_code'' \<and> Get f ''code'' = raw"

definition grant_offered :: "string \<Rightarrow> ClientMetadata \<Rightarrow> bool" where
  "grant_offered kind m \<longleftrightarrow> kind = ''refresh'' \<longrightarrow> cm_GrantTypes m = [] \<or> ''refresh_token'' \<in> set (cm_GrantTypes m)"

text \<open>
  What the protocol library does with a request that presents a credential for the client and the audience
  of the operation, when the load of that credential reports it as used together with its request: it
  revokes the family of the request, keeps to the storage, does not roll back and answers that the grant
  is invalid.
\<close>

definition reuse_handled :: "oauth_lib \<Rightarrow> 'r token_env \<Rightarrow> string \<Rightarrow> string \<Rightarrow> bool" where
  "reuse_handled L env kind raw \<longleftrightarrow> (\<forall>f p r e.
     token_form kind raw f \<and> Get f ''client_id'' = cm_ID (op_client p) \<and> Get f ''audience'' = op_resource p
     \<and> grant_offered kind (op_client p) \<and> \<not> op_rollback p \<and> \<not> op_securityRevocation p
     \<and> load L (te_now env) kind (tokenSignature L raw) p = (Some r, Some e) \<and> e \<in> {FInvalidatedCode, FInactiveToken}
     \<longrightarrow> fst (te_core env f p) = Inl FInvalidGrant \<and> \<not> op_rollback (snd (te_core env f p))
       \<and> (\<exists>p1. storage_calls L (te_now env) p p1
            \<and> storage_calls L (te_now env) (snd (revokeFamily L (te_now env) (rr_ID r) p1)) (snd (te_core env f p))))"

definition belongs :: "oauth_lib \<Rightarrow> storedRequest \<Rightarrow> StoredGrant \<Rightarrow> bool" where
  "belongs L s g \<longleftrightarrow> sr_ID s = ol_String L (sg_ID g) \<and> se_GrantID (sr_Session s) = sg_ID g
     \<and> cm_ID (sr_Client s) = sg_ClientID g \<and> sr_Audience s = sg_Audience g"

lemma revokeFamily_kills:
  assumes "ol_Parse L rid = Some gid" and "distinct (map gw_id (od_grants (op_tx p)))"
  shows "dead gid (op_tx (snd (revokeFamily L now rid p)))" and "op_securityRevocation (snd (revokeFamily L now rid p))"
  using assms
  by (auto simp: revokeFamily_def bind_op_def on_tx_def RevokeGrant_def writes_def dead_def map_update_where
      COALESCE_def list_all_iff split: option.splits if_splits elim!: update_whereE)

lemma find_key: "map_option f (find (\<lambda>x. Q (f x)) xs) = find Q (map f xs)"
  by (induction xs) auto

lemma GetGrant_rows:
  assumes "fst (GetGrant n gid db) = Inr g"
    and rows: "map (\<lambda>g. (gw_id g, gw_user g, gw_tenant g)) (od_grants db') = map (\<lambda>g. (gw_id g, gw_user g, gw_tenant g)) (od_grants db)"
  obtains g' where "fst (GetGrant n' gid db') = Inr g'" and "sg_UserID g' = sg_UserID g" and "sg_TeamID g' = sg_TeamID g"
    and "sg_ID g' = gid"
proof -
  let ?k = "\<lambda>g :: grant_row. (gw_id g, gw_user g, gw_tenant g)"
  have m: "map_option ?k (find (\<lambda>g. gw_id g = gid) xs) = find (\<lambda>k. fst k = gid) (map ?k xs)" for xs
    using find_key [of ?k "\<lambda>k. fst k = gid" xs] by simp
  have k: "map_option ?k (find (\<lambda>g. gw_id g = gid) (od_grants db')) = map_option ?k (find (\<lambda>g. gw_id g = gid) (od_grants db))"
    unfolding m rows ..
  obtain r where r: "find (\<lambda>g. gw_id g = gid) (od_grants db) = Some r" "sg_UserID g = gw_user r" "sg_TeamID g = gw_tenant r"
    using assms(1) by (auto simp: GetGrant_def reads_def Let_def split: option.splits)
  then obtain r' where r': "find (\<lambda>g. gw_id g = gid) (od_grants db') = Some r'" "?k r' = ?k r"
    using k by (cases "find (\<lambda>g. gw_id g = gid) (od_grants db')") auto
  then have "gw_id r' = gid"
    by (auto simp: find_Some_iff)
  then show thesis
    using that r r' by (simp add: GetGrant_def reads_def Let_def)
qed

lemma reuse_audited:
  assumes "fst (GetGrant now gid db) = Inr g"
  shows "(sg_UserID g, sg_TeamID g, sg_ID g, if r then ''oauth.refresh_reused'' else ''oauth.code_reused'')
    \<in> set (od_audit (reuse_audit True now gid r db))"
  using assms by (cases r) (simp_all add: reuse_audit_def GetOAuthGrant_def AppendAudit_def writes_def audit_actions_def)

text \<open>
  C21. Replaying a used authorization code or refresh token revokes its family.  The request presents
  the used credential for the client and the resource it was issued to, with no scope or the granted
  ones, while the grant is still stored, and the transaction can be begun and committed.  Then the
  attempt answers that the grant is invalid, and yet its transaction is kept, with the grant revoked; the
  reuse is recorded in the audit unless the audit itself fails, which revokes the grant all the same.
\<close>

theorem replay_revokes_family:
  assumes reuse: "reuse_handled L env kind raw"
    and cred: "fst (GetCredential kind (tokenSignature L raw) db) = Inr c" "cr_Consumed c"
    and grant: "fst (GetGrant (te_now env) (cr_GrantID c) db) = Inr g" "belongs L (cr_Payload c) g"
    and form: "token_form kind raw f" "Get f ''client_id'' = sg_ClientID g" "Get f ''resource'' = sg_Audience g"
      "Get f ''scope'' = [] \<or> Join (CHR '' '') (Fields (Get f ''scope'')) = Join (CHR '' '') (sr_GrantedScopes (cr_Payload c))"
    and client: "grant_offered kind (sr_Client (cr_Payload c))"
    and env: "te_begin env" "te_commit env = None"
    and ids: "ol_Parse L (ol_String L (sg_ID g)) = Some (sg_ID g)" "distinct (map gw_id (od_grants db))"
  shows "case token_attempt L env kind raw f db of (answer, db') \<Rightarrow>
      answer = CoreError FInvalidGrant
    \<and> list_all (\<lambda>r. gw_id r = sg_ID g \<longrightarrow> gw_revoked r \<noteq> None) (od_grants db')
    \<and> (te_audit env \<longrightarrow> (sg_UserID g, sg_TeamID g, sg_ID g,
          if kind = ''refresh'' then ''oauth.refresh_reused'' else ''oauth.code_reused'') \<in> set (od_audit db'))"
proof -
  let ?s = "cr_Payload c"
  let ?p0 = "\<lparr>op_tx = db, op_client = sr_Client ?s, op_resource = sr_Audience ?s,
    op_securityRevocation = False, op_rollback = False, op_revoking = False\<rparr>"
  have gid: "cr_GrantID c = sg_ID g" using grant(1) by (rule GetGrant_Inr) simp
  obtain e where "load L (te_now env) kind (tokenSignature L raw) ?p0 = (Some (request_of ?s), Some e)"
      "e \<in> {FInvalidatedCode, FInactiveToken}"
    using cred grant by (cases "kind = ''code''") (auto simp: load_def belongs_def Let_def)
  moreover have "token_form kind raw (core_form kind ?s f)" "Get (core_form kind ?s f) ''client_id'' = cm_ID (sr_Client ?s)"
      "Get (core_form kind ?s f) ''audience'' = sr_Audience ?s"
    using form grant(2) by (auto simp: token_form_def core_form_def Get_def belongs_def Let_def)
  ultimately obtain p1 q where core: "te_core env (core_form kind ?s f) ?p0 = (Inl FInvalidGrant, q)" "\<not> op_rollback q"
    and p1: "storage_calls L (te_now env) ?p0 p1"
    and q: "storage_calls L (te_now env) (snd (revokeFamily L (te_now env) (rr_ID (request_of ?s)) p1)) q"
    using reuse client unfolding reuse_handled_def
    by (metis (no_types, lifting) prod.collapse providerOperation.select_convs)
  let ?p2 = "snd (revokeFamily L (te_now env) (rr_ID (request_of ?s)) p1)"
  let ?rows = "\<lambda>db. map (\<lambda>g. (gw_id g, gw_user g, gw_tenant g)) (od_grants db)"
  have rows1: "?rows (op_tx p1) = ?rows db"
    using rows.storage.storage_calls_keep [OF p1, of "?rows db"] by simp
  have "distinct (map gw_id (od_grants (op_tx p1)))"
    using arg_cong [OF rows1, of "map fst"] ids(2) by (simp add: comp_def)
  moreover have "ol_Parse L (rr_ID (request_of ?s)) = Some (sg_ID g)"
    using grant(2) ids(1) by (simp add: request_of_def belongs_def)
  ultimately have k: "dead (sg_ID g) (op_tx ?p2)" "op_securityRevocation ?p2"
    by (rule revokeFamily_kills [rotated])+
  have d: "dead (sg_ID g) (op_tx q)" "op_securityRevocation q"
    using dead.storage.storage_calls_keep [OF q k(1)] storage_calls_flag [OF q k(2)] by simp_all
  have "?rows (op_tx ?p2) = ?rows db"
    using rows.storage.storage_call_keeps [OF storage_call.revoke_family, of p1] rows1 by simp
  then have rows2: "?rows (op_tx q) = ?rows db"
    using rows.storage.storage_calls_keep [OF q] by blast
  obtain g' where g': "fst (GetGrant (te_now env) (sg_ID g) (op_tx q)) = Inr g'" "sg_UserID g' = sg_UserID g"
      "sg_TeamID g' = sg_TeamID g" "sg_ID g' = sg_ID g"
    using grant(1) rows2 unfolding gid by (rule GetGrant_rows)
  have "token_attempt L env kind raw f db = token_commit env kind ?s (Inl FInvalidGrant) q db"
    using cred(1) form env(1) core(1) grant(2) by (auto simp: token_attempt_def Let_def belongs_def)
  also have "\<dots> = (CoreError FInvalidGrant, reuse_audit (te_audit env) (te_now env) (sg_ID g) (kind = ''refresh'') (op_tx q))"
    using core(2) d(2) env(2) grant(2) by (simp add: token_commit_def Let_def belongs_def)
  finally show ?thesis
    using reuse_audited [OF g'(1), of "kind = ''refresh''"] g'(2-4) dead.reuse_audit_keeps [OF d(1)]
    by (cases "te_audit env") (simp_all add: dead_def del: not_None_eq)
qed

definition lasting :: "oauth_db \<Rightarrow> pending_row list \<times> (uuid \<times> uuid \<times> uuid) list \<times> grant_row list" where
  "lasting db = (od_pending db, od_grant_sites db, map (\<lambda>g. g\<lparr>gw_revoked := None\<rparr>) (od_grants db))"

interpretation others: storage_invariant "\<lambda>db. lasting db = v"
proof unfold_locales
  fix L now c
  show "keeps (\<lambda>db. lasting db = v) (CreateCredential L now c)"
    unfolding keeps_def
  proof (intro allI impI)
    fix db :: oauth_db assume "lasting db = v"
    then show "lasting (snd (CreateCredential L now c db)) = v"
      by (cases rule: CreateCredential_cases [of L now c db]) (simp_all add: lasting_def)
  qed
qed (auto simp: keeps_def ConsumeCredential_def Let_def RevokeCredential_def RevokeGrant_def writes_def lasting_def
  map_update_where)

lemma sites_loop_None:
  "sites_loop authorize p db seen ids = None
   \<Longrightarrow> distinct ids \<and> (\<forall>s \<in> set ids. s \<notin> seen \<and> s \<noteq> uuid_Nil \<and> authorize p s db = None)"
proof (induction ids arbitrary: seen)
  case (Cons s ids)
  then have "s \<noteq> uuid_Nil" "s \<notin> seen" "authorize p s db = None" "sites_loop authorize p db (insert s seen) ids = None"
    by (simp_all split: if_split_asm option.split_asm)
  with Cons.IH [OF this(4)] show ?case
    by auto
qed simp

lemma grant_sites_loop_Inr:
  "grant_sites_loop g seen ids db = (Inr (), db') \<Longrightarrow> (\<forall>s \<in> set ids. map_of (site_tenants (od_roles db)) s = Some (sg_TeamID g))
     \<and> od_grant_sites db' = od_grant_sites db @ map (\<lambda>s. (sg_ID g, sg_TeamID g, s)) ids
     \<and> od_grants db' = od_grants db \<and> od_pending db' = od_pending db \<and> od_roles db' = od_roles db"
proof (induction g seen ids arbitrary: db rule: grant_sites_loop.induct)
  case (2 g seen s ids)
  from "2.prems" obtain db1 where "insert_grant_site g s db = (Inr (), db1)" "grant_sites_loop g (insert s seen) ids db1 = (Inr (), db')"
    and ok: "\<not> (s = uuid_Nil \<or> s \<in> seen)"
    by (auto simp: abort_def dest!: bind_op_Inr split: if_splits)
  from this(1) have "map_of (site_tenants (od_roles db)) s = Some (sg_TeamID g)"
    and "db1 = db\<lparr>od_grant_sites := od_grant_sites db @ [(sg_ID g, sg_TeamID g, s)]\<rparr>"
    by (simp_all add: insert_grant_site_def split: if_splits)
  with "2.IH" [OF ok \<open>grant_sites_loop g (insert s seen) ids db1 = (Inr (), db')\<close>] show ?case
    by simp
qed (simp add: ret_def)

lemma prune_pending: "od_pending (snd (pruneExpiredGrants now db)) = od_pending db"
  and prune_roles: "od_roles (snd (pruneExpiredGrants now db)) = od_roles db"
proof -
  have "od_pending (fold (drop_rows R) ids d) = od_pending d \<and> od_roles (fold (drop_rows R) ids d) = od_roles d" for R ids d
    by (induction ids arbitrary: d) (simp_all add: drop_rows_def)
  then show "od_pending (snd (pruneExpiredGrants now db)) = od_pending db"
    and "od_roles (snd (pruneExpiredGrants now db)) = od_roles db"
    by (simp_all add: pruneExpiredGrants_def writes_def Let_def drop_rows_simps [abs_def])
qed

lemma prune_grants: "set (od_grants (snd (pruneExpiredGrants now db))) \<subseteq> set (od_grants db)"
proof -
  have "set (od_grants (fold (drop_rows R) ids d)) \<subseteq> set (od_grants d)" for R ids d
  proof (induction ids arbitrary: d)
    case (Cons i ids)
    have "set (od_grants (drop_rows R i d)) \<subseteq> set (od_grants d)" by (auto simp: drop_rows_def)
    with Cons.IH [of "drop_rows R i d"] show ?case by simp
  qed simp
  then show ?thesis
    by (simp add: pruneExpiredGrants_def writes_def Let_def drop_rows_simps [abs_def])
qed

text \<open>A new grant is one row, for sites of the team, and its user is a member.\<close>

lemma CreateGrant_Inr:
  assumes "CreateGrant now g db = (Inr (), db')"
  obtains r old where "od_grants db' = old @ [r]" and "set old \<subseteq> set (od_grants db)" and "gw_id r = sg_ID g"
    and "gw_user r = sg_UserID g" and "gw_tenant r = sg_TeamID g" and "gw_scopes r = sg_Scopes g"
    and "gw_audience r = sg_Audience g" and "gw_expires r = sg_ExpiresAt g"
    and "\<forall>s \<in> set (sg_SiteIDs g). (sg_ID g, sg_TeamID g, s) \<in> set (od_grant_sites db')
        \<and> map_of (site_tenants (od_roles db)) s = Some (sg_TeamID g)"
    and "od_pending db' = od_pending db"
proof -
  obtain u db1 where p: "pruneExpiredGrants now db = (u, db1)" by fastforce
  obtain db2 where i: "insert_grant g db1 = (Inr (), db2)" and l: "grant_sites_loop g {} (sg_SiteIDs g) db2 = (Inr (), db')"
    using assms p by (auto simp: CreateGrant_def abort_def require_def dest!: bind_op_Inr split: if_splits)
  have eq: "od_pending db1 = od_pending db" "od_roles db1 = od_roles db" "set (od_grants db1) \<subseteq> set (od_grants db)"
    using prune_pending [of now db] prune_roles [of now db] prune_grants [of now db] p by simp_all
  show thesis
    using i grant_sites_loop_Inr [OF l] eq
    by (intro that [of "od_grants db1"]) (auto simp: insert_grant_def split: if_splits)
qed

lemma pending_Inr:
  assumes "pending C L P decode ready now cookie browser db = Inr (pa, signature, bsig)"
  obtains handle seconds b r where "cookie = Some (signedHandle C P handle seconds b)" and "browser = Some b"
    and "now < seconds * second" and "signature = tokenSignature L handle" and "bsig = tokenSignature L b"
    and "r \<in> set (od_pending db)" and "pending_match now signature bsig r" and "decode (pw_payload r) = Some pa"
    and "redirectAllowed C (pa_Client pa) (pa_RedirectURI pa)"
    and "set (pa_Scopes pa) \<subseteq> set (scopesForResource P (pa_Resource pa))"
proof -
  obtain c b where cb: "cookie = Some c" "browser = Some b" "ready"
    using assms by (auto simp: pending_def split: if_splits option.splits)
  obtain handle secs mac where sp: "Split (CHR ''.'') c = [handle, secs, mac]"
    using assms cb by (auto simp: pending_def split: if_splits list.splits)
  obtain seconds where at: "Atoi secs = Some seconds"
    using assms cb sp by (auto simp: pending_def split: if_splits option.splits)
  have c: "signedHandle C P handle seconds b = c" "now < seconds * second"
    using assms cb sp at by (auto simp: pending_def split: if_splits)
  obtain rec where g: "fst (GetOAuthPending now (tokenSignature L handle) (tokenSignature L b) db) = Inr rec"
    using assms cb sp at c by (auto simp: pending_def split: if_splits sum.splits)
  then obtain r where r: "find (pending_match now (tokenSignature L handle) (tokenSignature L b)) (od_pending db) = Some r"
      "rec = \<lparr>pe_Signature = pw_signature r, pe_BrowserSignature = pw_browser r, pe_Payload = pw_payload r, pe_ExpiresAt = pw_expires r\<rparr>"
    by (auto simp: GetOAuthPending_def reads_def split: option.splits)
  then have m: "r \<in> set (od_pending db)" "pending_match now (tokenSignature L handle) (tokenSignature L b) r"
    by (auto simp: find_Some_iff)
  have "decode (pw_payload r) = Some pa" "redirectAllowed C (pa_Client pa) (pa_RedirectURI pa)"
      "set (pa_Scopes pa) \<subseteq> set (scopesForResource P (pa_Resource pa))" "signature = pw_signature r" "bsig = pw_browser r"
    using assms cb sp at c g r(2) by (auto simp: pending_def Let_def split: if_splits option.splits)
  with that [of handle seconds b r] cb(1,2) c m show thesis
    by (auto simp: pending_match_def)
qed

lemma approve_tx_Inr:
  assumes "approve_tx L env q pa db = Inr (code, db2)"
    and core: "\<And>g s p. uses_storage L (ce_now env) (ce_core env g s p)"
  obtains db1 where "sites_loop (the (ce_authorize env)) (principal_of (new_grant env q pa)) db {} (cq_sites q) = None"
    and "CreateGrant (ce_now env) (new_grant env q pa) db = (Inr (), db1)" and "lasting db2 = lasting db1"
proof -
  let ?g = "new_grant env q pa"
  have same: "db1 = db" if "CheckOAuthClient a b db = (r, db1)" for a b r db1
    using that by (auto simp: CheckOAuthClient_def ret_def require_def split: if_splits)
  obtain db1 where c: "sites_loop (the (ce_authorize env)) (principal_of ?g) db {} (cq_sites q) = None"
      "CreateGrant (ce_now env) ?g db = (Inr (), db1)"
    using assms(1) by (auto simp: approve_tx_def Let_def dest!: same split: option.splits prod.splits sum.splits if_splits)
  let ?p0 = "\<lparr>op_tx = db1, op_client = pa_Client pa, op_resource = pa_Resource pa,
    op_securityRevocation = False, op_rollback = False, op_revoking = False\<rparr>"
  let ?s = "\<lparr>se_Subject = ol_String L (cq_user q), se_GrantID = sg_ID ?g, se_GrantExpiry = sg_ExpiresAt ?g,
    se_Expires = (\<lambda>_. None)\<rparr>"
  obtain r p where p: "ce_core env ?g ?s pa ?p0 = (r, p)" by fastforce
  have l: "lasting (op_tx p) = lasting db1"
    using others.uses_storage_keeps [OF core, of ?p0 "lasting db1" ?g ?s pa] p by simp
  have "AppendAudit (cq_user q) (cq_team q) (sg_ID ?g) ''oauth.consent_approved'' (op_tx p) = (Inr (), db2)"
    using assms(1) c p by (auto simp: approve_tx_def Let_def dest!: same split: option.splits prod.splits sum.splits if_splits)
  then have "lasting db2 = lasting (op_tx p)"
    by (auto simp: AppendAudit_def writes_def abort_def lasting_def split: if_splits)
  with c l show thesis by (intro that) simp_all
qed

definition consumed_pending :: "time \<Rightarrow> string \<Rightarrow> string \<Rightarrow> oauth_db \<Rightarrow> oauth_db" where
  "consumed_pending now signature browser db =
     db\<lparr>od_pending := filter (\<lambda>r. \<not> pending_match now signature browser r) (od_pending db)\<rparr>"

lemma ConsumePending_Inr:
  "ConsumePending now signature browser db = (Inr (), db1) \<Longrightarrow> db1 = consumed_pending now signature browser db"
  by (auto simp: ConsumePending_def bind_op_def require_def writes_def consumed_pending_def split: if_splits)

lemma CompleteConsent_effect:
  assumes "CompleteConsent C L P decode env q db = (answer, db')" and "gw_id ` set (od_grants db') \<noteq> gw_id ` set (od_grants db)"
  obtains pa signature browser code where
      "pending C L P decode (fst (snd (ce_ready env))) (ce_now env) (cq_signed q) (cq_browser q) db = Inr (pa, signature, browser)"
    and "csrfToken C L P signature browser (cq_user q) = cq_csrf q" and "cq_decision q = ''approve''"
    and "ce_authorize env \<noteq> None"
    and "approve_tx L env q pa (consumed_pending (ce_now env) signature browser db) = Inr (code, db')"
    and "answer = Approved (pa_RedirectURI pa) code"
proof -
  have "snd (CompleteConsent C L P decode env q db) \<noteq> db" using assms by auto
  then obtain pa signature browser where
      p: "pending C L P decode (fst (snd (ce_ready env))) (ce_now env) (cq_signed q) (cq_browser q) db = Inr (pa, signature, browser)"
    and k: "csrfToken C L P signature browser (cq_user q) = cq_csrf q"
    and d: "cq_decision q \<noteq> ''deny'' \<longrightarrow> cq_decision q = ''approve'' \<and> ce_authorize env \<noteq> None"
    and e: "CompleteConsent C L P decode env q db = decide_tx L env q pa signature browser db"
    unfolding CompleteConsent_def
    by (cases "pending C L P decode (fst (snd (ce_ready env))) (ce_now env) (cq_signed q) (cq_browser q) db")
      (auto split: if_split_asm option.split_asm)
  obtain db1 where c: "ConsumePending (ce_now env) signature browser db = (Inr (), db1)"
    using assms e by (auto simp: decide_tx_def split: prod.splits sum.splits)
  have db1: "od_grants db1 = od_grants db"
    using ConsumePending_Inr [OF c] by (simp add: consumed_pending_def)
  have "cq_decision q \<noteq> ''deny''"
  proof
    assume "cq_decision q = ''deny''"
    then have "od_grants db' = od_grants db"
      using assms(1) e c db1
      by (auto simp: decide_tx_def deny_tx_def AppendAudit_def writes_def abort_def split: prod.splits sum.splits option.splits if_splits)
    with assms(2) show False by simp
  qed
  moreover from this obtain code where "approve_tx L env q pa db1 = Inr (code, db')" "answer = Approved (pa_RedirectURI pa) code"
    using assms e c by (auto simp: decide_tx_def split: prod.splits sum.splits option.splits)
  ultimately show thesis
    using that p k d ConsumePending_Inr [OF c] by blast
qed

text \<open>
  C20. A grant exists only by consent.  When a decision adds a grant, the answer approves; the
  request carried the handle signed for its browser and not expired, the consent token of that pending
  request and user, and asked to approve; the pending request was stored and is gone afterwards; its
  redirect is allowed for the client and its scopes for the resource; the grant is for exactly that
  user, team, scopes, resource and lifetime; and every site of it passed the authorization check and
  belongs to the team.
\<close>

theorem grant_needs_consent:
  assumes run: "CompleteConsent C L P decode env q db = (answer, db')"
    and core: "\<And>g s p. uses_storage L (ce_now env) (ce_core env g s p)"
    and new: "g \<in> set (od_grants db')" "gw_id g \<notin> gw_id ` set (od_grants db)"
  shows "\<exists>pa code handle seconds browser r authorize.
      answer = Approved (pa_RedirectURI pa) code \<and> cq_decision q = ''approve''
    \<and> cq_signed q = Some (signedHandle C P handle seconds browser) \<and> cq_browser q = Some browser
    \<and> ce_now env < seconds * second
    \<and> cq_csrf q = csrfToken C L P (tokenSignature L handle) (tokenSignature L browser) (cq_user q)
    \<and> r \<in> set (od_pending db) \<and> decode (pw_payload r) = Some pa
    \<and> pending_match (ce_now env) (tokenSignature L handle) (tokenSignature L browser) r
    \<and> r \<notin> set (od_pending db')
    \<and> redirectAllowed C (pa_Client pa) (pa_RedirectURI pa)
    \<and> set (pa_Scopes pa) \<subseteq> set (scopesForResource P (pa_Resource pa))
    \<and> gw_id g = ce_grant_id env \<and> gw_user g = cq_user q \<and> gw_tenant g = cq_team q \<and> gw_scopes g = pa_Scopes pa
    \<and> gw_audience g = pa_Resource pa \<and> gw_expires g = ce_now env + grantLifetime
    \<and> ce_authorize env = Some authorize
    \<and> (\<forall>s \<in> set (cq_sites q). (gw_id g, gw_tenant g, s) \<in> set (od_grant_sites db')
         \<and> map_of (site_tenants (od_roles db)) s = Some (cq_team q)
         \<and> authorize (principal_of (new_grant env q pa)) s
             (consumed_pending (ce_now env) (tokenSignature L handle) (tokenSignature L browser) db) = None)"
proof -
  have "gw_id ` set (od_grants db') \<noteq> gw_id ` set (od_grants db)" using new by blast
  with run obtain pa signature bsig code where
      p: "pending C L P decode (fst (snd (ce_ready env))) (ce_now env) (cq_signed q) (cq_browser q) db = Inr (pa, signature, bsig)"
    and k: "csrfToken C L P signature bsig (cq_user q) = cq_csrf q" "cq_decision q = ''approve''" "ce_authorize env \<noteq> None"
    and a: "approve_tx L env q pa (consumed_pending (ce_now env) signature bsig db) = Inr (code, db')"
    and ans: "answer = Approved (pa_RedirectURI pa) code"
    by (rule CompleteConsent_effect)
  let ?db1 = "consumed_pending (ce_now env) signature bsig db" and ?n = "new_grant env q pa"
  obtain db2 where s: "sites_loop (the (ce_authorize env)) (principal_of ?n) ?db1 {} (cq_sites q) = None"
    and c: "CreateGrant (ce_now env) ?n ?db1 = (Inr (), db2)" and l: "lasting db' = lasting db2"
    using a core by (rule approve_tx_Inr)
  from c obtain n old where n: "od_grants db2 = old @ [n]" "set old \<subseteq> set (od_grants ?db1)" "gw_id n = sg_ID ?n"
      "gw_user n = sg_UserID ?n" "gw_tenant n = sg_TeamID ?n" "gw_scopes n = sg_Scopes ?n" "gw_audience n = sg_Audience ?n"
      "gw_expires n = sg_ExpiresAt ?n" "od_pending db2 = od_pending ?db1"
    and ns: "\<forall>s \<in> set (sg_SiteIDs ?n). (sg_ID ?n, sg_TeamID ?n, s) \<in> set (od_grant_sites db2)
        \<and> map_of (site_tenants (od_roles ?db1)) s = Some (sg_TeamID ?n)"
    by (rule CreateGrant_Inr)
  have "g\<lparr>gw_revoked := None\<rparr> \<in> (\<lambda>g. g\<lparr>gw_revoked := None\<rparr>) ` set (old @ [n])"
  proof -
    have "map (\<lambda>g. g\<lparr>gw_revoked := None\<rparr>) (od_grants db') = map (\<lambda>g. g\<lparr>gw_revoked := None\<rparr>) (old @ [n])"
      using l n(1) by (simp add: lasting_def)
    from arg_cong [OF this, of set] show ?thesis using new(1) by (simp del: set_append map_append) blast
  qed
  then obtain m where m: "m \<in> set (old @ [n])" "g\<lparr>gw_revoked := None\<rparr> = m\<lparr>gw_revoked := None\<rparr>" by auto
  have eq: "gw_id g = gw_id m" "gw_user g = gw_user m" "gw_tenant g = gw_tenant m" "gw_scopes g = gw_scopes m"
      "gw_audience g = gw_audience m" "gw_expires g = gw_expires m"
    using m(2) by (metis grant_row.ext_inject grant_row.surjective grant_row.update_convs(12))+
  have "m = n"
    using m(1) eq(1) new(2) n(2) by (auto simp: consumed_pending_def)
  from p obtain handle seconds b r where h: "cq_signed q = Some (signedHandle C P handle seconds b)" "cq_browser q = Some b"
      "ce_now env < seconds * second" "signature = tokenSignature L handle" "bsig = tokenSignature L b"
      "r \<in> set (od_pending db)" "pending_match (ce_now env) signature bsig r" "decode (pw_payload r) = Some pa"
      "redirectAllowed C (pa_Client pa) (pa_RedirectURI pa)" "set (pa_Scopes pa) \<subseteq> set (scopesForResource P (pa_Resource pa))"
    by (rule pending_Inr)
  obtain authorize where au: "ce_authorize env = Some authorize" using k(3) by blast
  have gone: "r \<notin> set (od_pending db')"
    using l n(9) h(7) by (simp add: lasting_def consumed_pending_def)
  have sites: "\<forall>s \<in> set (cq_sites q). (gw_id g, gw_tenant g, s) \<in> set (od_grant_sites db')
      \<and> map_of (site_tenants (od_roles db)) s = Some (cq_team q) \<and> authorize (principal_of ?n) s ?db1 = None"
    using ns sites_loop_None [OF s] au l eq n \<open>m = n\<close> by (simp add: new_grant_def consumed_pending_def lasting_def)
  have fields: "gw_id g = ce_grant_id env" "gw_user g = cq_user q" "gw_tenant g = cq_team q" "gw_scopes g = pa_Scopes pa"
      "gw_audience g = pa_Resource pa" "gw_expires g = ce_now env + grantLifetime"
    using eq n \<open>m = n\<close> by (simp_all add: new_grant_def)
  show ?thesis
    using h gone sites k(1)
    by (intro exI [of _ pa] exI [of _ code] exI [of _ handle] exI [of _ seconds] exI [of _ b] exI [of _ r]
        exI [of _ authorize]) (simp add: ans au k(2) fields)
qed

subsection \<open>Witnesses\<close>

definition sample_oauth_lib :: oauth_lib where
  "sample_oauth_lib = \<lparr>ol_String = (\<lambda>_. ''u''), ol_Parse = (\<lambda>_. Some 1), ol_hash = (\<lambda>s. s), ol_encode = (\<lambda>_. []),
     ol_b64_length = (\<lambda>_. Some 32)\<rparr>"

definition sample_provider :: provider where
  "sample_provider = \<lparr>pv_APIResource = ''api'', pv_MCPResource = ''mcp'', pv_mcpEnabled = False, pv_browserKey = []\<rparr>"

definition sample_token :: string where
  "sample_token = accessTokenPrefix @ replicate 43 CHR ''a''"

definition sample_oauth_client :: ClientMetadata where
  "sample_oauth_client = \<lparr>cm_RegistrationTeamID = uuid_Nil, cm_RegistrationVersion = [], cm_ID = ''c'', cm_Name = ''n'',
     cm_URI = [], cm_RedirectURIs = [''r''], cm_GrantTypes = [], cm_ResponseTypes = [], cm_AuthMethod = [], cm_AuthMethods = []\<rparr>"

definition sample_snapshot :: storedRequest where
  "sample_snapshot = \<lparr>sr_ID = ''u'', sr_RequestedAt = 0, sr_Client = sample_oauth_client, sr_RequestedScopes = [],
     sr_GrantedScopes = [], sr_Audience = ''api'', sr_RedirectURI = ''r'', sr_Challenge = [], sr_ChallengeMethod = [],
     sr_Session = \<lparr>se_Subject = ''u'', se_GrantID = 1, se_GrantExpiry = 100, se_Expires = (\<lambda>_. None)\<rparr>\<rparr>"

definition sample_grant_row :: "uuid \<Rightarrow> time option \<Rightarrow> grant_row" where
  "sample_grant_row gid revoked = \<lparr>gw_id = gid, gw_user = 3, gw_tenant = 2, gw_client = ''c'', gw_name = ''n'', gw_uri = [],
     gw_audience = ''api'', gw_scopes = [''sites:read''], gw_created = 0, gw_expires = 100, gw_last_used = None,
     gw_revoked = revoked, gw_revision = []\<rparr>"

definition sample_credential :: "string \<Rightarrow> string \<Rightarrow> uuid \<Rightarrow> time option \<Rightarrow> credential_row" where
  "sample_credential kind sig gid used = \<lparr>cw_kind = kind, cw_signature = sig, cw_grant = gid, cw_tenant = 2,
     cw_payload = sample_snapshot, cw_access = [], cw_expires = 50, cw_consumed = used, cw_revoked = None\<rparr>"

definition sample_oauth_db :: "grant_row list \<Rightarrow> credential_row list \<Rightarrow> pending_row list \<Rightarrow> oauth_db" where
  "sample_oauth_db grants credentials pend = \<lparr>
     od_roles = \<lparr>db_ok = True, tenants = [], tenant_members = [\<lparr>tm_tenant = 2, tm_user = 3, tm_role = ''member'', tm_added_at = 0\<rparr>],
       tenant_archives = [], sites = [], site_tenants = [(4, 2)], site_members = [], instance_roles = [],
       active_tenants = [], permission_audit = [], report_definitions = [], report_recipients = [], report_deliveries = []\<rparr>,
     od_users = [3], od_grants = grants, od_credentials = credentials,
     od_grant_sites = map (\<lambda>g. (gw_id g, 2, 4)) grants, od_pending = pend, od_clients = [], od_audit = []\<rparr>"

lemmas sample_oauth = sample_oauth_lib_def sample_provider_def sample_oauth_client_def sample_snapshot_def sample_grant_row_def
  sample_credential_def sample_oauth_db_def

lemma sample_token_valid:
  "IsOAuthToken sample_token" "validOpaqueToken sample_oauth_lib sample_token accessTokenPrefix"
  by (simp_all add: IsOAuthToken_def validOpaqueToken_def sample_token_def accessTokenPrefix_def sample_oauth_lib_def)

lemma sample_Authenticate:
  "Authenticate sample_oauth_lib sample_provider (True, True) 10 sample_token ''api''
     (sample_oauth_db [sample_grant_row 5 None] [sample_credential ''access'' sample_token 5 None] [])
   = Inr (Some \<lparr>gr_ID = 5, gr_UserID = 3, gr_TeamID = 2, gr_SiteIDs = [4], gr_Scopes = [''sites:read''], gr_Audience = ''api''\<rparr>)"
  using sample_token_valid
  by (simp add: Authenticate_def GetCredential_def GetGrant_def reads_def is_credential_def tokenSignature_def
      scopesForResource_def sample_oauth credential_of_def member_of_def team_archived_def Let_def)

theorem access_token_authority_witness:
  "\<exists>c \<in> set [sample_credential ''access'' sample_token 5 None].
     usable c \<and> is_credential ''access'' (tokenSignature sample_oauth_lib sample_token) c \<and> 10 < cw_expires c"
  using access_token_authority [OF sample_Authenticate] by (auto simp: sample_oauth_db_def)

lemma sample_touch_run:
  "oauth_run C L P decode (db, drawn) (snd (TouchGrant now g db), drawn)"
  unfolding oauth_run_def by (rule r_into_rtranclp) (rule oauth_step.touch)

theorem revoked_grant_is_final_witness:
  "case Authenticate sample_oauth_lib sample_provider (True, True) 10 sample_token ''api''
       (snd (TouchGrant 9 1 (sample_oauth_db [sample_grant_row 1 (Some 8)] [sample_credential ''access'' sample_token 1 None] [])))
     of Inr (Some a) \<Rightarrow> gr_ID a \<noteq> 1 | _ \<Rightarrow> True"
  by (rule revoked_grant_is_final [OF sample_touch_run, where drawn = "{1}"]) (simp_all add: sample_oauth)

theorem used_credential_is_final_witness:
  "list_all (\<lambda>c. \<not> usable c) (od_credentials
     (snd (TouchGrant 9 1 (sample_oauth_db [sample_grant_row 1 None] [sample_credential ''refresh'' ''t'' 1 (Some 8)] []))))"
proof -
  let ?db = "sample_oauth_db [sample_grant_row 1 None] [sample_credential ''refresh'' ''t'' 1 (Some 8)] []"
  have "distinct (map gw_id (od_grants ?db))"
    and "list_all (\<lambda>c. is_credential ''refresh'' ''t'' c \<and> cw_grant c = 1 \<longrightarrow> \<not> usable c) (od_credentials ?db)"
    and "list_ex (\<lambda>c. is_credential ''refresh'' ''t'' c \<and> cw_grant c = 1) (od_credentials ?db)"
    by (simp_all add: sample_oauth is_credential_def usable_def)
  from used_credential_is_final [OF sample_touch_run [of _ _ _ _ ?db "{1}" 9 1] this(1) _ this(2,3)]
  show ?thesis
    by (simp add: TouchGrant_def writes_def sample_oauth is_credential_def usable_def)
qed

definition sample_token_env :: "string token_env" where
  "sample_token_env = \<lparr>te_now = 10, te_begin = True, te_ready = True, te_commit = None, te_audit = True,
     te_core = (\<lambda>_ p. case load sample_oauth_lib 10 ''refresh'' ''t'' p of
        (Some r, Some _) \<Rightarrow> (Inl FInvalidGrant, snd (revokeFamily sample_oauth_lib 10 (rr_ID r) p))
      | _ \<Rightarrow> (Inl FNotFound, p))\<rparr>"

definition sample_form :: form where
  "sample_form = [''grant_type'' \<mapsto> ''refresh_token'', ''refresh_token'' \<mapsto> ''t'', ''client_id'' \<mapsto> ''c'', ''resource'' \<mapsto> ''api'']"

lemma sample_reuse_handled: "reuse_handled sample_oauth_lib sample_token_env ''refresh'' ''t''"
proof -
  have "op_rollback (snd (revokeFamily sample_oauth_lib 10 rid p)) = op_rollback p" for rid p
    by (simp add: revokeFamily_def sample_oauth_lib_def bind_op_def on_tx_def RevokeGrant_def writes_def)
  then show ?thesis
    by (auto simp: reuse_handled_def sample_token_env_def tokenSignature_def storage_calls_def
        sample_oauth_lib_def [THEN arg_cong, of ol_hash] intro!: exI)
qed

theorem replay_revokes_family_witness:
  "case token_attempt sample_oauth_lib sample_token_env ''refresh'' ''t'' sample_form
     (sample_oauth_db [sample_grant_row 1 None] [sample_credential ''refresh'' ''t'' 1 (Some 8)] []) of (answer, db') \<Rightarrow>
     answer = CoreError FInvalidGrant \<and> (3, 2, 1, ''oauth.refresh_reused'') \<in> set (od_audit db')"
proof -
  let ?db = "sample_oauth_db [sample_grant_row 1 None] [sample_credential ''refresh'' ''t'' 1 (Some 8)] []"
  let ?c = "credential_of (sample_credential ''refresh'' ''t'' 1 (Some 8))"
  have c: "fst (GetCredential ''refresh'' (tokenSignature sample_oauth_lib ''t'') ?db) = Inr ?c" "cr_Consumed ?c"
    by (simp_all add: GetCredential_def reads_def is_credential_def tokenSignature_def sample_oauth credential_of_def)
  obtain g where g: "fst (GetGrant (te_now sample_token_env) (cr_GrantID ?c) ?db) = Inr g" "sg_ID g = 1" "sg_UserID g = 3"
      "sg_TeamID g = 2" "sg_ClientID g = ''c''" "sg_Audience g = ''api''"
    by (simp add: GetGrant_def reads_def sample_oauth credential_of_def Let_def)
  have b: "belongs sample_oauth_lib (cr_Payload ?c) g"
    using g by (simp add: belongs_def sample_oauth credential_of_def)
  show ?thesis
    using replay_revokes_family [OF sample_reuse_handled c g(1) b, of sample_form] g
    by (simp add: sample_form_def Get_def token_form_def grant_offered_def credential_of_def sample_token_env_def sample_oauth
        split: prod.splits)
qed

definition sample_handle :: string where "sample_handle = replicate 43 CHR ''h''"
definition sample_browser :: string where "sample_browser = replicate 43 CHR ''b''"

definition sample_consent_lib :: consent_lib where
  "sample_consent_lib = \<lparr>cl_Parse = (\<lambda>s. Some \<lparr>pu_Scheme = ''https'', pu_Opaque = [], pu_User = False, pu_Host = ''h'',
     pu_Hostname = ''h'', pu_Port = [], pu_Fragment = [], pu_RawFragment = [], pu_String = s\<rparr>),
     cl_with_host = (\<lambda>_ _. []), cl_loopback = (\<lambda>_. False), cl_space = (\<lambda>_. False), cl_hmac = (\<lambda>_ _. ''m'')\<rparr>"

definition sample_pending :: pendingAuthorization where
  "sample_pending = \<lparr>pa_Client = sample_oauth_client, pa_RedirectURI = ''r'', pa_Resource = ''api'',
     pa_Scopes = [''sites:read''], pa_State = [], pa_Challenge = [], pa_ExpiresAt = 60 * second\<rparr>"

definition sample_consent_env :: consent_env where
  "sample_consent_env = \<lparr>ce_now = 10, ce_ready = (True, True, True), ce_begin = None, ce_grant_id = 7,
     ce_authorize = Some (\<lambda>_ _ _. None), ce_core = (\<lambda>_ _ _ p. (Inr ''code'', p)), ce_commit = None\<rparr>"

definition sample_decision :: consent_request where
  "sample_decision = \<lparr>cq_signed = Some (sample_handle @ ''.60.m''), cq_browser = Some sample_browser, cq_user = 3, cq_team = 2,
     cq_sites = [4], cq_decision = ''approve'', cq_csrf = ''m''\<rparr>"

definition sample_pending_row :: pending_row where
  "sample_pending_row = \<lparr>pw_signature = sample_handle, pw_browser = sample_browser, pw_payload = ''p'', pw_expires = 60 * second\<rparr>"

lemma Split_word: "sep \<notin> set w \<Longrightarrow> Split sep (w @ sep # cs) = w # Split sep cs"
  by (induction w) auto

lemma sample_60: "FormatInt 60 = ''60''"
  by code_simp

lemma sample_signed:
  "signedHandle sample_consent_lib sample_provider sample_handle 60 sample_browser = sample_handle @ ''.60.m''"
  by (simp add: signedHandle_def sample_60 sample_consent_lib_def Let_def)

lemma sample_pending_ok:
  "pending sample_consent_lib sample_oauth_lib sample_provider (\<lambda>_. Some sample_pending) True 10
     (cq_signed sample_decision) (cq_browser sample_decision) (sample_oauth_db [] [] [sample_pending_row])
   = Inr (sample_pending, sample_handle, sample_browser)"
proof -
  have v: "validOpaqueToken sample_oauth_lib sample_browser []" "validOpaqueToken sample_oauth_lib sample_handle []"
    by (simp_all add: validOpaqueToken_def sample_browser_def sample_handle_def sample_oauth_lib_def)
  have "Split (CHR ''.'') (sample_handle @ ''.60.m'') = [sample_handle, ''60'', ''m'']"
    using Split_word [of "CHR ''.''" sample_handle "''60.m''"] by (simp add: sample_handle_def)
  moreover have "Atoi ''60'' = Some 60"
    using Atoi_FormatInt [of 60] by (simp add: sample_60)
  moreover have "redirectAllowed sample_consent_lib sample_oauth_client ''r''"
    by (simp add: redirectAllowed_def callbackURL_def sample_consent_lib_def sample_oauth_client_def port_ok_def contains_any_def
        suffix_def)
  moreover have "fst (GetOAuthPending 10 sample_handle sample_browser (sample_oauth_db [] [] [sample_pending_row]))
      = Inr \<lparr>pe_Signature = sample_handle, pe_BrowserSignature = sample_browser, pe_Payload = ''p'', pe_ExpiresAt = 60 * second\<rparr>"
    by (simp add: GetOAuthPending_def reads_def pending_match_def sample_pending_row_def sample_oauth_db_def)
  ultimately show ?thesis
    using v sample_signed
    by (simp add: pending_def sample_decision_def tokenSignature_def sample_oauth_lib_def [THEN arg_cong, of ol_hash]
        sample_pending_def Unix_def scopesForResource_def sample_provider_def Let_def ScopeSitesRead_def)
qed

theorem grant_needs_consent_witness:
  "case CompleteConsent sample_consent_lib sample_oauth_lib sample_provider (\<lambda>_. Some sample_pending) sample_consent_env
     sample_decision (sample_oauth_db [] [] [sample_pending_row]) of (answer, db') \<Rightarrow>
     \<exists>code. answer = Approved ''r'' code \<and> sample_pending_row \<notin> set (od_pending db')"
proof -
  let ?db = "sample_oauth_db [] [] [sample_pending_row]"
  have u: "uses_storage L now (\<lambda>p. (Inr ''code'', p))" for L now
    by (simp add: uses_storage_def storage_calls_def)
  have core: "uses_storage sample_oauth_lib (ce_now sample_consent_env) (ce_core sample_consent_env g s p)" for g s p
    using u by (simp add: sample_consent_env_def)
  obtain answer db' where r: "CompleteConsent sample_consent_lib sample_oauth_lib sample_provider (\<lambda>_. Some sample_pending)
      sample_consent_env sample_decision ?db = (answer, db')" by fastforce
  moreover have "CompleteConsent sample_consent_lib sample_oauth_lib sample_provider (\<lambda>_. Some sample_pending)
      sample_consent_env sample_decision ?db
    = decide_tx sample_oauth_lib sample_consent_env sample_decision sample_pending sample_handle sample_browser ?db"
    using sample_pending_ok
    by (simp add: CompleteConsent_def sample_consent_env_def sample_decision_def csrfToken_def sample_consent_lib_def
        sample_pending_def sample_oauth_client_def uuid_Nil_def)
  moreover have "ConsumePending 10 sample_handle sample_browser ?db = (Inr (), ?db\<lparr>od_pending := []\<rparr>)"
    by (simp add: ConsumePending_def bind_op_def require_def writes_def pending_match_def sample_oauth_db_def
        sample_pending_row_def)
  moreover have "\<exists>g. approve_tx sample_oauth_lib sample_consent_env sample_decision sample_pending (?db\<lparr>od_pending := []\<rparr>) = Inr (''code'', g)
      \<and> (\<exists>row \<in> set (od_grants g). gw_id row = 7)"
    by (simp add: approve_tx_def sample_consent_env_def sample_decision_def sample_pending_def new_grant_def uuid_Nil_def
        CheckOAuthClient_def ret_def sample_oauth_client_def CreateGrant_def bind_op_def pruneExpiredGrants_def writes_def
        sample_oauth_db_def grant_wellformed_def require_def live_grants_of_def insert_grant_def grant_allowed_def
        member_of_def team_archived_def insert_grant_site_def AppendAudit_def audit_actions_def grantLifetime_def
        Let_def)
  ultimately have "\<exists>row \<in> set (od_grants db'). gw_id row = 7"
    by (auto simp: decide_tx_def sample_consent_env_def sample_decision_def)
  then obtain row where row: "row \<in> set (od_grants db')" by blast
  have db: "od_pending ?db = [sample_pending_row]" "od_grants ?db = []" "pa_RedirectURI sample_pending = ''r''"
    by (simp_all add: sample_oauth_db_def sample_pending_def)
  have "\<exists>code. answer = Approved ''r'' code \<and> sample_pending_row \<notin> set (od_pending db')"
    using grant_needs_consent [OF r core row] by (auto simp: db)
  then show ?thesis unfolding r by simp
qed

end
