(* ===== verification/Team_Store.thy ===== *)
theory Team_Store
  imports Role_Store Programs
begin

text \<open>
  Teams and their members (\<open>database/store_tenant_membership.go\<close>, \<open>store_tenant_helpers.go\<close>,
  \<open>store_tenant_lifecycle.go\<close>) with the invitations and the tokens of
  \<open>runtime_cache.go\<close> that accept them.  Each operation is one transaction on the tables and takes
  its time and its fresh identifiers as arguments.  The role tables are those of Role_Store; the column
  that names who added a member is not read anywhere and left out, and so are the locales of users.
\<close>

subsection \<open>Tables\<close>

record TeamInvite =
  ti_ID :: uuid
  ti_TeamID :: uuid
  ti_Email :: string
  ti_Role :: string
  ti_InvitedUserID :: "uuid option"
  ti_Status :: string
  ti_RequiresPasswordSetup :: bool
  ti_CreatedBy :: "uuid option"
  ti_CreatedAt :: time
  ti_ExpiresAt :: time
  ti_AcceptedAt :: "time option"
  ti_RevokedAt :: "time option"

definition TeamInviteStatusPending :: string where "TeamInviteStatusPending = ''pending''"
definition TeamInviteStatusAccepted :: string where "TeamInviteStatusAccepted = ''accepted''"
definition TeamInviteStatusRevoked :: string where "TeamInviteStatusRevoked = ''revoked''"

record user_row =
  ur_id :: uuid
  ur_email :: string
  ur_password :: string
  ur_password_login :: bool

record team_db =
  td_roles :: roles_db
  td_users :: "user_row list"
  td_remembered :: "uuid list"
  td_invites :: "TeamInvite list"

datatype team_err = TeamDb db_error | InviteEmailRequired | InvalidTenantRole | ErrTeamInviteAlreadyPending
  | ErrTeamInviteNotFound | ErrTeamInviteLoginRequired | ErrTeamInviteEmailMismatch | ErrUserNotFound
  | ErrTenantMembershipRequired | ErrTeamLastOwner | ErrUserOnlyTeam | ErrTeamTransferRequiresOwner
  | ErrTeamTransferSelf | ErrTeamTransferTargetNotMember | ErrTeamTransferTargetAlreadyOwner
  | ErrTeamArchiveRequiresOwner | ErrTeamArchiveDefaultTenant | ErrTeamArchiveHasSites | TenantMemberNotFound
  | ErrPasswordResetInvalid | ErrPasswordResetExpired

type_synonym 'a ttx = "(team_db, team_err, 'a) prog"

text \<open>A query of the role tables, and a change of them.\<close>

definition query :: "(roles_db \<Rightarrow> db_error + 'a) \<Rightarrow> 'a ttx" where
  "query f = reads (\<lambda>db. case f (td_roles db) of Inl e \<Rightarrow> Inl (TeamDb e) | Inr x \<Rightarrow> Inr x)"

definition change_roles :: "(roles_db \<Rightarrow> roles_db) \<Rightarrow> unit ttx" where
  "change_roles f = writes (\<lambda>db. db\<lparr>td_roles := f (td_roles db)\<rparr>)"

definition with_roles :: "(roles_db \<Rightarrow> db_error + roles_db) \<Rightarrow> unit ttx" where
  "with_roles f db = (case f (td_roles db) of
     Inl e \<Rightarrow> (Inl (TeamDb e), db) | Inr r \<Rightarrow> (Inr (), db\<lparr>td_roles := r\<rparr>))"

subsection \<open>Team roles\<close>

definition IsValidTenantRole :: "('a, 'p) golib \<Rightarrow> string \<Rightarrow> bool" where
  "IsValidTenantRole L role \<longleftrightarrow> TrimSpace (ToLower L role) \<in> {TenantRoleOwner, TenantRoleAdmin, TenantRoleMember}"

definition tenantRoleRank :: "('a, 'p) golib \<Rightarrow> string \<Rightarrow> int" where
  "tenantRoleRank L role =
     (let r = TrimSpace (ToLower L role) in
      if r = TenantRoleOwner then 0 else if r = TenantRoleAdmin then 1 else if r = TenantRoleMember then 2 else 99)"

definition CanAssignTenantRole :: "('a, 'p) golib \<Rightarrow> string \<Rightarrow> string \<Rightarrow> bool" where
  "CanAssignTenantRole L actorRole requestedRole \<longleftrightarrow>
     \<not> (\<not> IsValidTenantRole L actorRole \<or> \<not> IsValidTenantRole L requestedRole)
     \<and> tenantRoleRank L requestedRole \<ge> tenantRoleRank L actorRole"

subsection \<open>Members\<close>

definition is_member_row :: "uuid \<Rightarrow> uuid \<Rightarrow> TenantMember \<Rightarrow> bool" where
  "is_member_row tenant user m \<longleftrightarrow> tm_tenant m = tenant \<and> tm_user m = user"

definition member_row :: "roles_db \<Rightarrow> uuid \<Rightarrow> uuid \<Rightarrow> TenantMember option" where
  "member_row db tenant user = find (is_member_row tenant user) (tenant_members db)"

definition insert_member :: "time \<Rightarrow> uuid \<Rightarrow> uuid \<Rightarrow> string \<Rightarrow> roles_db \<Rightarrow> roles_db" where
  "insert_member now tenant user role db = db\<lparr>tenant_members := tenant_members db @
     [\<lparr>tm_tenant = tenant, tm_user = user, tm_role = role, tm_added_at = now\<rparr>]\<rparr>"

definition set_role :: "uuid \<Rightarrow> uuid \<Rightarrow> (TenantMember \<Rightarrow> TenantMember) \<Rightarrow> roles_db \<Rightarrow> roles_db" where
  "set_role tenant user f db = db\<lparr>tenant_members := update_where (is_member_row tenant user) f (tenant_members db)\<rparr>"

definition delete_member :: "uuid \<Rightarrow> uuid \<Rightarrow> roles_db \<Rightarrow> roles_db" where
  "delete_member tenant user db = db\<lparr>tenant_members := filter (\<lambda>m. \<not> is_member_row tenant user m) (tenant_members db)\<rparr>"

definition AddTeamMember :: "('a, 'p) golib \<Rightarrow> time \<Rightarrow> uuid \<Rightarrow> uuid \<Rightarrow> string \<Rightarrow> unit ttx" where
  "AddTeamMember L now tenant user role =
     (let role = TrimSpace (ToLower L role) in
      if \<not> IsValidTenantRole L role then abort InvalidTenantRole
      else bind_op (require (TeamDb DbFailure) (\<lambda>db. db_ok (td_roles db)))
        (\<lambda>_. change_roles (\<lambda>db.
           case member_row db tenant user of
             None \<Rightarrow> insert_member now tenant user role db
           | Some _ \<Rightarrow> set_role tenant user (\<lambda>m. m\<lparr>tm_role := role, tm_added_at := now\<rparr>) db)))"

definition ensureTenantMemberTx :: "time \<Rightarrow> uuid \<Rightarrow> uuid \<Rightarrow> string \<Rightarrow> unit ttx" where
  "ensureTenantMemberTx now tenant user role =
     (let role = TrimSpace role; role = (if role = [] then TenantRoleMember else role)
      in change_roles (\<lambda>db. case member_row db tenant user of
           None \<Rightarrow> insert_member now tenant user role db | Some _ \<Rightarrow> db))"

definition owners_of :: "roles_db \<Rightarrow> uuid \<Rightarrow> TenantMember list" where
  "owners_of db tenant = filter (\<lambda>m. tm_tenant m = tenant \<and> tm_role m = TenantRoleOwner) (tenant_members db)"

definition CountTeamOwners :: "uuid \<Rightarrow> roles_db \<Rightarrow> db_error + nat" where
  "CountTeamOwners tenant db = (if \<not> db_ok db then Inl DbFailure else Inr (length (owners_of db tenant)))"

definition set_active :: "uuid \<Rightarrow> uuid \<Rightarrow> roles_db \<Rightarrow> roles_db" where
  "set_active user tenant db = db\<lparr>active_tenants := AList.update user (Some tenant) (active_tenants db)\<rparr>"

definition RemoveTeamMember :: "uuid \<Rightarrow> uuid \<Rightarrow> unit ttx" where
  "RemoveTeamMember tenant user = committed
     (bind_op (require (TeamDb DbFailure) (\<lambda>db. db_ok (td_roles db)))
       (\<lambda>_. bind_op (require TenantMemberNotFound (\<lambda>db. member_row (td_roles db) tenant user \<noteq> None))
         (\<lambda>_. bind_op (change_roles (delete_member tenant user))
           (\<lambda>_. with_roles (\<lambda>db. removeUserTenantScopedSiteAccess db tenant user)))))"

text \<open>
  The team that is active after leaving: the active one unless it is the team that was left.  An error
  of the first query counts as no active team.
\<close>

definition next_active :: "uuid \<Rightarrow> uuid \<Rightarrow> roles_db \<Rightarrow> db_error + uuid" where
  "next_active tenant user db =
     (let current = (case getActiveTenantID db user of Inl _ \<Rightarrow> uuid_Nil | Inr t \<Rightarrow> t)
      in if current = uuid_Nil \<or> current = tenant then getPrimaryTenantID db user else Inr current)"

text \<open>The checks of \<open>LeaveTeam\<close>, and the changes that follow when they pass.\<close>

definition leave_checks :: "('a, 'p) golib \<Rightarrow> uuid \<Rightarrow> uuid \<Rightarrow> unit ttx" where
  "leave_checks L tenant user =
     bind_op (require (TeamDb DbFailure) (\<lambda>db. db_ok (td_roles db)))
       (\<lambda>_. bind_op (reads (\<lambda>db. case member_row (td_roles db) tenant user of
                None \<Rightarrow> Inl ErrTenantMembershipRequired | Some m \<Rightarrow> Inr (tm_role m)))
         (\<lambda>role. bind_op (require ErrUserOnlyTeam (\<lambda>db.
                \<not> length (filter (\<lambda>m. tm_user m = user) (tenant_members (td_roles db))) \<le> 1))
           (\<lambda>_. require ErrTeamLastOwner (\<lambda>db.
                  \<not> (EqualFold L (TrimSpace role) TenantRoleOwner \<and> length (owners_of (td_roles db) tenant) \<le> 1)))))"

definition leave_changes :: "uuid \<Rightarrow> uuid \<Rightarrow> uuid ttx" where
  "leave_changes tenant user =
     bind_op (change_roles (delete_member tenant user))
       (\<lambda>_. bind_op (with_roles (\<lambda>db. removeUserTenantScopedSiteAccess db tenant user))
         (\<lambda>_. bind_op (query (next_active tenant user))
           (\<lambda>t. bind_op (change_roles (set_active user t)) (\<lambda>_. ret t))))"

definition LeaveTeam :: "('a, 'p) golib \<Rightarrow> uuid \<Rightarrow> uuid \<Rightarrow> uuid ttx" where
  "LeaveTeam L tenant user = committed (bind_op (leave_checks L tenant user) (\<lambda>_. leave_changes tenant user))"

definition TransferTeamOwnership :: "uuid \<Rightarrow> uuid \<Rightarrow> uuid \<Rightarrow> unit ttx" where
  "TransferTeamOwnership tenant actor target =
     (if actor = target then abort ErrTeamTransferSelf
      else committed
       (bind_op (require (TeamDb DbFailure) (\<lambda>db. db_ok (td_roles db)))
        (\<lambda>_. bind_op (reads (\<lambda>db. case member_row (td_roles db) tenant actor of
              None \<Rightarrow> Inl ErrTenantMembershipRequired
            | Some m \<Rightarrow> if tm_role m \<noteq> TenantRoleOwner then Inl ErrTeamTransferRequiresOwner else Inr ()))
         (\<lambda>_. bind_op (reads (\<lambda>db. case member_row (td_roles db) tenant target of
                None \<Rightarrow> Inl ErrTeamTransferTargetNotMember
              | Some m \<Rightarrow> if tm_role m = TenantRoleOwner then Inl ErrTeamTransferTargetAlreadyOwner else Inr ()))
           (\<lambda>_. bind_op (change_roles (set_role tenant target (\<lambda>m. m\<lparr>tm_role := TenantRoleOwner\<rparr>)))
             (\<lambda>_. change_roles (set_role tenant actor (\<lambda>m. m\<lparr>tm_role := TenantRoleAdmin\<rparr>))))))))"

definition ListSoleOwnerTeams :: "uuid \<Rightarrow> roles_db \<Rightarrow> db_error + uuid list" where
  "ListSoleOwnerTeams user db =
     (if \<not> db_ok db then Inl DbFailure
      else Inr (map fst (filter (\<lambda>(t, _). \<not> archived db t
            \<and> list_ex (\<lambda>m. is_member_row t user m \<and> tm_role m = TenantRoleOwner) (tenant_members db)
            \<and> \<not> list_ex (\<lambda>m. tm_tenant m = t \<and> tm_role m = TenantRoleOwner \<and> tm_user m \<noteq> user) (tenant_members db))
          (tenants db))))"

subsection \<open>Archiving\<close>

text \<open>Members of an archived team are members of the default team, and no member stays active in it.\<close>

definition reactivate :: "uuid \<Rightarrow> uuid \<Rightarrow> unit ttx" where
  "reactivate tenant member db =
     (case getActiveTenantID (td_roles db) member of
        Inr t \<Rightarrow> if t \<noteq> tenant then (Inr (), db)
                 else bind_op (query (\<lambda>db. getPrimaryTenantID db member)) (\<lambda>t. change_roles (set_active member t)) db
      | Inl _ \<Rightarrow> if uuid_Nil \<noteq> tenant then (Inr (), db)
                 else bind_op (query (\<lambda>db. getPrimaryTenantID db member)) (\<lambda>t. change_roles (set_active member t)) db)"

definition archive_members :: "time \<Rightarrow> uuid \<Rightarrow> unit ttx" where
  "archive_members now tenant =
     bind_op (query getDefaultTenantID) (\<lambda>dflt.
       bind_op (reads (\<lambda>db. Inr (map tm_user (filter (\<lambda>m. tm_tenant m = tenant) (tenant_members (td_roles db)))))) (\<lambda>members.
         bind_op (for_each (\<lambda>u. ensureTenantMemberTx now dflt u TenantRoleMember) members) (\<lambda>_.
           bind_op (change_roles (\<lambda>db. db\<lparr>tenant_archives := tenant_archives db @ [tenant]\<rparr>)) (\<lambda>_.
             bind_op (for_each (reactivate tenant) members) (\<lambda>_. ret ())))))"

definition live_team :: "uuid \<Rightarrow> bool ttx" where
  "live_team tenant = reads (\<lambda>db.
     if \<not> db_ok (td_roles db) then Inl (TeamDb DbFailure)
     else case map_of (tenants (td_roles db)) tenant of
            None \<Rightarrow> Inl ErrTenantMembershipRequired
          | Some d \<Rightarrow> if archived (td_roles db) tenant then Inl ErrTenantMembershipRequired else Inr d)"

definition ArchiveTenant :: "time \<Rightarrow> uuid \<Rightarrow> uuid \<Rightarrow> unit ttx" where
  "ArchiveTenant now tenant actor = committed
     (bind_op (live_team tenant) (\<lambda>isDefault.
       if isDefault then abort ErrTeamArchiveDefaultTenant
       else bind_op (reads (\<lambda>db. case member_row (td_roles db) tenant actor of
                None \<Rightarrow> Inl ErrTenantMembershipRequired
              | Some m \<Rightarrow> if tm_role m \<noteq> TenantRoleOwner then Inl ErrTeamArchiveRequiresOwner else Inr ()))
         (\<lambda>_. bind_op (require ErrTeamArchiveHasSites (\<lambda>db. \<not> length (filter (\<lambda>(s, t). t = tenant) (site_tenants (td_roles db))) > 0))
           (\<lambda>_. archive_members now tenant))))"

definition AdminArchiveTenant :: "time \<Rightarrow> uuid \<Rightarrow> uuid \<Rightarrow> unit ttx" where
  "AdminArchiveTenant now tenant actor = committed
     (bind_op (live_team tenant) (\<lambda>isDefault.
       if isDefault then abort ErrTeamArchiveDefaultTenant else archive_members now tenant))"

subsection \<open>Accounts\<close>

text \<open>
  New accounts, with the constraints of the table: the identifier is new and so is the address.  The
  first account makes the default team if there is none, and owns it and the instance.  Profile names
  and the name of the team are left out.
\<close>

definition insert_user :: "uuid \<Rightarrow> string \<Rightarrow> string \<Rightarrow> bool \<Rightarrow> unit ttx" where
  "insert_user new email hashed passwordLogin =
     bind_op (require (TeamDb DbFailure) (\<lambda>db. db_ok (td_roles db)
         \<and> new \<notin> ur_id ` set (td_users db) \<and> email \<notin> ur_email ` set (td_users db)))
       (\<lambda>_. writes (\<lambda>db. db\<lparr>td_users := td_users db @
          [\<lparr>ur_id = new, ur_email = email, ur_password = hashed, ur_password_login = passwordLogin\<rparr>]\<rparr>))"

definition createUserWithoutDefaultTenant :: "uuid \<Rightarrow> string \<Rightarrow> string \<Rightarrow> bool \<Rightarrow> uuid ttx" where
  "createUserWithoutDefaultTenant new email hashed passwordLogin =
     bind_op (insert_user new email hashed passwordLogin) (\<lambda>_. ret new)"

definition ensureDefaultTenantTx :: "uuid \<Rightarrow> unit ttx" where
  "ensureDefaultTenantTx newTenant = change_roles (\<lambda>db.
     if list_ex snd (tenants db) then db else db\<lparr>tenants := tenants db @ [(newTenant, True)]\<rparr>)"

definition createUserWithNamesAndDefaultTenantName :: "time \<Rightarrow> uuid \<Rightarrow> uuid \<Rightarrow> string \<Rightarrow> string \<Rightarrow> bool \<Rightarrow> uuid ttx" where
  "createUserWithNamesAndDefaultTenantName now newTenant new email hashed passwordLogin = committed
     (bind_op (insert_user new email hashed passwordLogin)
       (\<lambda>_. bind_op (reads (\<lambda>db. Inr (length (td_users db))))
         (\<lambda>count. bind_op (ensureDefaultTenantTx newTenant)
           (\<lambda>_. bind_op (if count = 1 then change_roles (\<lambda>db. db\<lparr>instance_roles := instance_roles db @ [(new, ''owner'')]\<rparr>) else ret ())
             (\<lambda>_. bind_op (query getDefaultTenantID)
               (\<lambda>dflt. bind_op (ensureTenantMemberTx now dflt new (if count = 1 then TenantRoleOwner else TenantRoleMember))
                 (\<lambda>_. ret new)))))))"

subsection \<open>Invitations\<close>

definition by_email :: "('a, 'p) golib \<Rightarrow> string \<Rightarrow> TeamInvite \<Rightarrow> bool" where
  "by_email L email i \<longleftrightarrow> sql_lower L (ti_Email i) = sql_lower L email \<and> ti_Status i = TeamInviteStatusPending"

definition normal_email :: "('a, 'p) golib \<Rightarrow> string \<Rightarrow> string" where
  "normal_email L email = ToLower L (TrimSpace email)"

definition ListPendingTeamInvitesByEmail :: "('a, 'p) golib \<Rightarrow> string \<Rightarrow> TeamInvite list ttx" where
  "ListPendingTeamInvitesByEmail L email =
     (let email = normal_email L email in
      if email = [] then abort InviteEmailRequired
      else reads (\<lambda>db. Inr (sort_key ti_CreatedAt (filter (by_email L email) (td_invites db)))))"

definition CreateTeamInvite :: "('a, 'p) golib \<Rightarrow> time \<Rightarrow> uuid \<Rightarrow> uuid \<Rightarrow> string \<Rightarrow> string \<Rightarrow> uuid option \<Rightarrow> uuid \<Rightarrow> bool
    \<Rightarrow> TeamInvite ttx" where
  "CreateTeamInvite L now new tenant email role invited createdBy setup =
     (let email = normal_email L email; role = TrimSpace (ToLower L role) in
      if email = [] then abort InviteEmailRequired
      else if \<not> IsValidTenantRole L role then abort InvalidTenantRole
      else
        let invite = \<lparr>ti_ID = new, ti_TeamID = tenant, ti_Email = email, ti_Role = role,
              ti_InvitedUserID = (case invited of Some u \<Rightarrow> if u \<noteq> uuid_Nil then Some u else None | None \<Rightarrow> None),
              ti_Status = TeamInviteStatusPending, ti_RequiresPasswordSetup = setup,
              ti_CreatedBy = (if createdBy \<noteq> uuid_Nil then Some createdBy else None), ti_CreatedAt = now,
              ti_ExpiresAt = now + 7 * 24 * hour, ti_AcceptedAt = None, ti_RevokedAt = None\<rparr>
        in committed
          (bind_op (require ErrTeamInviteAlreadyPending (\<lambda>db. filter (\<lambda>i. ti_TeamID i = tenant \<and> by_email L email i) (td_invites db) = []))
            (\<lambda>_. bind_op (writes (\<lambda>db. db\<lparr>td_invites := td_invites db @ [invite]\<rparr>)) (\<lambda>_. ret invite))))"

definition ListTeamInvites :: "uuid \<Rightarrow> TeamInvite list ttx" where
  "ListTeamInvites tenant = reads (\<lambda>db. Inr (sort_key (\<lambda>i. - ti_CreatedAt i)
     (filter (\<lambda>i. ti_TeamID i = tenant \<and> ti_Status i = TeamInviteStatusPending) (td_invites db))))"

definition GetTeamInvite :: "uuid \<Rightarrow> uuid \<Rightarrow> TeamInvite ttx" where
  "GetTeamInvite tenant invite = reads (\<lambda>db.
     case find (\<lambda>i. ti_TeamID i = tenant \<and> ti_ID i = invite) (td_invites db) of
       None \<Rightarrow> Inl ErrTeamInviteNotFound | Some i \<Rightarrow> Inr i)"

definition pending_invite :: "uuid \<Rightarrow> uuid \<Rightarrow> TeamInvite \<Rightarrow> bool" where
  "pending_invite tenant invite i \<longleftrightarrow> ti_TeamID i = tenant \<and> ti_ID i = invite \<and> ti_Status i = TeamInviteStatusPending"

definition update_invites :: "team_err \<Rightarrow> (TeamInvite \<Rightarrow> bool) \<Rightarrow> (TeamInvite \<Rightarrow> TeamInvite) \<Rightarrow> unit ttx" where
  "update_invites e P f = bind_op (require e (\<lambda>db. filter P (td_invites db) \<noteq> []))
     (\<lambda>_. writes (\<lambda>db. db\<lparr>td_invites := update_where P f (td_invites db)\<rparr>))"

definition ResendTeamInvite :: "time \<Rightarrow> uuid \<Rightarrow> uuid \<Rightarrow> TeamInvite ttx" where
  "ResendTeamInvite now tenant invite =
     bind_op (committed (update_invites ErrTeamInviteNotFound (pending_invite tenant invite)
       (\<lambda>i. i\<lparr>ti_CreatedAt := now, ti_ExpiresAt := now + 7 * 24 * hour\<rparr>))) (\<lambda>_. GetTeamInvite tenant invite)"

definition RevokeTeamInvite :: "time \<Rightarrow> uuid \<Rightarrow> uuid \<Rightarrow> unit ttx" where
  "RevokeTeamInvite now tenant invite = update_invites ErrTeamInviteNotFound (pending_invite tenant invite)
     (\<lambda>i. i\<lparr>ti_Status := TeamInviteStatusRevoked, ti_RevokedAt := Some now\<rparr>)"

definition write_invite :: "(TeamInvite \<Rightarrow> bool) \<Rightarrow> (TeamInvite \<Rightarrow> TeamInvite) \<Rightarrow> unit ttx" where
  "write_invite P f = writes (\<lambda>db. db\<lparr>td_invites := update_where P f (td_invites db)\<rparr>)"

definition accepted_by :: "time \<Rightarrow> uuid \<Rightarrow> TeamInvite \<Rightarrow> TeamInvite" where
  "accepted_by now user i = i\<lparr>ti_InvitedUserID := Some user, ti_Status := TeamInviteStatusAccepted, ti_AcceptedAt := Some now\<rparr>"

text \<open>One invitation of the loop: an expired one is revoked and skipped.\<close>

definition accept_one :: "time \<Rightarrow> uuid \<Rightarrow> TeamInvite \<Rightarrow> TeamInvite option ttx" where
  "accept_one now user i =
     (if ti_ExpiresAt i < now
      then bind_op (write_invite (\<lambda>r. ti_ID r = ti_ID i) (\<lambda>r. r\<lparr>ti_Status := TeamInviteStatusRevoked, ti_RevokedAt := Some now\<rparr>))
             (\<lambda>_. ret None)
      else bind_op (ensureTenantMemberTx now (ti_TeamID i) user (ti_Role i))
        (\<lambda>_. bind_op (write_invite (\<lambda>r. ti_ID r = ti_ID i) (accepted_by now user)) (\<lambda>_. ret (Some (accepted_by now user i)))))"

definition acceptTeamInvitesByEmailTx :: "('a, 'p) golib \<Rightarrow> time \<Rightarrow> string \<Rightarrow> uuid \<Rightarrow> TeamInvite list ttx" where
  "acceptTeamInvitesByEmailTx L now email user =
     bind_op (reads (\<lambda>db. Inr (sort_key ti_CreatedAt (filter (by_email L email) (td_invites db)))))
       (\<lambda>invites. bind_op (for_each (accept_one now user) invites)
         (\<lambda>rs. let accepted = List.map_filter id rs in
            if accepted = [] then abort ErrTeamInviteNotFound
            else bind_op (change_roles (set_active user (ti_TeamID (last accepted)))) (\<lambda>_. ret accepted)))"

definition AcceptTeamInvitesByEmail :: "('a, 'p) golib \<Rightarrow> time \<Rightarrow> string \<Rightarrow> uuid \<Rightarrow> TeamInvite list ttx" where
  "AcceptTeamInvitesByEmail L now email user =
     (let email = normal_email L email in
      if email = [] then abort InviteEmailRequired else committed (acceptTeamInvitesByEmailTx L now email user))"

end
