(* ===== verification/Team_Invites.thy ===== *)
theory Team_Invites
  imports Team_Store
begin

text \<open>
  The tokens of invitation mails (\<open>database/runtime_cache.go\<close>) and the ways to accept an invitation
  with them (\<open>store_tenant_membership.go\<close>), and the team handlers of
  \<open>server/user/team_membership_handlers.go\<close>.  The cache that holds the tokens is its two maps;
  that a cache also forgets entries by age or number is left to the environment.
\<close>

record passwordResetEntry =
  pr_Email :: string
  pr_ExpiresAt :: time

record team_sys =
  ts_db :: team_db
  ts_tokens :: "(string \<times> passwordResetEntry) list"
  ts_index :: "(string \<times> string) list"

type_synonym 'a stx = "(team_sys, team_err, 'a) prog"

definition on_db :: "'a ttx \<Rightarrow> 'a stx" where
  "on_db m s = (case m (ts_db s) of (r, db) \<Rightarrow> (r, s\<lparr>ts_db := db\<rparr>))"

definition storePasswordResetToken :: "('a, 'p) golib \<Rightarrow> string \<Rightarrow> string \<Rightarrow> time \<Rightarrow> team_sys \<Rightarrow> team_sys" where
  "storePasswordResetToken L email token expiresAt s =
     (let emailKey = normal_email L email; token = TrimSpace token in
      if emailKey = [] \<or> token = [] then s
      else
        let tokens = (case map_of (ts_index s) emailKey of
              Some previous \<Rightarrow> if TrimSpace previous \<noteq> [] then AList.delete previous (ts_tokens s) else ts_tokens s
            | None \<Rightarrow> ts_tokens s)
        in s\<lparr>ts_tokens := AList.update token \<lparr>pr_Email = TrimSpace email, pr_ExpiresAt = expiresAt\<rparr> tokens,
             ts_index := AList.update emailKey token (ts_index s)\<rparr>)"

definition forget_token :: "('a, 'p) golib \<Rightarrow> string \<Rightarrow> passwordResetEntry \<Rightarrow> team_sys \<Rightarrow> team_sys" where
  "forget_token L token e s = s\<lparr>ts_tokens := AList.delete token (ts_tokens s),
     ts_index := AList.delete (normal_email L (pr_Email e)) (ts_index s)\<rparr>"

definition lookupPasswordResetToken :: "('a, 'p) golib \<Rightarrow> time \<Rightarrow> string \<Rightarrow> bool \<Rightarrow> passwordResetEntry stx" where
  "lookupPasswordResetToken L now token consume s =
     (let token = TrimSpace token in
      if token = [] then (Inl ErrPasswordResetInvalid, s)
      else case map_of (ts_tokens s) token of
             None \<Rightarrow> (Inl ErrPasswordResetInvalid, s)
           | Some e \<Rightarrow>
               if TrimSpace (pr_Email e) = [] then (Inl ErrPasswordResetInvalid, s)
               else if \<not> IsZero (pr_ExpiresAt e) \<and> now > pr_ExpiresAt e then (Inl ErrPasswordResetExpired, forget_token L token e s)
               else (Inr e, if consume then forget_token L token e s else s))"

definition deletePasswordResetTokenForEmail :: "('a, 'p) golib \<Rightarrow> string \<Rightarrow> team_sys \<Rightarrow> team_sys" where
  "deletePasswordResetTokenForEmail L email s =
     (let emailKey = normal_email L email in
      if emailKey = [] then s
      else s\<lparr>ts_tokens := (case map_of (ts_index s) emailKey of
                 Some token \<Rightarrow> AList.delete (TrimSpace token) (ts_tokens s) | None \<Rightarrow> ts_tokens s),
             ts_index := AList.delete emailKey (ts_index s)\<rparr>)"

definition restorePasswordResetToken :: "('a, 'p) golib \<Rightarrow> time \<Rightarrow> string \<Rightarrow> passwordResetEntry \<Rightarrow> team_sys \<Rightarrow> team_sys" where
  "restorePasswordResetToken L now token e s =
     (if now < pr_ExpiresAt e then storePasswordResetToken L (pr_Email e) (TrimSpace token) (pr_ExpiresAt e) s else s)"

text \<open>A transaction under a consumed token: when it fails the token is stored again.\<close>

definition under_token :: "('a, 'p) golib \<Rightarrow> time \<Rightarrow> string \<Rightarrow> (passwordResetEntry \<Rightarrow> 'b ttx) \<Rightarrow> 'b stx" where
  "under_token L now token m =
     bind_op (lookupPasswordResetToken L now token True) (\<lambda>e s.
       case on_db (committed (m e)) s of
         (Inl x, s') \<Rightarrow> (Inl x, restorePasswordResetToken L now token e s')
       | (Inr y, s') \<Rightarrow> (Inr y, s'))"

definition hasPendingPasswordSetupInviteTx :: "('a, 'p) golib \<Rightarrow> string \<Rightarrow> team_db \<Rightarrow> bool" where
  "hasPendingPasswordSetupInviteTx L email db \<longleftrightarrow>
     length (filter (\<lambda>i. by_email L email i \<and> ti_RequiresPasswordSetup i) (td_invites db)) > 0"

definition AcceptInviteWithPassword :: "('a, 'p) golib \<Rightarrow> time \<Rightarrow> string \<Rightarrow> string \<Rightarrow> (uuid \<times> TeamInvite list) stx" where
  "AcceptInviteWithPassword L now token hashed = under_token L now token (\<lambda>e.
     let email = normal_email L (pr_Email e) in
     bind_op (reads (\<lambda>db. case find (\<lambda>u. sql_lower L (ur_email u) = sql_lower L email) (td_users db) of
           None \<Rightarrow> Inl ErrTeamInviteNotFound | Some u \<Rightarrow> Inr (ur_id u)))
       (\<lambda>user. bind_op (require ErrTeamInviteLoginRequired (hasPendingPasswordSetupInviteTx L email))
         (\<lambda>_. bind_op (writes (\<lambda>db. db\<lparr>
              td_users := update_where (\<lambda>u. ur_id u = user) (\<lambda>u. u\<lparr>ur_password := hashed, ur_password_login := True\<rparr>) (td_users db),
              td_remembered := filter (\<lambda>u. u \<noteq> user) (td_remembered db)\<rparr>))
           (\<lambda>_. bind_op (acceptTeamInvitesByEmailTx L now email user) (\<lambda>accepted. ret (user, accepted))))))"

definition user_email :: "uuid \<Rightarrow> string ttx" where
  "user_email user = reads (\<lambda>db. case find (\<lambda>u. ur_id u = user) (td_users db) of
     None \<Rightarrow> Inl ErrUserNotFound | Some u \<Rightarrow> Inr (ur_email u))"

definition AcceptInviteForAuthenticatedUser :: "('a, 'p) golib \<Rightarrow> time \<Rightarrow> string \<Rightarrow> uuid \<Rightarrow> TeamInvite list stx" where
  "AcceptInviteForAuthenticatedUser L now token user = under_token L now token (\<lambda>e.
     let inviteEmail = normal_email L (pr_Email e) in
     bind_op (user_email user) (\<lambda>userEmail.
       if \<not> EqualFold L (TrimSpace userEmail) inviteEmail then abort ErrTeamInviteEmailMismatch
       else acceptTeamInvitesByEmailTx L now inviteEmail user))"

text \<open>The transaction of a login by single sign-on accepts the oldest invitation to one team.\<close>

definition accept_sso_tx :: "('a, 'p) golib \<Rightarrow> time \<Rightarrow> passwordResetEntry option \<Rightarrow> uuid \<Rightarrow> uuid \<Rightarrow> TeamInvite ttx" where
  "accept_sso_tx L now tokenEntry team user =
     bind_op (user_email user) (\<lambda>userEmail.
       let userEmail = normal_email L userEmail in
       if (case tokenEntry of Some e \<Rightarrow> \<not> EqualFold L userEmail (TrimSpace (pr_Email e)) | None \<Rightarrow> False)
       then abort ErrTeamInviteEmailMismatch
       else bind_op (reads (\<lambda>db. case sort_key ti_CreatedAt
                (filter (\<lambda>i. ti_TeamID i = team \<and> by_email L userEmail i) (td_invites db)) of
              [] \<Rightarrow> Inl ErrTeamInviteNotFound | i # _ \<Rightarrow> Inr i))
         (\<lambda>i. if ti_ExpiresAt i < now
              then bind_op (write_invite (\<lambda>r. ti_ID r = ti_ID i)
                     (\<lambda>r. r\<lparr>ti_Status := TeamInviteStatusRevoked, ti_RevokedAt := Some now\<rparr>)) (\<lambda>_. abort ErrTeamInviteNotFound)
              else bind_op (ensureTenantMemberTx now team user (ti_Role i))
                (\<lambda>_. bind_op (write_invite (\<lambda>r. ti_ID r = ti_ID i \<and> ti_Status r = TeamInviteStatusPending) (accepted_by now user))
                  (\<lambda>_. bind_op (change_roles (set_active user team)) (\<lambda>_. ret (accepted_by now user i))))))"

definition AcceptTeamInviteForSSO :: "('a, 'p) golib \<Rightarrow> time \<Rightarrow> string \<Rightarrow> uuid \<Rightarrow> uuid \<Rightarrow> TeamInvite stx" where
  "AcceptTeamInviteForSSO L now token team user =
     (if team = uuid_Nil \<or> user = uuid_Nil then abort ErrTeamInviteNotFound
      else
        let token = TrimSpace token in
        if token \<noteq> [] then under_token L now token (\<lambda>e. accept_sso_tx L now (Some e) team user)
        else bind_op (on_db (committed (accept_sso_tx L now None team user)))
          (\<lambda>i s. (Inr i, deletePasswordResetTokenForEmail L (ti_Email i) s)))"

subsection \<open>Handlers\<close>

datatype answer = OK | Refused nat

definition canManageTeam :: "('a, 'p) golib \<Rightarrow> string \<Rightarrow> bool" where
  "canManageTeam L role \<longleftrightarrow> TrimSpace (ToLower L role) \<in> {TenantRoleOwner, TenantRoleAdmin}"

definition manages :: "('a, 'p) golib \<Rightarrow> roles_db \<Rightarrow> uuid \<Rightarrow> uuid \<Rightarrow> string option" where
  "manages L db team actor =
     (case GetTenantRole db team actor of
        Inl _ \<Rightarrow> None | Inr role \<Rightarrow> if canManageTeam L role then Some role else None)"

definition normalizeAssignableTeamRole :: "('a, 'p) golib \<Rightarrow> string \<Rightarrow> string \<Rightarrow> nat + string" where
  "normalizeAssignableTeamRole L value actorRole =
     (let role = TrimSpace (ToLower L value); role = (if role = [] then TenantRoleMember else role) in
      if \<not> IsValidTenantRole L role then Inl 400
      else if \<not> CanAssignTenantRole L actorRole role then Inl 403
      else if role = TenantRoleOwner then Inl 409
      else Inr role)"

text \<open>
  The request to add a member: a member gets the new role, anybody else an invitation.  \<open>mail_ok\<close>
  is the check of the address and \<open>capacity\<close> the check of the hosted product; an unknown address
  gets an account with the password that was drawn for it.
\<close>

record add_env =
  ae_now :: time
  ae_mail_ok :: "string \<Rightarrow> bool"
  ae_capacity :: "uuid option \<Rightarrow> string \<Rightarrow> team_db \<Rightarrow> nat option"
  ae_hosted :: bool
  ae_user_id :: uuid
  ae_tenant_id :: uuid
  ae_password :: string
  ae_invite_id :: uuid

definition createInviteeUser :: "add_env \<Rightarrow> string \<Rightarrow> uuid ttx" where
  "createInviteeUser env email =
     (if ae_hosted env then createUserWithoutDefaultTenant (ae_user_id env) email (ae_password env) False
      else createUserWithNamesAndDefaultTenantName (ae_now env) (ae_tenant_id env) (ae_user_id env) email (ae_password env) False)"

definition invite_member :: "('a, 'p) golib \<Rightarrow> add_env \<Rightarrow> uuid \<Rightarrow> uuid \<Rightarrow> uuid \<Rightarrow> string \<Rightarrow> string \<Rightarrow> bool
    \<Rightarrow> team_db \<Rightarrow> answer \<times> team_db" where
  "invite_member L env team actor target email role setup db =
     (case CreateTeamInvite L (ae_now env) (ae_invite_id env) team email role (Some target) actor setup db of
        (Inl e, db') \<Rightarrow> (Refused (if e = ErrTeamInviteAlreadyPending then 409 else 500), db')
      | (Inr _, db') \<Rightarrow> (OK, db'))"

definition handleAddTeamMember :: "('a, 'p) golib \<Rightarrow> add_env \<Rightarrow> uuid \<Rightarrow> uuid \<Rightarrow> string \<Rightarrow> string \<Rightarrow> team_db \<Rightarrow> answer \<times> team_db" where
  "handleAddTeamMember L env actor team email role db =
     (if actor = uuid_Nil then (Refused 401, db)
      else case manages L (td_roles db) team actor of
        None \<Rightarrow> (Refused 403, db)
      | Some actorRole \<Rightarrow>
          let email = normal_email L email in
          if \<not> ae_mail_ok env email then (Refused 400, db)
          else case normalizeAssignableTeamRole L role actorRole of
            Inl code \<Rightarrow> (Refused code, db)
          | Inr role \<Rightarrow>
              (case find (\<lambda>u. sql_lower L (ur_email u) = sql_lower L email) (td_users db) of
                 None \<Rightarrow>
                   (case ae_capacity env None email db of
                      Some code \<Rightarrow> (Refused code, db)
                    | None \<Rightarrow>
                        (case createInviteeUser env email db of
                           (Inl _, db') \<Rightarrow> (Refused 500, db')
                         | (Inr target, db') \<Rightarrow>
                             (case ae_capacity env (Some target) email db' of
                                Some code \<Rightarrow> (Refused code, db')
                              | None \<Rightarrow> invite_member L env team actor target email role True db')))
               | Some user \<Rightarrow>
                   (case IsTenantMember (td_roles db) team (ur_id user) of
                      Inl _ \<Rightarrow> (Refused 500, db)
                    | Inr isMember \<Rightarrow>
                        if isMember \<and> ur_id user = actor then (Refused 409, db)
                        else if isMember then
                          (case AddTeamMember L (ae_now env) team (ur_id user) role db of
                             (Inl _, db') \<Rightarrow> (Refused 500, db') | (Inr _, db') \<Rightarrow> (OK, db'))
                        else
                          (case ae_capacity env (Some (ur_id user)) email db of
                             Some code \<Rightarrow> (Refused code, db)
                           | None \<Rightarrow> invite_member L env team actor (ur_id user) email role False db))))"

text \<open>The checks before a member is removed, and the handler that makes them first.\<close>

definition remove_refused :: "('a, 'p) golib \<Rightarrow> uuid \<Rightarrow> uuid \<Rightarrow> uuid \<Rightarrow> roles_db \<Rightarrow> nat option" where
  "remove_refused L actor team target db =
     (if actor = uuid_Nil then Some 401
      else case manages L db team actor of
        None \<Rightarrow> Some 403
      | Some actorRole \<Rightarrow>
          (case GetTenantRole db team target of
             Inl _ \<Rightarrow> Some 404
           | Inr targetRole \<Rightarrow>
               if \<not> CanAssignTenantRole L actorRole targetRole then Some 403
               else case CountTeamOwners team db of
                 Inl _ \<Rightarrow> Some 500
               | Inr n \<Rightarrow> if targetRole = TenantRoleOwner \<and> n \<le> 1 then Some 400 else None))"

definition handleRemoveTeamMember :: "('a, 'p) golib \<Rightarrow> uuid \<Rightarrow> uuid \<Rightarrow> uuid \<Rightarrow> team_db \<Rightarrow> answer \<times> team_db" where
  "handleRemoveTeamMember L actor team target db =
     (case remove_refused L actor team target (td_roles db) of
        Some code \<Rightarrow> (Refused code, db)
      | None \<Rightarrow>
          (case RemoveTeamMember team target db of
             (Inl e, db') \<Rightarrow> (Refused (if e = TenantMemberNotFound then 404 else 500), db')
           | (Inr _, db') \<Rightarrow> (OK, db')))"

definition handleLeaveTeam :: "('a, 'p) golib \<Rightarrow> uuid \<Rightarrow> uuid \<Rightarrow> team_db \<Rightarrow> answer \<times> team_db" where
  "handleLeaveTeam L user team db =
     (if user = uuid_Nil then (Refused 401, db)
      else case LeaveTeam L team user db of
        (Inl e, db') \<Rightarrow> (Refused (if e = ErrTenantMembershipRequired then 403
            else if e = ErrTeamLastOwner \<or> e = ErrUserOnlyTeam then 400 else 500), db')
      | (Inr _, db') \<Rightarrow> (OK, db'))"

definition handleTransferTeamOwnership :: "uuid \<Rightarrow> uuid \<Rightarrow> uuid \<Rightarrow> team_db \<Rightarrow> answer \<times> team_db" where
  "handleTransferTeamOwnership actor team target db =
     (if actor = uuid_Nil then (Refused 401, db)
      else case TransferTeamOwnership team actor target db of
        (Inl e, db') \<Rightarrow> (Refused (if e = ErrTenantMembershipRequired \<or> e = ErrTeamTransferRequiresOwner then 403
            else if e = ErrTeamTransferTargetNotMember then 400
            else if e = ErrTeamTransferSelf \<or> e = ErrTeamTransferTargetAlreadyOwner then 409 else 500), db')
      | (Inr _, db') \<Rightarrow> (OK, db'))"

definition handleArchiveTeam :: "bool \<Rightarrow> time \<Rightarrow> uuid \<Rightarrow> uuid \<Rightarrow> team_db \<Rightarrow> answer \<times> team_db" where
  "handleArchiveTeam hosted now actor team db =
     (if actor = uuid_Nil then (Refused 401, db)
      else if hosted then (Refused 403, db)
      else case ArchiveTenant now team actor db of
        (Inl e, db') \<Rightarrow> (Refused (if e = ErrTenantMembershipRequired \<or> e = ErrTeamArchiveRequiresOwner then 403
            else if e = ErrTeamArchiveDefaultTenant \<or> e = ErrTeamArchiveHasSites then 400 else 500), db')
      | (Inr _, db') \<Rightarrow> (OK, db'))"

end
