(* ===== verification/Team_Runs.thy ===== *)
theory Team_Runs
  imports Team_Invites
begin

text \<open>
  The runs of the team handlers and of the ways to accept an invitation.  A team has an owner when its
  membership rows have distinct keys and one of them is an owner's; every operation keeps that, and so
  does every run in which requests do not interleave with a removal and no request to add a member names
  an owner.
\<close>

subsection \<open>A team with an owner\<close>

definition member_key :: "TenantMember \<Rightarrow> uuid \<times> uuid" where
  "member_key m = (tm_tenant m, tm_user m)"

definition owned :: "uuid \<Rightarrow> roles_db \<Rightarrow> bool" where
  "owned t db \<longleftrightarrow> distinct (map member_key (tenant_members db)) \<and> owners_of db t \<noteq> []"

abbreviation (input) team_owned :: "uuid \<Rightarrow> team_db \<Rightarrow> bool" where
  "team_owned t db \<equiv> owned t (td_roles db)"

lemma owned_frame: "tenant_members db' = tenant_members db \<Longrightarrow> owned t db \<Longrightarrow> owned t db'"
  by (simp add: owned_def owners_of_def)

lemma owned_frames [simp]:
  "owned t (db\<lparr>instance_roles := xs\<rparr>) = owned t db" "owned t (db\<lparr>tenants := ts\<rparr>) = owned t db"
  by (simp_all add: owned_def owners_of_def)

lemma member_row_None: "member_row db t u = None \<longleftrightarrow> (t, u) \<notin> set (map member_key (tenant_members db))"
  by (auto simp: member_row_def find_None_iff is_member_row_def member_key_def)

lemma member_row_Some:
  assumes "member_row db t u = Some m"
  shows "m \<in> set (tenant_members db)" and "member_key m = (t, u)" and "is_member_row t u m"
  using assms by (auto simp: member_row_def find_Some_iff is_member_row_def member_key_def)

lemma is_member_row_key: "is_member_row t u m \<longleftrightarrow> member_key m = (t, u)"
  by (auto simp: is_member_row_def member_key_def)

lemma unique_row:
  "distinct (map member_key rows) \<Longrightarrow> m \<in> set rows \<Longrightarrow> n \<in> set rows \<Longrightarrow> member_key m = member_key n \<Longrightarrow> m = n"
  by (auto simp: distinct_map dest: inj_onD)

lemma owned_insert: "owned t db \<Longrightarrow> member_row db tenant user = None \<Longrightarrow> owned t (insert_member now tenant user role db)"
  by (auto simp: owned_def insert_member_def owners_of_def member_row_None) (simp add: member_key_def)

lemma owned_set_role:
  assumes "owned t db" and "\<And>m. member_key (f m) = member_key m"
    and "\<And>m. m \<in> set (owners_of db t) \<Longrightarrow> is_member_row tenant user m \<Longrightarrow> f m \<in> set (owners_of (set_role tenant user f db) t)"
  shows "owned t (set_role tenant user f db)"
proof -
  obtain m where m: "m \<in> set (owners_of db t)" using assms(1) by (cases "owners_of db t") (auto simp: owned_def)
  have "owners_of (set_role tenant user f db) t \<noteq> []"
  proof (cases "is_member_row tenant user m")
    case True
    with assms(3) [OF m] show ?thesis by auto
  next
    case False
    with m show ?thesis by (force simp: owners_of_def set_role_def update_where_def filter_empty_conv)
  qed
  then show ?thesis
    using assms(1,2) by (simp add: owned_def set_role_def map_update_where)
qed

text \<open>A row can go when it is no owner's of the team, or when the team has another owner.\<close>

lemma owned_delete:
  assumes o: "owned t db"
    and safe: "\<And>m. member_row db tenant user = Some m \<Longrightarrow> tenant = t \<Longrightarrow> tm_role m = TenantRoleOwner \<Longrightarrow> \<not> length (owners_of db t) \<le> 1"
  shows "owned t (delete_member tenant user db)"
proof -
  let ?keep = "\<lambda>m. \<not> is_member_row tenant user m"
  have d: "distinct (map member_key (tenant_members db))" using o by (simp add: owned_def)
  have eq: "owners_of (delete_member tenant user db) t = filter ?keep (owners_of db t)"
    by (simp add: owners_of_def delete_member_def conj_commute)
  have "filter ?keep (owners_of db t) \<noteq> []"
  proof
    assume none: "filter ?keep (owners_of db t) = []"
    then obtain m where m: "m \<in> set (owners_of db t)" "is_member_row tenant user m"
      using o by (cases "owners_of db t") (auto simp: owned_def split: if_splits)
    have all: "n = m" if "n \<in> set (owners_of db t)" for n
      using none that m unique_row [OF d, of n m] by (auto simp: filter_empty_conv owners_of_def is_member_row_key)
    have dis: "distinct (owners_of db t)" using d by (simp add: owners_of_def distinct_map)
    have "length (owners_of db t) = card (set (owners_of db t))" by (simp add: distinct_card dis)
    also have "\<dots> \<le> card {m}" using all by (intro card_mono) auto
    finally have "length (owners_of db t) \<le> 1" by simp
    moreover obtain k where k: "member_row db tenant user = Some k"
      using m by (cases "member_row db tenant user") (force simp: member_row_None owners_of_def is_member_row_key)+
    have "k = m"
      using member_row_Some [OF k] m unique_row [OF d, of k m] by (auto simp: owners_of_def is_member_row_key)
    ultimately show False
      using safe [OF k] m by (auto simp: owners_of_def is_member_row_def)
  qed
  then show ?thesis
    using d unfolding owned_def eq by (simp add: delete_member_def distinct_map_filter)
qed

subsection \<open>Every operation keeps it\<close>

lemma keeps_role_query: "keeps I (query f)"
  by (simp add: query_def prog_keeps_reads)

lemma keeps_change_roles: "(\<And>db. owned t db \<Longrightarrow> owned t (f db)) \<Longrightarrow> keeps (team_owned t) (change_roles f)"
  by (simp add: change_roles_def prog_keeps_writes)

lemma keeps_write_invite: "keeps (team_owned t) (write_invite P f)"
  by (simp add: write_invite_def prog_keeps_writes)

lemma keeps_update_invites: "keeps (team_owned t) (update_invites e P f)"
  unfolding update_invites_def by (auto intro!: prog_rules prog_keeps_require prog_keeps_writes)

lemma owned_set_active: "owned t (set_active u a db) = owned t db"
  by (simp add: owned_def owners_of_def set_active_def)

lemma keeps_with_access: "keeps (team_owned t) (with_roles (\<lambda>db. removeUserTenantScopedSiteAccess db tenant user))"
  by (auto simp: keeps_def with_roles_def removeUserTenantScopedSiteAccess_def Let_def split: sum.splits intro: owned_frame [rotated])

lemma keeps_ensure: "keeps (team_owned t) (ensureTenantMemberTx now tenant user role)"
  unfolding ensureTenantMemberTx_def Let_def
  by (rule keeps_change_roles) (auto split: option.split intro: owned_insert)

lemma keeps_accept_one: "keeps (team_owned t) (accept_one now user i)"
  unfolding accept_one_def by (auto intro!: prog_rules keeps_ensure keeps_write_invite)

lemma keeps_accept_tx: "keeps (team_owned t) (acceptTeamInvitesByEmailTx L now email user)"
  unfolding acceptTeamInvitesByEmailTx_def Let_def
  by (auto intro!: prog_rules prog_keeps_reads keeps_accept_one keeps_change_roles simp: owned_set_active)

lemma keeps_AddTeamMember:
  assumes "\<And>m. member_row (td_roles db) tenant user = Some m \<Longrightarrow> tenant = t \<Longrightarrow> tm_role m \<noteq> TenantRoleOwner" and "team_owned t db"
  shows "team_owned t (snd (AddTeamMember L now tenant user role db))"
proof (cases "member_row (td_roles db) tenant user")
  case None
  then show ?thesis
    using assms(2) owned_insert
    by (auto simp: AddTeamMember_def Let_def abort_def bind_op_def require_def change_roles_def writes_def)
next
  case (Some m)
  have "\<not> is_member_row tenant user k" if "k \<in> set (owners_of (td_roles db) t)" for k
  proof
    assume "is_member_row tenant user k"
    then have "k = m" "tenant = t"
      using that member_row_Some [OF Some] assms(2) unique_row [of "tenant_members (td_roles db)" k m]
      by (auto simp: owned_def owners_of_def is_member_row_key member_key_def)
    then show False using assms(1) [OF Some] that by (simp add: owners_of_def)
  qed
  then have "owned t (set_role tenant user (\<lambda>m. m\<lparr>tm_role := r, tm_added_at := now\<rparr>) (td_roles db))" for r
    using assms(2) by (intro owned_set_role) (auto simp: member_key_def)
  then show ?thesis
    using assms(2) Some by (auto simp: AddTeamMember_def Let_def abort_def bind_op_def require_def change_roles_def writes_def)
qed

lemma keeps_RemoveTeamMember:
  assumes "\<And>m. member_row (td_roles db) tenant user = Some m \<Longrightarrow> tenant = t \<Longrightarrow> tm_role m = TenantRoleOwner
      \<Longrightarrow> \<not> length (owners_of (td_roles db) t) \<le> 1" and "team_owned t db"
  shows "team_owned t (snd (RemoveTeamMember tenant user db))"
proof (cases "member_row (td_roles db) tenant user")
  case None
  then show ?thesis
    using assms(2) by (simp add: RemoveTeamMember_def committed_def bind_op_def require_def)
next
  case (Some k)
  then have "owned t (delete_member tenant user (td_roles db))"
    using assms by (intro owned_delete) auto
  then have "team_owned t (snd (with_roles (\<lambda>db. removeUserTenantScopedSiteAccess db tenant user)
      (db\<lparr>td_roles := delete_member tenant user (td_roles db)\<rparr>)))"
    by (intro keepsD [OF keeps_with_access]) simp
  then show ?thesis
    using assms(2) Some
    by (auto simp: RemoveTeamMember_def committed_def bind_op_def require_def change_roles_def writes_def split: prod.splits sum.splits)
qed

lemma trim_owner: "TrimSpace TenantRoleOwner = TenantRoleOwner"
  by code_simp

lemma fold_owner: "EqualFold L TenantRoleOwner TenantRoleOwner"
proof -
  have "is_ascii TenantRoleOwner" by code_simp
  then show ?thesis by (simp add: EqualFold_def)
qed

lemma leave_checks_Inr:
  assumes "leave_checks L tenant user db = (Inr u, db')"
  obtains m where "db' = db" and "member_row (td_roles db) tenant user = Some m"
    and "\<not> length (filter (\<lambda>m. tm_user m = user) (tenant_members (td_roles db))) \<le> 1"
    and "tm_role m = TenantRoleOwner \<Longrightarrow> \<not> length (owners_of (td_roles db) tenant) \<le> 1"
  using assms trim_owner fold_owner [of L]
  by (auto simp: leave_checks_def require_def reads_def dest!: bind_op_Inr split: if_splits option.splits)

lemma keeps_leave_rest:
  "keeps (team_owned t) (bind_op (with_roles (\<lambda>db. removeUserTenantScopedSiteAccess db tenant user))
      (\<lambda>_. bind_op (query (next_active tenant user)) (\<lambda>a. bind_op (change_roles (set_active user a)) (\<lambda>_. ret a))))"
  by (auto intro!: prog_rules keeps_with_access keeps_role_query keeps_change_roles simp: owned_set_active)

lemma keeps_LeaveTeam: "keeps (team_owned t) (LeaveTeam L tenant user)"
  unfolding LeaveTeam_def
proof (intro prog_keeps_committed prog_keeps_bind_post [where J = "\<lambda>_ db. team_owned t db
    \<and> (\<exists>m. member_row (td_roles db) tenant user = Some m
        \<and> (tm_role m = TenantRoleOwner \<longrightarrow> \<not> length (owners_of (td_roles db) tenant) \<le> 1))"])
  fix db assume o: "team_owned t db"
  have "keeps (team_owned t) (leave_checks L tenant user)"
    unfolding leave_checks_def by (intro prog_rules prog_keeps_require prog_keeps_reads)
  then have k: "team_owned t (snd (leave_checks L tenant user db))" using o by (rule keepsD)
  show "case leave_checks L tenant user db of (Inl _, db') \<Rightarrow> team_owned t db'
      | (Inr _, db') \<Rightarrow> team_owned t db' \<and> (\<exists>m. member_row (td_roles db') tenant user = Some m
          \<and> (tm_role m = TenantRoleOwner \<longrightarrow> \<not> length (owners_of (td_roles db') tenant) \<le> 1))"
    using k o by (auto elim!: leave_checks_Inr split: prod.split sum.split)
next
  fix u db
  assume a: "team_owned t db \<and> (\<exists>m. member_row (td_roles db) tenant user = Some m
          \<and> (tm_role m = TenantRoleOwner \<longrightarrow> \<not> length (owners_of (td_roles db) tenant) \<le> 1))"
  then have "owned t (delete_member tenant user (td_roles db))"
    by (intro owned_delete) auto
  then show "team_owned t (snd (leave_changes tenant user db))"
    using keepsD [OF keeps_leave_rest, of t "db\<lparr>td_roles := delete_member tenant user (td_roles db)\<rparr>" tenant user]
    unfolding leave_changes_def bind_op_def [of "change_roles (delete_member tenant user)"]
    by (simp add: change_roles_def writes_def)
qed

text \<open>A transfer has two owners between its two updates.\<close>

lemma owned_transfer:
  assumes o: "owned t db" and ne: "actor \<noteq> target" and target: "member_row db tenant target = Some m"
  shows "owned t (set_role tenant actor (\<lambda>m. m\<lparr>tm_role := TenantRoleAdmin\<rparr>)
     (set_role tenant target (\<lambda>m. m\<lparr>tm_role := TenantRoleOwner\<rparr>) db))" (is "owned t ?db")
proof -
  have "owners_of ?db t \<noteq> []"
  proof (cases "tenant = t")
    case True
    have "m \<in> set (tenant_members db)" "is_member_row tenant target m"
      using member_row_Some [OF target] by auto
    then have "m\<lparr>tm_role := TenantRoleOwner\<rparr> \<in> set (tenant_members ?db)"
      using ne by (force simp: set_role_def update_where_def is_member_row_def)
    then show ?thesis
      using True \<open>is_member_row tenant target m\<close> by (force simp: owners_of_def is_member_row_def filter_empty_conv)
  next
    case False
    obtain k where "k \<in> set (owners_of db t)" using o by (cases "owners_of db t") (auto simp: owned_def)
    with False have "k \<in> set (owners_of ?db t)"
      by (force simp: owners_of_def set_role_def update_where_def is_member_row_def)
    then show ?thesis by auto
  qed
  then show ?thesis
    using o by (simp add: owned_def set_role_def map_update_where member_key_def)
qed

lemma keeps_Transfer: "keeps (team_owned t) (TransferTeamOwnership tenant actor target)"
  unfolding keeps_def
proof (intro allI impI)
  fix db assume o: "team_owned t db"
  show "team_owned t (snd (TransferTeamOwnership tenant actor target db))"
  proof (cases "member_row (td_roles db) tenant target")
    case None
    then show ?thesis
      using o by (auto simp: TransferTeamOwnership_def abort_def committed_def bind_op_def require_def reads_def split: option.splits)
  next
    case (Some m)
    then show ?thesis
      using o owned_transfer [OF o _ Some, of actor]
      by (auto simp: TransferTeamOwnership_def abort_def committed_def bind_op_def require_def reads_def
          change_roles_def writes_def split: option.splits)
  qed
qed

lemma keeps_reactivate: "keeps (team_owned t) (reactivate tenant u)"
proof -
  have "keeps (team_owned t) (bind_op (query (\<lambda>db. getPrimaryTenantID db u)) (\<lambda>a. change_roles (set_active u a)))"
    by (intro prog_rules keeps_role_query keeps_change_roles) (simp add: owned_set_active)
  then show ?thesis
    by (auto simp: keeps_def reactivate_def split: sum.split)
qed

lemma keeps_archive_members: "keeps (team_owned t) (archive_members now tenant)"
  unfolding archive_members_def
  by (intro prog_rules keeps_role_query prog_keeps_reads keeps_ensure keeps_reactivate keeps_change_roles)
    (auto elim: owned_frame [rotated])

lemma keeps_ArchiveTenant: "keeps (team_owned t) (ArchiveTenant now tenant actor)"
  unfolding ArchiveTenant_def live_team_def
  by (auto intro!: prog_keeps_committed prog_rules prog_keeps_reads prog_keeps_require keeps_archive_members)

lemma keeps_AdminArchiveTenant: "keeps (team_owned t) (AdminArchiveTenant now tenant actor)"
  unfolding AdminArchiveTenant_def live_team_def
  by (auto intro!: prog_keeps_committed prog_rules prog_keeps_reads keeps_archive_members)

lemma keeps_CreateTeamInvite: "keeps (team_owned t) (CreateTeamInvite L now new tenant email role invited createdBy setup)"
  unfolding CreateTeamInvite_def Let_def
  by (auto intro!: prog_keeps_committed prog_rules prog_keeps_require prog_keeps_writes)

subsection \<open>Tokens and handlers\<close>

lemma on_db_keeps: "keeps (team_owned t) m \<Longrightarrow> keeps (\<lambda>s. team_owned t (ts_db s)) (on_db m)"
  by (simp add: keeps_def on_db_def split_beta)

lemma store_token_frame [simp]: "ts_db (storePasswordResetToken L email token e s) = ts_db s"
  by (simp add: storePasswordResetToken_def Let_def)

lemma forget_token_frame [simp]: "ts_db (forget_token L token en s) = ts_db s"
  by (simp add: forget_token_def)

lemma restore_token_frame [simp]: "ts_db (restorePasswordResetToken L now token en s) = ts_db s"
  by (simp add: restorePasswordResetToken_def)

lemma delete_token_frame [simp]: "ts_db (deletePasswordResetTokenForEmail L email s) = ts_db s"
  by (simp add: deletePasswordResetTokenForEmail_def Let_def)

lemma lookup_token_frame [simp]: "ts_db (snd (lookupPasswordResetToken L now token consume s)) = ts_db s"
  by (simp add: lookupPasswordResetToken_def Let_def split: option.split)

lemma under_token_keeps:
  assumes "\<And>e. keeps (team_owned t) (m e)"
  shows "keeps (\<lambda>s. team_owned t (ts_db s)) (under_token L now token m)"
  unfolding under_token_def
proof (rule prog_keeps_bind)
  show "keeps (\<lambda>s. team_owned t (ts_db s)) (lookupPasswordResetToken L now token True)"
    by (simp add: keeps_def)
next
  fix e
  have "keeps (\<lambda>s. team_owned t (ts_db s)) (on_db (committed (m e)))"
    by (intro on_db_keeps prog_keeps_committed assms)
  then show "keeps (\<lambda>s. team_owned t (ts_db s)) (\<lambda>s. case on_db (committed (m e)) s of
       (Inl x, s') \<Rightarrow> (Inl x, restorePasswordResetToken L now token e s') | (Inr y, s') \<Rightarrow> (Inr y, s'))"
    by (fastforce simp: keeps_def split: prod.splits sum.splits)
qed

lemma keeps_password: "keeps (\<lambda>s. team_owned t (ts_db s)) (AcceptInviteWithPassword L now token hashed)"
  unfolding AcceptInviteWithPassword_def Let_def
  by (intro under_token_keeps prog_rules prog_keeps_reads prog_keeps_require prog_keeps_writes keeps_accept_tx) simp

lemma keeps_authenticated: "keeps (\<lambda>s. team_owned t (ts_db s)) (AcceptInviteForAuthenticatedUser L now token user)"
  unfolding AcceptInviteForAuthenticatedUser_def Let_def user_email_def
  by (intro under_token_keeps prog_rules prog_keeps_reads) (auto intro!: prog_rules keeps_accept_tx)

lemma keeps_sso_tx: "keeps (team_owned t) (accept_sso_tx L now e team user)"
  unfolding accept_sso_tx_def Let_def user_email_def
  by (intro prog_rules prog_keeps_reads)
    (auto intro!: prog_rules prog_keeps_reads keeps_write_invite keeps_ensure keeps_change_roles simp: owned_set_active)

lemma keeps_sso: "keeps (\<lambda>s. team_owned t (ts_db s)) (AcceptTeamInviteForSSO L now token team user)"
  unfolding AcceptTeamInviteForSSO_def Let_def
  by (auto intro!: prog_rules under_token_keeps keeps_sso_tx on_db_keeps prog_keeps_committed simp: keeps_def [of _ "\<lambda>s. (r s, f s)" for r f])

text \<open>\<open>remove_refused\<close> counts the owners before it lets an owner be removed.\<close>

lemma remove_refused_None:
  assumes "remove_refused L actor team target db = None" and "member_row db team target = Some m"
    and "distinct (map member_key (tenant_members db))" and "tm_role m = TenantRoleOwner"
  shows "\<not> length (owners_of db team) \<le> 1"
proof -
  obtain role where role: "GetTenantRole db team target = Inr role" "\<not> (role = TenantRoleOwner \<and> length (owners_of db team) \<le> 1)"
    using assms(1) by (auto simp: remove_refused_def CountTeamOwners_def split: if_splits option.splits sum.splits)
  then obtain k where k: "k \<in> set (tenant_members db)" "member_key k = (team, target)" "role = TrimSpace (tm_role k)"
    by (auto simp: GetTenantRole_def find_Some_iff live_memberships_def member_key_def split: if_splits option.splits
        dest!: nth_mem)
  then have "k = m"
    using member_row_Some [OF assms(2)] unique_row [OF assms(3)] by simp
  with k role assms(4) trim_owner show ?thesis by auto
qed

lemma keeps_handleLeave: "team_owned t db \<Longrightarrow> team_owned t (snd (handleLeaveTeam L user team db))"
  using keepsD [OF keeps_LeaveTeam, of t db L team user]
  by (simp add: handleLeaveTeam_def split_beta split: sum.split)

lemma keeps_handleTransfer: "team_owned t db \<Longrightarrow> team_owned t (snd (handleTransferTeamOwnership actor team target db))"
  using keepsD [OF keeps_Transfer, of t db team actor target]
  by (simp add: handleTransferTeamOwnership_def split_beta split: sum.split)

lemma keeps_handleArchive: "team_owned t db \<Longrightarrow> team_owned t (snd (handleArchiveTeam hosted now actor team db))"
  using keepsD [OF keeps_ArchiveTenant, of t db now team actor]
  by (simp add: handleArchiveTeam_def split_beta split: sum.split)

lemma keeps_invite_member: "team_owned t db \<Longrightarrow> team_owned t (snd (invite_member L env team actor target email role setup db))"
  using keepsD [OF keeps_CreateTeamInvite, of t db L "ae_now env" "ae_invite_id env" team email role "Some target" actor "setup"]
  by (simp add: invite_member_def split_beta split: sum.split)

text \<open>The request to add a member may not name an owner of the team.\<close>

definition names_owner :: "('a, 'p) golib \<Rightarrow> string \<Rightarrow> uuid \<Rightarrow> team_db \<Rightarrow> bool" where
  "names_owner L email team db =
     (case find (\<lambda>u. sql_lower L (ur_email u) = sql_lower L (normal_email L email)) (td_users db) of
        None \<Rightarrow> False
      | Some u \<Rightarrow> (case member_row (td_roles db) team (ur_id u) of None \<Rightarrow> False | Some m \<Rightarrow> tm_role m = TenantRoleOwner))"

lemma keeps_insert_user: "keeps (team_owned t) (insert_user new email hashed login)"
  unfolding insert_user_def by (intro prog_rules prog_keeps_require prog_keeps_writes) simp

lemma keeps_createInviteeUser: "keeps (team_owned t) (createInviteeUser env email)"
  unfolding createInviteeUser_def createUserWithoutDefaultTenant_def createUserWithNamesAndDefaultTenantName_def ensureDefaultTenantTx_def
  by (auto intro!: prog_keeps_committed prog_rules keeps_insert_user prog_keeps_reads keeps_role_query keeps_ensure keeps_change_roles
      elim: owned_frame [rotated])

lemma keeps_handleAdd:
  assumes o: "team_owned t db" and other: "\<not> names_owner L email team db"
  shows "team_owned t (snd (handleAddTeamMember L env actor team email role db))"
proof -
  have new: "team_owned t (snd (createInviteeUser env e db))" for e
    using keepsD [OF keeps_createInviteeUser o] .
  have "team_owned t (snd (AddTeamMember L (ae_now env) team (ur_id u) r db))"
    if "find (\<lambda>u. sql_lower L (ur_email u) = sql_lower L (normal_email L email)) (td_users db) = Some u" for u r
    using other that o by (intro keeps_AddTeamMember) (auto simp: names_owner_def)
  with o new show ?thesis
    by (simp add: handleAddTeamMember_def Let_def keeps_invite_member split_beta split: option.split sum.split)
qed

subsection \<open>Runs\<close>

text \<open>
  A request that is served in one step: a handler, an archiving by the operator of the instance, a
  withdrawn or renewed invitation, one of the ways to accept an invitation or a token of an invitation mail.
\<close>

inductive team_step :: "('a, 'p) golib \<Rightarrow> team_sys \<Rightarrow> team_sys \<Rightarrow> bool" for L where
  step_add: "\<not> names_owner L email team (ts_db s) \<Longrightarrow>
     team_step L s (s\<lparr>ts_db := snd (handleAddTeamMember L env actor team email role (ts_db s))\<rparr>)"
| step_leave: "team_step L s (s\<lparr>ts_db := snd (handleLeaveTeam L user team (ts_db s))\<rparr>)"
| step_transfer: "team_step L s (s\<lparr>ts_db := snd (handleTransferTeamOwnership actor team target (ts_db s))\<rparr>)"
| step_archive: "team_step L s (s\<lparr>ts_db := snd (handleArchiveTeam hosted now actor team (ts_db s))\<rparr>)"
| step_admin: "team_step L s (snd (on_db (AdminArchiveTenant now team actor) s))"
| step_resend: "team_step L s (snd (on_db (ResendTeamInvite now team invite) s))"
| step_revoke: "team_step L s (snd (on_db (RevokeTeamInvite now team invite) s))"
| step_email: "team_step L s (snd (on_db (AcceptTeamInvitesByEmail L now email user) s))"
| step_password: "team_step L s (snd (AcceptInviteWithPassword L now tok hashed s))"
| step_session: "team_step L s (snd (AcceptInviteForAuthenticatedUser L now tok user s))"
| step_sso: "team_step L s (snd (AcceptTeamInviteForSSO L now tok team user s))"
| step_mail: "team_step L s (storePasswordResetToken L email tok expires s)"

text \<open>
  The handler that removes a member counts the owners first and deletes in a transaction of its own
  afterwards.  So a removal takes two steps, and \<open>tw_checked\<close> holds the removals that have passed the
  checks and have not deleted yet; a request that is cut off between the two is dropped.  In a serial run
  no other request is served while a removal is between its steps.
\<close>

record team_world =
  tw_sys :: team_sys
  tw_checked :: "(uuid \<times> uuid) list"

abbreviation tw_db :: "team_world \<Rightarrow> team_db" where
  "tw_db w \<equiv> ts_db (tw_sys w)"

definition removal_checked :: "uuid \<times> uuid \<Rightarrow> team_world \<Rightarrow> team_world" where
  "removal_checked r w = w\<lparr>tw_checked := r # tw_checked w\<rparr>"

definition removal_deleted :: "uuid \<times> uuid \<Rightarrow> team_world \<Rightarrow> team_world" where
  "removal_deleted r w = w\<lparr>tw_sys := (tw_sys w)\<lparr>ts_db := snd (RemoveTeamMember (fst r) (snd r) (tw_db w))\<rparr>,
     tw_checked := remove1 r (tw_checked w)\<rparr>"

inductive team_run :: "bool \<Rightarrow> ('a, 'p) golib \<Rightarrow> team_world \<Rightarrow> team_world \<Rightarrow> bool" for serial L where
  run_none: "team_run serial L w w"
| run_request: "team_run serial L w w' \<Longrightarrow> (serial \<Longrightarrow> tw_checked w' = []) \<Longrightarrow> team_step L (tw_sys w') s \<Longrightarrow>
     team_run serial L w (w'\<lparr>tw_sys := s\<rparr>)"
| run_check: "team_run serial L w w' \<Longrightarrow> (serial \<Longrightarrow> tw_checked w' = []) \<Longrightarrow>
     remove_refused L actor team target (td_roles (tw_db w')) = None \<Longrightarrow>
     team_run serial L w (removal_checked (team, target) w')"
| run_delete: "team_run serial L w w' \<Longrightarrow> r \<in> set (tw_checked w') \<Longrightarrow> team_run serial L w (removal_deleted r w')"
| run_drop: "team_run serial L w w' \<Longrightarrow> team_run serial L w (w'\<lparr>tw_checked := remove1 r (tw_checked w')\<rparr>)"

lemma keeps_invite_updates:
  "keeps (team_owned t) (ResendTeamInvite now team invite)" "keeps (team_owned t) (RevokeTeamInvite now team invite)"
  unfolding ResendTeamInvite_def RevokeTeamInvite_def GetTeamInvite_def
  by (intro prog_keeps_committed prog_rules prog_keeps_reads keeps_update_invites)+

lemma keeps_AcceptTeamInvitesByEmail: "keeps (team_owned t) (AcceptTeamInvitesByEmail L now email user)"
  unfolding AcceptTeamInvitesByEmail_def Let_def
  by (auto intro!: prog_keeps_committed prog_rules keeps_accept_tx)

lemma step_keeps_owner: "team_step L s s' \<Longrightarrow> team_owned t (ts_db s) \<Longrightarrow> team_owned t (ts_db s')"
proof (induction rule: team_step.induct)
  case step_admin then show ?case using keepsD [OF on_db_keeps [OF keeps_AdminArchiveTenant]] by blast
next
  case step_resend then show ?case using keepsD [OF on_db_keeps [OF keeps_invite_updates(1)]] by blast
next
  case step_revoke then show ?case using keepsD [OF on_db_keeps [OF keeps_invite_updates(2)]] by blast
next
  case step_email then show ?case using keepsD [OF on_db_keeps [OF keeps_AcceptTeamInvitesByEmail]] by blast
next
  case step_password then show ?case using keepsD [OF keeps_password] by blast
next
  case step_session then show ?case using keepsD [OF keeps_authenticated] by blast
next
  case step_sso then show ?case using keepsD [OF keeps_sso] by blast
qed (simp_all add: keeps_handleAdd keeps_handleLeave keeps_handleTransfer keeps_handleArchive)

text \<open>The handler of a removal is a serial run of the two steps, or changes nothing.\<close>

lemma handleRemove_run:
  "team_run serial L \<lparr>tw_sys = s, tw_checked = []\<rparr>
     \<lparr>tw_sys = s\<lparr>ts_db := snd (handleRemoveTeamMember L actor team target (ts_db s))\<rparr>, tw_checked = []\<rparr>"
  (is "team_run serial L ?w ?w'")
proof (cases "remove_refused L actor team target (td_roles (ts_db s))")
  case None
  then have "team_run serial L ?w (removal_checked (team, target) ?w)"
    by (intro run_check [OF run_none]) simp_all
  then have "team_run serial L ?w (removal_deleted (team, target) (removal_checked (team, target) ?w))"
    by (rule run_delete) (simp add: removal_checked_def)
  moreover have "removal_deleted (team, target) (removal_checked (team, target) ?w) = ?w'"
    using None by (simp add: removal_deleted_def removal_checked_def handleRemoveTeamMember_def split: prod.split sum.split)
  ultimately show ?thesis by simp
next
  case (Some code)
  then show ?thesis by (simp add: handleRemoveTeamMember_def run_none)
qed

text \<open>Between the two steps of a removal the owner that was counted is still there.\<close>

definition removal_safe :: "uuid \<Rightarrow> roles_db \<Rightarrow> uuid \<times> uuid \<Rightarrow> bool" where
  "removal_safe t db r \<longleftrightarrow> (\<forall>m. member_row db (fst r) (snd r) = Some m \<longrightarrow> fst r = t \<longrightarrow> tm_role m = TenantRoleOwner
     \<longrightarrow> \<not> length (owners_of db t) \<le> 1)"

definition world_owned :: "uuid \<Rightarrow> team_world \<Rightarrow> bool" where
  "world_owned t w \<longleftrightarrow> team_owned t (tw_db w) \<and> length (tw_checked w) \<le> 1
     \<and> (\<forall>r \<in> set (tw_checked w). removal_safe t (td_roles (tw_db w)) r)"

lemma serial_run_keeps_owner:
  "team_run True L w w' \<Longrightarrow> world_owned t w \<Longrightarrow> world_owned t w'"
proof (induction rule: team_run.induct)
  case (run_request w w' s)
  then show ?case by (auto simp: world_owned_def dest: step_keeps_owner)
next
  case (run_check w w' actor team target)
  then show ?case
    using remove_refused_None [of L actor team target "td_roles (tw_db w')"]
    by (auto simp: world_owned_def removal_checked_def removal_safe_def owned_def)
next
  case (run_delete w w' r)
  then have o: "world_owned t w'" and r: "tw_checked w' = [r]"
    by (auto simp: world_owned_def le_Suc_eq length_Suc_conv)
  then have "team_owned t (snd (RemoveTeamMember (fst r) (snd r) (tw_db w')))"
    by (intro keeps_RemoveTeamMember) (auto simp: world_owned_def removal_safe_def)
  then show ?case using r by (simp add: world_owned_def removal_deleted_def)
next
  case (run_drop w w' r)
  then show ?case
    using set_remove1_subset [of r "tw_checked w'"] by (auto simp: world_owned_def length_remove1)
qed

end
