(* ===== verification/Team_Promises.thy ===== *)
theory Team_Promises
  imports Team_Runs
begin

text \<open>
  The promises of the team operations: a team keeps an owner in every serial run, and a member who left
  reaches none of the team's sites.  The last section runs the requests that fall short of it.
\<close>

subsection \<open>A sample of the tables\<close>

definition sample_member :: "uuid \<Rightarrow> uuid \<Rightarrow> string \<Rightarrow> TenantMember" where
  "sample_member t u role = \<lparr>tm_tenant = t, tm_user = u, tm_role = role, tm_added_at = 0\<rparr>"

definition sample_teams :: "TenantMember list \<Rightarrow> uuid list \<Rightarrow> team_db" where
  "sample_teams ms arch = \<lparr>td_roles = \<lparr>db_ok = True, tenants = [(3, True), (5, False)], tenant_members = ms,
      tenant_archives = arch, sites = [(4, 7)], site_tenants = [(4, 3)], site_members = [((4, 7), ''editor'')],
      instance_roles = [], active_tenants = [(7, Some 3)], permission_audit = [], report_definitions = [],
      report_recipients = [], report_deliveries = []\<rparr>,
    td_users = [\<lparr>ur_id = 8, ur_email = ''b'', ur_password = [], ur_password_login = True\<rparr>],
    td_remembered = [], td_invites = []\<rparr>"

definition sample_sys :: "team_db \<Rightarrow> team_sys" where
  "sample_sys db = \<lparr>ts_db = db, ts_tokens = [], ts_index = []\<rparr>"

text \<open>The names of the roles under the functions of the library, and the definitions that compute a request.\<close>

lemma sample_roles [simp]:
  "TrimSpace ''owner'' = ''owner''" "TrimSpace ''admin'' = ''admin''" "TrimSpace ''member'' = ''member''"
  "TrimSpace ''b'' = ''b''"
  by (simp_all add: TrimSpace_graphic graphic_def)

lemma sample_lower [simp]:
  "ToLower L ''owner'' = ''owner''" "ToLower L ''admin'' = ''admin''" "ToLower L ''member'' = ''member''" "ToLower L ''b'' = ''b''"
  "sql_lower L ''b'' = ''b''" "EqualFold L ''member'' ''owner'' = False" "EqualFold L ''owner'' ''owner'' = True"
  by (simp_all add: ToLower_def sql_lower_def EqualFold_def is_ascii_def lower_byte_def)

lemmas team_eval = sample_teams_def sample_member_def bind_op_def require_def reads_def writes_def ret_def abort_def committed_def
  query_def change_roles_def with_roles_def member_row_def is_member_row_def owners_of_def delete_member_def set_role_def
  update_where_def set_active_def removeUserTenantScopedSiteAccess_def next_active_def getActiveTenantID_def getPrimaryTenantID_def
  getDefaultTenantID_def live_memberships_def tenant_exists_def archived_def site_tenant_or_def tenant_role_names
  uuid_Nil_def

subsection \<open>A team keeps an owner\<close>

text \<open>
  C23.  In every serial run of the handlers, the archivings and the acceptances of invitations, where
  no request is served between the checks and the deletion of a removal, a team that has an owner keeps
  one, as long as no request to add a member names an owner.
\<close>

theorem team_keeps_owner:
  assumes "team_run True L w w'" and "tw_checked w = []"
    and "distinct (map member_key (tenant_members (td_roles (tw_db w))))" and "owners_of (td_roles (tw_db w)) t \<noteq> []"
  shows "owners_of (td_roles (tw_db w')) t \<noteq> []"
  using serial_run_keeps_owner [OF assms(1), of t] assms(2-4) by (simp add: world_owned_def owned_def)

definition sample_world :: "TenantMember list \<Rightarrow> team_world" where
  "sample_world ms = \<lparr>tw_sys = sample_sys (sample_teams ms []), tw_checked = []\<rparr>"

lemmas remove_eval = remove_refused_def manages_def GetTenantRole_def canManageTeam_def CanAssignTenantRole_def
  IsValidTenantRole_def CountTeamOwners_def RemoveTeamMember_def

theorem team_keeps_owner_witness:
  "let w = sample_world [sample_member 3 7 ''owner'', sample_member 3 8 ''owner'']
   in owners_of (td_roles (tw_db (removal_deleted (3, 8) (removal_checked (3, 8) w)))) 3 \<noteq> []"
  unfolding Let_def
proof (rule team_keeps_owner [OF run_delete [OF run_check [OF run_none, where actor = 7]]])
qed (simp_all add: sample_world_def sample_sys_def removal_checked_def remove_eval team_eval Let_def member_key_def)

subsection \<open>A member who left\<close>

lemma primary_is_membership:
  assumes "live_memberships db u \<noteq> []" and p: "getPrimaryTenantID db u = Inr t"
  shows "t \<in> tm_tenant ` set (live_memberships db u)"
proof -
  let ?xs = "sort_key (\<lambda>m. role_order_by (tm_role m)) (sort_key tm_added_at (live_memberships db u))"
  have s: "set ?xs = set (live_memberships db u)" by simp
  with assms(1) obtain m ms where xs: "?xs = m # ms" by (cases ?xs) (auto simp del: set_sort)
  have "t = tm_tenant m" using p by (simp add: getPrimaryTenantID_def xs split: if_splits)
  moreover have "m \<in> set (live_memberships db u)" using s xs by (metis list.set_intros(1))
  ultimately show ?thesis by simp
qed

lemma active_is_membership:
  "live_memberships db u \<noteq> [] \<Longrightarrow> getActiveTenantID db u = Inr t \<Longrightarrow> t \<in> tm_tenant ` set (live_memberships db u)"
  by (auto simp: getActiveTenantID_def primary_is_membership split: if_splits option.splits)

lemma next_active_is_membership:
  assumes "live_memberships db u \<noteq> []" and "tenant \<notin> tm_tenant ` set (live_memberships db u)" and "next_active tenant u db = Inr t"
  shows "t \<in> tm_tenant ` set (live_memberships db u)"
  using assms primary_is_membership [OF assms(1)] active_is_membership [OF assms(1)]
  by (auto simp: next_active_def Let_def split: sum.splits if_splits)

lemma removeAccess_frames:
  assumes "removeUserTenantScopedSiteAccess db tenant u = Inr db'"
  shows "live_memberships db' = live_memberships db" and "sites db' = sites db" and "db_ok db'"
    and "tenant_members db' = tenant_members db" and "tenants db' = tenants db"
    and "site_tenant_or db' = site_tenant_or db" and "getDefaultTenantID db' = getDefaultTenantID db"
    and "((s, u), r) \<in> set (site_members db') \<Longrightarrow> map_of (sites db') s \<noteq> None \<Longrightarrow> getDefaultTenantID db' = Inr d
      \<Longrightarrow> site_tenant_or db' d s \<noteq> tenant"
  using assms
  by (auto simp: removeUserTenantScopedSiteAccess_def Let_def live_memberships_def fun_eq_iff tenant_exists_def
      archived_def site_tenant_or_def getDefaultTenantID_def split: sum.splits if_splits option.splits)

lemma live_memberships_delete:
  "live_memberships (delete_member tenant user db) user = filter (\<lambda>m. tm_tenant m \<noteq> tenant) (live_memberships db user)"
  by (auto simp: live_memberships_def delete_member_def is_member_row_def tenant_exists_def archived_def intro: filter_cong)

lemma LeaveTeam_Inr:
  assumes "LeaveTeam L tenant user db = (Inr t, db')"
  obtains r where "removeUserTenantScopedSiteAccess (delete_member tenant user (td_roles db)) tenant user = Inr r"
    and "next_active tenant user r = Inr t" and "td_roles db' = set_active user t r"
proof -
  have "bind_op (leave_checks L tenant user) (\<lambda>_. leave_changes tenant user) db = (Inr t, db')"
    using assms by (auto simp: LeaveTeam_def committed_def split: prod.splits sum.splits)
  then obtain u s where "leave_checks L tenant user db = (Inr u, s)" and c: "leave_changes tenant user s = (Inr t, db')"
    by (auto dest!: bind_op_Inr)
  then have "s = db" by (auto elim: leave_checks_Inr)
  with c obtain r where "removeUserTenantScopedSiteAccess (delete_member tenant user (td_roles db)) tenant user = Inr r"
    "next_active tenant user r = Inr t" "td_roles db' = set_active user t r"
    by (auto simp: leave_changes_def bind_op_def change_roles_def writes_def with_roles_def query_def reads_def ret_def
        split: sum.splits)
  then show ?thesis by (rule that)
qed

lemma set_active_frames [simp]:
  "live_memberships (set_active u t db) = live_memberships db" "db_ok (set_active u t db) = db_ok db"
  "getDefaultTenantID (set_active u t db) = getDefaultTenantID db" "site_tenant_or (set_active u t db) = site_tenant_or db"
  "sites (set_active u t db) = sites db" "site_members (set_active u t db) = site_members db"
  "querySiteTenantID (set_active u t db) = querySiteTenantID db"
  by (simp_all add: fun_eq_iff live_memberships_def set_active_def tenant_exists_def archived_def getDefaultTenantID_def
      site_tenant_or_def querySiteTenantID_def cong: option.case_cong)

lemma set_active_active:
  assumes "db_ok db" and "t \<in> tm_tenant ` set (live_memberships db u)"
  shows "getActiveTenantID (set_active u t db) u = Inr t"
proof -
  have "map_of (active_tenants (set_active u t db)) u = Some (Some t)"
    by (simp add: set_active_def update_conv')
  with assms show ?thesis by (simp add: getActiveTenantID_def)
qed

lemma getSiteRoleForTenant_elsewhere:
  assumes "getDefaultTenantID db = Inr dflt" and "site_tenant_or db dflt site \<noteq> tenant"
  shows "getSiteRoleForTenant L db u site tenant = Inl SiteAccessDenied"
  using assms by (simp add: getSiteRoleForTenant_def effectiveSiteRole_sources role_sources_def)

text \<open>
  C24.  Leaving takes effect at once: a user who left a team and is a member of another one
  has that other team active, has no role on any site of the team that was left, whether by
  membership, by ownership of the site or by the role in the team, and no row on its sites.
\<close>

theorem departed_member_has_no_access:
  assumes leave: "LeaveTeam L tenant user db = (Inr t, db')"
    and other: "\<exists>m \<in> set (live_memberships (td_roles db) user). tm_tenant m \<noteq> tenant"
  shows "t \<noteq> tenant \<and> getActiveTenantID (td_roles db') user = Inr t
     \<and> GetSiteRoleForTenant L (td_roles db') user site tenant = Inl SiteAccessDenied
     \<and> (querySiteTenantID (td_roles db') site = Inr tenant \<longrightarrow>
          GetSiteRole L (td_roles db') user site = Inl SiteAccessDenied
          \<and> (\<forall>role. ((site, user), role) \<notin> set (site_members (td_roles db'))))"
proof -
  obtain r where r: "removeUserTenantScopedSiteAccess (delete_member tenant user (td_roles db)) tenant user = Inr r"
    and n: "next_active tenant user r = Inr t" and d: "td_roles db' = set_active user t r"
    using leave by (rule LeaveTeam_Inr)
  note f = removeAccess_frames [OF r]
  have live: "live_memberships r user = filter (\<lambda>m. tm_tenant m \<noteq> tenant) (live_memberships (td_roles db) user)"
    by (simp add: f live_memberships_delete)
  have t: "t \<in> tm_tenant ` set (live_memberships r user)"
    using other by (intro next_active_is_membership [OF _ _ n]) (auto simp: live filter_empty_conv)
  then have ne: "t \<noteq> tenant" by (auto simp: live)
  have den: "GetSiteRoleForTenant L (set_active user t r) user site tenant = Inl SiteAccessDenied"
    using f(3) by (auto simp: GetSiteRoleForTenant_def IsTenantMember_def live filter_empty_conv)
  obtain dflt where dflt: "getDefaultTenantID r = Inr dflt"
    using r f(7) by (auto simp: removeUserTenantScopedSiteAccess_def split: sum.splits)
  have "GetSiteRole L (set_active user t r) user site = Inl SiteAccessDenied
     \<and> (\<forall>role. ((site, user), role) \<notin> set (site_members r))"
    if q: "querySiteTenantID r site = Inr tenant"
  proof -
    note st = site_tenant_or_query [OF q dflt]
    then have "getSiteRoleForTenant L (set_active user t r) user site t = Inl SiteAccessDenied"
      using ne by (intro getSiteRoleForTenant_elsewhere [where dflt = dflt]) (simp_all add: dflt)
    moreover have "((site, user), role) \<notin> set (site_members r)" for role
      using f(8) [of site role dflt] st dflt by auto
    ultimately show ?thesis using t f(3) by (simp add: GetSiteRole_def set_active_active)
  qed
  with ne den d t f(3) show ?thesis by (simp add: set_active_active)
qed

theorem departed_member_has_no_access_witness:
  "case LeaveTeam bare_lib 3 7 (sample_teams [sample_member 3 7 ''member'', sample_member 5 7 ''owner''] []) of
     (Inr t, db') \<Rightarrow> t = 5 \<and> GetSiteRole bare_lib (td_roles db') 7 4 = Inl SiteAccessDenied
   | _ \<Rightarrow> False"
proof -
  let ?db = "sample_teams [sample_member 3 7 ''member'', sample_member 5 7 ''owner''] []"
  have "fst (LeaveTeam bare_lib 3 7 ?db) = Inr 5" and q: "querySiteTenantID (td_roles (snd (LeaveTeam bare_lib 3 7 ?db))) 4 = Inr 3"
    by (simp_all add: LeaveTeam_def leave_checks_def leave_changes_def team_eval querySiteTenantID_def)
  then have l: "LeaveTeam bare_lib 3 7 ?db = (Inr 5, snd (LeaveTeam bare_lib 3 7 ?db))"
    by (metis prod.collapse)
  have "\<exists>m \<in> set (live_memberships (td_roles ?db) 7). tm_tenant m \<noteq> 3"
    by (simp add: sample_teams_def sample_member_def live_memberships_def tenant_exists_def archived_def)
  from departed_member_has_no_access [OF l this, of 4] q show ?thesis
    by (subst l) simp
qed

subsection \<open>Requests that fall short of it\<close>

text \<open>
  An admin may name the last owner in a request to add a member: the role of the owner is not looked
  at, and the team has no owner any more.
\<close>

definition sample_add :: add_env where
  "sample_add = \<lparr>ae_now = 1, ae_mail_ok = (\<lambda>_. True), ae_capacity = (\<lambda>_ _ _. None), ae_hosted = False,
     ae_user_id = 20, ae_tenant_id = 21, ae_password = [], ae_invite_id = 22\<rparr>"

lemma add_member_demotes_last_owner:
  "case handleAddTeamMember bare_lib sample_add 7 3 ''b'' ''member''
      (sample_teams [sample_member 3 7 ''admin'', sample_member 3 8 ''owner''] []) of
     (a, db') \<Rightarrow> a = OK \<and> owners_of (td_roles db') 3 = []"
  by (simp add: handleAddTeamMember_def sample_add_def manages_def GetTenantRole_def canManageTeam_def normal_email_def
      normalizeAssignableTeamRole_def IsValidTenantRole_def CanAssignTenantRole_def tenantRoleRank_def IsTenantMember_def
      AddTeamMember_def team_eval Let_def)

text \<open>
  The serial run is needed.  Two owners who remove each other at the same time both pass the checks,
  which are not part of the transaction that deletes, and leave the team without an owner.
\<close>

lemma concurrent_removals_leave_no_owner:
  "\<exists>w'. team_run False bare_lib (sample_world [sample_member 3 7 ''owner'', sample_member 3 8 ''owner'']) w'
     \<and> owners_of (td_roles (tw_db w')) 3 = []"
proof -
  let ?w = "sample_world [sample_member 3 7 ''owner'', sample_member 3 8 ''owner'']"
  let ?c = "removal_checked (3, 7) (removal_checked (3, 8) ?w)"
  let ?e = "removal_deleted (3, 7) (removal_deleted (3, 8) ?c)"
  have "team_run False bare_lib ?w ?c"
    by (rule run_check [OF run_check [OF run_none, where actor = 7], where actor = 8])
      (simp_all add: sample_world_def sample_sys_def removal_checked_def remove_eval team_eval Let_def)
  then have "team_run False bare_lib ?w ?e"
    by (intro run_delete) (simp_all add: removal_checked_def removal_deleted_def)
  moreover have "owners_of (td_roles (tw_db ?e)) 3 = []"
    by (simp add: sample_world_def sample_sys_def removal_checked_def removal_deleted_def RemoveTeamMember_def team_eval Let_def)
  ultimately show ?thesis by blast
qed

text \<open>
  Leaving counts memberships in archived teams: a user may leave the last live team.  When that is the
  default team it stays the active one, and the user still owns the sites that name the user as owner.
\<close>

lemma leaving_the_last_live_team:
  "case LeaveTeam bare_lib 3 7 (sample_teams [sample_member 3 7 ''member'', sample_member 5 7 ''member''] [5]) of
     (r, db') \<Rightarrow> r = Inr 3 \<and> member_row (td_roles db') 3 7 = None \<and> GetSiteRole bare_lib (td_roles db') 7 4 = Inr ''owner''"
  by (simp add: LeaveTeam_def leave_checks_def leave_changes_def GetSiteRole_def getSiteRoleForTenant_def effectiveSiteRole_def
      SiteOwner_def team_eval Let_def)

text \<open>The update that revokes an expired invitation is rolled back with the refusal that follows it.\<close>

definition sample_invite :: TeamInvite where
  "sample_invite = \<lparr>ti_ID = 1, ti_TeamID = 3, ti_Email = ''b'', ti_Role = ''member'', ti_InvitedUserID = None,
     ti_Status = ''pending'', ti_RequiresPasswordSetup = False, ti_CreatedBy = None, ti_CreatedAt = 0, ti_ExpiresAt = 1,
     ti_AcceptedAt = None, ti_RevokedAt = None\<rparr>"

lemma expired_invite_stays_pending:
  "case AcceptTeamInviteForSSO bare_lib 5 [] 3 8 (sample_sys ((sample_teams [] [])\<lparr>td_invites := [sample_invite]\<rparr>)) of
     (r, s') \<Rightarrow> r = Inl ErrTeamInviteNotFound \<and> td_invites (ts_db s') = [sample_invite]"
  by (simp add: AcceptTeamInviteForSSO_def accept_sso_tx_def user_email_def on_db_def sample_sys_def sample_invite_def
      normal_email_def by_email_def TeamInviteStatusPending_def write_invite_def team_eval Let_def)

end
