(* ===== verification/Calendar.thy ===== *)
theory Calendar
  imports Prelude
begin

text \<open>
  The part of Go's \<open>time\<close> package that the report scheduler uses.  A calendar date is the number
  of its day since 1970-01-01; the day of the month comes from the cycles of the Gregorian calendar.
  A \<open>time.Location\<close> is its table of zones: for a Unix second the offset in force and the first and
  last second it is in force.
\<close>

subsection \<open>Dates\<close>

text \<open>Day 0 of the cycles is the first of January of the year 1.\<close>

definition year_day :: "int \<Rightarrow> int \<times> bool" where
  "year_day date =
     (let d = (date + 719162) mod 146097;
          n100 = min 3 (d div 36524); d100 = d - 36524 * n100;
          n4 = d100 div 1461; d4 = d100 mod 1461;
          n1 = min 3 (d4 div 365)
      in (d4 - 365 * n1, n1 = 3 \<and> (n4 \<noteq> 24 \<or> n100 = 3)))"

fun month_day :: "int \<Rightarrow> int list \<Rightarrow> int" where
  "month_day d [] = d + 1"
| "month_day d (l # ls) = (if d < l then d + 1 else month_day (d - l) ls)"

definition month_lengths :: "bool \<Rightarrow> int list" where
  "month_lengths leap = [31, if leap then 29 else 28, 31, 30, 31, 30, 31, 31, 30, 31, 30]"

definition day_of_month :: "int \<Rightarrow> int" where
  "day_of_month date = (case year_day date of (d, leap) \<Rightarrow> month_day d (month_lengths leap))"

definition weekday :: "int \<Rightarrow> int" where
  "weekday date = (date + 4) mod 7"

definition first_of_month :: "int \<Rightarrow> int" where
  "first_of_month date = date - day_of_month date + 1"

subsection \<open>Locations\<close>

type_synonym Location = "int \<Rightarrow> int \<times> int \<times> int"

definition local_second :: "Location \<Rightarrow> time \<Rightarrow> int" where
  "local_second loc t = t div second + fst (loc (t div second))"

definition local_date :: "Location \<Rightarrow> time \<Rightarrow> int" where
  "local_date loc t = local_second loc t div 86400"

definition local_minutes :: "Location \<Rightarrow> time \<Rightarrow> int" where
  "local_minutes loc t = local_second loc t mod 86400 div 60"

text \<open>\<open>time.Date\<close> guesses the offset at the wall clock taken as UTC and looks again when it is not in force.\<close>

definition Date :: "int \<Rightarrow> int \<Rightarrow> Location \<Rightarrow> time" where
  "Date date secs loc =
     (let unix = date * 86400 + secs in
      case loc unix of (offset, start, stop) \<Rightarrow>
        if offset = 0 then unix * second
        else let utc = unix - offset;
                 offset = (if utc < start \<or> stop \<le> utc then fst (loc utc) else offset)
             in (unix - offset) * second)"

definition AddDays :: "Location \<Rightarrow> time \<Rightarrow> int \<Rightarrow> time" where
  "AddDays loc t n = Date (local_date loc t + n) (local_second loc t mod 86400) loc"

definition fixed_zone :: "int \<Rightarrow> Location" where
  "fixed_zone offset = (\<lambda>_. (offset, - (2 ^ 63), 2 ^ 63 - 1))"

lemma day_samples:
  "day_of_month 0 = 1" "day_of_month 58 = 28" "day_of_month 59 = 1" "day_of_month 789 = 29" "day_of_month (-1) = 31"
  "day_of_month 11016 = 29" "day_of_month 20545 = 2"
  by code_simp+

subsection \<open>The day after\<close>

lemma Suc_div_mod:
  fixes x m :: int
  assumes "0 < m"
  shows "(x + 1) div m = (if x mod m = m - 1 then x div m + 1 else x div m)"
    and "(x + 1) mod m = (if x mod m = m - 1 then 0 else x mod m + 1)"
proof -
  have x: "x = m * (x div m) + x mod m" and r: "0 \<le> x mod m" "x mod m < m" using assms by simp_all
  have last: "x + 1 = m * (x div m + 1) + 0" if "x mod m = m - 1"
    by (subst (1) x, subst that) (simp add: algebra_simps)
  have other: "x + 1 = m * (x div m) + (x mod m + 1)" by simp
  show "(x + 1) div m = (if x mod m = m - 1 then x div m + 1 else x div m)"
    using int_div_pos_eq [OF last] int_div_pos_eq [OF other] assms r by auto
  show "(x + 1) mod m = (if x mod m = m - 1 then 0 else x mod m + 1)"
    using int_mod_pos_eq [OF last] int_mod_pos_eq [OF other] assms r by auto
qed

text \<open>A day of the cycle of 400 years is day \<open>e\<close> of year \<open>n1\<close> of a cycle of four in a century.\<close>

definition in_cycle :: "int \<Rightarrow> int \<Rightarrow> int \<Rightarrow> int \<Rightarrow> int \<Rightarrow> bool" where
  "in_cycle q c a n e \<longleftrightarrow> q = 36524 * c + 1461 * a + 365 * n + e \<and> 0 \<le> c \<and> c \<le> 3 \<and> 0 \<le> a \<and> a \<le> 24 \<and> 0 \<le> n \<and> n \<le> 3
     \<and> 0 \<le> e \<and> e \<le> (if n = 3 \<and> (a \<noteq> 24 \<or> c = 3) then 365 else 364)"

lemma in_cycle_unique:
  assumes "in_cycle q c a n e"
  shows "min 3 (q div 36524) = c" and "(q - 36524 * c) div 1461 = a"
    and "min 3 ((q - 36524 * c) mod 1461 div 365) = n" and "(q - 36524 * c) mod 1461 - 365 * n = e"
proof -
  have b: "q = 36524 * c + 1461 * a + 365 * n + e" "0 \<le> c" "c \<le> 3" "0 \<le> a" "a \<le> 24" "0 \<le> n" "n \<le> 3" "0 \<le> e" "e \<le> 365"
    "e = 365 \<Longrightarrow> n = 3 \<and> (a \<noteq> 24 \<or> c = 3)"
    using assms by (auto simp: in_cycle_def split: if_splits)
  have r: "0 \<le> 365 * n + e" "365 * n + e < 1461" using b by auto
  show "min 3 (q div 36524) = c"
  proof (cases "1461 * a + 365 * n + e < 36524")
    case True
    then have "q div 36524 = c" using b r by (intro int_div_pos_eq [where r = "1461 * a + 365 * n + e"]) simp_all
    then show ?thesis using b by simp
  next
    case False
    then have "c = 3" "q = 146096" using b r by auto
    then show ?thesis by simp
  qed
  have m: "(q - 36524 * c) mod 1461 = 365 * n + e"
    using b r by (intro int_mod_pos_eq [where q = a]) simp_all
  show "(q - 36524 * c) div 1461 = a"
    using b r by (intro int_div_pos_eq [where r = "365 * n + e"]) simp_all
  show "min 3 ((q - 36524 * c) mod 1461 div 365) = n"
  proof (cases "e = 365")
    case True
    then show ?thesis unfolding m using b by simp
  next
    case False
    then have "(365 * n + e) div 365 = n" using b by (intro int_div_pos_eq [where r = e]) simp_all
    then show ?thesis unfolding m using b by simp
  qed
  show "(q - 36524 * c) mod 1461 - 365 * n = e" unfolding m by simp
qed

lemma in_cycle_exists:
  assumes "0 \<le> q" and "q < 146097"
  obtains c a n e where "in_cycle q c a n e"
proof (cases "q = 146096")
  case True
  then show ?thesis by (intro that [of 3 24 3 365]) (simp add: in_cycle_def)
next
  case False
  define c where "c = q div 36524"
  define r where "r = q mod 36524"
  define a where "a = r div 1461"
  define b where "b = r mod 1461"
  have q: "q = 36524 * c + r" and r: "r = 1461 * a + b" by (simp_all add: c_def r_def a_def b_def)
  have bounds: "0 \<le> r" "r < 36524" "0 \<le> b" "b < 1461" by (simp_all add: r_def b_def)
  have c: "0 \<le> c" "c \<le> 3" using q bounds assms False by linarith+
  have a: "0 \<le> a" "a \<le> 24" using r bounds by linarith+
  show ?thesis
  proof (cases "b = 1460")
    case True
    then have "a \<noteq> 24" using r bounds by auto
    with True show ?thesis using q r c a by (intro that [of c a 3 365]) (simp add: in_cycle_def)
  next
    case False
    define n where "n = b div 365"
    define e where "e = b mod 365"
    have b: "b = 365 * n + e" "0 \<le> e" "e < 365" by (simp_all add: n_def e_def)
    then have "0 \<le> n" "n \<le> 3" using bounds False by linarith+
    then show ?thesis using q r c a b by (intro that [of c a n e]) (simp add: in_cycle_def)
  qed
qed

lemma year_day_cycle:
  "in_cycle ((date + 719162) mod 146097) c a n e \<Longrightarrow> year_day date = (e, n = 3 \<and> (a \<noteq> 24 \<or> c = 3))"
  unfolding year_day_def Let_def by (simp only: in_cycle_unique)

lemma year_day_in_cycle:
  obtains c a n e where "in_cycle ((date + 719162) mod 146097) c a n e"
  by (rule in_cycle_exists [of "(date + 719162) mod 146097"]) simp_all

lemma year_day_range: "year_day date = (d, leap) \<Longrightarrow> 0 \<le> d \<and> d \<le> (if leap then 365 else 364)"
proof -
  assume y: "year_day date = (d, leap)"
  obtain c a n e where i: "in_cycle ((date + 719162) mod 146097) c a n e" by (rule year_day_in_cycle)
  with y have "d = e" "leap = (n = 3 \<and> (a \<noteq> 24 \<or> c = 3))" using year_day_cycle [OF i] by simp_all
  with i show ?thesis by (simp add: in_cycle_def)
qed

text \<open>A year day is followed by the next one, or by the first day of a year.\<close>

lemma year_day_Suc:
  assumes "year_day date = (d, leap)"
  shows "year_day (date + 1) = (d + 1, leap) \<or> (d = (if leap then 365 else 364) \<and> (\<exists>l. year_day (date + 1) = (0, l)))"
proof -
  let ?q = "(date + 719162) mod 146097"
  obtain c a n e where i: "in_cycle ?q c a n e" by (rule year_day_in_cycle)
  from year_day_cycle [OF i] assms have e: "e = d" and leap: "leap = (n = 3 \<and> (a \<noteq> 24 \<or> c = 3))" by auto
  have next_q: "(date + 1 + 719162) mod 146097 = (if ?q = 146096 then 0 else ?q + 1)"
    using Suc_div_mod(2) [of 146097 "date + 719162"] by (simp add: algebra_simps)
  have step: "year_day (date + 1) = (e', n' = 3 \<and> (a' \<noteq> 24 \<or> c' = 3))"
    if "in_cycle (if ?q = 146096 then 0 else ?q + 1) c' a' n' e'" for c' a' n' e'
    using that by (intro year_day_cycle) (simp only: next_q)
  show ?thesis
  proof (cases "e = (if n = 3 \<and> (a \<noteq> 24 \<or> c = 3) then 365 else 364)")
    case False
    then have "in_cycle (if ?q = 146096 then 0 else ?q + 1) c a n (e + 1)" using i by (auto simp: in_cycle_def split: if_splits)
    then show ?thesis using step e leap by auto
  next
    case True
    have "\<exists>c' a' n'. in_cycle (if ?q = 146096 then 0 else ?q + 1) c' a' n' 0"
    proof (cases "n < 3")
      case n: True
      have "in_cycle (if ?q = 146096 then 0 else ?q + 1) c a (n + 1) 0" using i True n by (auto simp: in_cycle_def)
      then show ?thesis by blast
    next
      case n: False
      show ?thesis
      proof (cases "a < 24")
        case a: True
        have "in_cycle (if ?q = 146096 then 0 else ?q + 1) c (a + 1) 0 0" using i True n a by (auto simp: in_cycle_def)
        then show ?thesis by blast
      next
        case a: False
        have "in_cycle (if ?q = 146096 then 0 else ?q + 1) (if c < 3 then c + 1 else 0) 0 0 0" using i True n a
          by (auto simp: in_cycle_def split: if_splits)
        then show ?thesis by blast
      qed
    qed
    then obtain c' a' n' where "in_cycle (if ?q = 146096 then 0 else ?q + 1) c' a' n' 0" by blast
    from step [OF this] True e leap show ?thesis by auto
  qed
qed

subsection \<open>Months\<close>

lemma month_day_0 [simp]: "month_day 0 (month_lengths leap) = 1"
  by (simp add: month_lengths_def)

lemma month_day_range: "0 \<le> d \<Longrightarrow> d \<le> (if leap then 365 else 364) \<Longrightarrow> 1 \<le> month_day d (month_lengths leap) \<and> month_day d (month_lengths leap) \<le> 31"
  by (cases leap) (simp_all add: month_lengths_def)

lemma month_day_Suc:
  "0 \<le> d \<Longrightarrow> month_day (d + 1) (month_lengths leap) = month_day d (month_lengths leap) + 1
     \<or> (28 \<le> month_day d (month_lengths leap) \<and> month_day (d + 1) (month_lengths leap) = 1)"
  by (cases leap) (auto simp: month_lengths_def)

lemma month_day_last: "month_day (if leap then 365 else 364) (month_lengths leap) = 31"
  by (simp add: month_lengths_def)

lemma day_of_month_range: "1 \<le> day_of_month date" "day_of_month date \<le> 31"
proof -
  obtain d leap where y: "year_day date = (d, leap)" by (cases "year_day date")
  with month_day_range [of d leap] year_day_range [OF y]
  show "1 \<le> day_of_month date" "day_of_month date \<le> 31" by (auto simp: day_of_month_def)
qed

lemma day_of_month_Suc:
  "day_of_month (date + 1) = day_of_month date + 1 \<or> (28 \<le> day_of_month date \<and> day_of_month (date + 1) = 1)"
proof -
  obtain d leap where y: "year_day date = (d, leap)" by (cases "year_day date")
  show ?thesis
    using year_day_Suc [OF y] year_day_range [OF y] month_day_Suc [of d leap] month_day_last [of leap]
    by (auto simp: day_of_month_def y)
qed

lemma day_of_month_forward:
  "day_of_month date + int j \<le> 28 \<Longrightarrow> day_of_month (date + int j) = day_of_month date + int j"
proof (induction j)
  case (Suc j)
  then show ?case using day_of_month_Suc [of "date + int j"] by (simp add: algebra_simps)
qed simp

lemma day_of_month_back: "int j < day_of_month date \<Longrightarrow> day_of_month (date - int j) = day_of_month date - int j"
proof (induction j)
  case (Suc j)
  then show ?case using day_of_month_Suc [of "date - int j - 1"] by (simp add: algebra_simps)
qed simp

lemma first_of_month_day: "day_of_month (first_of_month date) = 1"
  using day_of_month_back [of "nat (day_of_month date - 1)" date] day_of_month_range(1) [of date]
  by (simp add: first_of_month_def algebra_simps)

lemma next_month: "\<exists>j. 1 \<le> j \<and> j \<le> 32 - day_of_month date \<and> day_of_month (date + j) = 1"
proof (induction "nat (31 - day_of_month date)" arbitrary: date)
  case 0
  then have "day_of_month (date + 1) = 1"
    using day_of_month_Suc [of date] day_of_month_range [of date] day_of_month_range [of "date + 1"] by linarith
  then show ?case using day_of_month_range [of date] by (intro exI [of _ 1]) simp
next
  case (Suc x)
  show ?case
  proof (cases "day_of_month (date + 1) = 1")
    case True
    then show ?thesis using day_of_month_range [of date] by (intro exI [of _ 1]) simp
  next
    case False
    then have d: "day_of_month (date + 1) = day_of_month date + 1" using day_of_month_Suc [of date] by simp
    have arith_x: "x = nat (31 - day_of_month (date + 1))" using Suc(2) d by linarith
    obtain j where "1 \<le> j" "j \<le> 32 - day_of_month (date + 1)" "day_of_month (date + 1 + j) = 1"
      using Suc(1) [of "date + 1"] arith_x by auto
    then show ?thesis using d by (intro exI [of _ "j + 1"]) (simp add: algebra_simps)
  qed
qed

text \<open>Each of the days 1 to 28 comes within the next 31 days.\<close>

lemma monthly_within:
  assumes "1 \<le> k" and "k \<le> 28"
  shows "\<exists>j. 1 \<le> j \<and> j \<le> 31 \<and> day_of_month (date + j) = k"
proof (cases "k \<le> day_of_month date")
  case True
  obtain j where j: "1 \<le> j" "j \<le> 32 - day_of_month date" "day_of_month (date + j) = 1" using next_month by blast
  have "day_of_month (date + j + int (nat (k - 1))) = day_of_month (date + j) + int (nat (k - 1))"
    using assms j by (intro day_of_month_forward) simp
  then show ?thesis using assms j True by (intro exI [of _ "j + k - 1"]) (simp add: algebra_simps)
next
  case False
  have "day_of_month (date + int (nat (k - day_of_month date))) = day_of_month date + int (nat (k - day_of_month date))"
    using assms False by (intro day_of_month_forward) simp
  then show ?thesis using assms False day_of_month_range [of date] by (intro exI [of _ "k - day_of_month date"]) simp
qed

text \<open>The same day in two consecutive months.\<close>

lemma consecutive_months:
  assumes "day_of_month d1 = k" and "day_of_month d2 = k" and "k \<le> 28" and "d1 < d2"
    and between: "\<And>d. d1 < d \<Longrightarrow> d < d2 \<Longrightarrow> day_of_month d \<noteq> k"
  shows "first_of_month (first_of_month d2 - 1) = first_of_month d1"
proof -
  let ?m = "first_of_month d2"
  let ?p = "first_of_month (?m - 1)"
  have k: "1 \<le> k" using assms(1) day_of_month_range(1) by metis
  have shift: "day_of_month (d + (k - 1)) = k" if "day_of_month d = 1" for d
    using day_of_month_forward [of d "nat (k - 1)"] that k assms(3) by simp
  have f: "?m = d2 - k + 1" "first_of_month d1 = d1 - k + 1" using assms by (simp_all add: first_of_month_def)
  have p1: "day_of_month ?p = 1" by (rule first_of_month_day)
  have pm: "?p < ?m" using day_of_month_range(1) [of "?m - 1"] by (simp add: first_of_month_def)
  have "\<not> first_of_month d1 < ?p"
  proof
    assume "first_of_month d1 < ?p"
    then show False using between [of "?p + (k - 1)"] shift [OF p1] pm f by simp
  qed
  moreover have "\<not> ?p < first_of_month d1"
  proof
    assume lt: "?p < first_of_month d1"
    let ?j = "nat (?m - 1 - first_of_month d1)"
    have "first_of_month d1 < ?m" using f assms(4) by simp
    then have j: "int ?j = ?m - 1 - first_of_month d1" by simp
    have "int ?j < day_of_month (?m - 1)" using lt j by (simp add: first_of_month_def [of "?m - 1"])
    from day_of_month_back [OF this] have "day_of_month (first_of_month d1) = day_of_month (?m - 1) - int ?j" using j by simp
    then have "first_of_month d1 = ?p" using j first_of_month_day [of d1] by (simp add: first_of_month_def [of "?m - 1"])
    with lt show False by simp
  qed
  ultimately show ?thesis by simp
qed

end
