(* ===== verification/Report_Schedule.thy ===== *)
theory Report_Schedule
  imports Calendar
begin

text \<open>
  The schedule of a report (\<open>reporting/schedule.go\<close>): its validation, the next occurrence after an
  instant, the period a report covers and the window in which a late one is still sent.
  \<open>time.LoadLocation\<close> is the parameter \<open>load\<close>.  Using the location that a failed
  \<open>LoadLocation\<close> returns is a panic.
\<close>

definition ReportFrequencyDaily :: string where "ReportFrequencyDaily = ''daily''"
definition ReportFrequencyWeekly :: string where "ReportFrequencyWeekly = ''weekly''"
definition ReportFrequencyMonthly :: string where "ReportFrequencyMonthly = ''monthly''"

lemmas frequency_names = ReportFrequencyDaily_def ReportFrequencyWeekly_def ReportFrequencyMonthly_def

record ReportSchedule =
  rs_Frequency :: string
  rs_Timezone :: string
  rs_LocalTime :: string
  rs_WeeklyDay :: "int option"
  rs_MonthlyDay :: "int option"

datatype schedule_error = ErrInvalidSchedule string | SchedulePanic

definition parseLocalTime :: "string \<Rightarrow> (int \<times> int) option" where
  "parseLocalTime value =
     (case Split CHR '':'' (TrimSpace value) of
        [h, m] \<Rightarrow>
          if length h \<noteq> 2 \<or> length m \<noteq> 2 then None
          else (case Atoi h of
                  None \<Rightarrow> None
                | Some hr \<Rightarrow>
                    if hr < 0 \<or> hr > 23 then None
                    else (case Atoi m of
                            None \<Rightarrow> None
                          | Some mn \<Rightarrow> if mn < 0 \<or> mn > 59 then None else Some (hr, mn)))
      | _ \<Rightarrow> None)"

text \<open>The check of a schedule: the reason it is invalid, if it is.\<close>

definition ValidateSchedule :: "(string \<Rightarrow> Location option) \<Rightarrow> ReportSchedule \<Rightarrow> schedule_error option" where
  "ValidateSchedule load s =
     (if load (TrimSpace (rs_Timezone s)) = None then Some (ErrInvalidSchedule ''timezone'')
      else case parseLocalTime (rs_LocalTime s) of
        None \<Rightarrow> Some (ErrInvalidSchedule ''local time'')
      | Some (hr, mn) \<Rightarrow>
          if mn mod 15 \<noteq> 0 \<or> hr < 0 then Some (ErrInvalidSchedule ''local time'')
          else if rs_Frequency s = ReportFrequencyDaily then
            (if rs_WeeklyDay s \<noteq> None \<or> rs_MonthlyDay s \<noteq> None then Some (ErrInvalidSchedule ''daily anchor'') else None)
          else if rs_Frequency s = ReportFrequencyWeekly then
            (case rs_WeeklyDay s of
               None \<Rightarrow> Some (ErrInvalidSchedule ''weekly anchor'')
             | Some d \<Rightarrow> if d < 0 \<or> d > 6 \<or> rs_MonthlyDay s \<noteq> None then Some (ErrInvalidSchedule ''weekly anchor'') else None)
          else if rs_Frequency s = ReportFrequencyMonthly then
            (case rs_MonthlyDay s of
               None \<Rightarrow> Some (ErrInvalidSchedule ''monthly anchor'')
             | Some d \<Rightarrow> if d < 1 \<or> d > 28 \<or> rs_WeeklyDay s \<noteq> None then Some (ErrInvalidSchedule ''monthly anchor'') else None)
          else Some (ErrInvalidSchedule ''frequency''))"

text \<open>A missing anchor cannot occur after validation.\<close>

definition scheduleMatchesDate :: "ReportSchedule \<Rightarrow> int \<Rightarrow> bool" where
  "scheduleMatchesDate s date \<longleftrightarrow>
     (if rs_Frequency s = ReportFrequencyDaily then True
      else if rs_Frequency s = ReportFrequencyWeekly then rs_WeeklyDay s = Some (weekday date)
      else if rs_Frequency s = ReportFrequencyMonthly then rs_MonthlyDay s = Some (day_of_month date)
      else False)"

text \<open>The scan of the minutes around a date, with the first instant after the wanted minute so far.\<close>

fun scan_minutes :: "Location \<Rightarrow> int \<Rightarrow> int \<Rightarrow> time \<Rightarrow> time list \<Rightarrow> time" where
  "scan_minutes loc date desired firstAfter [] = firstAfter"
| "scan_minutes loc date desired firstAfter (instant # rest) =
     (if local_date loc instant \<noteq> date then scan_minutes loc date desired firstAfter rest
      else if local_minutes loc instant = desired then instant
      else if local_minutes loc instant > desired \<and> IsZero firstAfter then scan_minutes loc date desired instant rest
      else scan_minutes loc date desired firstAfter rest)"

definition localOccurrence :: "Location \<Rightarrow> int \<Rightarrow> int \<Rightarrow> int \<Rightarrow> time" where
  "localOccurrence loc date hr mn =
     (let start = Date date 0 loc - 3 * hour
      in scan_minutes loc date (hr * 60 + mn) time_zero (map (\<lambda>i. start + int i * minute) [0..<1800]))"

text \<open>The loop over at most 400 dates.\<close>

primrec search_dates :: "Location \<Rightarrow> ReportSchedule \<Rightarrow> int \<Rightarrow> int \<Rightarrow> time \<Rightarrow> nat \<Rightarrow> time \<Rightarrow> time option" where
  "search_dates loc s hr mn after 0 date = None"
| "search_dates loc s hr mn after (Suc n) date =
     (let candidate = localOccurrence loc (local_date loc date) hr mn in
      if scheduleMatchesDate s (local_date loc date) \<and> candidate > after then Some candidate
      else search_dates loc s hr mn after n (AddDays loc date 1))"

definition NextOccurrence :: "(string \<Rightarrow> Location option) \<Rightarrow> ReportSchedule \<Rightarrow> time \<Rightarrow> schedule_error + time" where
  "NextOccurrence load s after =
     (case ValidateSchedule load s of
        Some e \<Rightarrow> Inl e
      | None \<Rightarrow>
          (case load (rs_Timezone s) of
             None \<Rightarrow> Inl SchedulePanic
           | Some loc \<Rightarrow>
               (case parseLocalTime (rs_LocalTime s) of
                  None \<Rightarrow> Inl (ErrInvalidSchedule ''local time'')
                | Some (hr, mn) \<Rightarrow>
                    (case search_dates loc s hr mn after 400 (Date (local_date loc after) 0 loc) of
                       None \<Rightarrow> Inl (ErrInvalidSchedule ''no occurrence'')
                     | Some t \<Rightarrow> Inr t))))"

text \<open>
  The period before an occurrence and the period before that one.  \<open>AddDate(0, -1, 0)\<close> is only
  used on the first day of a month.
\<close>

definition month_before :: "Location \<Rightarrow> time \<Rightarrow> time" where
  "month_before loc t = Date (first_of_month (local_date loc t - 1)) (local_second loc t mod 86400) loc"

definition PeriodBounds :: "(string \<Rightarrow> Location option) \<Rightarrow> ReportSchedule \<Rightarrow> time
    \<Rightarrow> schedule_error + (time \<times> time \<times> time \<times> time)" where
  "PeriodBounds load s scheduledFor =
     (case ValidateSchedule load s of
        Some e \<Rightarrow> Inl e
      | None \<Rightarrow>
          (case load (rs_Timezone s) of
             None \<Rightarrow> Inl SchedulePanic
           | Some loc \<Rightarrow>
               let day = Date (local_date loc scheduledFor) 0 loc in
               if rs_Frequency s = ReportFrequencyDaily then
                 let start = AddDays loc day (-1) in Inr (start, day, AddDays loc start (-1), start)
               else if rs_Frequency s = ReportFrequencyWeekly then
                 let start = AddDays loc day (-7) in Inr (start, day, AddDays loc start (-7), start)
               else
                 let stop = Date (first_of_month (local_date loc day)) 0 loc; start = month_before loc stop
                 in Inr (start, stop, month_before loc start, start)))"

definition CatchUpWindow :: "string \<Rightarrow> duration" where
  "CatchUpWindow frequency =
     (if frequency = ReportFrequencyDaily then 48 * hour
      else if frequency = ReportFrequencyWeekly then 7 * 24 * hour
      else if frequency = ReportFrequencyMonthly then 14 * 24 * hour
      else 0)"

subsection \<open>Occurrences are later\<close>

lemma search_dates_later: "search_dates loc s hr mn after n date = Some t \<Longrightarrow> after < t"
  by (induction n arbitrary: date) (auto simp: Let_def split: if_splits)

lemma NextOccurrence_later: "NextOccurrence load s after = Inr t \<Longrightarrow> after < t"
  by (auto simp: NextOccurrence_def search_dates_later split: option.splits)

text \<open>
  A timezone with spaces around it is valid, but the occurrences are computed in the location of the
  name with the spaces.
\<close>

lemma untrimmed_timezone_panics:
  assumes "load ''UTC'' = Some (fixed_zone 0)" and "load '' UTC'' = None"
  shows "NextOccurrence load \<lparr>rs_Frequency = ''daily'', rs_Timezone = '' UTC'', rs_LocalTime = ''08:00'',
    rs_WeeklyDay = None, rs_MonthlyDay = None\<rparr> after = Inl SchedulePanic"
proof -
  have "TrimSpace '' UTC'' = ''UTC''" by (simp add: TrimSpace_space TrimSpace_graphic graphic_def)
  moreover have "parseLocalTime ''08:00'' = Some (8, 0)"
    by (simp add: parseLocalTime_def TrimSpace_graphic graphic_def Atoi_def digits_value_def is_digit_def)
  ultimately show ?thesis using assms by (simp add: NextOccurrence_def ValidateSchedule_def frequency_names)
qed

subsection \<open>Zones with a fixed offset\<close>

lemma fixed_Date: "Date date secs (fixed_zone off) = (date * 86400 + secs - off) * second"
  by (simp add: Date_def fixed_zone_def Let_def)

lemma fixed_local_second: "local_second (fixed_zone off) (x * second + r) = x + off" if "0 \<le> r" "r < second"
  using that by (simp add: local_second_def fixed_zone_def)

lemma fixed_local [simp]:
  assumes "0 \<le> secs" and "secs < 86400"
  shows "local_date (fixed_zone off) ((date * 86400 + secs - off) * second) = date"
    and "local_second (fixed_zone off) ((date * 86400 + secs - off) * second) mod 86400 = secs"
    and "local_minutes (fixed_zone off) ((date * 86400 + secs - off) * second) = secs div 60"
  using assms fixed_local_second [of 0 off "date * 86400 + secs - off"] by (simp_all add: local_date_def local_minutes_def)

text \<open>The occurrence on a date in such a zone.\<close>

definition slot :: "int \<Rightarrow> int \<Rightarrow> int \<Rightarrow> time" where
  "slot off desired date = (date * 86400 + desired * 60 - off) * second"

lemma slot_mono: "slot off desired d \<le> slot off desired d' \<longleftrightarrow> d \<le> d'"
  by (auto simp: slot_def)

lemma fixed_instant:
  "Date date 0 (fixed_zone off) - 3 * hour + int i * minute = (date * 86400 + (int i - 180) * 60 - off) * second"
  by (simp add: fixed_Date algebra_simps)

lemma fixed_scan_before:
  assumes "int i < 180 + desired" and "0 \<le> desired" and "desired < 1440"
  shows "local_date (fixed_zone off) ((date * 86400 + (int i - 180) * 60 - off) * second) \<noteq> date
     \<or> local_minutes (fixed_zone off) ((date * 86400 + (int i - 180) * 60 - off) * second) < desired"
proof (cases "i < 180")
  case True
  then show ?thesis
    using fixed_local(1) [of "86400 + (int i - 180) * 60" off "date - 1"] by (simp add: algebra_simps)
next
  case False
  then show ?thesis
    using fixed_local(3) [of "(int i - 180) * 60" off date] assms by (simp add: algebra_simps)
qed

lemma scan_minutes_hit:
  "\<forall>y \<in> set pre. local_date loc y \<noteq> date \<or> local_minutes loc y < desired \<Longrightarrow> local_date loc x = date
     \<Longrightarrow> local_minutes loc x = desired \<Longrightarrow> scan_minutes loc date desired f (pre @ x # post) = x"
  by (induction pre arbitrary: f) auto

lemma localOccurrence_fixed:
  assumes "0 \<le> hr * 60 + mn" and "hr * 60 + mn < 1440"
  shows "localOccurrence (fixed_zone off) date hr mn = slot off (hr * 60 + mn) date"
proof -
  let ?desired = "hr * 60 + mn"
  let ?k = "nat (180 + ?desired)"
  let ?at = "\<lambda>i. (date * 86400 + (int i - 180) * 60 - off) * second"
  have k: "int ?k = 180 + ?desired" "?k < 1800" using assms by linarith+
  then have upt: "[0..<1800] = [0..<?k] @ ?k # [Suc ?k..<1800]"
    using upt_add_eq_append [of 0 ?k "1800 - ?k"] upt_conv_Cons [of ?k 1800] by simp
  have "localOccurrence (fixed_zone off) date hr mn
     = scan_minutes (fixed_zone off) date ?desired time_zero (map ?at [0..<?k] @ ?at ?k # map ?at [Suc ?k..<1800])"
    unfolding localOccurrence_def Let_def fixed_instant upt by simp
  also have "\<dots> = ?at ?k"
  proof (rule scan_minutes_hit)
    show "\<forall>y \<in> set (map ?at [0..<?k]). local_date (fixed_zone off) y \<noteq> date \<or> local_minutes (fixed_zone off) y < ?desired"
    proof
      fix y assume "y \<in> set (map ?at [0..<?k])"
      then obtain i where i: "y = ?at i" "i < ?k" by auto
      then have "int i < 180 + ?desired" using k by linarith
      with fixed_scan_before [OF this assms, of off date] i
      show "local_date (fixed_zone off) y \<noteq> date \<or> local_minutes (fixed_zone off) y < ?desired" by simp
    qed
    show "local_date (fixed_zone off) (?at ?k) = date"
      using fixed_local(1) [of "?desired * 60" off date] assms k by simp
    show "local_minutes (fixed_zone off) (?at ?k) = ?desired"
      using fixed_local(3) [of "?desired * 60" off date] assms k by simp
  qed
  also have "\<dots> = slot off ?desired date" using k by (simp add: slot_def)
  finally show ?thesis .
qed

lemma fixed_AddDays: "AddDays (fixed_zone off) (Date date 0 (fixed_zone off)) n = Date (date + n) 0 (fixed_zone off)"
  using fixed_local(1,2) [of 0 off date] by (simp add: AddDays_def fixed_Date)

lemma fixed_local_date_Date: "local_date (fixed_zone off) (Date date 0 (fixed_zone off)) = date"
  using fixed_local(1) [of 0 off date] by (simp add: fixed_Date)

lemma find_map_list: "find P (map f xs) = map_option f (find (\<lambda>x. P (f x)) xs)"
  by (induction xs) simp_all

lemma search_dates_fixed:
  assumes "0 \<le> hr * 60 + mn" and "hr * 60 + mn < 1440"
  shows "search_dates (fixed_zone off) s hr mn after n (Date date 0 (fixed_zone off)) =
     map_option (\<lambda>i. slot off (hr * 60 + mn) (date + int i))
       (find (\<lambda>i. scheduleMatchesDate s (date + int i) \<and> slot off (hr * 60 + mn) (date + int i) > after) [0..<n])"
proof (induction n arbitrary: date)
  case (Suc n)
  have shift: "find P [Suc 0..<Suc n] = map_option Suc (find (\<lambda>i. P (Suc i)) [0..<n])" for P
    unfolding map_Suc_upt [symmetric] by (rule find_map_list)
  show ?case
    by (simp add: Suc localOccurrence_fixed [OF assms] fixed_local_date_Date fixed_AddDays Let_def upt_conv_Cons shift
        option.map_comp comp_def add.assoc del: upt_Suc)
qed simp

subsection \<open>The next occurrence is the first\<close>

text \<open>What the schedule asks for: the wall clock time of the schedule on a date that it names.\<close>

definition scheduled :: "ReportSchedule \<Rightarrow> int \<Rightarrow> time \<Rightarrow> bool" where
  "scheduled s off t \<longleftrightarrow>
     (case parseLocalTime (rs_LocalTime s) of
        None \<Rightarrow> False
      | Some (hr, mn) \<Rightarrow> t = slot off (hr * 60 + mn) (local_date (fixed_zone off) t)
          \<and> scheduleMatchesDate s (local_date (fixed_zone off) t))"

lemma parseLocalTime_range:
  "parseLocalTime v = Some (hr, mn) \<Longrightarrow> 0 \<le> hr \<and> hr \<le> 23 \<and> 0 \<le> mn \<and> mn \<le> 59"
  by (auto simp: parseLocalTime_def split: list.splits option.splits if_splits)

lemma parseLocalTime_minutes:
  "parseLocalTime v = Some (hr, mn) \<Longrightarrow> 0 \<le> hr * 60 + mn \<and> hr * 60 + mn < 1440"
  by (drule parseLocalTime_range) auto

lemma ValidateSchedule_parse:
  assumes "ValidateSchedule load s = None"
  obtains hr mn where "parseLocalTime (rs_LocalTime s) = Some (hr, mn)"
  using assms by (auto simp: ValidateSchedule_def split: if_splits option.splits)

lemma slot_local_date: "0 \<le> d \<Longrightarrow> d < 1440 \<Longrightarrow> local_date (fixed_zone off) (slot off d date) = date"
  unfolding slot_def by (rule fixed_local(1)) simp_all

text \<open>A valid schedule names one of the 31 days after any date.\<close>

lemma schedule_names_date:
  assumes "ValidateSchedule load s = None"
  shows "\<exists>i. 1 \<le> i \<and> i \<le> 31 \<and> scheduleMatchesDate s (date + i)"
proof -
  consider (daily) "rs_Frequency s = ReportFrequencyDaily"
    | (weekly) d where "rs_Frequency s = ReportFrequencyWeekly" "rs_WeeklyDay s = Some d" "0 \<le> d" "d \<le> 6"
    | (monthly) d where "rs_Frequency s = ReportFrequencyMonthly" "rs_MonthlyDay s = Some d" "1 \<le> d" "d \<le> 28"
    using assms by (auto simp: ValidateSchedule_def split: if_splits option.splits)
  then show ?thesis
  proof cases
    case daily
    then show ?thesis by (intro exI [of _ 1]) (simp add: scheduleMatchesDate_def)
  next
    case weekly
    define i where "i = (d - date - 5) mod 7 + 1"
    have "date + i + 4 = date + 5 + (d - date - 5) mod 7" by (simp add: i_def)
    then have "(date + i + 4) mod 7 = (date + 5 + (d - date - 5) mod 7) mod 7" by (rule arg_cong)
    also have "\<dots> = (date + 5 + (d - date - 5)) mod 7" by (rule mod_add_right_eq)
    finally have "(date + i + 4) mod 7 = d mod 7" by simp
    then have "weekday (date + i) = d" using weekly by (simp add: weekday_def)
    moreover have "0 \<le> (d - date - 5) mod 7" "(d - date - 5) mod 7 < 7" by simp_all
    ultimately show ?thesis
      using weekly by (intro exI [of _ i]) (simp add: scheduleMatchesDate_def frequency_names i_def)
  next
    case monthly
    then obtain j where "1 \<le> j" "j \<le> 31" "day_of_month (date + j) = d" using monthly_within by blast
    then show ?thesis using monthly by (intro exI [of _ j]) (simp add: scheduleMatchesDate_def frequency_names)
  qed
qed

lemma fixed_day_bounds:
  assumes "local_date (fixed_zone off) after = d"
  shows "(d * 86400 - off) * second \<le> after" and "after < ((d + 1) * 86400 - off) * second"
proof -
  have s: "after = second * (after div second) + after mod second" "0 \<le> after mod second" "after mod second < second" by simp_all
  have d: "d = (after div second + off) div 86400" using assms by (simp add: local_date_def local_second_def fixed_zone_def)
  then have "d * 86400 \<le> after div second + off" "after div second + off < (d + 1) * 86400"
    by (simp_all add: minus_mod_eq_div_mult [symmetric])
  then have "second * (d * 86400 - off) \<le> second * (after div second)" "second * (after div second) + second \<le> second * ((d + 1) * 86400 - off)"
    by simp_all
  then show "(d * 86400 - off) * second \<le> after" and "after < ((d + 1) * 86400 - off) * second"
    using s by linarith+
qed

lemma slot_after:
  assumes "local_date (fixed_zone off) after = d0" and "0 \<le> desired" and "desired < 1440"
  shows "d0 < date \<Longrightarrow> after < slot off desired date" and "date < d0 \<Longrightarrow> slot off desired date < after"
proof -
  note b = fixed_day_bounds [OF assms(1)]
  { assume "d0 < date"
    then have "((d0 + 1) * 86400 - off) * second \<le> slot off desired date" using assms by (simp add: slot_def)
    with b(2) show "after < slot off desired date" by linarith }
  { assume "date < d0"
    then have "slot off desired date < (d0 * 86400 - off) * second" using assms by (simp add: slot_def)
    with b(1) show "slot off desired date < after" by linarith }
qed

lemma NextOccurrence_fixed:
  assumes "ValidateSchedule load s = None" and "load (rs_Timezone s) = Some (fixed_zone off)"
    and p: "parseLocalTime (rs_LocalTime s) = Some (hr, mn)"
  shows "\<exists>date. NextOccurrence load s after = Inr (slot off (hr * 60 + mn) date) \<and> scheduleMatchesDate s date
     \<and> after < slot off (hr * 60 + mn) date
     \<and> (\<forall>d'. scheduleMatchesDate s d' \<and> after < slot off (hr * 60 + mn) d' \<longrightarrow> date \<le> d')"
proof -
  define desired where "desired = hr * 60 + mn"
  have m: "0 \<le> desired" "desired < 1440" using parseLocalTime_minutes [OF p] by (simp_all add: desired_def)
  define d0 where "d0 = local_date (fixed_zone off) after"
  let ?P = "\<lambda>i. scheduleMatchesDate s (d0 + int i) \<and> slot off desired (d0 + int i) > after"
  note later = slot_after [OF d0_def [symmetric] m]
  obtain j where j: "1 \<le> j" "j \<le> 31" "scheduleMatchesDate s (d0 + j)"
    using schedule_names_date [OF assms(1)] by blast
  then have "?P (nat j)" using later(1) [of "d0 + j"] by simp
  moreover have "nat j \<in> set [0..<400]" using j by simp
  ultimately have "find ?P [0..<400] \<noteq> None" unfolding find_None_iff by blast
  then obtain i where i: "find ?P [0..<400] = Some i" by blast
  then have Pi: "?P i" by (auto simp: find_Some_iff)
  have first: "\<not> ?P k" if "k < i" for k using i that by (auto simp: find_Some_iff)
  have "NextOccurrence load s after = Inr (slot off desired (d0 + int i))" (is ?next)
    using assms i search_dates_fixed [of hr mn off s after 400 d0] m
    by (simp add: NextOccurrence_def d0_def [symmetric] desired_def)
  moreover have "d0 + int i \<le> d'" if d': "scheduleMatchesDate s d'" "after < slot off desired d'" for d'
  proof (rule ccontr)
    assume "\<not> d0 + int i \<le> d'"
    moreover have "d0 \<le> d'" using later(2) [of d'] d' by (rule_tac ccontr) simp
    ultimately have "nat (d' - d0) < i" "d0 + int (nat (d' - d0)) = d'" by simp_all
    with first d' show False by metis
  qed
  ultimately have "?next \<and> scheduleMatchesDate s (d0 + int i) \<and> after < slot off desired (d0 + int i)
     \<and> (\<forall>d'. scheduleMatchesDate s d' \<and> after < slot off desired d' \<longrightarrow> d0 + int i \<le> d')"
    using Pi by simp
  then show ?thesis unfolding desired_def by (rule exI)
qed

lemma first_occurrence:
  assumes "ValidateSchedule load s = None" and "load (rs_Timezone s) = Some (fixed_zone off)"
  shows "\<exists>t. NextOccurrence load s after = Inr t \<and> scheduled s off t \<and> after < t
     \<and> (\<forall>t'. scheduled s off t' \<and> after < t' \<longrightarrow> t \<le> t')"
proof -
  obtain hr mn where p: "parseLocalTime (rs_LocalTime s) = Some (hr, mn)"
    using assms(1) by (rule ValidateSchedule_parse)
  note m = parseLocalTime_minutes [OF p]
  have sch: "scheduled s off t \<longleftrightarrow> (\<exists>d. t = slot off (hr * 60 + mn) d \<and> scheduleMatchesDate s d)" for t
    using m by (auto simp: scheduled_def p slot_local_date)
  show ?thesis
    using NextOccurrence_fixed [OF assms p, of after] unfolding sch by (metis slot_mono)
qed

text \<open>
  C25.  In a zone with a fixed offset, such as UTC, a valid schedule always has a next occurrence,
  and it is the first instant after the given one that the schedule asks for: the 400 dates the search
  looks at are enough for every frequency.
\<close>

theorem next_occurrence_exact:
  assumes "ValidateSchedule load s = None" and "load (rs_Timezone s) = Some (fixed_zone off)"
  shows "\<exists>t. NextOccurrence load s after = Inr t \<and> scheduled s off t \<and> after < t
     \<and> (\<forall>t'. scheduled s off t' \<and> after < t' \<longrightarrow> t \<le> t')"
  using assms by (rule first_occurrence)

lemma NextOccurrence_valid: "NextOccurrence load s after = Inr t \<Longrightarrow> ValidateSchedule load s = None"
  by (simp add: NextOccurrence_def split: option.splits)

text \<open>The first day of the period, the day it ends and the first day of the period before.\<close>

definition period_dates :: "ReportSchedule \<Rightarrow> int \<Rightarrow> int \<times> int \<times> int" where
  "period_dates s date =
     (if rs_Frequency s = ReportFrequencyDaily then (date - 1, date, date - 2)
      else if rs_Frequency s = ReportFrequencyWeekly then (date - 7, date, date - 14)
      else let stop = first_of_month date; start = first_of_month (stop - 1) in (start, stop, first_of_month (start - 1)))"

lemma PeriodBounds_fixed:
  assumes "ValidateSchedule load s = None" and "load (rs_Timezone s) = Some (fixed_zone off)" and "0 \<le> d" and "d < 1440"
    and "period_dates s date = (a, b, c)"
  shows "PeriodBounds load s (slot off d date) = Inr (slot off 0 a, slot off 0 b, slot off 0 c, slot off 0 a)"
proof -
  have D: "Date x 0 (fixed_zone off) = slot off 0 x" for x by (simp add: fixed_Date slot_def)
  have sec: "local_second (fixed_zone off) (slot off 0 x) mod 86400 = 0" for x
    using fixed_local(2) [of 0 off x] by (simp add: slot_def)
  show ?thesis
    using assms fixed_AddDays [of off] fixed_local_date_Date [of off]
    by (auto simp: PeriodBounds_def period_dates_def slot_local_date D sec month_before_def Let_def)
qed

lemma consecutive_periods:
  assumes "ValidateSchedule load s = None" and m: "scheduleMatchesDate s d1" "scheduleMatchesDate s d2" and "d1 < d2"
    and least: "\<And>d. scheduleMatchesDate s d \<Longrightarrow> d1 < d \<Longrightarrow> d2 \<le> d"
    and p: "period_dates s d1 = (a1, b1, c1)" "period_dates s d2 = (a2, b2, c2)"
  shows "a2 = b1" and "c2 = a1" and "a2 < b2" and "b2 \<le> d2"
proof -
  consider (daily) "rs_Frequency s = ReportFrequencyDaily"
    | (weekly) k where "rs_Frequency s = ReportFrequencyWeekly" "rs_WeeklyDay s = Some k"
    | (monthly) k where "rs_Frequency s = ReportFrequencyMonthly" "rs_MonthlyDay s = Some k" "1 \<le> k" "k \<le> 28"
    using assms(1) by (auto simp: ValidateSchedule_def split: if_splits option.splits)
  then have "a2 = b1 \<and> c2 = a1 \<and> a2 < b2 \<and> b2 \<le> d2"
  proof cases
    case daily
    then have "d2 = d1 + 1" using least [of "d1 + 1"] assms(4) by (simp add: scheduleMatchesDate_def)
    with daily p show ?thesis by (auto simp: period_dates_def)
  next
    case weekly
    then have w: "weekday d1 = weekday d2" using m by (simp add: scheduleMatchesDate_def frequency_names)
    have "weekday (d1 + 7) = weekday d1" using mod_add_self2 [of "d1 + 4" 7] by (simp add: weekday_def)
    then have "d2 \<le> d1 + 7" using least [of "d1 + 7"] m weekly by (simp add: scheduleMatchesDate_def frequency_names)
    moreover have "7 dvd d2 - d1" using w by (simp add: weekday_def mod_eq_dvd_iff dvd_diff_commute)
    ultimately have "d2 = d1 + 7" using assms(4) zdvd_imp_le [of 7 "d2 - d1"] by simp
    with weekly p show ?thesis by (auto simp: period_dates_def frequency_names)
  next
    case monthly
    then have d: "day_of_month d1 = k" "day_of_month d2 = k" using m by (simp_all add: scheduleMatchesDate_def frequency_names)
    have "first_of_month (first_of_month d2 - 1) = first_of_month d1"
    proof (rule consecutive_months [OF d monthly(4) assms(4)])
      fix d assume "d1 < d" "d < d2"
      then show "day_of_month d \<noteq> k" using least [of d] monthly by (auto simp: scheduleMatchesDate_def frequency_names)
    qed
    moreover have "first_of_month x \<le> x" for x using day_of_month_range(1) [of x] by (simp add: first_of_month_def)
    moreover have "first_of_month (first_of_month d2 - 1) < first_of_month d2"
      using day_of_month_range(1) [of "first_of_month d2 - 1"] by (simp add: first_of_month_def [of "first_of_month d2 - 1"])
    ultimately show ?thesis using monthly p by (auto simp: period_dates_def frequency_names Let_def)
  qed
  then show "a2 = b1" and "c2 = a1" and "a2 < b2" and "b2 \<le> d2" by auto
qed

definition sample_load :: "string \<Rightarrow> Location option" where
  "sample_load name = (if name = ''UTC'' then Some (fixed_zone 0) else None)"

definition sample_schedule :: ReportSchedule where
  "sample_schedule = \<lparr>rs_Frequency = ''monthly'', rs_Timezone = ''UTC'', rs_LocalTime = ''08:00'',
     rs_WeeklyDay = None, rs_MonthlyDay = Some 15\<rparr>"

lemma sample_schedule_valid:
  "ValidateSchedule sample_load sample_schedule = None" "sample_load (rs_Timezone sample_schedule) = Some (fixed_zone 0)"
  "parseLocalTime (rs_LocalTime sample_schedule) = Some (8, 0)"
proof -
  have z: "TrimSpace ''UTC'' = ''UTC''" by (simp add: TrimSpace_graphic graphic_def)
  show p: "parseLocalTime (rs_LocalTime sample_schedule) = Some (8, 0)"
    by (simp add: sample_schedule_def parseLocalTime_def TrimSpace_graphic graphic_def Atoi_def digits_value_def is_digit_def)
  then show "ValidateSchedule sample_load sample_schedule = None"
    by (simp add: ValidateSchedule_def sample_schedule_def sample_load_def z frequency_names)
  show "sample_load (rs_Timezone sample_schedule) = Some (fixed_zone 0)" by (simp add: sample_load_def sample_schedule_def)
qed

theorem next_occurrence_exact_witness:
  "\<exists>t. NextOccurrence sample_load sample_schedule 0 = Inr t \<and> scheduled sample_schedule 0 t \<and> 0 < t"
  using next_occurrence_exact [OF sample_schedule_valid(1,2), of 0] by blast

text \<open>
   Reports leave no day out: the period of an occurrence begins where the period of the
  occurrence before it ends, and each one carries the bounds of the period before its own.
\<close>

theorem report_periods_tile:
  assumes "load (rs_Timezone s) = Some (fixed_zone off)" and "NextOccurrence load s t0 = Inr t1"
    and "NextOccurrence load s t1 = Inr t2"
  shows "case (PeriodBounds load s t1, PeriodBounds load s t2) of
     (Inr (start1, stop1, _, _), Inr (start2, stop2, prev_start2, prev_stop2)) \<Rightarrow>
       start2 = stop1 \<and> prev_start2 = start1 \<and> prev_stop2 = stop1 \<and> start2 < stop2 \<and> stop2 \<le> t2
   | _ \<Rightarrow> False"
proof -
  have v: "ValidateSchedule load s = None" using assms(2) by (rule NextOccurrence_valid)
  then obtain hr mn where q: "parseLocalTime (rs_LocalTime s) = Some (hr, mn)" by (rule ValidateSchedule_parse)
  note m = parseLocalTime_minutes [OF q]
  let ?t = "slot off (hr * 60 + mn)"
  obtain d1 where d1: "t1 = ?t d1" "scheduleMatchesDate s d1"
    using NextOccurrence_fixed [OF v assms(1) q, of t0] assms(2) by auto
  obtain d2 where d2: "t2 = ?t d2" "scheduleMatchesDate s d2" "t1 < t2"
    and least: "\<forall>d. scheduleMatchesDate s d \<and> t1 < ?t d \<longrightarrow> d2 \<le> d"
    using NextOccurrence_fixed [OF v assms(1) q, of t1] assms(3) by auto
  have lt: "?t x < ?t y \<longleftrightarrow> x < y" for x y by (simp add: slot_def)
  obtain a1 b1 c1 a2 b2 c2 where p: "period_dates s d1 = (a1, b1, c1)" "period_dates s d2 = (a2, b2, c2)"
    by (metis prod_cases3)
  have "d1 < d2" using d1 d2 lt by simp
  note c = consecutive_periods [OF v d1(2) d2(2) this _ p]
  have "a2 = b1" "c2 = a1" "a2 < b2" "b2 \<le> d2" using least d1 lt by (auto intro!: c)
  moreover have "slot off 0 b2 \<le> t2" using \<open>b2 \<le> d2\<close> m by (simp add: d2 slot_def)
  ultimately show ?thesis
    using PeriodBounds_fixed [OF v assms(1) _ _ p(1)] PeriodBounds_fixed [OF v assms(1) _ _ p(2)] m
    by (simp add: d1 d2) (simp add: slot_def)
qed

theorem report_periods_tile_witness:
  "\<exists>t1 t2. NextOccurrence sample_load sample_schedule 0 = Inr t1 \<and> NextOccurrence sample_load sample_schedule t1 = Inr t2
     \<and> (case (PeriodBounds sample_load sample_schedule t1, PeriodBounds sample_load sample_schedule t2) of
          (Inr (start1, stop1, _, _), Inr (start2, stop2, _, _)) \<Rightarrow> start2 = stop1 | _ \<Rightarrow> False)"
proof -
  obtain t1 where t1: "NextOccurrence sample_load sample_schedule 0 = Inr t1"
    using NextOccurrence_fixed [OF sample_schedule_valid] by blast
  obtain t2 where t2: "NextOccurrence sample_load sample_schedule t1 = Inr t2"
    using NextOccurrence_fixed [OF sample_schedule_valid] by blast
  show ?thesis
    using report_periods_tile [OF sample_schedule_valid(2) t1 t2] t1 t2 by (auto split: sum.splits)
qed

end
