(* ===== verification/Report_Store.thy ===== *)
theory Report_Store
  imports Report_Schedule Programs
begin

text \<open>
  The tables of scheduled reports, and the definitions and recipients of reports
  (\<open>database/store_report_definitions.go\<close>, \<open>store_report_confirmations.go\<close>).  Every statement on the
  database may fail: the state carries the outcomes of the statements to come, \<open>True\<close> for a failure,
  and a transaction is one of them.  It also keeps what the outside world saw: the deliveries that were
  handed to the mail server, and the terms each external recipient confirmed.  Columns that only the
  dashboard shows are left out, and the sites of a report are its rows that name an existing site.
\<close>

subsection \<open>Tables\<close>

record report_row =
  rp_ID :: uuid
  rp_TenantID :: "uuid option"
  rp_Name :: string
  rp_Scope :: string
  rp_Preset :: string
  rp_SiteMode :: string
  rp_Sites :: "uuid list"
  rp_Schedule :: ReportSchedule
  rp_Status :: string
  rp_ConsentVersion :: int
  rp_NextRunAt :: "time option"

record recipient_row =
  rc_ID :: uuid
  rc_Report :: uuid
  rc_User :: "uuid option"
  rc_Email :: "string option"
  rc_ConsentVersion :: int
  rc_TokenHash :: "string option"
  rc_TokenExpires :: "time option"
  rc_SentAt :: "time option"
  rc_ConfirmedAt :: "time option"
  rc_OptedOutAt :: "time option"

record run_row =
  rn_ID :: uuid
  rn_Report :: uuid
  rn_ScheduledFor :: time
  rn_PeriodStart :: time
  rn_PeriodEnd :: time
  rn_Status :: string
  rn_ErrorCode :: "string option"
  rn_StartedAt :: "time option"
  rn_CompletedAt :: "time option"

record delivery_row =
  dv_ID :: uuid
  dv_Report :: uuid
  dv_Run :: uuid
  dv_Recipient :: uuid
  dv_Status :: string
  dv_Attempts :: int
  dv_NextAttemptAt :: "time option"
  dv_ErrorCode :: "string option"
  dv_CreatedAt :: time
  dv_UpdatedAt :: time

text \<open>What a recipient of a report agrees to: its preset, its frequency and its sites.\<close>

type_synonym report_terms = "string \<times> string \<times> uuid set"

definition terms_of :: "report_row \<Rightarrow> report_terms" where
  "terms_of p = (rp_Preset p, rs_Frequency (rp_Schedule p), set (rp_Sites p))"

record report_db =
  rt_reports :: "report_row list"
  rt_recipients :: "recipient_row list"
  rt_runs :: "run_row list"
  rt_deliveries :: "delivery_row list"

record report_sys =
  rs_db :: report_db
  rs_faults :: "bool list"
  rs_mails :: "uuid list"
  rs_consents :: "(uuid \<times> report_terms) list"

datatype report_error = ReportDbError | ErrReportNotFound | ScheduleFailed schedule_error | InvalidReport string
  | ErrReportConfirmationInvalid | ErrReportConfirmationExpired | ErrReportConfirmationCooldown

type_synonym 'a rtx = "(report_db, report_error, 'a) prog"
type_synonym 'a rprog = "(report_sys, report_error, 'a) prog"

text \<open>One statement or transaction: it fails without an effect or commits.\<close>

definition run_tx :: "'a rtx \<Rightarrow> 'a rprog" where
  "run_tx m s =
     (case rs_faults s of
        True # fs \<Rightarrow> (Inl ReportDbError, s\<lparr>rs_faults := fs\<rparr>)
      | _ \<Rightarrow> (case committed m (rs_db s) of (r, db) \<Rightarrow> (r, s\<lparr>rs_db := db, rs_faults := drop 1 (rs_faults s)\<rparr>)))"

definition query_db :: "(report_db \<Rightarrow> report_error + 'a) \<Rightarrow> 'a rprog" where
  "query_db f = run_tx (reads f)"

definition exec_db :: "(report_db \<Rightarrow> report_db) \<Rightarrow> unit rprog" where
  "exec_db f = run_tx (writes f)"

definition update_deliveries :: "(delivery_row \<Rightarrow> bool) \<Rightarrow> (delivery_row \<Rightarrow> delivery_row) \<Rightarrow> report_db \<Rightarrow> report_db" where
  "update_deliveries c f db = db\<lparr>rt_deliveries := update_where c f (rt_deliveries db)\<rparr>"

definition update_recipients :: "(recipient_row \<Rightarrow> bool) \<Rightarrow> (recipient_row \<Rightarrow> recipient_row) \<Rightarrow> report_db \<Rightarrow> report_db" where
  "update_recipients c f db = db\<lparr>rt_recipients := update_where c f (rt_recipients db)\<rparr>"

definition update_reports :: "(report_row \<Rightarrow> bool) \<Rightarrow> (report_row \<Rightarrow> report_row) \<Rightarrow> report_db \<Rightarrow> report_db" where
  "update_reports c f db = db\<lparr>rt_reports := update_where c f (rt_reports db)\<rparr>"

subsection \<open>Reports with their recipients\<close>

datatype ReportRecipientStatus = ReportRecipientStatusPending | ReportRecipientStatusConfirmed | ReportRecipientStatusOptedOut

record ReportRecipient =
  rr_ID :: uuid
  rr_UserID :: "uuid option"
  rr_Email :: "string option"
  rr_Status :: ReportRecipientStatus
  rr_OptedOutAt :: "time option"

text \<open>A member needs no confirmation; an external address has confirmed the present consent version.\<close>

definition recipient_of :: "int \<Rightarrow> recipient_row \<Rightarrow> ReportRecipient" where
  "recipient_of version r = \<lparr>rr_ID = rc_ID r, rr_UserID = rc_User r, rr_Email = rc_Email r,
     rr_Status = (if rc_OptedOutAt r \<noteq> None then ReportRecipientStatusOptedOut
        else if rc_User r \<noteq> None then ReportRecipientStatusConfirmed
        else if rc_ConfirmedAt r \<noteq> None \<and> rc_ConsentVersion r = version then ReportRecipientStatusConfirmed
        else ReportRecipientStatusPending),
     rr_OptedOutAt = rc_OptedOutAt r\<rparr>"

definition loadReportRelations :: "report_db \<Rightarrow> report_row \<Rightarrow> ReportRecipient list" where
  "loadReportRelations db p = map (recipient_of (rp_ConsentVersion p)) (filter (\<lambda>r. rc_Report r = rp_ID p) (rt_recipients db))"

definition GetReportDefinition :: "uuid \<Rightarrow> report_db \<Rightarrow> report_error + (report_row \<times> ReportRecipient list)" where
  "GetReportDefinition i db =
     (case find (\<lambda>p. rp_ID p = i) (rt_reports db) of
        None \<Rightarrow> Inl ErrReportNotFound | Some p \<Rightarrow> Inr (p, loadReportRelations db p))"

definition receives :: "ReportRecipient \<Rightarrow> bool" where
  "receives r \<longleftrightarrow> \<not> (rr_OptedOutAt r \<noteq> None \<or> rr_Status r \<noteq> ReportRecipientStatusConfirmed)"

definition activeRecipientCount :: "ReportRecipient list \<Rightarrow> nat" where
  "activeRecipientCount rs = length (filter receives rs)"

subsection \<open>Requests\<close>

definition ReportScopePersonal :: string where "ReportScopePersonal = ''personal''"
definition ReportScopeTeam :: string where "ReportScopeTeam = ''team''"
definition ReportPresetSiteSummary :: string where "ReportPresetSiteSummary = ''site_summary''"
definition ReportPresetPortfolioDigest :: string where "ReportPresetPortfolioDigest = ''portfolio_digest''"
definition ReportPresetOpportunityBrief :: string where "ReportPresetOpportunityBrief = ''opportunity_brief''"
definition ReportStatusDraft :: string where "ReportStatusDraft = ''draft''"
definition ReportStatusActive :: string where "ReportStatusActive = ''active''"
definition ReportStatusPaused :: string where "ReportStatusPaused = ''paused''"
definition ReportSiteModeSelected :: string where "ReportSiteModeSelected = ''selected''"
definition ReportSiteModeAllAccessible :: string where "ReportSiteModeAllAccessible = ''all_accessible''"

record CreateReportRequest =
  cr_Name :: string
  cr_Scope :: string
  cr_TenantID :: "uuid option"
  cr_Preset :: string
  cr_SiteMode :: string
  cr_SiteIDs :: "uuid list"
  cr_RecipientUserIDs :: "uuid list"
  cr_ExternalRecipientEmails :: "string list"
  cr_Schedule :: ReportSchedule
  cr_Status :: string

record UpdateReportRequest =
  ur_Name :: "string option"
  ur_Preset :: "string option"
  ur_SiteMode :: "string option"
  ur_SiteIDs :: "uuid list option"
  ur_RecipientUserIDs :: "uuid list option"
  ur_ExternalRecipientEmails :: "string list option"
  ur_Schedule :: "ReportSchedule option"
  ur_Status :: "string option"

definition uniqueUUIDs :: "uuid list \<Rightarrow> uuid list" where
  "uniqueUUIDs values = foldl (\<lambda>r v. if v \<noteq> uuid_Nil \<and> v \<notin> set r then r @ [v] else r) [] values"

definition uniqueNormalizedEmails :: "('a, 'p) golib \<Rightarrow> string list \<Rightarrow> string list" where
  "uniqueNormalizedEmails L values =
     foldl (\<lambda>r v. let n = ToLower L (TrimSpace v) in if n \<noteq> [] \<and> n \<notin> set r then r @ [n] else r) [] values"

definition normalizeReportRequest :: "('a, 'p) golib \<Rightarrow> uuid \<Rightarrow> CreateReportRequest \<Rightarrow> CreateReportRequest" where
  "normalizeReportRequest L actor req =
     (let req = req\<lparr>cr_Name := TrimSpace (cr_Name req),
            cr_SiteMode := (if cr_SiteMode req = [] then ReportSiteModeSelected else cr_SiteMode req),
            cr_Status := (if cr_Status req = [] then ReportStatusDraft else cr_Status req)\<rparr>;
          req = (if cr_Scope req = ReportScopePersonal then req\<lparr>cr_TenantID := None, cr_RecipientUserIDs := [actor]\<rparr> else req)
      in req\<lparr>cr_SiteIDs := uniqueUUIDs (cr_SiteIDs req), cr_RecipientUserIDs := uniqueUUIDs (cr_RecipientUserIDs req),
             cr_ExternalRecipientEmails := uniqueNormalizedEmails L (cr_ExternalRecipientEmails req)\<rparr>)"

text \<open>\<open>mail_ok\<close> is \<open>mail.ParseAddress\<close> giving the address itself.\<close>

definition validateReportRequest :: "(string \<Rightarrow> Location option) \<Rightarrow> (string \<Rightarrow> bool) \<Rightarrow> CreateReportRequest \<Rightarrow> report_error option" where
  "validateReportRequest load mail_ok req =
     (if cr_Name req = [] \<or> length (cr_Name req) > 120 then Some (InvalidReport ''name'')
      else case ValidateSchedule load (cr_Schedule req) of
        Some e \<Rightarrow> Some (ScheduleFailed e)
      | None \<Rightarrow>
          if cr_Scope req \<noteq> ReportScopePersonal \<and> cr_Scope req \<noteq> ReportScopeTeam then Some (InvalidReport ''scope'')
          else if cr_Scope req = ReportScopeTeam \<and> (cr_TenantID req = None \<or> cr_TenantID req = Some uuid_Nil) then Some (InvalidReport ''tenant'')
          else if cr_Preset req \<noteq> ReportPresetSiteSummary \<and> cr_Preset req \<noteq> ReportPresetPortfolioDigest
               \<and> cr_Preset req \<noteq> ReportPresetOpportunityBrief then Some (InvalidReport ''preset'')
          else if cr_Status req \<noteq> ReportStatusDraft \<and> cr_Status req \<noteq> ReportStatusActive \<and> cr_Status req \<noteq> ReportStatusPaused
          then Some (InvalidReport ''status'')
          else if cr_SiteMode req \<noteq> ReportSiteModeSelected \<and> cr_SiteMode req \<noteq> ReportSiteModeAllAccessible then Some (InvalidReport ''site mode'')
          else if cr_Preset req \<noteq> ReportPresetPortfolioDigest \<and> length (cr_SiteIDs req) \<noteq> 1 then Some (InvalidReport ''one site'')
          else if cr_Preset req = ReportPresetOpportunityBrief \<and> rs_Frequency (cr_Schedule req) = ReportFrequencyMonthly
          then Some (InvalidReport ''monthly brief'')
          else if cr_Scope req = ReportScopeTeam \<and> cr_SiteMode req = ReportSiteModeAllAccessible then Some (InvalidReport ''explicit sites'')
          else if cr_SiteMode req = ReportSiteModeSelected \<and> cr_SiteIDs req = [] then Some (InvalidReport ''sites'')
          else if cr_Scope req \<noteq> ReportScopeTeam \<and> cr_ExternalRecipientEmails req \<noteq> [] then Some (InvalidReport ''external recipients'')
          else if length (cr_ExternalRecipientEmails req) > 25 then Some (InvalidReport ''many external recipients'')
          else if \<not> list_all mail_ok (cr_ExternalRecipientEmails req) then Some (InvalidReport ''email'')
          else if cr_RecipientUserIDs req = [] \<and> cr_ExternalRecipientEmails req = [] then Some (InvalidReport ''recipients'')
          else None)"

subsection \<open>Definitions\<close>

text \<open>
  The parts of the program a request uses: locations, addresses, the tenant lookup of a site, and the
  identifiers that are drawn for the report and for its recipients.
\<close>

record report_env =
  re_load :: "string \<Rightarrow> Location option"
  re_mail_ok :: "string \<Rightarrow> bool"
  re_site_ok :: "uuid \<Rightarrow> bool"
  re_report_id :: uuid
  re_member_id :: "uuid \<Rightarrow> uuid"
  re_external_id :: "string \<Rightarrow> uuid"

definition new_recipient :: "uuid \<Rightarrow> uuid \<Rightarrow> uuid option \<Rightarrow> string option \<Rightarrow> int \<Rightarrow> recipient_row" where
  "new_recipient i report user email version = \<lparr>rc_ID = i, rc_Report = report, rc_User = user, rc_Email = email,
     rc_ConsentVersion = version, rc_TokenHash = None, rc_TokenExpires = None, rc_SentAt = None, rc_ConfirmedAt = None,
     rc_OptedOutAt = None\<rparr>"

text \<open>
  \<open>ON CONFLICT\<close> of a recipient leaves the row as it is.  The plain insert of a new report is the same:
  the report has no recipient yet, and those of the request are distinct.
\<close>

definition upsert_recipient :: "recipient_row \<Rightarrow> unit rtx" where
  "upsert_recipient r = bind_op (reads (\<lambda>db. Inr (list_ex (\<lambda>q. rc_Report q = rc_Report r \<and> rc_User q = rc_User r
         \<and> rc_Email q = rc_Email r) (rt_recipients db))))
     (\<lambda>known. if known then ret ()
        else bind_op (require ReportDbError (\<lambda>db. rc_ID r \<notin> rc_ID ` set (rt_recipients db)))
          (\<lambda>_. writes (\<lambda>db. db\<lparr>rt_recipients := rt_recipients db @ [r]\<rparr>)))"

definition add_recipients :: "report_env \<Rightarrow> uuid \<Rightarrow> CreateReportRequest \<Rightarrow> int \<Rightarrow> unit rtx" where
  "add_recipients env report req version =
     bind_op (for_each (\<lambda>u. upsert_recipient (new_recipient (re_member_id env u) report (Some u) None 1)) (cr_RecipientUserIDs req))
       (\<lambda>_. bind_op (for_each (\<lambda>e. upsert_recipient (new_recipient (re_external_id env e) report None (Some e) version))
              (cr_ExternalRecipientEmails req)) (\<lambda>_. ret ()))"

definition next_run :: "report_env \<Rightarrow> time \<Rightarrow> CreateReportRequest \<Rightarrow> schedule_error + time option" where
  "next_run env now req =
     (if cr_Status req = ReportStatusActive
      then (case NextOccurrence (re_load env) (cr_Schedule req) now of Inl e \<Rightarrow> Inl e | Inr t \<Rightarrow> Inr (Some t))
      else Inr None)"

definition CreateReportDefinition :: "('a, 'p) golib \<Rightarrow> report_env \<Rightarrow> time \<Rightarrow> uuid \<Rightarrow> CreateReportRequest
    \<Rightarrow> (report_row \<times> ReportRecipient list) rprog" where
  "CreateReportDefinition L env now actor req =
     (let req = normalizeReportRequest L actor req in
      case validateReportRequest (re_load env) (re_mail_ok env) req of
        Some e \<Rightarrow> abort e
      | None \<Rightarrow>
          (case next_run env now req of
             Inl e \<Rightarrow> abort (ScheduleFailed e)
           | Inr nextRun \<Rightarrow>
               if \<not> list_all (re_site_ok env) (cr_SiteIDs req) then abort ReportDbError
               else bind_op (run_tx
                 (bind_op (require ReportDbError (\<lambda>db. re_report_id env \<notin> rp_ID ` set (rt_reports db)))
                   (\<lambda>_. bind_op (writes (\<lambda>db. db\<lparr>rt_reports := rt_reports db @
                      [\<lparr>rp_ID = re_report_id env, rp_TenantID = (if cr_Scope req = ReportScopePersonal then None else cr_TenantID req),
                        rp_Name = cr_Name req, rp_Scope = cr_Scope req, rp_Preset = cr_Preset req, rp_SiteMode = cr_SiteMode req,
                        rp_Sites = cr_SiteIDs req, rp_Schedule = cr_Schedule req, rp_Status = cr_Status req, rp_ConsentVersion = 1,
                        rp_NextRunAt = nextRun\<rparr>]\<rparr>))
                     (\<lambda>_. add_recipients env (re_report_id env) req 1))))
                 (\<lambda>_. query_db (GetReportDefinition (re_report_id env)))))"

definition reportConsentScopeChanged :: "report_row \<Rightarrow> CreateReportRequest \<Rightarrow> bool" where
  "reportConsentScopeChanged current req \<longleftrightarrow>
     (if rp_Preset current \<noteq> cr_Preset req \<or> rs_Frequency (rp_Schedule current) \<noteq> rs_Frequency (cr_Schedule req)
         \<or> length (rp_Sites current) \<noteq> length (cr_SiteIDs req) then True
      else list_ex (\<lambda>site. site \<notin> set (cr_SiteIDs req)) (rp_Sites current))"

text \<open>The request that a change amounts to: the report as it is with the fields of the patch.\<close>

definition patched_request :: "report_row \<Rightarrow> ReportRecipient list \<Rightarrow> UpdateReportRequest \<Rightarrow> CreateReportRequest" where
  "patched_request current recipients patch =
     \<lparr>cr_Name = (case ur_Name patch of None \<Rightarrow> rp_Name current | Some v \<Rightarrow> v), cr_Scope = rp_Scope current,
      cr_TenantID = rp_TenantID current,
      cr_Preset = (case ur_Preset patch of None \<Rightarrow> rp_Preset current | Some v \<Rightarrow> v),
      cr_SiteMode = (case ur_SiteMode patch of None \<Rightarrow> rp_SiteMode current | Some v \<Rightarrow> v),
      cr_SiteIDs = (case ur_SiteIDs patch of None \<Rightarrow> rp_Sites current | Some v \<Rightarrow> v),
      cr_RecipientUserIDs = (case ur_RecipientUserIDs patch of
         None \<Rightarrow> List.map_filter (\<lambda>r. if rr_OptedOutAt r = None then rr_UserID r else None) recipients | Some v \<Rightarrow> v),
      cr_ExternalRecipientEmails = (case ur_ExternalRecipientEmails patch of
         None \<Rightarrow> List.map_filter (\<lambda>r. if rr_UserID r = None then rr_Email r else None) recipients | Some v \<Rightarrow> v),
      cr_Schedule = (case ur_Schedule patch of None \<Rightarrow> rp_Schedule current | Some v \<Rightarrow> v),
      cr_Status = (case ur_Status patch of None \<Rightarrow> rp_Status current | Some v \<Rightarrow> v)\<rparr>"

definition removed_recipient :: "('a, 'p) golib \<Rightarrow> CreateReportRequest \<Rightarrow> ReportRecipient \<Rightarrow> bool" where
  "removed_recipient L req r \<longleftrightarrow>
     (case rr_UserID r of
        Some u \<Rightarrow> rr_OptedOutAt r = None \<and> u \<notin> set (cr_RecipientUserIDs req)
      | None \<Rightarrow> (case rr_Email r of None \<Rightarrow> True | Some e \<Rightarrow> ToLower L e \<notin> set (cr_ExternalRecipientEmails req)))"

text \<open>The statements of an update in their order.  A new consent version takes back every confirmation.\<close>

definition update_tx :: "('a, 'p) golib \<Rightarrow> report_env \<Rightarrow> report_row \<Rightarrow> ReportRecipient list \<Rightarrow> CreateReportRequest \<Rightarrow> int
    \<Rightarrow> time option \<Rightarrow> unit rtx" where
  "update_tx L env current recipients req version nextRun =
     bind_op (writes (update_reports (\<lambda>p. rp_ID p = rp_ID current)
         (\<lambda>p. p\<lparr>rp_Name := cr_Name req, rp_Preset := cr_Preset req, rp_SiteMode := cr_SiteMode req, rp_Sites := cr_SiteIDs req,
               rp_Schedule := cr_Schedule req, rp_Status := cr_Status req, rp_ConsentVersion := version, rp_NextRunAt := nextRun\<rparr>)))
       (\<lambda>_. bind_op (writes (\<lambda>db. db\<lparr>rt_recipients := filter (\<lambda>q. rc_ID q \<notin> rr_ID ` set (filter (removed_recipient L req) recipients))
                (rt_recipients db)\<rparr>))
         (\<lambda>_. bind_op (if version \<noteq> rp_ConsentVersion current
                 then writes (update_recipients (\<lambda>q. rc_Report q = rp_ID current \<and> rc_Email q \<noteq> None)
                   (\<lambda>q. q\<lparr>rc_ConsentVersion := version, rc_TokenHash := None, rc_TokenExpires := None, rc_SentAt := None, rc_ConfirmedAt := None\<rparr>))
                 else ret ())
           (\<lambda>_. add_recipients env (rp_ID current) req version)))"

definition UpdateReportDefinition :: "('a, 'p) golib \<Rightarrow> report_env \<Rightarrow> time \<Rightarrow> uuid \<Rightarrow> uuid \<Rightarrow> UpdateReportRequest
    \<Rightarrow> (report_row \<times> ReportRecipient list) rprog" where
  "UpdateReportDefinition L env now actor reportID patch =
     bind_op (query_db (GetReportDefinition reportID)) (\<lambda>(current, recipients).
       let req = normalizeReportRequest L actor (patched_request current recipients patch) in
       case validateReportRequest (re_load env) (re_mail_ok env) req of
         Some e \<Rightarrow> abort e
       | None \<Rightarrow>
           let version = (if rp_ConsentVersion current \<le> 0 then 1 else rp_ConsentVersion current);
               version = (if reportConsentScopeChanged current req then version + 1 else version)
           in (case next_run env now req of
                 Inl e \<Rightarrow> abort (ScheduleFailed e)
               | Inr nextRun \<Rightarrow>
                   if \<not> list_all (re_site_ok env) (cr_SiteIDs req) then abort ReportDbError
                   else bind_op (run_tx (update_tx L env current recipients req version nextRun))
                     (\<lambda>_. query_db (GetReportDefinition reportID))))"

definition DeleteReportDefinition :: "uuid \<Rightarrow> unit rprog" where
  "DeleteReportDefinition report = exec_db (\<lambda>db. db\<lparr>
     rt_deliveries := filter (\<lambda>d. dv_Report d \<noteq> report) (rt_deliveries db), rt_runs := filter (\<lambda>r. rn_Report r \<noteq> report) (rt_runs db),
     rt_recipients := filter (\<lambda>r. rc_Report r \<noteq> report) (rt_recipients db), rt_reports := filter (\<lambda>p. rp_ID p \<noteq> report) (rt_reports db)\<rparr>)"

subsection \<open>Consent\<close>

definition ReportConfirmationLifetime :: duration where "ReportConfirmationLifetime = 7 * 24 * hour"
definition ReportConfirmationCooldown :: duration where "ReportConfirmationCooldown = 15 * minute"

text \<open>The lookup of the team that a confirmation names.\<close>

definition confirmation_team :: "unit rprog" where
  "confirmation_team s = (case query_db (\<lambda>_. Inr ()) s of
     (Inl _, s') \<Rightarrow> (Inl ErrReportConfirmationInvalid, s') | (Inr _, s') \<Rightarrow> (Inr (), s'))"

text \<open>A new confirmation token for an external recipient; \<open>hash\<close> is \<open>ConfirmationTokenHash\<close>.\<close>

definition PrepareReportRecipientConfirmation :: "(string \<Rightarrow> string) \<Rightarrow> string \<Rightarrow> uuid \<Rightarrow> uuid \<Rightarrow> time \<Rightarrow> bool \<Rightarrow> recipient_row rprog" where
  "PrepareReportRecipientConfirmation hash token reportID recipientID now force s =
     (case query_db (GetReportDefinition reportID) s of
        (Inl _, s') \<Rightarrow> (Inl ErrReportConfirmationInvalid, s')
      | (Inr (report, _), s') \<Rightarrow>
          if rp_Scope report \<noteq> ReportScopeTeam \<or> rp_TenantID report = None then (Inl ErrReportConfirmationInvalid, s')
          else bind_op (query_db (\<lambda>db. case find (\<lambda>q. rc_ID q = recipientID \<and> rc_Report q = reportID \<and> rc_Email q \<noteq> None) (rt_recipients db) of
                  None \<Rightarrow> Inl ErrReportConfirmationInvalid | Some q \<Rightarrow> Inr q))
            (\<lambda>q. if rc_ConfirmedAt q \<noteq> None \<and> rc_OptedOutAt q = None \<and> rc_ConsentVersion q = rp_ConsentVersion report
                then abort ErrReportConfirmationInvalid
                else if \<not> force \<and> rc_OptedOutAt q \<noteq> None then abort ErrReportConfirmationInvalid
                else if (case rc_SentAt q of None \<Rightarrow> False | Some t \<Rightarrow> now - t < ReportConfirmationCooldown) then abort ErrReportConfirmationCooldown
                else bind_op (run_tx
                    (bind_op (require ReportDbError (\<lambda>db. Some (hash token) \<notin> rc_TokenHash ` set (rt_recipients db)))
                      (\<lambda>_. bind_op (require ErrReportConfirmationInvalid (\<lambda>db. list_ex (\<lambda>q. rc_ID q = recipientID \<and> rc_Report q = reportID
                              \<and> rc_Email q \<noteq> None) (rt_recipients db)))
                        (\<lambda>_. writes (update_recipients (\<lambda>q. rc_ID q = recipientID \<and> rc_Report q = reportID \<and> rc_Email q \<noteq> None)
                          (\<lambda>q. q\<lparr>rc_ConsentVersion := rp_ConsentVersion report, rc_TokenHash := Some (hash token),
                             rc_TokenExpires := Some (now + ReportConfirmationLifetime), rc_SentAt := Some now, rc_ConfirmedAt := None\<rparr>))))))
                  (\<lambda>_. bind_op confirmation_team (\<lambda>_. ret q))) s')"

definition consent_version :: "report_db \<Rightarrow> uuid \<Rightarrow> int option" where
  "consent_version db report = map_option rp_ConsentVersion (find (\<lambda>p. rp_ID p = report) (rt_reports db))"

definition has_token :: "string \<Rightarrow> recipient_row \<Rightarrow> bool" where
  "has_token h q \<longleftrightarrow> rc_TokenHash q = Some h \<and> rc_Email q \<noteq> None"

definition unexpired :: "time \<Rightarrow> recipient_row \<Rightarrow> bool" where
  "unexpired now q \<longleftrightarrow> (case rc_TokenExpires q of None \<Rightarrow> False | Some t \<Rightarrow> t > now)"

definition GetReportRecipientConfirmation :: "(string \<Rightarrow> string) \<Rightarrow> string \<Rightarrow> time \<Rightarrow> report_row rprog" where
  "GetReportRecipientConfirmation hash token now =
     bind_op (query_db (\<lambda>db. case find (\<lambda>q. has_token (hash token) q \<and> consent_version db (rc_Report q) \<noteq> None) (rt_recipients db) of
           None \<Rightarrow> Inl ErrReportConfirmationInvalid | Some q \<Rightarrow> Inr (q, the (consent_version db (rc_Report q)))))
       (\<lambda>(q, version). if \<not> unexpired now q then abort ErrReportConfirmationExpired
          else if rc_ConsentVersion q \<noteq> version then abort ErrReportConfirmationInvalid
          else (\<lambda>s. case query_db (GetReportDefinition (rc_Report q)) s of
               (Inl _, s') \<Rightarrow> (Inl ErrReportConfirmationInvalid, s')
             | (Inr (report, _), s') \<Rightarrow>
                 if rp_Scope report \<noteq> ReportScopeTeam \<or> rp_TenantID report = None then (Inl ErrReportConfirmationInvalid, s')
                 else bind_op confirmation_team (\<lambda>_. ret report) s'))"

text \<open>A confirmation; the log keeps the terms of the report at that moment.\<close>

definition confirms :: "string \<Rightarrow> time \<Rightarrow> report_db \<Rightarrow> recipient_row \<Rightarrow> bool" where
  "confirms h now db q \<longleftrightarrow> has_token h q \<and> unexpired now q \<and> consent_version db (rc_Report q) = Some (rc_ConsentVersion q)"

definition confirmed_terms :: "string \<Rightarrow> time \<Rightarrow> report_db \<Rightarrow> (uuid \<times> report_terms) list" where
  "confirmed_terms h now db = List.map_filter (\<lambda>q. map_option (\<lambda>p. (rc_ID q, terms_of p)) (find (\<lambda>p. rp_ID p = rc_Report q) (rt_reports db)))
     (filter (confirms h now db) (rt_recipients db))"

definition ConfirmReportRecipient :: "(string \<Rightarrow> string) \<Rightarrow> string \<Rightarrow> time \<Rightarrow> unit rprog" where
  "ConfirmReportRecipient hash token now =
     bind_op (GetReportRecipientConfirmation hash token now) (\<lambda>_ s.
       case run_tx (bind_op (require ErrReportConfirmationInvalid (\<lambda>db. list_ex (confirms (hash token) now db) (rt_recipients db)))
              (\<lambda>_. writes (\<lambda>db. update_recipients (confirms (hash token) now db)
                (\<lambda>q. q\<lparr>rc_ConfirmedAt := Some now, rc_OptedOutAt := None, rc_TokenHash := None, rc_TokenExpires := None\<rparr>) db))) s of
         (Inl e, s') \<Rightarrow> (Inl e, s')
       | (Inr _, s') \<Rightarrow> (Inr (), s'\<lparr>rs_consents := rs_consents s' @ confirmed_terms (hash token) now (rs_db s)\<rparr>))"

definition DeclineReportRecipient :: "(string \<Rightarrow> string) \<Rightarrow> string \<Rightarrow> time \<Rightarrow> unit rprog" where
  "DeclineReportRecipient hash token now =
     bind_op (GetReportRecipientConfirmation hash token now) (\<lambda>_.
       run_tx (bind_op (require ErrReportConfirmationInvalid (\<lambda>db. list_ex (\<lambda>q. has_token (hash token) q \<and> unexpired now q) (rt_recipients db)))
         (\<lambda>_. writes (update_recipients (\<lambda>q. has_token (hash token) q \<and> unexpired now q)
           (\<lambda>q. q\<lparr>rc_OptedOutAt := Some now, rc_ConfirmedAt := None, rc_TokenHash := None, rc_TokenExpires := None\<rparr>)))))"

text \<open>Leaving a report and coming back; \<open>owns_token\<close> compares the unsubscribe token of the row.\<close>

definition OptOutReportRecipient :: "(recipient_row \<Rightarrow> bool) \<Rightarrow> uuid \<Rightarrow> uuid \<Rightarrow> time \<Rightarrow> unit rprog" where
  "OptOutReportRecipient owns_token report recipient now =
     run_tx (bind_op (require ErrReportNotFound (\<lambda>db. list_ex (\<lambda>q. rc_ID q = recipient \<and> rc_Report q = report \<and> owns_token q) (rt_recipients db)))
       (\<lambda>_. writes (update_recipients (\<lambda>q. rc_ID q = recipient \<and> rc_Report q = report \<and> owns_token q)
         (\<lambda>q. q\<lparr>rc_OptedOutAt := (case rc_OptedOutAt q of None \<Rightarrow> Some now | t \<Rightarrow> t)\<rparr>))))"

definition ResubscribeReportRecipient :: "uuid \<Rightarrow> uuid \<Rightarrow> unit rprog" where
  "ResubscribeReportRecipient report user =
     exec_db (update_recipients (\<lambda>q. rc_Report q = report \<and> rc_User q = Some user) (\<lambda>q. q\<lparr>rc_OptedOutAt := None\<rparr>))"

end
