(* ===== verification/Report_Delivery.thy ===== *)
theory Report_Delivery
  imports Report_Store
begin

text \<open>
  The runs and deliveries of reports (\<open>database/store_report_delivery.go\<close>, \<open>RetryReportRun\<close>) and the
  worker that sends them (\<open>worker/reports_scheduler.go\<close>).  Whether the recipient may see the sites,
  the content of the mail and the mail server are answers of the environment.
\<close>

definition EnsureReportNextRuns :: "(string \<Rightarrow> Location option) \<Rightarrow> time \<Rightarrow> unit rprog" where
  "EnsureReportNextRuns load now =
     bind_op (query_db (\<lambda>db. Inr (filter (\<lambda>p. rp_Status p = ''active'' \<and> rp_NextRunAt p = None) (rt_reports db))))
       (\<lambda>rows. bind_op (for_each (\<lambda>p. case NextOccurrence load (rp_Schedule p) now of
                Inl e \<Rightarrow> abort (ScheduleFailed e) | Inr t \<Rightarrow> ret (rp_ID p, t)) rows)
         (\<lambda>updates. bind_op (for_each (\<lambda>(i, t). exec_db (update_reports (\<lambda>p. rp_ID p = i \<and> rp_NextRunAt p = None)
                (\<lambda>p. p\<lparr>rp_NextRunAt := Some t\<rparr>))) updates) (\<lambda>_. ret ())))"

subsection \<open>Claiming runs\<close>

text \<open>
  The loop that skips the occurrences that were missed.  It ends whatever the schedule and the zone
  are, because an occurrence is later than the instant it was computed from.
\<close>

function catch_up :: "(string \<Rightarrow> Location option) \<Rightarrow> ReportSchedule \<Rightarrow> time \<Rightarrow> time \<Rightarrow> time \<Rightarrow> schedule_error + (time \<times> time)" where
  "catch_up load s now scheduledFor nextRun =
     (if nextRun > now then Inr (scheduledFor, nextRun)
      else case NextOccurrence load s nextRun of
        Inl e \<Rightarrow> Inl e
      | Inr t \<Rightarrow> catch_up load s now nextRun t)"
  by pat_completeness auto
termination
  by (relation "measure (\<lambda>(_, _, now, _, nextRun). nat (now + 1 - nextRun))") (auto dest: NextOccurrence_later)

declare catch_up.simps [simp del]

definition new_delivery :: "time \<Rightarrow> uuid \<Rightarrow> uuid \<Rightarrow> uuid \<Rightarrow> uuid \<Rightarrow> delivery_row" where
  "new_delivery now i report run recipient = \<lparr>dv_ID = i, dv_Report = report, dv_Run = run, dv_Recipient = recipient,
     dv_Status = ''queued'', dv_Attempts = 0, dv_NextAttemptAt = Some now, dv_ErrorCode = None, dv_CreatedAt = now,
     dv_UpdatedAt = now\<rparr>"

definition insert_run :: "run_row \<Rightarrow> unit rtx" where
  "insert_run r = bind_op (require ReportDbError (\<lambda>db. rn_ID r \<notin> rn_ID ` set (rt_runs db)
       \<and> (rn_Report r, rn_ScheduledFor r) \<notin> (\<lambda>q. (rn_Report q, rn_ScheduledFor q)) ` set (rt_runs db)))
     (\<lambda>_. writes (\<lambda>db. db\<lparr>rt_runs := rt_runs db @ [r]\<rparr>))"

definition insert_delivery :: "delivery_row \<Rightarrow> unit rtx" where
  "insert_delivery d = bind_op (require ReportDbError (\<lambda>db. dv_ID d \<notin> dv_ID ` set (rt_deliveries db)
       \<and> (dv_Run d, dv_Recipient d) \<notin> (\<lambda>q. (dv_Run q, dv_Recipient q)) ` set (rt_deliveries db)))
     (\<lambda>_. writes (\<lambda>db. db\<lparr>rt_deliveries := rt_deliveries db @ [d]\<rparr>))"

text \<open>
  The transaction of a claim: it moves the next run only when nobody else has, and then stores the run
  and a delivery for every recipient who receives the report.
\<close>

definition claim_tx :: "time \<Rightarrow> report_row \<Rightarrow> ReportRecipient list \<Rightarrow> time \<Rightarrow> time \<Rightarrow> run_row \<Rightarrow> (uuid \<Rightarrow> uuid) \<Rightarrow> bool rtx" where
  "claim_tx now report recipients claimedNextRun nextRun run deliveryID =
     bind_op (reads (\<lambda>db. Inr (filter (\<lambda>p. rp_ID p = rp_ID report \<and> rp_Status p = ''active'' \<and> rp_NextRunAt p = Some claimedNextRun)
                (rt_reports db) \<noteq> [])))
       (\<lambda>hit. if \<not> hit then ret False
          else bind_op (writes (update_reports (\<lambda>p. rp_ID p = rp_ID report \<and> rp_Status p = ''active''
                   \<and> rp_NextRunAt p = Some claimedNextRun) (\<lambda>p. p\<lparr>rp_NextRunAt := Some nextRun\<rparr>)))
           (\<lambda>_. bind_op (insert_run run)
             (\<lambda>_. if rn_Status run = ''skipped'' then ret True
                else bind_op (for_each (\<lambda>r. insert_delivery (new_delivery now (deliveryID (rr_ID r)) (rp_ID report) (rn_ID run) (rr_ID r)))
                       (filter receives recipients)) (\<lambda>_. ret True))))"

definition reportClaimAlreadyHandled :: "uuid \<Rightarrow> time \<Rightarrow> time \<Rightarrow> bool rprog" where
  "reportClaimAlreadyHandled report claimedNextRun scheduledFor =
     bind_op (query_db (\<lambda>db. Inr (map_option rp_NextRunAt (find (\<lambda>p. rp_ID p = report) (rt_reports db)))))
       (\<lambda>row. case row of
          None \<Rightarrow> ret True
        | Some nextRun \<Rightarrow>
            if nextRun \<noteq> None \<and> nextRun \<noteq> Some claimedNextRun then ret True
            else query_db (\<lambda>db. Inr (length (filter (\<lambda>r. rn_Report r = report \<and> rn_ScheduledFor r = scheduledFor) (rt_runs db)) > 0)))"

definition claim_run :: "time \<Rightarrow> report_row \<Rightarrow> ReportRecipient list \<Rightarrow> uuid \<Rightarrow> time \<Rightarrow> time \<times> time \<Rightarrow> run_row" where
  "claim_run now report recipients runID scheduledFor period =
     (let skip = (if now - scheduledFor > CatchUpWindow (rs_Frequency (rp_Schedule report)) then Some ''catch_up_expired''
            else if activeRecipientCount recipients = 0 then Some ''no_recipients'' else None)
      in \<lparr>rn_ID = runID, rn_Report = rp_ID report, rn_ScheduledFor = scheduledFor, rn_PeriodStart = fst period,
          rn_PeriodEnd = snd period, rn_Status = (if skip = None then ''queued'' else ''skipped''), rn_ErrorCode = skip,
          rn_StartedAt = None, rn_CompletedAt = (if skip = None then None else Some now)\<rparr>)"

text \<open>The schedule of a claim: the occurrence that is run, the next one and the period.\<close>

definition claim_times :: "(string \<Rightarrow> Location option) \<Rightarrow> time \<Rightarrow> ReportSchedule \<Rightarrow> time \<Rightarrow> schedule_error + (time \<times> time \<times> time \<times> time)" where
  "claim_times load now s claimedNextRun =
     (case NextOccurrence load s claimedNextRun of
        Inl e \<Rightarrow> Inl e
      | Inr t \<Rightarrow>
          (case catch_up load s now claimedNextRun t of
             Inl e \<Rightarrow> Inl e
           | Inr (scheduledFor, nextRun) \<Rightarrow>
               (case PeriodBounds load s scheduledFor of
                  Inl e \<Rightarrow> Inl e | Inr (start, stop, _, _) \<Rightarrow> Inr (scheduledFor, nextRun, start, stop))))"

text \<open>One report of the loop; \<open>None\<close> when the loop goes on without a run.\<close>

definition claim_report :: "(string \<Rightarrow> Location option) \<Rightarrow> time \<Rightarrow> (uuid \<Rightarrow> uuid) \<Rightarrow> (uuid \<Rightarrow> uuid \<Rightarrow> uuid) \<Rightarrow> uuid \<Rightarrow> uuid option rprog" where
  "claim_report load now runID deliveryID reportID s =
     (case query_db (GetReportDefinition reportID) s of
        (Inl e, s') \<Rightarrow> if e = ErrReportNotFound then (Inr None, s') else (Inl e, s')
      | (Inr (report, recipients), s') \<Rightarrow>
          (case rp_NextRunAt report of
             None \<Rightarrow> (Inr None, s')
           | Some claimedNextRun \<Rightarrow>
               if rp_Status report \<noteq> ''active'' \<or> claimedNextRun > now then (Inr None, s')
               else case claim_times load now (rp_Schedule report) claimedNextRun of
                 Inl e \<Rightarrow> (Inl (ScheduleFailed e), s')
               | Inr (scheduledFor, nextRun, start, stop) \<Rightarrow>
                   (case run_tx (claim_tx now report recipients claimedNextRun nextRun
                            (claim_run now report recipients (runID reportID) scheduledFor (start, stop)) (deliveryID reportID)) s' of
                      (Inr claimed, s2) \<Rightarrow> (Inr (if claimed then Some (runID reportID) else None), s2)
                    | (Inl e, s2) \<Rightarrow>
                        (case reportClaimAlreadyHandled (rp_ID report) claimedNextRun scheduledFor s2 of
                           (Inr True, s3) \<Rightarrow> (Inr None, s3)
                         | (_, s3) \<Rightarrow> (Inl e, s3)))))"

definition ClaimDueReportRuns :: "(string \<Rightarrow> Location option) \<Rightarrow> time \<Rightarrow> (uuid \<Rightarrow> uuid) \<Rightarrow> (uuid \<Rightarrow> uuid \<Rightarrow> uuid) \<Rightarrow> uuid list rprog" where
  "ClaimDueReportRuns load now runID deliveryID =
     bind_op (EnsureReportNextRuns load now)
       (\<lambda>_. bind_op (query_db (\<lambda>db. Inr (map rp_ID (sort_key (\<lambda>p. the (rp_NextRunAt p))
              (filter (\<lambda>p. rp_Status p = ''active'' \<and> (case rp_NextRunAt p of None \<Rightarrow> False | Some t \<Rightarrow> t \<le> now)) (rt_reports db))))))
         (\<lambda>reportIDs. bind_op (for_each (claim_report load now runID deliveryID) reportIDs)
           (\<lambda>runs. ret (List.map_filter id runs))))"

subsection \<open>Deliveries\<close>

definition due_at :: "delivery_row \<Rightarrow> time" where
  "due_at d = (case dv_NextAttemptAt d of None \<Rightarrow> dv_CreatedAt d | Some t \<Rightarrow> t)"

definition delivery_due :: "time \<Rightarrow> delivery_row \<Rightarrow> bool" where
  "delivery_due now d \<longleftrightarrow> dv_Status d \<in> {''queued'', ''failed''} \<and> dv_Attempts d < 4 \<and> due_at d \<le> now"

definition ListDueReportDeliveries :: "time \<Rightarrow> int \<Rightarrow> uuid list rprog" where
  "ListDueReportDeliveries now limit =
     (let limit = (if limit \<le> 0 \<or> limit > 500 then 100 else limit) in
      query_db (\<lambda>db. Inr (map dv_ID (take (nat limit)
        (sort_key due_at (sort_key dv_CreatedAt (filter (delivery_due now) (rt_deliveries db))))))))"

definition ClaimReportDelivery :: "uuid \<Rightarrow> time \<Rightarrow> bool rprog" where
  "ClaimReportDelivery i now = run_tx
     (bind_op (reads (\<lambda>db. Inr (filter (\<lambda>d. dv_ID d = i \<and> delivery_due now d) (rt_deliveries db) \<noteq> [])))
       (\<lambda>hit. bind_op (writes (update_deliveries (\<lambda>d. dv_ID d = i \<and> delivery_due now d)
              (\<lambda>d. d\<lparr>dv_Status := ''sending'', dv_Attempts := dv_Attempts d + 1, dv_UpdatedAt := now\<rparr>)))
         (\<lambda>_. ret hit)))"

definition RecoverStaleReportDeliveries :: "time \<Rightarrow> unit rprog" where
  "RecoverStaleReportDeliveries now = exec_db (update_deliveries (\<lambda>d. dv_Status d = ''sending'' \<and> dv_UpdatedAt d \<le> now - 10 * minute)
     (\<lambda>d. d\<lparr>dv_Status := ''failed'', dv_NextAttemptAt := Some now, dv_ErrorCode := Some ''worker_interrupted'', dv_UpdatedAt := now\<rparr>))"

record PendingReportDelivery =
  pd_DeliveryID :: uuid
  pd_RunID :: uuid
  pd_RecipientID :: uuid
  pd_RecipientUserID :: "uuid option"
  pd_AttemptCount :: int
  pd_Report :: "report_row \<times> ReportRecipient list"

definition GetPendingReportDelivery :: "uuid \<Rightarrow> PendingReportDelivery rprog" where
  "GetPendingReportDelivery i =
     bind_op (query_db (\<lambda>db.
       case find (\<lambda>d. dv_ID d = i) (rt_deliveries db) of
         None \<Rightarrow> Inl ErrReportNotFound
       | Some d \<Rightarrow>
           (case (find (\<lambda>r. rn_ID r = dv_Run d) (rt_runs db),
                  find (\<lambda>r. rc_ID r = dv_Recipient d \<and> rc_Report r = dv_Report d) (rt_recipients db)) of
              (Some _, Some r) \<Rightarrow> Inr (d, r)
            | _ \<Rightarrow> Inl ErrReportNotFound)))
       (\<lambda>(d, r). bind_op (query_db (GetReportDefinition (dv_Report d)))
         (\<lambda>report. ret \<lparr>pd_DeliveryID = dv_ID d, pd_RunID = dv_Run d, pd_RecipientID = rc_ID r, pd_RecipientUserID = rc_User r,
            pd_AttemptCount = dv_Attempts d, pd_Report = report\<rparr>))"

definition MarkReportDeliveryAccepted :: "uuid \<Rightarrow> time \<Rightarrow> unit rprog" where
  "MarkReportDeliveryAccepted i now = exec_db (update_deliveries (\<lambda>d. dv_ID d = i)
     (\<lambda>d. d\<lparr>dv_Status := ''accepted'', dv_NextAttemptAt := None, dv_ErrorCode := None, dv_UpdatedAt := now\<rparr>))"

definition MarkReportDeliverySkipped :: "uuid \<Rightarrow> string \<Rightarrow> time \<Rightarrow> unit rprog" where
  "MarkReportDeliverySkipped i code now = exec_db (update_deliveries (\<lambda>d. dv_ID d = i)
     (\<lambda>d. d\<lparr>dv_Status := ''skipped'', dv_NextAttemptAt := None, dv_ErrorCode := Some code, dv_UpdatedAt := now\<rparr>))"

definition MarkReportDeliveryFailed :: "uuid \<Rightarrow> int \<Rightarrow> string \<Rightarrow> time \<Rightarrow> unit rprog" where
  "MarkReportDeliveryFailed i attempt code now =
     (let delays = [5 * minute, 30 * minute, 2 * hour];
          nextAttempt = (if attempt \<ge> 1 \<and> attempt \<le> int (length delays) then Some (now + delays ! nat (attempt - 1)) else None)
      in exec_db (update_deliveries (\<lambda>d. dv_ID d = i)
           (\<lambda>d. d\<lparr>dv_Status := ''failed'', dv_NextAttemptAt := nextAttempt, dv_ErrorCode := Some code, dv_UpdatedAt := now\<rparr>)))"

definition count_status :: "uuid \<Rightarrow> string \<Rightarrow> report_db \<Rightarrow> nat" where
  "count_status run status db = length (filter (\<lambda>d. dv_Run d = run \<and> dv_Status d = status) (rt_deliveries db))"

definition reportRunHasRetryableDelivery :: "uuid \<Rightarrow> report_sys \<Rightarrow> bool \<times> report_sys" where
  "reportRunHasRetryableDelivery run s =
     (case query_db (\<lambda>db. Inr (length (filter (\<lambda>d. dv_Run d = run \<and> dv_Status d = ''failed'' \<and> dv_Attempts d < 4
            \<and> dv_NextAttemptAt d \<noteq> None) (rt_deliveries db)))) s of
        (Inl _, s') \<Rightarrow> (False, s') | (Inr n, s') \<Rightarrow> (n > 0, s'))"

definition set_run :: "uuid \<Rightarrow> time \<Rightarrow> (run_row \<Rightarrow> run_row) \<Rightarrow> report_db \<Rightarrow> report_db" where
  "set_run run now f db = db\<lparr>rt_runs := update_where (\<lambda>r. rn_ID r = run)
     (\<lambda>r. (f r)\<lparr>rn_StartedAt := (case rn_StartedAt r of None \<Rightarrow> Some now | t \<Rightarrow> t)\<rparr>) (rt_runs db)\<rparr>"

definition final_status :: "nat \<Rightarrow> nat \<Rightarrow> nat \<Rightarrow> string \<times> string option" where
  "final_status accepted failed skipped =
     (if accepted > 0 \<and> failed > 0 then (''partial'', Some ''delivery_failed'')
      else if failed > 0 then (''failed'', Some ''delivery_failed'')
      else if accepted = 0 \<and> skipped > 0 then (''skipped'', Some ''no_eligible_recipients'')
      else (''completed'', None))"

definition FinalizeReportRun :: "uuid \<Rightarrow> time \<Rightarrow> unit rprog" where
  "FinalizeReportRun run now =
     bind_op (query_db (\<lambda>db. Inr (count_status run ''queued'' db, count_status run ''sending'' db, count_status run ''accepted'' db,
              count_status run ''failed'' db, count_status run ''skipped'' db)))
       (\<lambda>(queued, sending, accepted, failed, skipped) s.
          let (retryable, s) = (if \<not> (queued > 0 \<or> sending > 0) \<and> failed > 0 then reportRunHasRetryableDelivery run s else (False, s))
          in if queued > 0 \<or> sending > 0 \<or> (failed > 0 \<and> retryable)
             then exec_db (set_run run now (\<lambda>r. r\<lparr>rn_Status := ''running''\<rparr>)) s
             else case final_status accepted failed skipped of (status, code) \<Rightarrow>
               exec_db (set_run run now (\<lambda>r. r\<lparr>rn_Status := status, rn_ErrorCode := code, rn_CompletedAt := Some now\<rparr>)) s)"

definition RetryReportRun :: "uuid \<Rightarrow> time \<Rightarrow> unit rprog" where
  "RetryReportRun run now = exec_db (update_deliveries (\<lambda>d. dv_Run d = run \<and> dv_Status d = ''failed'')
     (\<lambda>d. d\<lparr>dv_Status := ''queued'', dv_Attempts := 0, dv_NextAttemptAt := Some now, dv_ErrorCode := None, dv_UpdatedAt := now\<rparr>))"

subsection \<open>The worker\<close>

text \<open>The answers of the environment; \<open>None\<close> is an error.\<close>

record send_env =
  sd_external_allowed :: "PendingReportDelivery \<Rightarrow> bool"
  sd_access :: "PendingReportDelivery \<Rightarrow> bool option"
  sd_build :: "PendingReportDelivery \<Rightarrow> bool option"
  sd_smtp_error :: "PendingReportDelivery \<Rightarrow> string option"

text \<open>A call whose error is not looked at.\<close>

definition ignoring :: "'a rprog \<Rightarrow> unit rprog" where
  "ignoring m s = (Inr (), snd (m s))"

definition skip_delivery :: "uuid \<Rightarrow> PendingReportDelivery \<Rightarrow> string \<Rightarrow> time \<Rightarrow> unit rprog" where
  "skip_delivery i d code now =
     bind_op (ignoring (MarkReportDeliverySkipped i code now)) (\<lambda>_. ignoring (FinalizeReportRun (pd_RunID d) now))"

definition send_mail :: "uuid \<Rightarrow> unit rprog" where
  "send_mail i = writes (\<lambda>s. s\<lparr>rs_mails := rs_mails s @ [i]\<rparr>)"

text \<open>The token of the unsubscribe link is stored before the mail goes out.\<close>

definition send_delivery :: "send_env \<Rightarrow> uuid \<Rightarrow> PendingReportDelivery \<Rightarrow> time \<Rightarrow> unit rprog" where
  "send_delivery env i d now s =
     (case exec_db (\<lambda>db. db) s of
        (Inl _, s') \<Rightarrow> skip_delivery i d ''unsubscribe_unavailable'' now s'
      | (Inr _, s') \<Rightarrow>
          bind_op (send_mail i) (\<lambda>_. bind_op
            (ignoring (case sd_smtp_error env d of
               Some code \<Rightarrow> MarkReportDeliveryFailed i (pd_AttemptCount d) code now
             | None \<Rightarrow> MarkReportDeliveryAccepted i now))
            (\<lambda>_. ignoring (FinalizeReportRun (pd_RunID d) now))) s')"

definition processNamedDelivery :: "send_env \<Rightarrow> uuid \<Rightarrow> time \<Rightarrow> unit rprog" where
  "processNamedDelivery env i now s =
     (case GetPendingReportDelivery i s of
        (Inl _, s') \<Rightarrow> ignoring (MarkReportDeliverySkipped i ''delivery_state_unavailable'' now) s'
      | (Inr d, s') \<Rightarrow>
          if pd_RecipientUserID d = None \<and> \<not> sd_external_allowed env d then skip_delivery i d ''plan_upgrade_required'' now s'
          else if sd_access env d \<noteq> Some True then skip_delivery i d ''site_access_lost'' now s'
          else (case sd_build env d of
                  None \<Rightarrow> skip_delivery i d ''content_unavailable'' now s'
                | Some shouldSend \<Rightarrow>
                    if \<not> shouldSend then skip_delivery i d ''empty_report_suppressed'' now s'
                    else send_delivery env i d now s'))"

definition claim_and_process :: "send_env \<Rightarrow> time \<Rightarrow> uuid \<Rightarrow> unit rprog" where
  "claim_and_process env now i s =
     (case ClaimReportDelivery i now s of
        (Inr True, s') \<Rightarrow> processNamedDelivery env i now s'
      | (_, s') \<Rightarrow> (Inr (), s'))"

text \<open>One round of the worker; \<open>cancelled\<close> is the number of deliveries after which its context ends.\<close>

definition RunAt :: "(string \<Rightarrow> Location option) \<Rightarrow> send_env \<Rightarrow> (uuid \<Rightarrow> uuid) \<Rightarrow> (uuid \<Rightarrow> uuid \<Rightarrow> uuid) \<Rightarrow> nat \<Rightarrow> time \<Rightarrow> unit rprog" where
  "RunAt load env runID deliveryID cancelled now =
     bind_op (RecoverStaleReportDeliveries now)
       (\<lambda>_. bind_op (ClaimDueReportRuns load now runID deliveryID)
         (\<lambda>_. bind_op (ListDueReportDeliveries now 100)
           (\<lambda>ids. bind_op (for_each (claim_and_process env now) (take cancelled ids)) (\<lambda>_. ret ()))))"

end
