(* ===== verification/Report_Invariants.thy ===== *)
theory Report_Invariants
  imports Report_Delivery
begin

text \<open>
  Invariants of the report tables.  The contract of a round of the worker is a locale: what an invariant
  has to survive for the round to keep it.  It is interpreted for the bound on the mails of a delivery,
  for the consent of external recipients, and for what a round may add to the deliveries.
\<close>

subsection \<open>Invariants of the tables and of what the outside world saw\<close>

type_synonym report_inv = "report_db \<Rightarrow> uuid list \<Rightarrow> (uuid \<times> report_terms) list \<Rightarrow> bool"

definition seen :: "report_inv \<Rightarrow> report_sys \<Rightarrow> bool" where
  "seen P s \<longleftrightarrow> P (rs_db s) (rs_mails s) (rs_consents s)"

lemma keeps_run_tx:
  assumes "\<And>ms cs. keeps (\<lambda>db. P db ms cs) m"
  shows "keeps (seen P) (run_tx m)"
proof -
  have "P (snd (committed m db)) ms cs" if "P db ms cs" for db ms cs
    using keepsD [OF prog_keeps_committed [OF assms]] that by blast
  then show ?thesis
    by (auto simp: keeps_def seen_def run_tx_def split: list.split bool.split prod.split) (metis snd_conv)+
qed

lemma keeps_query_db: "keeps (seen P) (query_db f)"
  unfolding query_db_def by (intro keeps_run_tx prog_keeps_reads)

lemma keeps_exec_db: "(\<And>db ms cs. P db ms cs \<Longrightarrow> P (f db) ms cs) \<Longrightarrow> keeps (seen P) (exec_db f)"
  unfolding exec_db_def by (intro keeps_run_tx prog_keeps_writes)

lemma keeps_ignoring: "keeps I m \<Longrightarrow> keeps I (ignoring m)"
  by (simp add: keeps_def ignoring_def)

lemma keeps_guarded: "(\<And>s. I s \<Longrightarrow> c s \<Longrightarrow> I (snd (m s))) \<Longrightarrow> keeps I (bind_op (require e c) (\<lambda>_. m))"
  by (simp add: keeps_def bind_op_def require_def)

lemma keeps_pure: "keeps I (\<lambda>s. (r, s))"
  by (simp add: keeps_def)

lemma keeps_handle:
  "keeps I m \<Longrightarrow> (\<And>e. keeps I (h e)) \<Longrightarrow> (\<And>x. keeps I (k x))
     \<Longrightarrow> keeps I (\<lambda>s. case m s of (Inl e, s') \<Rightarrow> h e s' | (Inr x, s') \<Rightarrow> k x s')"
  by (auto simp: keeps_def split: prod.split sum.split)

lemma keeps_cases:
  "keeps I f \<Longrightarrow> (\<And>y. keeps I (g y)) \<Longrightarrow> keeps I (\<lambda>s. case x of None \<Rightarrow> f s | Some y \<Rightarrow> g y s)"
  "(\<And>e. keeps I (h e)) \<Longrightarrow> (\<And>y. keeps I (k y)) \<Longrightarrow> keeps I (\<lambda>s. case z of Inl e \<Rightarrow> h e s | Inr y \<Rightarrow> k y s)"
  "keeps I f \<Longrightarrow> keeps I f' \<Longrightarrow> keeps I (\<lambda>s. if b then f s else f' s)"
  "(\<And>a c. keeps I (l a c)) \<Longrightarrow> keeps I (\<lambda>s. case q of (a, c) \<Rightarrow> l a c s)"
  subgoal by (cases x; simp)
  subgoal by (cases z; simp)
  subgoal by (cases b; simp)
  subgoal by (cases q; simp)
  done

lemma send_mail_then: "bind_op (send_mail i) k s = k () (s\<lparr>rs_mails := rs_mails s @ [i]\<rparr>)"
  by (simp add: bind_op_def send_mail_def writes_def)

lemma update_deliveries_none: "filter c (rt_deliveries db) = [] \<Longrightarrow> update_deliveries c f db = db"
  by (auto simp: update_deliveries_def update_where_def filter_empty_conv map_idI)

lemmas report_rules = prog_rules keeps_query_db keeps_ignoring prog_keeps_reads

subsection \<open>The contract of a worker round\<close>

text \<open>
  What an invariant has to survive for a round of the worker to keep it.  \<open>Q i\<close> is the state in which
  the delivery \<open>i\<close> has just been claimed and may be mailed once; \<open>A\<close> holds of the reports and recipients
  that the invariant lets a delivery be made for.
\<close>

definition same_delivery :: "delivery_row \<Rightarrow> delivery_row \<Rightarrow> bool" where
  "same_delivery d d' \<longleftrightarrow> dv_ID d = dv_ID d' \<and> dv_Attempts d = dv_Attempts d' \<and> dv_Report d = dv_Report d' \<and> dv_Run d = dv_Run d'
     \<and> dv_Recipient d = dv_Recipient d'"

locale worker_invariant =
  fixes P :: report_inv and Q :: "uuid \<Rightarrow> report_inv" and A :: "uuid \<Rightarrow> uuid \<Rightarrow> bool"
  assumes next_run: "\<And>db ms cs c t. P db ms cs \<Longrightarrow> P (update_reports c (\<lambda>p. p\<lparr>rp_NextRunAt := Some t\<rparr>) db) ms cs"
    and runs: "\<And>db ms cs rs. P db ms cs \<Longrightarrow> P (db\<lparr>rt_runs := rs\<rparr>) ms cs"
    and new: "\<And>db ms cs i now report run recipient. P db ms cs \<Longrightarrow> i \<notin> dv_ID ` set (rt_deliveries db) \<Longrightarrow> i \<notin> set ms
      \<Longrightarrow> A report recipient \<Longrightarrow> P (db\<lparr>rt_deliveries := rt_deliveries db @ [new_delivery now i report run recipient]\<rparr>) ms cs"
    and relabel: "\<And>db ms cs c f. P db ms cs \<Longrightarrow> (\<And>d. same_delivery (f d) d)
      \<Longrightarrow> P (update_deliveries c f db) ms cs"
    and claim: "\<And>db ms cs i now. P db ms cs \<Longrightarrow> filter (\<lambda>d. dv_ID d = i \<and> delivery_due now d) (rt_deliveries db) \<noteq> []
      \<Longrightarrow> Q i (update_deliveries (\<lambda>d. dv_ID d = i \<and> delivery_due now d)
           (\<lambda>d. d\<lparr>dv_Status := ''sending'', dv_Attempts := dv_Attempts d + 1, dv_UpdatedAt := now\<rparr>) db) ms cs"
    and weaken: "\<And>db ms cs i. Q i db ms cs \<Longrightarrow> P db ms cs"
    and receivers: "\<And>db ms cs i p rs r. P db ms cs \<Longrightarrow> GetReportDefinition i db = Inr (p, rs) \<Longrightarrow> r \<in> set rs \<Longrightarrow> receives r
      \<Longrightarrow> A (rp_ID p) (rr_ID r)"
    and mail: "\<And>db ms cs i. Q i db ms cs \<Longrightarrow> P db (ms @ [i]) cs"
begin

lemma round_inserts_run: "keeps (\<lambda>db. P db ms cs) (insert_run r)"
  unfolding insert_run_def by (intro keeps_guarded) (simp add: writes_def runs)

lemma round_inserts_delivery:
  "i \<notin> set ms \<Longrightarrow> A report recipient \<Longrightarrow> keeps (\<lambda>db. P db ms cs) (insert_delivery (new_delivery now i report run recipient))"
  unfolding insert_delivery_def by (intro keeps_guarded) (auto simp: writes_def new_delivery_def intro: new [unfolded new_delivery_def])

lemma keeps_claim_tx:
  assumes "\<And>x. ids x \<notin> set ms" and "\<And>r. r \<in> set recipients \<Longrightarrow> receives r \<Longrightarrow> A (rp_ID report) (rr_ID r)"
  shows "keeps (\<lambda>db. P db ms cs) (claim_tx now report recipients claimed nextRun run ids)"
  unfolding claim_tx_def using assms
  by (auto intro!: prog_rules prog_keeps_reads prog_keeps_writes round_inserts_run round_inserts_delivery next_run)

lemma keeps_already: "keeps (seen P) (reportClaimAlreadyHandled report claimed t)"
  unfolding reportClaimAlreadyHandled_def by (auto intro!: report_rules split: option.split)

lemma keeps_claim_report:
  "keeps (seen (\<lambda>db ms cs. P db ms cs \<and> (\<forall>r x. ids r x \<notin> set ms))) (claim_report load now runID ids reportID)"
proof -
  let ?P = "\<lambda>db ms cs. P db ms cs \<and> (\<forall>r x. ids r x \<notin> set ms)"
  have handled: "keeps (seen ?P) (reportClaimAlreadyHandled report claimed t)" for report claimed t
    unfolding reportClaimAlreadyHandled_def by (auto intro!: report_rules split: option.split)
  have tx: "keeps (seen ?P) (run_tx (claim_tx now report recipients claimed nextRun run (ids reportID)))"
    if "\<forall>r \<in> set recipients. receives r \<longrightarrow> A (rp_ID report) (rr_ID r)" for report recipients claimed nextRun run
  proof (intro keeps_run_tx)
    fix ms cs
    show "keeps (\<lambda>db. P db ms cs \<and> (\<forall>r x. ids r x \<notin> set ms)) (claim_tx now report recipients claimed nextRun run (ids reportID))"
      using keeps_claim_tx [of "ids reportID" ms recipients report cs] that by (auto simp: keeps_def)
  qed
  have false: "keeps (seen ?P) (\<lambda>s. case reportClaimAlreadyHandled i c d s of (Inl x, s') \<Rightarrow> (Inl e, s')
      | (Inr True, s') \<Rightarrow> (Inr None, s') | (Inr False, s') \<Rightarrow> (Inl e, s'))" for i c d e
    using handled [of i c d] by (auto simp: keeps_def split: prod.split sum.split bool.split)
  have claimed: "keeps (seen ?P) (\<lambda>s'. case rp_NextRunAt report of None \<Rightarrow> (Inr None, s')
       | Some claimedNextRun \<Rightarrow>
           if rp_Status report \<noteq> ''active'' \<or> claimedNextRun > now then (Inr None, s')
           else case claim_times load now (rp_Schedule report) claimedNextRun of
             Inl e \<Rightarrow> (Inl (ScheduleFailed e), s')
           | Inr (scheduledFor, nextRun, start, stop) \<Rightarrow>
               (case run_tx (claim_tx now report recipients claimedNextRun nextRun
                        (claim_run now report recipients (runID reportID) scheduledFor (start, stop)) (ids reportID)) s' of
                  (Inr claimed, s2) \<Rightarrow> (Inr (if claimed then Some (runID reportID) else None), s2)
                | (Inl e, s2) \<Rightarrow>
                    (case reportClaimAlreadyHandled (rp_ID report) claimedNextRun scheduledFor s2 of
                       (Inr True, s3) \<Rightarrow> (Inr None, s3)
                     | (_, s3) \<Rightarrow> (Inl e, s3))))"
    if "\<forall>r \<in> set recipients. receives r \<longrightarrow> A (rp_ID report) (rr_ID r)" for report recipients
    using that by (intro keeps_handle keeps_query_db keeps_cases keeps_pure tx false)
  show ?thesis
    unfolding keeps_def
  proof (intro allI impI)
    fix s assume p: "seen ?P s"
    obtain r s' where q: "query_db (GetReportDefinition reportID) s = (r, s')" by (cases "query_db (GetReportDefinition reportID) s")
    have p': "seen ?P s'" using keepsD [OF keeps_query_db p, of "GetReportDefinition reportID"] by (simp add: q)
    show "seen ?P (snd (claim_report load now runID ids reportID s))"
    proof (cases r)
      case (Inl e)
      then show ?thesis using p' by (simp add: claim_report_def q)
    next
      case (Inr pr)
      obtain report recipients where pr: "pr = (report, recipients)" by (cases pr)
      then have "GetReportDefinition reportID (rs_db s) = Inr (report, recipients)"
        using q Inr by (auto simp: query_db_def run_tx_def committed_def reads_def split: list.splits bool.splits sum.splits)
      then have "\<forall>r \<in> set recipients. receives r \<longrightarrow> A (rp_ID report) (rr_ID r)"
        using p receivers by (auto simp: seen_def)
      then show ?thesis
        using keepsD [OF claimed p', of recipients report] by (simp add: claim_report_def q Inr pr)
    qed
  qed
qed

lemma keeps_ClaimDue:
  "keeps (seen (\<lambda>db ms cs. P db ms cs \<and> (\<forall>r x. ids r x \<notin> set ms))) (ClaimDueReportRuns load now runID ids)"
  unfolding ClaimDueReportRuns_def EnsureReportNextRuns_def
  by (intro report_rules keeps_claim_report) (auto intro!: report_rules keeps_exec_db next_run split: sum.split)

lemma keeps_status_changes:
  "keeps (seen P) (RecoverStaleReportDeliveries now)" "keeps (seen P) (MarkReportDeliveryAccepted i now)"
  "keeps (seen P) (MarkReportDeliverySkipped i code now)" "keeps (seen P) (MarkReportDeliveryFailed i attempt code now)"
  unfolding RecoverStaleReportDeliveries_def MarkReportDeliveryAccepted_def MarkReportDeliverySkipped_def MarkReportDeliveryFailed_def Let_def
  by (intro keeps_exec_db relabel; simp add: same_delivery_def)+

lemma keeps_Finalize: "keeps (seen P) (FinalizeReportRun run now)"
proof -
  have retry: "seen P s \<Longrightarrow> seen P (snd (reportRunHasRetryableDelivery run s))" for s
    by (simp add: reportRunHasRetryableDelivery_def split_beta keepsD [OF keeps_query_db] split: sum.split)
  have set: "seen P s \<Longrightarrow> seen P (snd (exec_db (set_run run now f) s))" for f s
    by (rule keepsD [OF keeps_exec_db]) (simp_all add: set_run_def runs)
  show ?thesis
    unfolding FinalizeReportRun_def
    by (intro prog_keeps_bind keeps_query_db) (auto simp: keeps_def Let_def retry set split: prod.split if_splits dest: retry)
qed

lemma keeps_skip: "keeps (seen P) (skip_delivery i d code now)"
  unfolding skip_delivery_def by (intro report_rules keeps_status_changes keeps_Finalize)

lemma keeps_after_mail:
  "keeps (seen P) (bind_op (ignoring (case sd_smtp_error env d of Some code \<Rightarrow> MarkReportDeliveryFailed i (pd_AttemptCount d) code now
       | None \<Rightarrow> MarkReportDeliveryAccepted i now)) (\<lambda>_. ignoring (FinalizeReportRun (pd_RunID d) now)))"
  by (intro report_rules keeps_Finalize) (auto intro: keeps_status_changes split: option.split)

text \<open>From the state after a claim the delivery is mailed at most once.\<close>

lemma Q_query: "seen (Q i) s \<Longrightarrow> seen (Q i) (snd (query_db f s))"
  by (rule keepsD [OF keeps_query_db])

lemma send_delivery_once:
  assumes q: "seen (Q i) s"
  shows "seen P (snd (send_delivery env i d now s))"
proof -
  obtain r s' where e: "exec_db (\<lambda>db. db) s = (r, s')" by (cases "exec_db (\<lambda>db. db) s")
  have "seen (Q i) (snd (exec_db (\<lambda>db. db) s))" by (rule keepsD [OF keeps_exec_db]) (simp_all add: q)
  then have "seen P s'" "seen P (s'\<lparr>rs_mails := rs_mails s' @ [i]\<rparr>)"
    by (auto simp: e seen_def intro: weaken mail)
  then show ?thesis
    by (cases r) (simp_all add: send_delivery_def e keepsD [OF keeps_skip] send_mail_then keepsD [OF keeps_after_mail])
qed

lemma claim_gives_credit:
  assumes "seen P s" and "ClaimReportDelivery i now s = (Inr True, s')"
  shows "seen (Q i) s'"
proof -
  have "filter (\<lambda>d. dv_ID d = i \<and> delivery_due now d) (rt_deliveries (rs_db s)) \<noteq> []"
    and "rs_db s' = update_deliveries (\<lambda>d. dv_ID d = i \<and> delivery_due now d)
      (\<lambda>d. d\<lparr>dv_Status := ''sending'', dv_Attempts := dv_Attempts d + 1, dv_UpdatedAt := now\<rparr>) (rs_db s)"
    and "rs_mails s' = rs_mails s" "rs_consents s' = rs_consents s"
    using assms(2) by (auto simp: ClaimReportDelivery_def run_tx_def committed_def bind_op_def reads_def writes_def ret_def
        split: list.splits bool.splits)
  then show ?thesis
    using claim [of "rs_db s" "rs_mails s" "rs_consents s" i now] assms(1) by (simp add: seen_def)
qed

lemma claim_missed:
  assumes "seen P s" and "ClaimReportDelivery i now s = (r, s')" and "r \<noteq> Inr True"
  shows "seen P s'"
proof (cases "filter (\<lambda>d. dv_ID d = i \<and> delivery_due now d) (rt_deliveries (rs_db s)) = []")
  case True
  with assms show ?thesis
    by (auto simp: ClaimReportDelivery_def run_tx_def committed_def bind_op_def reads_def writes_def ret_def seen_def
        update_deliveries_none split: list.splits bool.splits)
next
  case False
  with assms show ?thesis
    by (auto simp: ClaimReportDelivery_def run_tx_def committed_def bind_op_def reads_def writes_def ret_def seen_def
        split: list.splits bool.splits)
qed

lemma keeps_processNamed:
  assumes "seen (Q i) s"
  shows "seen P (snd (processNamedDelivery env i now s))"
proof -
  have "keeps (seen (Q i)) (GetPendingReportDelivery i)"
    unfolding GetPendingReportDelivery_def by (auto intro!: report_rules)
  then have q: "seen (Q i) (snd (GetPendingReportDelivery i s))" using assms by (rule keepsD)
  then have p: "seen P (snd (GetPendingReportDelivery i s))" by (auto simp: seen_def intro: weaken)
  show ?thesis
    using q p by (auto simp: processNamedDelivery_def keepsD [OF keeps_skip] send_delivery_once keepsD [OF keeps_ignoring [OF keeps_status_changes(3)]]
        split: prod.split sum.split option.split)
qed

lemma keeps_claim_and_process: "keeps (seen P) (claim_and_process env now i)"
  unfolding keeps_def
proof (intro allI impI)
  fix s assume p: "seen P s"
  obtain r s' where c: "ClaimReportDelivery i now s = (r, s')" by (cases "ClaimReportDelivery i now s")
  show "seen P (snd (claim_and_process env now i s))"
  proof (cases "r = Inr True")
    case True
    then show ?thesis
      using keeps_processNamed [OF claim_gives_credit [OF p c [unfolded True]]] by (simp add: claim_and_process_def c)
  next
    case False
    then show ?thesis
      using claim_missed [OF p c] by (auto simp: claim_and_process_def c split: sum.split bool.split)
  qed
qed

lemma keeps_RunAt:
  assumes p: "seen P s" and fresh: "\<And>r x. ids r x \<notin> set (rs_mails s)"
  shows "seen P (snd (RunAt load env runID ids cancelled now s))"
proof -
  let ?P = "\<lambda>db ms cs. P db ms cs \<and> (\<forall>r x. ids r x \<notin> set ms)"
  have k: "keeps (seen ?P) (RecoverStaleReportDeliveries now)"
    unfolding RecoverStaleReportDeliveries_def by (intro keeps_exec_db) (auto intro!: relabel simp: same_delivery_def)
  have "seen ?P s" using p fresh by (simp add: seen_def)
  then have r: "seen ?P (snd (RecoverStaleReportDeliveries now s))" by (rule keepsD [OF k])
  have rest: "keeps (seen P) (bind_op (ListDueReportDeliveries now 100)
      (\<lambda>ids. bind_op (for_each (claim_and_process env now) (take cancelled ids)) (\<lambda>_. ret ())))"
    unfolding ListDueReportDeliveries_def Let_def by (intro report_rules keeps_claim_and_process)
  have c: "seen P (snd (ClaimDueReportRuns load now runID ids s'))" if "seen ?P s'" for s'
    using keepsD [OF keeps_ClaimDue that] by (simp add: seen_def)
  obtain r1 s1 where e1: "RecoverStaleReportDeliveries now s = (r1, s1)" by (cases "RecoverStaleReportDeliveries now s")
  obtain r2 s2 where e2: "ClaimDueReportRuns load now runID ids s1 = (r2, s2)" by (cases "ClaimDueReportRuns load now runID ids s1")
  have s1: "seen ?P s1" and "seen P s1" using r e1 by (simp_all add: seen_def)
  moreover have "seen P s2" using c [OF s1] e2 by simp
  ultimately show ?thesis
    unfolding RunAt_def bind_op_def [of "RecoverStaleReportDeliveries now"] bind_op_def [of "ClaimDueReportRuns load now runID ids"]
    by (simp add: e1 e2 keepsD [OF rest] split: sum.split)
qed

end

subsection \<open>The bound on mails\<close>

text \<open>
  After \<open>n\<close> manual retries: identifiers of deliveries are distinct, a delivery has been mailed at most
  \<open>4 n\<close> times more than it counts attempts, and never counts more than four.
\<close>

definition budget :: "nat \<Rightarrow> report_inv" where
  "budget n db ms cs \<longleftrightarrow> distinct (map dv_ID (rt_deliveries db)) \<and> (\<forall>i. count_list ms i \<le> 4 * n + 4)
     \<and> (\<forall>d \<in> set (rt_deliveries db). int (count_list ms (dv_ID d)) \<le> int (4 * n) + dv_Attempts d \<and> 0 \<le> dv_Attempts d \<and> dv_Attempts d \<le> 4)"

definition credit :: "nat \<Rightarrow> uuid \<Rightarrow> report_inv" where
  "credit n i db ms cs \<longleftrightarrow> budget n db ms cs \<and> count_list ms i < 4 * n + 4
     \<and> (\<forall>d \<in> set (rt_deliveries db). dv_ID d = i \<longrightarrow> int (count_list ms i) < int (4 * n) + dv_Attempts d)"

lemma ids_update_deliveries:
  "(\<And>d. dv_ID (f d) = dv_ID d) \<Longrightarrow> map dv_ID (rt_deliveries (update_deliveries c f db)) = map dv_ID (rt_deliveries db)"
  by (simp add: update_deliveries_def map_update_where)

lemma budget_rows: "rt_deliveries db' = rt_deliveries db \<Longrightarrow> budget n db ms cs \<Longrightarrow> budget n db' ms cs'"
  by (simp add: budget_def)

lemma budget_filter: "budget n db ms cs \<Longrightarrow> budget n (db\<lparr>rt_deliveries := filter c (rt_deliveries db)\<rparr>) ms cs'"
  by (auto simp: budget_def distinct_map_filter)

lemma unused_count: "i \<notin> set ms \<Longrightarrow> count_list ms i = 0"
  by (induction ms) auto

lemma claim_credit:
  assumes b: "budget n db ms cs" and hit: "filter (\<lambda>d. dv_ID d = i \<and> delivery_due now d) (rt_deliveries db) \<noteq> []"
  shows "credit n i (update_deliveries (\<lambda>d. dv_ID d = i \<and> delivery_due now d)
     (\<lambda>d. d\<lparr>dv_Status := ''sending'', dv_Attempts := dv_Attempts d + 1, dv_UpdatedAt := now\<rparr>) db) ms cs"
proof -
  obtain d where d: "d \<in> set (rt_deliveries db)" "dv_ID d = i" "delivery_due now d"
    using hit by (auto simp: filter_empty_conv)
  have only: "q = d" if "q \<in> set (rt_deliveries db)" "dv_ID q = i" for q
    using b d that by (auto simp: budget_def distinct_map dest: inj_onD)
  have bd: "int (count_list ms i) \<le> int (4 * n) + dv_Attempts d" "dv_Attempts d < 4"
    using b d by (auto simp: budget_def delivery_due_def)
  let ?c = "\<lambda>d. dv_ID d = i \<and> delivery_due now d"
  let ?f = "\<lambda>d. d\<lparr>dv_Status := ''sending'', dv_Attempts := dv_Attempts d + 1, dv_UpdatedAt := now\<rparr>"
  have rows: "int (count_list ms (dv_ID q')) \<le> int (4 * n) + dv_Attempts q' \<and> 0 \<le> dv_Attempts q' \<and> dv_Attempts q' \<le> 4
     \<and> (dv_ID q' = i \<longrightarrow> int (count_list ms i) < int (4 * n) + dv_Attempts q')"
    if "q' \<in> set (rt_deliveries (update_deliveries ?c ?f db))" for q'
  proof -
    from that have "q' \<in> set (update_where ?c ?f (rt_deliveries db))" by (simp add: update_deliveries_def)
    then obtain q where q: "q \<in> set (rt_deliveries db)" "q' = (if ?c q then ?f q else q)" by (rule update_whereE)
    have "int (count_list ms (dv_ID q)) \<le> int (4 * n) + dv_Attempts q \<and> 0 \<le> dv_Attempts q \<and> dv_Attempts q \<le> 4"
      using b q(1) by (simp add: budget_def)
    then show ?thesis using q only [of q] d bd by (cases "dv_ID q = i") auto
  qed
  then show ?thesis
    using b bd by (simp add: credit_def budget_def ids_update_deliveries)
qed

interpretation delivery_budget: worker_invariant "budget n" "credit n" "\<lambda>_ _. True" for n
proof
  fix db :: report_db and ms :: "uuid list" and cs i
  assume q: "credit n i db ms cs"
  show "budget n db ms cs" using q by (simp add: credit_def)
  show "budget n db (ms @ [i]) cs" using q by (auto simp: credit_def budget_def)
next
  fix db :: report_db and ms :: "uuid list" and cs i now report run recipient
  assume "budget n db ms cs" "i \<notin> dv_ID ` set (rt_deliveries db)" "i \<notin> set ms"
  then show "budget n (db\<lparr>rt_deliveries := rt_deliveries db @ [new_delivery now i report run recipient]\<rparr>) ms cs"
    by (auto simp: budget_def new_delivery_def unused_count)
next
  fix db :: report_db and ms :: "uuid list" and cs c and f :: "delivery_row \<Rightarrow> delivery_row"
  assume b: "budget n db ms cs" and "\<And>d. same_delivery (f d) d"
  then have f: "dv_ID (f d) = dv_ID d" "dv_Attempts (f d) = dv_Attempts d" for d by (simp_all add: same_delivery_def)
  have "int (count_list ms (dv_ID q')) \<le> int (4 * n) + dv_Attempts q' \<and> 0 \<le> dv_Attempts q' \<and> dv_Attempts q' \<le> 4"
    if "q' \<in> set (rt_deliveries (update_deliveries c f db))" for q'
    using that b f by (auto simp: update_deliveries_def budget_def elim!: update_whereE)
  then show "budget n (update_deliveries c f db) ms cs"
    using b f by (simp add: budget_def ids_update_deliveries)
qed (auto simp: update_reports_def intro: claim_credit budget_rows)

subsection \<open>Consent\<close>

definition covers :: "report_terms \<Rightarrow> report_terms \<Rightarrow> bool" where
  "covers told shown \<longleftrightarrow> fst told = fst shown \<and> fst (snd told) = fst (snd shown) \<and> snd (snd shown) \<subseteq> snd (snd told)"

definition agreed :: "(uuid \<times> report_terms) list \<Rightarrow> uuid \<Rightarrow> report_terms \<Rightarrow> bool" where
  "agreed cs i t \<longleftrightarrow> list_ex (\<lambda>(j, told). j = i \<and> covers told t) cs"

definition confirmed_now :: "report_row \<Rightarrow> recipient_row \<Rightarrow> bool" where
  "confirmed_now p q \<longleftrightarrow> rc_Report q = rp_ID p \<and> rc_User q = None \<and> rc_ConfirmedAt q \<noteq> None \<and> rc_ConsentVersion q = rp_ConsentVersion p"

text \<open>
  An external recipient whose confirmation counts has confirmed the preset and the frequency of the
  report, and sites that include all of its sites.
\<close>

definition recipient_ok :: "report_row list \<Rightarrow> (uuid \<times> report_terms) list \<Rightarrow> recipient_row \<Rightarrow> bool" where
  "recipient_ok ps cs q \<longleftrightarrow> (rc_User q = None \<longrightarrow> rc_Email q \<noteq> None)
     \<and> (\<forall>p \<in> set ps. confirmed_now p q \<longrightarrow> agreed cs (rc_ID q) (terms_of p))"

definition consented :: report_inv where
  "consented db ms cs \<longleftrightarrow> distinct (map rp_ID (rt_reports db)) \<and> (\<forall>p \<in> set (rt_reports db). distinct (rp_Sites p))
     \<and> (\<forall>q \<in> set (rt_recipients db). recipient_ok (rt_reports db) cs q)"

lemma agreed_more: "agreed cs i t \<Longrightarrow> agreed (cs @ cs') i t"
  by (simp add: agreed_def)

lemma agreed_self: "(i, t) \<in> set cs \<Longrightarrow> agreed cs i t"
  by (auto simp: agreed_def covers_def list_ex_iff)

lemma agreed_fewer_sites:
  "agreed cs i (terms_of p) \<Longrightarrow> rp_Preset p' = rp_Preset p \<Longrightarrow> rs_Frequency (rp_Schedule p') = rs_Frequency (rp_Schedule p)
     \<Longrightarrow> set (rp_Sites p') \<subseteq> set (rp_Sites p) \<Longrightarrow> agreed cs i (terms_of p')"
  by (auto simp: agreed_def covers_def terms_of_def list_ex_iff)

lemma consented_deliveries: "rt_reports db' = rt_reports db \<Longrightarrow> rt_recipients db' = rt_recipients db \<Longrightarrow> consented db ms cs \<Longrightarrow> consented db' ms' cs"
  by (simp add: consented_def)

lemma consented_filter:
  "consented db ms cs \<Longrightarrow> consented (db\<lparr>rt_reports := filter c (rt_reports db), rt_recipients := filter d (rt_recipients db)\<rparr>) ms cs"
  by (auto simp: consented_def distinct_map_filter recipient_ok_def)

text \<open>Recipients may lose a confirmation.\<close>

definition weaker_recipient :: "recipient_row \<Rightarrow> recipient_row \<Rightarrow> bool" where
  "weaker_recipient q' q \<longleftrightarrow> rc_User q' = rc_User q \<and> rc_Email q' = rc_Email q \<and> (rc_ConfirmedAt q' = None
     \<or> (rc_ID q' = rc_ID q \<and> rc_Report q' = rc_Report q \<and> rc_ConsentVersion q' = rc_ConsentVersion q \<and> rc_ConfirmedAt q' = rc_ConfirmedAt q))"

lemma weaker_recipient_refl: "weaker_recipient q q"
  by (simp add: weaker_recipient_def)

lemma weaker_recipient_ok: "weaker_recipient q' q \<Longrightarrow> recipient_ok ps cs q \<Longrightarrow> recipient_ok ps cs q'"
  by (auto simp: weaker_recipient_def recipient_ok_def confirmed_now_def)

lemma unconfirmed_recipient_ok: "rc_ConfirmedAt q = None \<Longrightarrow> (rc_User q = None \<Longrightarrow> rc_Email q \<noteq> None) \<Longrightarrow> recipient_ok ps cs q"
  by (simp add: recipient_ok_def confirmed_now_def)

lemma consented_recipients:
  "consented db ms cs \<Longrightarrow> (\<And>q. q \<in> set rows \<Longrightarrow> recipient_ok (rt_reports db) cs q) \<Longrightarrow> consented (db\<lparr>rt_recipients := rows\<rparr>) ms cs"
  by (simp add: consented_def)

lemma consented_update_recipients:
  assumes "consented db ms cs" and "\<And>q. c q \<Longrightarrow> weaker_recipient (f q) q"
  shows "consented (update_recipients c f db) ms cs"
  unfolding update_recipients_def
proof (rule consented_recipients [OF assms(1)])
  fix q' assume "q' \<in> set (update_where c f (rt_recipients db))"
  then obtain q where q: "q \<in> set (rt_recipients db)" "q' = (if c q then f q else q)" by (rule update_whereE)
  have "recipient_ok (rt_reports db) cs q" using assms(1) q by (simp add: consented_def)
  with weaker_recipient_ok [OF assms(2)] q show "recipient_ok (rt_reports db) cs q'" by auto
qed

text \<open>Reports may change their other columns and lose sites.\<close>

lemma consented_update_reports:
  assumes "consented db ms cs" and "\<And>p. p \<in> set (rt_reports db) \<Longrightarrow> c p \<Longrightarrow> rp_ID (f p) = rp_ID p \<and> rp_ConsentVersion (f p) = rp_ConsentVersion p \<and> rp_Preset (f p) = rp_Preset p
      \<and> rs_Frequency (rp_Schedule (f p)) = rs_Frequency (rp_Schedule p) \<and> set (rp_Sites (f p)) \<subseteq> set (rp_Sites p)
      \<and> (distinct (rp_Sites p) \<longrightarrow> distinct (rp_Sites (f p)))"
  shows "consented (update_reports c f db) ms cs"
proof -
  have sites: "distinct (rp_Sites p')" if "p' \<in> set (update_where c f (rt_reports db))" for p'
    using that assms by (auto simp: consented_def elim!: update_whereE)
  have rows: "recipient_ok (update_where c f (rt_reports db)) cs q" if "q \<in> set (rt_recipients db)" for q
  proof -
    have ok: "recipient_ok (rt_reports db) cs q" using assms(1) that by (simp add: consented_def)
    have "agreed cs (rc_ID q) (terms_of p')" if "p' \<in> set (update_where c f (rt_reports db))" "confirmed_now p' q" for p'
    proof -
      obtain p where p: "p \<in> set (rt_reports db)" "p' = (if c p then f p else p)"
        using \<open>p' \<in> set (update_where c f (rt_reports db))\<close> by (rule update_whereE)
      have "confirmed_now p q" using that(2) p assms(2) [of p] by (auto simp: confirmed_now_def split: if_splits)
      then have "agreed cs (rc_ID q) (terms_of p)" using ok p by (simp add: recipient_ok_def)
      then show ?thesis using p assms(2) [of p] agreed_fewer_sites [of cs "rc_ID q" p "f p"] by auto
    qed
    then show ?thesis using ok by (simp add: recipient_ok_def)
  qed
  have ids: "map rp_ID (update_where c f (rt_reports db)) = map rp_ID (rt_reports db)"
    using assms(2) by (auto simp: update_where_def)
  show ?thesis
    using assms(1) sites rows by (simp add: consented_def update_reports_def ids)
qed

interpretation consent: worker_invariant consented "\<lambda>_. consented" "\<lambda>_ _. True"
proof
  fix db :: report_db and ms :: "uuid list" and cs c t
  assume "consented db ms cs"
  then show "consented (update_reports c (\<lambda>p. p\<lparr>rp_NextRunAt := Some t\<rparr>) db) ms cs"
    by (rule consented_update_reports) simp
qed (simp_all add: consented_def update_deliveries_def)

subsection \<open>What a round adds\<close>

text \<open>A delivery may be made for a recipient of the report who has not left it and, if external, agreed to it.\<close>

definition may_receive :: "report_sys \<Rightarrow> uuid \<Rightarrow> uuid \<Rightarrow> bool" where
  "may_receive s0 report recipient \<longleftrightarrow>
     (\<exists>p \<in> set (rt_reports (rs_db s0)). \<exists>q \<in> set (rt_recipients (rs_db s0)). rp_ID p = report \<and> rc_ID q = recipient \<and> rc_Report q = report
        \<and> rc_OptedOutAt q = None \<and> (rc_User q = None \<longrightarrow> agreed (rs_consents s0) recipient (terms_of p)))"

definition adds_allowed :: "report_sys \<Rightarrow> report_inv" where
  "adds_allowed s0 db ms cs \<longleftrightarrow> consented (rs_db s0) ms cs \<and> cs = rs_consents s0 \<and> rt_recipients db = rt_recipients (rs_db s0)
     \<and> map (\<lambda>p. p\<lparr>rp_NextRunAt := None\<rparr>) (rt_reports db) = map (\<lambda>p. p\<lparr>rp_NextRunAt := None\<rparr>) (rt_reports (rs_db s0))
     \<and> (\<forall>d \<in> set (rt_deliveries db). dv_ID d \<in> dv_ID ` set (rt_deliveries (rs_db s0)) \<or> may_receive s0 (dv_Report d) (dv_Recipient d))"

lemma same_report:
  assumes "map (\<lambda>p. p\<lparr>rp_NextRunAt := None\<rparr>) ps = map (\<lambda>p. p\<lparr>rp_NextRunAt := None\<rparr>) ps'" and "p \<in> set ps"
  obtains p' where "p' \<in> set ps'" and "p'\<lparr>rp_NextRunAt := None\<rparr> = p\<lparr>rp_NextRunAt := None\<rparr>"
proof -
  have "p\<lparr>rp_NextRunAt := None\<rparr> \<in> set (map (\<lambda>p. p\<lparr>rp_NextRunAt := None\<rparr>) ps')"
    using assms by (metis image_eqI list.set_map)
  then show ?thesis using that by auto
qed

lemma same_fields:
  "p'\<lparr>rp_NextRunAt := None\<rparr> = p\<lparr>rp_NextRunAt := None\<rparr>
     \<Longrightarrow> rp_ID p' = rp_ID p \<and> rp_ConsentVersion p' = rp_ConsentVersion p \<and> terms_of p' = terms_of p"
  by (cases p; cases p') (simp add: terms_of_def)

lemma receiver_may_receive:
  assumes a: "adds_allowed s0 db ms cs" and g: "GetReportDefinition i db = Inr (p, rs)" and r: "r \<in> set rs" "receives r"
  shows "may_receive s0 (rp_ID p) (rr_ID r)"
proof -
  have p: "p \<in> set (rt_reports db)" and rs: "rs = loadReportRelations db p"
    using g by (auto simp: GetReportDefinition_def find_Some_iff split: option.splits)
  then obtain q where q: "q \<in> set (rt_recipients db)" "rc_Report q = rp_ID p" "r = recipient_of (rp_ConsentVersion p) q"
    using r by (auto simp: loadReportRelations_def)
  obtain p' where p': "p' \<in> set (rt_reports (rs_db s0))" "p'\<lparr>rp_NextRunAt := None\<rparr> = p\<lparr>rp_NextRunAt := None\<rparr>"
    using a p by (auto simp: adds_allowed_def elim: same_report)
  then have same: "rp_ID p' = rp_ID p" "rp_ConsentVersion p' = rp_ConsentVersion p" "terms_of p' = terms_of p"
    using same_fields [OF p'(2)] by simp_all
  have c: "consented (rs_db s0) ms cs" "cs = rs_consents s0" "rt_recipients db = rt_recipients (rs_db s0)"
    using a unfolding adds_allowed_def by blast+
  have out: "rc_OptedOutAt q = None" "rc_User q = None \<Longrightarrow> confirmed_now p' q" "rr_ID r = rc_ID q"
    using r q same by (auto simp: receives_def recipient_of_def confirmed_now_def split: if_splits)
  have "recipient_ok (rt_reports (rs_db s0)) cs q" using c q by (simp add: consented_def)
  then have "rc_User q = None \<Longrightarrow> agreed (rs_consents s0) (rc_ID q) (terms_of p')" using out p' c by (simp add: recipient_ok_def)
  then show ?thesis
    unfolding may_receive_def using p'(1) q c same out by (intro bexI [of _ p'] bexI [of _ q]) simp_all
qed

interpretation additions: worker_invariant "adds_allowed s0" "\<lambda>_. adds_allowed s0" "may_receive s0" for s0
proof
  fix db :: report_db and ms :: "uuid list" and cs c t
  assume "adds_allowed s0 db ms cs"
  then show "adds_allowed s0 (update_reports c (\<lambda>p. p\<lparr>rp_NextRunAt := Some t\<rparr>) db) ms cs"
    by (auto simp: adds_allowed_def update_reports_def map_update_where)
next
  fix db :: report_db and ms :: "uuid list" and cs i now report run recipient
  assume "adds_allowed s0 db ms cs" "may_receive s0 report recipient"
  then show "adds_allowed s0 (db\<lparr>rt_deliveries := rt_deliveries db @ [new_delivery now i report run recipient]\<rparr>) ms cs"
    by (auto simp: adds_allowed_def new_delivery_def)
next
  fix db :: report_db and ms :: "uuid list" and cs c and f :: "delivery_row \<Rightarrow> delivery_row"
  assume a: "adds_allowed s0 db ms cs" and f: "\<And>d. same_delivery (f d) d"
  show "adds_allowed s0 (update_deliveries c f db) ms cs"
    using a f by (auto simp: adds_allowed_def update_deliveries_def same_delivery_def elim!: update_whereE split: if_splits)
next
  fix db :: report_db and ms :: "uuid list" and cs i now
  assume "adds_allowed s0 db ms cs"
  then show "adds_allowed s0 (update_deliveries (\<lambda>d. dv_ID d = i \<and> delivery_due now d)
     (\<lambda>d. d\<lparr>dv_Status := ''sending'', dv_Attempts := dv_Attempts d + 1, dv_UpdatedAt := now\<rparr>) db) ms cs"
    by (auto simp: adds_allowed_def update_deliveries_def elim!: update_whereE split: if_splits)
qed (auto simp: adds_allowed_def consented_def intro: receiver_may_receive)

end
