(* ===== verification/Report_Promises.thy ===== *)
theory Report_Promises
  imports Report_Invariants
begin

text \<open>
  The runs of the report subsystem: rounds of the worker and the requests that change reports and
  recipients, in any order and with any failing statements, and what they promise.
\<close>

subsection \<open>Requests keep consent\<close>

lemma consented_log: "consented db ms cs \<Longrightarrow> consented db ms' (cs @ cs')"
  by (auto simp: consented_def recipient_ok_def agreed_more)

lemma keeps_upsert: "rc_ConfirmedAt r = None \<Longrightarrow> (rc_User r = None \<Longrightarrow> rc_Email r \<noteq> None) \<Longrightarrow> keeps (\<lambda>db. consented db ms cs) (upsert_recipient r)"
  unfolding upsert_recipient_def
  by (intro prog_keeps_bind prog_keeps_reads)
    (auto intro!: prog_keeps_ret prog_keeps_bind prog_keeps_require prog_keeps_writes consented_recipients
      simp: consented_def unconfirmed_recipient_ok)

lemma keeps_add_recipients: "keeps (\<lambda>db. consented db ms cs) (add_recipients env report req version)"
  unfolding add_recipients_def
  by (intro prog_rules keeps_upsert) (simp_all add: new_recipient_def)

lemma distinct_uniqueUUIDs: "distinct (uniqueUUIDs xs)"
proof -
  have "distinct (foldl (\<lambda>r v. if v \<noteq> uuid_Nil \<and> v \<notin> set r then r @ [v] else r) r xs)" if "distinct r" for r
    using that by (induction xs arbitrary: r) auto
  then show ?thesis by (simp add: uniqueUUIDs_def)
qed

lemma distinct_request_sites: "distinct (cr_SiteIDs (normalizeReportRequest L actor req))"
  by (simp add: normalizeReportRequest_def Let_def distinct_uniqueUUIDs)

lemma seen_run_tx:
  "seen P s \<Longrightarrow> P (snd (m (rs_db s))) (rs_mails s) (rs_consents s) \<Longrightarrow> seen P (snd (run_tx m s))"
  by (auto simp: seen_def run_tx_def committed_def split: list.split bool.split prod.splits sum.splits)

lemma consented_new_report:
  assumes "consented db ms cs" and "rp_ID p \<notin> rp_ID ` set (rt_reports db)" and "distinct (rp_Sites p)"
    and "rp_ID p \<notin> rc_Report ` set (rt_recipients db)"
  shows "consented (db\<lparr>rt_reports := rt_reports db @ [p]\<rparr>) ms cs"
proof -
  have "recipient_ok (rt_reports db @ [p]) cs q" if "q \<in> set (rt_recipients db)" for q
  proof -
    have "rc_Report q \<noteq> rp_ID p" using assms(4) imageI [OF that, of rc_Report] by metis
    then show ?thesis using assms(1) that by (auto simp: consented_def recipient_ok_def confirmed_now_def)
  qed
  then show ?thesis using assms by (auto simp: consented_def)
qed

lemma seen_bind:
  "seen P (snd (m s)) \<Longrightarrow> (\<And>x s'. seen P s' \<Longrightarrow> seen P (snd (k x s'))) \<Longrightarrow> seen P (snd (bind_op m k s))"
  by (auto simp: bind_op_def split: prod.split sum.split)

lemma seen_query: "seen P s \<Longrightarrow> seen P (snd (query_db f s))"
  by (rule keepsD [OF keeps_query_db])

lemma seen_abort: "seen P s \<Longrightarrow> seen P (snd (abort e s))"
  by (simp add: abort_def)

lemma keeps_Create:
  assumes s: "seen consented s" and fresh: "re_report_id env \<notin> rc_Report ` set (rt_recipients (rs_db s))"
  shows "seen consented (snd (CreateReportDefinition L env now actor req s))"
proof -
  let ?req = "normalizeReportRequest L actor req"
  have tx: "seen consented (snd (run_tx (bind_op (require ReportDbError (\<lambda>db. re_report_id env \<notin> rp_ID ` set (rt_reports db)))
      (\<lambda>_. bind_op (writes (\<lambda>db. db\<lparr>rt_reports := rt_reports db @ [p]\<rparr>)) (\<lambda>_. add_recipients env (re_report_id env) ?req 1))) s))"
    if "rp_ID p = re_report_id env" "distinct (rp_Sites p)" for p
  proof (rule seen_run_tx [OF s])
    have c: "consented (rs_db s) (rs_mails s) (rs_consents s)" using s by (simp add: seen_def)
    then show "consented (snd (bind_op (require ReportDbError (\<lambda>db. re_report_id env \<notin> rp_ID ` set (rt_reports db)))
        (\<lambda>_. bind_op (writes (\<lambda>db. db\<lparr>rt_reports := rt_reports db @ [p]\<rparr>)) (\<lambda>_. add_recipients env (re_report_id env) ?req 1)) (rs_db s)))
        (rs_mails s) (rs_consents s)"
      using consented_new_report [OF c, of p] that fresh keepsD [OF keeps_add_recipients]
      by (simp add: bind_op_def require_def writes_def)
  qed
  show ?thesis
  proof (cases "validateReportRequest (re_load env) (re_mail_ok env) ?req")
    case (Some e)
    then show ?thesis using s by (simp add: CreateReportDefinition_def seen_abort)
  next
    case valid: None
    show ?thesis
    proof (cases "next_run env now ?req")
      case (Inl e)
      then show ?thesis using s valid by (simp add: CreateReportDefinition_def seen_abort)
    next
      case (Inr t)
      show ?thesis
      proof (cases "list_all (re_site_ok env) (cr_SiteIDs ?req)")
        case True
        with valid Inr show ?thesis
          by (simp add: CreateReportDefinition_def Let_def split del: if_split) (intro seen_bind seen_query tx; simp add: distinct_request_sites)
      qed (use s valid Inr in \<open>simp add: CreateReportDefinition_def seen_abort\<close>)
    qed
  qed
qed

lemma seen_report:
  "query_db (GetReportDefinition i) s = (Inr (p, rs), s') \<Longrightarrow> GetReportDefinition i (rs_db s) = Inr (p, rs) \<and> rs_db s' = rs_db s"
  by (auto simp: query_db_def run_tx_def committed_def reads_def split: list.splits bool.splits sum.splits)

text \<open>The rows after an update: with the same consent version the terms are the same.\<close>

lemma consented_other_recipients:
  "consented db ms cs \<Longrightarrow> set rows \<subseteq> set (rt_recipients db) \<Longrightarrow> consented (db\<lparr>rt_recipients := rows\<rparr>) ms cs"
  by (auto intro!: consented_recipients simp: consented_def)

lemma same_scope:
  assumes "\<not> reportConsentScopeChanged p req" and "distinct (rp_Sites p)" and "distinct (cr_SiteIDs req)"
  shows "rp_Preset p = cr_Preset req" and "rs_Frequency (rp_Schedule p) = rs_Frequency (cr_Schedule req)"
    and "set (cr_SiteIDs req) = set (rp_Sites p)"
proof -
  have "set (rp_Sites p) \<subseteq> set (cr_SiteIDs req)" "length (rp_Sites p) = length (cr_SiteIDs req)"
    using assms(1) by (auto simp: reportConsentScopeChanged_def list_ex_iff split: if_splits)
  then show "set (cr_SiteIDs req) = set (rp_Sites p)"
    using assms by (metis card_subset_eq distinct_card finite_set)
qed (use assms(1) in \<open>auto simp: reportConsentScopeChanged_def split: if_splits\<close>)

lemma the_report:
  assumes "consented db ms cs" and "GetReportDefinition i db = Inr (current, rs)" and "p \<in> set (rt_reports db)"
    and "rp_ID p = rp_ID current"
  shows "p = current"
proof -
  have "current \<in> set (rt_reports db)" using assms(2) by (auto simp: GetReportDefinition_def find_Some_iff split: option.splits)
  then show ?thesis using assms by (auto simp: consented_def distinct_map dest: inj_onD)
qed

lemma consented_new_version:
  assumes c: "consented db ms cs" and f: "\<And>p. rp_ID (f p) = rp_ID p \<and> distinct (rp_Sites (f p))" and rows: "set rows \<subseteq> set (rt_recipients db)"
    and reset: "\<And>q. rc_ConfirmedAt (g q) = None \<and> rc_User (g q) = rc_User q \<and> rc_Email (g q) = rc_Email q"
  shows "consented (db\<lparr>rt_reports := update_where (\<lambda>p. rp_ID p = i) f (rt_reports db),
     rt_recipients := update_where (\<lambda>q. rc_Report q = i \<and> rc_Email q \<noteq> None) g rows\<rparr>) ms cs"
proof -
  let ?ps = "update_where (\<lambda>p. rp_ID p = i) f (rt_reports db)"
  have "recipient_ok ?ps cs q'" if q': "q' \<in> set (update_where (\<lambda>q. rc_Report q = i \<and> rc_Email q \<noteq> None) g rows)" for q'
  proof -
    obtain q where q: "q \<in> set rows" "q' = (if rc_Report q = i \<and> rc_Email q \<noteq> None then g q else q)"
      using q' by (rule update_whereE)
    have ok: "recipient_ok (rt_reports db) cs q" using c rows q by (auto simp: consented_def)
    show ?thesis
    proof (cases "rc_Report q = i \<and> rc_Email q \<noteq> None")
      case True
      then show ?thesis using q reset [of q] by (intro unconfirmed_recipient_ok) simp_all
    next
      case False
      then have "agreed cs (rc_ID q) (terms_of p)" if "p \<in> set ?ps" "confirmed_now p q" for p
        using that ok f by (auto simp: recipient_ok_def confirmed_now_def elim!: update_whereE split: if_splits)
      moreover have "q' = q" using q(2) False by meson
      ultimately show ?thesis using ok by (simp add: recipient_ok_def)
    qed
  qed
  moreover have "distinct (rp_Sites p')" if "p' \<in> set ?ps" for p'
    using that c f by (auto simp: consented_def elim!: update_whereE)
  ultimately show ?thesis
    using c f by (simp add: consented_def map_update_where)
qed

lemma update_steps:
  "snd (bind_op (writes f) k db) = snd (k () (f db))"
  "bind_op (ret x) k db = k x db"
  by (simp_all add: bind_op_def writes_def ret_def)

lemma consented_update_tx:
  assumes c: "consented db ms cs" and g: "GetReportDefinition i db = Inr (current, rs)" and d: "distinct (cr_SiteIDs req)"
    and v: "version = (if reportConsentScopeChanged current req then v0 + 1 else v0)"
      "v0 = (if rp_ConsentVersion current \<le> 0 then 1 else rp_ConsentVersion current)"
  shows "consented (snd (update_tx L env current rs req version nextRun db)) ms cs"
proof -
  let ?f = "\<lambda>p. p\<lparr>rp_Name := cr_Name req, rp_Preset := cr_Preset req, rp_SiteMode := cr_SiteMode req, rp_Sites := cr_SiteIDs req,
     rp_Schedule := cr_Schedule req, rp_Status := cr_Status req, rp_ConsentVersion := version, rp_NextRunAt := nextRun\<rparr>"
  let ?rows = "filter (\<lambda>q. rc_ID q \<notin> rr_ID ` set (filter (removed_recipient L req) rs)) (rt_recipients db)"
  let ?g = "\<lambda>q. q\<lparr>rc_ConsentVersion := version, rc_TokenHash := None, rc_TokenExpires := None, rc_SentAt := None, rc_ConfirmedAt := None\<rparr>"
  show ?thesis
  proof (cases "version = rp_ConsentVersion current")
    case True
    then have same: "\<not> reportConsentScopeChanged current req" using v by (auto split: if_splits)
    have "consented (update_reports (\<lambda>p. rp_ID p = rp_ID current) ?f db) ms cs"
    proof (rule consented_update_reports [OF c])
      fix p assume p: "p \<in> set (rt_reports db)" "rp_ID p = rp_ID current"
      then have "p = current" by (rule the_report [OF c g])
      moreover have "distinct (rp_Sites current)" using c p \<open>p = current\<close> by (simp add: consented_def)
      ultimately show "rp_ID (?f p) = rp_ID p \<and> rp_ConsentVersion (?f p) = rp_ConsentVersion p \<and> rp_Preset (?f p) = rp_Preset p
          \<and> rs_Frequency (rp_Schedule (?f p)) = rs_Frequency (rp_Schedule p) \<and> set (rp_Sites (?f p)) \<subseteq> set (rp_Sites p)
          \<and> (distinct (rp_Sites p) \<longrightarrow> distinct (rp_Sites (?f p)))"
        using same_scope [OF same _ d] True d by simp
    qed
    then have "consented ((update_reports (\<lambda>p. rp_ID p = rp_ID current) ?f db)\<lparr>rt_recipients := ?rows\<rparr>) ms cs"
      by (rule consented_other_recipients) (auto simp: update_reports_def)
    then show ?thesis
      unfolding update_tx_def using True
      by (simp add: update_steps keepsD [OF keeps_add_recipients] update_reports_def)
  next
    case False
    have "consented (db\<lparr>rt_reports := update_where (\<lambda>p. rp_ID p = rp_ID current) ?f (rt_reports db),
       rt_recipients := update_where (\<lambda>q. rc_Report q = rp_ID current \<and> rc_Email q \<noteq> None) ?g ?rows\<rparr>) ms cs"
      by (rule consented_new_version [OF c]) (use d in auto)
    then show ?thesis
      unfolding update_tx_def using False
      by (simp add: update_steps keepsD [OF keeps_add_recipients] update_reports_def update_recipients_def)
  qed
qed

lemma keeps_Update: "keeps (seen consented) (UpdateReportDefinition L env now actor i patch)"
  unfolding keeps_def
proof (intro allI impI)
  fix s assume s: "seen consented s"
  obtain r s' where q: "query_db (GetReportDefinition i) s = (r, s')" by (cases "query_db (GetReportDefinition i) s")
  have s': "seen consented s'" using seen_query [OF s, of "GetReportDefinition i"] by (simp add: q)
  show "seen consented (snd (UpdateReportDefinition L env now actor i patch s))"
  proof (cases r)
    case (Inl e)
    then show ?thesis using s' by (simp add: UpdateReportDefinition_def bind_op_def q)
  next
    case (Inr pr)
    obtain current rs where pr: "pr = (current, rs)" by (cases pr)
    let ?req = "normalizeReportRequest L actor (patched_request current rs patch)"
    have g: "GetReportDefinition i (rs_db s') = Inr (current, rs)" using seen_report [of i s current rs s'] q Inr pr by simp
    have tx: "seen consented (snd (run_tx (update_tx L env current rs ?req version nextRun) s'))"
      if "version = (if reportConsentScopeChanged current ?req then v0 + 1 else v0)"
        "v0 = (if rp_ConsentVersion current \<le> 0 then 1 else rp_ConsentVersion current)" for version v0 nextRun
      by (rule seen_run_tx [OF s'])
        (use s' in \<open>auto simp: seen_def intro!: consented_update_tx [OF _ g distinct_request_sites that]\<close>)
    have start: "UpdateReportDefinition L env now actor i patch s = (let v0 = (if rp_ConsentVersion current \<le> 0 then 1 else rp_ConsentVersion current);
        version = (if reportConsentScopeChanged current ?req then v0 + 1 else v0) in
        case validateReportRequest (re_load env) (re_mail_ok env) ?req of Some e \<Rightarrow> abort e s'
        | None \<Rightarrow> (case next_run env now ?req of Inl e \<Rightarrow> abort (ScheduleFailed e) s'
          | Inr nextRun \<Rightarrow> if \<not> list_all (re_site_ok env) (cr_SiteIDs ?req) then abort ReportDbError s'
             else bind_op (run_tx (update_tx L env current rs ?req version nextRun)) (\<lambda>_. query_db (GetReportDefinition i)) s'))"
      unfolding UpdateReportDefinition_def bind_op_def [of "query_db (GetReportDefinition i)"] by (simp add: q Inr pr Let_def split: option.split sum.split)
    show ?thesis
      unfolding start Let_def
      by (auto intro!: seen_abort seen_bind seen_query tx s' simp del: if_split split: option.split sum.split)
  qed
qed

lemma keeps_team: "keeps (seen P) confirmation_team"
  unfolding keeps_def confirmation_team_def
  by (auto simp: seen_query dest: seen_query split: prod.split sum.split) (metis snd_conv seen_query)+

lemma keeps_confirmation_lookup: "keeps (seen P) (GetReportRecipientConfirmation hash token now)"
  unfolding GetReportRecipientConfirmation_def
proof (intro prog_keeps_bind keeps_query_db)
  fix x :: "recipient_row \<times> int"
  obtain q version where x: "x = (q, version)" by (cases x)
  have "keeps (seen P) (\<lambda>s. case query_db (GetReportDefinition (rc_Report q)) s of
       (Inl x, s') \<Rightarrow> (Inl ErrReportConfirmationInvalid, s')
     | (Inr (report, xa), s') \<Rightarrow> if rp_Scope report \<noteq> ReportScopeTeam \<or> rp_TenantID report = None
         then (Inl ErrReportConfirmationInvalid, s') else bind_op confirmation_team (\<lambda>_. ret report) s')"
    by (intro keeps_handle keeps_cases keeps_query_db keeps_pure prog_keeps_bind keeps_team prog_keeps_ret)
  then show "keeps (seen P) (case x of (q, version) \<Rightarrow> if \<not> unexpired now q then abort ErrReportConfirmationExpired
      else if rc_ConsentVersion q \<noteq> version then abort ErrReportConfirmationInvalid
      else (\<lambda>s. case query_db (GetReportDefinition (rc_Report q)) s of
         (Inl x, s') \<Rightarrow> (Inl ErrReportConfirmationInvalid, s')
       | (Inr (report, xa), s') \<Rightarrow> if rp_Scope report \<noteq> ReportScopeTeam \<or> rp_TenantID report = None
           then (Inl ErrReportConfirmationInvalid, s') else bind_op confirmation_team (\<lambda>_. ret report) s'))"
    by (simp add: x prog_keeps_abort)
qed

lemma confirmation_appends:
  assumes c: "consented db ms cs"
  shows "consented (update_recipients (confirms h now db)
     (\<lambda>q. q\<lparr>rc_ConfirmedAt := Some now, rc_OptedOutAt := None, rc_TokenHash := None, rc_TokenExpires := None\<rparr>) db) ms
     (cs @ confirmed_terms h now db)"
  unfolding update_recipients_def
proof (rule consented_recipients)
  show "consented db ms (cs @ confirmed_terms h now db)" using c by (rule consented_log)
  fix q' assume "q' \<in> set (update_where (confirms h now db)
     (\<lambda>q. q\<lparr>rc_ConfirmedAt := Some now, rc_OptedOutAt := None, rc_TokenHash := None, rc_TokenExpires := None\<rparr>) (rt_recipients db))"
  then obtain q where q: "q \<in> set (rt_recipients db)" "q' = (if confirms h now db q then
      q\<lparr>rc_ConfirmedAt := Some now, rc_OptedOutAt := None, rc_TokenHash := None, rc_TokenExpires := None\<rparr> else q)"
    by (rule update_whereE)
  have ok: "recipient_ok (rt_reports db) cs q" using c q by (simp add: consented_def)
  have "agreed (cs @ confirmed_terms h now db) (rc_ID q) (terms_of p)"
    if "confirms h now db q" "p \<in> set (rt_reports db)" "rc_Report q = rp_ID p" for p
  proof (rule agreed_self)
    have "find (\<lambda>p. rp_ID p = rc_Report q) (rt_reports db) = Some p"
      using find_distinct [of rp_ID "rt_reports db" p] c that by (simp add: consented_def)
    then have "(rc_ID q, terms_of p) \<in> set (confirmed_terms h now db)"
      using that q by (force simp: confirmed_terms_def map_filter_def)
    then show "(rc_ID q, terms_of p) \<in> set (cs @ confirmed_terms h now db)" by simp
  qed
  then show "recipient_ok (rt_reports db) (cs @ confirmed_terms h now db) q'"
    using ok q by (auto simp: recipient_ok_def confirmed_now_def agreed_more)
qed

lemma keeps_Confirm: "keeps (seen consented) (ConfirmReportRecipient hash token now)"
  unfolding ConfirmReportRecipient_def
proof (intro prog_keeps_bind keeps_confirmation_lookup)
  fix x
  let ?h = "hash token"
  let ?tx = "bind_op (require ErrReportConfirmationInvalid (\<lambda>db. list_ex (confirms ?h now db) (rt_recipients db)))
     (\<lambda>_. writes (\<lambda>db. update_recipients (confirms ?h now db)
        (\<lambda>q. q\<lparr>rc_ConfirmedAt := Some now, rc_OptedOutAt := None, rc_TokenHash := None, rc_TokenExpires := None\<rparr>) db))"
  have "seen consented (snd (case run_tx ?tx s of (Inl e, s') \<Rightarrow> (Inl e, s')
      | (Inr _, s') \<Rightarrow> (Inr (), s'\<lparr>rs_consents := rs_consents s' @ confirmed_terms ?h now (rs_db s)\<rparr>)))"
    if "seen consented s" for s
    using that confirmation_appends [of "rs_db s" "rs_mails s" "rs_consents s" ?h now]
    by (auto simp: seen_def run_tx_def committed_def bind_op_def require_def writes_def
        split: list.split bool.split sum.split)
  then show "keeps (seen consented) (\<lambda>s. case run_tx ?tx s of (Inl e, s') \<Rightarrow> (Inl e, s')
      | (Inr _, s') \<Rightarrow> (Inr (), s'\<lparr>rs_consents := rs_consents s' @ confirmed_terms ?h now (rs_db s)\<rparr>))"
    by (simp add: keeps_def)
qed

lemma keeps_weaker: "(\<And>q. c q \<Longrightarrow> weaker_recipient (f q) q) \<Longrightarrow> keeps (\<lambda>db. consented db ms cs) (writes (update_recipients c f))"
  by (intro prog_keeps_writes consented_update_recipients)

lemma keeps_Decline: "keeps (seen consented) (DeclineReportRecipient hash token now)"
  unfolding DeclineReportRecipient_def
  by (intro prog_keeps_bind keeps_confirmation_lookup keeps_run_tx prog_keeps_require keeps_weaker) (simp add: weaker_recipient_def)

lemma keeps_OptOut: "keeps (seen consented) (OptOutReportRecipient owns_token report recipient now)"
  unfolding OptOutReportRecipient_def
  by (intro prog_keeps_bind keeps_run_tx prog_keeps_require keeps_weaker) (simp add: weaker_recipient_def)

lemma keeps_Resubscribe: "keeps (seen consented) (ResubscribeReportRecipient report user)"
  unfolding ResubscribeReportRecipient_def exec_db_def
  by (intro keeps_run_tx keeps_weaker) (simp add: weaker_recipient_def)

lemma keeps_Delete: "keeps (seen consented) (DeleteReportDefinition report)"
  unfolding DeleteReportDefinition_def
  by (intro keeps_exec_db) (auto simp: consented_def distinct_map_filter recipient_ok_def)

lemma keeps_Retry: "keeps (seen consented) (RetryReportRun run now)"
  unfolding RetryReportRun_def by (intro keeps_exec_db) (simp add: consented_def update_deliveries_def)

lemma keeps_Prepare:
  "keeps (seen consented) (PrepareReportRecipientConfirmation hash token reportID recipientID now force)"
  unfolding PrepareReportRecipientConfirmation_def
  by (intro keeps_handle keeps_cases keeps_query_db keeps_pure prog_keeps_bind)
    (auto intro!: prog_keeps_abort prog_keeps_bind keeps_run_tx prog_keeps_require keeps_weaker keeps_team prog_keeps_ret simp: weaker_recipient_def)

subsection \<open>Requests keep the bound on mails\<close>

lemma budget_writes:
  "(\<And>db. rt_deliveries (f db) = rt_deliveries db) \<Longrightarrow> keeps (\<lambda>db. budget n db ms cs) (writes f)"
  by (intro prog_keeps_writes) (auto intro: budget_rows)

lemmas budget_rules = prog_rules prog_keeps_reads prog_keeps_require budget_writes

lemma budget_add_recipients: "keeps (\<lambda>db. budget n db ms cs) (add_recipients env report req version)"
  unfolding add_recipients_def upsert_recipient_def by (intro budget_rules) (auto intro!: budget_rules)

lemma budget_Create: "keeps (seen (budget n)) (CreateReportDefinition L env now actor req)"
proof -
  have "keeps (seen (budget n)) (run_tx (bind_op (require e c) (\<lambda>_. bind_op (writes (\<lambda>db. db\<lparr>rt_reports := rt_reports db @ [p]\<rparr>))
      (\<lambda>_. add_recipients env i r 1))))" for e c p i r
    by (intro keeps_run_tx budget_rules budget_add_recipients) simp
  then show ?thesis
    unfolding CreateReportDefinition_def Let_def
    by (auto intro!: report_rules simp del: if_split split: option.split sum.split)
qed

lemma budget_Update: "keeps (seen (budget n)) (UpdateReportDefinition L env now actor i patch)"
proof -
  have "keeps (seen (budget n)) (run_tx (update_tx L env current rs req version nextRun))" for current rs req version nextRun
    unfolding update_tx_def
    by (intro keeps_run_tx budget_rules budget_add_recipients)
      (auto intro!: budget_rules simp: update_reports_def update_recipients_def)
  then show ?thesis
    unfolding UpdateReportDefinition_def Let_def
    by (intro report_rules) (auto intro!: report_rules simp del: if_split split: option.split sum.split)
qed

lemma keeps_logged:
  assumes "keeps I m" and "\<And>s s'. I s' \<Longrightarrow> I (log s s')"
  shows "keeps I (\<lambda>s. case m s of (Inl e, s') \<Rightarrow> (Inl e, s') | (Inr _, s') \<Rightarrow> (Inr (), log s s'))"
  unfolding keeps_def
proof (intro allI impI)
  fix s assume "I s"
  then have "I (snd (m s))" using assms(1) by (simp add: keeps_def)
  then show "I (snd (case m s of (Inl e, s') \<Rightarrow> (Inl e, s') | (Inr _, s') \<Rightarrow> (Inr (), log s s')))"
    using assms(2) by (cases "m s"; cases "fst (m s)") simp_all
qed

lemma budget_Confirm: "keeps (seen (budget n)) (ConfirmReportRecipient hash token now)"
  unfolding ConfirmReportRecipient_def
proof (intro prog_keeps_bind keeps_confirmation_lookup)
  fix x
  let ?tx = "bind_op (require ErrReportConfirmationInvalid (\<lambda>db. list_ex (confirms (hash token) now db) (rt_recipients db)))
     (\<lambda>_. writes (\<lambda>db. update_recipients (confirms (hash token) now db)
        (\<lambda>q. q\<lparr>rc_ConfirmedAt := Some now, rc_OptedOutAt := None, rc_TokenHash := None, rc_TokenExpires := None\<rparr>) db))"
  have tx: "seen (budget n) (snd (run_tx ?tx s))" if "seen (budget n) s" for s
    by (rule keepsD [OF keeps_run_tx that]) (intro budget_rules, simp add: update_recipients_def)
  have logged: "seen (budget n) (s\<lparr>rs_consents := cs\<rparr>)" if "seen (budget n) s" for s cs
    using that by (simp add: seen_def budget_def)
  show "keeps (seen (budget n)) (\<lambda>s. case run_tx ?tx s of (Inl e, s') \<Rightarrow> (Inl e, s')
      | (Inr _, s') \<Rightarrow> (Inr (), s'\<lparr>rs_consents := rs_consents s' @ confirmed_terms (hash token) now (rs_db s)\<rparr>))"
    by (rule keeps_logged) (use tx logged in \<open>auto simp: keeps_def\<close>)
qed

lemma budget_requests:
  "keeps (seen (budget n)) (DeclineReportRecipient hash token now)"
  "keeps (seen (budget n)) (OptOutReportRecipient owns_token report recipient now)"
  "keeps (seen (budget n)) (ResubscribeReportRecipient report user)"
  unfolding DeclineReportRecipient_def OptOutReportRecipient_def ResubscribeReportRecipient_def exec_db_def
  by (intro prog_keeps_bind keeps_confirmation_lookup keeps_run_tx budget_rules; simp add: update_recipients_def)+

lemma budget_Delete: "keeps (seen (budget n)) (DeleteReportDefinition report)"
  unfolding DeleteReportDefinition_def by (intro keeps_exec_db) (auto simp: budget_def distinct_map_filter)

lemma budget_Prepare:
  "keeps (seen (budget n)) (PrepareReportRecipientConfirmation hash token reportID recipientID now force)"
  unfolding PrepareReportRecipientConfirmation_def
  by (intro keeps_handle keeps_cases keeps_query_db keeps_pure prog_keeps_bind)
    (auto intro!: budget_rules keeps_run_tx keeps_team simp: update_recipients_def)

text \<open>A manual retry gives four more attempts.\<close>

lemma budget_Retry: "seen (budget n) s \<Longrightarrow> seen (budget (n + 1)) (snd (RetryReportRun run now s))"
proof -
  assume s: "seen (budget n) s"
  have more: "budget (n + 1) db ms cs" if "budget n db ms cs" for db ms cs
    using that by (auto simp: budget_def intro: order_trans)
  have retried: "budget (n + 1) (update_deliveries c (\<lambda>d. d\<lparr>dv_Status := st, dv_Attempts := 0, dv_NextAttemptAt := t, dv_ErrorCode := e,
      dv_UpdatedAt := u\<rparr>) db) ms cs" (is "budget _ (update_deliveries c ?f db) _ _") if b: "budget n db ms cs" for db ms cs c st t e u
  proof -
    have "int (count_list ms (dv_ID q')) \<le> int (4 * (n + 1)) + dv_Attempts q' \<and> 0 \<le> dv_Attempts q' \<and> dv_Attempts q' \<le> 4"
      if q': "q' \<in> set (rt_deliveries (update_deliveries c ?f db))" for q'
    proof -
      obtain q where q: "q \<in> set (rt_deliveries db)" "q' = (if c q then ?f q else q)"
        using q' unfolding update_deliveries_def by (auto elim: update_whereE)
      have old: "int (count_list ms (dv_ID q)) \<le> int (4 * n) + dv_Attempts q" "0 \<le> dv_Attempts q" "dv_Attempts q \<le> 4"
        "count_list ms (dv_ID q) \<le> 4 * n + 4" using b q(1) by (simp_all add: budget_def)
      show ?thesis using old by (cases "c q") (simp_all add: q(2))
    qed
    moreover have "count_list ms i \<le> 4 * (n + 1) + 4" for i
    proof -
      have "count_list ms i \<le> 4 * n + 4" using b by (simp add: budget_def)
      then show ?thesis by simp
    qed
    ultimately show ?thesis using b by (simp add: budget_def ids_update_deliveries)
  qed
  show ?thesis
    unfolding RetryReportRun_def
    using s more retried
    by (auto simp: exec_db_def run_tx_def committed_def writes_def seen_def split: list.split bool.split)
qed

subsection \<open>Runs\<close>

text \<open>
  A step is a round of the worker, a request, the deletion of a site that a report names, or a change
  of what the next statements on the database answer.  The number counts the manual retries of a run.
  Identifiers that are drawn have not been used.
\<close>

definition delete_site :: "uuid \<Rightarrow> report_sys \<Rightarrow> report_sys" where
  "delete_site site s = s\<lparr>rs_db := update_reports (\<lambda>_. True) (\<lambda>p. p\<lparr>rp_Sites := removeAll site (rp_Sites p)\<rparr>) (rs_db s)\<rparr>"

inductive report_step :: "('a, 'p) golib \<Rightarrow> nat \<Rightarrow> report_sys \<Rightarrow> report_sys \<Rightarrow> bool" for L where
  round: "(\<forall>r x. ids r x \<notin> set (rs_mails s)) \<Longrightarrow> report_step L 0 s (snd (RunAt load env runID ids cancelled now s))"
| create: "re_report_id env \<notin> rc_Report ` set (rt_recipients (rs_db s))
    \<Longrightarrow> report_step L 0 s (snd (CreateReportDefinition L env now actor req s))"
| update: "report_step L 0 s (snd (UpdateReportDefinition L env now actor i patch s))"
| delete: "report_step L 0 s (snd (DeleteReportDefinition i s))"
| prepare: "report_step L 0 s (snd (PrepareReportRecipientConfirmation hash token i recipient now force s))"
| confirm: "report_step L 0 s (snd (ConfirmReportRecipient hash token now s))"
| decline: "report_step L 0 s (snd (DeclineReportRecipient hash token now s))"
| opt_out: "report_step L 0 s (snd (OptOutReportRecipient owns_token i recipient now s))"
| resubscribe: "report_step L 0 s (snd (ResubscribeReportRecipient i user s))"
| retry: "report_step L 1 s (snd (RetryReportRun run now s))"
| site_deleted: "report_step L 0 s (delete_site site s)"
| faults: "report_step L 0 s (s\<lparr>rs_faults := fs\<rparr>)"

inductive report_run :: "('a, 'p) golib \<Rightarrow> nat \<Rightarrow> report_sys \<Rightarrow> report_sys \<Rightarrow> bool" for L where
  start: "report_run L 0 s s"
| step: "report_run L n s0 s \<Longrightarrow> report_step L k s s' \<Longrightarrow> report_run L (n + k) s0 s'"

lemma seen_faults: "seen P (s\<lparr>rs_faults := fs\<rparr>) = seen P s"
  by (simp add: seen_def)

lemma step_keeps_consented: "report_step L k s s' \<Longrightarrow> seen consented s \<Longrightarrow> seen consented s'"
proof (induction rule: report_step.induct)
  case (round ids s load env runID cancelled now)
  then show ?case by (intro consent.keeps_RunAt) simp_all
next
  case (create env s now actor req)
  then show ?case by (intro keeps_Create)
next
  case (site_deleted s site)
  have "consented (update_reports (\<lambda>_. True) (\<lambda>p. p\<lparr>rp_Sites := removeAll site (rp_Sites p)\<rparr>) (rs_db s)) (rs_mails s) (rs_consents s)"
    by (rule consented_update_reports) (use site_deleted in \<open>auto simp: seen_def distinct_removeAll\<close>)
  then show ?case by (simp add: seen_def delete_site_def)
qed (auto intro: keepsD [OF keeps_Update] keepsD [OF keeps_Delete] keepsD [OF keeps_Prepare] keepsD [OF keeps_Confirm] keepsD [OF keeps_Decline]
   keepsD [OF keeps_OptOut] keepsD [OF keeps_Resubscribe] keepsD [OF keeps_Retry] simp: seen_faults)

lemma step_keeps_budget: "report_step L k s s' \<Longrightarrow> seen (budget n) s \<Longrightarrow> seen (budget (n + k)) s'"
proof (induction rule: report_step.induct)
  case (round ids s load env runID cancelled now)
  then show ?case using delivery_budget.keeps_RunAt by simp
next
  case (retry s run now)
  then show ?case using budget_Retry by simp
next
  case (site_deleted s site)
  then show ?case by (auto simp: seen_def delete_site_def update_reports_def intro: budget_rows)
qed (auto intro: keepsD [OF budget_Create] keepsD [OF budget_Update] keepsD [OF budget_Delete] keepsD [OF budget_Prepare]
   keepsD [OF budget_Confirm] keepsD [OF budget_requests(1)] keepsD [OF budget_requests(2)] keepsD [OF budget_requests(3)] simp: seen_faults)

lemma run_keeps_consented: "report_run L n s0 s \<Longrightarrow> seen consented s0 \<Longrightarrow> seen consented s"
  by (induction rule: report_run.induct) (auto dest: step_keeps_consented)

lemma run_keeps_budget: "report_run L n s0 s \<Longrightarrow> seen (budget m) s0 \<Longrightarrow> seen (budget (m + n)) s"
  by (induction rule: report_run.induct) (auto dest: step_keeps_budget simp: add.assoc)

subsection \<open>Promises\<close>

text \<open>The deliveries at the start: no mail has gone out for them.\<close>

definition unsent :: "report_sys \<Rightarrow> bool" where
  "unsent s \<longleftrightarrow> rs_mails s = [] \<and> distinct (map dv_ID (rt_deliveries (rs_db s)))
     \<and> list_all (\<lambda>d. 0 \<le> dv_Attempts d \<and> dv_Attempts d \<le> 4) (rt_deliveries (rs_db s))"

text \<open>
  C27.  A delivery is handed to the mail server at most four times, and four times more for every
  manual retry, in every run of rounds of the worker and requests and whichever statements fail.
\<close>

theorem mail_budget:
  assumes "report_run L n s0 s" and "unsent s0"
  shows "count_list (rs_mails s) i \<le> 4 * (n + 1)"
proof -
  have "seen (budget 0) s0" using assms(2) by (auto simp: seen_def budget_def unsent_def list_all_iff)
  then have "seen (budget n) s" using run_keeps_budget [OF assms(1)] by fastforce
  then have "count_list (rs_mails s) i \<le> 4 * n + 4" by (simp add: seen_def budget_def)
  then show ?thesis by simp
qed

text \<open>
  C28.  In every run a round of the worker makes a delivery only for a recipient of the report who has
  not opted out; an external recipient has confirmed the preset and the frequency that the report has
  at that moment, and sites that include every site of the report.
\<close>

theorem external_mail_needs_consent:
  assumes "report_run L n s0 s" and "consented (rs_db s0) (rs_mails s0) (rs_consents s0)"
    and "\<forall>r x. ids r x \<notin> set (rs_mails s)"
    and "d \<in> set (rt_deliveries (rs_db (snd (RunAt load env runID ids cancelled now s))))"
    and "dv_ID d \<notin> dv_ID ` set (rt_deliveries (rs_db s))"
  shows "\<exists>p \<in> set (rt_reports (rs_db s)). \<exists>q \<in> set (rt_recipients (rs_db s)).
    rp_ID p = dv_Report d \<and> rc_Report q = dv_Report d \<and> rc_ID q = dv_Recipient d \<and> rc_OptedOutAt q = None
    \<and> (rc_User q = None \<longrightarrow> (\<exists>sites. (rc_ID q, rp_Preset p, rs_Frequency (rp_Schedule p), sites) \<in> set (rs_consents s)
          \<and> set (rp_Sites p) \<subseteq> sites))"
proof -
  have "seen consented s" using run_keeps_consented [OF assms(1)] assms(2) by (simp add: seen_def)
  then have "seen (adds_allowed s) s" by (simp add: seen_def adds_allowed_def)
  then have "seen (adds_allowed s) (snd (RunAt load env runID ids cancelled now s))"
    by (rule additions.keeps_RunAt) (use assms(3) in simp)
  then have "may_receive s (dv_Report d) (dv_Recipient d)"
    using assms(4,5) by (auto simp: seen_def adds_allowed_def)
  then obtain p q where p: "p \<in> set (rt_reports (rs_db s))" "q \<in> set (rt_recipients (rs_db s))" "rp_ID p = dv_Report d"
    "rc_Report q = dv_Report d" "rc_ID q = dv_Recipient d" "rc_OptedOutAt q = None"
    and a: "rc_User q = None \<longrightarrow> agreed (rs_consents s) (rc_ID q) (terms_of p)"
    by (auto simp: may_receive_def)
  have c: "rc_User q = None \<longrightarrow> (\<exists>sites. (rc_ID q, rp_Preset p, rs_Frequency (rp_Schedule p), sites) \<in> set (rs_consents s)
      \<and> set (rp_Sites p) \<subseteq> sites)"
    using a by (force simp: agreed_def covers_def terms_of_def list_ex_iff)
  show ?thesis by (rule bexI [OF bexI [OF _ p(2)] p(1)]) (use p c in simp)
qed

lemma occurrence_is_first:
  assumes "ValidateSchedule load s = None" and "load (rs_Timezone s) = Some (fixed_zone off)" and "NextOccurrence load s t0 = Inr t"
  shows "scheduled s off t" and "scheduled s off u \<Longrightarrow> u < t \<Longrightarrow> u \<le> t0"
  using first_occurrence [OF assms(1,2), of t0] assms(3) by (auto simp: not_less [symmetric])

lemma catch_up_result:
  assumes "ValidateSchedule load s = None" and "load (rs_Timezone s) = Some (fixed_zone off)"
    and "NextOccurrence load s t0 = Inr t" and "t0 \<le> now"
  shows "\<exists>sched nxt. catch_up load s now t0 t = Inr (sched, nxt) \<and> t0 \<le> sched \<and> sched \<le> now \<and> now < nxt
     \<and> NextOccurrence load s sched = Inr nxt \<and> (sched = t0 \<or> scheduled s off sched)"
  using assms
proof (induction load s now t0 t rule: catch_up.induct)
  case (1 load s now t0 t)
  show ?case
  proof (cases "t > now")
    case True
    then show ?thesis using 1(4,5) by (simp add: catch_up.simps)
  next
    case False
    obtain t' where t': "NextOccurrence load s t = Inr t'"
      using ValidateSchedule_parse [OF 1(2)] NextOccurrence_fixed [OF 1(2,3)] by metis
    then obtain sched nxt where "catch_up load s now t t' = Inr (sched, nxt)" "t \<le> sched" "sched \<le> now" "now < nxt"
      "NextOccurrence load s sched = Inr nxt" "sched = t \<or> scheduled s off sched"
      using 1(1) [OF False t' 1(2,3) t'] False by auto
    moreover have "t0 < t" "scheduled s off t" using NextOccurrence_later [OF 1(4)] occurrence_is_first(1) [OF 1(2,3,4)] by auto
    ultimately show ?thesis using False t' by (auto simp: catch_up.simps [of load s now t0 t])
  qed
qed

lemma claim_times_result:
  assumes "ValidateSchedule load s = None" and "load (rs_Timezone s) = Some (fixed_zone off)" and "claimed \<le> now"
  shows "\<exists>sched nxt start stop. claim_times load now s claimed = Inr (sched, nxt, start, stop)
     \<and> claimed \<le> sched \<and> sched \<le> now \<and> (sched = claimed \<or> scheduled s off sched)
     \<and> (\<forall>u. scheduled s off u \<and> u \<le> now \<longrightarrow> u \<le> sched)
     \<and> now < nxt \<and> scheduled s off nxt \<and> NextOccurrence load s sched = Inr nxt"
proof -
  obtain t where t: "NextOccurrence load s claimed = Inr t"
    using ValidateSchedule_parse [OF assms(1)] NextOccurrence_fixed [OF assms(1,2)] by metis
  obtain sched nxt where c: "catch_up load s now claimed t = Inr (sched, nxt)" "claimed \<le> sched" "sched \<le> now" "now < nxt"
    "NextOccurrence load s sched = Inr nxt" "sched = claimed \<or> scheduled s off sched"
    using catch_up_result [OF assms(1,2) t assms(3)] by blast
  have "\<exists>r. PeriodBounds load s sched = Inr r"
    using assms by (simp add: PeriodBounds_def Let_def)
  then obtain start stop p q where "PeriodBounds load s sched = Inr (start, stop, p, q)" by (metis prod_cases4)
  then show ?thesis using t c occurrence_is_first [OF assms(1,2) c(5)] by (simp add: claim_times_def)
qed

text \<open>
  C26.  For a valid schedule in a zone with a fixed offset the claim of a due report always computes its
  times.  The run is for the last occurrence that has come: its time is the claimed one or an occurrence
  after it, and no occurrence up to now is later, so every other occurrence that was missed is skipped.
  The next run is the first occurrence after it and lies in the future.
\<close>

theorem catch_up_ends:
  assumes "ValidateSchedule load s = None" and "load (rs_Timezone s) = Some (fixed_zone off)" and "claimed \<le> now"
  shows "\<exists>sched nxt start stop. claim_times load now s claimed = Inr (sched, nxt, start, stop)
     \<and> claimed \<le> sched \<and> sched \<le> now \<and> (sched = claimed \<or> scheduled s off sched)
     \<and> (\<forall>u. scheduled s off u \<and> u \<le> now \<longrightarrow> u \<le> sched)
     \<and> now < nxt \<and> scheduled s off nxt \<and> NextOccurrence load s sched = Inr nxt"
  using assms by (rule claim_times_result)

theorem catch_up_ends_witness:
  "\<exists>sched nxt start stop. claim_times sample_load 100 sample_schedule 0 = Inr (sched, nxt, start, stop)
     \<and> 0 \<le> sched \<and> sched \<le> 100 \<and> (sched = 0 \<or> scheduled sample_schedule 0 sched)
     \<and> (\<forall>u. scheduled sample_schedule 0 u \<and> u \<le> 100 \<longrightarrow> u \<le> sched)
     \<and> 100 < nxt \<and> scheduled sample_schedule 0 nxt \<and> NextOccurrence sample_load sample_schedule sched = Inr nxt"
  by (rule catch_up_ends [OF sample_schedule_valid(1,2)]) simp

subsection \<open>A sample run\<close>

text \<open>
  A due report of a team with an external recipient who has been sent a token, and a member who left.
  The recipient confirms, and the next round makes and sends the one delivery.
\<close>

definition sample_report :: report_row where
  "sample_report = \<lparr>rp_ID = 1, rp_TenantID = Some 9, rp_Name = ''r'', rp_Scope = ''team'', rp_Preset = ''site_summary'',
     rp_SiteMode = ''selected'', rp_Sites = [7], rp_Schedule = sample_schedule, rp_Status = ''active'', rp_ConsentVersion = 1,
     rp_NextRunAt = Some 0\<rparr>"

definition sample_external :: recipient_row where
  "sample_external = \<lparr>rc_ID = 2, rc_Report = 1, rc_User = None, rc_Email = Some ''a'', rc_ConsentVersion = 1, rc_TokenHash = Some ''h'',
     rc_TokenExpires = Some 100, rc_SentAt = Some 0, rc_ConfirmedAt = None, rc_OptedOutAt = None\<rparr>"

definition sample_member :: recipient_row where
  "sample_member = \<lparr>rc_ID = 3, rc_Report = 1, rc_User = Some 5, rc_Email = None, rc_ConsentVersion = 1, rc_TokenHash = None,
     rc_TokenExpires = None, rc_SentAt = None, rc_ConfirmedAt = None, rc_OptedOutAt = Some 0\<rparr>"

definition sample_reports :: report_sys where
  "sample_reports = \<lparr>rs_db = \<lparr>rt_reports = [sample_report], rt_recipients = [sample_external, sample_member], rt_runs = [],
     rt_deliveries = []\<rparr>, rs_faults = [], rs_mails = [], rs_consents = []\<rparr>"

definition sample_confirmed :: report_sys where
  "sample_confirmed = snd (ConfirmReportRecipient (\<lambda>_. ''h'') ''t'' 0 sample_reports)"

definition sample_send :: send_env where
  "sample_send = \<lparr>sd_external_allowed = \<lambda>_. True, sd_access = \<lambda>_. Some True, sd_build = \<lambda>_. Some True, sd_smtp_error = \<lambda>_. None\<rparr>"

definition sample_round :: "nat \<Rightarrow> report_sys \<Rightarrow> report_sys" where
  "sample_round cancelled s = snd (RunAt sample_load sample_send (\<lambda>_. 10) (\<lambda>_ _. 20) cancelled 0 s)"

lemmas statement_simps = bind_op_def run_tx_def query_db_def exec_db_def committed_def reads_def writes_def require_def ret_def abort_def

lemma sample_confirmed_state:
  "sample_confirmed = sample_reports\<lparr>rs_db := (rs_db sample_reports)\<lparr>rt_recipients :=
       [sample_external\<lparr>rc_ConfirmedAt := Some 0, rc_TokenHash := None, rc_TokenExpires := None\<rparr>, sample_member]\<rparr>,
     rs_consents := [(2, ''site_summary'', ''monthly'', {7})]\<rparr>"
  by (simp add: sample_confirmed_def ConfirmReportRecipient_def GetReportRecipientConfirmation_def statement_simps sample_reports_def
      sample_report_def sample_external_def sample_member_def has_token_def unexpired_def consent_version_def GetReportDefinition_def
      confirmation_team_def confirms_def confirmed_terms_def update_recipients_def update_where_def terms_of_def map_filter_def
      sample_schedule_def ReportScopeTeam_def)

lemma sample_claim_times: "\<exists>nxt start stop. claim_times sample_load 0 sample_schedule 0 = Inr (0, nxt, start, stop) \<and> 0 < nxt"
  using claim_times_result [OF sample_schedule_valid(1,2), of 0 0] by auto

lemma sample_window: "CatchUpWindow (rs_Frequency sample_schedule) = 14 * 24 * hour"
  by (simp add: CatchUpWindow_def frequency_names sample_schedule_def)

lemmas sample_simps = sample_round_def RunAt_def RecoverStaleReportDeliveries_def ClaimDueReportRuns_def EnsureReportNextRuns_def
  statement_simps sample_reports_def sample_report_def sample_external_def sample_member_def GetReportDefinition_def
  loadReportRelations_def recipient_of_def claim_report_def claim_tx_def claim_run_def insert_run_def insert_delivery_def
  new_delivery_def receives_def activeRecipientCount_def update_reports_def update_where_def map_filter_def sample_window
  ListDueReportDeliveries_def due_at_def delivery_due_def claim_and_process_def ClaimReportDelivery_def update_deliveries_def
  processNamedDelivery_def GetPendingReportDelivery_def sample_send_def send_delivery_def send_mail_def ignoring_def
  MarkReportDeliveryAccepted_def FinalizeReportRun_def count_status_def set_run_def final_status_def Let_def

lemma sample_round_state:
  "\<exists>nxt runs. sample_round 1 sample_confirmed = sample_confirmed\<lparr>rs_db := \<lparr>rt_reports = [sample_report\<lparr>rp_NextRunAt := Some nxt\<rparr>],
      rt_recipients = rt_recipients (rs_db sample_confirmed), rt_runs = runs,
      rt_deliveries = [\<lparr>dv_ID = 20, dv_Report = 1, dv_Run = 10, dv_Recipient = 2, dv_Status = ''accepted'', dv_Attempts = 1,
        dv_NextAttemptAt = None, dv_ErrorCode = None, dv_CreatedAt = 0, dv_UpdatedAt = 0\<rparr>]\<rparr>, rs_mails := [20]\<rparr>"
proof -
  obtain nxt start stop where t: "claim_times sample_load 0 sample_schedule 0 = Inr (0, nxt, start, stop)"
    using sample_claim_times by blast
  show ?thesis unfolding sample_confirmed_state by (simp add: sample_simps t)
qed

lemma sample_runs:
  "report_run bare_lib 0 sample_reports sample_confirmed"
  "report_run bare_lib 0 sample_reports (sample_round 1 sample_confirmed)"
  "report_run bare_lib 1 sample_reports (snd (RetryReportRun 10 5 (sample_round 1 sample_confirmed)))"
proof -
  show c: "report_run bare_lib 0 sample_reports sample_confirmed"
    using report_run.step [OF report_run.start report_step.confirm] by (simp add: sample_confirmed_def)
  have "report_step bare_lib 0 sample_confirmed (sample_round 1 sample_confirmed)"
    unfolding sample_round_def by (rule report_step.round) (simp add: sample_confirmed_state sample_reports_def)
  then show r: "report_run bare_lib 0 sample_reports (sample_round 1 sample_confirmed)" using report_run.step [OF c] by simp
  show "report_run bare_lib 1 sample_reports (snd (RetryReportRun 10 5 (sample_round 1 sample_confirmed)))"
    using report_run.step [OF r report_step.retry] by simp
qed

lemma retry_mails: "rs_mails (snd (RetryReportRun run now s)) = rs_mails s"
  by (auto simp: RetryReportRun_def exec_db_def run_tx_def committed_def writes_def split: list.split bool.split)

theorem mail_budget_witness:
  "rs_mails (snd (RetryReportRun 10 5 (sample_round 1 sample_confirmed))) = [20]
   \<and> count_list (rs_mails (snd (RetryReportRun 10 5 (sample_round 1 sample_confirmed)))) 20 \<le> 4 * (1 + 1)"
  using mail_budget [OF sample_runs(3), of 20] sample_round_state
  by (auto simp: unsent_def sample_reports_def retry_mails)

theorem external_mail_needs_consent_witness:
  "\<exists>d \<in> set (rt_deliveries (rs_db (sample_round 1 sample_confirmed))). dv_Recipient d = 2
     \<and> (\<exists>p \<in> set (rt_reports (rs_db sample_confirmed)). \<exists>q \<in> set (rt_recipients (rs_db sample_confirmed)).
          rp_ID p = dv_Report d \<and> rc_ID q = dv_Recipient d \<and> rc_OptedOutAt q = None)"
proof -
  obtain d where d: "d \<in> set (rt_deliveries (rs_db (sample_round 1 sample_confirmed)))" "dv_Recipient d = 2"
    using sample_round_state by auto
  have none: "rt_deliveries (rs_db sample_confirmed) = []" by (simp add: sample_confirmed_state sample_reports_def)
  have ok: "consented (rs_db sample_reports) (rs_mails sample_reports) (rs_consents sample_reports)"
    by (simp add: consented_def recipient_ok_def confirmed_now_def sample_reports_def sample_report_def sample_external_def sample_member_def)
  have "\<forall>r x. (\<lambda>_ _. 20 :: uuid) r x \<notin> set (rs_mails sample_confirmed)" by (simp add: sample_confirmed_state sample_reports_def)
  note p = external_mail_needs_consent [OF sample_runs(1) ok this, of d]
  show ?thesis using p d none unfolding sample_round_def by (intro bexI [of _ d]) fastforce+
qed

text \<open>A recipient who leaves after the delivery was made and before it is sent still gets the mail.\<close>

lemma sent_after_opt_out:
  assumes "s = snd (OptOutReportRecipient (\<lambda>_. True) 1 2 0 (sample_round 0 sample_confirmed))"
  shows "\<exists>q \<in> set (rt_recipients (rs_db s)). rc_ID q = 2 \<and> rc_OptedOutAt q = Some 0"
    and "rs_mails s = []" and "rs_mails (sample_round 1 s) = [20]"
proof -
  obtain nxt start stop where t: "claim_times sample_load 0 sample_schedule 0 = Inr (0, nxt, start, stop)" "0 < nxt"
    using sample_claim_times by blast
  note eval = assms sample_confirmed_state t
  show "\<exists>q \<in> set (rt_recipients (rs_db s)). rc_ID q = 2 \<and> rc_OptedOutAt q = Some 0" and "rs_mails s = []"
    unfolding eval(1,2) by (simp_all add: sample_simps t OptOutReportRecipient_def update_recipients_def)
  show "rs_mails (sample_round 1 s) = [20]"
    unfolding eval(1,2) by (simp add: sample_simps t OptOutReportRecipient_def update_recipients_def)
qed

end
