(* ===== verification/Realtime.thy ===== *)
theory Realtime
  imports Prelude
begin

text \<open>
  The broker of the live dashboards (\<open>realtime/broker.go\<close>): subscriptions with a bounded channel,
  a history per site for clients that come back, and resync events for clients that are too slow.  A
  subscription is a number, as a pointer would be; \<open>sb_received\<close> is what its reader has taken from the
  channel so far.  The lock of the broker makes every operation one step, but the reader may take
  events between the three selects of \<open>enqueue\<close>.
\<close>

definition EventAnalyticsChanged :: string where "EventAnalyticsChanged = ''analytics.changed''"
definition EventAnalyticsResync :: string where "EventAnalyticsResync = ''analytics.resync''"
definition defaultHistoryLimit :: nat where "defaultHistoryLimit = 256"
definition defaultBufferSize :: nat where "defaultBufferSize = 16"

record ChangeEvent =
  ev_ID :: nat
  ev_Name :: string
  ev_SiteID :: uuid
  ev_Kinds :: "string list"
  ev_ChangedAt :: time
  ev_BucketStart :: time
  ev_Counts :: "(string \<times> int) list"

record Subscription =
  sb_site :: uuid
  sb_ch :: "ChangeEvent list"
  sb_closed :: bool
  sb_received :: "ChangeEvent list"

record Broker =
  br_closed :: bool
  br_nextID :: nat
  br_historyLimit :: nat
  br_bufferSize :: nat
  br_history :: "uuid \<Rightarrow> ChangeEvent list"
  br_subscribers :: "uuid \<Rightarrow> nat list"
  br_subs :: "nat \<Rightarrow> Subscription"
  br_count :: nat

definition NewBroker :: Broker where
  "NewBroker = \<lparr>br_closed = False, br_nextID = 0, br_historyLimit = defaultHistoryLimit, br_bufferSize = defaultBufferSize,
     br_history = \<lambda>_. [], br_subscribers = \<lambda>_. [],
     br_subs = \<lambda>_. \<lparr>sb_site = uuid_Nil, sb_ch = [], sb_closed = True, sb_received = []\<rparr>, br_count = 0\<rparr>"

text \<open>\<open>strconv.ParseUint(raw, 10, 64)\<close>.\<close>

definition parseEventID :: "string \<Rightarrow> nat option" where
  "parseEventID raw =
     (if raw = [] then None
      else if list_all is_digit raw \<and> digits_value raw < 2 ^ 64 then Some (digits_value raw) else None)"

definition update_sub :: "nat \<Rightarrow> (Subscription \<Rightarrow> Subscription) \<Rightarrow> Broker \<Rightarrow> Broker" where
  "update_sub i f b = b\<lparr>br_subs := (br_subs b)(i := f (br_subs b i))\<rparr>"

text \<open>\<open>None\<close> for a broker that is closed; the flag asks the client to load everything again.\<close>

definition replay_of :: "Broker \<Rightarrow> uuid \<Rightarrow> string \<Rightarrow> ChangeEvent list \<times> bool" where
  "replay_of b siteID lastEventID =
     (case parseEventID lastEventID of
        None \<Rightarrow> ([], lastEventID \<noteq> [])
      | Some lastID \<Rightarrow>
          (case br_history b siteID of
             [] \<Rightarrow> ([], True)
           | history \<Rightarrow>
               if lastID < ev_ID (hd history) \<or> lastID > ev_ID (last history) then ([], True)
               else (filter (\<lambda>e. ev_ID e > lastID) history, False)))"

definition Subscribe :: "uuid \<Rightarrow> string \<Rightarrow> Broker \<Rightarrow> (nat \<times> ChangeEvent list \<times> bool) option \<times> Broker" where
  "Subscribe siteID lastEventID b =
     (if br_closed b then (None, b)
      else let i = br_count b in
        (Some (i, replay_of b siteID lastEventID),
         b\<lparr>br_subs := (br_subs b)(i := \<lparr>sb_site = siteID, sb_ch = [], sb_closed = False, sb_received = []\<rparr>), br_count := i + 1,
           br_subscribers := (br_subscribers b)(siteID := br_subscribers b siteID @ [i])\<rparr>))"

definition receive :: "nat \<Rightarrow> Subscription \<Rightarrow> Subscription" where
  "receive k s = s\<lparr>sb_ch := drop k (sb_ch s), sb_received := sb_received s @ take k (sb_ch s)\<rparr>"

definition try_send :: "nat \<Rightarrow> ChangeEvent \<Rightarrow> Subscription \<Rightarrow> Subscription" where
  "try_send room e s = (if length (sb_ch s) < room then s\<lparr>sb_ch := sb_ch s @ [e]\<rparr> else s)"

text \<open>A full channel loses its oldest event and gets a resync; the reader takes \<open>k1\<close> and \<open>k2\<close> events in between.\<close>

definition enqueue :: "nat \<Rightarrow> nat \<times> nat \<Rightarrow> ChangeEvent \<Rightarrow> Subscription \<Rightarrow> Subscription" where
  "enqueue room k e s =
     (if length (sb_ch s) < room then s\<lparr>sb_ch := sb_ch s @ [e]\<rparr>
      else let s = receive (fst k) s; s = s\<lparr>sb_ch := drop 1 (sb_ch s)\<rparr>; s = receive (snd k) s
           in try_send room (e\<lparr>ev_Name := EventAnalyticsResync\<rparr>) s)"

definition appendHistory :: "ChangeEvent \<Rightarrow> Broker \<Rightarrow> Broker" where
  "appendHistory event b =
     (let history = br_history b (ev_SiteID event) @ [event];
          history = (if length history > br_historyLimit b then drop (length history - br_historyLimit b) history else history)
      in b\<lparr>br_history := (br_history b)(ev_SiteID event := history)\<rparr>)"

definition with_defaults :: "time \<Rightarrow> ChangeEvent \<Rightarrow> ChangeEvent" where
  "with_defaults now event =
     (let event = (if ev_Name event = [] then event\<lparr>ev_Name := EventAnalyticsChanged\<rparr> else event);
          event = (if IsZero (ev_ChangedAt event) then event\<lparr>ev_ChangedAt := now\<rparr> else event)
      in if IsZero (ev_BucketStart event) then event\<lparr>ev_BucketStart := ev_ChangedAt event - ev_ChangedAt event mod minute\<rparr> else event)"

text \<open>The identifiers are \<open>uint64\<close>; the second result is the event that was sent out.\<close>

definition next_id :: "Broker \<Rightarrow> nat" where
  "next_id b = (br_nextID b + 1) mod 2 ^ 64"

definition Publish :: "time \<Rightarrow> (nat \<Rightarrow> nat \<times> nat) \<Rightarrow> ChangeEvent \<Rightarrow> Broker \<Rightarrow> Broker \<times> ChangeEvent option" where
  "Publish now k event b =
     (if ev_SiteID event = uuid_Nil then (b, None)
      else if br_closed b \<or> br_subscribers b (ev_SiteID event) = [] then (b, None)
      else let nextID = next_id b;
               event = (with_defaults now event)\<lparr>ev_ID := nextID\<rparr>;
               b = appendHistory event (b\<lparr>br_nextID := nextID\<rparr>)
           in (foldl (\<lambda>b' i. update_sub i (enqueue (br_bufferSize b) (k i) event) b') b (br_subscribers b (ev_SiteID event)), Some event))"

definition SubscriberCount :: "uuid \<Rightarrow> Broker \<Rightarrow> nat" where
  "SubscriberCount siteID b = length (br_subscribers b siteID)"

definition close_subscription :: "nat \<Rightarrow> Broker \<Rightarrow> Broker" where
  "close_subscription i b =
     (if sb_closed (br_subs b i) then b
      else let site = sb_site (br_subs b i); subs = removeAll i (br_subscribers b site);
               b = update_sub i (\<lambda>s. s\<lparr>sb_closed := True\<rparr>) b
           in if i \<in> set (br_subscribers b site) \<and> subs = []
              then b\<lparr>br_subscribers := (br_subscribers b)(site := []), br_history := (br_history b)(site := [])\<rparr>
              else b\<lparr>br_subscribers := (br_subscribers b)(site := subs)\<rparr>)"

text \<open>Closing the broker closes the subscriptions of every site that has some, and forgets the site.\<close>

definition close_broker :: "Broker \<Rightarrow> Broker" where
  "close_broker b =
     (if br_closed b then b
      else b\<lparr>br_closed := True,
             br_subs := (\<lambda>i. if i \<in> set (br_subscribers b (sb_site (br_subs b i))) then (br_subs b i)\<lparr>sb_closed := True\<rparr> else br_subs b i),
             br_history := (\<lambda>site. if br_subscribers b site = [] then br_history b site else []),
             br_subscribers := (\<lambda>_. [])\<rparr>)"

end
