(* ===== verification/Realtime_Runs.thy ===== *)
theory Realtime_Runs
  imports Realtime
begin

text \<open>
  Runs of the broker with its clients: subscriptions, publications, reads and closing, in any order.
  The log keeps every publication with the event it became, \<open>None\<close> when nobody listened.
\<close>

subsection \<open>One publication for all subscribers\<close>

lemma fold_update_sub:
  "distinct is \<Longrightarrow> foldl (\<lambda>b i. update_sub i (f i) b) b is =
     b\<lparr>br_subs := (\<lambda>j. if j \<in> set is then f j (br_subs b j) else br_subs b j)\<rparr>"
proof (induction "is" arbitrary: b)
  case (Cons i "is")
  then show ?case by (auto simp: update_sub_def fun_eq_iff)
qed simp

text \<open>What has ever been put into the channel and not been taken back.\<close>

definition stream :: "Subscription \<Rightarrow> ChangeEvent list" where
  "stream s = sb_received s @ sb_ch s"

lemma stream_receive [simp]: "stream (receive k s) = stream s"
  by (simp add: stream_def receive_def)

lemma receive_fields [simp]:
  "sb_site (receive k s) = sb_site s" "sb_closed (receive k s) = sb_closed s" "length (sb_ch (receive k s)) \<le> length (sb_ch s)"
  by (simp_all add: receive_def)

text \<open>Sending appends the event, or a resync with its number after at most one event was dropped.\<close>

definition resync_of :: "ChangeEvent \<Rightarrow> ChangeEvent" where
  "resync_of e = e\<lparr>ev_Name := EventAnalyticsResync\<rparr>"

lemma enqueue_stream:
  assumes "0 < room" and "length (sb_ch s) \<le> room"
  shows "stream (enqueue room k e s) = stream s @ [e]
     \<or> (\<exists>pre d post. (stream s = pre @ d @ post \<and> length d \<le> 1) \<and> stream (enqueue room k e s) = pre @ post @ [resync_of e])"
proof (cases "length (sb_ch s) < room")
  case True
  then show ?thesis by (simp add: enqueue_def stream_def)
next
  case False
  let ?s1 = "receive (fst k) s"
  let ?s2 = "?s1\<lparr>sb_ch := drop 1 (sb_ch ?s1)\<rparr>"
  let ?s3 = "receive (snd k) ?s2"
  have "length (sb_ch ?s2) < room" using assms by (simp add: receive_def)
  then have "length (sb_ch ?s3) < room" using receive_fields(3) [of "snd k" ?s2] by simp
  then have "stream (enqueue room k e s) = stream ?s2 @ [resync_of e]"
    using False stream_receive [of "snd k" ?s2] by (simp add: enqueue_def Let_def try_send_def stream_def resync_of_def)
  moreover have "stream s = sb_received ?s1 @ take 1 (sb_ch ?s1) @ drop 1 (sb_ch ?s1)"
    using stream_receive [of "fst k" s] by (simp add: stream_def)
  moreover have "stream ?s2 = sb_received ?s1 @ drop 1 (sb_ch ?s1)" by (simp add: stream_def)
  ultimately show ?thesis by (metis append.assoc length_take min.cobounded2)
qed

lemma enqueue_fields:
  "sb_site (enqueue room k e s) = sb_site s" "sb_closed (enqueue room k e s) = sb_closed s"
  "0 < room \<Longrightarrow> length (sb_ch s) \<le> room \<Longrightarrow> length (sb_ch (enqueue room k e s)) \<le> room"
proof -
  let ?s1 = "(receive (fst k) s)\<lparr>sb_ch := drop 1 (sb_ch (receive (fst k) s))\<rparr>"
  assume "0 < room" "length (sb_ch s) \<le> room"
  then have "length (sb_ch ?s1) < room" by (simp add: receive_def)
  then have "length (sb_ch (receive (snd k) ?s1)) < room" using receive_fields(3) [of "snd k" ?s1] by simp
  then show "length (sb_ch (enqueue room k e s)) \<le> room" by (auto simp: enqueue_def try_send_def Let_def)
qed (simp_all add: enqueue_def try_send_def Let_def)

text \<open>The broker after an event was sent to all subscribers of its site.\<close>

definition delivered :: "(nat \<Rightarrow> nat \<times> nat) \<Rightarrow> ChangeEvent \<Rightarrow> Broker \<Rightarrow> Broker" where
  "delivered k e b = (appendHistory e (b\<lparr>br_nextID := ev_ID e\<rparr>))\<lparr>br_subs := (\<lambda>j. if j \<in> set (br_subscribers b (ev_SiteID e))
     then enqueue (br_bufferSize b) (k j) e (br_subs b j) else br_subs b j)\<rparr>"

lemma Publish_cases:
  assumes "ev_SiteID event \<noteq> uuid_Nil" and "distinct (br_subscribers b (ev_SiteID event))"
  shows "(br_closed b \<or> br_subscribers b (ev_SiteID event) = []) \<and> Publish now k event b = (b, None)
     \<or> (\<not> br_closed b \<and> br_subscribers b (ev_SiteID event) \<noteq> []
        \<and> (\<exists>e. Publish now k event b = (delivered k e b, Some e) \<and> ev_ID e = next_id b \<and> ev_SiteID e = ev_SiteID event))"
proof (cases "br_closed b \<or> br_subscribers b (ev_SiteID event) = []")
  case False
  let ?e = "(with_defaults now event)\<lparr>ev_ID := next_id b\<rparr>"
  have site: "ev_SiteID ?e = ev_SiteID event" by (simp add: with_defaults_def Let_def)
  have same: "br_subscribers (appendHistory ?e b1) = br_subscribers b1" "br_bufferSize (appendHistory ?e b1) = br_bufferSize b1"
    "br_subs (appendHistory ?e b1) = br_subs b1" for b1
    by (simp_all add: appendHistory_def Let_def)
  have "Publish now k event b = (delivered k ?e b, Some ?e)"
    using assms False unfolding Publish_def Let_def delivered_def
    by (simp only: site same) (simp add: fold_update_sub same cong: if_cong)
  then show ?thesis using False site by (intro disjI2) auto
qed (use assms in \<open>auto simp: Publish_def\<close>)

subsection \<open>Runs\<close>

record rt_sys =
  rt_broker :: Broker
  rt_log :: "(uuid \<times> ChangeEvent option) list"
  rt_since :: "nat \<Rightarrow> nat"

definition rt_start :: rt_sys where
  "rt_start = \<lparr>rt_broker = NewBroker, rt_log = [], rt_since = (\<lambda>_. 0)\<rparr>"

inductive rt_step :: "rt_sys \<Rightarrow> rt_sys \<Rightarrow> bool" where
  subscribe: "rt_step s (s\<lparr>rt_broker := snd (Subscribe site lastID (rt_broker s)),
     rt_since := (rt_since s)(br_count (rt_broker s) := length (rt_log s))\<rparr>)"
| publish: "ev_SiteID event \<noteq> uuid_Nil \<Longrightarrow> Publish now k event (rt_broker s) = (b, r)
     \<Longrightarrow> rt_step s (s\<lparr>rt_broker := b, rt_log := rt_log s @ [(ev_SiteID event, r)]\<rparr>)"
| read: "rt_step s (s\<lparr>rt_broker := update_sub i (receive k) (rt_broker s)\<rparr>)"
| close_sub: "rt_step s (s\<lparr>rt_broker := close_subscription i (rt_broker s)\<rparr>)"
| close_all: "rt_step s (s\<lparr>rt_broker := close_broker (rt_broker s)\<rparr>)"

inductive rt_run :: "nat \<Rightarrow> rt_sys \<Rightarrow> bool" where
  start: "rt_run 0 rt_start"
| step: "rt_run n s \<Longrightarrow> rt_step s s' \<Longrightarrow> rt_run (Suc n) s'"

text \<open>The publications of a site, and the events that were sent out.\<close>

definition published :: "(uuid \<times> ChangeEvent option) list \<Rightarrow> uuid \<Rightarrow> ChangeEvent option list" where
  "published log site = map snd (filter (\<lambda>(s, _). s = site) log)"

definition sent :: "(uuid \<times> ChangeEvent option) list \<Rightarrow> ChangeEvent list" where
  "sent log = List.map_filter snd log"

lemma published_append [simp]: "published (log @ log') site = published log site @ published log' site"
  by (simp add: published_def)

lemma published_one [simp]: "published [(s, r)] site = (if s = site then [r] else [])"
  by (simp add: published_def)

lemma published_Nil [simp]: "published [] site = []"
  by (simp add: published_def)

lemma sent_append [simp]: "sent (log @ log') = sent log @ sent log'"
  by (simp add: sent_def map_filter_def)

lemma sent_one [simp]: "sent [(s, r)] = (case r of None \<Rightarrow> [] | Some e \<Rightarrow> [e])" "sent [] = []"
  by (simp_all add: sent_def map_filter_def split: option.split)

text \<open>The shape of a broker: bounded channels and histories, and tables that agree with each other.\<close>

definition bounded_broker :: "Broker \<Rightarrow> bool" where
  "bounded_broker b \<longleftrightarrow> 0 < br_bufferSize b \<and> 0 < br_historyLimit b
     \<and> (\<forall>site. length (br_history b site) \<le> br_historyLimit b) \<and> (\<forall>i. length (sb_ch (br_subs b i)) \<le> br_bufferSize b)"

definition linked_broker :: "Broker \<Rightarrow> bool" where
  "linked_broker b \<longleftrightarrow> (\<forall>site. distinct (br_subscribers b site))
     \<and> (\<forall>site i. i \<in> set (br_subscribers b site) \<longleftrightarrow> \<not> sb_closed (br_subs b i) \<and> sb_site (br_subs b i) = site)
     \<and> (\<forall>i. sb_closed (br_subs b i) \<or> i < br_count b)
     \<and> (\<forall>site. br_subscribers b site = [] \<longrightarrow> br_history b site = [])
     \<and> (br_closed b \<longrightarrow> (\<forall>site. br_subscribers b site = []))"

definition broker_shape :: "Broker \<Rightarrow> bool" where
  "broker_shape b \<longleftrightarrow> bounded_broker b \<and> linked_broker b"

lemma shape_new: "broker_shape NewBroker"
  by (simp add: broker_shape_def bounded_broker_def linked_broker_def NewBroker_def defaultBufferSize_def defaultHistoryLimit_def)

lemma linkedD:
  assumes "linked_broker b"
  shows "distinct (br_subscribers b site)" and "i \<in> set (br_subscribers b site) \<longleftrightarrow> \<not> sb_closed (br_subs b i) \<and> sb_site (br_subs b i) = site"
    and "sb_closed (br_subs b i) \<or> i < br_count b" and "br_subscribers b site = [] \<Longrightarrow> br_history b site = []"
    and "br_closed b \<Longrightarrow> br_subscribers b site = []"
  using assms unfolding linked_broker_def by blast+

lemma shape_subscribe:
  assumes "broker_shape b"
  shows "broker_shape (snd (Subscribe site lastID b))"
proof -
  have l: "linked_broker b" using assms by (simp add: broker_shape_def)
  have "sb_closed (br_subs b (br_count b))" using linkedD(3) [OF l, of "br_count b"] by simp
  then have "br_count b \<notin> set (br_subscribers b site)" for site using linkedD(2) [OF l] by simp
  then show ?thesis
    using assms linkedD(2,3) [OF l]
    by (cases "br_closed b") (auto simp: broker_shape_def bounded_broker_def linked_broker_def Subscribe_def Let_def less_Suc_eq)
qed

lemma shape_read: "broker_shape b \<Longrightarrow> broker_shape (update_sub i (receive k) b)"
  by (auto simp: broker_shape_def bounded_broker_def linked_broker_def update_sub_def intro: order_trans [OF receive_fields(3)])

lemma shape_close_sub:
  assumes "broker_shape b"
  shows "broker_shape (close_subscription i b)"
proof (cases "sb_closed (br_subs b i)")
  case False
  let ?site = "sb_site (br_subs b i)"
  let ?rest = "removeAll i (br_subscribers b ?site)"
  have l: "linked_broker b" and s: "bounded_broker b" using assms by (simp_all add: broker_shape_def)
  have i: "i \<in> set (br_subscribers b ?site)" using linkedD(2) [OF l] False by simp
  let ?b = "(update_sub i (\<lambda>s. s\<lparr>sb_closed := True\<rparr>) b)\<lparr>br_subscribers := (br_subscribers b)(?site := ?rest),
     br_history := (br_history b)(?site := if ?rest = [] then [] else br_history b ?site)\<rparr>"
  have "close_subscription i b = ?b"
    using False i by (auto simp: close_subscription_def Let_def update_sub_def)
  moreover have "linked_broker ?b"
    using linkedD [OF l] i by (auto simp: linked_broker_def update_sub_def distinct_removeAll)
  moreover have "bounded_broker ?b" using s by (auto simp: bounded_broker_def update_sub_def)
  ultimately show ?thesis by (simp add: broker_shape_def)
qed (use assms in \<open>simp add: close_subscription_def\<close>)

lemma shape_close_all: "broker_shape b \<Longrightarrow> broker_shape (close_broker b)"
proof (cases "br_closed b")
  case False
  moreover assume "broker_shape b"
  ultimately show ?thesis by (auto simp: broker_shape_def bounded_broker_def linked_broker_def close_broker_def)
qed (simp add: close_broker_def)

lemma shape_delivered:
  assumes "broker_shape b" and "br_subscribers b (ev_SiteID e) \<noteq> []"
  shows "broker_shape (delivered k e b)"
proof -
  have l: "linked_broker b" and s: "bounded_broker b" using assms by (simp_all add: broker_shape_def)
  have "linked_broker (delivered k e b)"
    using linkedD [OF l] assms(2) by (auto simp: linked_broker_def delivered_def appendHistory_def Let_def enqueue_fields)
  moreover have "bounded_broker (delivered k e b)"
    using s by (auto simp: bounded_broker_def delivered_def appendHistory_def Let_def enqueue_fields)
  ultimately show ?thesis by (simp add: broker_shape_def)
qed

text \<open>
  What the log and the broker have in common: the numbers of the events grow, and the history of a
  site is the end of its publications.
\<close>

definition logged :: "nat \<Rightarrow> rt_sys \<Rightarrow> bool" where
  "logged n s \<longleftrightarrow> br_nextID (rt_broker s) \<le> n
     \<and> sorted_wrt (<) (map ev_ID (sent (rt_log s))) \<and> (\<forall>e \<in> set (sent (rt_log s)). ev_ID e \<le> br_nextID (rt_broker s))
     \<and> (\<forall>site. \<exists>older. published (rt_log s) site = older @ map Some (br_history (rt_broker s) site))"

lemma published_sent: "Some e \<in> set (published log site) \<Longrightarrow> e \<in> set (sent log)"
  by (force simp: published_def sent_def map_filter_def)

lemma sorted_published:
  "sorted_wrt (<) (map ev_ID (sent log)) \<Longrightarrow> sorted_wrt (<) (map ev_ID (List.map_filter (\<lambda>r. r) (published log site)))"
proof (induction log)
  case (Cons x log)
  obtain s r where x: "x = (s, r)" by (cases x)
  have split: "sent (x # log) = (case r of None \<Rightarrow> [] | Some e \<Rightarrow> [e]) @ sent log"
    "published (x # log) site = (if s = site then [r] else []) @ published log site"
    by (simp_all add: x sent_def published_def map_filter_def split: option.split)
  have "sorted_wrt (<) (map ev_ID (sent log))" using Cons(2) by (auto simp: split sorted_wrt_append)
  then have IH: "sorted_wrt (<) (map ev_ID (List.map_filter (\<lambda>r. r) (published log site)))" by (rule Cons(1))
  have "ev_ID e < ev_ID e'" if "r = Some e" "e' \<in> set (List.map_filter (\<lambda>r. r) (published log site))" for e e'
    using Cons(2) that published_sent [of e' log site] by (auto simp: split map_filter_def)
  then show ?case
    using IH by (auto simp: split map_filter_def comp_def split: option.split)
qed (simp add: published_def map_filter_def)

lemma logged_delivered:
  assumes l: "logged n s" and n: "n + 1 < 2 ^ 64" and e: "ev_ID e = next_id (rt_broker s)"
  shows "logged (Suc n) (s\<lparr>rt_broker := delivered k e (rt_broker s), rt_log := rt_log s @ [(ev_SiteID e, Some e)]\<rparr>)"
proof -
  let ?b = "rt_broker s"
  have id: "ev_ID e = br_nextID ?b + 1" using l n e by (simp add: logged_def next_id_def)
  have new: "br_nextID (delivered k e ?b) = ev_ID e" by (simp add: delivered_def appendHistory_def Let_def)
  have hist: "\<exists>older. published (rt_log s @ [(ev_SiteID e, Some e)]) site = older @ map Some (br_history (delivered k e ?b) site)" for site
  proof -
    obtain older where o: "published (rt_log s) site = older @ map Some (br_history ?b site)" using l by (auto simp: logged_def)
    show ?thesis
    proof (cases "site = ev_SiteID e")
      case True
      let ?h = "br_history ?b site @ [e]"
      define m where "m = (if length ?h > br_historyLimit ?b then length ?h - br_historyLimit ?b else 0)"
      have m: "br_history (delivered k e ?b) site = drop m ?h"
        using True by (simp add: delivered_def appendHistory_def Let_def m_def)
      have "published (rt_log s @ [(ev_SiteID e, Some e)]) site = (older @ map Some (take m ?h)) @ map Some (drop m ?h)"
        using True o by (simp only: published_append published_one if_True append_assoc map_append [symmetric] append_take_drop_id) simp
      then show ?thesis unfolding m by (rule exI)
    next
      case False
      then show ?thesis using o by (auto simp: delivered_def appendHistory_def Let_def)
    qed
  qed
  show ?thesis
    using l id new hist by (auto simp: logged_def sorted_wrt_append less_Suc_eq_le)
qed

lemma logged_same:
  "logged n s \<Longrightarrow> br_nextID b = br_nextID (rt_broker s) \<Longrightarrow> (\<And>site. br_history b site = br_history (rt_broker s) site \<or> br_history b site = [])
     \<Longrightarrow> logged (Suc n) (s\<lparr>rt_broker := b, rt_since := since\<rparr>)"
  unfolding logged_def by (simp add: le_SucI) (metis append_Nil2 list.map(1))

text \<open>
  A listening client: every publication since its subscription was sent out and is in its stream, or a
  resync with at least its number is.
\<close>

definition covered :: "ChangeEvent list \<Rightarrow> ChangeEvent option \<Rightarrow> bool" where
  "covered es r \<longleftrightarrow> (\<exists>e. r = Some e \<and> (e \<in> set es \<or> (\<exists>q \<in> set es. ev_Name q = EventAnalyticsResync \<and> ev_ID e \<le> ev_ID q)))"

definition followed :: "rt_sys \<Rightarrow> nat \<Rightarrow> bool" where
  "followed s i \<longleftrightarrow> (let sub = br_subs (rt_broker s) i in rt_since s i \<le> length (rt_log s)
     \<and> (\<forall>r \<in> set (published (drop (rt_since s i) (rt_log s)) (sb_site sub)). covered (stream sub) r)
     \<and> sorted_wrt (<) (map ev_ID (stream sub)) \<and> (\<forall>e \<in> set (stream sub). ev_ID e \<le> br_nextID (rt_broker s)))"

lemma covered_append: "covered es r \<Longrightarrow> covered (es @ es') r"
  by (auto simp: covered_def)

lemma followed_same:
  "followed s i \<Longrightarrow> stream (br_subs b i) = stream (br_subs (rt_broker s) i) \<Longrightarrow> sb_site (br_subs b i) = sb_site (br_subs (rt_broker s) i)
     \<Longrightarrow> br_nextID b = br_nextID (rt_broker s) \<Longrightarrow> since i = rt_since s i \<Longrightarrow> followed (s\<lparr>rt_broker := b, rt_since := since\<rparr>) i"
  by (simp add: followed_def Let_def)

lemma covered_resync:
  assumes "covered (pre @ d @ post) r" and "\<forall>q \<in> set (pre @ d @ post). ev_ID q \<le> ev_ID e"
  shows "covered (pre @ post @ [resync_of e]) r"
proof -
  obtain x where x: "r = Some x" "x \<in> set (pre @ d @ post) \<or> (\<exists>q \<in> set (pre @ d @ post). ev_Name q = EventAnalyticsResync \<and> ev_ID x \<le> ev_ID q)"
    using assms(1) unfolding covered_def by blast
  then have "ev_ID x \<le> ev_ID (resync_of e)" using assms(2) by (fastforce simp: resync_of_def)
  then show ?thesis using x(1) by (auto simp: covered_def resync_of_def)
qed

lemma followed_delivered:
  assumes f: "followed s i" and l: "logged n s" and n: "n + 1 < 2 ^ 64" and e: "ev_ID e = next_id (rt_broker s)"
    and shape: "broker_shape (rt_broker s)" and o: "\<not> sb_closed (br_subs (rt_broker s) i)"
  shows "followed (s\<lparr>rt_broker := delivered k e (rt_broker s), rt_log := rt_log s @ [(ev_SiteID e, Some e)]\<rparr>) i"
proof -
  let ?b = "rt_broker s"
  let ?sub = "br_subs ?b i"
  let ?sub' = "br_subs (delivered k e ?b) i"
  have id: "ev_ID e = br_nextID ?b + 1" using l n e by (simp add: logged_def next_id_def)
  have new: "br_nextID (delivered k e ?b) = ev_ID e" by (simp add: delivered_def appendHistory_def Let_def)
  have mem: "i \<in> set (br_subscribers ?b site) \<longleftrightarrow> sb_site ?sub = site" for site
    using linkedD(2) [of ?b i site] shape o by (simp add: broker_shape_def)
  have rooms: "0 < br_bufferSize ?b" "length (sb_ch ?sub) \<le> br_bufferSize ?b"
    using shape by (simp_all add: broker_shape_def bounded_broker_def)
  have old: "rt_since s i \<le> length (rt_log s)" "sorted_wrt (<) (map ev_ID (stream ?sub))" "\<forall>q \<in> set (stream ?sub). ev_ID q \<le> br_nextID ?b"
    "\<forall>r \<in> set (published (drop (rt_since s i) (rt_log s)) (sb_site ?sub)). covered (stream ?sub) r"
    using f by (simp_all add: followed_def Let_def)
  show ?thesis
  proof (cases "sb_site ?sub = ev_SiteID e")
    case False
    then have "?sub' = ?sub" using mem by (simp add: delivered_def appendHistory_def Let_def)
    then show ?thesis using old new id False by (auto simp: followed_def le_SucI)
  next
    case True
    then have sub': "?sub' = enqueue (br_bufferSize ?b) (k i) e ?sub" using mem by (simp add: delivered_def appendHistory_def Let_def)
    have stream': "sorted_wrt (<) (map ev_ID (stream ?sub')) \<and> (\<forall>q \<in> set (stream ?sub'). ev_ID q \<le> ev_ID e)
       \<and> covered (stream ?sub') (Some e) \<and> (\<forall>r. covered (stream ?sub) r \<longrightarrow> covered (stream ?sub') r)"
      using enqueue_stream [OF rooms, of "k i" e]
    proof (elim disjE exE conjE)
      assume st: "stream (enqueue (br_bufferSize ?b) (k i) e ?sub) = stream ?sub @ [e]"
      show ?thesis
        unfolding sub' st using old(2,3) id covered_append by (auto simp: sorted_wrt_append less_Suc_eq_le covered_def intro: le_SucI)
    next
      fix pre d post
      assume st: "stream (enqueue (br_bufferSize ?b) (k i) e ?sub) = pre @ post @ [resync_of e]" and s0: "stream ?sub = pre @ d @ post"
      have "covered (pre @ post @ [resync_of e]) r" if "covered (pre @ d @ post) r" for r
        using that old(3) id s0 by (intro covered_resync [of _ d]) (auto intro: le_SucI)
      then show ?thesis
        unfolding sub' st using old(2,3) id s0
        by (auto simp: sorted_wrt_append less_Suc_eq_le covered_def resync_of_def intro: le_SucI)
    qed
    have "sb_site ?sub' = sb_site ?sub" by (simp add: sub' enqueue_fields)
    then show ?thesis using stream' old(1,4) new True by (auto simp: followed_def Let_def)
  qed
qed

definition rt_ok :: "nat \<Rightarrow> rt_sys \<Rightarrow> bool" where
  "rt_ok n s \<longleftrightarrow> broker_shape (rt_broker s) \<and> logged n s \<and> (\<forall>i. \<not> sb_closed (br_subs (rt_broker s) i) \<longrightarrow> followed s i)"

lemma rt_ok_same:
  assumes "rt_ok n s" and "broker_shape b" and "br_nextID b = br_nextID (rt_broker s)"
    and "\<And>site. br_history b site = br_history (rt_broker s) site \<or> br_history b site = []"
    and "\<And>i. \<not> sb_closed (br_subs b i) \<Longrightarrow> \<not> sb_closed (br_subs (rt_broker s) i) \<and> stream (br_subs b i) = stream (br_subs (rt_broker s) i)
        \<and> sb_site (br_subs b i) = sb_site (br_subs (rt_broker s) i)"
  shows "rt_ok (Suc n) (s\<lparr>rt_broker := b\<rparr>)"
  using assms logged_same [of n s b "rt_since s"] followed_same [of s _ b "rt_since s"] by (auto simp: rt_ok_def)

lemma rt_ok_start: "rt_ok 0 rt_start"
  by (simp add: rt_ok_def rt_start_def shape_new logged_def) (simp add: NewBroker_def)

lemma rt_ok_quiet:
  assumes ok: "rt_ok n s" and empty: "br_subscribers (rt_broker s) site = []"
  shows "rt_ok (Suc n) (s\<lparr>rt_log := rt_log s @ [(site, None)]\<rparr>)"
proof -
  have linked: "linked_broker (rt_broker s)" using ok by (simp add: rt_ok_def broker_shape_def)
  have "\<exists>older. published (rt_log s @ [(site, None)]) q = older @ map Some (br_history (rt_broker s) q)" for q
  proof -
    obtain older where "published (rt_log s) q = older @ map Some (br_history (rt_broker s) q)" using ok unfolding rt_ok_def logged_def by blast
    then show ?thesis using linkedD(4) [OF linked empty] by auto
  qed
  then have "logged (Suc n) (s\<lparr>rt_log := rt_log s @ [(site, None)]\<rparr>)" using ok by (simp add: rt_ok_def logged_def le_SucI)
  moreover have "followed (s\<lparr>rt_log := rt_log s @ [(site, None)]\<rparr>) i" if "\<not> sb_closed (br_subs (rt_broker s) i)" for i
  proof -
    have "sb_site (br_subs (rt_broker s) i) \<noteq> site" using linkedD(2) [OF linked, of i site] that empty by auto
    then show ?thesis using ok that by (auto simp: rt_ok_def followed_def Let_def le_SucI)
  qed
  ultimately show ?thesis using ok by (simp add: rt_ok_def)
qed

lemma rt_ok_step:
  assumes "rt_step s s'" and ok: "rt_ok n s" and n: "n + 1 < 2 ^ 64"
  shows "rt_ok (Suc n) s'"
  using assms(1)
proof cases
  case (subscribe site lastID)
  let ?b = "rt_broker s"
  let ?since = "(rt_since s)(br_count ?b := length (rt_log s))"
  have shape: "broker_shape ?b" and l: "logged n s" using ok by (simp_all add: rt_ok_def)
  have new: "followed (s\<lparr>rt_broker := snd (Subscribe site lastID ?b), rt_since := ?since\<rparr>) i"
    if "\<not> sb_closed (br_subs (snd (Subscribe site lastID ?b)) i)" for i
  proof (cases "i = br_count ?b \<and> \<not> br_closed ?b")
    case True
    then show ?thesis by (simp add: followed_def Subscribe_def Let_def stream_def)
  next
    case False
    have "i \<noteq> br_count ?b \<or> sb_closed (br_subs ?b i)" using linkedD(3) [of ?b "br_count ?b"] shape by (auto simp: broker_shape_def)
    then have i: "i \<noteq> br_count ?b" "\<not> sb_closed (br_subs ?b i)" using False that by (auto simp: Subscribe_def Let_def split: if_splits)
    then show ?thesis using ok by (intro followed_same) (simp_all add: rt_ok_def Subscribe_def Let_def)
  qed
  have "logged (Suc n) (s\<lparr>rt_broker := snd (Subscribe site lastID ?b), rt_since := ?since\<rparr>)"
    by (rule logged_same [OF l]) (simp_all add: Subscribe_def Let_def)
  then show ?thesis using new shape_subscribe [OF shape] subscribe by (simp add: rt_ok_def)
next
  case (publish event now k b r)
  let ?b = "rt_broker s"
  have shape: "broker_shape ?b" and l: "logged n s" using ok by (simp_all add: rt_ok_def)
  have linked: "linked_broker ?b" using shape by (simp add: broker_shape_def)
  consider (quiet) "br_closed ?b \<or> br_subscribers ?b (ev_SiteID event) = []" "Publish now k event ?b = (?b, None)"
    | (out) e where "br_subscribers ?b (ev_SiteID event) \<noteq> []" "Publish now k event ?b = (delivered k e ?b, Some e)"
        "ev_ID e = next_id ?b" "ev_SiteID e = ev_SiteID event"
    using Publish_cases [OF publish(2) linkedD(1) [OF linked], of now k] by blast
  then show ?thesis
  proof cases
    case quiet
    have br: "b = ?b" "r = None" using publish(3) quiet(2) by simp_all
    have empty: "br_subscribers ?b (ev_SiteID event) = []" using quiet(1) linkedD(5) [OF linked] by blast
    show ?thesis unfolding publish(1) br using rt_ok_quiet [OF ok empty] by simp
  next
    case (out e)
    have br: "b = delivered k e ?b" "r = Some e" using publish(3) out(2) by simp_all
    have "broker_shape (delivered k e ?b)" using shape_delivered [OF shape, of e k] out by simp
    moreover have "\<not> sb_closed (br_subs ?b i)" if "\<not> sb_closed (br_subs (delivered k e ?b) i)" for i
      using that by (simp add: delivered_def appendHistory_def Let_def enqueue_fields split: if_splits)
    ultimately show ?thesis
      unfolding publish(1) using logged_delivered [OF l n out(3), of k] followed_delivered [OF _ l n out(3) shape, of _ k] ok
      by (simp add: rt_ok_def br out(4) [symmetric])
  qed
next
  case (read i k)
  have "rt_ok (Suc n) (s\<lparr>rt_broker := update_sub i (receive k) (rt_broker s)\<rparr>)"
    using ok by (intro rt_ok_same [OF ok] shape_read) (auto simp: rt_ok_def update_sub_def split: if_splits)
  then show ?thesis unfolding read .
next
  case (close_sub i)
  have "rt_ok (Suc n) (s\<lparr>rt_broker := close_subscription i (rt_broker s)\<rparr>)"
    using ok by (intro rt_ok_same [OF ok] shape_close_sub)
      (auto simp: rt_ok_def close_subscription_def Let_def update_sub_def split: if_splits)
  then show ?thesis unfolding close_sub .
next
  case close_all
  have "rt_ok (Suc n) (s\<lparr>rt_broker := close_broker (rt_broker s)\<rparr>)"
    using ok by (intro rt_ok_same [OF ok] shape_close_all) (auto simp: rt_ok_def close_broker_def split: if_splits)
  then show ?thesis unfolding close_all .
qed

lemma rt_run_ok: "rt_run n s \<Longrightarrow> n < 2 ^ 64 \<Longrightarrow> rt_ok n s"
proof (induction rule: rt_run.induct)
  case start
  show ?case by (rule rt_ok_start)
next
  case (step n s s')
  then show ?case using rt_ok_step [OF step.hyps(2), of n] by simp
qed

lemma rt_run_shape: "rt_run n s \<Longrightarrow> broker_shape (rt_broker s)"
proof (induction rule: rt_run.induct)
  case start
  show ?case by (simp add: rt_start_def shape_new)
next
  case (step n s s')
  have linked: "linked_broker (rt_broker s)" using step.IH by (simp add: broker_shape_def)
  from step.hyps(2) show ?case
  proof cases
    case (publish event now k b r)
    consider "b = rt_broker s" | e where "b = delivered k e (rt_broker s)" "br_subscribers (rt_broker s) (ev_SiteID e) \<noteq> []"
      using Publish_cases [OF publish(2) linkedD(1) [OF linked], of now k] publish(3) by fastforce
    then show ?thesis unfolding publish(1) using step.IH shape_delivered by cases auto
  qed (use step.IH shape_subscribe shape_read shape_close_sub shape_close_all in auto)
qed

lemma rt_run_limits:
  "rt_run n s \<Longrightarrow> br_bufferSize (rt_broker s) = 16 \<and> br_historyLimit (rt_broker s) = 256"
proof (induction rule: rt_run.induct)
  case start
  show ?case by (simp add: rt_start_def NewBroker_def defaultBufferSize_def defaultHistoryLimit_def)
next
  case (step n s s')
  have linked: "linked_broker (rt_broker s)" using rt_run_shape [OF step.hyps(1)] by (simp add: broker_shape_def)
  from step.hyps(2) show ?case
  proof cases
    case (publish event now k b r)
    consider "b = rt_broker s" | e where "b = delivered k e (rt_broker s)"
      using Publish_cases [OF publish(2) linkedD(1) [OF linked], of now k] publish(3) by fastforce
    then show ?thesis unfolding publish(1) using step.IH by cases (simp_all add: delivered_def appendHistory_def Let_def)
  qed (use step.IH in \<open>auto simp: Subscribe_def Let_def update_sub_def close_subscription_def close_broker_def\<close>)
qed

text \<open>Coming back with an event of the history returns exactly what was sent out after it.\<close>

lemma filter_later:
  assumes "sorted_wrt (<) (map ev_ID (pre @ e # post))"
  shows "filter (\<lambda>x. ev_ID e < ev_ID x) (pre @ e # post) = post"
  using assms by (auto simp: sorted_wrt_append filter_empty_conv filter_id_conv dest: order_less_asym)

lemma replay_from_history:
  assumes ok: "rt_ok n s" and e: "Some e \<in> set (published (rt_log s) site)"
    and L: "parseEventID raw = Some (ev_ID e)" and replay: "replay_of (rt_broker s) site raw = (rs, False)"
  shows "\<exists>pre. published (rt_log s) site = pre @ Some e # map Some rs"
proof -
  let ?h = "br_history (rt_broker s) site"
  obtain older where o: "published (rt_log s) site = older @ map Some ?h" using ok unfolding rt_ok_def logged_def by blast
  have sorted: "sorted_wrt (<) (map ev_ID (List.map_filter (\<lambda>r. r) (published (rt_log s) site)))"
    using ok sorted_published unfolding rt_ok_def logged_def by blast
  have h: "?h \<noteq> []" "ev_ID (hd ?h) \<le> ev_ID e" "rs = filter (\<lambda>x. ev_ID e < ev_ID x) ?h"
    using replay L by (auto simp: replay_of_def split: list.splits if_splits)
  have sorted': "sorted_wrt (<) (map ev_ID (List.map_filter (\<lambda>r. r) older @ ?h))"
    using sorted by (simp add: o map_filter_def comp_def)
  have "e \<in> set ?h"
  proof (rule ccontr)
    assume "e \<notin> set ?h"
    then have "Some e \<in> set older" using e o by auto
    then have "e \<in> set (List.map_filter (\<lambda>r. r) older)" by (force simp: map_filter_def)
    then have "ev_ID e < ev_ID (hd ?h)" using sorted' h(1) by (auto simp: sorted_wrt_append)
    then show False using h(2) by simp
  qed
  then obtain pre post where pp: "?h = pre @ e # post" by (auto simp: in_set_conv_decomp)
  have "sorted_wrt (<) (map ev_ID ?h)" using sorted' by (simp add: sorted_wrt_append)
  then have "rs = post" using h(3) filter_later unfolding pp by blast
  then have "published (rt_log s) site = (older @ map Some pre) @ Some e # map Some rs" by (simp add: o pp)
  then show ?thesis by blast
qed

end
