(* ===== verification/Realtime_Promises.thy ===== *)
theory Realtime_Promises
  imports Realtime_Runs
begin

text \<open>
  What the broker promises its clients: a well-formed state with bounded channels and histories, a
  client that listens misses no change without being told to load again, and a client that comes back
  gets exactly what it missed or is told to load again.
\<close>

text \<open>
  C31. Well-formedness. In every run every channel has at most 16 events waiting, a history at most 256;
  the subscribers of a site are, once each, the open subscriptions of that site; a site without
  subscribers keeps no history; and a closed broker has neither subscribers nor an open subscription.
\<close>

theorem broker_wellformed:
  assumes "rt_run n s"
  shows "let b = rt_broker s in
     (\<forall>i. length (sb_ch (br_subs b i)) \<le> 16) \<and> (\<forall>site. length (br_history b site) \<le> 256)
   \<and> (\<forall>site. distinct (br_subscribers b site) \<and> set (br_subscribers b site) = {i. \<not> sb_closed (br_subs b i) \<and> sb_site (br_subs b i) = site})
   \<and> (\<forall>site. SubscriberCount site b = 0 \<longrightarrow> br_history b site = [])
   \<and> (br_closed b \<longrightarrow> (\<forall>i. sb_closed (br_subs b i)))"
proof -
  have shape: "broker_shape (rt_broker s)" by (rule rt_run_shape [OF assms])
  have limits: "br_bufferSize (rt_broker s) = 16" "br_historyLimit (rt_broker s) = 256" using rt_run_limits [OF assms] by simp_all
  have l: "linked_broker (rt_broker s)" using shape by (simp add: broker_shape_def)
  have "sb_closed (br_subs (rt_broker s) i)" if "br_closed (rt_broker s)" for i
    using linkedD(2) [OF l, of i "sb_site (br_subs (rt_broker s) i)"] linkedD(5) [OF l that] by auto
  then show ?thesis
    using shape limits linkedD [OF l] by (auto simp: broker_shape_def bounded_broker_def SubscriberCount_def Let_def)
qed

text \<open>
  C29. No change is missed silently. In every run of fewer than 2 ^ 64 steps, for every subscription that
  is still open, every event published for its site since it was made has been sent out, and either the
  event itself or a later-numbered resync was received or is waiting in the channel; what the client
  gets is in the order of the numbers.
\<close>

theorem no_missed_change:
  assumes "rt_run n s" and "n < 2 ^ 64" and "sub = br_subs (rt_broker s) i" and "\<not> sb_closed sub"
    and "r \<in> set (published (drop (rt_since s i) (rt_log s)) (sb_site sub))"
  shows "(\<exists>e. r = Some e \<and> (e \<in> set (sb_received sub @ sb_ch sub)
            \<or> (\<exists>q \<in> set (sb_received sub @ sb_ch sub). ev_Name q = EventAnalyticsResync \<and> ev_ID e \<le> ev_ID q)))
     \<and> sorted_wrt (<) (map ev_ID (sb_received sub @ sb_ch sub))"
proof -
  have "followed s i" using rt_run_ok [OF assms(1,2)] assms(3,4) by (simp add: rt_ok_def)
  then show ?thesis using assms(3,5) by (simp add: followed_def Let_def covered_def stream_def)
qed

text \<open>
  C30. Coming back. In every run of fewer than 2 ^ 64 steps, a client that names the event it saw last and
  is not told to load again is given exactly the events published for the site after that one, in their
  order, and nothing was published for the site since then that was not sent out.
\<close>

theorem reconnect_complete:
  assumes "rt_run n s" and "n < 2 ^ 64" and "Some e \<in> set (published (rt_log s) site)"
    and "parseEventID lastEventID = Some (ev_ID e)"
    and "fst (Subscribe site lastEventID (rt_broker s)) = Some (i, replay, False)"
  shows "\<exists>seen. published (rt_log s) site = seen @ Some e # map Some replay"
proof -
  have "replay_of (rt_broker s) site lastEventID = (replay, False)"
    using assms(5) by (auto simp: Subscribe_def Let_def split: if_splits)
  then show ?thesis by (rule replay_from_history [OF rt_run_ok [OF assms(1,2)] assms(3,4)])
qed

subsection \<open>A client that reads one of two events and comes back\<close>

definition sample_event :: "nat \<Rightarrow> ChangeEvent" where
  "sample_event n = \<lparr>ev_ID = n, ev_Name = ''x'', ev_SiteID = 7, ev_Kinds = [''hits''], ev_ChangedAt = 120, ev_BucketStart = 60, ev_Counts = []\<rparr>"

definition sample_listening :: rt_sys where
  "sample_listening = rt_start\<lparr>rt_broker := snd (Subscribe 7 [] (rt_broker rt_start)), rt_since := (rt_since rt_start)(0 := 0)\<rparr>"

definition publish_sample :: "rt_sys \<Rightarrow> rt_sys" where
  "publish_sample s = (case Publish 120 (\<lambda>_. (0, 0)) (sample_event 0) (rt_broker s) of
     (b, r) \<Rightarrow> s\<lparr>rt_broker := b, rt_log := rt_log s @ [(7, r)]\<rparr>)"

lemmas sample_evals = sample_event_def sample_listening_def publish_sample_def Publish_def with_defaults_def next_id_def
  appendHistory_def update_sub_def enqueue_def Subscribe_def rt_start_def NewBroker_def defaultBufferSize_def
  defaultHistoryLimit_def uuid_Nil_def IsZero_def time_zero_def Let_def

definition sample_twice :: rt_sys where
  "sample_twice = publish_sample (publish_sample sample_listening)"

lemma sample_twice_state:
  "rt_log sample_twice = [(7, Some (sample_event 1)), (7, Some (sample_event 2))]"
  "br_subs (rt_broker sample_twice) 0 = \<lparr>sb_site = 7, sb_ch = [sample_event 1, sample_event 2], sb_closed = False, sb_received = []\<rparr>"
  "br_history (rt_broker sample_twice) 7 = [sample_event 1, sample_event 2]" "rt_since sample_twice 0 = 0"
  "\<not> br_closed (rt_broker sample_twice)" "br_count (rt_broker sample_twice) = 1"
  by (simp_all add: sample_twice_def sample_evals)

lemma publish_sample_run:
  assumes "rt_run n s"
  shows "rt_run (Suc n) (publish_sample s)"
proof -
  obtain b r where p: "Publish 120 (\<lambda>_. (0, 0)) (sample_event 0) (rt_broker s) = (b, r)" by (cases "Publish 120 (\<lambda>_. (0, 0)) (sample_event 0) (rt_broker s)")
  have "ev_SiteID (sample_event 0) = 7" by (simp add: sample_event_def)
  then show ?thesis
    using rt_run.step [OF assms rt_step.publish [OF _ p]] p by (simp add: publish_sample_def uuid_Nil_def)
qed

lemma sample_twice_run: "rt_run 3 sample_twice"
proof -
  have "rt_run 1 sample_listening"
    using rt_run.step [OF rt_run.start rt_step.subscribe [of rt_start 7 "[]"]]
    by (simp add: sample_listening_def rt_start_def NewBroker_def)
  then show ?thesis using publish_sample_run by (simp add: sample_twice_def eval_nat_numeral)
qed

theorem broker_wellformed_witness:
  "length (sb_ch (br_subs (rt_broker sample_twice) 0)) \<le> 16 \<and> sb_ch (br_subs (rt_broker sample_twice) 0) \<noteq> []"
  using broker_wellformed [OF sample_twice_run] sample_twice_state(2) by (simp add: Let_def)

theorem no_missed_change_witness:
  "\<exists>e. sample_event 1 = e \<and> (e \<in> {sample_event 1, sample_event 2} \<or> (\<exists>q \<in> {sample_event 1, sample_event 2}. ev_Name q = EventAnalyticsResync))"
  using no_missed_change [OF sample_twice_run _ refl, of 0 "Some (sample_event 1)"] sample_twice_state by (auto simp: published_def)

theorem reconnect_complete_witness:
  "\<exists>seen. [Some (sample_event 1), Some (sample_event 2)] = seen @ Some (sample_event 1) # map Some [sample_event 2]"
proof -
  have L: "parseEventID ''1'' = Some (ev_ID (sample_event 1))" by (simp add: parseEventID_def is_digit_def digits_value_def sample_event_def)
  have "fst (Subscribe 7 ''1'' (rt_broker sample_twice)) = Some (1, [sample_event 2], False)"
    using L sample_twice_state by (simp add: Subscribe_def replay_of_def Let_def) (simp add: sample_event_def)
  then show ?thesis
    using reconnect_complete [OF sample_twice_run _ _ L, of 7] sample_twice_state(1) by (simp add: published_def)
qed

text \<open>
  The numbers start again with the process.  A client that saw event 1 before a restart, and comes back
  when the new broker has sent out two events, is given the second only and is not told to load again.
\<close>

lemma restart_misses_events:
  assumes "parseEventID lastEventID = Some 1"
  shows "replay_of (rt_broker sample_twice) 7 lastEventID = ([sample_event 2], False)"
    and "published (rt_log sample_twice) 7 = [Some (sample_event 1), Some (sample_event 2)]"
  using assms sample_twice_state(1,3) by (simp_all add: published_def replay_of_def sample_event_def)

end
