(* ===== verification/Client_IP.thy ===== *)
theory Client_IP
  imports Traffic_Filter Webhook_Target
begin

text \<open>
  The address and the country of a client (\<open>server/shared/limiter.go\<close>,
  \<open>server/shared/country.go\<close>): the peer of the connection, or what the headers say when the peer
  is a trusted proxy.  A header maps the canonical spelling of a name to its values, in order.
  \<open>region\<close> stands for \<open>language.ParseRegion\<close> with \<open>IsCountry\<close> and
  \<open>String\<close>, the resolver for the address database.
\<close>

type_synonym header = "string \<Rightarrow> string list"

record http_request =
  hq_RemoteAddr :: string
  hq_Host :: string
  hq_Header :: header

definition header_Get :: "header \<Rightarrow> string \<Rightarrow> string" where
  "header_Get h key = (case h key of [] \<Rightarrow> [] | v # _ \<Rightarrow> v)"

subsection \<open>Addresses\<close>

definition ParseAddr :: "traffic_lib \<Rightarrow> string \<Rightarrow> addr option" where
  "ParseAddr L value =
     (let trimmed = TrimSpace value in
      if trimmed = [] then None
      else
        let trimmed = (case SplitHostPort L trimmed of Some (host, _) \<Rightarrow> host | None \<Rightarrow> trimmed)
        in (case netip_ParseAddr L trimmed of None \<Rightarrow> None | Some a \<Rightarrow> Some (Unmap a)))"

definition RemoteIPFromAddr :: "traffic_lib \<Rightarrow> string \<Rightarrow> string" where
  "RemoteIPFromAddr L a =
     (let trimmed = TrimSpace a in
      if trimmed = [] then []
      else case SplitHostPort L trimmed of
        None \<Rightarrow> (case ParseAddr L trimmed of Some parsed \<Rightarrow> addr_String L parsed | None \<Rightarrow> trimmed)
      | Some (host, _) \<Rightarrow> (case ParseAddr L host of Some parsed \<Rightarrow> addr_String L parsed | None \<Rightarrow> host))"

definition isAddrInNetworks :: "addr \<Rightarrow> netprefix list \<Rightarrow> bool" where
  "isAddrInNetworks ip networks = list_ex (\<lambda>network. Contains network (Unmap ip)) networks"

definition IsTrustedProxy :: "addr \<Rightarrow> netprefix list \<Rightarrow> bool" where
  "IsTrustedProxy ip trustedProxies = (if trustedProxies = [] then False else isAddrInNetworks ip trustedProxies)"

definition allHeaderTokens :: "string list \<Rightarrow> string list" where
  "allHeaderTokens values =
     concat (map (\<lambda>value. filter (\<lambda>token. token \<noteq> []) (map TrimSpace (Split (CHR '','') value))) values)"

text \<open>Two indices run towards each other and swap what they point at.\<close>

function swap_ends :: "int \<Rightarrow> int \<Rightarrow> 'a list \<Rightarrow> 'a list" where
  "swap_ends left right tokens =
     (if left < right
      then swap_ends (left + 1) (right - 1) (tokens[nat left := tokens ! nat right, nat right := tokens ! nat left])
      else tokens)"
  by pat_completeness auto
termination by (relation "measure (\<lambda>(left, right, _). nat (right - left))") auto

declare swap_ends.simps [simp del]

definition reverseTokens :: "'a list \<Rightarrow> 'a list" where
  "reverseTokens tokens = swap_ends 0 (int (length tokens) - 1) tokens"

definition firstValidHeaderIP :: "traffic_lib \<Rightarrow> header \<Rightarrow> string \<Rightarrow> addr option" where
  "firstValidHeaderIP L header name =
     first_some (map (ParseAddr L) (concat (map (\<lambda>value. reverseTokens (allHeaderTokens [value])) (rev (header name)))))"

text \<open>The first hop from the end that is an address outside the trusted networks.\<close>

fun untrusted_hop :: "traffic_lib \<Rightarrow> netprefix list \<Rightarrow> string list \<Rightarrow> addr option" where
  "untrusted_hop L trusted [] = None"
| "untrusted_hop L trusted (part # rest) =
     (case ParseAddr L part of
        None \<Rightarrow> untrusted_hop L trusted rest
      | Some ip \<Rightarrow> if \<not> isAddrInNetworks ip trusted then Some ip else untrusted_hop L trusted rest)"

definition vendor_headers :: "string list" where
  "vendor_headers = [''Cf-Connecting-Ip'', ''Fastly-Client-Ip'', ''Cloudfront-Viewer-Address'', ''X-Real-Ip'']"

definition GetRealIP :: "traffic_lib \<Rightarrow> http_request \<Rightarrow> netprefix list \<Rightarrow> string" where
  "GetRealIP L r trustedProxies =
     (let directIP = RemoteIPFromAddr L (hq_RemoteAddr r) in
      case ParseAddr L directIP of
        None \<Rightarrow> if directIP \<noteq> [] then directIP else hq_RemoteAddr r
      | Some parsedDirectIP \<Rightarrow>
          if \<not> IsTrustedProxy parsedDirectIP trustedProxies then addr_String L parsedDirectIP
          else case first_some (map (firstValidHeaderIP L (hq_Header r)) vendor_headers) of
            Some ip \<Rightarrow> addr_String L ip
          | None \<Rightarrow>
              (case (if trustedProxies \<noteq> []
                     then untrusted_hop L trustedProxies (rev (allHeaderTokens (hq_Header r ''X-Forwarded-For'')))
                     else None) of
                 Some ip \<Rightarrow> addr_String L ip
               | None \<Rightarrow> addr_String L parsedDirectIP))"

subsection \<open>Countries\<close>

definition NormalizeCountryCode :: "(string \<Rightarrow> string option) \<Rightarrow> traffic_lib \<Rightarrow> string \<Rightarrow> string" where
  "NormalizeCountryCode region L code =
     (let code = ToUpper L (TrimSpace code) in
      if length code \<noteq> 2 then []
      else if \<not> list_all (\<lambda>c. 65 \<le> (of_char c :: nat) \<and> (of_char c :: nat) \<le> 90) code then []
      else case region code of None \<Rightarrow> [] | Some name \<Rightarrow> name)"

definition shouldTrustCountryHeaders :: "traffic_lib \<Rightarrow> http_request \<Rightarrow> netprefix list \<Rightarrow> bool" where
  "shouldTrustCountryHeaders L r trustedProxies =
     (let directIP = RemoteIPFromAddr L (hq_RemoteAddr r) in
      if directIP = [] then False
      else case ParseAddr L directIP of None \<Rightarrow> False | Some parsed \<Rightarrow> IsTrustedProxy parsed trustedProxies)"

text \<open>The value after \<open>country_code=\<close> in a list like \<open>georegion=263,country_code=DE\<close>.\<close>

fun edgescape_country :: "string list \<Rightarrow> string" where
  "edgescape_country [] = []"
| "edgescape_country (part # rest) =
     (if prefix ''country_code='' (TrimSpace part) then drop 13 (TrimSpace part) else edgescape_country rest)"

definition countryCodeFromCDNHeaders :: "http_request \<Rightarrow> string" where
  "countryCodeFromCDNHeaders r =
     (let get = header_Get (hq_Header r) in
      if get ''Cf-Ipcountry'' \<noteq> [] then get ''Cf-Ipcountry''
      else if get ''Fastly-Client-Ip-Country'' \<noteq> [] then get ''Fastly-Client-Ip-Country''
      else if get ''Cloudfront-Viewer-Country'' \<noteq> [] then get ''Cloudfront-Viewer-Country''
      else if get ''X-Akamai-Edgescape'' \<noteq> [] then edgescape_country (Split (CHR '','') (get ''X-Akamai-Edgescape''))
      else [])"

definition countryCodeFromProxyHeaders :: "http_request \<Rightarrow> string" where
  "countryCodeFromProxyHeaders r =
     (let get = header_Get (hq_Header r) in
      if get ''X-Country-Code'' \<noteq> [] then get ''X-Country-Code''
      else if get ''X-Geoip-Country-Code'' \<noteq> [] then get ''X-Geoip-Country-Code''
      else if get ''X-Geo-Country'' \<noteq> [] then get ''X-Geo-Country''
      else [])"

text \<open>\<open>netip.Addr.IsPrivate\<close>: 10/8, 172.16/12, 192.168/16 and fc00::/7.\<close>

fun IsPrivate :: "addr \<Rightarrow> bool" where
  "IsPrivate (V4 w) \<longleftrightarrow> drop_bit 24 w = 10 \<or> drop_bit 20 w = 0xAC1 \<or> drop_bit 16 w = 0xC0A8"
| "IsPrivate (V6 w _) \<longleftrightarrow> drop_bit 121 w = 0x7E"

definition isPrivateCountryIP :: "addr \<Rightarrow> bool" where
  "isPrivateCountryIP ip \<longleftrightarrow> IsLoopback ip \<or> IsPrivate ip \<or> IsLinkLocalUnicast ip"

definition CountryCodeFromRequest ::
  "(string \<Rightarrow> string option) \<Rightarrow> traffic_lib \<Rightarrow> http_request \<Rightarrow> netprefix list \<Rightarrow> (addr \<Rightarrow> string) \<Rightarrow> string" where
  "CountryCodeFromRequest region L r trustedProxies resolver =
     (let cdn = NormalizeCountryCode region L (countryCodeFromCDNHeaders r);
          prox = NormalizeCountryCode region L (countryCodeFromProxyHeaders r);
          trust = shouldTrustCountryHeaders L r trustedProxies
      in if trust \<and> cdn \<noteq> [] then cdn
         else if trust \<and> prox \<noteq> [] then prox
         else case ParseAddr L (GetRealIP L r trustedProxies) of
           None \<Rightarrow> []
         | Some parsedIP \<Rightarrow> if isPrivateCountryIP parsedIP then [] else NormalizeCountryCode region L (resolver parsedIP))"

subsection \<open>Tokens\<close>

lemma ParseAddr_parseIP: "ParseAddr L value = parseIP L value"
  by (simp add: ParseAddr_def parseIP_def Let_def map_option_case)

text \<open>The loop of \<open>reverseTokens\<close> reverses what lies between its indices.\<close>

lemma swap_ends_nat:
  "l < r \<Longrightarrow> swap_ends (int l) (int r) xs = swap_ends (int l + 1) (int r - 1) (xs[l := xs ! r, r := xs ! l])"
  by (subst swap_ends.simps) simp

lemma swap_ends_middle:
  "swap_ends (int (length pre)) (int (length pre + length mid) - 1) (pre @ mid @ post) = pre @ rev mid @ post"
proof (induction "length mid" arbitrary: pre mid post rule: less_induct)
  case less
  show ?case
  proof (cases mid)
    case Nil
    then show ?thesis by (subst swap_ends.simps) simp
  next
    case (Cons x rest)
    show ?thesis
    proof (cases rest rule: rev_cases)
      case Nil
      then show ?thesis using Cons by (subst swap_ends.simps) simp
    next
      case (snoc inner y)
      let ?xs = "pre @ mid @ post"
      have at: "?xs ! length pre = x" "?xs ! (length pre + length inner + 1) = y"
        using Cons snoc by (auto simp: nth_append)
      have upd: "?xs[length pre := y, length pre + length inner + 1 := x] = (pre @ [y]) @ inner @ ([x] @ post)"
        using Cons snoc by (simp add: list_update_append)
      let ?r = "length pre + length inner + 1"
      have "swap_ends (int (length pre)) (int ?r) ?xs = swap_ends (int (length pre) + 1) (int ?r - 1) (?xs[length pre := ?xs ! ?r, ?r := ?xs ! length pre])"
        by (rule swap_ends_nat) simp
      also have "\<dots> = swap_ends (int (length (pre @ [y]))) (int (length (pre @ [y]) + length inner) - 1) ((pre @ [y]) @ inner @ ([x] @ post))"
        unfolding at upd by (simp add: algebra_simps)
      also have "\<dots> = (pre @ [y]) @ rev inner @ [x] @ post"
        by (rule less) (simp add: Cons snoc)
      finally show ?thesis using Cons snoc by (simp add: algebra_simps)
    qed
  qed
qed

lemma reverseTokens_rev: "reverseTokens tokens = rev tokens"
  using swap_ends_middle [of "[]" tokens "[]"] by (simp add: reverseTokens_def)

lemma allHeaderTokens_append [simp]: "allHeaderTokens (vs @ ws) = allHeaderTokens vs @ allHeaderTokens ws"
  by (simp add: allHeaderTokens_def)

lemma allHeaderTokens_comma: "allHeaderTokens [a @ CHR '','' # b] = allHeaderTokens [a] @ allHeaderTokens [b]"
  by (simp add: allHeaderTokens_def Split_append)

lemma allHeaderTokens_Nil [simp]: "allHeaderTokens [] = []"
  by (simp add: allHeaderTokens_def)

text \<open>Scanning from the end stops at the last untrusted address, whatever stands before it.\<close>

definition trusted_or_junk :: "traffic_lib \<Rightarrow> netprefix list \<Rightarrow> string \<Rightarrow> bool" where
  "trusted_or_junk L trusted part \<longleftrightarrow> (case ParseAddr L part of None \<Rightarrow> True | Some ip \<Rightarrow> isAddrInNetworks ip trusted)"

lemma untrusted_hop_skip:
  "list_all (trusted_or_junk L trusted) hops \<Longrightarrow> untrusted_hop L trusted (hops @ rest) = untrusted_hop L trusted rest"
  by (induction hops) (auto simp: trusted_or_junk_def split: option.splits)

lemma untrusted_hop_None: "untrusted_hop L trusted hops = None \<longleftrightarrow> list_all (trusted_or_junk L trusted) hops"
  by (induction hops) (auto simp: trusted_or_junk_def split: option.splits)

lemma untrusted_hop_Some:
  "untrusted_hop L trusted hops = Some ip \<longleftrightarrow>
     (\<exists>near t far. hops = near @ t # far \<and> list_all (trusted_or_junk L trusted) near \<and> ParseAddr L t = Some ip \<and> \<not> isAddrInNetworks ip trusted)"
  (is "_ \<longleftrightarrow> ?E hops")
proof
  show "?E hops" if "untrusted_hop L trusted hops = Some ip"
    using that
  proof (induction hops)
    case (Cons part rest)
    show ?case
    proof (cases "trusted_or_junk L trusted part")
      case True
      then have "untrusted_hop L trusted rest = Some ip" using Cons.prems by (auto simp: trusted_or_junk_def split: option.splits)
      then obtain near t far where "rest = near @ t # far" "list_all (trusted_or_junk L trusted) near"
          "ParseAddr L t = Some ip" "\<not> isAddrInNetworks ip trusted"
        using Cons.IH by blast
      then show ?thesis using True by (intro exI [of _ "part # near"]) auto
    next
      case False
      then have "ParseAddr L part = Some ip \<and> \<not> isAddrInNetworks ip trusted"
        using Cons.prems by (auto simp: trusted_or_junk_def split: option.splits)
      then show ?thesis by (intro exI [of _ "[]"] exI [of _ part] exI [of _ rest]) simp
    qed
  qed simp
next
  assume "?E hops"
  then show "untrusted_hop L trusted hops = Some ip" by (auto simp: untrusted_hop_skip)
qed

end
