(* ===== verification/Ingest_Requests.thy ===== *)
theory Ingest_Requests
  imports Client_IP Access_Control Spam_Filter
begin

text \<open>
  What the ingest handlers read of a request (\<open>server/ingest/handlers.go\<close>): speculative requests,
  the site of an origin, the custom tracking host and its team, and the request a follower sends to the
  leader.  The caches of the store are lookup functions: what they hold may be older than the tables.
\<close>

subsection \<open>The store as ingest reads it\<close>

record ingest_site =
  si_ID :: uuid
  si_UserID :: uuid
  si_Domain :: string
  si_CreatedAt :: time

definition CustomTrackingDomainStatusVerified :: string where
  "CustomTrackingDomainStatusVerified = ''verified''"

record CustomTrackingDomain =
  cd_TeamID :: uuid
  cd_Hostname :: string
  cd_VerificationStatus :: string
  cd_TargetStatus :: string
  cd_TLSStatus :: string
  cd_Enabled :: bool

record ingest_store =
  st_roles :: roles_db
  st_sites_ok :: bool
  st_sites :: "ingest_site list"
  st_site_cache :: "string \<Rightarrow> ingest_site option option"
  st_domains_ok :: bool
  st_domains :: "CustomTrackingDomain list"
  st_domain_cache :: "string \<Rightarrow> CustomTrackingDomain option option"
  st_tenant_cache :: "uuid \<Rightarrow> uuid option"

definition querySiteByDomain :: "string \<Rightarrow> ingest_store \<Rightarrow> unit + ingest_site option" where
  "querySiteByDomain domain s =
     (if \<not> st_sites_ok s then Inl () else Inr (find (\<lambda>x. si_Domain x = domain) (st_sites s)))"

definition FindSiteByDomain :: "string \<Rightarrow> ingest_store \<Rightarrow> unit + ingest_site option" where
  "FindSiteByDomain domain s =
     (case (if domain = [] then None else st_site_cache s domain) of
        Some site \<Rightarrow> Inr site
      | None \<Rightarrow> querySiteByDomain domain s)"

definition TrimSuffixByte :: "char \<Rightarrow> string \<Rightarrow> string" where
  "TrimSuffixByte c s = (if s \<noteq> [] \<and> last s = c then butlast s else s)"

definition NormalizeCustomTrackingHostname :: "traffic_lib \<Rightarrow> string \<Rightarrow> string" where
  "NormalizeCustomTrackingHostname L hostname = TrimSuffixByte (CHR ''.'') (TrimSpace (ToLower L hostname))"

definition FindCustomTrackingDomainByHostname ::
  "traffic_lib \<Rightarrow> string \<Rightarrow> ingest_store \<Rightarrow> unit + CustomTrackingDomain option" where
  "FindCustomTrackingDomainByHostname L hostname s =
     (let hostname = NormalizeCustomTrackingHostname L hostname in
      if hostname = [] then Inr None
      else case st_domain_cache s hostname of
        Some domain \<Rightarrow> Inr domain
      | None \<Rightarrow> if \<not> st_domains_ok s then Inl () else Inr (find (\<lambda>d. cd_Hostname d = hostname) (st_domains s)))"

definition CustomTrackingDomainIsActive :: "CustomTrackingDomain \<Rightarrow> bool" where
  "CustomTrackingDomainIsActive d \<longleftrightarrow> cd_Enabled d \<and> cd_VerificationStatus d = CustomTrackingDomainStatusVerified
     \<and> cd_TargetStatus d = CustomTrackingDomainStatusVerified \<and> cd_TLSStatus d = CustomTrackingDomainStatusVerified"

text \<open>On the control store, whose own tenant is \<open>uuid.Nil\<close>.\<close>

definition GetSiteTenantID :: "uuid \<Rightarrow> ingest_store \<Rightarrow> db_error + uuid" where
  "GetSiteTenantID site s =
     (case (if site = uuid_Nil then None else st_tenant_cache s site) of
        Some t \<Rightarrow> Inr t
      | None \<Rightarrow> querySiteTenantID (st_roles s) site)"

subsection \<open>Speculative requests and origins\<close>

text \<open>\<open>strings.FieldsFunc\<close> for semicolons and commas.\<close>

fun fields_by :: "(char \<Rightarrow> bool) \<Rightarrow> string \<Rightarrow> string \<Rightarrow> string list" where
  "fields_by P acc [] = (if acc = [] then [] else [rev acc])"
| "fields_by P acc (c # s) =
     (if P c then (if acc = [] then [] else [rev acc]) @ fields_by P [] s else fields_by P (c # acc) s)"

definition hasSpeculativePurpose :: "traffic_lib \<Rightarrow> string \<Rightarrow> bool" where
  "hasSpeculativePurpose L value =
     list_ex (\<lambda>token. ToLower L (TrimSpace token) \<in> {''prefetch'', ''prerender''})
       (fields_by (\<lambda>c. c = CHR '';'' \<or> c = CHR '','') [] value)"

definition speculative :: "traffic_lib \<Rightarrow> http_request \<Rightarrow> bool" where
  "speculative L r \<longleftrightarrow> hasSpeculativePurpose L (header_Get (hq_Header r) ''Sec-Purpose'')
     \<or> hasSpeculativePurpose L (header_Get (hq_Header r) ''Purpose'')"

definition normalizeOriginHostname :: "traffic_lib \<Rightarrow> string \<Rightarrow> string" where
  "normalizeOriginHostname L host = TrimPrefix ''www.'' (ToLower L (TrimSpace host))"

definition trafficUserAgent :: "string option \<Rightarrow> string \<Rightarrow> string" where
  "trafficUserAgent payloadUserAgent fallback =
     (case payloadUserAgent of
        Some ua \<Rightarrow> if TrimSpace ua \<noteq> [] then TrimSpace ua else TrimSpace fallback
      | None \<Rightarrow> TrimSpace fallback)"

subsection \<open>Custom tracking hosts\<close>

definition trackingHeaderTokens :: "string list \<Rightarrow> string list" where
  "trackingHeaderTokens values =
     concat (map (\<lambda>value. filter (\<lambda>token. token \<noteq> []) (map TrimSpace (Split (CHR '','') value))) values)"

definition firstTrackingHeaderToken :: "string list \<Rightarrow> string" where
  "firstTrackingHeaderToken values = (case trackingHeaderTokens values of [] \<Rightarrow> [] | t # _ \<Rightarrow> t)"

text \<open>\<open>strings.Cut\<close> at the first equals sign.\<close>

fun cut_eq :: "string \<Rightarrow> (string \<times> string) option" where
  "cut_eq [] = None"
| "cut_eq (c # s) = (if c = CHR ''='' then Some ([], s) else map_option (\<lambda>(k, v). (c # k, v)) (cut_eq s))"

definition host_of_part :: "traffic_lib \<Rightarrow> string \<Rightarrow> string option" where
  "host_of_part L part =
     (case cut_eq part of
        None \<Rightarrow> None
      | Some (key, v) \<Rightarrow>
          if \<not> EqualFold L (TrimSpace key) ''host'' then None else Some (TrimByte (CHR 0x22) (TrimSpace v)))"

definition forwardedTrackingHost :: "traffic_lib \<Rightarrow> header \<Rightarrow> string" where
  "forwardedTrackingHost L h =
     (let host = firstTrackingHeaderToken (h ''X-Forwarded-Host'') in
      if host \<noteq> [] then host
      else case first_some (map (host_of_part L) (concat (map (Split (CHR '';'')) (trackingHeaderTokens (h ''Forwarded''))))) of
        Some host \<Rightarrow> host
      | None \<Rightarrow> [])"

text \<open>\<open>strings.Trim(host, "[]")\<close>.\<close>

definition trim_brackets :: "string \<Rightarrow> string" where
  "trim_brackets s = (let b = (\<lambda>c. c = CHR ''['' \<or> c = CHR '']'') in rev (dropWhile b (rev (dropWhile b s))))"

definition normalizeTrackingRequestHost :: "traffic_lib \<Rightarrow> string \<Rightarrow> string" where
  "normalizeTrackingRequestHost L host =
     (let host = TrimSpace host in
      if host = [] then []
      else let host = (case SplitHostPort L host of Some (parsedHost, _) \<Rightarrow> parsedHost | None \<Rightarrow> host)
           in NormalizeCustomTrackingHostname L (trim_brackets host))"

definition isTrustedTrackingProxyRequest :: "traffic_lib \<Rightarrow> http_request \<Rightarrow> netprefix list \<Rightarrow> bool" where
  "isTrustedTrackingProxyRequest L r trustedProxies =
     (case ParseAddr L (RemoteIPFromAddr L (hq_RemoteAddr r)) of None \<Rightarrow> False | Some ip \<Rightarrow> IsTrustedProxy ip trustedProxies)"

definition trustsAllTrackingProxies :: "netprefix list \<Rightarrow> bool" where
  "trustsAllTrackingProxies trustedProxies = list_ex (\<lambda>p. prefix_Bits p = 0) trustedProxies"

definition trackingRequestHostname :: "traffic_lib \<Rightarrow> http_request \<Rightarrow> netprefix list \<Rightarrow> string" where
  "trackingRequestHostname L r trustedProxies =
     (let forwarded = forwardedTrackingHost L (hq_Header r) in
      if isTrustedTrackingProxyRequest L r trustedProxies \<and> \<not> trustsAllTrackingProxies trustedProxies \<and> forwarded \<noteq> []
      then normalizeTrackingRequestHost L forwarded
      else normalizeTrackingRequestHost L (hq_Host r))"

definition allowCustomTrackingHostForSite :: "traffic_lib \<Rightarrow> http_request \<Rightarrow> netprefix list \<Rightarrow> uuid \<Rightarrow> ingest_store \<Rightarrow> bool" where
  "allowCustomTrackingHostForSite L r trustedProxies site s =
     (let hostname = trackingRequestHostname L r trustedProxies in
      if hostname = [] then True
      else case FindCustomTrackingDomainByHostname L hostname s of
        Inl _ \<Rightarrow> False
      | Inr None \<Rightarrow> True
      | Inr (Some domain) \<Rightarrow>
          if \<not> CustomTrackingDomainIsActive domain then False
          else (case GetSiteTenantID site s of Inl _ \<Rightarrow> False | Inr team \<Rightarrow> cd_TeamID domain = team))"

subsection \<open>The request a follower forwards\<close>

text \<open>
  \<open>httputil.ReverseProxy\<close> with a rewrite function sends the headers without the hop-by-hop ones
  (\<open>dropped\<close>) and without the forwarding headers; the handler puts the received
  \<open>X-Forwarded-For\<close> back and \<open>SetXForwarded\<close> adds the peer.  The leader sees the follower as
  its peer.
\<close>

definition follower_hop :: "traffic_lib \<Rightarrow> http_request \<Rightarrow> string list" where
  "follower_hop L r =
     (case SplitHostPort L (hq_RemoteAddr r) of
        None \<Rightarrow> []
      | Some (clientIP, _) \<Rightarrow>
          (case hq_Header r ''X-Forwarded-For'' of
             [] \<Rightarrow> [clientIP]
           | prior \<Rightarrow> [concat (map (\<lambda>v. v @ '', '') prior) @ clientIP]))"

definition forwardToLeader :: "traffic_lib \<Rightarrow> (header \<Rightarrow> string set) \<Rightarrow> string \<Rightarrow> string \<Rightarrow> http_request \<Rightarrow> http_request" where
  "forwardToLeader L dropped scheme follower r = \<lparr>hq_RemoteAddr = follower, hq_Host = hq_Host r,
     hq_Header = (\<lambda>k. if k = ''Content-Type'' then [''application/json'']
        else if k = ''X-Forwarded-For'' then follower_hop L r
        else if k = ''X-Forwarded-Host'' then [hq_Host r]
        else if k = ''X-Forwarded-Proto'' then [scheme]
        else if k = ''Forwarded'' \<or> k \<in> dropped (hq_Header r) then [] else hq_Header r k)\<rparr>"

definition normalizeLeaderHost :: "traffic_lib \<Rightarrow> string \<Rightarrow> string" where
  "normalizeLeaderHost L a = (if a = [] then [] else case SplitHostPort L a of Some (host, _) \<Rightarrow> host | None \<Rightarrow> a)"

definition alnum :: "char \<Rightarrow> bool" where
  "alnum c = (let n = of_char (lower_byte c) :: nat in 48 \<le> n \<and> n \<le> 57 \<or> 97 \<le> n \<and> n \<le> 122)"

text \<open>
  The pattern of a host name: labels of 1 to 63 letters, digits and inner hyphens.  The case folding of
  the pattern also admits U+017F and U+212A, which the model, on bytes, leaves out.
\<close>

definition host_label :: "string \<Rightarrow> bool" where
  "host_label l \<longleftrightarrow> 1 \<le> length l \<and> length l \<le> 63 \<and> list_all (\<lambda>c. alnum c \<or> c = CHR ''-'') l \<and> alnum (hd l) \<and> alnum (last l)"

definition forwardedHostPattern :: "string \<Rightarrow> bool" where
  "forwardedHostPattern host = list_all host_label (Split (CHR ''.'') host)"

definition isValidForwardHost :: "traffic_lib \<Rightarrow> string \<Rightarrow> bool" where
  "isValidForwardHost L host =
     (let trimmed = TrimSpace host in
      if trimmed = [] then False
      else if list_ex (\<lambda>c. c \<in> {CHR ''/'', CHR 0x5C, CHR ''?'', CHR ''#''}) trimmed then False
      else if netip_ParseAddr L trimmed \<noteq> None then True
      else forwardedHostPattern trimmed)"

definition forward_targets :: "string list" where
  "forward_targets = [''/ingest'', ''/ingest/event'', ''/ingest/web-vitals'', ''/api/ingest/server/pageview'', ''/api/ingest/server/event'']"

text \<open>The host, the port and the path of the leader's URL.\<close>

definition buildForwardURL :: "traffic_lib \<Rightarrow> string \<Rightarrow> string \<Rightarrow> string \<Rightarrow> (string \<times> string \<times> string) option" where
  "buildForwardURL L leaderAddr httpAddr targetPath =
     (if targetPath \<notin> set forward_targets then None
      else let leaderHost = normalizeLeaderHost L leaderAddr in
      if \<not> isValidForwardHost L leaderHost then None
      else let port = (case SplitHostPort L httpAddr of None \<Rightarrow> ''8080'' | Some (_, p) \<Rightarrow> if p = [] then ''8080'' else p)
           in Some (leaderHost, port, targetPath))"

end
