(* ===== verification/Ingest_Handlers.thy ===== *)
theory Ingest_Handlers
  imports Ingest_Requests Complex_Main
begin

text \<open>
  The ingest handlers of the leader (\<open>server/ingest/handlers.go\<close>): browser page views, events and
  web vitals, and server-side page views and events.  A handler takes the decoded body (\<open>None\<close>
  when decoding fails) and returns the status code with the new counters and queue.  \<open>ipmeta\<close>,
  the JSON and time parsers and the queue are parameters; a web vital's value is a rational number, as
  every finite float64 is.
\<close>

subsection \<open>Records\<close>

record Metadata =
  md_CountryCode :: string
  md_Region :: string
  md_City :: string
  md_Provider :: string
  md_ASN :: int
  md_ASNOrg :: string

record Hit =
  h_ID :: uuid
  h_SiteID :: uuid
  h_SessionID :: uuid
  h_PageID :: uuid
  h_Timestamp :: time
  h_Path :: string
  h_Hostname :: "string option"
  h_Referrer :: "string option"
  h_UserAgent :: "string option"
  h_ViewportWidth :: "int option"
  h_ViewportHeight :: "int option"
  h_ScreenWidth :: "int option"
  h_ScreenHeight :: "int option"
  h_Language :: "string option"
  h_CountryCode :: "string option"
  h_Region :: "string option"
  h_City :: "string option"
  h_Provider :: "string option"
  h_ASN :: "int option"
  h_ASNOrg :: "string option"
  h_UTMSource :: "string option"
  h_UTMMedium :: "string option"
  h_UTMCampaign :: "string option"
  h_UTMTerm :: "string option"
  h_UTMContent :: "string option"
  h_QRCodeID :: "uuid option"
  h_IsUnique :: "bool option"
  h_TrackerSource :: string
  h_TrackerVersion :: string

record AnalyticsEvent =
  ae_ID :: uuid
  ae_SiteID :: uuid
  ae_SessionID :: uuid
  ae_Name :: string
  ae_Properties :: "(string \<times> string) list option"
  ae_Timestamp :: time
  ae_TrackerSource :: string
  ae_TrackerVersion :: string

record WebVital =
  wv_ID :: uuid
  wv_SiteID :: uuid
  wv_SessionID :: uuid
  wv_PageID :: uuid
  wv_Metric :: string
  wv_MetricID :: string
  wv_Value :: rat
  wv_Path :: string
  wv_NavigationType :: "string option"
  wv_Timestamp :: time
  wv_TrackerSource :: string
  wv_TrackerVersion :: string

record browserIngestPayload =
  bp_Path :: string
  bp_Referrer :: "string option"
  bp_UserAgent :: "string option"
  bp_VPWidth :: "int option"
  bp_VPHeight :: "int option"
  bp_SCWidth :: "int option"
  bp_SCHeight :: "int option"
  bp_Language :: "string option"
  bp_UTMSource :: "string option"
  bp_UTMMedium :: "string option"
  bp_UTMCamp :: "string option"
  bp_UTMTerm :: "string option"
  bp_UTMCont :: "string option"
  bp_QRCodeID :: "uuid option"
  bp_TrackerSource :: string
  bp_TrackerVersion :: string
  bp_IsUnique :: bool
  bp_SessionID :: uuid
  bp_PageID :: uuid

record eventPayload =
  ep_Name :: string
  ep_Properties :: "(string \<times> string) list option"
  ep_Referrer :: "string option"
  ep_SessionID :: uuid
  ep_Path :: string
  ep_UserAgent :: "string option"
  ep_TrackerSource :: string
  ep_TrackerVersion :: string

record webVitalPayload =
  vp_Name :: string
  vp_Value :: rat
  vp_Path :: string
  vp_NavigationType :: string
  vp_MetricID :: string
  vp_SessionID :: uuid
  vp_PageID :: uuid
  vp_UserAgent :: "string option"
  vp_TrackerSource :: string
  vp_TrackerVersion :: string

datatype message = HitMessage Hit | EventMessage AnalyticsEvent | VitalMessage WebVital

text \<open>The context of the handlers, and what they change: two counters and the queue.\<close>

record ingest_env =
  ie_lib :: traffic_lib
  ie_region :: "string \<Rightarrow> string option"
  ie_lookup :: "addr \<Rightarrow> Metadata"
  ie_lookup_with :: "addr \<Rightarrow> string \<Rightarrow> Metadata"
  ie_trusted :: "netprefix list"
  ie_store :: ingest_store
  ie_filter :: "IPFilter option"
  ie_spam :: "SpamFilter option"
  ie_marshal_ok :: "message \<Rightarrow> bool"
  ie_publish_ok :: bool

record ingest_sys =
  is_rejections :: nat
  is_spam :: nat
  is_queue :: "message list"

definition recordRejection :: "ingest_sys \<Rightarrow> ingest_sys" where
  "recordRejection s = s\<lparr>is_rejections := is_rejections s + 1\<rparr>"

definition recordSpamDrop :: "ingest_sys \<Rightarrow> ingest_sys" where
  "recordSpamDrop s = s\<lparr>is_spam := is_spam s + 1\<rparr>"

definition rejected :: "nat \<Rightarrow> ingest_sys \<Rightarrow> nat \<times> ingest_sys" where
  "rejected code s = (code, recordRejection s)"

text \<open>The message is encoded and the queue takes it, or the request fails.\<close>

definition publishJSON :: "ingest_env \<Rightarrow> message \<Rightarrow> ingest_sys \<Rightarrow> nat \<times> ingest_sys" where
  "publishJSON E msg s = (if \<not> ie_marshal_ok E msg \<or> \<not> ie_publish_ok E then (500, s) else (202, s\<lparr>is_queue := is_queue s @ [msg]\<rparr>))"

definition stringPtrIfNotEmpty :: "string \<Rightarrow> string option" where
  "stringPtrIfNotEmpty v = (if TrimSpace v = [] then None else Some (TrimSpace v))"

definition intPtrIfPositive :: "int \<Rightarrow> int option" where
  "intPtrIfPositive v = (if v \<le> 0 then None else Some v)"

definition no_metadata :: Metadata where
  "no_metadata = \<lparr>md_CountryCode = [], md_Region = [], md_City = [], md_Provider = [], md_ASN = 0, md_ASNOrg = []\<rparr>"

definition metadataFromVisitorIP :: "ingest_env \<Rightarrow> string \<Rightarrow> Metadata" where
  "metadataFromVisitorIP E visitorIP =
     (case ParseAddr (ie_lib E) visitorIP of None \<Rightarrow> no_metadata | Some a \<Rightarrow> ie_lookup E a)"

definition metadataFromVisitorIPWithCountry :: "ingest_env \<Rightarrow> string \<Rightarrow> string \<Rightarrow> Metadata" where
  "metadataFromVisitorIPWithCountry E visitorIP countryCode =
     (case ParseAddr (ie_lib E) visitorIP of None \<Rightarrow> no_metadata | Some a \<Rightarrow> ie_lookup_with E a countryCode)"

subsection \<open>Browser requests\<close>

text \<open>The site of the origin, \<open>None\<close> when the request ends here with the given answer.\<close>

definition origin_domain :: "ingest_env \<Rightarrow> http_request \<Rightarrow> string option" where
  "origin_domain E r =
     (let origin = header_Get (hq_Header r) ''Origin'' in
      if origin = [] then None
      else map_option (\<lambda>u. normalizeOriginHostname (ie_lib E) (Hostname u)) (url_Parse (ie_lib E) origin))"

definition client_ip :: "ingest_env \<Rightarrow> http_request \<Rightarrow> string" where
  "client_ip E r = GetRealIP (ie_lib E) r (ie_trusted E)"

definition client_country :: "ingest_env \<Rightarrow> http_request \<Rightarrow> string" where
  "client_country E r = CountryCodeFromRequest (ie_region E) (ie_lib E) r (ie_trusted E) (\<lambda>a. md_CountryCode (ie_lookup E a))"

definition browser_site :: "ingest_env \<Rightarrow> http_request \<Rightarrow> ingest_sys \<Rightarrow> (nat \<times> ingest_sys) + string \<times> ingest_site" where
  "browser_site E r s =
     (case origin_domain E r of
        None \<Rightarrow> Inl (rejected 400 s)
      | Some domain \<Rightarrow>
          (case FindSiteByDomain domain (ie_store E) of
             Inl _ \<Rightarrow> Inl (500, s)
           | Inr None \<Rightarrow> Inl (rejected 202 s)
           | Inr (Some site) \<Rightarrow>
               if \<not> allowCustomTrackingHostForSite (ie_lib E) r (ie_trusted E) (si_ID site) (ie_store E) then Inl (rejected 202 s)
               else if (case ie_filter E of None \<Rightarrow> False
                        | Some f \<Rightarrow> Blocked (Evaluate (ie_lib E) f (si_ID site) (client_ip E r) (client_country E r)))
               then Inl (rejected 202 s)
               else Inr (domain, site)))"

definition traffic_excluded :: "ingest_env \<Rightarrow> uuid \<Rightarrow> string \<Rightarrow> string \<Rightarrow> string \<Rightarrow> string \<Rightarrow> bool" where
  "traffic_excluded E site ip country userAgent path =
     (case ie_filter E of None \<Rightarrow> False
      | Some f \<Rightarrow> Blocked (EvaluateTraffic (ie_lib E) f site
          \<lparr>tr_IP = ip, tr_CountryCode = country, tr_UserAgent = userAgent, tr_Path = path\<rparr>))"

definition spam_blocked :: "ingest_env \<Rightarrow> string \<Rightarrow> string \<Rightarrow> string option \<Rightarrow> bool" where
  "spam_blocked E domain ip referrer =
     (case ie_spam E of None \<Rightarrow> False | Some f \<Rightarrow> Blocked (spam_Evaluate (ie_lib E) f domain ip referrer))"

definition request_user_agent :: "http_request \<Rightarrow> string" where
  "request_user_agent r = header_Get (hq_Header r) ''User-Agent''"

definition browser_hit :: "ingest_env \<Rightarrow> http_request \<Rightarrow> time \<Rightarrow> string \<Rightarrow> ingest_site \<Rightarrow> browserIngestPayload \<Rightarrow> Hit" where
  "browser_hit E r now domain site p =
     (let country = client_country E r;
          metadata = metadataFromVisitorIPWithCountry E (client_ip E r) country;
          country = (if country = [] then md_CountryCode metadata else country)
      in \<lparr>h_ID = uuid_Nil, h_SiteID = si_ID site, h_SessionID = bp_SessionID p, h_PageID = bp_PageID p, h_Timestamp = now,
          h_Path = bp_Path p, h_Hostname = Some domain, h_Referrer = bp_Referrer p, h_UserAgent = bp_UserAgent p,
          h_ViewportWidth = bp_VPWidth p, h_ViewportHeight = bp_VPHeight p, h_ScreenWidth = bp_SCWidth p,
          h_ScreenHeight = bp_SCHeight p, h_Language = bp_Language p, h_CountryCode = stringPtrIfNotEmpty country,
          h_Region = stringPtrIfNotEmpty (md_Region metadata), h_City = stringPtrIfNotEmpty (md_City metadata),
          h_Provider = stringPtrIfNotEmpty (md_Provider metadata), h_ASN = intPtrIfPositive (md_ASN metadata),
          h_ASNOrg = stringPtrIfNotEmpty (md_ASNOrg metadata), h_UTMSource = bp_UTMSource p, h_UTMMedium = bp_UTMMedium p,
          h_UTMCampaign = bp_UTMCamp p, h_UTMTerm = bp_UTMTerm p, h_UTMContent = bp_UTMCont p, h_QRCodeID = bp_QRCodeID p,
          h_IsUnique = Some (bp_IsUnique p), h_TrackerSource = bp_TrackerSource p, h_TrackerVersion = bp_TrackerVersion p\<rparr>)"

definition handleIngestLeader :: "ingest_env \<Rightarrow> http_request \<Rightarrow> browserIngestPayload option \<Rightarrow> time \<Rightarrow> ingest_sys \<Rightarrow> nat \<times> ingest_sys" where
  "handleIngestLeader E r body now s =
     (case browser_site E r s of
        Inl answer \<Rightarrow> answer
      | Inr (domain, site) \<Rightarrow>
          (case body of
             None \<Rightarrow> rejected 400 s
           | Some payload \<Rightarrow>
               if traffic_excluded E (si_ID site) (client_ip E r) (client_country E r)
                    (trafficUserAgent (bp_UserAgent payload) (request_user_agent r)) (bp_Path payload)
               then rejected 202 s
               else if spam_blocked E (si_Domain site) (client_ip E r) (bp_Referrer payload) then (202, recordSpamDrop s)
               else publishJSON E (HitMessage (browser_hit E r now domain site payload)) s))"

definition handleIngestEventLeader :: "ingest_env \<Rightarrow> http_request \<Rightarrow> eventPayload option \<Rightarrow> time \<Rightarrow> ingest_sys \<Rightarrow> nat \<times> ingest_sys" where
  "handleIngestEventLeader E r body now s =
     (case browser_site E r s of
        Inl answer \<Rightarrow> answer
      | Inr (domain, site) \<Rightarrow>
          (case body of
             None \<Rightarrow> rejected 400 s
           | Some payload \<Rightarrow>
               if traffic_excluded E (si_ID site) (client_ip E r) (client_country E r)
                    (trafficUserAgent (ep_UserAgent payload) (request_user_agent r)) (ep_Path payload)
               then rejected 202 s
               else if spam_blocked E (si_Domain site) (client_ip E r) (ep_Referrer payload) then (202, recordSpamDrop s)
               else publishJSON E (EventMessage \<lparr>ae_ID = uuid_Nil, ae_SiteID = si_ID site, ae_SessionID = ep_SessionID payload,
                      ae_Name = ep_Name payload, ae_Properties = ep_Properties payload, ae_Timestamp = now,
                      ae_TrackerSource = ep_TrackerSource payload, ae_TrackerVersion = ep_TrackerVersion payload\<rparr>) s))"

subsection \<open>Web vitals\<close>

datatype WebVitalRating = WebVitalRatingGood | WebVitalRatingNeedsImprovement | WebVitalRatingPoor

definition thresholdRating :: "rat \<Rightarrow> rat \<Rightarrow> rat \<Rightarrow> WebVitalRating" where
  "thresholdRating v goodMax needsImprovementMax =
     (if v \<le> goodMax then WebVitalRatingGood
      else if v \<le> needsImprovementMax then WebVitalRatingNeedsImprovement else WebVitalRatingPoor)"

text \<open>The float64 nearest to 0.1.\<close>

definition float_tenth :: rat where
  "float_tenth = 3602879701896397 / 36028797018963968"

definition WebVitalRatingForValue :: "string \<Rightarrow> rat \<Rightarrow> WebVitalRating option" where
  "WebVitalRatingForValue metric v =
     (if v < 0 then None
      else if metric = ''LCP'' then Some (thresholdRating v 2500 4000)
      else if metric = ''INP'' then Some (thresholdRating v 200 500)
      else if metric = ''CLS'' then Some (thresholdRating v float_tenth (1 / 4))
      else if metric = ''FCP'' then Some (thresholdRating v 1800 3000)
      else if metric = ''TTFB'' then Some (thresholdRating v 800 1800)
      else None)"

definition trimWebVitalMetricID :: "string \<Rightarrow> string" where
  "trimWebVitalMetricID v = take 128 (TrimSpace v)"

definition trimTrackerField :: "string \<Rightarrow> string" where
  "trimTrackerField v = take 64 (TrimSpace v)"

definition normalizeWebVitalNavigationType :: "string \<Rightarrow> string option" where
  "normalizeWebVitalNavigationType v = (if trimTrackerField v = [] then None else Some (trimTrackerField v))"

definition sanitizeBrowserPath :: "('a, 'p) golib \<Rightarrow> string \<Rightarrow> string" where
  "sanitizeBrowserPath L rawPath =
     (let rawPath = TrimSpace rawPath in
      if rawPath = [] then []
      else case url_Parse L rawPath of
        None \<Rightarrow> []
      | Some parsed \<Rightarrow>
          let path = (if EscapedPath parsed = [] then ''/'' else EscapedPath parsed)
          in if \<not> prefix ''/'' path then [] else path)"

definition webVitalFromPayload :: "('a, 'p) golib \<Rightarrow> uuid \<Rightarrow> webVitalPayload \<Rightarrow> time \<Rightarrow> string + WebVital" where
  "webVitalFromPayload L site p timestamp =
     (let metric = TrimSpace (vp_Name p); path = sanitizeBrowserPath L (vp_Path p) in
      if WebVitalRatingForValue metric (vp_Value p) = None then Inl ''Invalid web vital metric or value''
      else if path = [] then Inl ''path is required''
      else if vp_SessionID p = uuid_Nil \<or> vp_PageID p = uuid_Nil then Inl ''session and page identifiers are required''
      else Inr \<lparr>wv_ID = uuid_Nil, wv_SiteID = site, wv_SessionID = vp_SessionID p, wv_PageID = vp_PageID p, wv_Metric = metric,
        wv_MetricID = trimWebVitalMetricID (vp_MetricID p), wv_Value = vp_Value p, wv_Path = path,
        wv_NavigationType = normalizeWebVitalNavigationType (vp_NavigationType p), wv_Timestamp = timestamp,
        wv_TrackerSource = trimTrackerField (vp_TrackerSource p), wv_TrackerVersion = trimTrackerField (vp_TrackerVersion p)\<rparr>)"

text \<open>The spam filter is asked before the body is read, without a referrer.\<close>

definition handleIngestWebVitalsLeader :: "ingest_env \<Rightarrow> http_request \<Rightarrow> webVitalPayload option \<Rightarrow> time \<Rightarrow> ingest_sys \<Rightarrow> nat \<times> ingest_sys" where
  "handleIngestWebVitalsLeader E r body now s =
     (case browser_site E r s of
        Inl answer \<Rightarrow> answer
      | Inr (domain, site) \<Rightarrow>
          if spam_blocked E (si_Domain site) (client_ip E r) None then (202, recordSpamDrop s)
          else (case body of
             None \<Rightarrow> rejected 400 s
           | Some payload \<Rightarrow>
               if traffic_excluded E (si_ID site) (client_ip E r) (client_country E r)
                    (trafficUserAgent (vp_UserAgent payload) (request_user_agent r)) (vp_Path payload)
               then rejected 202 s
               else (case webVitalFromPayload (ie_lib E) (si_ID site) payload now of
                  Inl _ \<Rightarrow> rejected 400 s
                | Inr vital \<Rightarrow> publishJSON E (VitalMessage vital) s)))"

text \<open>The routes of the browser drop what a prefetch or a prerender sends.\<close>

definition dropSpeculativeBrowserIngest :: "ingest_env \<Rightarrow> (http_request \<Rightarrow> ingest_sys \<Rightarrow> nat \<times> ingest_sys) \<Rightarrow> http_request \<Rightarrow> ingest_sys \<Rightarrow> nat \<times> ingest_sys" where
  "dropSpeculativeBrowserIngest E handler r s = (if speculative (ie_lib E) r then (202, s) else handler r s)"

end
