(* ===== verification/Ingest_Server.thy ===== *)
theory Ingest_Server
  imports Ingest_Handlers
begin

text \<open>
  Server-side ingestion with an API key or an OAuth token (\<open>server/ingest/handlers.go\<close>).  The
  request reaches the handlers behind \<open>RequireIntegrationAuth\<close>, with the credential in its
  context.  The raw query and the query values of a URL, \<open>time.Parse\<close> and the UUID decoders are
  parameters, as is the identifier that \<open>uuid.New\<close> returns.
\<close>

record server_lib =
  sl_RawQuery :: "string \<Rightarrow> string"
  sl_Query :: "string \<Rightarrow> string \<Rightarrow> string"
  sl_ParseTime :: "string \<Rightarrow> time option"
  sl_ParseUUID :: "string \<Rightarrow> uuid option"

text \<open>The credential of the request, with the audience of the OAuth provider (\<open>None\<close> without one).\<close>

record server_credential =
  sc_client :: "APIClientAuth option"
  sc_grant :: "OAuthGrant option"
  sc_audience :: "string option"

text \<open>The fields page views and events share; \<open>sv_SiteID\<close> is the decoded site of the body.\<close>

record server_request =
  sv_URL :: string
  sv_Timestamp :: string
  sv_VisitorIP :: string
  sv_UserAgent :: string
  sv_SiteID :: "uuid option"
  sv_Referrer :: "string option"
  sv_DNT :: bool
  sv_SessionID :: uuid

record ServerPageviewIngestRequest = server_request +
  sp_VPWidth :: "int option"
  sp_VPHeight :: "int option"
  sp_SCWidth :: "int option"
  sp_SCHeight :: "int option"
  sp_Language :: "string option"
  sp_PageID :: uuid

record ServerEventIngestRequest = server_request +
  se_Name :: string
  se_Properties :: "(string \<times> string) list option"

record serverIngestContext =
  sx_site :: ingest_site
  sx_domain :: string
  sx_path :: string
  sx_timestamp :: time
  sx_visitorIP :: string
  sx_userAgent :: string
  sx_utm :: "string \<Rightarrow> string"

definition parseServerIngestURL :: "server_lib \<Rightarrow> traffic_lib \<Rightarrow> string \<Rightarrow> (string \<times> string) option" where
  "parseServerIngestURL S L rawURL =
     (case url_Parse L (TrimSpace rawURL) of
        None \<Rightarrow> None
      | Some u \<Rightarrow>
          if Scheme u \<noteq> ''http'' \<and> Scheme u \<noteq> ''https'' then None
          else let domain = normalizeOriginHostname L (Hostname u) in
            if domain = [] then None
            else let path = (if EscapedPath u = [] then ''/'' else EscapedPath u);
                     query = sl_RawQuery S (TrimSpace rawURL)
                 in Some (domain, if query \<noteq> [] then path @ ''?'' @ query else path))"

definition apiClientCanManageSiteData :: "traffic_lib \<Rightarrow> APIClientAuth option \<Rightarrow> uuid \<Rightarrow> bool" where
  "apiClientCanManageSiteData L auth site =
     (case auth of None \<Rightarrow> False
      | Some a \<Rightarrow> (case map_of (ac_SiteRoles a) site of None \<Rightarrow> False | Some role \<Rightarrow> site_HasPermission L role PermSiteManageData))"

text \<open>The site the body selects, which only an OAuth request has to name.\<close>

definition selected_site :: "OAuthGrant option \<Rightarrow> 'b server_request_scheme \<Rightarrow> uuid option option" where
  "selected_site grant q =
     (if grant = None then Some None
      else case sv_SiteID q of None \<Rightarrow> None | Some site \<Rightarrow> if site = uuid_Nil then None else Some (Some site))"

definition server_access :: "ingest_env \<Rightarrow> server_credential \<Rightarrow> uuid option \<Rightarrow> uuid \<Rightarrow> nat option" where
  "server_access E c selected site =
     (case sc_grant c of
        Some g \<Rightarrow>
          if selected \<noteq> Some site then Some 403
          else (case sc_audience c of
             None \<Rightarrow> Some 503
           | Some audience \<Rightarrow>
               (case AuthorizeOAuthSite (ie_lib E) (Some (st_roles (ie_store E))) (Some g) site audience ''ingest:write'' PermSiteManageData of
                  Inl _ \<Rightarrow> Some 403 | Inr _ \<Rightarrow> None))
      | None \<Rightarrow> if \<not> apiClientCanManageSiteData (ie_lib E) (sc_client c) site then Some 403 else None)"

definition resolveServerIngestContext ::
  "server_lib \<Rightarrow> ingest_env \<Rightarrow> server_credential \<Rightarrow> 'b server_request_scheme \<Rightarrow> ingest_sys \<Rightarrow> (nat \<times> ingest_sys) + serverIngestContext" where
  "resolveServerIngestContext S E c q s =
     (if sc_client c = None \<and> sc_grant c = None then Inl (401, s)
      else case selected_site (sc_grant c) q of
        None \<Rightarrow> Inl (400, s)
      | Some selected \<Rightarrow>
     (case parseServerIngestURL S (ie_lib E) (sv_URL q) of
        None \<Rightarrow> Inl (rejected 400 s)
      | Some (domain, path) \<Rightarrow>
     (case sl_ParseTime S (TrimSpace (sv_Timestamp q)) of
        None \<Rightarrow> Inl (rejected 400 s)
      | Some timestamp \<Rightarrow>
     if netip_ParseAddr (ie_lib E) (TrimSpace (sv_VisitorIP q)) = None then Inl (rejected 400 s)
     else if TrimSpace (sv_UserAgent q) = [] then Inl (rejected 400 s)
     else (case FindSiteByDomain domain (ie_store E) of
        Inl _ \<Rightarrow> Inl (500, s)
      | Inr None \<Rightarrow> Inl (rejected 404 s)
      | Inr (Some site) \<Rightarrow>
     (case server_access E c selected (si_ID site) of
        Some code \<Rightarrow> Inl (code, s)
      | None \<Rightarrow> Inr \<lparr>sx_site = site, sx_domain = domain, sx_path = path, sx_timestamp = timestamp,
          sx_visitorIP = TrimSpace (sv_VisitorIP q), sx_userAgent = TrimSpace (sv_UserAgent q),
          sx_utm = sl_Query S (TrimSpace (sv_URL q))\<rparr>)))))"

definition queryValuePtr :: "(string \<Rightarrow> string) \<Rightarrow> string \<Rightarrow> string option" where
  "queryValuePtr values key = (if TrimSpace (values key) = [] then None else Some (TrimSpace (values key)))"

definition queryUUIDPtr :: "server_lib \<Rightarrow> (string \<Rightarrow> string) \<Rightarrow> string \<Rightarrow> uuid option" where
  "queryUUIDPtr S values key = (if TrimSpace (values key) = [] then None else sl_ParseUUID S (TrimSpace (values key)))"

text \<open>The country of a visitor is asked as if the visitor had connected itself, without headers.\<close>

definition visitor_request :: "string \<Rightarrow> http_request" where
  "visitor_request visitorIP = \<lparr>hq_RemoteAddr = (if CHR '':'' \<in> set visitorIP then ''['' @ visitorIP @ '']:0'' else visitorIP @ '':0''),
     hq_Host = [], hq_Header = (\<lambda>_. [])\<rparr>"

definition countryCodeFromVisitorIP :: "ingest_env \<Rightarrow> string \<Rightarrow> string" where
  "countryCodeFromVisitorIP E visitorIP =
     CountryCodeFromRequest (ie_region E) (ie_lib E) (visitor_request visitorIP) (ie_trusted E) (\<lambda>a. md_CountryCode (ie_lookup E a))"

definition geoNetworkFromVisitorIP :: "ingest_env \<Rightarrow> string \<Rightarrow> string option \<times> Metadata" where
  "geoNetworkFromVisitorIP E visitorIP =
     (let metadata = metadataFromVisitorIP E visitorIP;
          country = CountryCodeFromRequest (ie_region E) (ie_lib E) (visitor_request visitorIP) (ie_trusted E) (\<lambda>_. md_CountryCode metadata)
      in (stringPtrIfNotEmpty country, metadata))"

definition string_value :: "string option \<Rightarrow> string" where
  "string_value v = (case v of None \<Rightarrow> [] | Some x \<Rightarrow> x)"

definition server_hit :: "server_lib \<Rightarrow> ingest_env \<Rightarrow> uuid \<Rightarrow> uuid \<Rightarrow> serverIngestContext \<Rightarrow> ServerPageviewIngestRequest \<Rightarrow> Hit" where
  "server_hit S E new_session new_page x q =
     (let (country, metadata) = geoNetworkFromVisitorIP E (sx_visitorIP x) in
      \<lparr>h_ID = uuid_Nil, h_SiteID = si_ID (sx_site x),
       h_SessionID = (if sv_SessionID q = uuid_Nil then new_session else sv_SessionID q),
       h_PageID = (if sp_PageID q = uuid_Nil then new_page else sp_PageID q), h_Timestamp = sx_timestamp x,
       h_Path = sx_path x, h_Hostname = Some (sx_domain x), h_Referrer = sv_Referrer q, h_UserAgent = Some (sx_userAgent x),
       h_ViewportWidth = sp_VPWidth q, h_ViewportHeight = sp_VPHeight q, h_ScreenWidth = sp_SCWidth q,
       h_ScreenHeight = sp_SCHeight q, h_Language = sp_Language q, h_CountryCode = country,
       h_Region = stringPtrIfNotEmpty (md_Region metadata), h_City = stringPtrIfNotEmpty (md_City metadata),
       h_Provider = stringPtrIfNotEmpty (md_Provider metadata), h_ASN = intPtrIfPositive (md_ASN metadata),
       h_ASNOrg = stringPtrIfNotEmpty (md_ASNOrg metadata), h_UTMSource = queryValuePtr (sx_utm x) ''utm_source'',
       h_UTMMedium = queryValuePtr (sx_utm x) ''utm_medium'', h_UTMCampaign = queryValuePtr (sx_utm x) ''utm_campaign'',
       h_UTMTerm = queryValuePtr (sx_utm x) ''utm_term'', h_UTMContent = queryValuePtr (sx_utm x) ''utm_content'',
       h_QRCodeID = queryUUIDPtr S (sx_utm x) ''hk_qr'', h_IsUnique = None, h_TrackerSource = [], h_TrackerVersion = []\<rparr>)"

text \<open>Whether the filters drop a server-side request, and which counter they raise.\<close>

definition server_filtered :: "ingest_env \<Rightarrow> serverIngestContext \<Rightarrow> string \<Rightarrow> string option \<Rightarrow> ingest_sys \<Rightarrow> (nat \<times> ingest_sys) option" where
  "server_filtered E x country referrer s =
     (if traffic_excluded E (si_ID (sx_site x)) (sx_visitorIP x) country (sx_userAgent x) (sx_path x) then Some (rejected 202 s)
      else if spam_blocked E (si_Domain (sx_site x)) (sx_visitorIP x) referrer then Some (202, recordSpamDrop s)
      else None)"

definition handleServerPageviewIngestLeader ::
  "server_lib \<Rightarrow> ingest_env \<Rightarrow> server_credential \<Rightarrow> ServerPageviewIngestRequest option \<Rightarrow> uuid \<Rightarrow> uuid \<Rightarrow> ingest_sys \<Rightarrow> nat \<times> ingest_sys" where
  "handleServerPageviewIngestLeader S E c body new_session new_page s =
     (case body of
        None \<Rightarrow> rejected 400 s
      | Some q \<Rightarrow>
          (case resolveServerIngestContext S E c q s of
             Inl answer \<Rightarrow> answer
           | Inr x \<Rightarrow>
               if sv_DNT q then (202, s)
               else (case server_filtered E x (string_value (fst (geoNetworkFromVisitorIP E (sx_visitorIP x)))) (sv_Referrer q) s of
                  Some answer \<Rightarrow> answer
                | None \<Rightarrow> publishJSON E (HitMessage (server_hit S E new_session new_page x q)) s)))"

definition handleServerEventIngestLeader ::
  "server_lib \<Rightarrow> ingest_env \<Rightarrow> server_credential \<Rightarrow> ServerEventIngestRequest option \<Rightarrow> uuid \<Rightarrow> ingest_sys \<Rightarrow> nat \<times> ingest_sys" where
  "handleServerEventIngestLeader S E c body new_session s =
     (case body of
        None \<Rightarrow> rejected 400 s
      | Some q \<Rightarrow>
          (case resolveServerIngestContext S E c q s of
             Inl answer \<Rightarrow> answer
           | Inr x \<Rightarrow>
               if TrimSpace (se_Name q) = [] then rejected 400 s
               else if sv_DNT q then (202, s)
               else (case server_filtered E x (countryCodeFromVisitorIP E (sx_visitorIP x)) (sv_Referrer q) s of
                  Some answer \<Rightarrow> answer
                | None \<Rightarrow> publishJSON E (EventMessage \<lparr>ae_ID = uuid_Nil, ae_SiteID = si_ID (sx_site x),
                    ae_SessionID = (if sv_SessionID q = uuid_Nil then new_session else sv_SessionID q), ae_Name = TrimSpace (se_Name q),
                    ae_Properties = Some (case se_Properties q of None \<Rightarrow> [] | Some p \<Rightarrow> p), ae_Timestamp = sx_timestamp x,
                    ae_TrackerSource = [], ae_TrackerVersion = []\<rparr>) s)))"

end
