(* ===== verification/Ingest_Samples.thy ===== *)
theory Ingest_Samples
  imports Ingest_Server
begin

text \<open>An environment with one site and one trusted network, in which the handlers are evaluated.\<close>

definition ingest_lib :: traffic_lib where
  "ingest_lib = sample_lib\<lparr>
     url_Parse := (\<lambda>_. Some \<lparr>Scheme = ''https'', HasUser = False, Host = ''example.org'', Hostname = ''example.org'',
        UrlPath = ''/'', EscapedPath = ''/'', Fragment = []\<rparr>),
     netip_ParseAddr := (\<lambda>t. if t = ''10.0.0.1'' then Some (V4 0x0A000001) else if t = ''203.0.113.9'' then Some (V4 0xCB007109) else None),
     addr_String := (\<lambda>a. if a = V4 0x0A000001 then ''10.0.0.1'' else ''203.0.113.9''),
     SplitHostPort := (\<lambda>t. if t = ''203.0.113.9:5'' then Some (''203.0.113.9'', ''5'')
        else if t = ''10.0.0.1:8'' then Some (''10.0.0.1'', ''8'') else None)\<rparr>"

definition inner_net :: netprefix where
  "inner_net = \<lparr>prefix_Addr = V4 0x0A000000, prefix_Bits = 8\<rparr>"

definition sample_site :: ingest_site where
  "sample_site = \<lparr>si_ID = 4, si_UserID = 2, si_Domain = ''example.org'', si_CreatedAt = 0\<rparr>"

definition sample_ingest_store :: ingest_store where
  "sample_ingest_store = \<lparr>st_roles = Role_Store.sample_db, st_sites_ok = True, st_sites = [sample_site], st_site_cache = (\<lambda>_. None),
     st_domains_ok = True, st_domains = [], st_domain_cache = (\<lambda>_. None), st_tenant_cache = (\<lambda>_. None)\<rparr>"

definition sample_ingest_env :: ingest_env where
  "sample_ingest_env = \<lparr>ie_lib = ingest_lib, ie_region = Some, ie_lookup = (\<lambda>_. no_metadata), ie_lookup_with = (\<lambda>_ _. no_metadata),
     ie_trusted = [inner_net], ie_store = sample_ingest_store, ie_filter = None, ie_spam = None, ie_marshal_ok = (\<lambda>_. True), ie_publish_ok = True\<rparr>"

definition sample_http :: http_request where
  "sample_http = \<lparr>hq_RemoteAddr = ''203.0.113.9:5'', hq_Host = [], hq_Header = (\<lambda>k. if k = ''Origin'' then [''https://example.org''] else [])\<rparr>"

definition empty_ingest :: ingest_sys where
  "empty_ingest = \<lparr>is_rejections = 0, is_spam = 0, is_queue = []\<rparr>"

lemma ingest_lib_fields [simp]:
  "url_Parse ingest_lib t = Some \<lparr>Scheme = ''https'', HasUser = False, Host = ''example.org'', Hostname = ''example.org'',
        UrlPath = ''/'', EscapedPath = ''/'', Fragment = []\<rparr>"
  "netip_ParseAddr ingest_lib t = (if t = ''10.0.0.1'' then Some (V4 0x0A000001) else if t = ''203.0.113.9'' then Some (V4 0xCB007109) else None)"
  "addr_String ingest_lib a = (if a = V4 0x0A000001 then ''10.0.0.1'' else ''203.0.113.9'')"
  "SplitHostPort ingest_lib t = (if t = ''203.0.113.9:5'' then Some (''203.0.113.9'', ''5'')
        else if t = ''10.0.0.1:8'' then Some (''10.0.0.1'', ''8'') else None)"
  by (simp_all add: ingest_lib_def)

lemma sample_env_fields [simp]:
  "ie_lib sample_ingest_env = ingest_lib" "ie_trusted sample_ingest_env = [inner_net]" "ie_store sample_ingest_env = sample_ingest_store"
  "ie_filter sample_ingest_env = None" "ie_spam sample_ingest_env = None" "ie_publish_ok sample_ingest_env" "ie_marshal_ok sample_ingest_env m"
  by (simp_all add: sample_ingest_env_def)

lemma sample_parse:
  "ParseAddr ingest_lib ''203.0.113.9'' = Some (V4 0xCB007109)" "ParseAddr ingest_lib ''10.0.0.1'' = Some (V4 0x0A000001)"
  "RemoteIPFromAddr ingest_lib ''203.0.113.9:5'' = ''203.0.113.9''" "RemoteIPFromAddr ingest_lib ''10.0.0.1:8'' = ''10.0.0.1''"
  by (simp_all add: ParseAddr_def RemoteIPFromAddr_def TrimSpace_graphic graphic_def)

lemma sample_trust:
  "\<not> IsTrustedProxy (V4 0xCB007109) [inner_net]" "IsTrustedProxy (V4 0x0A000001) [inner_net]"
  "\<not> isAddrInNetworks (V4 0xCB007109) [inner_net]"
  by (simp_all add: IsTrustedProxy_def isAddrInNetworks_def inner_net_def Contains_def prefix_IsValid_def)

lemma sample_origin:
  "origin_domain sample_ingest_env sample_http = Some ''example.org''"
  by (simp add: origin_domain_def header_Get_def sample_http_def normalizeOriginHostname_def TrimSpace_graphic graphic_def
      ToLower_def is_ascii_def lower_byte_def TrimPrefix_def)

lemma sample_found:
  "FindSiteByDomain ''example.org'' sample_ingest_store = Inr (Some sample_site)"
  by (simp add: FindSiteByDomain_def querySiteByDomain_def sample_ingest_store_def sample_site_def)

lemma sample_host: "trackingRequestHostname ingest_lib sample_http [inner_net] = []"
  using sample_parse(1,3) sample_trust(1)
  by (simp add: trackingRequestHostname_def isTrustedTrackingProxyRequest_def sample_http_def normalizeTrackingRequestHost_def Let_def)

lemma sample_host_allowed: "allowCustomTrackingHostForSite ingest_lib sample_http [inner_net] site st"
  by (simp add: allowCustomTrackingHostForSite_def sample_host)

end
