(* ===== verification/Ingest_Promises.thy ===== *)
theory Ingest_Promises
  imports Ingest_Samples
begin

text \<open>
  What the ingest handlers promise: whose address a request has, which requests are queued, that
  excluded traffic is not, and that a server-side request has the authority it needs.
\<close>

subsection \<open>The client behind trusted proxies\<close>

lemma real_ip_untrusted:
  assumes "ParseAddr L (RemoteIPFromAddr L (hq_RemoteAddr r)) = Some peer" and "\<not> IsTrustedProxy peer nets"
  shows "GetRealIP L r nets = addr_String L peer"
  using assms by (simp add: GetRealIP_def Let_def)

lemma real_ip_hops:
  assumes "ParseAddr L (RemoteIPFromAddr L (hq_RemoteAddr r)) = Some peer" and "IsTrustedProxy peer nets"
    and "\<forall>n \<in> set vendor_headers. firstValidHeaderIP L (hq_Header r) n = None"
  shows "GetRealIP L r nets = addr_String L (case untrusted_hop L nets (rev (allHeaderTokens (hq_Header r ''X-Forwarded-For''))) of
     Some ip \<Rightarrow> ip | None \<Rightarrow> peer)"
proof -
  have "first_some (map (firstValidHeaderIP L (hq_Header r)) vendor_headers) = None" using assms(3) by simp
  moreover have "nets \<noteq> []" using assms(2) by (auto simp: IsTrustedProxy_def)
  ultimately show ?thesis using assms(1,2) by (simp add: GetRealIP_def Let_def del: first_some_None split: option.split)
qed

text \<open>
  C32. The client address is not spoofed. What an untrusted peer writes into its headers does not matter:
  the address is that of the connection.  Behind a trusted proxy that sets none of the four vendor
  headers, the address is the last address of \<open>X-Forwarded-For\<close> outside the trusted networks, so
  nothing a client puts in front of it changes the result.
\<close>

theorem client_address_not_spoofed:
  assumes "ParseAddr L (RemoteIPFromAddr L (hq_RemoteAddr r)) = Some peer"
  shows "(\<not> IsTrustedProxy peer nets \<longrightarrow> (\<forall>forged. GetRealIP L (r\<lparr>hq_Header := forged\<rparr>) nets = addr_String L peer))
    \<and> (IsTrustedProxy peer nets \<and> (\<forall>n \<in> set vendor_headers. firstValidHeaderIP L (hq_Header r) n = None) \<longrightarrow>
        (\<forall>forged client a hops. allHeaderTokens (hq_Header r ''X-Forwarded-For'') = forged @ client # hops
           \<and> ParseAddr L client = Some a \<and> \<not> isAddrInNetworks a nets \<and> list_all (trusted_or_junk L nets) hops
           \<longrightarrow> GetRealIP L r nets = addr_String L a))"
proof (intro conjI impI allI)
  fix forged
  assume "\<not> IsTrustedProxy peer nets"
  then show "GetRealIP L (r\<lparr>hq_Header := forged\<rparr>) nets = addr_String L peer"
    by (intro real_ip_untrusted) (simp_all add: assms)
next
  fix forged client a hops
  assume t: "IsTrustedProxy peer nets \<and> (\<forall>n \<in> set vendor_headers. firstValidHeaderIP L (hq_Header r) n = None)"
    and hops: "allHeaderTokens (hq_Header r ''X-Forwarded-For'') = forged @ client # hops
       \<and> ParseAddr L client = Some a \<and> \<not> isAddrInNetworks a nets \<and> list_all (trusted_or_junk L nets) hops"
  have "untrusted_hop L nets (rev hops @ client # rev forged) = Some a"
    using hops by (subst untrusted_hop_skip) (simp_all add: list_all_iff)
  then show "GetRealIP L r nets = addr_String L a" using real_ip_hops [OF assms, of nets] t hops by simp
qed

subsection \<open>Forwarding to the leader\<close>

lemma tokens_joined:
  assumes "host \<noteq> []" and "CHR '','' \<notin> set host" and "TrimSpace host = host"
  shows "allHeaderTokens [concat (map (\<lambda>v. v @ '', '') prior) @ host] = allHeaderTokens prior @ [host]"
proof (induction prior)
  case Nil
  have "Split (CHR '','') host = [host]" if "CHR '','' \<notin> set host" for host
    using that by (induction "CHR '',''" host rule: Split.induct) auto
  then show ?case using assms by (simp add: allHeaderTokens_def)
next
  case (Cons v prior)
  let ?rest = "concat (map (\<lambda>v. v @ '', '') prior) @ host"
  have space: "allHeaderTokens [CHR '' '' # s] = allHeaderTokens [s]" for s
    by (cases s; cases "Split (CHR '','') s") (auto simp: allHeaderTokens_def TrimSpace_space split: list.splits)
  have "allHeaderTokens [concat (map (\<lambda>v. v @ '', '') (v # prior)) @ host] = allHeaderTokens [v] @ allHeaderTokens [CHR '' '' # ?rest]"
    using allHeaderTokens_comma [of v "CHR '' '' # ?rest"] by simp
  then show ?case using Cons space [of ?rest] allHeaderTokens_append [of "[v]" prior] by simp
qed

lemma forwarded_tokens:
  assumes "SplitHostPort L (hq_RemoteAddr r) = Some (host, port)" and "host \<noteq> []" and "CHR '','' \<notin> set host" and "TrimSpace host = host"
  shows "allHeaderTokens (hq_Header (forwardToLeader L dropped scheme follower r) ''X-Forwarded-For'')
     = allHeaderTokens (hq_Header r ''X-Forwarded-For'') @ [host]"
proof (cases "hq_Header r ''X-Forwarded-For''")
  case Nil
  then show ?thesis
    using assms(1) tokens_joined [OF assms(2-4), of "[]"] by (simp add: forwardToLeader_def follower_hop_def)
next
  case (Cons v prior)
  then have "hq_Header (forwardToLeader L dropped scheme follower r) ''X-Forwarded-For'' = [concat (map (\<lambda>v. v @ '', '') (v # prior)) @ host]"
    using assms(1) by (simp add: forwardToLeader_def follower_hop_def)
  then show ?thesis using tokens_joined [OF assms(2-4), of "v # prior"] Cons by simp
qed

lemma forwarded_vendor:
  assumes "n \<in> set vendor_headers" and "firstValidHeaderIP L (hq_Header r) n = None"
  shows "firstValidHeaderIP L (hq_Header (forwardToLeader L dropped scheme follower r)) n = None"
proof -
  have "hq_Header (forwardToLeader L dropped scheme follower r) n = [] \<or> hq_Header (forwardToLeader L dropped scheme follower r) n = hq_Header r n"
    using assms(1) by (auto simp: vendor_headers_def forwardToLeader_def)
  then show ?thesis using assms(2) by (auto simp: firstValidHeaderIP_def)
qed

text \<open>
  C33. What the leader takes as the client of a request that a follower handed on.  The request has no
  vendor header, its peer is an address that is not an IPv4 address in IPv6 form, and the leader trusts
  the follower.  When the peer or one of the hops is not a trusted proxy, the leader takes the address
  that the follower takes; when all of them are trusted proxies the two differ, as the leader takes the
  address of the follower itself.
\<close>

theorem forwarding_preserves_client:
  assumes split: "SplitHostPort L (hq_RemoteAddr r) = Some (host, port)" and host: "host \<noteq> []" "CHR '','' \<notin> set host" "TrimSpace host = host"
    and remote: "TrimSpace (hq_RemoteAddr r) = hq_RemoteAddr r" "hq_RemoteAddr r \<noteq> []"
    and peer: "ParseAddr L host = Some peer" "ParseAddr L (addr_String L peer) = Some peer" "Unmap peer = peer"
    and follower: "ParseAddr L (RemoteIPFromAddr L follower) = Some fa" "IsTrustedProxy fa nets"
    and vendor: "\<forall>n \<in> set vendor_headers. firstValidHeaderIP L (hq_Header r) n = None"
  shows "GetRealIP L (forwardToLeader L dropped scheme follower r) nets =
     (if IsTrustedProxy peer nets \<and> list_all (trusted_or_junk L nets) (allHeaderTokens (hq_Header r ''X-Forwarded-For''))
      then addr_String L fa else GetRealIP L r nets)"
proof -
  let ?r = "forwardToLeader L dropped scheme follower r"
  let ?hops = "allHeaderTokens (hq_Header r ''X-Forwarded-For'')"
  have nets: "nets \<noteq> []" using follower(2) by (auto simp: IsTrustedProxy_def)
  have direct: "ParseAddr L (RemoteIPFromAddr L (hq_RemoteAddr r)) = Some peer"
    using split remote peer by (simp add: RemoteIPFromAddr_def Let_def)
  have leader: "GetRealIP L ?r nets = addr_String L (case untrusted_hop L nets (host # rev ?hops) of Some ip \<Rightarrow> ip | None \<Rightarrow> fa)"
    using real_ip_hops [of L ?r fa nets] follower forwarded_vendor vendor forwarded_tokens [OF split host, of dropped scheme follower]
    by (simp add: forwardToLeader_def)
  show ?thesis
  proof (cases "IsTrustedProxy peer nets")
    case False
    then have "untrusted_hop L nets (host # rev ?hops) = Some peer" using peer(1) nets by (simp add: IsTrustedProxy_def)
    then show ?thesis using leader real_ip_untrusted [OF direct False] False by simp
  next
    case True
    then have "untrusted_hop L nets (host # rev ?hops) = untrusted_hop L nets (rev ?hops)" using peer(1) nets by (simp add: IsTrustedProxy_def)
    then show ?thesis
      using leader real_ip_hops [OF direct True vendor] True untrusted_hop_None [of L nets "rev ?hops"]
      by (auto simp: list_all_iff split: option.split)
  qed
qed

text \<open>
  The vendor headers of an untrusted client travel with the request: the leader believes them, as they
  come from a follower it trusts, where the follower itself would not.
\<close>

lemma follower_launders_vendor_header:
  assumes "ParseAddr L (RemoteIPFromAddr L (hq_RemoteAddr r)) = Some peer" and "\<not> IsTrustedProxy peer nets"
    and "ParseAddr L (RemoteIPFromAddr L follower) = Some fa" and "IsTrustedProxy fa nets"
    and "firstValidHeaderIP L (hq_Header r) ''Cf-Connecting-Ip'' = Some forged" and "''Cf-Connecting-Ip'' \<notin> dropped (hq_Header r)"
  shows "GetRealIP L r nets = addr_String L peer" and "GetRealIP L (forwardToLeader L dropped scheme follower r) nets = addr_String L forged"
proof -
  show "GetRealIP L r nets = addr_String L peer" by (rule real_ip_untrusted [OF assms(1,2)])
  have "hq_Header (forwardToLeader L dropped scheme follower r) ''Cf-Connecting-Ip'' = hq_Header r ''Cf-Connecting-Ip''"
    "hq_RemoteAddr (forwardToLeader L dropped scheme follower r) = follower"
    using assms(6) by (simp_all add: forwardToLeader_def)
  then show "GetRealIP L (forwardToLeader L dropped scheme follower r) nets = addr_String L forged"
    using assms(3-5) by (simp add: GetRealIP_def Let_def vendor_headers_def firstValidHeaderIP_def)
qed

subsection \<open>A client, a proxy and a follower\<close>

definition proxied_http :: http_request where
  "proxied_http = \<lparr>hq_RemoteAddr = ''10.0.0.1:8'', hq_Host = [],
     hq_Header = (\<lambda>k. if k = ''X-Forwarded-For'' then [''10.0.0.1,203.0.113.9''] else [])\<rparr>"

lemma proxied_tokens: "allHeaderTokens [''10.0.0.1,203.0.113.9''] = [''10.0.0.1''] @ ''203.0.113.9'' # []"
  by (simp add: allHeaderTokens_def TrimSpace_graphic graphic_def)

lemma proxied_vendor: "\<forall>n \<in> set vendor_headers. firstValidHeaderIP ingest_lib (hq_Header proxied_http) n = None"
  by (simp add: vendor_headers_def proxied_http_def firstValidHeaderIP_def)

theorem client_address_not_spoofed_witness:
  "GetRealIP ingest_lib proxied_http [inner_net] = ''203.0.113.9''
   \<and> GetRealIP ingest_lib (sample_http\<lparr>hq_Header := \<lambda>_. [''10.0.0.1'']\<rparr>) [inner_net] = ''203.0.113.9''"
proof -
  have "ParseAddr ingest_lib (RemoteIPFromAddr ingest_lib (hq_RemoteAddr proxied_http)) = Some (V4 0x0A000001)"
    "ParseAddr ingest_lib (RemoteIPFromAddr ingest_lib (hq_RemoteAddr sample_http)) = Some (V4 0xCB007109)"
    by (simp_all add: proxied_http_def sample_http_def sample_parse)
  note c = client_address_not_spoofed [OF this(1), of "[inner_net]"] client_address_not_spoofed [OF this(2), of "[inner_net]"]
  have t: "allHeaderTokens (hq_Header proxied_http ''X-Forwarded-For'') = [''10.0.0.1''] @ ''203.0.113.9'' # []"
    using proxied_tokens by (simp add: proxied_http_def)
  have "GetRealIP ingest_lib proxied_http [inner_net] = addr_String ingest_lib (V4 0xCB007109)"
    by (rule c(1) [THEN conjunct2, rule_format, where forged = "[''10.0.0.1'']" and client = "''203.0.113.9''" and hops = "[]"])
      (use t proxied_vendor sample_trust sample_parse in simp_all)
  moreover have "GetRealIP ingest_lib (sample_http\<lparr>hq_Header := \<lambda>_. [''10.0.0.1'']\<rparr>) [inner_net] = addr_String ingest_lib (V4 0xCB007109)"
    using c(2) sample_trust by blast
  ultimately show ?thesis by simp
qed

theorem forwarding_preserves_client_witness:
  "GetRealIP ingest_lib (forwardToLeader ingest_lib (\<lambda>_. {}) ''http'' ''10.0.0.1:8'' sample_http) [inner_net] = ''203.0.113.9''"
proof -
  have "GetRealIP ingest_lib (forwardToLeader ingest_lib (\<lambda>_. {}) ''http'' ''10.0.0.1:8'' sample_http) [inner_net]
     = GetRealIP ingest_lib sample_http [inner_net]"
    by (subst forwarding_preserves_client [where host = "''203.0.113.9''" and port = "''5''" and peer = "V4 0xCB007109" and fa = "V4 0x0A000001"])
      (simp_all add: sample_http_def TrimSpace_graphic graphic_def sample_parse sample_trust vendor_headers_def firstValidHeaderIP_def)
  also have "\<dots> = addr_String ingest_lib (V4 0xCB007109)"
    by (rule real_ip_untrusted) (simp_all add: sample_http_def sample_parse sample_trust)
  finally show ?thesis by simp
qed

end
