(* ===== verification/Ingest_Store.thy ===== *)
theory Ingest_Store
  imports Ingest_Handlers Webhook_Dispatch Realtime
begin

text \<open>
  Storing what was queued (\<open>database/store_ingest_idempotent.go\<close>, \<open>store_hit.go\<close>,
  \<open>store_event.go\<close>, \<open>store_web_vitals.go\<close>) and what the consumer does with stored rows
  (\<open>ingest/consumer.go\<close>): realtime changes and goal conversions for webhooks.  The analytics
  database of a team answers its statements with the outcomes it has in stock; an append that breaks has
  stored a part of its rows, since closing a DuckDB appender flushes it.  The batches hold no nil pointers.
\<close>

subsection \<open>The analytics database of a team\<close>

record Goal =
  go_ID :: uuid
  go_SiteID :: uuid
  go_Name :: string
  go_Type :: string
  go_Value :: string
  go_CreatedAt :: time

datatype outcome = Works | Breaks nat

record analytics_db =
  an_hits :: "Hit list"
  an_events :: "AnalyticsEvent list"
  an_vitals :: "WebVital list"
  an_goals :: "Goal list"
  an_outcomes :: "outcome list"

definition next_outcome :: "analytics_db \<Rightarrow> outcome \<times> analytics_db" where
  "next_outcome db = (case an_outcomes db of [] \<Rightarrow> (Works, db) | x # xs \<Rightarrow> (x, db\<lparr>an_outcomes := xs\<rparr>))"

text \<open>The loop over the rows: rows without an identifier and rows that are stored or came before are left out.\<close>

fun missing_rows :: "('v \<Rightarrow> uuid) \<Rightarrow> uuid set \<Rightarrow> 'v list \<Rightarrow> 'v list" where
  "missing_rows key existing [] = []"
| "missing_rows key existing (row # rows) =
     (if key row = uuid_Nil \<or> key row \<in> existing then missing_rows key existing rows
      else row # missing_rows key (insert (key row) existing) rows)"

definition filterMissingIngestRows ::
  "('v \<Rightarrow> uuid) \<Rightarrow> (analytics_db \<Rightarrow> 'v list) \<Rightarrow> 'v list \<Rightarrow> analytics_db \<Rightarrow> (unit + 'v list) \<times> analytics_db" where
  "filterMissingIngestRows key stored rows db =
     (let ids = filter (\<lambda>i. i \<noteq> uuid_Nil) (map key rows) in
      if ids = [] then (Inr [], db)
      else case next_outcome db of
        (Breaks _, db) \<Rightarrow> (Inl (), db)
      | (Works, db) \<Rightarrow> (Inr (missing_rows key (set ids \<inter> key ` set (stored db)) rows), db))"

definition append_rows :: "('v list \<Rightarrow> analytics_db \<Rightarrow> analytics_db) \<Rightarrow> 'v list \<Rightarrow> analytics_db \<Rightarrow> (unit + unit) \<times> analytics_db" where
  "append_rows add rows db =
     (if rows = [] then (Inr (), db)
      else case next_outcome db of
        (Works, db) \<Rightarrow> (Inr (), add rows db)
      | (Breaks k, db) \<Rightarrow> (Inl (), add (take k rows) db))"

definition add_hits :: "Hit list \<Rightarrow> analytics_db \<Rightarrow> analytics_db" where
  "add_hits rows db = db\<lparr>an_hits := an_hits db @ rows\<rparr>"

definition add_events :: "AnalyticsEvent list \<Rightarrow> analytics_db \<Rightarrow> analytics_db" where
  "add_events rows db = db\<lparr>an_events := an_events db @ rows\<rparr>"

definition add_vitals :: "WebVital list \<Rightarrow> analytics_db \<Rightarrow> analytics_db" where
  "add_vitals rows db = db\<lparr>an_vitals := an_vitals db @ rows\<rparr>"

text \<open>Rows without an identifier or a time get one; \<open>new\<close> is what \<open>uuid.New\<close> returns for a row.\<close>

definition stamp_hit :: "time \<Rightarrow> uuid \<Rightarrow> Hit \<Rightarrow> Hit" where
  "stamp_hit now new h =
     (let h = (if h_ID h = uuid_Nil then h\<lparr>h_ID := new\<rparr> else h)
      in if IsZero (h_Timestamp h) then h\<lparr>h_Timestamp := now\<rparr> else h)"

definition stamp_event :: "time \<Rightarrow> uuid \<Rightarrow> AnalyticsEvent \<Rightarrow> AnalyticsEvent" where
  "stamp_event now new e =
     (let e = (if ae_ID e = uuid_Nil then e\<lparr>ae_ID := new\<rparr> else e)
      in if IsZero (ae_Timestamp e) then e\<lparr>ae_Timestamp := now\<rparr> else e)"

definition stamp_vital :: "time \<Rightarrow> uuid \<Rightarrow> WebVital \<Rightarrow> WebVital" where
  "stamp_vital now new v =
     (let v = (if wv_ID v = uuid_Nil then v\<lparr>wv_ID := new\<rparr> else v);
          v = (if IsZero (wv_Timestamp v) then v\<lparr>wv_Timestamp := now\<rparr> else v)
      in if wv_Path v = [] then v\<lparr>wv_Path := ''/''\<rparr> else v)"

text \<open>The stamped rows are what the caller's pointers show afterwards.\<close>

definition CreateHitsBulkIdempotent ::
  "(nat \<Rightarrow> uuid) \<Rightarrow> time \<Rightarrow> Hit list \<Rightarrow> analytics_db \<Rightarrow> (unit + Hit list) \<times> Hit list \<times> analytics_db" where
  "CreateHitsBulkIdempotent new now hits db =
     (let hits = map2 (\<lambda>i h. stamp_hit now (new i) h) [0..<length hits] hits in
      case filterMissingIngestRows h_ID an_hits hits db of
        (Inl e, db) \<Rightarrow> (Inl e, hits, db)
      | (Inr missing, db) \<Rightarrow>
          (case append_rows add_hits missing db of (Inl e, db) \<Rightarrow> (Inl e, hits, db) | (Inr _, db) \<Rightarrow> (Inr missing, hits, db)))"

definition CreateEventsBulkIdempotent ::
  "(nat \<Rightarrow> uuid) \<Rightarrow> time \<Rightarrow> AnalyticsEvent list \<Rightarrow> analytics_db \<Rightarrow> (unit + AnalyticsEvent list) \<times> AnalyticsEvent list \<times> analytics_db" where
  "CreateEventsBulkIdempotent new now es db =
     (let es = map2 (\<lambda>i e. stamp_event now (new i) e) [0..<length es] es in
      case filterMissingIngestRows ae_ID an_events es db of
        (Inl e, db) \<Rightarrow> (Inl e, es, db)
      | (Inr missing, db) \<Rightarrow>
          (case append_rows add_events missing db of (Inl e, db) \<Rightarrow> (Inl e, es, db) | (Inr _, db) \<Rightarrow> (Inr missing, es, db)))"

text \<open>A web vital with an unknown metric ends the batch after the rows before it.\<close>

definition CreateWebVitalsBulk :: "(nat \<Rightarrow> uuid) \<Rightarrow> time \<Rightarrow> WebVital list \<Rightarrow> analytics_db \<Rightarrow> (unit + unit) \<times> analytics_db" where
  "CreateWebVitalsBulk new now vitals db =
     (let vitals = map2 (\<lambda>i v. stamp_vital now (new i) v) [0..<length vitals] vitals;
          good = takeWhile (\<lambda>v. WebVitalRatingForValue (wv_Metric v) (wv_Value v) \<noteq> None) vitals
      in case append_rows add_vitals good db of
           (Inl e, db) \<Rightarrow> (Inl e, db)
         | (Inr _, db) \<Rightarrow> if length good < length vitals then (Inl (), db) else (Inr (), db))"

text \<open>A goal is stored at the end; \<open>ORDER BY created_at DESC\<close> lists the later ones first.\<close>

definition GetGoals :: "uuid \<Rightarrow> analytics_db \<Rightarrow> (unit + Goal list) \<times> analytics_db" where
  "GetGoals site db =
     (case next_outcome db of
        (Breaks _, db) \<Rightarrow> (Inl (), db)
      | (Works, db) \<Rightarrow> (Inr (rev (sort_key go_CreatedAt (filter (\<lambda>g. go_SiteID g = site) (an_goals db)))), db))"

subsection \<open>The consumer\<close>

text \<open>
  \<open>cl_conversion_id\<close> is the SHA-1 identifier of a source and a goal, \<open>cl_data\<close> the payload.
\<close>

record 'd consumer_lib =
  cl_json :: "'d json_lib"
  cl_version :: string
  cl_conversion_id :: "uuid \<Rightarrow> uuid \<Rightarrow> uuid"
  cl_data :: "Goal \<Rightarrow> time \<Rightarrow> 'd option"
  cl_publish :: "uuid \<Rightarrow> bool"
  cl_emitter :: bool
  cl_realtime :: bool

record consumer_sys =
  cs_stores :: "uuid \<Rightarrow> analytics_db"
  cs_webhooks :: "webhook_db \<times> uuid list"
  cs_broker :: Broker

text \<open>What one flush draws: identifiers, the clock, the readers of the broker and the order of a map.\<close>

record flush_env =
  fe_new :: "nat \<Rightarrow> uuid"
  fe_new_event :: "nat \<Rightarrow> uuid"
  fe_new_delivery :: "nat \<Rightarrow> nat \<Rightarrow> uuid"
  fe_now :: time
  fe_reads :: "nat \<Rightarrow> nat \<times> nat"
  fe_order :: "uuid list \<Rightarrow> uuid list"

record goalConversionSource =
  gs_id :: uuid
  gs_site :: uuid
  gs_type :: string
  gs_value :: string
  gs_at :: time

definition EventGoalConverted :: string where "EventGoalConverted = ''goal.converted''"

definition goalConversionEvents :: "'d consumer_lib \<Rightarrow> Goal list \<Rightarrow> goalConversionSource \<Rightarrow> 'd Event list" where
  "goalConversionEvents C goals source =
     map (\<lambda>goal. \<lparr>event_ID = cl_conversion_id C (gs_id source) (go_ID goal), event_SiteID = Some (gs_site source), event_Target = None,
            event_Type = EventGoalConverted, event_Data = cl_data C goal (gs_at source), event_Preserve = False\<rparr>)
       (filter (\<lambda>goal. go_SiteID goal = gs_site source \<and> go_Type goal = gs_type source \<and> go_Value goal = gs_value source) goals)"

definition hasGoalConversionSubscribers :: "uuid \<Rightarrow> webhook_db \<Rightarrow> bool \<times> webhook_db" where
  "hasGoalConversionSubscribers site db =
     (case HasEnabledWebhookSubscribers (Some site) EventGoalConverted db of
        (Inl _, db) \<Rightarrow> (True, db)
      | (Inr has, db) \<Rightarrow> (has, db))"

text \<open>The loop over the sources asks once per site for subscribers and once for goals.\<close>

fun conversion_loop :: "'d consumer_lib \<Rightarrow> goalConversionSource list \<Rightarrow> (uuid \<rightharpoonup> bool) \<Rightarrow> (uuid \<rightharpoonup> Goal list) \<Rightarrow> 'd Event list
    \<Rightarrow> webhook_db \<Rightarrow> analytics_db \<Rightarrow> (unit + 'd Event list) \<times> webhook_db \<times> analytics_db" where
  "conversion_loop C [] subscribers bySite evs w a = (Inr evs, w, a)"
| "conversion_loop C (source # sources) subscribers bySite evs w a =
     (let site = gs_site source;
          (subscribed, w) = (case subscribers site of Some v \<Rightarrow> (v, w) | None \<Rightarrow> hasGoalConversionSubscribers site w);
          subscribers = subscribers(site \<mapsto> subscribed)
      in if \<not> subscribed then conversion_loop C sources subscribers bySite evs w a
         else case (case bySite site of Some goals \<Rightarrow> (Inr goals, a) | None \<Rightarrow> GetGoals site a) of
           (Inl e, a) \<Rightarrow> (Inl e, w, a)
         | (Inr goals, a) \<Rightarrow>
             conversion_loop C sources subscribers (bySite(site \<mapsto> goals)) (evs @ goalConversionEvents C goals source) w a)"

definition emitGoalConversions :: "'d consumer_lib \<Rightarrow> flush_env \<Rightarrow> 'd Event list \<Rightarrow> webhook_db \<times> uuid list \<Rightarrow> (unit + unit) \<times> webhook_db \<times> uuid list" where
  "emitGoalConversions C f evs st =
     (if evs = [] then (Inr (), st)
      else case EmitBatch (cl_json C) (cl_version C) (fe_new_event f) (fe_new_delivery f) (cl_publish C) (fe_now f) evs st of
        (Inl _, st) \<Rightarrow> (Inl (), st)
      | (Inr _, st) \<Rightarrow> (Inr (), st))"

definition emitGoalConversionSources ::
  "'d consumer_lib \<Rightarrow> flush_env \<Rightarrow> uuid \<Rightarrow> goalConversionSource list \<Rightarrow> consumer_sys \<Rightarrow> (unit + unit) \<times> consumer_sys" where
  "emitGoalConversionSources C f store sources s =
     (if \<not> cl_emitter C then (Inr (), s)
      else case conversion_loop C sources Map.empty Map.empty [] (fst (cs_webhooks s)) (cs_stores s store) of
        (r, w, a) \<Rightarrow>
          let s = s\<lparr>cs_webhooks := (w, snd (cs_webhooks s)), cs_stores := (cs_stores s)(store := a)\<rparr> in
          (case r of
             Inl e \<Rightarrow> (Inl e, s)
           | Inr evs \<Rightarrow> (case emitGoalConversions C f evs (cs_webhooks s) of (r, st) \<Rightarrow> (r, s\<lparr>cs_webhooks := st\<rparr>))))"

definition hit_sources :: "Hit list \<Rightarrow> goalConversionSource list" where
  "hit_sources hits = map (\<lambda>h. \<lparr>gs_id = h_ID h, gs_site = h_SiteID h, gs_type = ''path'', gs_value = h_Path h, gs_at = h_Timestamp h\<rparr>) hits"

definition event_sources :: "AnalyticsEvent list \<Rightarrow> goalConversionSource list" where
  "event_sources es = map (\<lambda>e. \<lparr>gs_id = ae_ID e, gs_site = ae_SiteID e, gs_type = ''event'', gs_value = ae_Name e, gs_at = ae_Timestamp e\<rparr>) es"

subsection \<open>Realtime changes\<close>

text \<open>The earliest time of the rows, \<open>time_zero\<close> when none has one.\<close>

definition noteTimestamp :: "time \<Rightarrow> time \<Rightarrow> time" where
  "noteTimestamp first ts = (if IsZero ts then first else if IsZero first \<or> ts < first then ts else first)"

definition bucketStart :: "time \<Rightarrow> time \<Rightarrow> time" where
  "bucketStart now first = (if IsZero first then now - now mod minute else first - first mod minute)"

definition isEcommerceEvent :: "string \<Rightarrow> bool" where
  "isEcommerceEvent name \<longleftrightarrow> name \<in> {''purchase'', ''begin_checkout'', ''view_item'', ''add_to_cart'', ''product_viewed'',
     ''checkout_started'', ''order_completed''}"

definition publish_change :: "flush_env \<Rightarrow> uuid \<Rightarrow> string list \<Rightarrow> (string \<times> int) list \<Rightarrow> time list \<Rightarrow> Broker \<Rightarrow> Broker" where
  "publish_change f site kinds counts moments b =
     fst (Publish (fe_now f) (fe_reads f) \<lparr>ev_ID = 0, ev_Name = [], ev_SiteID = site, ev_Kinds = kinds, ev_ChangedAt = fe_now f,
        ev_BucketStart = bucketStart (fe_now f) (foldl noteTimestamp time_zero moments), ev_Counts = counts\<rparr> b)"

definition publishHitsChanged :: "flush_env \<Rightarrow> Hit list \<Rightarrow> Broker \<Rightarrow> Broker" where
  "publishHitsChanged f hits b =
     foldl (\<lambda>b site. let own = filter (\<lambda>h. h_SiteID h = site) hits in
         publish_change f site [''hits''] [(''hits'', int (length own))] (map h_Timestamp own) b)
       b (fe_order f (remdups (map h_SiteID hits)))"

definition publishEventsChanged :: "flush_env \<Rightarrow> AnalyticsEvent list \<Rightarrow> Broker \<Rightarrow> Broker" where
  "publishEventsChanged f es b =
     foldl (\<lambda>b site. let own = filter (\<lambda>e. ae_SiteID e = site) es; shop = filter (\<lambda>e. isEcommerceEvent (ae_Name e)) own in
         publish_change f site (''events'' # (if shop \<noteq> [] then [''ecommerce''] else []))
           ((''events'', int (length own)) # (if shop \<noteq> [] then [(''ecommerce'', int (length shop))] else [])) (map ae_Timestamp own) b)
       b (fe_order f (remdups (map ae_SiteID es)))"

definition publishWebVitalsChanged :: "flush_env \<Rightarrow> WebVital list \<Rightarrow> Broker \<Rightarrow> Broker" where
  "publishWebVitalsChanged f vitals b =
     foldl (\<lambda>b site. let own = filter (\<lambda>v. wv_SiteID v = site) vitals in
         publish_change f site [''web_vitals''] [(''web_vitals'', int (length own))] (map wv_Timestamp own) b)
       b (fe_order f (remdups (map wv_SiteID vitals)))"

definition to_realtime :: "'d consumer_lib \<Rightarrow> (Broker \<Rightarrow> Broker) \<Rightarrow> consumer_sys \<Rightarrow> consumer_sys" where
  "to_realtime C g s = (if cl_realtime C then s\<lparr>cs_broker := g (cs_broker s)\<rparr> else s)"

subsection \<open>Persisting a batch\<close>

text \<open>
  The activity summary and the first-hit conversion only log their failures and touch other tables; they
  are left out.
\<close>

definition persist_hits :: "'d consumer_lib \<Rightarrow> flush_env \<Rightarrow> uuid \<Rightarrow> Hit list \<Rightarrow> consumer_sys \<Rightarrow> (unit + unit) \<times> consumer_sys" where
  "persist_hits C f store hits s =
     (case CreateHitsBulkIdempotent (fe_new f) (fe_now f) hits (cs_stores s store) of
        (r, hits, db) \<Rightarrow>
          let s = s\<lparr>cs_stores := (cs_stores s)(store := db)\<rparr> in
          (case r of
             Inl e \<Rightarrow> (Inl e, s)
           | Inr created \<Rightarrow>
               let s = (if created = [] then s else to_realtime C (publishHitsChanged f created) s)
               in emitGoalConversionSources C f store (hit_sources hits) s))"

definition persist_events :: "'d consumer_lib \<Rightarrow> flush_env \<Rightarrow> uuid \<Rightarrow> AnalyticsEvent list \<Rightarrow> consumer_sys \<Rightarrow> (unit + unit) \<times> consumer_sys" where
  "persist_events C f store es s =
     (case CreateEventsBulkIdempotent (fe_new f) (fe_now f) es (cs_stores s store) of
        (r, es, db) \<Rightarrow>
          let s = s\<lparr>cs_stores := (cs_stores s)(store := db)\<rparr> in
          (case r of
             Inl e \<Rightarrow> (Inl e, s)
           | Inr created \<Rightarrow>
               let s = (if created = [] then s else to_realtime C (publishEventsChanged f created) s)
               in emitGoalConversionSources C f store (event_sources es) s))"

definition persist_vitals :: "'d consumer_lib \<Rightarrow> flush_env \<Rightarrow> uuid \<Rightarrow> WebVital list \<Rightarrow> consumer_sys \<Rightarrow> (unit + unit) \<times> consumer_sys" where
  "persist_vitals C f store vitals s =
     (case CreateWebVitalsBulk (fe_new f) (fe_now f) vitals (cs_stores s store) of
        (r, db) \<Rightarrow>
          let s = s\<lparr>cs_stores := (cs_stores s)(store := db)\<rparr> in
          (case r of Inl e \<Rightarrow> (Inl e, s) | Inr _ \<Rightarrow> (Inr (), to_realtime C (publishWebVitalsChanged f vitals) s)))"

end
