(* ===== verification/Ingest_Pipeline.thy ===== *)
theory Ingest_Pipeline
  imports Ingest_Store
begin

text \<open>
  The consumer of the queue (\<open>ingest/batcher.go\<close>, \<open>processMessage\<close> of
  \<open>ingest/consumer.go\<close>): messages are decoded, assigned to the database of their site's team and
  batched; a flush persists each database's group and answers all its messages alike.  A message that
  is not finished is delivered again, which a run may do at any time, until the queue library gives it
  up (\<open>MaxAttempts\<close> of \<open>newIngestConsumerConfig\<close>).
\<close>

subsection \<open>The batcher\<close>

definition ingestBatchSize :: nat where "ingestBatchSize = 64"

text \<open>
  An item is the message's number, its value and the store; the logs keep what was ever accepted, the
  deliveries of each message and the messages that were given up.
\<close>

record ('v, 's) pipeline =
  pl_sys :: 's
  pl_pending :: "(nat \<times> 'v \<times> uuid) list"
  pl_done :: bool
  pl_finished :: "nat list"
  pl_requeued :: "nat list"
  pl_accepted :: "(nat \<times> 'v \<times> uuid) list"
  pl_dropped :: "nat list"
  pl_delivered :: "nat list"
  pl_given_up :: "nat list"

type_synonym ('v, 's) persist = "flush_env \<Rightarrow> uuid \<Rightarrow> 'v list \<Rightarrow> 's \<Rightarrow> (unit + unit) \<times> 's"

text \<open>One group of \<open>flush\<close>: the result of the store goes to every item of the group.\<close>

definition flush_group :: "('v, 's) persist \<Rightarrow> flush_env \<Rightarrow> uuid \<Rightarrow> (nat \<times> 'v \<times> uuid) list \<Rightarrow> ('v, 's) pipeline \<Rightarrow> ('v, 's) pipeline" where
  "flush_group persist f store items p =
     (let group = filter (\<lambda>(_, _, st). st = store) items;
          (r, s) = persist f store (map (\<lambda>(_, v, _). v) group) (pl_sys p);
          ids = map fst group
      in case r of
           Inl _ \<Rightarrow> p\<lparr>pl_sys := s, pl_requeued := pl_requeued p @ ids\<rparr>
         | Inr _ \<Rightarrow> p\<lparr>pl_sys := s, pl_finished := pl_finished p @ ids\<rparr>)"

text \<open>The map of the groups is walked in any order, each with draws of its own.\<close>

definition flush_batch :: "('v, 's) persist \<Rightarrow> (uuid \<Rightarrow> flush_env) \<Rightarrow> uuid list \<Rightarrow> ('v, 's) pipeline \<Rightarrow> ('v, 's) pipeline" where
  "flush_batch persist f order p =
     foldl (\<lambda>p' store. flush_group persist (f store) store (pl_pending p) p') (p\<lparr>pl_pending := []\<rparr>) order"

text \<open>Every group of a flush draws identifiers that are not in use.\<close>

type_synonym ('v, 's) freshness = "flush_env \<Rightarrow> uuid \<Rightarrow> 'v list \<Rightarrow> 's \<Rightarrow> bool"

fun flush_fresh :: "('v, 's) persist \<Rightarrow> ('v, 's) freshness \<Rightarrow> (uuid \<Rightarrow> flush_env) \<Rightarrow> (nat \<times> 'v \<times> uuid) list \<Rightarrow> uuid list
    \<Rightarrow> ('v, 's) pipeline \<Rightarrow> bool" where
  "flush_fresh persist fresh f items [] p = True"
| "flush_fresh persist fresh f items (st # order) p =
     (fresh (f st) st (map (\<lambda>(_, v, _). v) (filter (\<lambda>(_, _, st'). st' = st) items)) (pl_sys p)
      \<and> flush_fresh persist fresh f items order (flush_group persist (f st) st items p))"

definition stores_of :: "(nat \<times> 'v \<times> uuid) list \<Rightarrow> uuid set" where
  "stores_of items = (\<lambda>(_, _, st). st) ` set items"

text \<open>
  A message is decoded, resolved and queued for the next flush.  Without a value it is finished, as
  nothing can be done with it; without a store, or once the batcher has stopped, it is requeued.
\<close>

definition processMessage :: "nat \<Rightarrow> 'v option \<Rightarrow> uuid option \<Rightarrow> ('v, 's) pipeline \<Rightarrow> ('v, 's) pipeline" where
  "processMessage m decoded store p =
     (case decoded of
        None \<Rightarrow> p\<lparr>pl_finished := pl_finished p @ [m], pl_dropped := pl_dropped p @ [m]\<rparr>
      | Some v \<Rightarrow>
          (case store of
             None \<Rightarrow> p\<lparr>pl_requeued := pl_requeued p @ [m]\<rparr>
           | Some st \<Rightarrow>
               if pl_done p then p\<lparr>pl_requeued := pl_requeued p @ [m]\<rparr>
               else p\<lparr>pl_pending := pl_pending p @ [(m, v, st)], pl_accepted := pl_accepted p @ [(m, v, st)]\<rparr>))"

text \<open>
  The configuration of the consumer lets a message be attempted five times.  The queue counts the
  deliveries; at a later one the queue library finishes the message without calling the handler.
\<close>

definition consumerMaxAttempts :: nat where "consumerMaxAttempts = 5"

definition attemptMessage :: "nat \<Rightarrow> 'v option \<Rightarrow> uuid option \<Rightarrow> ('v, 's) pipeline \<Rightarrow> ('v, 's) pipeline" where
  "attemptMessage m decoded store p =
     (let p = p\<lparr>pl_delivered := pl_delivered p @ [m]\<rparr>
      in if consumerMaxAttempts < count_list (pl_delivered p) m
         then p\<lparr>pl_finished := pl_finished p @ [m], pl_given_up := pl_given_up p @ [m]\<rparr>
         else processMessage m decoded store p)"

text \<open>
  The loop of the batcher flushes when the batch is full, at a tick, and when it is stopped; the
  arguments say how the flush goes.  A delivery may also be lost on its way to the handler, and other
  parts of the program change the state in between.
\<close>

inductive pipe_step :: "('v, 's) persist \<Rightarrow> ('v, 's) freshness \<Rightarrow> ('s \<Rightarrow> 's \<Rightarrow> bool) \<Rightarrow> ('v, 's) pipeline \<Rightarrow> ('v, 's) pipeline \<Rightarrow> bool"
  for persist fresh environment where
  deliver: "p' = attemptMessage m decoded store p \<Longrightarrow> length (pl_pending p') < ingestBatchSize \<Longrightarrow> pipe_step persist fresh environment p p'"
| lost: "pipe_step persist fresh environment p (p\<lparr>pl_delivered := pl_delivered p @ [m]\<rparr>)"
| full: "p' = attemptMessage m decoded store p \<Longrightarrow> ingestBatchSize \<le> length (pl_pending p')
     \<Longrightarrow> distinct order \<Longrightarrow> set order = stores_of (pl_pending p')
     \<Longrightarrow> flush_fresh persist fresh f (pl_pending p') order (p'\<lparr>pl_pending := []\<rparr>) \<Longrightarrow> pipe_step persist fresh environment p (flush_batch persist f order p')"
| tick: "distinct order \<Longrightarrow> set order = stores_of (pl_pending p)
     \<Longrightarrow> flush_fresh persist fresh f (pl_pending p) order (p\<lparr>pl_pending := []\<rparr>) \<Longrightarrow> pipe_step persist fresh environment p (flush_batch persist f order p)"
| stop: "distinct order \<Longrightarrow> set order = stores_of (pl_pending p)
     \<Longrightarrow> flush_fresh persist fresh f (pl_pending p) order (p\<lparr>pl_pending := []\<rparr>)
     \<Longrightarrow> pipe_step persist fresh environment p ((flush_batch persist f order p)\<lparr>pl_done := True\<rparr>)"
| other: "environment (pl_sys p) s \<Longrightarrow> pipe_step persist fresh environment p (p\<lparr>pl_sys := s\<rparr>)"

definition pipe_start :: "'s \<Rightarrow> ('v, 's) pipeline" where
  "pipe_start s = \<lparr>pl_sys = s, pl_pending = [], pl_done = False, pl_finished = [], pl_requeued = [], pl_accepted = [], pl_dropped = [],
     pl_delivered = [], pl_given_up = []\<rparr>"

inductive pipe_run :: "('v, 's) persist \<Rightarrow> ('v, 's) freshness \<Rightarrow> ('s \<Rightarrow> 's \<Rightarrow> bool) \<Rightarrow> 's \<Rightarrow> ('v, 's) pipeline \<Rightarrow> bool"
  for persist fresh environment s0 where
  start: "pipe_run persist fresh environment s0 (pipe_start s0)"
| step: "pipe_run persist fresh environment s0 p \<Longrightarrow> pipe_step persist fresh environment p p' \<Longrightarrow> pipe_run persist fresh environment s0 p'"

subsection \<open>Attempts\<close>

text \<open>The handler accepts a message at most five times, and one that was given up was delivered more often.\<close>

definition attempts_ok :: "('v, 's) pipeline \<Rightarrow> bool" where
  "attempts_ok p \<longleftrightarrow> (\<forall>m. count_list (map fst (pl_accepted p)) m \<le> consumerMaxAttempts
       \<and> count_list (map fst (pl_accepted p)) m \<le> count_list (pl_delivered p) m)
     \<and> (\<forall>m \<in> set (pl_given_up p). consumerMaxAttempts < count_list (pl_delivered p) m)"

lemma flush_batch_logs:
  "pl_accepted (flush_batch persist f order p) = pl_accepted p" "pl_delivered (flush_batch persist f order p) = pl_delivered p"
  "pl_given_up (flush_batch persist f order p) = pl_given_up p"
proof -
  have "pl_accepted (foldl (\<lambda>p st. flush_group persist (f st) st items p) q order) = pl_accepted q
      \<and> pl_delivered (foldl (\<lambda>p st. flush_group persist (f st) st items p) q order) = pl_delivered q
      \<and> pl_given_up (foldl (\<lambda>p st. flush_group persist (f st) st items p) q order) = pl_given_up q" for items q
    by (induction order arbitrary: q) (simp_all add: flush_group_def Let_def split: prod.split sum.split)
  then show "pl_accepted (flush_batch persist f order p) = pl_accepted p" "pl_delivered (flush_batch persist f order p) = pl_delivered p"
    "pl_given_up (flush_batch persist f order p) = pl_given_up p"
    by (simp_all add: flush_batch_def)
qed

lemma attemptMessage_attempts: "attempts_ok p \<Longrightarrow> attempts_ok (attemptMessage m decoded store p)"
  by (auto simp: attempts_ok_def attemptMessage_def processMessage_def Let_def le_SucI not_less split: option.split
      intro: order.trans [OF Suc_le_mono [THEN iffD2]])

lemma pipe_run_attempts: "pipe_run persist fresh environment s0 p \<Longrightarrow> attempts_ok p"
proof (induction rule: pipe_run.induct)
  case start
  show ?case by (simp add: attempts_ok_def pipe_start_def)
next
  case (step p p')
  have frame: "attempts_ok (flush_batch persist f order q) = attempts_ok q" for f order q
    by (simp add: attempts_ok_def flush_batch_logs)
  from step.hyps(2) show ?case
  proof cases
    case (stop order f)
    then show ?thesis using step.IH by (simp add: attempts_ok_def flush_batch_logs)
  next
    case (lost m)
    then show ?thesis using step.IH by (auto simp: attempts_ok_def le_SucI)
  qed (use step.IH in \<open>simp_all add: frame attemptMessage_attempts\<close>, simp add: attempts_ok_def)
qed

subsection \<open>Finished messages are stored\<close>

text \<open>
  What the pipeline needs of a persist function: values of a successful batch are stored, and nothing
  that is stored is lost, neither by another batch nor by the rest of the program.
\<close>

locale persisting =
  fixes persist :: "('v, 's) persist" and fresh :: "('v, 's) freshness" and environment :: "'s \<Rightarrow> 's \<Rightarrow> bool" and stored :: "uuid \<Rightarrow> 'v \<Rightarrow> 's \<Rightarrow> bool"
  assumes stores: "fresh f st vs s \<Longrightarrow> persist f st vs s = (Inr u, s') \<Longrightarrow> v \<in> set vs \<Longrightarrow> stored st v s'"
    and keeps_stored: "stored st v s \<Longrightarrow> stored st v (snd (persist f st' vs s))"
    and environment_keeps: "environment s s' \<Longrightarrow> stored st v s \<Longrightarrow> stored st v s'"

context persisting
begin

definition settled :: "(nat \<times> 'v \<times> uuid) \<Rightarrow> ('v, 's) pipeline \<Rightarrow> bool" where
  "settled item p \<longleftrightarrow> (case item of (m, v, st) \<Rightarrow> stored st v (pl_sys p) \<or> m \<in> set (pl_requeued p))"

definition accounted :: "nat \<Rightarrow> ('v, 's) pipeline \<Rightarrow> bool" where
  "accounted m p \<longleftrightarrow> m \<in> set (pl_dropped p) \<or> m \<in> set (pl_given_up p) \<or> (\<exists>v st. (m, v, st) \<in> set (pl_accepted p) \<and> stored st v (pl_sys p))"

definition pipe_ok :: "('v, 's) pipeline \<Rightarrow> bool" where
  "pipe_ok p \<longleftrightarrow> length (pl_pending p) < ingestBatchSize \<and> set (pl_pending p) \<subseteq> set (pl_accepted p)
     \<and> (\<forall>item \<in> set (pl_accepted p). item \<in> set (pl_pending p) \<or> settled item p)
     \<and> (\<forall>m \<in> set (pl_finished p). accounted m p)"

lemma accounted_mono:
  assumes "accounted m p" and "set (pl_dropped p) \<subseteq> set (pl_dropped q)" and "set (pl_given_up p) \<subseteq> set (pl_given_up q)"
    and "set (pl_accepted p) \<subseteq> set (pl_accepted q)" and "\<And>st v. stored st v (pl_sys p) \<Longrightarrow> stored st v (pl_sys q)"
  shows "accounted m q"
  using assms unfolding accounted_def by fast

lemma settled_mono:
  "settled item p \<Longrightarrow> set (pl_requeued p) \<subseteq> set (pl_requeued q) \<Longrightarrow> (\<And>st v. stored st v (pl_sys p) \<Longrightarrow> stored st v (pl_sys q)) \<Longrightarrow> settled item q"
  by (cases item) (auto simp: settled_def)

lemma flush_group_keeps:
  "pl_accepted (flush_group persist f st items p) = pl_accepted p" "pl_pending (flush_group persist f st items p) = pl_pending p"
  "pl_dropped (flush_group persist f st items p) = pl_dropped p"
  "pl_given_up (flush_group persist f st items p) = pl_given_up p"
  "stored st' v (pl_sys p) \<Longrightarrow> stored st' v (pl_sys (flush_group persist f st items p))"
  "set (pl_requeued p) \<subseteq> set (pl_requeued (flush_group persist f st items p))"
  using keeps_stored [of st' v "pl_sys p" f st]
  by (auto simp: flush_group_def Let_def split: prod.split sum.split dest: spec) (metis snd_conv)+

lemma flush_group_settles:
  assumes "(m, v, st) \<in> set items" and fresh: "fresh f st (map (\<lambda>(_, v, _). v) (filter (\<lambda>(_, _, st'). st' = st) items)) (pl_sys p)"
  shows "settled (m, v, st) (flush_group persist f st items p)"
proof -
  obtain r s where r: "persist f st (map (\<lambda>(_, v, _). v) (filter (\<lambda>(_, _, st'). st' = st) items)) (pl_sys p) = (r, s)" by (cases "persist f st (map (\<lambda>(_, v, _). v) (filter (\<lambda>(_, _, st'). st' = st) items)) (pl_sys p)")
  have v: "v \<in> set (map (\<lambda>(_, v, _). v) (filter (\<lambda>(_, _, st'). st' = st) items))" "m \<in> fst ` set (filter (\<lambda>(_, _, st'). st' = st) items)"
    using assms by force+
  show ?thesis
    using r v(2) stores [OF fresh _ v(1)]
    by (cases r) (auto simp: settled_def flush_group_def)
qed

lemma flush_group_finished:
  assumes "m \<in> set (pl_finished (flush_group persist f st items p))"
    and fresh: "fresh f st (map (\<lambda>(_, v, _). v) (filter (\<lambda>(_, _, st'). st' = st) items)) (pl_sys p)"
  shows "m \<in> set (pl_finished p) \<or> (\<exists>v. (m, v, st) \<in> set items \<and> stored st v (pl_sys (flush_group persist f st items p)))"
proof -
  obtain r s where r: "persist f st (map (\<lambda>(_, v, _). v) (filter (\<lambda>(_, _, st'). st' = st) items)) (pl_sys p) = (r, s)" by (cases "persist f st (map (\<lambda>(_, v, _). v) (filter (\<lambda>(_, _, st'). st' = st) items)) (pl_sys p)")
  show ?thesis
  proof (cases r)
    case (Inl e)
    then show ?thesis using assms r by (simp add: flush_group_def)
  next
    case (Inr u)
    have eq: "flush_group persist f st items p = p\<lparr>pl_sys := s, pl_finished := pl_finished p @ map fst (filter (\<lambda>(_, _, st'). st' = st) items)\<rparr>"
      using r Inr by (simp add: flush_group_def)
    consider "m \<in> set (pl_finished p)" | v where "(m, v, st) \<in> set items" using assms unfolding eq by auto
    then show ?thesis
    proof cases
      case 2
      then have "stored st v s" using stores [OF fresh r [unfolded Inr], of v] by force
      then show ?thesis using 2 unfolding eq by auto
    qed simp
  qed
qed

lemma flush_groups:
  assumes "set items \<subseteq> set (pl_accepted p)" and "\<forall>m \<in> set (pl_finished p). accounted m p"
    and "flush_fresh persist fresh f items order p"
  shows "let q = foldl (\<lambda>p store. flush_group persist (f store) store items p) p order in
     pl_accepted q = pl_accepted p \<and> pl_pending q = pl_pending p \<and> (\<forall>item. settled item p \<longrightarrow> settled item q)
   \<and> (\<forall>m v st. (m, v, st) \<in> set items \<longrightarrow> st \<in> set order \<longrightarrow> settled (m, v, st) q) \<and> (\<forall>m \<in> set (pl_finished q). accounted m q)"
  using assms
proof (induction order arbitrary: p)
  case Nil
  then show ?case by simp
next
  case (Cons st order)
  let ?p = "flush_group persist (f st) st items p"
  note keeps = flush_group_keeps [where p = p and f = "f st" and st = st and items = items]
  have fresh: "fresh (f st) st (map (\<lambda>(_, v, _). v) (filter (\<lambda>(_, _, st'). st' = st) items)) (pl_sys p)"
    and rest: "flush_fresh persist fresh f items order ?p" using Cons.prems(3) by simp_all
  have settled: "settled item ?p" if "settled item p" for item by (rule settled_mono [OF that keeps(6)]) (rule keeps(5))
  have fin: "\<forall>m \<in> set (pl_finished ?p). accounted m ?p"
  proof
    fix m
    assume "m \<in> set (pl_finished ?p)"
    then consider "m \<in> set (pl_finished p)" | v where "(m, v, st) \<in> set items" "stored st v (pl_sys ?p)"
      using flush_group_finished fresh by blast
    then show "accounted m ?p"
    proof cases
      case 1
      then have "accounted m p" using Cons.prems(2) by blast
      then show ?thesis by (rule accounted_mono) (auto simp: keeps(1,3,4) intro: keeps(5))
    next
      case 2
      then show ?thesis using Cons.prems(1) unfolding accounted_def keeps by blast
    qed
  qed
  have sub: "set items \<subseteq> set (pl_accepted ?p)" using Cons.prems(1) by (simp add: keeps)
  note IH = Cons.IH [OF sub fin rest, unfolded Let_def keeps]
  have "settled (m, v, st) (foldl (\<lambda>p store. flush_group persist (f store) store items p) ?p order)" if "(m, v, st) \<in> set items" for m v
    using IH flush_group_settles [OF that fresh] by blast
  then show ?case using IH settled unfolding Let_def foldl_Cons set_simps by blast
qed

lemma flush_batch_ok:
  assumes "set (pl_pending p) \<subseteq> set (pl_accepted p)" and "\<forall>item \<in> set (pl_accepted p). item \<in> set (pl_pending p) \<or> settled item p"
    and "\<forall>m \<in> set (pl_finished p). accounted m p" and "set order = stores_of (pl_pending p)"
    and fresh: "flush_fresh persist fresh f (pl_pending p) order (p\<lparr>pl_pending := []\<rparr>)"
  shows "pipe_ok (flush_batch persist f order p)" and "pl_pending (flush_batch persist f order p) = []"
proof -
  let ?p = "p\<lparr>pl_pending := []\<rparr>" and ?q = "flush_batch persist f order p"
  have fin: "\<forall>m \<in> set (pl_finished ?p). accounted m ?p" using assms(3) by (simp add: accounted_def)
  have sub: "set (pl_pending p) \<subseteq> set (pl_accepted ?p)" using assms(1) by simp
  have same: "settled item ?p = settled item p" for item by (simp add: settled_def)
  note g = flush_groups [OF sub fin fresh, folded flush_batch_def, unfolded Let_def]
  have order: "st \<in> set order" if "(m, v, st) \<in> set (pl_pending p)" for m v st
    using that assms(4) by (force simp: stores_of_def)
  have "settled item ?q" if "item \<in> set (pl_accepted p)" for item
  proof (cases "item \<in> set (pl_pending p)")
    case True
    obtain m v st where item: "item = (m, v, st)" by (cases item)
    show ?thesis using g order [of m v st] True unfolding item by blast
  next
    case False
    then have "settled item p" using assms(2) that by blast
    then show ?thesis using g same by blast
  qed
  then show "pipe_ok ?q" and "pl_pending ?q = []" using g by (simp_all add: pipe_ok_def ingestBatchSize_def)
qed

lemma handle_ok:
  assumes "pipe_ok p" and "p' = attemptMessage m decoded store p"
  shows "set (pl_pending p') \<subseteq> set (pl_accepted p')" and "\<forall>item \<in> set (pl_accepted p'). item \<in> set (pl_pending p') \<or> settled item p'"
    and "\<forall>m \<in> set (pl_finished p'). accounted m p'"
proof -
  have shape: "pl_sys p' = pl_sys p" "set (pl_accepted p) \<subseteq> set (pl_accepted p')" "set (pl_pending p) \<subseteq> set (pl_pending p')"
    "set (pl_accepted p') \<subseteq> set (pl_accepted p) \<union> set (pl_pending p')" "set (pl_pending p') \<subseteq> set (pl_pending p) \<union> set (pl_accepted p')"
    "set (pl_requeued p) \<subseteq> set (pl_requeued p')"
    "set (pl_finished p') \<subseteq> set (pl_finished p) \<union> set (pl_dropped p') \<union> set (pl_given_up p')"
    "set (pl_dropped p) \<subseteq> set (pl_dropped p')" "set (pl_given_up p) \<subseteq> set (pl_given_up p')"
    unfolding assms(2) by (auto simp: attemptMessage_def processMessage_def Let_def split: option.split)
  have keep: "settled item p'" if "settled item p" for item by (rule settled_mono [OF that shape(6)]) (simp add: shape)
  show "set (pl_pending p') \<subseteq> set (pl_accepted p')" using assms(1) shape(2,5) unfolding pipe_ok_def by blast
  show "\<forall>item \<in> set (pl_accepted p'). item \<in> set (pl_pending p') \<or> settled item p'"
  proof
    fix item
    assume "item \<in> set (pl_accepted p')"
    then consider "item \<in> set (pl_pending p')" | "item \<in> set (pl_accepted p)" using shape(4) by blast
    then show "item \<in> set (pl_pending p') \<or> settled item p'" using assms(1) keep shape(3) unfolding pipe_ok_def by cases blast+
  qed
  show "\<forall>m \<in> set (pl_finished p'). accounted m p'"
  proof
    fix n
    assume "n \<in> set (pl_finished p')"
    then consider "n \<in> set (pl_finished p)" | "n \<in> set (pl_dropped p') \<union> set (pl_given_up p')" using shape(7) by blast
    then show "accounted n p'"
    proof cases
      case 1
      then have "accounted n p" using assms(1) by (simp add: pipe_ok_def)
      then show ?thesis by (rule accounted_mono) (use shape in simp_all)
    qed (auto simp: accounted_def)
  qed
qed

lemma pipe_step_ok:
  assumes "pipe_step persist fresh environment p p'" and "pipe_ok p"
  shows "pipe_ok p'"
  using assms(1)
proof cases
  case (deliver m decoded store)
  then show ?thesis using handle_ok [OF assms(2) deliver(1)] by (simp add: pipe_ok_def)
next
  case (lost m)
  then show ?thesis using assms(2) by (simp add: pipe_ok_def settled_def accounted_def)
next
  case (full q m decoded store order f)
  then show ?thesis using flush_batch_ok(1) [OF handle_ok [OF assms(2) full(2)]] by simp
next
  case (tick order f)
  then show ?thesis using assms(2) flush_batch_ok(1) [of p order f] by (simp add: pipe_ok_def)
next
  case (stop order f)
  then have "pipe_ok (flush_batch persist f order p)" using assms(2) flush_batch_ok(1) [of p order f] by (simp add: pipe_ok_def)
  then show ?thesis unfolding stop(1) by (simp add: pipe_ok_def settled_def accounted_def)
next
  case (other s)
  let ?q = "p\<lparr>pl_sys := s\<rparr>"
  have keep: "stored st v (pl_sys p) \<Longrightarrow> stored st v (pl_sys ?q)" for st v using environment_keeps [OF other(2)] by simp
  have "accounted m ?q" if "accounted m p" for m by (rule accounted_mono [OF that]) (use keep in simp_all)
  moreover have "settled item ?q" if "settled item p" for item by (rule settled_mono [OF that]) (use keep in simp_all)
  ultimately show ?thesis unfolding other(1) using assms(2) by (auto simp: pipe_ok_def)
qed

lemma pipe_run_ok: "pipe_run persist fresh environment s0 p \<Longrightarrow> pipe_ok p"
proof (induction rule: pipe_run.induct)
  case start
  show ?case by (simp add: pipe_ok_def pipe_start_def ingestBatchSize_def)
next
  case (step p p')
  then show ?case using pipe_step_ok by blast
qed

end

end
