(* ===== verification/Ingest_Admission.thy ===== *)
theory Ingest_Admission
  imports Ingest_Samples
begin

text \<open>
  Which requests the ingest handlers queue: the exact condition for a browser's page view, no message
  for excluded traffic, the authority of a server-side request, and the shape of a web vital.
\<close>

subsection \<open>The first look at the exclusions adds nothing\<close>

lemma evaluateCompiledRules_mono:
  "Blocked (evaluateCompiledRules rules scope ip c [] None) \<Longrightarrow> Blocked (evaluateCompiledRules rules scope ip c ua p)"
  by (auto simp: evaluateCompiledRules_def not_blocked_def split: if_splits)

definition scope_rules :: "IPFilter \<Rightarrow> uuid \<Rightarrow> string \<Rightarrow> compiledTrafficExclusions \<Rightarrow> bool" where
  "scope_rules f site scope rules \<longleftrightarrow> scope = ''instance'' \<and> rules = instanceRules f
     \<or> scope = ''team'' \<and> (\<exists>team. siteTeams f site = Some team \<and> teamRules f team = Some rules)
     \<or> scope = ''site'' \<and> siteRules f site = Some rules"

lemma Blocked_EvaluateTraffic:
  "Blocked (EvaluateTraffic L f site t) \<longleftrightarrow>
     (\<exists>rules scope. scope_rules f site scope rules
       \<and> Blocked (evaluateCompiledRules rules scope (parseIP L (tr_IP t)) (normalizeCountryCode L (tr_CountryCode t))
            (ToLower L (TrimSpace (tr_UserAgent t))) (NormalizeExclusionPath L (tr_Path t))))"
  by (auto simp: scope_rules_def EvaluateTraffic_def Let_def not_blocked_def split: option.splits)

lemma Evaluate_mono:
  assumes "Blocked (Evaluate L f site ip c)"
  shows "Blocked (EvaluateTraffic L f site \<lparr>tr_IP = ip, tr_CountryCode = c, tr_UserAgent = ua, tr_Path = path\<rparr>)"
proof -
  have "NormalizeExclusionPath L [] = None" "ToLower L (TrimSpace []) = []"
    by (simp_all add: NormalizeExclusionPath_def Let_def ToLower_def is_ascii_def)
  then show ?thesis
    using assms unfolding Evaluate_def Blocked_EvaluateTraffic
    by simp (blast intro: evaluateCompiledRules_mono)
qed

lemma browser_site_Inr:
  "browser_site E r s = Inr (domain, site) \<longleftrightarrow> origin_domain E r = Some domain \<and> FindSiteByDomain domain (ie_store E) = Inr (Some site)
     \<and> allowCustomTrackingHostForSite (ie_lib E) r (ie_trusted E) (si_ID site) (ie_store E)
     \<and> (case ie_filter E of None \<Rightarrow> True | Some f \<Rightarrow> \<not> Blocked (Evaluate (ie_lib E) f (si_ID site) (client_ip E r) (client_country E r)))"
  by (auto simp: browser_site_def split: option.splits sum.splits if_splits)

lemma browser_site_Inl:
  "browser_site E r s = Inl (code, s') \<Longrightarrow> is_queue s' = is_queue s"
  by (auto simp: browser_site_def rejected_def recordRejection_def split: option.splits sum.splits if_splits)

lemma not_excluded_site:
  "\<not> traffic_excluded E site ip c ua path \<Longrightarrow> (case ie_filter E of None \<Rightarrow> True | Some f \<Rightarrow> \<not> Blocked (Evaluate (ie_lib E) f site ip c))"
  by (auto simp: traffic_excluded_def dest: Evaluate_mono split: option.splits)

lemmas handler_queues = rejected_def recordRejection_def recordSpamDrop_def publishJSON_def

subsection \<open>Browser requests\<close>

text \<open>A page view that may be queued, in the order a reader would ask.\<close>

definition admissible :: "ingest_env \<Rightarrow> http_request \<Rightarrow> browserIngestPayload \<Rightarrow> string \<Rightarrow> ingest_site \<Rightarrow> bool" where
  "admissible E r p domain site \<longleftrightarrow>
     origin_domain E r = Some domain \<and> FindSiteByDomain domain (ie_store E) = Inr (Some site)
   \<and> allowCustomTrackingHostForSite (ie_lib E) r (ie_trusted E) (si_ID site) (ie_store E)
   \<and> \<not> traffic_excluded E (si_ID site) (client_ip E r) (client_country E r)
         (trafficUserAgent (bp_UserAgent p) (request_user_agent r)) (bp_Path p)
   \<and> \<not> spam_blocked E (si_Domain site) (client_ip E r) (bp_Referrer p)"

lemma handleIngestLeader_admissible:
  assumes "admissible E r p domain site"
  shows "handleIngestLeader E r (Some p) now s = publishJSON E (HitMessage (browser_hit E r now domain site p)) s"
proof -
  have "browser_site E r s = Inr (domain, site)"
    using assms not_excluded_site unfolding admissible_def browser_site_Inr by blast
  then show ?thesis using assms by (simp add: handleIngestLeader_def admissible_def)
qed

lemma handleIngestLeader_queue:
  assumes "is_queue (snd (handleIngestLeader E r body now s)) \<noteq> is_queue s"
  shows "\<exists>p domain site. body = Some p \<and> admissible E r p domain site"
proof (cases "browser_site E r s")
  case (Inl answer)
  then show ?thesis using assms browser_site_Inl [of E r s] by (cases answer) (auto simp: handleIngestLeader_def)
next
  case (Inr ds)
  obtain domain site where ds: "ds = (domain, site)" by (cases ds)
  obtain p where p: "body = Some p" using assms Inr ds by (cases body) (auto simp: handleIngestLeader_def handler_queues)
  have "admissible E r p domain site"
    using assms Inr ds p browser_site_Inr [of E r s domain site]
    by (auto simp: handleIngestLeader_def admissible_def handler_queues split: if_splits)
  then show ?thesis using p by blast
qed

text \<open>
  C34. Page views are queued exactly when they should be. The handler queues one hit for the site of the
  origin when the body is decoded, the origin belongs to a site, the tracking host is the site's own or
  one of its team, no exclusion covers the address, country, user agent and path, the spam filter lets it
  pass and the queue takes it; in every other case the queue stays as it was.  The hit carries the
  identifier of that site and the host of the origin, and no identifier of its own.
\<close>

theorem page_view_queued_iff:
  "let (code, s') = handleIngestLeader E r body now s in
     (\<forall>p domain site. body = Some p \<and> admissible E r p domain site
        \<and> ie_publish_ok E \<and> ie_marshal_ok E (HitMessage (browser_hit E r now domain site p))
        \<longrightarrow> code = 202 \<and> is_queue s' = is_queue s @ [HitMessage (browser_hit E r now domain site p)]
          \<and> h_SiteID (browser_hit E r now domain site p) = si_ID site \<and> h_Hostname (browser_hit E r now domain site p) = Some domain
          \<and> h_ID (browser_hit E r now domain site p) = uuid_Nil)
   \<and> (is_queue s' \<noteq> is_queue s \<longrightarrow> (\<exists>p domain site. body = Some p \<and> admissible E r p domain site
        \<and> ie_publish_ok E \<and> ie_marshal_ok E (HitMessage (browser_hit E r now domain site p))))"
proof -
  obtain code s' where h: "handleIngestLeader E r body now s = (code, s')" by (cases "handleIngestLeader E r body now s")
  have "\<exists>p domain site. body = Some p \<and> admissible E r p domain site
        \<and> ie_publish_ok E \<and> ie_marshal_ok E (HitMessage (browser_hit E r now domain site p))" if changed: "is_queue s' \<noteq> is_queue s"
  proof -
    obtain p domain site where p: "body = Some p" "admissible E r p domain site" 
      using handleIngestLeader_queue [of E r body now s] changed unfolding h snd_conv by blast
    then have "publishJSON E (HitMessage (browser_hit E r now domain site p)) s = (code, s')" using handleIngestLeader_admissible [OF p(2)] h by simp
    then show ?thesis using p changed by (auto simp: publishJSON_def split: if_splits)
  qed
  then show ?thesis
    unfolding h prod.case using h handleIngestLeader_admissible [where E = E and r = r and now = now and s = s]
    by (fastforce simp: publishJSON_def browser_hit_def Let_def)
qed

text \<open>
  C35. Excluded traffic is not queued. After a refresh of the filter, when some stored rule of the
  instance, of the team the site belongs to or of the site covers the address, country, user agent and
  path of a browser's request, no page view, event or web vital of it reaches the queue.
\<close>

theorem excluded_traffic_not_queued:
  assumes "ie_filter E = Some (snd (Refresh (ie_lib E) (Inr rules) (Inr mappings) f))"
    and "origin_domain E r = Some domain" and "FindSiteByDomain domain (ie_store E) = Inr (Some site)"
    and "rule \<in> set rules" and "rule_applies mappings (si_ID site) rule"
    and "rule_hits (ie_lib E) \<lparr>tr_IP = client_ip E r, tr_CountryCode = client_country E r,
           tr_UserAgent = trafficUserAgent ua (request_user_agent r), tr_Path = path\<rparr> rule"
    and "bp_UserAgent p = ua" "bp_Path p = path" "ep_UserAgent q = ua" "ep_Path q = path" "vp_UserAgent v = ua" "vp_Path v = path"
  shows "is_queue (snd (handleIngestLeader E r (Some p) now s)) = is_queue s
    \<and> is_queue (snd (handleIngestEventLeader E r (Some q) now s)) = is_queue s
    \<and> is_queue (snd (handleIngestWebVitalsLeader E r (Some v) now s)) = is_queue s"
proof -
  let ?t = "\<lparr>tr_IP = client_ip E r, tr_CountryCode = client_country E r, tr_UserAgent = trafficUserAgent ua (request_user_agent r), tr_Path = path\<rparr>"
  have "exclusion_reason (ie_lib E) rules mappings (si_ID site) ?t \<noteq> None"
    unfolding exclusion_reason_Some using assms(4-6) by blast
  then have x: "traffic_excluded E (si_ID site) (client_ip E r) (client_country E r) (trafficUserAgent ua (request_user_agent r)) path"
    using assms(1) by (simp add: traffic_excluded_def Refresh_decision)
  have site: "(\<exists>answer. browser_site E r s = Inl answer \<and> is_queue (snd answer) = is_queue s) \<or> browser_site E r s = Inr (domain, site)" for s
  proof (cases "browser_site E r s")
    case (Inl answer)
    then show ?thesis using browser_site_Inl [of E r s] by (cases answer) auto
  next
    case (Inr ds)
    then show ?thesis using browser_site_Inr [of E r s] assms(2,3) by (cases ds) auto
  qed
  show ?thesis
    using site [of s] x assms(7-)
    by (elim disjE exE conjE) (simp_all add: handleIngestLeader_def handleIngestEventLeader_def handleIngestWebVitalsLeader_def handler_queues)
qed

subsection \<open>Tracking hosts\<close>

text \<open>
  A request through a custom tracking host passes only while the host is active and for sites of the
  team that owns it.
\<close>

lemma custom_host_team:
  assumes "allowCustomTrackingHostForSite L r nets site st" and "trackingRequestHostname L r nets \<noteq> []"
    and "FindCustomTrackingDomainByHostname L (trackingRequestHostname L r nets) st = Inr (Some d)"
  shows "CustomTrackingDomainIsActive d \<and> GetSiteTenantID site st = Inr (cd_TeamID d)"
  using assms by (auto simp: allowCustomTrackingHostForSite_def Let_def split: if_splits sum.splits)

subsection \<open>Web vitals\<close>

text \<open>
  Queued web vitals are well formed. The metric is one of the five known ones with a value that is
  not negative, the path starts with a slash, session and page are identified, and the metric identifier
  and the tracker fields have at most 128 and 64 bytes.
\<close>

theorem queued_vital_bounds:
  assumes "handleIngestWebVitalsLeader E r body now s = (code, s')" and "is_queue s' \<noteq> is_queue s"
  shows "\<exists>w domain site. is_queue s' = is_queue s @ [VitalMessage w] \<and> browser_site E r s = Inr (domain, site)
     \<and> wv_SiteID w = si_ID site \<and> wv_Timestamp w = now
     \<and> wv_Metric w \<in> {''LCP'', ''INP'', ''CLS'', ''FCP'', ''TTFB''} \<and> 0 \<le> wv_Value w
     \<and> prefix ''/'' (wv_Path w) \<and> wv_SessionID w \<noteq> uuid_Nil \<and> wv_PageID w \<noteq> uuid_Nil
     \<and> length (wv_MetricID w) \<le> 128 \<and> length (wv_TrackerSource w) \<le> 64 \<and> length (wv_TrackerVersion w) \<le> 64
     \<and> (\<forall>n. wv_NavigationType w = Some n \<longrightarrow> n \<noteq> [] \<and> length n \<le> 64)"
proof (cases "browser_site E r s")
  case (Inl answer)
  then show ?thesis using assms browser_site_Inl [of E r s] by (cases answer) (auto simp: handleIngestWebVitalsLeader_def)
next
  case (Inr ds)
  obtain domain site where ds: "ds = (domain, site)" by (cases ds)
  obtain p where p: "body = Some p" using assms Inr ds by (cases body) (auto simp: handleIngestWebVitalsLeader_def handler_queues split: if_splits)
  obtain w where w: "webVitalFromPayload (ie_lib E) (si_ID site) p now = Inr w" "is_queue s' = is_queue s @ [VitalMessage w]"
    using assms Inr ds p by (auto simp: handleIngestWebVitalsLeader_def handler_queues split: if_splits sum.splits)
  have rating: "WebVitalRatingForValue m v \<noteq> None \<longleftrightarrow> 0 \<le> v \<and> m \<in> {''LCP'', ''INP'', ''CLS'', ''FCP'', ''TTFB''}" for m v
    by (auto simp: WebVitalRatingForValue_def not_less)
  have path: "sanitizeBrowserPath (ie_lib E) raw \<noteq> [] \<Longrightarrow> prefix ''/'' (sanitizeBrowserPath (ie_lib E) raw)" for raw
    by (auto simp: sanitizeBrowserPath_def Let_def split: option.splits if_splits)
  have "wv_SiteID w = si_ID site \<and> wv_Timestamp w = now \<and> wv_Metric w \<in> {''LCP'', ''INP'', ''CLS'', ''FCP'', ''TTFB''} \<and> 0 \<le> wv_Value w
     \<and> prefix ''/'' (wv_Path w) \<and> wv_SessionID w \<noteq> uuid_Nil \<and> wv_PageID w \<noteq> uuid_Nil
     \<and> length (wv_MetricID w) \<le> 128 \<and> length (wv_TrackerSource w) \<le> 64 \<and> length (wv_TrackerVersion w) \<le> 64
     \<and> (\<forall>n. wv_NavigationType w = Some n \<longrightarrow> n \<noteq> [] \<and> length n \<le> 64)"
    using w(1) rating [of "TrimSpace (vp_Name p)" "vp_Value p"] path
    by (auto simp: webVitalFromPayload_def Let_def trimWebVitalMetricID_def trimTrackerField_def normalizeWebVitalNavigationType_def
        split: if_splits)
  then show ?thesis using w(2) Inr ds by blast
qed

subsection \<open>Server-side requests\<close>

lemma AuthorizeOAuth_site_permission:
  assumes "AuthorizeOAuth L grant p a r aud sc"
  shows "site_HasPermission L (pr_SiteRole p) a"
proof -
  obtain g where g: "grant = Some g" using assms by (cases grant) (auto simp: AuthorizeOAuth_def)
  note ok = assms [unfolded g AuthorizeOAuth_Some]
  have k: "res_Kind r = ResourceSite" using ok by simp
  show ?thesis using ok by (simp add: Authorize_site_iff [OF k] site_HasPermission_iff instance_row_no_role)
qed

text \<open>
  The authority to write data for a site: an API key whose site roles give it, or an OAuth grant for the
  audience with the ingest scope, for a site it was consented to and the body names, whose user has it now.
\<close>

definition may_ingest :: "ingest_env \<Rightarrow> server_credential \<Rightarrow> uuid option \<Rightarrow> uuid \<Rightarrow> bool" where
  "may_ingest E c selected site \<longleftrightarrow>
     (\<exists>a role. sc_grant c = None \<and> sc_client c = Some a \<and> map_of (ac_SiteRoles a) site = Some role
        \<and> site_HasPermission (ie_lib E) role PermSiteManageData)
     \<or> (\<exists>g audience role. sc_grant c = Some g \<and> selected = Some site \<and> sc_audience c = Some audience \<and> gr_Audience g = audience
        \<and> ''ingest:write'' \<in> set (gr_Scopes g) \<and> site \<in> set (gr_SiteIDs g)
        \<and> GetSiteRoleForTenant (ie_lib E) (st_roles (ie_store E)) (gr_UserID g) site (gr_TeamID g) = Inr role
        \<and> site_HasPermission (ie_lib E) role PermSiteManageData)"

lemma server_access_granted:
  assumes "server_access E c selected site = None"
  shows "may_ingest E c selected site"
proof (cases "sc_grant c")
  case None
  then show ?thesis using assms by (auto simp: may_ingest_def server_access_def apiClientCanManageSiteData_def split: option.splits if_splits)
next
  case (Some g)
  then obtain audience where a: "selected = Some site" "sc_audience c = Some audience"
      "AuthorizeOAuthSite (ie_lib E) (Some (st_roles (ie_store E))) (Some g) site audience ''ingest:write'' PermSiteManageData = Inr ()"
    using assms by (auto simp: server_access_def split: option.splits if_splits sum.splits)
  obtain role where role: "GetSiteRoleForTenant (ie_lib E) (st_roles (ie_store E)) (gr_UserID g) site (gr_TeamID g) = Inr role"
      "gr_Audience g = audience" "''ingest:write'' \<in> set (gr_Scopes g)" "site \<in> set (gr_SiteIDs g)"
      "AuthorizeOAuth (ie_lib E) (Some g) \<lparr>pr_Kind = PrincipalOAuth, pr_InstanceRole = [], pr_SiteRole = role, pr_SiteID = site,
         pr_TeamRole = [], pr_TeamID = gr_TeamID g\<rparr> PermSiteManageData \<lparr>res_Kind = ResourceSite, res_ID = site, res_TeamID = gr_TeamID g\<rparr> audience ''ingest:write''"
    using a(3) by (auto simp: AuthorizeOAuthSite_def Let_def split: if_splits sum.splits)
  then have "site_HasPermission (ie_lib E) role PermSiteManageData" by (auto dest: AuthorizeOAuth_site_permission)
  then show ?thesis using Some a role unfolding may_ingest_def by blast
qed

lemma resolved_context:
  assumes "resolveServerIngestContext S E c q s = Inr x"
  shows "(\<exists>path. parseServerIngestURL S (ie_lib E) (sv_URL q) = Some (sx_domain x, path))
     \<and> FindSiteByDomain (sx_domain x) (ie_store E) = Inr (Some (sx_site x)) \<and> may_ingest E c (sv_SiteID q) (si_ID (sx_site x))"
proof -
  obtain selected where sel: "selected_site (sc_grant c) q = Some selected" and access: "server_access E c selected (si_ID (sx_site x)) = None"
    and rest: "\<exists>path. parseServerIngestURL S (ie_lib E) (sv_URL q) = Some (sx_domain x, path)"
      "FindSiteByDomain (sx_domain x) (ie_store E) = Inr (Some (sx_site x))"
    using assms unfolding resolveServerIngestContext_def by (auto split: if_splits option.splits sum.splits)
  have "sc_grant c \<noteq> None \<Longrightarrow> selected = sv_SiteID q"
    using sel by (auto simp: selected_site_def split: option.splits if_splits)
  then have "may_ingest E c (sv_SiteID q) (si_ID (sx_site x))"
    using server_access_granted [OF access] unfolding may_ingest_def by blast
  then show ?thesis using rest by blast
qed

lemma resolved_queue: "resolveServerIngestContext S E c q s = Inl (code, s') \<Longrightarrow> is_queue s' = is_queue s"
  unfolding resolveServerIngestContext_def by (auto simp: handler_queues split: if_splits option.splits sum.splits)

lemma server_filtered_queue: "server_filtered E x country referrer s = Some (code, s') \<Longrightarrow> is_queue s' = is_queue s"
  by (auto simp: server_filtered_def handler_queues split: if_splits)

text \<open>
  C36. Server-side ingestion needs authority over the site. When a server-side page view or event is
  queued, it is for the site of the URL's host, and the API key may write data of that site, or the
  OAuth grant was given for it with the ingest scope, the body names it, and the granting user may
  write its data at present.
\<close>

theorem server_ingest_authority:
  "(is_queue (snd (handleServerPageviewIngestLeader S E c (Some q) new_session new_page s)) \<noteq> is_queue s
     \<longrightarrow> (\<exists>h site domain path. is_queue (snd (handleServerPageviewIngestLeader S E c (Some q) new_session new_page s)) = is_queue s @ [HitMessage h]
        \<and> parseServerIngestURL S (ie_lib E) (sv_URL q) = Some (domain, path) \<and> FindSiteByDomain domain (ie_store E) = Inr (Some site)
        \<and> h_SiteID h = si_ID site \<and> may_ingest E c (sv_SiteID q) (si_ID site)))
   \<and> (is_queue (snd (handleServerEventIngestLeader S E c (Some e) new_session s)) \<noteq> is_queue s
     \<longrightarrow> (\<exists>v site domain path. is_queue (snd (handleServerEventIngestLeader S E c (Some e) new_session s)) = is_queue s @ [EventMessage v]
        \<and> parseServerIngestURL S (ie_lib E) (sv_URL e) = Some (domain, path) \<and> FindSiteByDomain domain (ie_store E) = Inr (Some site)
        \<and> ae_SiteID v = si_ID site \<and> ae_Name v \<noteq> [] \<and> may_ingest E c (sv_SiteID e) (si_ID site)))"
proof (intro conjI impI)
  assume changed: "is_queue (snd (handleServerPageviewIngestLeader S E c (Some q) new_session new_page s)) \<noteq> is_queue s"
  obtain x where x: "resolveServerIngestContext S E c q s = Inr x"
    using changed resolved_queue [of S E c q s] by (cases "resolveServerIngestContext S E c q s") (auto simp: handleServerPageviewIngestLeader_def)
  have "is_queue (snd (handleServerPageviewIngestLeader S E c (Some q) new_session new_page s)) = is_queue s @ [HitMessage (server_hit S E new_session new_page x q)]"
    using changed x server_filtered_queue [of E x _ "sv_Referrer q" s]
    by (auto simp: handleServerPageviewIngestLeader_def publishJSON_def split: option.splits if_splits)
  then show "\<exists>h site domain path. is_queue (snd (handleServerPageviewIngestLeader S E c (Some q) new_session new_page s)) = is_queue s @ [HitMessage h]
        \<and> parseServerIngestURL S (ie_lib E) (sv_URL q) = Some (domain, path) \<and> FindSiteByDomain domain (ie_store E) = Inr (Some site)
        \<and> h_SiteID h = si_ID site \<and> may_ingest E c (sv_SiteID q) (si_ID site)"
    using resolved_context [OF x] by (auto simp: server_hit_def split: prod.split)
next
  assume changed: "is_queue (snd (handleServerEventIngestLeader S E c (Some e) new_session s)) \<noteq> is_queue s"
  obtain x where x: "resolveServerIngestContext S E c e s = Inr x"
    using changed resolved_queue [of S E c e s] by (cases "resolveServerIngestContext S E c e s") (auto simp: handleServerEventIngestLeader_def)
  have "\<exists>v. is_queue (snd (handleServerEventIngestLeader S E c (Some e) new_session s)) = is_queue s @ [EventMessage v]
     \<and> ae_SiteID v = si_ID (sx_site x) \<and> ae_Name v \<noteq> []"
    using changed x server_filtered_queue [of E x _ "sv_Referrer e" s]
    by (auto simp: handleServerEventIngestLeader_def handler_queues split: option.splits if_splits)
  then show "\<exists>v site domain path. is_queue (snd (handleServerEventIngestLeader S E c (Some e) new_session s)) = is_queue s @ [EventMessage v]
        \<and> parseServerIngestURL S (ie_lib E) (sv_URL e) = Some (domain, path) \<and> FindSiteByDomain domain (ie_store E) = Inr (Some site)
        \<and> ae_SiteID v = si_ID site \<and> ae_Name v \<noteq> [] \<and> may_ingest E c (sv_SiteID e) (si_ID site)"
    using resolved_context [OF x] by blast
qed

subsection \<open>The handlers in the sample environment\<close>

definition sample_page :: browserIngestPayload where
  "sample_page = \<lparr>bp_Path = ''/'', bp_Referrer = None, bp_UserAgent = Some ''bot'', bp_VPWidth = None, bp_VPHeight = None,
     bp_SCWidth = None, bp_SCHeight = None, bp_Language = None, bp_UTMSource = None, bp_UTMMedium = None, bp_UTMCamp = None,
     bp_UTMTerm = None, bp_UTMCont = None, bp_QRCodeID = None, bp_TrackerSource = ''hk.js'', bp_TrackerVersion = [],
     bp_IsUnique = True, bp_SessionID = 8, bp_PageID = 9\<rparr>"

definition sample_event_body :: eventPayload where
  "sample_event_body = \<lparr>ep_Name = ''signup'', ep_Properties = None, ep_Referrer = None, ep_SessionID = 8, ep_Path = ''/'',
     ep_UserAgent = Some ''bot'', ep_TrackerSource = [], ep_TrackerVersion = []\<rparr>"

definition sample_vital :: webVitalPayload where
  "sample_vital = \<lparr>vp_Name = ''LCP'', vp_Value = 5, vp_Path = ''/'', vp_NavigationType = [], vp_MetricID = ''m'', vp_SessionID = 8,
     vp_PageID = 9, vp_UserAgent = Some ''bot'', vp_TrackerSource = ''hk.js'', vp_TrackerVersion = []\<rparr>"

lemma sample_admissible: "admissible sample_ingest_env sample_http sample_page ''example.org'' sample_site"
  by (simp add: admissible_def sample_origin sample_found sample_host_allowed traffic_excluded_def spam_blocked_def)

theorem page_view_queued_iff_witness:
  "\<exists>h. is_queue (snd (handleIngestLeader sample_ingest_env sample_http (Some sample_page) 0 empty_ingest)) = [HitMessage h] \<and> h_SiteID h = 4"
proof -
  obtain code s' where h: "handleIngestLeader sample_ingest_env sample_http (Some sample_page) 0 empty_ingest = (code, s')"
    by (cases "handleIngestLeader sample_ingest_env sample_http (Some sample_page) 0 empty_ingest")
  note q = page_view_queued_iff [of sample_ingest_env sample_http "Some sample_page" 0 empty_ingest, unfolded h Let_def prod.case, THEN conjunct1, rule_format]
  have "is_queue s' = is_queue empty_ingest @ [HitMessage (browser_hit sample_ingest_env sample_http 0 ''example.org'' sample_site sample_page)]
     \<and> h_SiteID (browser_hit sample_ingest_env sample_http 0 ''example.org'' sample_site sample_page) = si_ID sample_site"
    using q [of sample_page "''example.org''" sample_site] sample_admissible by simp
  then show ?thesis unfolding h by (simp add: empty_ingest_def sample_site_def)
qed

definition bot_rule :: IPExclusion where
  "bot_rule = \<lparr>ex_ID = 1, ex_Scope = ''instance'', ex_TeamID = None, ex_SiteID = None, ex_Type = ''user_agent'', ex_CIDR = [],
     ex_CountryCode = [], ex_UserAgent = ''bot'', ex_Path = [], ex_Description = [], ex_CreatedAt = 0, ex_CreatedBy = None, ex_Inherited = False\<rparr>"

theorem excluded_traffic_not_queued_witness:
  "\<exists>E. ie_filter E \<noteq> None \<and> is_queue (snd (handleIngestLeader E sample_http (Some sample_page) 0 empty_ingest)) = []"
proof -
  define E where "E = sample_ingest_env\<lparr>ie_filter := Some (snd (Refresh ingest_lib (Inr [bot_rule] :: unit + IPExclusion list) (Inr [(4, 3)]) NewIPFilter))\<rparr>"
  have lib: "ie_lib E = ingest_lib" "ie_store E = sample_ingest_store" by (simp_all add: E_def)
  have o: "origin_domain E sample_http = Some ''example.org''" using sample_origin unfolding origin_domain_def lib sample_env_fields(1) .
  have hits: "rule_hits (ie_lib E) \<lparr>tr_IP = client_ip E sample_http, tr_CountryCode = client_country E sample_http,
      tr_UserAgent = trafficUserAgent (Some ''bot'') (request_user_agent sample_http), tr_Path = ''/''\<rparr> bot_rule"
    by (simp add: rule_hits_def bot_rule_def lib trafficUserAgent_def TrimSpace_graphic graphic_def ToLower_def is_ascii_def lower_byte_def)
  have "is_queue (snd (handleIngestLeader E sample_http (Some sample_page) 0 empty_ingest)) = is_queue empty_ingest"
    by (rule excluded_traffic_not_queued [of E "[bot_rule]" "[(4, 3)]" NewIPFilter sample_http "''example.org''" sample_site bot_rule
          "Some ''bot''" "''/''" sample_page sample_event_body sample_vital, THEN conjunct1])
      (use o hits sample_found in \<open>simp_all add: E_def lib rule_applies_def bot_rule_def sample_page_def sample_event_body_def sample_vital_def\<close>)
  then show ?thesis by (intro exI [of _ E]) (simp add: E_def empty_ingest_def)
qed

theorem queued_vital_bounds_witness:
  "\<exists>w. is_queue (snd (handleIngestWebVitalsLeader sample_ingest_env sample_http (Some sample_vital) 0 empty_ingest)) = [VitalMessage w]
     \<and> wv_Metric w \<in> {''LCP'', ''INP'', ''CLS'', ''FCP'', ''TTFB''} \<and> length (wv_MetricID w) \<le> 128"
proof -
  have site: "browser_site sample_ingest_env sample_http empty_ingest = Inr (''example.org'', sample_site)"
    by (simp add: browser_site_Inr sample_origin sample_found sample_host_allowed)
  have "\<exists>w. webVitalFromPayload ingest_lib 4 sample_vital 0 = Inr w"
    by (simp add: webVitalFromPayload_def sample_vital_def TrimSpace_graphic graphic_def Let_def WebVitalRatingForValue_def sanitizeBrowserPath_def uuid_Nil_def)
  then obtain s' where h: "handleIngestWebVitalsLeader sample_ingest_env sample_http (Some sample_vital) 0 empty_ingest = (202, s')"
      "is_queue s' \<noteq> is_queue empty_ingest"
    using site by (auto simp: handleIngestWebVitalsLeader_def spam_blocked_def traffic_excluded_def publishJSON_def sample_site_def)
  show ?thesis using queued_vital_bounds [OF h] h(1) by (auto simp: empty_ingest_def)
qed

definition sample_server_lib :: server_lib where
  "sample_server_lib = \<lparr>sl_RawQuery = (\<lambda>_. []), sl_Query = (\<lambda>_ _. []), sl_ParseTime = (\<lambda>_. Some 7), sl_ParseUUID = (\<lambda>_. None)\<rparr>"

definition sample_key :: server_credential where
  "sample_key = \<lparr>sc_client = Some \<lparr>ac_ClientID = 1, ac_UserID = 2, ac_TenantID = 3, ac_InstanceRole = [], ac_SiteRoles = [(4, ''admin'')]\<rparr>,
     sc_grant = None, sc_audience = None\<rparr>"

definition sample_server_event :: ServerEventIngestRequest where
  "sample_server_event = \<lparr>sv_URL = ''u'', sv_Timestamp = ''t'', sv_VisitorIP = ''203.0.113.9'', sv_UserAgent = ''ua'', sv_SiteID = None,
     sv_Referrer = None, sv_DNT = False, sv_SessionID = 8, se_Name = ''signup'', se_Properties = None\<rparr>"

theorem server_ingest_authority_witness:
  "\<exists>v. is_queue (snd (handleServerEventIngestLeader sample_server_lib sample_ingest_env sample_key (Some sample_server_event) 1 empty_ingest)) = [EventMessage v]
     \<and> ae_SiteID v = 4 \<and> may_ingest sample_ingest_env sample_key None 4"
proof -
  have url: "parseServerIngestURL sample_server_lib ingest_lib ''u'' = Some (''example.org'', ''/'')"
    by (simp add: parseServerIngestURL_def normalizeOriginHostname_def TrimSpace_graphic graphic_def ToLower_def is_ascii_def lower_byte_def
        TrimPrefix_def sample_server_lib_def)
  have "site_HasPermission ingest_lib ''admin'' PermSiteManageData"
    by (simp add: site_HasPermission_iff sitePermissions_def policy_simps)
  moreover have "server_access sample_ingest_env sample_key None 4 =
     (if \<not> site_HasPermission ingest_lib ''admin'' PermSiteManageData then Some 403 else None)"
    by (simp add: server_access_def sample_key_def apiClientCanManageSiteData_def)
  ultimately have "server_access sample_ingest_env sample_key None 4 = None" by simp
  then have "\<exists>x. resolveServerIngestContext sample_server_lib sample_ingest_env sample_key sample_server_event empty_ingest = Inr x"
    using url sample_found
    by (simp add: resolveServerIngestContext_def sample_key_def sample_server_event_def selected_site_def sample_server_lib_def
        TrimSpace_graphic graphic_def sample_site_def)
  then have "is_queue (snd (handleServerEventIngestLeader sample_server_lib sample_ingest_env sample_key (Some sample_server_event) 1 empty_ingest)) \<noteq> is_queue empty_ingest"
    by (auto simp: handleServerEventIngestLeader_def server_filtered_def traffic_excluded_def spam_blocked_def publishJSON_def
        sample_server_event_def TrimSpace_graphic graphic_def)
  note a = server_ingest_authority [THEN conjunct2, rule_format, OF this]
  show ?thesis using a url sample_found by (auto simp: empty_ingest_def sample_server_event_def sample_site_def)
qed

end
