(* ===== verification/Ingest_Delivery.thy ===== *)
theory Ingest_Delivery
  imports Ingest_Pipeline Ingest_Admission Webhook_Enqueue
begin

text \<open>
  What the pipeline promises: a message is finished only when its row is stored, nothing can be done
  with it or the queue library gives it up, and rows that carry an identifier are stored once however often they are delivered.  Rows
  without one, as the ingest handlers queue them, are stored again by every delivery.
\<close>

subsection \<open>Rows that are missing\<close>

lemma missing_rows_props:
  "set (missing_rows key ex rows) \<subseteq> set rows \<and> distinct (map key (missing_rows key ex rows))
   \<and> key ` set (missing_rows key ex rows) \<inter> (insert uuid_Nil ex) = {}
   \<and> (\<forall>row \<in> set rows. key row = uuid_Nil \<or> key row \<in> ex \<union> key ` set (missing_rows key ex rows))"
  by (induction key ex rows rule: missing_rows.induct) auto

lemma missing_rows_Nil: "(\<forall>row \<in> set rows. key row = uuid_Nil) \<Longrightarrow> missing_rows key ex rows = []"
  by (induction key ex rows rule: missing_rows.induct) auto

lemma filterMissing_Inr:
  assumes "filterMissingIngestRows key stored rows db = (Inr missing, db')" and "\<And>x. stored (db\<lparr>an_outcomes := x\<rparr>) = stored db"
  shows "missing = missing_rows key (set (filter (\<lambda>i. i \<noteq> uuid_Nil) (map key rows)) \<inter> key ` set (stored db)) rows"
  using assms(1) missing_rows_Nil [of rows key] assms(2)
  by (auto simp: filterMissingIngestRows_def Let_def next_outcome_def filter_empty_conv split: list.splits outcome.splits if_splits)

text \<open>The tables of an analytics database.\<close>

definition an_rows :: "analytics_db \<Rightarrow> Hit list \<times> AnalyticsEvent list \<times> WebVital list" where
  "an_rows db = (an_hits db, an_events db, an_vitals db)"

lemma next_outcome_rows: "next_outcome db = (x, db') \<Longrightarrow> an_rows db' = an_rows db"
  by (auto simp: next_outcome_def an_rows_def split: list.splits)

lemma filterMissing_rows: "filterMissingIngestRows key stored rows db = (r, db') \<Longrightarrow> an_rows db' = an_rows db"
  by (auto simp: filterMissingIngestRows_def Let_def dest: next_outcome_rows split: if_splits prod.splits outcome.splits)

lemma append_rows_cases:
  "append_rows add rows db = (r, db') \<Longrightarrow> \<exists>db1 k. an_rows db1 = an_rows db \<and> (db' = add (take k rows) db1 \<or> db' = db1 \<and> rows = [])
     \<and> (r = Inr () \<longrightarrow> take k rows = rows)"
  by (auto simp: append_rows_def dest: next_outcome_rows split: if_splits prod.splits outcome.splits)
    (metis next_outcome_rows order.refl take_all)+

text \<open>A batch adds the beginning of the missing rows, and all of them when it succeeds.\<close>

definition stamped_hits :: "(nat \<Rightarrow> uuid) \<Rightarrow> time \<Rightarrow> Hit list \<Rightarrow> Hit list" where
  "stamped_hits new now hits = map2 (\<lambda>i h. stamp_hit now (new i) h) [0..<length hits] hits"

lemma CreateHits_cases:
  assumes "CreateHitsBulkIdempotent new now hits db = (r, hits', db')"
  shows "\<exists>missing k. hits' = stamped_hits new now hits
     \<and> missing = missing_rows h_ID (set (filter (\<lambda>i. i \<noteq> uuid_Nil) (map h_ID hits')) \<inter> h_ID ` set (an_hits db)) hits'
     \<and> an_hits db' = an_hits db @ take k missing \<and> an_events db' = an_events db \<and> an_vitals db' = an_vitals db
     \<and> (\<forall>created. r = Inr created \<longrightarrow> created = missing \<and> take k missing = missing)"
proof -
  let ?h = "stamped_hits new now hits"
  let ?m = "missing_rows h_ID (set (filter (\<lambda>i. i \<noteq> uuid_Nil) (map h_ID ?h)) \<inter> h_ID ` set (an_hits db)) ?h"
  obtain x db1 where f: "filterMissingIngestRows h_ID an_hits ?h db = (x, db1)" by (cases "filterMissingIngestRows h_ID an_hits ?h db")
  have rows: "an_rows db1 = an_rows db" by (rule filterMissing_rows [OF f])
  show ?thesis
  proof (cases x)
    case (Inl e)
    then have "hits' = ?h \<and> db' = db1 \<and> r = Inl e" using assms f by (simp add: CreateHitsBulkIdempotent_def stamped_hits_def)
    then show ?thesis using rows by (intro exI [of _ ?m] exI [of _ 0]) (simp add: an_rows_def)
  next
    case (Inr missing)
    then have m: "missing = ?m" using f by (intro filterMissing_Inr) simp_all
    obtain y db2 where a: "append_rows add_hits missing db1 = (y, db2)" by (cases "append_rows add_hits missing db1")
    have out: "hits' = ?h \<and> db' = db2 \<and> (\<forall>created. r = Inr created \<longrightarrow> created = missing \<and> y = Inr ())"
      using assms f Inr a by (auto simp: CreateHitsBulkIdempotent_def stamped_hits_def Let_def split: sum.splits)
    obtain db3 k where k: "an_rows db3 = an_rows db1" "db2 = add_hits (take k missing) db3 \<or> db2 = db3 \<and> missing = []"
      "y = Inr () \<longrightarrow> take k missing = missing"
      using append_rows_cases [OF a] by blast
    have "an_hits db' = an_hits db @ take k missing \<and> an_events db' = an_events db \<and> an_vitals db' = an_vitals db"
      using k(1,2) out rows by (auto simp: an_rows_def add_hits_def)
    then show ?thesis using out k(3) m by blast
  qed
qed

definition stamped_events :: "(nat \<Rightarrow> uuid) \<Rightarrow> time \<Rightarrow> AnalyticsEvent list \<Rightarrow> AnalyticsEvent list" where
  "stamped_events new now es = map2 (\<lambda>i e. stamp_event now (new i) e) [0..<length es] es"

lemma CreateEvents_cases:
  assumes "CreateEventsBulkIdempotent new now es db = (r, es', db')"
  shows "\<exists>missing k. es' = stamped_events new now es
     \<and> missing = missing_rows ae_ID (set (filter (\<lambda>i. i \<noteq> uuid_Nil) (map ae_ID es')) \<inter> ae_ID ` set (an_events db)) es'
     \<and> an_events db' = an_events db @ take k missing \<and> an_hits db' = an_hits db \<and> an_vitals db' = an_vitals db
     \<and> (\<forall>created. r = Inr created \<longrightarrow> created = missing \<and> take k missing = missing)"
proof -
  let ?h = "stamped_events new now es"
  let ?m = "missing_rows ae_ID (set (filter (\<lambda>i. i \<noteq> uuid_Nil) (map ae_ID ?h)) \<inter> ae_ID ` set (an_events db)) ?h"
  obtain x db1 where f: "filterMissingIngestRows ae_ID an_events ?h db = (x, db1)" by (cases "filterMissingIngestRows ae_ID an_events ?h db")
  have rows: "an_rows db1 = an_rows db" by (rule filterMissing_rows [OF f])
  show ?thesis
  proof (cases x)
    case (Inl e)
    then have "es' = ?h \<and> db' = db1 \<and> r = Inl e" using assms f by (simp add: CreateEventsBulkIdempotent_def stamped_events_def)
    then show ?thesis using rows by (intro exI [of _ ?m] exI [of _ 0]) (simp add: an_rows_def)
  next
    case (Inr missing)
    then have m: "missing = ?m" using f by (intro filterMissing_Inr) simp_all
    obtain y db2 where a: "append_rows add_events missing db1 = (y, db2)" by (cases "append_rows add_events missing db1")
    have out: "es' = ?h \<and> db' = db2 \<and> (\<forall>created. r = Inr created \<longrightarrow> created = missing \<and> y = Inr ())"
      using assms f Inr a by (auto simp: CreateEventsBulkIdempotent_def stamped_events_def Let_def split: sum.splits)
    obtain db3 k where k: "an_rows db3 = an_rows db1" "db2 = add_events (take k missing) db3 \<or> db2 = db3 \<and> missing = []"
      "y = Inr () \<longrightarrow> take k missing = missing"
      using append_rows_cases [OF a] by blast
    have "an_events db' = an_events db @ take k missing \<and> an_hits db' = an_hits db \<and> an_vitals db' = an_vitals db"
      using k(1,2) out rows by (auto simp: an_rows_def add_events_def)
    then show ?thesis using out k(3) m by blast
  qed
qed

text \<open>Emitting conversions leaves the tables of rows alone.\<close>

lemma conversion_loop_rows: "conversion_loop C sources subs bySite evs w a = (r, w', a') \<Longrightarrow> an_rows a' = an_rows a"
proof (induction C sources subs bySite evs w a rule: conversion_loop.induct)
  case (2 C source sources subs bySite evs w a)
  have goals: "GetGoals site db = (g, db') \<Longrightarrow> an_rows db' = an_rows db" for site db g db'
    by (auto simp: GetGoals_def dest: next_outcome_rows split: prod.splits outcome.splits)
  show ?case
    using 2(3) 2(1,2)
    by (fastforce simp: Let_def dest: goals split: if_splits prod.splits option.splits sum.splits)
qed simp

definition sys_rows :: "consumer_sys \<Rightarrow> uuid \<Rightarrow> Hit list \<times> AnalyticsEvent list \<times> WebVital list" where
  "sys_rows s st = an_rows (cs_stores s st)"

lemma emit_rows: "emitGoalConversionSources C f store sources s = (r, s') \<Longrightarrow> sys_rows s' st = sys_rows s st"
  by (auto simp: emitGoalConversionSources_def sys_rows_def Let_def dest: conversion_loop_rows split: if_splits prod.splits sum.splits)

lemma realtime_rows [simp]: "sys_rows (to_realtime C g s) st = sys_rows s st"
  by (simp add: to_realtime_def sys_rows_def)

lemma persist_hits_rows:
  assumes "persist_hits C f store hits s = (r, s')"
  shows "\<exists>missing k. missing = missing_rows h_ID (set (filter (\<lambda>i. i \<noteq> uuid_Nil) (map h_ID (stamped_hits (fe_new f) (fe_now f) hits)))
         \<inter> h_ID ` set (an_hits (cs_stores s store))) (stamped_hits (fe_new f) (fe_now f) hits)
     \<and> sys_rows s' = (sys_rows s)(store := (an_hits (cs_stores s store) @ take k missing, snd (sys_rows s store)))
     \<and> (r = Inr () \<longrightarrow> take k missing = missing)"
proof -
  obtain x hits' db where c: "CreateHitsBulkIdempotent (fe_new f) (fe_now f) hits (cs_stores s store) = (x, hits', db)"
    by (cases "CreateHitsBulkIdempotent (fe_new f) (fe_now f) hits (cs_stores s store)")
  let ?s = "s\<lparr>cs_stores := (cs_stores s)(store := db)\<rparr>"
  have "sys_rows s' st = sys_rows ?s st" for st
    using assms c emit_rows [of C f store "hit_sources hits'"]
    by (auto simp: persist_hits_def Let_def split: sum.splits if_splits)
  then have rows: "sys_rows s' = sys_rows ?s" by (rule ext)
  have ok: "r = Inr () \<Longrightarrow> \<exists>created. x = Inr created" using assms c by (auto simp: persist_hits_def Let_def split: sum.splits)
  show ?thesis
    using CreateHits_cases [OF c] ok unfolding rows
    by (elim exE conjE, intro exI conjI) (auto simp: sys_rows_def an_rows_def fun_eq_iff)
qed

lemma persist_events_rows:
  assumes "persist_events C f store es s = (r, s')"
  shows "\<exists>missing k. missing = missing_rows ae_ID (set (filter (\<lambda>i. i \<noteq> uuid_Nil) (map ae_ID (stamped_events (fe_new f) (fe_now f) es)))
         \<inter> ae_ID ` set (an_events (cs_stores s store))) (stamped_events (fe_new f) (fe_now f) es)
     \<and> sys_rows s' = (sys_rows s)(store := (an_hits (cs_stores s store), an_events (cs_stores s store) @ take k missing, an_vitals (cs_stores s store)))
     \<and> (r = Inr () \<longrightarrow> take k missing = missing)"
proof -
  obtain x es' db where c: "CreateEventsBulkIdempotent (fe_new f) (fe_now f) es (cs_stores s store) = (x, es', db)"
    by (cases "CreateEventsBulkIdempotent (fe_new f) (fe_now f) es (cs_stores s store)")
  let ?s = "s\<lparr>cs_stores := (cs_stores s)(store := db)\<rparr>"
  have "sys_rows s' st = sys_rows ?s st" for st
    using assms c emit_rows [of C f store "event_sources es'"]
    by (auto simp: persist_events_def Let_def split: sum.splits if_splits)
  then have rows: "sys_rows s' = sys_rows ?s" by (rule ext)
  have ok: "r = Inr () \<Longrightarrow> \<exists>created. x = Inr created" using assms c by (auto simp: persist_events_def Let_def split: sum.splits)
  show ?thesis
    using CreateEvents_cases [OF c] ok unfolding rows
    by (elim exE conjE, intro exI conjI) (auto simp: sys_rows_def an_rows_def fun_eq_iff)
qed

subsection \<open>Stored rows\<close>

text \<open>A value is stored as itself, with the identifier and the time it lacks, or a row has its identifier.\<close>

definition hit_stored :: "uuid \<Rightarrow> Hit \<Rightarrow> consumer_sys \<Rightarrow> bool" where
  "hit_stored st h s \<longleftrightarrow> (\<exists>row \<in> set (an_hits (cs_stores s st)). (\<exists>now new. row = stamp_hit now new h) \<or> h_ID h \<noteq> uuid_Nil \<and> h_ID row = h_ID h)"

definition event_stored :: "uuid \<Rightarrow> AnalyticsEvent \<Rightarrow> consumer_sys \<Rightarrow> bool" where
  "event_stored st e s \<longleftrightarrow> (\<exists>row \<in> set (an_events (cs_stores s st)). (\<exists>now new. row = stamp_event now new e) \<or> ae_ID e \<noteq> uuid_Nil \<and> ae_ID row = ae_ID e)"

definition vital_stored :: "uuid \<Rightarrow> WebVital \<Rightarrow> consumer_sys \<Rightarrow> bool" where
  "vital_stored st v s \<longleftrightarrow> (\<exists>row \<in> set (an_vitals (cs_stores s st)). \<exists>now new. row = stamp_vital now new v)"

text \<open>\<open>uuid.New\<close> gives identifiers that neither the table nor the batch has.\<close>

definition fresh_ids :: "('v \<Rightarrow> uuid) \<Rightarrow> (analytics_db \<Rightarrow> 'v list) \<Rightarrow> ('v, consumer_sys) freshness" where
  "fresh_ids key table f st vs s \<longleftrightarrow> distinct (map (fe_new f) [0..<length vs])
     \<and> (\<forall>i < length vs. fe_new f i \<noteq> uuid_Nil \<and> fe_new f i \<notin> key ` set (table (cs_stores s st)) \<and> fe_new f i \<notin> key ` set vs)"

text \<open>Nothing else deletes rows while the run lasts.\<close>

definition rows_kept :: "consumer_sys \<Rightarrow> consumer_sys \<Rightarrow> bool" where
  "rows_kept s s' \<longleftrightarrow> (\<forall>st. set (an_hits (cs_stores s st)) \<subseteq> set (an_hits (cs_stores s' st))
     \<and> set (an_events (cs_stores s st)) \<subseteq> set (an_events (cs_stores s' st)) \<and> set (an_vitals (cs_stores s st)) \<subseteq> set (an_vitals (cs_stores s' st)))"

lemma stored_kept:
  "rows_kept s s' \<Longrightarrow> hit_stored st h s \<Longrightarrow> hit_stored st h s'" "rows_kept s s' \<Longrightarrow> event_stored st e s \<Longrightarrow> event_stored st e s'"
  "rows_kept s s' \<Longrightarrow> vital_stored st v s \<Longrightarrow> vital_stored st v s'"
  by (fastforce simp: rows_kept_def hit_stored_def event_stored_def vital_stored_def)+

lemma sys_rows_eq:
  "sys_rows s' st = (hs, es, vs) \<longleftrightarrow> an_hits (cs_stores s' st) = hs \<and> an_events (cs_stores s' st) = es \<and> an_vitals (cs_stores s' st) = vs"
  by (auto simp: sys_rows_def an_rows_def)

lemma persist_hits_tables:
  assumes "persist_hits C f store hits s = (r, s')"
  shows "\<exists>missing k. missing = missing_rows h_ID (set (filter (\<lambda>i. i \<noteq> uuid_Nil) (map h_ID (stamped_hits (fe_new f) (fe_now f) hits)))
         \<inter> h_ID ` set (an_hits (cs_stores s store))) (stamped_hits (fe_new f) (fe_now f) hits)
     \<and> (\<forall>q. an_hits (cs_stores s' q) = (if q = store then an_hits (cs_stores s q) @ take k missing else an_hits (cs_stores s q))
         \<and> an_events (cs_stores s' q) = an_events (cs_stores s q) \<and> an_vitals (cs_stores s' q) = an_vitals (cs_stores s q))
     \<and> (r = Inr () \<longrightarrow> take k missing = missing)"
proof -
  obtain missing k where m: "missing = missing_rows h_ID (set (filter (\<lambda>i. i \<noteq> uuid_Nil) (map h_ID (stamped_hits (fe_new f) (fe_now f) hits)))
         \<inter> h_ID ` set (an_hits (cs_stores s store))) (stamped_hits (fe_new f) (fe_now f) hits)"
    and rows: "sys_rows s' = (sys_rows s)(store := (an_hits (cs_stores s store) @ take k missing, snd (sys_rows s store)))"
    and ok: "r = Inr () \<longrightarrow> take k missing = missing"
    using persist_hits_rows [OF assms] by blast
  have "sys_rows s' q = (if q = store then an_hits (cs_stores s q) @ take k missing else an_hits (cs_stores s q),
      an_events (cs_stores s q), an_vitals (cs_stores s q))" for q
    unfolding rows by (simp add: sys_rows_def an_rows_def)
  then show ?thesis unfolding sys_rows_eq using m ok by (intro exI [of _ missing] exI [of _ k]) simp
qed

lemma persist_events_tables:
  assumes "persist_events C f store es s = (r, s')"
  shows "\<exists>missing k. missing = missing_rows ae_ID (set (filter (\<lambda>i. i \<noteq> uuid_Nil) (map ae_ID (stamped_events (fe_new f) (fe_now f) es)))
         \<inter> ae_ID ` set (an_events (cs_stores s store))) (stamped_events (fe_new f) (fe_now f) es)
     \<and> (\<forall>q. an_events (cs_stores s' q) = (if q = store then an_events (cs_stores s q) @ take k missing else an_events (cs_stores s q))
         \<and> an_hits (cs_stores s' q) = an_hits (cs_stores s q) \<and> an_vitals (cs_stores s' q) = an_vitals (cs_stores s q))
     \<and> (r = Inr () \<longrightarrow> take k missing = missing)"
proof -
  obtain missing k where m: "missing = missing_rows ae_ID (set (filter (\<lambda>i. i \<noteq> uuid_Nil) (map ae_ID (stamped_events (fe_new f) (fe_now f) es)))
         \<inter> ae_ID ` set (an_events (cs_stores s store))) (stamped_events (fe_new f) (fe_now f) es)"
    and rows: "sys_rows s' = (sys_rows s)(store := (an_hits (cs_stores s store), an_events (cs_stores s store) @ take k missing, an_vitals (cs_stores s store)))"
    and ok: "r = Inr () \<longrightarrow> take k missing = missing"
    using persist_events_rows [OF assms] by blast
  have "sys_rows s' q = (an_hits (cs_stores s q), if q = store then an_events (cs_stores s q) @ take k missing else an_events (cs_stores s q),
      an_vitals (cs_stores s q))" for q
    unfolding rows by (simp add: sys_rows_def an_rows_def)
  then show ?thesis unfolding sys_rows_eq using m ok by (intro exI [of _ missing] exI [of _ k]) simp
qed

lemma takeWhile_full: "\<not> length (takeWhile P xs) < length xs \<Longrightarrow> takeWhile P xs = xs"
  by (induction xs) (auto split: if_splits)

lemma persist_vitals_tables:
  assumes "persist_vitals C f store vs s = (r, s')"
  shows "\<exists>rows. (\<forall>q. an_vitals (cs_stores s' q) = (if q = store then an_vitals (cs_stores s q) @ rows else an_vitals (cs_stores s q))
         \<and> an_hits (cs_stores s' q) = an_hits (cs_stores s q) \<and> an_events (cs_stores s' q) = an_events (cs_stores s q))
     \<and> (r = Inr () \<longrightarrow> rows = map2 (\<lambda>i v. stamp_vital (fe_now f) (fe_new f i) v) [0..<length vs] vs)"
proof -
  let ?vs = "map2 (\<lambda>i v. stamp_vital (fe_now f) (fe_new f i) v) [0..<length vs] vs"
  let ?good = "takeWhile (\<lambda>v. WebVitalRatingForValue (wv_Metric v) (wv_Value v) \<noteq> None) ?vs"
  obtain x db where a: "append_rows add_vitals ?good (cs_stores s store) = (x, db)" by (cases "append_rows add_vitals ?good (cs_stores s store)")
  obtain db1 k where k: "an_rows db1 = an_rows (cs_stores s store)" "db = add_vitals (take k ?good) db1 \<or> db = db1 \<and> ?good = []"
      "x = Inr () \<longrightarrow> take k ?good = ?good"
    using append_rows_cases [OF a] by blast
  have db: "an_vitals db = an_vitals (cs_stores s store) @ take k ?good" "an_hits db = an_hits (cs_stores s store)" "an_events db = an_events (cs_stores s store)"
    using k(1,2) by (auto simp: an_rows_def add_vitals_def)
  have stores: "cs_stores s' = (cs_stores s)(store := db)"
    using assms a by (auto simp: persist_vitals_def CreateWebVitalsBulk_def Let_def to_realtime_def split: sum.splits if_splits)
  have "take k ?good = ?vs" if "r = Inr ()"
  proof -
    have x: "x = Inr () \<and> \<not> length ?good < length ?vs"
      using assms a that by (auto simp: persist_vitals_def CreateWebVitalsBulk_def Let_def split: sum.splits if_splits)
    have "?good = ?vs" using x takeWhile_full by blast
    then show ?thesis using k(3) x by simp
  qed
  then show ?thesis unfolding stores using db by (intro exI [of _ "take k ?good"]) simp
qed

lemma persist_kept:
  "rows_kept s (snd (persist_hits C f st hs s))" "rows_kept s (snd (persist_events C f st es s))" "rows_kept s (snd (persist_vitals C f st vs s))"
proof -
  obtain r s' where p: "persist_hits C f st hs s = (r, s')" by (cases "persist_hits C f st hs s")
  show "rows_kept s (snd (persist_hits C f st hs s))" using persist_hits_tables [OF p] unfolding p by (auto simp: rows_kept_def)
  obtain r s' where p: "persist_events C f st es s = (r, s')" by (cases "persist_events C f st es s")
  show "rows_kept s (snd (persist_events C f st es s))" using persist_events_tables [OF p] unfolding p by (auto simp: rows_kept_def)
  obtain r s' where p: "persist_vitals C f st vs s = (r, s')" by (cases "persist_vitals C f st vs s")
  show "rows_kept s (snd (persist_vitals C f st vs s))" using persist_vitals_tables [OF p] unfolding p by (auto simp: rows_kept_def)
qed

lemma stamped_nth:
  "length (stamped_hits new now hs) = length hs" "i < length hs \<Longrightarrow> stamped_hits new now hs ! i = stamp_hit now (new i) (hs ! i)"
  "length (stamped_events new now es) = length es" "i < length es \<Longrightarrow> stamped_events new now es ! i = stamp_event now (new i) (es ! i)"
  by (simp_all add: stamped_hits_def stamped_events_def)

lemma stamp_id [simp]:
  "h_ID (stamp_hit now new h) = (if h_ID h = uuid_Nil then new else h_ID h)"
  "ae_ID (stamp_event now new e) = (if ae_ID e = uuid_Nil then new else ae_ID e)"
  by (simp_all add: stamp_hit_def stamp_event_def)

text \<open>A row of the stamped batch is stored afterwards, or the table had its identifier before.\<close>

lemma batch_stored:
  assumes rows: "length rows = length vs" "\<And>i. i < length vs \<Longrightarrow> key (rows ! i) = (if key (vs ! i) = uuid_Nil then new i else key (vs ! i))"
    and new: "distinct (map new [0..<length vs])"
      "\<forall>i < length vs. new i \<noteq> uuid_Nil \<and> new i \<notin> key ` set table \<and> new i \<notin> key ` set vs"
    and missing: "missing = missing_rows key (set (filter (\<lambda>i. i \<noteq> uuid_Nil) (map key rows)) \<inter> key ` set table) rows"
    and i: "i < length vs"
  shows "rows ! i \<in> set missing \<or> key (vs ! i) \<noteq> uuid_Nil \<and> key (vs ! i) \<in> key ` (set table \<union> set missing)"
proof -
  have mem: "rows ! i \<in> set rows" using i rows(1) by simp
  have id: "key (rows ! i) \<noteq> uuid_Nil" using rows(2) [OF i] new(2) i by auto
  note props = missing_rows_props [of key "set (filter (\<lambda>i. i \<noteq> uuid_Nil) (map key rows)) \<inter> key ` set table" rows, folded missing]
  have sub: "set missing \<subseteq> set rows" using props by (rule conjunct1)
  have cover: "key (rows ! i) \<in> key ` set table \<or> key (rows ! i) \<in> key ` set missing"
    using props mem id by blast
  show ?thesis
  proof (cases "key (vs ! i) = uuid_Nil")
    case True
    then have k: "key (rows ! i) = new i" using rows(2) [OF i] by simp
    then have "key (rows ! i) \<notin> key ` set table" using new(2) i by simp
    then obtain row where row: "row \<in> set missing" "key row = new i" using cover k by auto
    have "row \<in> set rows" using row(1) sub by (rule rev_subsetD)
    then obtain j where j: "j < length vs" "row = rows ! j" using rows(1) by (auto simp: in_set_conv_nth)
    have "j = i"
    proof (cases "key (vs ! j) = uuid_Nil")
      case True
      then have "new j = new i" using rows(2) [OF j(1)] row(2) j(2) by simp
      then show ?thesis using new(1) i j(1) by (auto simp: distinct_map dest: inj_onD)
    next
      case False
      then have "new i = key (vs ! j)" using rows(2) [OF j(1)] row(2) j(2) by simp
      then have "new i \<in> key ` set vs" using j(1) by simp
      then show ?thesis using new(2) i by blast
    qed
    then show ?thesis using row(1) j(2) by simp
  next
    case False
    then show ?thesis using cover rows(2) [OF i] by auto
  qed
qed

lemma hits_persisted:
  assumes "fresh_ids h_ID an_hits f st hs s" and "persist_hits C f st hs s = (Inr u, s')" and "h \<in> set hs"
  shows "hit_stored st h s'"
proof -
  obtain i where i: "i < length hs" "h = hs ! i" using assms(3) by (metis in_set_conv_nth)
  let ?rows = "stamped_hits (fe_new f) (fe_now f) hs"
  obtain missing where m: "missing = missing_rows h_ID (set (filter (\<lambda>i. i \<noteq> uuid_Nil) (map h_ID ?rows)) \<inter> h_ID ` set (an_hits (cs_stores s st))) ?rows"
    "an_hits (cs_stores s' st) = an_hits (cs_stores s st) @ missing"
    using persist_hits_tables [OF assms(2)] by auto
  have "?rows ! i \<in> set missing \<or> h_ID (hs ! i) \<noteq> uuid_Nil \<and> h_ID (hs ! i) \<in> h_ID ` (set (an_hits (cs_stores s st)) \<union> set missing)"
    by (rule batch_stored [OF _ _ _ _ m(1) i(1), where new = "fe_new f"])
      (use assms(1) in \<open>simp_all add: stamped_nth fresh_ids_def\<close>)
  moreover have "?rows ! i = stamp_hit (fe_now f) (fe_new f i) h" using i by (simp add: stamped_nth)
  ultimately show ?thesis unfolding hit_stored_def m(2) using i(2) by (auto simp: image_iff)
qed

lemma events_persisted:
  assumes "fresh_ids ae_ID an_events f st es s" and "persist_events C f st es s = (Inr u, s')" and "e \<in> set es"
  shows "event_stored st e s'"
proof -
  obtain i where i: "i < length es" "e = es ! i" using assms(3) by (metis in_set_conv_nth)
  let ?rows = "stamped_events (fe_new f) (fe_now f) es"
  obtain missing where m: "missing = missing_rows ae_ID (set (filter (\<lambda>i. i \<noteq> uuid_Nil) (map ae_ID ?rows)) \<inter> ae_ID ` set (an_events (cs_stores s st))) ?rows"
    "an_events (cs_stores s' st) = an_events (cs_stores s st) @ missing"
    using persist_events_tables [OF assms(2)] by auto
  have "?rows ! i \<in> set missing \<or> ae_ID (es ! i) \<noteq> uuid_Nil \<and> ae_ID (es ! i) \<in> ae_ID ` (set (an_events (cs_stores s st)) \<union> set missing)"
    by (rule batch_stored [OF _ _ _ _ m(1) i(1), where new = "fe_new f"])
      (use assms(1) in \<open>simp_all add: stamped_nth fresh_ids_def\<close>)
  moreover have "?rows ! i = stamp_event (fe_now f) (fe_new f i) e" using i by (simp add: stamped_nth)
  ultimately show ?thesis unfolding event_stored_def m(2) using i(2) by (auto simp: image_iff)
qed

lemma vitals_persisted:
  assumes "persist_vitals C f st vs s = (Inr u, s')" and "v \<in> set vs"
  shows "vital_stored st v s'"
proof -
  obtain i where i: "i < length vs" "v = vs ! i" using assms(2) by (metis in_set_conv_nth)
  let ?rows = "map2 (\<lambda>i v. stamp_vital (fe_now f) (fe_new f i) v) [0..<length vs] vs"
  have "set ?rows \<subseteq> set (an_vitals (cs_stores s' st))" using persist_vitals_tables [OF assms(1)] by auto
  moreover have "?rows ! i = stamp_vital (fe_now f) (fe_new f i) v" using i by simp
  moreover have "?rows ! i \<in> set ?rows" using i(1) by (intro nth_mem) simp
  ultimately show ?thesis unfolding vital_stored_def by (intro bexI [of _ "?rows ! i"]) auto
qed

interpretation hit_pipe: persisting "persist_hits C" "fresh_ids h_ID an_hits" rows_kept hit_stored for C :: "'d consumer_lib"
  by unfold_locales (blast intro: hits_persisted stored_kept(1) persist_kept(1))+

interpretation event_pipe: persisting "persist_events C" "fresh_ids ae_ID an_events" rows_kept event_stored for C :: "'d consumer_lib"
  by unfold_locales (blast intro: events_persisted stored_kept(2) persist_kept(2))+

interpretation vital_pipe: persisting "persist_vitals C" "\<lambda>_ _ _ _. True" rows_kept vital_stored for C :: "'d consumer_lib"
  by unfold_locales (blast intro: vitals_persisted stored_kept(3) persist_kept(3))+

subsection \<open>Finished messages\<close>

text \<open>
  C37. What a finished message of the ingest queue stands for. In every run of the three pipelines, with
  deliveries, redeliveries, lost deliveries, full batches, ticks and a stop in any order and statements
  that fail at any point, while the other parts of the program delete no rows: the batch stays below 64
  items; a message that was finished could not be decoded, was given up, or has its row stored in the
  database of the team; one that was accepted is in the batch, stored or requeued. The queue library gives
  a message up only when it is delivered a sixth time, and then it may be lost: no message is accepted
  more than five times.
\<close>

theorem finished_is_stored:
  fixes C :: "'d consumer_lib"
  assumes "pipe_run (persist_hits C) (fresh_ids h_ID an_hits) rows_kept s0 p"
    and "pipe_run (persist_events C) (fresh_ids ae_ID an_events) rows_kept s0 q"
    and "pipe_run (persist_vitals C) (\<lambda>_ _ _ _. True) rows_kept s0 w"
  shows "length (pl_pending p) < 64 \<and> length (pl_pending q) < 64 \<and> length (pl_pending w) < 64
    \<and> (\<forall>m \<in> set (pl_finished p). m \<in> set (pl_dropped p) \<or> m \<in> set (pl_given_up p)
        \<or> (\<exists>h st. (m, h, st) \<in> set (pl_accepted p) \<and> hit_stored st h (pl_sys p)))
    \<and> (\<forall>m \<in> set (pl_finished q). m \<in> set (pl_dropped q) \<or> m \<in> set (pl_given_up q)
        \<or> (\<exists>e st. (m, e, st) \<in> set (pl_accepted q) \<and> event_stored st e (pl_sys q)))
    \<and> (\<forall>m \<in> set (pl_finished w). m \<in> set (pl_dropped w) \<or> m \<in> set (pl_given_up w)
        \<or> (\<exists>v st. (m, v, st) \<in> set (pl_accepted w) \<and> vital_stored st v (pl_sys w)))
    \<and> (\<forall>(m, h, st) \<in> set (pl_accepted p). (m, h, st) \<in> set (pl_pending p) \<or> hit_stored st h (pl_sys p) \<or> m \<in> set (pl_requeued p))
    \<and> (\<forall>(m, e, st) \<in> set (pl_accepted q). (m, e, st) \<in> set (pl_pending q) \<or> event_stored st e (pl_sys q) \<or> m \<in> set (pl_requeued q))
    \<and> (\<forall>(m, v, st) \<in> set (pl_accepted w). (m, v, st) \<in> set (pl_pending w) \<or> vital_stored st v (pl_sys w) \<or> m \<in> set (pl_requeued w))
    \<and> (\<forall>m \<in> set (pl_given_up p). 5 < count_list (pl_delivered p) m) \<and> (\<forall>m. count_list (map fst (pl_accepted p)) m \<le> 5)
    \<and> (\<forall>m \<in> set (pl_given_up q). 5 < count_list (pl_delivered q) m) \<and> (\<forall>m. count_list (map fst (pl_accepted q)) m \<le> 5)
    \<and> (\<forall>m \<in> set (pl_given_up w). 5 < count_list (pl_delivered w) m) \<and> (\<forall>m. count_list (map fst (pl_accepted w)) m \<le> 5)"
proof -
  have p: "hit_pipe.pipe_ok p" "attempts_ok p" by (rule hit_pipe.pipe_run_ok [OF assms(1)], rule pipe_run_attempts [OF assms(1)])
  have q: "event_pipe.pipe_ok q" "attempts_ok q" by (rule event_pipe.pipe_run_ok [OF assms(2)], rule pipe_run_attempts [OF assms(2)])
  have w: "vital_pipe.pipe_ok w" "attempts_ok w" by (rule vital_pipe.pipe_run_ok [OF assms(3)], rule pipe_run_attempts [OF assms(3)])
  show ?thesis
    using p(1) q(1) w(1) p(2) q(2) w(2) unfolding hit_pipe.pipe_ok_def event_pipe.pipe_ok_def vital_pipe.pipe_ok_def ingestBatchSize_def
      hit_pipe.accounted_def event_pipe.accounted_def vital_pipe.accounted_def hit_pipe.settled_def event_pipe.settled_def
      vital_pipe.settled_def attempts_ok_def consumerMaxAttempts_def
    by (intro conjI) fast+
qed

text \<open>
  A message can be lost.  One that cannot be stored for five deliveries, here since its site is not
  resolved, is finished with the sixth, and no row is stored.
\<close>

lemma sixth_delivery_loses_message:
  "let p = (attemptMessage 5 (Some v) None ^^ 6) (pipe_start s)
   in pl_finished p = [5] \<and> pl_given_up p = [5] \<and> pl_accepted p = [] \<and> pl_dropped p = [] \<and> pl_sys p = s"
  by (simp add: attemptMessage_def processMessage_def pipe_start_def consumerMaxAttempts_def eval_nat_numeral)

subsection \<open>Identifiers are stored once\<close>

definition ids_unique :: "consumer_sys \<Rightarrow> bool" where
  "ids_unique s \<longleftrightarrow> (\<forall>st. distinct (map h_ID (an_hits (cs_stores s st))) \<and> uuid_Nil \<notin> h_ID ` set (an_hits (cs_stores s st))
     \<and> distinct (map ae_ID (an_events (cs_stores s st))) \<and> uuid_Nil \<notin> ae_ID ` set (an_events (cs_stores s st)))"

lemma missing_unique:
  assumes "distinct (map key table)" and "uuid_Nil \<notin> key ` set table"
    and "missing = missing_rows key (set (filter (\<lambda>i. i \<noteq> uuid_Nil) (map key rows)) \<inter> key ` set table) rows"
  shows "distinct (map key (table @ take k missing))" and "uuid_Nil \<notin> key ` set (table @ take k missing)"
proof -
  note props = missing_rows_props [of key "set (filter (\<lambda>i. i \<noteq> uuid_Nil) (map key rows)) \<inter> key ` set table" rows, folded assms(3)]
  have "key ` set missing \<inter> key ` set table = {}"
  proof -
    have "key x \<in> set (filter (\<lambda>i. i \<noteq> uuid_Nil) (map key rows))" if "x \<in> set missing" for x
    proof -
      have "key x \<noteq> uuid_Nil" using props that by blast
      moreover have "x \<in> set rows" using props that by blast
      ultimately show ?thesis by simp
    qed
    then show ?thesis using props by blast
  qed
  moreover have sub: "set (take k missing) \<subseteq> set missing" by (rule set_take_subset)
  moreover have "distinct (map key (take k missing))" using props by (simp add: take_map [symmetric])
  ultimately show "distinct (map key (table @ take k missing))" using assms(1) by auto
  show "uuid_Nil \<notin> key ` set (table @ take k missing)" using assms(2) props sub by auto
qed

lemma persist_hits_unique:
  assumes "ids_unique s"
  shows "ids_unique (snd (persist_hits C f st hs s))"
proof -
  obtain r s' where p: "persist_hits C f st hs s = (r, s')" by (cases "persist_hits C f st hs s")
  let ?rows = "stamped_hits (fe_new f) (fe_now f) hs"
  obtain missing k where m: "missing = missing_rows h_ID (set (filter (\<lambda>i. i \<noteq> uuid_Nil) (map h_ID ?rows)) \<inter> h_ID ` set (an_hits (cs_stores s st))) ?rows"
    and t: "\<forall>q. an_hits (cs_stores s' q) = (if q = st then an_hits (cs_stores s q) @ take k missing else an_hits (cs_stores s q))
         \<and> an_events (cs_stores s' q) = an_events (cs_stores s q) \<and> an_vitals (cs_stores s' q) = an_vitals (cs_stores s q)"
    using persist_hits_tables [OF p] by blast
  have "distinct (map h_ID (an_hits (cs_stores s st) @ take k missing)) \<and> uuid_Nil \<notin> h_ID ` set (an_hits (cs_stores s st) @ take k missing)"
    using missing_unique [OF _ _ m] assms unfolding ids_unique_def by blast
  then show ?thesis unfolding p using assms t by (simp add: ids_unique_def)
qed

lemma persist_events_unique:
  assumes "ids_unique s"
  shows "ids_unique (snd (persist_events C f st es s))"
proof -
  obtain r s' where p: "persist_events C f st es s = (r, s')" by (cases "persist_events C f st es s")
  let ?rows = "stamped_events (fe_new f) (fe_now f) es"
  obtain missing k where m: "missing = missing_rows ae_ID (set (filter (\<lambda>i. i \<noteq> uuid_Nil) (map ae_ID ?rows)) \<inter> ae_ID ` set (an_events (cs_stores s st))) ?rows"
    and t: "\<forall>q. an_events (cs_stores s' q) = (if q = st then an_events (cs_stores s q) @ take k missing else an_events (cs_stores s q))
         \<and> an_hits (cs_stores s' q) = an_hits (cs_stores s q) \<and> an_vitals (cs_stores s' q) = an_vitals (cs_stores s q)"
    using persist_events_tables [OF p] by blast
  have "distinct (map ae_ID (an_events (cs_stores s st) @ take k missing)) \<and> uuid_Nil \<notin> ae_ID ` set (an_events (cs_stores s st) @ take k missing)"
    using missing_unique [OF _ _ m] assms unfolding ids_unique_def by blast
  then show ?thesis unfolding p using assms t by (simp add: ids_unique_def)
qed

text \<open>An invariant that every flush keeps, and the rest of the program too, holds in every run.\<close>

lemma flush_groups_keep:
  assumes "\<And>f st vs s. I s \<Longrightarrow> I (snd (persist f st vs s))"
  shows "I (pl_sys p) \<Longrightarrow> I (pl_sys (foldl (\<lambda>p store. flush_group persist (f store) store items p) p order))"
proof (induction order arbitrary: p)
  case (Cons st order)
  obtain r s where r: "persist (f st) st (map (\<lambda>(_, v, _). v) (filter (\<lambda>(_, _, st'). st' = st) items)) (pl_sys p) = (r, s)"
    by (cases "persist (f st) st (map (\<lambda>(_, v, _). v) (filter (\<lambda>(_, _, st'). st' = st) items)) (pl_sys p)")
  have "I s" using assms [OF Cons.prems, of "f st" st] r by (metis snd_conv)
  then have "I (pl_sys (flush_group persist (f st) st items p))" using r by (simp add: flush_group_def Let_def split: sum.split)
  then show ?case using Cons.IH by simp
qed simp

lemma pipe_run_keeps:
  assumes "pipe_run persist fresh environment s0 p" and "I s0"
    and "\<And>f st vs s. I s \<Longrightarrow> I (snd (persist f st vs s))" and "\<And>s s'. environment s s' \<Longrightarrow> I s \<Longrightarrow> I s'"
  shows "I (pl_sys p)"
  using assms(1)
proof induction
  case start
  show ?case by (simp add: pipe_start_def assms(2))
next
  case (step p p')
  have process: "pl_sys (attemptMessage m decoded store p) = pl_sys p" for m decoded store
    by (simp add: attemptMessage_def processMessage_def Let_def split: option.split)
  have flush: "I (pl_sys q) \<Longrightarrow> I (pl_sys (flush_batch persist f order q))" for q f order
    unfolding flush_batch_def by (rule flush_groups_keep [where I = I, OF assms(3)]) simp_all
  from step.hyps(2) show ?case
  proof cases
    case (full q m decoded store order f)
    then show ?thesis using flush process step.IH by metis
  next
    case (tick order f)
    then show ?thesis using flush step.IH by metis
  next
    case (stop order f)
    then show ?thesis using flush [OF step.IH, of f order] by simp
  next
    case (other s)
    then show ?thesis using assms(4) step.IH by simp
  qed (simp_all add: process step.IH)
qed

lemma distinct_once: "distinct (map key xs) \<Longrightarrow> length (filter (\<lambda>x. key x = i) xs) \<le> 1"
proof (induction xs)
  case (Cons x xs)
  have "key x = i \<Longrightarrow> filter (\<lambda>y. key y = i) xs = []" using Cons.prems by (auto simp: filter_empty_conv image_iff)
  then show ?case using Cons by auto
qed simp

text \<open>
  C38. A row with an identifier is stored once. In every run, as often as a message is delivered again
  and whichever statements fail, no two page views or events of a team's database share an identifier:
  a value that was queued with one is stored at most once.
\<close>

theorem identifier_stored_once:
  fixes C :: "'d consumer_lib"
  assumes "pipe_run (persist_hits C) (fresh_ids h_ID an_hits) (\<lambda>s s'. ids_unique s \<longrightarrow> ids_unique s') s0 p"
    and "pipe_run (persist_events C) (fresh_ids ae_ID an_events) (\<lambda>s s'. ids_unique s \<longrightarrow> ids_unique s') s0 q" and "ids_unique s0"
  shows "length (filter (\<lambda>h. h_ID h = i) (an_hits (cs_stores (pl_sys p) st))) \<le> 1
    \<and> length (filter (\<lambda>e. ae_ID e = i) (an_events (cs_stores (pl_sys q) st))) \<le> 1"
proof -
  have "ids_unique (pl_sys p)" by (rule pipe_run_keeps [OF assms(1,3) persist_hits_unique]) simp_all
  moreover have "ids_unique (pl_sys q)" by (rule pipe_run_keeps [OF assms(2,3) persist_events_unique]) simp_all
  ultimately show ?thesis unfolding ids_unique_def by (intro conjI distinct_once) simp_all
qed

subsection \<open>Rows without an identifier\<close>

text \<open>
  The handlers queue hits without an identifier, and every delivery draws a new one: a message whose
  batch was stored but answered with an error, since the conversion could not be emitted, is stored again
  by its next delivery.
\<close>

lemma unidentified_hit_stored_twice:
  assumes "h_ID h = uuid_Nil" and "an_outcomes db = []"
    and "n1 \<noteq> uuid_Nil" "n2 \<noteq> uuid_Nil" "n1 \<noteq> n2" "n1 \<notin> h_ID ` set (an_hits db)" "n2 \<notin> h_ID ` set (an_hits db)"
    and "CreateHitsBulkIdempotent (\<lambda>_. n1) now [h] db = (r1, hs1, db1)" and "CreateHitsBulkIdempotent (\<lambda>_. n2) now' [h] db1 = (r2, hs2, db2)"
  shows "an_hits db2 = an_hits db @ [stamp_hit now n1 h, stamp_hit now' n2 h]" and "r2 = Inr [stamp_hit now' n2 h]"
proof -
  have id: "h_ID (stamp_hit now n1 h) = n1" "h_ID (stamp_hit now' n2 h) = n2" using assms(1) by simp_all
  have 1: "db1 = add_hits [stamp_hit now n1 h] db"
    using assms(2,3,6,8) id by (auto simp: CreateHitsBulkIdempotent_def filterMissingIngestRows_def append_rows_def next_outcome_def Let_def)
  have "n2 \<notin> h_ID ` set (an_hits db1)" "an_outcomes db1 = []" using 1 assms(2,5,7) id by (simp_all add: add_hits_def)
  then have 2: "db2 = add_hits [stamp_hit now' n2 h] db1 \<and> r2 = Inr [stamp_hit now' n2 h]"
    using assms(4,9) id by (auto simp: CreateHitsBulkIdempotent_def filterMissingIngestRows_def append_rows_def next_outcome_def Let_def)
  show "an_hits db2 = an_hits db @ [stamp_hit now n1 h, stamp_hit now' n2 h]" and "r2 = Inr [stamp_hit now' n2 h]"
    using 1 2 by (simp_all add: add_hits_def)
qed

subsection \<open>One page view through the pipeline\<close>

definition empty_analytics :: analytics_db where
  "empty_analytics = \<lparr>an_hits = [], an_events = [], an_vitals = [], an_goals = [], an_outcomes = []\<rparr>"

definition quiet_consumer :: "nat consumer_lib" where
  "quiet_consumer = \<lparr>cl_json = sample_json, cl_version = [], cl_conversion_id = (\<lambda>_ _. 1), cl_data = (\<lambda>_ _. None),
     cl_publish = (\<lambda>_. True), cl_emitter = False, cl_realtime = False\<rparr>"

definition sample_consumer_sys :: consumer_sys where
  "sample_consumer_sys = \<lparr>cs_stores = (\<lambda>_. empty_analytics), cs_webhooks = (sample_tables, []), cs_broker = NewBroker\<rparr>"

definition sample_draws :: flush_env where
  "sample_draws = \<lparr>fe_new = (\<lambda>_. 9), fe_new_event = (\<lambda>_. 9), fe_new_delivery = (\<lambda>_ _. 9), fe_now = 0, fe_reads = (\<lambda>_. (0, 0)), fe_order = (\<lambda>xs. xs)\<rparr>"

definition queued_hit :: Hit where
  "queued_hit = browser_hit sample_ingest_env sample_http 0 ''example.org'' sample_site sample_page"

definition queued_once :: "(Hit, consumer_sys) pipeline" where
  "queued_once = attemptMessage 5 (Some queued_hit) (Some 3) (pipe_start sample_consumer_sys)"

definition flushed_once :: "(Hit, consumer_sys) pipeline" where
  "flushed_once = flush_batch (persist_hits quiet_consumer) (\<lambda>_. sample_draws) [3] queued_once"

lemma queued_once_state:
  "pl_pending queued_once = [(5, queued_hit, 3)]" "pl_sys queued_once = sample_consumer_sys" "pl_finished queued_once = []" "pl_dropped queued_once = []"
  "pl_accepted queued_once = [(5, queued_hit, 3)]" "pl_given_up queued_once = []"
  by (simp_all add: queued_once_def attemptMessage_def processMessage_def pipe_start_def consumerMaxAttempts_def)

lemma queued_hit_ID: "h_ID queued_hit = uuid_Nil"
  by (simp add: queued_hit_def browser_hit_def Let_def)

lemma sample_persisted:
  "\<exists>s. persist_hits quiet_consumer sample_draws 3 [queued_hit] sample_consumer_sys = (Inr (), s)"
  by (auto simp: persist_hits_def CreateHitsBulkIdempotent_def filterMissingIngestRows_def append_rows_def next_outcome_def Let_def
      sample_consumer_sys_def empty_analytics_def queued_hit_ID sample_draws_def uuid_Nil_def emitGoalConversionSources_def quiet_consumer_def)

lemma flushed_once_state: "pl_finished flushed_once = [5]" "pl_dropped flushed_once = []" "pl_given_up flushed_once = []"
proof -
  obtain s where "persist_hits quiet_consumer sample_draws 3 [queued_hit] sample_consumer_sys = (Inr (), s)" using sample_persisted by blast
  then show "pl_finished flushed_once = [5]" "pl_dropped flushed_once = []" "pl_given_up flushed_once = []"
    by (simp_all add: flushed_once_def flush_batch_def flush_group_def queued_once_state)
qed

lemma flushed_once_run: "pipe_run (persist_hits quiet_consumer) (fresh_ids h_ID an_hits) environment sample_consumer_sys flushed_once"
proof -
  have "pipe_step (persist_hits quiet_consumer) (fresh_ids h_ID an_hits) environment (pipe_start sample_consumer_sys) queued_once"
    by (rule pipe_step.deliver [where m = 5 and decoded = "Some queued_hit" and store = "Some 3"])
      (simp_all add: queued_once_def attemptMessage_def processMessage_def pipe_start_def ingestBatchSize_def consumerMaxAttempts_def)
  then have "pipe_run (persist_hits quiet_consumer) (fresh_ids h_ID an_hits) environment sample_consumer_sys queued_once"
    by (rule pipe_run.step [OF pipe_run.start])
  moreover have "pipe_step (persist_hits quiet_consumer) (fresh_ids h_ID an_hits) environment queued_once flushed_once"
    unfolding flushed_once_def
    by (rule pipe_step.tick) (simp_all add: queued_once_state stores_of_def fresh_ids_def sample_draws_def uuid_Nil_def
        sample_consumer_sys_def empty_analytics_def queued_hit_ID)
  ultimately show ?thesis by (rule pipe_run.step)
qed

theorem finished_is_stored_witness:
  "\<exists>h st. 5 \<in> set (pl_finished flushed_once) \<and> hit_stored st h (pl_sys flushed_once)"
  using finished_is_stored [OF flushed_once_run pipe_run.start pipe_run.start] flushed_once_state by auto

theorem identifier_stored_once_witness:
  "length (filter (\<lambda>h. h_ID h = 9) (an_hits (cs_stores (pl_sys flushed_once) 3))) \<le> 1"
proof -
  have "ids_unique sample_consumer_sys" by (simp add: ids_unique_def sample_consumer_sys_def empty_analytics_def)
  from identifier_stored_once [OF flushed_once_run pipe_run.start this] show ?thesis by blast
qed

end
