(* ===== verification/API_Keys.thy ===== *)
theory API_Keys
  imports Access_Control Programs
begin

text \<open>
  API clients (\<open>database/store_api_client.go\<close>, the cache of \<open>database/runtime_cache.go\<close>) and
  the handlers that manage them (\<open>server/user/api_clients_handlers.go\<close>).  \<open>hash\<close> is
  \<open>hashAPIClientToken\<close>, the SHA-256 of the standard library; a new token and the identifiers are
  arguments.  The role tables are those of Role_Store, with its flag for a database that fails.  A Go
  map of site roles is an association list with distinct keys.
\<close>

subsection \<open>Tables\<close>

record APIClient =
  ak_ID :: uuid
  ak_UserID :: "uuid option"
  ak_TenantID :: "uuid option"
  ak_Name :: string
  ak_Description :: string
  ak_Hash :: string
  ak_InstanceRole :: string
  ak_ExpiresAt :: "time option"
  ak_LastUsedAt :: "time option"
  ak_RevokedAt :: "time option"
  ak_CreatedAt :: time
  ak_UpdatedAt :: time

record key_role =
  kr_client :: uuid
  kr_site :: uuid
  kr_role :: string

text \<open>
  The cache has the clients whose tokens were used lately, by the hash of the token with the end of its
  life (the zero time without one), and the hash of a client.  That it also forgets by age and number
  is left to the environment.
\<close>

record key_db =
  kd_db :: roles_db
  kd_clients :: "APIClient list"
  kd_roles :: "key_role list"
  kd_by_token :: "(string \<times> uuid \<times> time) list"
  kd_by_client :: "(uuid \<times> string) list"

datatype key_err = KeyDb db_error | ErrAPIClientNotFound | ErrAPIClientInactive

type_synonym 'a ktx = "(key_db, key_err, 'a) prog"

definition kd_ok :: "unit ktx" where
  "kd_ok = require (KeyDb DbFailure) (\<lambda>s. db_ok (kd_db s))"

definition on_roles :: "(roles_db \<Rightarrow> db_error + 'a) \<Rightarrow> 'a ktx" where
  "on_roles f = reads (\<lambda>s. case f (kd_db s) of Inl e \<Rightarrow> Inl (KeyDb e) | Inr x \<Rightarrow> Inr x)"

subsection \<open>The cache\<close>

definition cacheAPIClientAuth :: "string \<Rightarrow> uuid \<Rightarrow> time \<Rightarrow> key_db \<Rightarrow> key_db" where
  "cacheAPIClientAuth h client expiresAt s =
     (if TrimSpace h = [] then s
      else s\<lparr>kd_by_token := AList.update (TrimSpace h) (client, expiresAt) (kd_by_token s),
             kd_by_client := AList.update client (TrimSpace h) (kd_by_client s)\<rparr>)"

definition getCachedAPIClientAuth :: "time \<Rightarrow> string \<Rightarrow> key_db \<Rightarrow> bool \<times> key_db" where
  "getCachedAPIClientAuth now h s =
     (if TrimSpace h = [] then (False, s)
      else case map_of (kd_by_token s) (TrimSpace h) of
        None \<Rightarrow> (False, s)
      | Some (client, expiresAt) \<Rightarrow>
          if \<not> IsZero expiresAt \<and> now > expiresAt
          then (False, s\<lparr>kd_by_token := AList.delete (TrimSpace h) (kd_by_token s), kd_by_client := AList.delete client (kd_by_client s)\<rparr>)
          else (True, s))"

definition invalidateAPIClientAuthCache :: "uuid \<Rightarrow> key_db \<Rightarrow> key_db" where
  "invalidateAPIClientAuthCache client s =
     (if client = uuid_Nil then s
      else s\<lparr>kd_by_token := (case map_of (kd_by_client s) client of
               Some h \<Rightarrow> if TrimSpace h \<noteq> [] then AList.delete h (kd_by_token s) else kd_by_token s
             | None \<Rightarrow> kd_by_token s),
             kd_by_client := AList.delete client (kd_by_client s)\<rparr>)"

subsection \<open>Creating, reading and changing clients\<close>

text \<open>An INSERT of a site role needs the site; a client has one role on a site.\<close>

definition insert_key_role :: "uuid \<Rightarrow> uuid \<times> string \<Rightarrow> unit ktx" where
  "insert_key_role client = (\<lambda>(site, role).
     bind_op (require (KeyDb DbFailure) (\<lambda>s. map_of (sites (kd_db s)) site \<noteq> None
         \<and> \<not> list_ex (\<lambda>r. kr_client r = client \<and> kr_site r = site) (kd_roles s)))
       (\<lambda>_. writes (\<lambda>s. s\<lparr>kd_roles := kd_roles s @ [\<lparr>kr_client = client, kr_site = site, kr_role = role\<rparr>]\<rparr>)))"

definition clear_key_roles :: "uuid \<Rightarrow> unit ktx" where
  "clear_key_roles client = writes (\<lambda>s. s\<lparr>kd_roles := filter (\<lambda>r. kr_client r \<noteq> client) (kd_roles s)\<rparr>)"

definition replaceAPIClientSiteRolesTx :: "uuid \<Rightarrow> (uuid \<times> string) list \<Rightarrow> unit ktx" where
  "replaceAPIClientSiteRolesTx client siteRoles =
     bind_op (clear_key_roles client)
       (\<lambda>_. bind_op (for_each (insert_key_role client) (sort_key fst siteRoles)) (\<lambda>_. ret ()))"

definition apiClientSiteRolesTx :: "uuid \<Rightarrow> key_db \<Rightarrow> (uuid \<times> string) list" where
  "apiClientSiteRolesTx client s = map (\<lambda>r. (kr_site r, kr_role r)) (filter (\<lambda>r. kr_client r = client) (kd_roles s))"

definition nullable_uuid :: "uuid option \<Rightarrow> uuid option" where
  "nullable_uuid v = (if v = Some uuid_Nil then None else v)"

definition createAPIClient ::
  "(string \<Rightarrow> string) \<Rightarrow> uuid \<Rightarrow> time \<Rightarrow> string \<Rightarrow> uuid option \<Rightarrow> uuid option \<Rightarrow> string \<Rightarrow> string \<Rightarrow> string
     \<Rightarrow> (uuid \<times> string) list \<Rightarrow> time option \<Rightarrow> (APIClient \<times> string) ktx" where
  "createAPIClient hash new now token user tenant name description instanceRole siteRoles expiresAt =
     (let row = \<lparr>ak_ID = new, ak_UserID = nullable_uuid user, ak_TenantID = nullable_uuid tenant, ak_Name = name,
            ak_Description = TrimSpace description, ak_Hash = hash token, ak_InstanceRole = instanceRole,
            ak_ExpiresAt = expiresAt, ak_LastUsedAt = None, ak_RevokedAt = None, ak_CreatedAt = now, ak_UpdatedAt = now\<rparr>
      in committed
        (bind_op kd_ok
          (\<lambda>_. bind_op (require (KeyDb DbFailure) (\<lambda>s. \<not> list_ex (\<lambda>c. ak_ID c = new \<or> ak_Hash c = hash token) (kd_clients s)))
            (\<lambda>_. bind_op (writes (\<lambda>s. s\<lparr>kd_clients := kd_clients s @ [row]\<rparr>))
              (\<lambda>_. bind_op (replaceAPIClientSiteRolesTx new siteRoles) (\<lambda>_. ret (row, token)))))))"

definition CreateAPIClient where
  "CreateAPIClient hash new now token user name description instanceRole siteRoles expiresAt =
     createAPIClient hash new now token (Some user) None name description instanceRole siteRoles expiresAt"

definition CreateTeamAPIClient where
  "CreateTeamAPIClient hash new now token tenant name description siteRoles expiresAt =
     createAPIClient hash new now token None (Some tenant) name description InstanceUser siteRoles expiresAt"

text \<open>Whose clients a request is about: those of a user, or those of a team.\<close>

datatype key_owner = Personal uuid | OfTeam uuid

definition owned_by :: "key_owner \<Rightarrow> APIClient \<Rightarrow> bool" where
  "owned_by ow c = (case ow of Personal u \<Rightarrow> ak_UserID c = Some u | OfTeam t \<Rightarrow> ak_TenantID c = Some t)"

text \<open>Reading leaves out the clients of an archived team; writing does not.\<close>

definition readable_by :: "key_owner \<Rightarrow> key_db \<Rightarrow> APIClient \<Rightarrow> bool" where
  "readable_by ow s c \<longleftrightarrow> owned_by ow c
     \<and> (case ow of Personal u \<Rightarrow> True | OfTeam t \<Rightarrow> t \<notin> set (tenant_archives (kd_db s)))"

definition with_site_roles :: "key_db \<Rightarrow> APIClient \<Rightarrow> APIClient \<times> (uuid \<times> string) list" where
  "with_site_roles s c = (c, sort_key fst (apiClientSiteRolesTx (ak_ID c) s))"

definition listAPIClients :: "key_owner \<Rightarrow> (APIClient \<times> (uuid \<times> string) list) list ktx" where
  "listAPIClients ow = bind_op kd_ok (\<lambda>_. reads (\<lambda>s. Inr (map (with_site_roles s)
     (rev (sort_key ak_CreatedAt (filter (readable_by ow s) (kd_clients s)))))))"

definition getAPIClient :: "uuid \<Rightarrow> key_owner \<Rightarrow> (APIClient \<times> (uuid \<times> string) list) option ktx" where
  "getAPIClient client ow = bind_op kd_ok (\<lambda>_. reads (\<lambda>s. Inr (map_option (with_site_roles s)
     (find (\<lambda>c. ak_ID c = client \<and> readable_by ow s c) (kd_clients s)))))"

definition client_row :: "uuid \<Rightarrow> key_owner \<Rightarrow> key_db \<Rightarrow> APIClient option" where
  "client_row client ow s = find (\<lambda>c. ak_ID c = client \<and> owned_by ow c) (kd_clients s)"

definition inactive :: "time \<Rightarrow> APIClient \<Rightarrow> bool" where
  "inactive now c \<longleftrightarrow> ak_RevokedAt c \<noteq> None \<or> (case ak_ExpiresAt c of None \<Rightarrow> False | Some e \<Rightarrow> now > e)"

definition rotatable :: "uuid \<Rightarrow> key_owner \<Rightarrow> time \<Rightarrow> unit ktx" where
  "rotatable client ow now = bind_op kd_ok (\<lambda>_. reads (\<lambda>s. case client_row client ow s of
     None \<Rightarrow> Inl ErrAPIClientNotFound
   | Some c \<Rightarrow> if inactive now c then Inl ErrAPIClientInactive else Inr ()))"

definition update_clients :: "uuid \<Rightarrow> key_owner \<Rightarrow> (APIClient \<Rightarrow> APIClient) \<Rightarrow> unit ktx" where
  "update_clients client ow f =
     bind_op (writes (\<lambda>s. s\<lparr>kd_clients := update_where (\<lambda>c. ak_ID c = client \<and> owned_by ow c) f (kd_clients s)\<rparr>))
       (\<lambda>_. require ErrAPIClientNotFound (\<lambda>s. client_row client ow s \<noteq> None))"

definition replaceAPIClientToken :: "uuid \<Rightarrow> key_owner \<Rightarrow> string \<Rightarrow> time \<Rightarrow> unit ktx" where
  "replaceAPIClientToken client ow h now = committed
     (bind_op (rotatable client ow now)
       (\<lambda>_. bind_op (reads (\<lambda>s. Inr (apiClientSiteRolesTx client s)))
         (\<lambda>siteRoles. bind_op (clear_key_roles client)
           (\<lambda>_. bind_op (require (KeyDb DbFailure) (\<lambda>s. \<not> list_ex (\<lambda>c. ak_ID c \<noteq> client \<and> ak_Hash c = h) (kd_clients s)))
             (\<lambda>_. bind_op (update_clients client ow (\<lambda>c. c\<lparr>ak_Hash := h, ak_UpdatedAt := now\<rparr>))
               (\<lambda>_. if siteRoles = [] then ret () else replaceAPIClientSiteRolesTx client siteRoles))))))"

definition rotateAPIClient ::
  "(string \<Rightarrow> string) \<Rightarrow> string \<Rightarrow> uuid \<Rightarrow> key_owner \<Rightarrow> time \<Rightarrow> ((APIClient \<times> (uuid \<times> string) list) option \<times> string) ktx" where
  "rotateAPIClient hash token client ow now =
     bind_op (rotatable client ow now)
       (\<lambda>_. bind_op (replaceAPIClientToken client ow (hash token) now)
         (\<lambda>_. bind_op (writes (invalidateAPIClientAuthCache client))
           (\<lambda>_. bind_op (getAPIClient client ow) (\<lambda>c. ret (c, token)))))"

text \<open>A client that is not there is no error of an update.\<close>

definition updateAPIClient ::
  "uuid \<Rightarrow> key_owner \<Rightarrow> string \<Rightarrow> string \<Rightarrow> string \<Rightarrow> (uuid \<times> string) list \<Rightarrow> time option \<Rightarrow> bool \<Rightarrow> time
     \<Rightarrow> (APIClient \<times> (uuid \<times> string) list) option ktx" where
  "updateAPIClient client ow name description instanceRole siteRoles expiresAt revoked now s =
     (case committed (bind_op kd_ok
         (\<lambda>_. bind_op (update_clients client ow (\<lambda>c. c\<lparr>ak_Name := name, ak_Description := description,
               ak_InstanceRole := instanceRole, ak_ExpiresAt := expiresAt,
               ak_RevokedAt := (if revoked then Some (case ak_RevokedAt c of None \<Rightarrow> now | Some t \<Rightarrow> t) else None),
               ak_UpdatedAt := now\<rparr>))
           (\<lambda>_. replaceAPIClientSiteRolesTx client siteRoles))) s of
        (Inl e, s') \<Rightarrow> (if e = ErrAPIClientNotFound then (Inr None, s') else (Inl e, s'))
      | (Inr _, s') \<Rightarrow> bind_op (writes (invalidateAPIClientAuthCache client)) (\<lambda>_. getAPIClient client ow) s')"

definition deleteAPIClient :: "uuid \<Rightarrow> key_owner \<Rightarrow> unit ktx" where
  "deleteAPIClient client ow =
     bind_op (committed
       (bind_op kd_ok
         (\<lambda>_. bind_op (require ErrAPIClientNotFound (\<lambda>s. client_row client ow s \<noteq> None))
           (\<lambda>_. bind_op (clear_key_roles client)
             (\<lambda>_. writes (\<lambda>s. s\<lparr>kd_clients := filter (\<lambda>c. \<not> (ak_ID c = client \<and> owned_by ow c)) (kd_clients s)\<rparr>))))))
       (\<lambda>_. writes (invalidateAPIClientAuthCache client))"

subsection \<open>Authentication\<close>

text \<open>
  The site roles of a personal client are those of its user at the moment, cut to what was delegated;
  the clients of a team keep what was delegated on the sites of the team.
\<close>

definition personal_role :: "('a, 'p) golib \<Rightarrow> roles_db \<Rightarrow> uuid \<Rightarrow> uuid \<Rightarrow> key_role \<Rightarrow> (uuid \<times> string) option" where
  "personal_role L db dflt user r =
     (case map_of (sites db) (kr_site r) of
        None \<Rightarrow> None
      | Some owner \<Rightarrow>
          let team = site_tenant_or db dflt (kr_site r) in
          (case find (\<lambda>m. tm_tenant m = team) (live_memberships db user) of
             None \<Rightarrow> None
           | Some m \<Rightarrow>
               (case effectiveSiteRole L (map_of (site_members db) (kr_site r, user)) (owner = user) (tm_role m) of
                  Inl _ \<Rightarrow> None
                | Inr current \<Rightarrow> Some (kr_site r, MinSiteRole current (kr_role r)))))"

definition granted_roles :: "('a, 'p) golib \<Rightarrow> uuid \<Rightarrow> APIClient \<Rightarrow> key_db \<Rightarrow> (uuid \<times> string) list" where
  "granted_roles L dflt c s =
     (let rows = filter (\<lambda>r. kr_client r = ak_ID c) (kd_roles s);
          rows = (case ak_TenantID c of None \<Rightarrow> rows
                  | Some t \<Rightarrow> filter (\<lambda>r. site_tenant_or (kd_db s) dflt (kr_site r) = t) rows)
      in case ak_UserID c of
           None \<Rightarrow> map (\<lambda>r. (kr_site r, kr_role r)) rows
         | Some user \<Rightarrow> List.map_filter (personal_role L (kd_db s) dflt user) rows)"

text \<open>A query without a row, an owner or life is no error; the token is then not known.\<close>

definition key_authority :: "('a, 'p) golib \<Rightarrow> time \<Rightarrow> string \<Rightarrow> key_db \<Rightarrow> key_err + (APIClient \<times> APIClientAuth) option" where
  "key_authority L now h s =
     (if \<not> db_ok (kd_db s) then Inl (KeyDb DbFailure)
      else case find (\<lambda>c. ak_Hash c = h
          \<and> (case ak_TenantID c of None \<Rightarrow> True | Some t \<Rightarrow> t \<notin> set (tenant_archives (kd_db s)))) (kd_clients s) of
        None \<Rightarrow> Inr None
      | Some c \<Rightarrow>
          if ak_UserID c = None \<and> ak_TenantID c = None then Inr None
          else if inactive now c then Inr None
          else (case getDefaultTenantID (kd_db s) of
             Inl e \<Rightarrow> Inl (KeyDb e)
           | Inr dflt \<Rightarrow>
          (case (case ak_UserID c of Some user \<Rightarrow> GetInstanceRole (kd_db s) user | None \<Rightarrow> Inr InstanceUser) of
             Inl e \<Rightarrow> Inl (KeyDb e)
           | Inr current \<Rightarrow> Inr (Some (c, \<lparr>ac_ClientID = ak_ID c,
               ac_UserID = (case ak_UserID c of None \<Rightarrow> uuid_Nil | Some u \<Rightarrow> u),
               ac_TenantID = (case ak_TenantID c of None \<Rightarrow> uuid_Nil | Some t \<Rightarrow> t),
               ac_InstanceRole = MinInstanceRole current (ak_InstanceRole c), ac_SiteRoles = granted_roles L dflt c s\<rparr>)))))"

text \<open>The first use for a while is written down, and an error of that is ignored.\<close>

definition note_use :: "time \<Rightarrow> string \<Rightarrow> APIClient \<Rightarrow> key_db \<Rightarrow> key_db" where
  "note_use now h c s =
     cacheAPIClientAuth h (ak_ID c) (case ak_ExpiresAt c of None \<Rightarrow> time_zero | Some e \<Rightarrow> e)
       (s\<lparr>kd_clients := update_where (\<lambda>c'. ak_ID c' = ak_ID c) (\<lambda>c'. c'\<lparr>ak_LastUsedAt := Some now, ak_UpdatedAt := now\<rparr>)
         (kd_clients s)\<rparr>)"

definition getAPIClientAuth :: "('a, 'p) golib \<Rightarrow> time \<Rightarrow> string \<Rightarrow> APIClientAuth option ktx" where
  "getAPIClientAuth L now h s0 =
     (let (recentlyUsed, s) = getCachedAPIClientAuth now h s0 in
      case key_authority L now h s of
        Inl e \<Rightarrow> (Inl e, s)
      | Inr None \<Rightarrow> (Inr None, s)
      | Inr (Some (c, a)) \<Rightarrow> (Inr (Some a), if recentlyUsed then s else note_use now h c s))"

definition GetAPIClientAuth :: "('a, 'p) golib \<Rightarrow> (string \<Rightarrow> string) \<Rightarrow> time \<Rightarrow> string \<Rightarrow> APIClientAuth option ktx" where
  "GetAPIClientAuth L hash now token =
     (if TrimSpace token = [] then ret None else getAPIClientAuth L now (hash (TrimSpace token)))"

text \<open>A credential that was read before keeps the hash of its token.\<close>

definition RevalidateAPIClientAuth :: "('a, 'p) golib \<Rightarrow> time \<Rightarrow> (string \<times> APIClientAuth) option \<Rightarrow> APIClientAuth option ktx" where
  "RevalidateAPIClientAuth L now previous =
     (case previous of
        None \<Rightarrow> ret None
      | Some (h, p) \<Rightarrow>
          if h = [] then ret None
          else bind_op (getAPIClientAuth L now h) (\<lambda>current. ret (case current of
            None \<Rightarrow> None
          | Some a \<Rightarrow> if ac_ClientID a \<noteq> ac_ClientID p \<or> ac_UserID a \<noteq> ac_UserID p \<or> ac_TenantID a \<noteq> ac_TenantID p
              then None else Some a)))"

end
