(* ===== verification/API_Key_Handlers.thy ===== *)
theory API_Key_Handlers
  imports API_Keys
begin

text \<open>
  The handlers that manage API clients (\<open>server/user/api_clients_handlers.go\<close>).  A request gives
  its user, who is authenticated, the identifiers of its path as text, and its body, \<open>None\<close> when
  it does not decode; \<open>pu\<close> is \<open>uuid.Parse\<close>, and \<open>audit\<close> says whether the audit
  event could be stored.  A refused request has a status code.
\<close>

type_synonym 'a khx = "(key_db, nat, 'a) prog"

definition or_status :: "(key_err \<Rightarrow> nat) \<Rightarrow> 'a ktx \<Rightarrow> 'a khx" where
  "or_status f m s = (case m s of (Inl e, s') \<Rightarrow> (Inl (f e), s') | (Inr x, s') \<Rightarrow> (Inr x, s'))"

record apiClientRequest =
  kq_Name :: string
  kq_Description :: string
  kq_InstanceRole :: string
  kq_ExpiresAt :: "time option"
  kq_Revoked :: "bool option"
  kq_SiteRoles :: "(string \<times> string) list"

definition maxDelegableSiteRole :: "('a, 'p) golib \<Rightarrow> roles_db \<Rightarrow> uuid \<Rightarrow> string \<Rightarrow> uuid \<Rightarrow> unit + string" where
  "maxDelegableSiteRole L db user actorInstanceRole site =
     (if actorInstanceRole = InstanceOwner then Inr SiteOwner
      else case GetSiteRole L db user site of Inl _ \<Rightarrow> Inl () | Inr role \<Rightarrow> Inr role)"

text \<open>A refusal names its reason in the answer; here it is \<open>Inl ()\<close>.\<close>

fun delegated_loop :: "('a, 'p) golib \<Rightarrow> (string \<Rightarrow> uuid option) \<Rightarrow> roles_db \<Rightarrow> uuid \<Rightarrow> string \<Rightarrow> (uuid \<times> string) list
    \<Rightarrow> (string \<times> string) list \<Rightarrow> unit + (uuid \<times> string) list" where
  "delegated_loop L pu db user actor result [] = Inr result"
| "delegated_loop L pu db user actor result ((rawSite, rawRole) # roles) =
     (case pu (TrimSpace rawSite) of
        None \<Rightarrow> Inl ()
      | Some site \<Rightarrow>
          let requested = TrimSpace rawRole in
          if \<not> IsValidSiteRole requested then Inl ()
          else case maxDelegableSiteRole L db user actor site of
            Inl _ \<Rightarrow> Inl ()
          | Inr maxRole \<Rightarrow>
              if \<not> CanAssignSiteRole maxRole requested then Inl ()
              else delegated_loop L pu db user actor (AList.update site requested result) roles)"

definition validateDelegatedSiteRoles where
  "validateDelegatedSiteRoles L pu db user actor roles =
     (if roles = [] then Inr [] else if length roles > 100 then Inl () else delegated_loop L pu db user actor [] roles)"

definition ListSitesForTenant :: "roles_db \<Rightarrow> uuid \<Rightarrow> db_error + uuid list" where
  "ListSitesForTenant db team =
     (case getDefaultTenantID db of
        Inl e \<Rightarrow> Inl e
      | Inr dflt \<Rightarrow> Inr (filter (\<lambda>s. site_tenant_or db dflt s = team \<and> \<not> archived db (site_tenant_or db dflt s)) (map fst (sites db))))"

fun team_delegated_loop :: "(string \<Rightarrow> uuid option) \<Rightarrow> uuid set \<Rightarrow> (uuid \<times> string) list
    \<Rightarrow> (string \<times> string) list \<Rightarrow> unit + (uuid \<times> string) list" where
  "team_delegated_loop pu allowed result [] = Inr result"
| "team_delegated_loop pu allowed result ((rawSite, rawRole) # roles) =
     (case pu (TrimSpace rawSite) of
        None \<Rightarrow> Inl ()
      | Some site \<Rightarrow>
          if site \<notin> allowed then Inl ()
          else if \<not> IsValidSiteRole (TrimSpace rawRole) then Inl ()
          else team_delegated_loop pu allowed (AList.update site (TrimSpace rawRole) result) roles)"

definition validateTeamDelegatedSiteRoles where
  "validateTeamDelegatedSiteRoles pu db team roles =
     (if roles = [] then Inr [] else if length roles > 100 then Inl ()
      else case ListSitesForTenant db team of
        Inl _ \<Rightarrow> Inl ()
      | Inr teamSites \<Rightarrow> team_delegated_loop pu (set teamSites) [] roles)"

definition resolveTeamAPIClientScope :: "('a, 'p) golib \<Rightarrow> (string \<Rightarrow> uuid option) \<Rightarrow> uuid \<Rightarrow> string \<Rightarrow> roles_db \<Rightarrow> nat + uuid" where
  "resolveTeamAPIClientScope L pu actor path db =
     (if actor = uuid_Nil then Inl 401
      else case pu (TrimSpace path) of
        None \<Rightarrow> Inl 400
      | Some team \<Rightarrow>
          (case GetTenantRole db team actor of
             Inl _ \<Rightarrow> Inl 403
           | Inr role \<Rightarrow> if TeamRoleHasCapability L role ''team.manage_api_clients'' then Inr team else Inl 403))"

text \<open>The name and the description of a body, \<open>None\<close> when they are refused.\<close>

definition named :: "apiClientRequest \<Rightarrow> (string \<times> string) option" where
  "named q =
     (let name = TrimSpace (kq_Name q); description = TrimSpace (kq_Description q) in
      if name = [] \<or> length name > 120 then None else if length description > 500 then None else Some (name, description))"

definition audited :: "bool \<Rightarrow> unit khx" where
  "audited audit = require 500 (\<lambda>_. audit)"

definition db_here :: "(roles_db \<Rightarrow> nat + 'a) \<Rightarrow> 'a khx" where
  "db_here f = reads (\<lambda>s. f (kd_db s))"

text \<open>What a user may ask of a client of its own: the instance role and the site roles.\<close>

definition personal_request ::
  "('a, 'p) golib \<Rightarrow> (string \<Rightarrow> uuid option) \<Rightarrow> uuid \<Rightarrow> string \<Rightarrow> (string \<times> string) list \<Rightarrow> roles_db \<Rightarrow> nat + (uuid \<times> string) list" where
  "personal_request L pu user requested roles db =
     (if \<not> IsValidInstanceRole requested then Inl 400
      else case GetInstanceRole db user of
        Inl _ \<Rightarrow> Inl 500
      | Inr actor \<Rightarrow>
          if \<not> CanAssignInstanceRole actor requested then Inl 403
          else (case validateDelegatedSiteRoles L pu db user actor roles of Inl _ \<Rightarrow> Inl 403 | Inr siteRoles \<Rightarrow> Inr siteRoles))"

definition handleCreateAPIClient ::
  "('a, 'p) golib \<Rightarrow> (string \<Rightarrow> string) \<Rightarrow> (string \<Rightarrow> uuid option) \<Rightarrow> uuid \<Rightarrow> apiClientRequest option \<Rightarrow> uuid \<Rightarrow> time \<Rightarrow> string
     \<Rightarrow> bool \<Rightarrow> (APIClient \<times> string) khx" where
  "handleCreateAPIClient L hash pu user body new now token audit =
     (if user = uuid_Nil then abort 401
      else case body of None \<Rightarrow> abort 400
      | Some q \<Rightarrow>
     (case named q of None \<Rightarrow> abort 400
      | Some (name, description) \<Rightarrow>
          let requested = (if TrimSpace (kq_InstanceRole q) \<noteq> [] then TrimSpace (kq_InstanceRole q) else InstanceUser) in
          bind_op (db_here (personal_request L pu user requested (kq_SiteRoles q)))
            (\<lambda>siteRoles. bind_op (or_status (\<lambda>_. 500) (CreateAPIClient hash new now token user name description requested siteRoles (kq_ExpiresAt q)))
              (\<lambda>created. bind_op (audited audit) (\<lambda>_. ret created)))))"

text \<open>An update that does not say whether the client is revoked leaves it as it is.\<close>

definition handleUpdateAPIClient ::
  "('a, 'p) golib \<Rightarrow> (string \<Rightarrow> uuid option) \<Rightarrow> uuid \<Rightarrow> string \<Rightarrow> apiClientRequest option \<Rightarrow> time \<Rightarrow> bool
     \<Rightarrow> (APIClient \<times> (uuid \<times> string) list) khx" where
  "handleUpdateAPIClient L pu user path body now audit =
     (if user = uuid_Nil then abort 401
      else case pu (TrimSpace path) of None \<Rightarrow> abort 400
      | Some client \<Rightarrow>
     bind_op (or_status (\<lambda>_. 500) (getAPIClient client (Personal user)))
       (\<lambda>existing. case existing of None \<Rightarrow> abort 404
        | Some (current, _) \<Rightarrow>
     (case body of None \<Rightarrow> abort 400
      | Some q \<Rightarrow>
     (case named q of None \<Rightarrow> abort 400
      | Some (name, description) \<Rightarrow>
          bind_op (db_here (personal_request L pu user (TrimSpace (kq_InstanceRole q)) (kq_SiteRoles q)))
            (\<lambda>siteRoles. bind_op (or_status (\<lambda>_. 500) (updateAPIClient client (Personal user) name description
                  (TrimSpace (kq_InstanceRole q)) siteRoles (kq_ExpiresAt q)
                  (case kq_Revoked q of Some b \<Rightarrow> b | None \<Rightarrow> ak_RevokedAt current \<noteq> None) now))
              (\<lambda>updated. case updated of None \<Rightarrow> abort 404
                | Some v \<Rightarrow> bind_op (audited audit) (\<lambda>_. ret v)))))))"

definition rotated_status :: "key_err \<Rightarrow> nat" where
  "rotated_status e = (if e = ErrAPIClientNotFound then 404 else if e = ErrAPIClientInactive then 409 else 500)"

definition rotate_for ::
  "(string \<Rightarrow> string) \<Rightarrow> uuid \<Rightarrow> key_owner \<Rightarrow> time \<Rightarrow> string \<Rightarrow> bool \<Rightarrow> ((APIClient \<times> (uuid \<times> string) list) \<times> string) khx" where
  "rotate_for hash client ow now token audit =
     bind_op (or_status rotated_status (rotateAPIClient hash token client ow now))
       (\<lambda>(c, token). case c of None \<Rightarrow> abort 404 | Some v \<Rightarrow> bind_op (audited audit) (\<lambda>_. ret (v, token)))"

definition handleRotateAPIClient ::
  "(string \<Rightarrow> string) \<Rightarrow> (string \<Rightarrow> uuid option) \<Rightarrow> uuid \<Rightarrow> string \<Rightarrow> time \<Rightarrow> string \<Rightarrow> bool
     \<Rightarrow> ((APIClient \<times> (uuid \<times> string) list) \<times> string) khx" where
  "handleRotateAPIClient hash pu user path now token audit =
     (if user = uuid_Nil then abort 401
      else case pu (TrimSpace path) of None \<Rightarrow> abort 400
      | Some client \<Rightarrow> rotate_for hash client (Personal user) now token audit)"

definition delete_for :: "uuid \<Rightarrow> key_owner \<Rightarrow> bool \<Rightarrow> unit khx" where
  "delete_for client ow audit =
     bind_op (or_status (\<lambda>_. 500) (getAPIClient client ow))
       (\<lambda>existing. case existing of None \<Rightarrow> abort 404
        | Some _ \<Rightarrow> bind_op (or_status (\<lambda>e. if e = ErrAPIClientNotFound then 404 else 500) (deleteAPIClient client ow))
            (\<lambda>_. audited audit))"

definition handleDeleteAPIClient :: "(string \<Rightarrow> uuid option) \<Rightarrow> uuid \<Rightarrow> string \<Rightarrow> bool \<Rightarrow> unit khx" where
  "handleDeleteAPIClient pu user path audit =
     (if user = uuid_Nil then abort 401
      else case pu (TrimSpace path) of None \<Rightarrow> abort 400 | Some client \<Rightarrow> delete_for client (Personal user) audit)"

subsection \<open>Clients of a team\<close>

definition handleCreateTeamAPIClient ::
  "('a, 'p) golib \<Rightarrow> (string \<Rightarrow> string) \<Rightarrow> (string \<Rightarrow> uuid option) \<Rightarrow> uuid \<Rightarrow> string \<Rightarrow> apiClientRequest option \<Rightarrow> uuid \<Rightarrow> time \<Rightarrow> string
     \<Rightarrow> bool \<Rightarrow> (APIClient \<times> string) khx" where
  "handleCreateTeamAPIClient L hash pu actor path body new now token audit =
     bind_op (db_here (resolveTeamAPIClientScope L pu actor path))
       (\<lambda>team. case body of None \<Rightarrow> abort 400
        | Some q \<Rightarrow>
     (case named q of None \<Rightarrow> abort 400
      | Some (name, description) \<Rightarrow>
          bind_op (db_here (\<lambda>db. case validateTeamDelegatedSiteRoles pu db team (kq_SiteRoles q) of Inl _ \<Rightarrow> Inl 403 | Inr r \<Rightarrow> Inr r))
            (\<lambda>siteRoles. bind_op (or_status (\<lambda>_. 500) (CreateTeamAPIClient hash new now token team name description siteRoles (kq_ExpiresAt q)))
              (\<lambda>created. bind_op (audited audit) (\<lambda>_. ret created)))))"

definition handleUpdateTeamAPIClient ::
  "('a, 'p) golib \<Rightarrow> (string \<Rightarrow> uuid option) \<Rightarrow> uuid \<Rightarrow> string \<Rightarrow> string \<Rightarrow> apiClientRequest option \<Rightarrow> time \<Rightarrow> bool
     \<Rightarrow> (APIClient \<times> (uuid \<times> string) list) khx" where
  "handleUpdateTeamAPIClient L pu actor path clientPath body now audit =
     bind_op (db_here (resolveTeamAPIClientScope L pu actor path))
       (\<lambda>team. case pu (TrimSpace clientPath) of None \<Rightarrow> abort 400
        | Some client \<Rightarrow>
     bind_op (or_status (\<lambda>_. 500) (getAPIClient client (OfTeam team)))
       (\<lambda>existing. case existing of None \<Rightarrow> abort 404
        | Some (current, _) \<Rightarrow>
     (case body of None \<Rightarrow> abort 400
      | Some q \<Rightarrow>
     (case named q of None \<Rightarrow> abort 400
      | Some (name, description) \<Rightarrow>
          bind_op (db_here (\<lambda>db. case validateTeamDelegatedSiteRoles pu db team (kq_SiteRoles q) of Inl _ \<Rightarrow> Inl 403 | Inr r \<Rightarrow> Inr r))
            (\<lambda>siteRoles. bind_op (or_status (\<lambda>_. 500) (updateAPIClient client (OfTeam team) name description
                  InstanceUser siteRoles (kq_ExpiresAt q)
                  (case kq_Revoked q of Some b \<Rightarrow> b | None \<Rightarrow> ak_RevokedAt current \<noteq> None) now))
              (\<lambda>updated. case updated of None \<Rightarrow> abort 404
                | Some v \<Rightarrow> bind_op (audited audit) (\<lambda>_. ret v)))))))"

definition handleRotateTeamAPIClient ::
  "('a, 'p) golib \<Rightarrow> (string \<Rightarrow> string) \<Rightarrow> (string \<Rightarrow> uuid option) \<Rightarrow> uuid \<Rightarrow> string \<Rightarrow> string \<Rightarrow> time \<Rightarrow> string \<Rightarrow> bool
     \<Rightarrow> ((APIClient \<times> (uuid \<times> string) list) \<times> string) khx" where
  "handleRotateTeamAPIClient L hash pu actor path clientPath now token audit =
     bind_op (db_here (resolveTeamAPIClientScope L pu actor path))
       (\<lambda>team. case pu (TrimSpace clientPath) of None \<Rightarrow> abort 400
        | Some client \<Rightarrow> rotate_for hash client (OfTeam team) now token audit)"

definition handleDeleteTeamAPIClient ::
  "('a, 'p) golib \<Rightarrow> (string \<Rightarrow> uuid option) \<Rightarrow> uuid \<Rightarrow> string \<Rightarrow> string \<Rightarrow> bool \<Rightarrow> unit khx" where
  "handleDeleteTeamAPIClient L pu actor path clientPath audit =
     bind_op (db_here (resolveTeamAPIClientScope L pu actor path))
       (\<lambda>team. case pu (TrimSpace clientPath) of None \<Rightarrow> abort 400
        | Some client \<Rightarrow> delete_for client (OfTeam team) audit)"

end
