(* ===== verification/API_Key_Runs.thy ===== *)
theory API_Key_Runs
  imports API_Key_Handlers
begin

text \<open>
  Runs of the API client handlers: requests, authentications, changes of the roles and a cache that
  forgets, in any order.  A token whose hash is not in the table any more never comes back.
\<close>

subsection \<open>The table of clients\<close>

text \<open>Identifiers and hashes are unique, and every hash is one of a given set.\<close>

definition key_ok :: "string set \<Rightarrow> key_db \<Rightarrow> bool" where
  "key_ok H s \<longleftrightarrow> distinct (map ak_ID (kd_clients s)) \<and> distinct (map ak_Hash (kd_clients s)) \<and> ak_Hash ` set (kd_clients s) \<subseteq> H"

lemma key_ok_frame: "kd_clients s' = kd_clients s \<Longrightarrow> key_ok H s' = key_ok H s"
  by (simp add: key_ok_def)

lemma key_ok_mono: "key_ok H s \<Longrightarrow> H \<subseteq> H' \<Longrightarrow> key_ok H' s"
  by (auto simp: key_ok_def)

lemma keeps_frame: "(\<And>s. kd_clients (snd (m s)) = kd_clients s) \<Longrightarrow> keeps (key_ok H) m"
  by (simp add: keeps_def key_ok_def)

lemma require_then_keeps:
  "(\<And>s. I s \<Longrightarrow> P s \<Longrightarrow> I (snd (m s))) \<Longrightarrow> (\<And>x. keeps I (k x)) \<Longrightarrow> keeps I (bind_op (require e P) (\<lambda>_. bind_op m k))"
proof (unfold keeps_def, intro allI impI)
  fix s
  assume m: "\<And>s. I s \<Longrightarrow> P s \<Longrightarrow> I (snd (m s))" and k: "\<And>x. \<forall>s. I s \<longrightarrow> I (snd (k x s))" and s: "I s"
  then show "I (snd (bind_op (require e P) (\<lambda>_. bind_op m k) s))"
    using m [OF s] by (cases "m s") (auto simp: bind_op_def require_def split: sum.splits)
qed

lemma or_status_keeps: "keeps I m \<Longrightarrow> keeps I (or_status f m)"
  by (auto simp: keeps_def or_status_def split: prod.splits sum.splits)

lemma update_rows_keep_ids: "(\<And>c. ak_ID (f c) = ak_ID c) \<Longrightarrow> map ak_ID (update_where P f cs) = map ak_ID cs"
  by (rule map_update_where)

lemma update_rows_same_hash:
  "(\<And>c. ak_ID (f c) = ak_ID c \<and> ak_Hash (f c) = ak_Hash c) \<Longrightarrow> key_ok H s \<Longrightarrow> key_ok H (s\<lparr>kd_clients := update_where P f (kd_clients s)\<rparr>)"
  by (simp add: key_ok_def map_update_where flip: set_map)

text \<open>A row is given another hash that no other row has.\<close>

lemma distinct_update_hash:
  assumes "distinct (map ak_ID cs)" and "distinct (map ak_Hash cs)" and "\<not> list_ex (\<lambda>c. ak_ID c \<noteq> client \<and> ak_Hash c = h) cs"
  shows "distinct (map ak_Hash (update_where (\<lambda>c. ak_ID c = client \<and> P c) (\<lambda>c. c\<lparr>ak_Hash := h, ak_UpdatedAt := now\<rparr>) cs))"
  using assms by (induction cs) (auto simp: update_where_def list_ex_iff image_iff, metis+)

lemmas key_frames = keeps_frame prog_rules prog_keeps_reads prog_keeps_require

lemma kd_ok_keeps: "keeps (key_ok H) kd_ok"
  unfolding kd_ok_def by (rule prog_keeps_require)

lemma site_roles_keep: "keeps (key_ok H) (replaceAPIClientSiteRolesTx client roles)"
proof -
  have "keeps (key_ok H) (insert_key_role client x)" for x
    unfolding insert_key_role_def by (cases x) (auto intro!: prog_rules prog_keeps_require prog_keeps_writes simp: key_ok_def)
  then show ?thesis
    unfolding replaceAPIClientSiteRolesTx_def clear_key_roles_def
    by (auto intro!: prog_rules prog_keeps_writes simp: key_ok_def)
qed

lemma getAPIClient_keeps: "keeps (key_ok H) (getAPIClient client ow)"
  unfolding getAPIClient_def by (intro prog_rules kd_ok_keeps prog_keeps_reads)

lemma rotatable_keeps: "keeps (key_ok H) (rotatable client ow now)"
  unfolding rotatable_def by (intro prog_rules kd_ok_keeps prog_keeps_reads)

lemma invalidate_frame [simp]: "kd_clients (invalidateAPIClientAuthCache client s) = kd_clients s"
  by (simp add: invalidateAPIClientAuthCache_def)

lemma invalidate_keeps: "keeps (key_ok H) (writes (invalidateAPIClientAuthCache client))"
  by (rule prog_keeps_writes) (simp add: key_ok_def)

lemma createAPIClient_keeps:
  assumes "hash token \<in> H"
  shows "keeps (key_ok H) (createAPIClient hash new now token user tenant name description role roles expires)"
  unfolding createAPIClient_def Let_def
  by (intro prog_keeps_committed prog_rules kd_ok_keeps require_then_keeps site_roles_keep)
    (use assms in \<open>auto simp: writes_def key_ok_def list_ex_iff\<close>)

lemma rotateAPIClient_keeps:
  assumes "hash token \<in> H"
  shows "keeps (key_ok H) (rotateAPIClient hash token client ow now)"
proof -
  have "keeps (key_ok H) (clear_key_roles client)"
    unfolding clear_key_roles_def by (rule prog_keeps_writes) (simp add: key_ok_def)
  moreover have "key_ok H (snd (update_clients client ow (\<lambda>c. c\<lparr>ak_Hash := hash token, ak_UpdatedAt := now\<rparr>) s))"
    if "key_ok H s" "\<not> list_ex (\<lambda>c. ak_ID c \<noteq> client \<and> ak_Hash c = hash token) (kd_clients s)" for s
    using that assms distinct_update_hash [of "kd_clients s" client "hash token" "owned_by ow" now]
    by (auto simp: update_clients_def bind_op_def writes_def require_def key_ok_def map_update_where elim!: update_whereE)
  ultimately have "keeps (key_ok H) (replaceAPIClientToken client ow (hash token) now)"
    unfolding replaceAPIClientToken_def
    by (intro prog_keeps_committed prog_rules rotatable_keeps prog_keeps_reads require_then_keeps)
      (auto intro: prog_keeps_ret site_roles_keep)
  then show ?thesis
    unfolding rotateAPIClient_def by (intro prog_rules rotatable_keeps invalidate_keeps getAPIClient_keeps)
qed

lemma updateAPIClient_keeps: "keeps (key_ok H) (updateAPIClient client ow name description role roles expires revoked now)"
proof -
  define m where "m = committed (bind_op kd_ok
         (\<lambda>_. bind_op (update_clients client ow (\<lambda>c. c\<lparr>ak_Name := name, ak_Description := description,
               ak_InstanceRole := role, ak_ExpiresAt := expires,
               ak_RevokedAt := (if revoked then Some (case ak_RevokedAt c of None \<Rightarrow> now | Some t \<Rightarrow> t) else None),
               ak_UpdatedAt := now\<rparr>))
           (\<lambda>_. replaceAPIClientSiteRolesTx client roles)))"
  have "keeps (key_ok H) m"
    unfolding m_def update_clients_def
    by (intro prog_keeps_committed prog_rules kd_ok_keeps site_roles_keep prog_keeps_require prog_keeps_writes update_rows_same_hash) simp_all
  moreover have "keeps (key_ok H) (bind_op (writes (invalidateAPIClientAuthCache client)) (\<lambda>_. getAPIClient client ow))"
    by (intro prog_rules invalidate_keeps getAPIClient_keeps)
  ultimately show ?thesis
    unfolding keeps_def updateAPIClient_def m_def [symmetric] by (auto split: prod.splits sum.splits)
qed

lemma deleteAPIClient_keeps: "keeps (key_ok H) (deleteAPIClient client ow)"
  unfolding deleteAPIClient_def clear_key_roles_def
  by (intro prog_keeps_committed prog_rules kd_ok_keeps prog_keeps_require prog_keeps_writes)
    (auto simp: key_ok_def distinct_map_filter)

lemma authentication_keeps: "keeps (key_ok H) (getAPIClientAuth L now h)"
proof -
  have use: "key_ok H (note_use now h c s)" if "key_ok H s" for c s
    using update_rows_same_hash [OF _ that, of "\<lambda>c'. c'\<lparr>ak_LastUsedAt := Some now, ak_UpdatedAt := now\<rparr>" "\<lambda>c'. ak_ID c' = ak_ID c"]
    by (simp add: note_use_def cacheAPIClientAuth_def key_ok_def)
  have cached: "key_ok H (snd (getCachedAPIClientAuth now h s)) = key_ok H s" for s
    by (rule key_ok_frame) (auto simp: getCachedAPIClientAuth_def split: option.splits)
  show ?thesis
    unfolding keeps_def getAPIClientAuth_def
    by (auto simp: Let_def case_prod_beta cached intro!: use split: sum.splits option.splits)
qed

subsection \<open>Handlers and runs\<close>

lemma db_here_keeps: "keeps (key_ok H) (db_here f)"
  unfolding db_here_def by (rule prog_keeps_reads)

lemma audited_keeps: "keeps (key_ok H) (audited audit)"
  unfolding audited_def by (rule prog_keeps_require)

lemmas handler_keeps = prog_rules or_status_keeps createAPIClient_keeps rotateAPIClient_keeps updateAPIClient_keeps
  deleteAPIClient_keeps getAPIClient_keeps db_here_keeps audited_keeps

lemma case_option_keeps: "keeps I a \<Longrightarrow> (\<And>x. keeps I (f x)) \<Longrightarrow> keeps I (case v of None \<Rightarrow> a | Some x \<Rightarrow> f x)"
  by (cases v) simp_all

lemma case_prod_keeps: "(\<And>x y. keeps I (f x y)) \<Longrightarrow> keeps I (case v of (x, y) \<Rightarrow> f x y)"
  by (cases v) simp

lemma if_keeps: "keeps I a \<Longrightarrow> keeps I b \<Longrightarrow> keeps I (if c then a else b)"
  by simp

lemma rotate_for_keeps: "hash token \<in> H \<Longrightarrow> keeps (key_ok H) (rotate_for hash client ow now token audit)"
  unfolding rotate_for_def by (intro handler_keeps case_prod_keeps case_option_keeps)

lemma delete_for_keeps: "keeps (key_ok H) (delete_for client ow audit)"
  unfolding delete_for_def by (intro handler_keeps case_option_keeps)

lemma create_handlers_keep:
  assumes "hash token \<in> H"
  shows "keeps (key_ok H) (handleCreateAPIClient L hash pu user body new now token audit)"
    and "keeps (key_ok H) (handleCreateTeamAPIClient L hash pu user path body new now token audit)"
  unfolding handleCreateAPIClient_def handleCreateTeamAPIClient_def CreateAPIClient_def CreateTeamAPIClient_def Let_def
  by (intro if_keeps case_option_keeps case_prod_keeps handler_keeps assms)+

lemma update_handlers_keep:
  "keeps (key_ok H) (handleUpdateAPIClient L pu user path body now audit)"
  "keeps (key_ok H) (handleUpdateTeamAPIClient L pu user path clientPath body now audit)"
  unfolding handleUpdateAPIClient_def handleUpdateTeamAPIClient_def
  by (intro if_keeps case_option_keeps case_prod_keeps handler_keeps)+

lemma rotate_handlers_keep:
  assumes "hash token \<in> H"
  shows "keeps (key_ok H) (handleRotateAPIClient hash pu user path now token audit)"
    and "keeps (key_ok H) (handleRotateTeamAPIClient L hash pu user path clientPath now token audit)"
  unfolding handleRotateAPIClient_def handleRotateTeamAPIClient_def
  by (intro if_keeps case_option_keeps handler_keeps rotate_for_keeps assms)+

lemma delete_handlers_keep:
  "keeps (key_ok H) (handleDeleteAPIClient pu user path audit)"
  "keeps (key_ok H) (handleDeleteTeamAPIClient L pu user path clientPath audit)"
  unfolding handleDeleteAPIClient_def handleDeleteTeamAPIClient_def
  by (intro if_keeps case_option_keeps handler_keeps delete_for_keeps)+

text \<open>
  A run keeps the hashes of the tokens ever made; a new token is 32 random bytes and its hash is not
  one of them.  The environment changes roles and lets the cache forget.
\<close>

record key_sys =
  ks_db :: key_db
  ks_issued :: "string set"

inductive key_step :: "('a, 'p) golib \<Rightarrow> (string \<Rightarrow> string) \<Rightarrow> (string \<Rightarrow> uuid option) \<Rightarrow> key_sys \<Rightarrow> key_sys \<Rightarrow> bool"
  for L hash pu where
  create: "hash token \<notin> ks_issued s
    \<Longrightarrow> key_step L hash pu s \<lparr>ks_db = snd (handleCreateAPIClient L hash pu user body new now token audit (ks_db s)), ks_issued = insert (hash token) (ks_issued s)\<rparr>"
| create_team: "hash token \<notin> ks_issued s
    \<Longrightarrow> key_step L hash pu s \<lparr>ks_db = snd (handleCreateTeamAPIClient L hash pu user path body new now token audit (ks_db s)), ks_issued = insert (hash token) (ks_issued s)\<rparr>"
| rotate: "hash token \<notin> ks_issued s
    \<Longrightarrow> key_step L hash pu s \<lparr>ks_db = snd (handleRotateAPIClient hash pu user path now token audit (ks_db s)), ks_issued = insert (hash token) (ks_issued s)\<rparr>"
| rotate_team: "hash token \<notin> ks_issued s
    \<Longrightarrow> key_step L hash pu s \<lparr>ks_db = snd (handleRotateTeamAPIClient L hash pu user path clientPath now token audit (ks_db s)), ks_issued = insert (hash token) (ks_issued s)\<rparr>"
| update: "key_step L hash pu s (s\<lparr>ks_db := snd (handleUpdateAPIClient L pu user path body now audit (ks_db s))\<rparr>)"
| update_team: "key_step L hash pu s (s\<lparr>ks_db := snd (handleUpdateTeamAPIClient L pu user path clientPath body now audit (ks_db s))\<rparr>)"
| delete: "key_step L hash pu s (s\<lparr>ks_db := snd (handleDeleteAPIClient pu user path audit (ks_db s))\<rparr>)"
| delete_team: "key_step L hash pu s (s\<lparr>ks_db := snd (handleDeleteTeamAPIClient L pu user path clientPath audit (ks_db s))\<rparr>)"
| authenticate: "key_step L hash pu s (s\<lparr>ks_db := snd (GetAPIClientAuth L hash now token (ks_db s))\<rparr>)"
| revalidate: "key_step L hash pu s (s\<lparr>ks_db := snd (RevalidateAPIClientAuth L now previous (ks_db s))\<rparr>)"
| roles: "key_step L hash pu s (s\<lparr>ks_db := (ks_db s)\<lparr>kd_db := db\<rparr>\<rparr>)"
| forget: "key_step L hash pu s (s\<lparr>ks_db := (ks_db s)\<lparr>kd_by_token := tokens, kd_by_client := clients\<rparr>\<rparr>)"

inductive key_steps :: "('a, 'p) golib \<Rightarrow> (string \<Rightarrow> string) \<Rightarrow> (string \<Rightarrow> uuid option) \<Rightarrow> key_sys \<Rightarrow> key_sys \<Rightarrow> bool"
  for L hash pu where
  none: "key_steps L hash pu s s"
| more: "key_steps L hash pu s s1 \<Longrightarrow> key_step L hash pu s1 s2 \<Longrightarrow> key_steps L hash pu s s2"

definition no_keys :: "roles_db \<Rightarrow> key_sys" where
  "no_keys db = \<lparr>ks_db = \<lparr>kd_db = db, kd_clients = [], kd_roles = [], kd_by_token = [], kd_by_client = []\<rparr>, ks_issued = {}\<rparr>"

text \<open>A step adds at most the hash of the token it makes; \<open>dead\<close> is a set of hashes made before.\<close>

lemma key_step_ok:
  assumes "key_step L hash pu s s'" and "dead \<subseteq> ks_issued s" and "key_ok (ks_issued s - dead) (ks_db s)"
  shows "key_ok (ks_issued s' - dead) (ks_db s') \<and> ks_issued s \<subseteq> ks_issued s'"
proof -
  let ?H = "\<lambda>token. insert (hash token) (ks_issued s) - dead"
  have made: "hash token \<in> ?H token" "key_ok (?H token) (ks_db s)" if "hash token \<notin> ks_issued s" for token
    using that assms(2,3) by (auto intro: key_ok_mono)
  have auth: "keeps (key_ok (ks_issued s - dead)) (GetAPIClientAuth L hash now token)"
    "keeps (key_ok (ks_issued s - dead)) (RevalidateAPIClientAuth L now previous)" for now token previous
    unfolding GetAPIClientAuth_def RevalidateAPIClientAuth_def
    by (intro if_keeps case_option_keeps case_prod_keeps prog_rules authentication_keeps)+
  have keep: "key_ok (ks_issued s - dead) (snd (m (ks_db s)))" if "keeps (key_ok (ks_issued s - dead)) m" for m :: "(key_db, 'e, 'r) prog"
    using keepsD [OF that assms(3)] .
  from assms(1) show ?thesis
  proof cases
    case (create token user body new now audit)
    show ?thesis unfolding create(1) using keepsD [OF create_handlers_keep(1) [of hash token, OF made(1) [OF create(2)]] made(2) [OF create(2)]] by auto
  next
    case (create_team token user path body new now audit)
    show ?thesis unfolding create_team(1) using keepsD [OF create_handlers_keep(2) [of hash token, OF made(1) [OF create_team(2)]] made(2) [OF create_team(2)]] by auto
  next
    case (rotate token user path now audit)
    show ?thesis unfolding rotate(1) using keepsD [OF rotate_handlers_keep(1) [of hash token, OF made(1) [OF rotate(2)]] made(2) [OF rotate(2)]] by auto
  next
    case (rotate_team token user path clientPath now audit)
    show ?thesis unfolding rotate_team(1) using keepsD [OF rotate_handlers_keep(2) [of hash token, OF made(1) [OF rotate_team(2)]] made(2) [OF rotate_team(2)]] by auto
  next
    case update
    then show ?thesis using keep [OF update_handlers_keep(1)] by simp
  next
    case update_team
    then show ?thesis using keep [OF update_handlers_keep(2)] by simp
  next
    case delete
    then show ?thesis using keep [OF delete_handlers_keep(1)] by simp
  next
    case delete_team
    then show ?thesis using keep [OF delete_handlers_keep(2)] by simp
  next
    case authenticate
    then show ?thesis using keep [OF auth(1)] by simp
  next
    case revalidate
    then show ?thesis using keep [OF auth(2)] by simp
  next
    case roles
    then show ?thesis using assms(3) by (simp add: key_ok_def)
  next
    case forget
    then show ?thesis using assms(3) by (simp add: key_ok_def)
  qed
qed

lemma key_steps_ok:
  assumes "key_steps L hash pu s s'" and "dead \<subseteq> ks_issued s" and "key_ok (ks_issued s - dead) (ks_db s)"
  shows "key_ok (ks_issued s' - dead) (ks_db s') \<and> ks_issued s \<subseteq> ks_issued s'"
  using assms
proof (induction rule: key_steps.induct)
  case (more s s1 s2)
  then have "key_ok (ks_issued s1 - dead) (ks_db s1)" "ks_issued s \<subseteq> ks_issued s1" by auto
  with key_step_ok [OF more.hyps(2), of dead] more.prems show ?case by blast
qed simp

end
