(* ===== verification/API_Key_Promises.thy ===== *)
theory API_Key_Promises
  imports API_Key_Runs
begin

text \<open>
  What an API client may do: never more than was delegated to it and its user may do at the moment, and
  nothing once its token was replaced or the client deleted.  The last section shows what a team admin
  can delegate.
\<close>

subsection \<open>Authority\<close>

lemma personal_role_Some:
  assumes "personal_role L db dflt user r = Some (site, role)"
  shows "site = kr_site r \<and> set (sitePermissions role) \<subseteq> set (sitePermissions (kr_role r))
    \<and> (\<exists>m current. m \<in> set (live_memberships db user) \<and> tm_tenant m = site_tenant_or db dflt site
        \<and> effectiveSiteRole L (map_of (site_members db) (site, user)) (map_of (sites db) site = Some user) (tm_role m) = Inr current
        \<and> set (sitePermissions role) \<subseteq> set (sitePermissions current))"
  using assms unfolding personal_role_def
  by (auto simp: Let_def find_Some_iff site_roles.meet_perms in_set_conv_nth split: option.splits sum.splits)

lemma cache_frame:
  "kd_clients (snd (getCachedAPIClientAuth now h s)) = kd_clients s" "kd_db (snd (getCachedAPIClientAuth now h s)) = kd_db s"
  "kd_roles (snd (getCachedAPIClientAuth now h s)) = kd_roles s"
  by (auto simp: getCachedAPIClientAuth_def split: option.splits)

lemma granted_roles_frame [simp]:
  "granted_roles L d c (snd (getCachedAPIClientAuth now h s)) = granted_roles L d c s"
  by (cases "ak_TenantID c"; cases "ak_UserID c") (simp_all add: granted_roles_def cache_frame)

lemma authority_frame: "key_authority L now h (snd (getCachedAPIClientAuth now h s)) = key_authority L now h s"
  unfolding key_authority_def cache_frame granted_roles_frame ..

lemma getAPIClientAuth_Some:
  "getAPIClientAuth L now h s = (Inr (Some a), s') \<Longrightarrow> \<exists>c. key_authority L now h s = Inr (Some (c, a))"
  using authority_frame [of L now h s]
  by (auto simp: getAPIClientAuth_def Let_def case_prod_beta split: sum.splits option.splits)

text \<open>What a known token stands for: its row, and the roles of the moment.\<close>

lemma key_authority_Some:
  assumes "key_authority L now h s = Inr (Some (c, a))"
  shows "c \<in> set (kd_clients s) \<and> ak_Hash c = h \<and> \<not> inactive now c \<and> ac_ClientID a = ak_ID c
    \<and> (ak_UserID c = None \<longrightarrow> ak_TenantID c \<noteq> None) \<and> (\<forall>t. ak_TenantID c = Some t \<longrightarrow> t \<notin> set (tenant_archives (kd_db s)))
    \<and> (\<exists>dflt current. getDefaultTenantID (kd_db s) = Inr dflt
        \<and> (case ak_UserID c of Some user \<Rightarrow> GetInstanceRole (kd_db s) user | None \<Rightarrow> Inr InstanceUser) = Inr current
        \<and> ac_InstanceRole a = MinInstanceRole current (ak_InstanceRole c) \<and> ac_SiteRoles a = granted_roles L dflt c s)"
proof -
  let ?P = "\<lambda>c. ak_Hash c = h \<and> (case ak_TenantID c of None \<Rightarrow> True | Some t \<Rightarrow> t \<notin> set (tenant_archives (kd_db s)))"
  obtain c' where f: "find ?P (kd_clients s) = Some c'"
    using assms by (auto simp: key_authority_def split: if_splits option.splits)
  then have c': "c' \<in> set (kd_clients s)" "?P c'" by (auto simp: find_Some_iff)
  show ?thesis
    using assms c' unfolding key_authority_def f option.case
    by (auto split: if_splits sum.splits option.splits)
qed

lemma granted_roles_in:
  assumes "(site, role) \<in> set (granted_roles L dflt c s)"
  obtains r where "r \<in> set (kd_roles s)" and "kr_client r = ak_ID c" and "kr_site r = site"
    and "\<And>t. ak_TenantID c = Some t \<Longrightarrow> site_tenant_or (kd_db s) dflt site = t"
    and "(case ak_UserID c of None \<Rightarrow> role = kr_role r | Some user \<Rightarrow> personal_role L (kd_db s) dflt user r = Some (site, role))"
proof -
  define rows where "rows = (case ak_TenantID c of None \<Rightarrow> filter (\<lambda>r. kr_client r = ak_ID c) (kd_roles s)
    | Some t \<Rightarrow> filter (\<lambda>r. site_tenant_or (kd_db s) dflt (kr_site r) = t) (filter (\<lambda>r. kr_client r = ak_ID c) (kd_roles s)))"
  have rows: "r \<in> set rows \<Longrightarrow> r \<in> set (kd_roles s) \<and> kr_client r = ak_ID c
      \<and> (\<forall>t. ak_TenantID c = Some t \<longrightarrow> site_tenant_or (kd_db s) dflt (kr_site r) = t)" for r
    by (auto simp: rows_def split: option.splits)
  have "\<exists>r \<in> set rows. kr_site r = site \<and> (case ak_UserID c of None \<Rightarrow> role = kr_role r
      | Some user \<Rightarrow> personal_role L (kd_db s) dflt user r = Some (site, role))"
  proof (cases "ak_UserID c")
    case None
    then show ?thesis using assms unfolding granted_roles_def Let_def rows_def by (auto split: option.splits)
  next
    case (Some user)
    then have "(site, role) \<in> set (List.map_filter (personal_role L (kd_db s) dflt user) rows)"
      using assms unfolding granted_roles_def Let_def rows_def by (auto split: option.splits)
    then obtain r where "r \<in> set rows" "personal_role L (kd_db s) dflt user r = Some (site, role)"
      by (auto simp: List.map_filter_def)
    moreover from this(2) have "kr_site r = site" by (rule personal_role_Some [THEN conjunct1, symmetric])
    ultimately show ?thesis using Some by auto
  qed
  then show thesis using that rows by blast
qed

text \<open>
  C39. An API client never has more authority than was delegated to it and than its owner has at the
  moment.  A token that authenticates belongs to a client that is neither revoked nor expired.  The
  client's instance permissions are among those of its own role and of its user's present role.  On
  every site it has a role on, it has at most the delegated permissions; a personal client also needs
  its user to be a member of the site's live team now and has at most the permissions the user has
  there, and a team's client needs the site to belong to that team.
\<close>

theorem api_key_current_authority:
  assumes "GetAPIClientAuth L hash now token s = (Inr (Some a), s')"
  shows "\<exists>c \<in> set (kd_clients s). ak_Hash c = hash (TrimSpace token) \<and> \<not> inactive now c
    \<and> (\<exists>current. (case ak_UserID c of Some user \<Rightarrow> GetInstanceRole (kd_db s) user | None \<Rightarrow> Inr InstanceUser) = Inr current
        \<and> set (instancePermissions (ac_InstanceRole a)) = set (instancePermissions current) \<inter> set (instancePermissions (ak_InstanceRole c)))
    \<and> (\<exists>dflt. getDefaultTenantID (kd_db s) = Inr dflt
        \<and> (\<forall>(site, role) \<in> set (ac_SiteRoles a).
            (\<exists>r \<in> set (kd_roles s). kr_client r = ak_ID c \<and> kr_site r = site
               \<and> set (sitePermissions role) \<subseteq> set (sitePermissions (kr_role r)))
            \<and> (case ak_UserID c of
                 Some user \<Rightarrow> \<exists>m current. m \<in> set (live_memberships (kd_db s) user) \<and> tm_tenant m = site_tenant_or (kd_db s) dflt site
                   \<and> effectiveSiteRole L (map_of (site_members (kd_db s)) (site, user)) (map_of (sites (kd_db s)) site = Some user) (tm_role m) = Inr current
                   \<and> set (sitePermissions role) \<subseteq> set (sitePermissions current)
               | None \<Rightarrow> \<exists>t. ak_TenantID c = Some t \<and> site_tenant_or (kd_db s) dflt site = t \<and> t \<notin> set (tenant_archives (kd_db s)))))"
proof -
  have "getAPIClientAuth L now (hash (TrimSpace token)) s = (Inr (Some a), s')"
    using assms by (simp add: GetAPIClientAuth_def ret_def split: if_splits)
  then obtain c where "key_authority L now (hash (TrimSpace token)) s = Inr (Some (c, a))"
    using getAPIClientAuth_Some by blast
  note c = key_authority_Some [OF this]
  then obtain dflt current where d: "getDefaultTenantID (kd_db s) = Inr dflt"
    and i: "(case ak_UserID c of Some user \<Rightarrow> GetInstanceRole (kd_db s) user | None \<Rightarrow> Inr InstanceUser) = Inr current"
    and a: "ac_InstanceRole a = MinInstanceRole current (ak_InstanceRole c)" "ac_SiteRoles a = granted_roles L dflt c s"
    by blast
  have site: "(\<exists>r \<in> set (kd_roles s). kr_client r = ak_ID c \<and> kr_site r = site \<and> set (sitePermissions role) \<subseteq> set (sitePermissions (kr_role r)))
    \<and> (case ak_UserID c of
         Some user \<Rightarrow> \<exists>m current. m \<in> set (live_memberships (kd_db s) user) \<and> tm_tenant m = site_tenant_or (kd_db s) dflt site
           \<and> effectiveSiteRole L (map_of (site_members (kd_db s)) (site, user)) (map_of (sites (kd_db s)) site = Some user) (tm_role m) = Inr current
           \<and> set (sitePermissions role) \<subseteq> set (sitePermissions current)
       | None \<Rightarrow> \<exists>t. ak_TenantID c = Some t \<and> site_tenant_or (kd_db s) dflt site = t \<and> t \<notin> set (tenant_archives (kd_db s)))"
    if granted: "(site, role) \<in> set (granted_roles L dflt c s)" for site role
  proof -
    obtain r where r: "r \<in> set (kd_roles s)" "kr_client r = ak_ID c" "kr_site r = site"
      "\<And>t. ak_TenantID c = Some t \<Longrightarrow> site_tenant_or (kd_db s) dflt site = t"
      "(case ak_UserID c of None \<Rightarrow> role = kr_role r | Some user \<Rightarrow> personal_role L (kd_db s) dflt user r = Some (site, role))"
      using granted_roles_in [OF granted] by blast
    show ?thesis
    proof (cases "ak_UserID c")
      case None
      then show ?thesis using r c by auto
    next
      case (Some user)
      then show ?thesis using r personal_role_Some [of L "kd_db s" dflt user r site role] by auto
    qed
  qed
  show ?thesis
    using c d i a site by (intro bexI [of _ c] conjI exI [of _ current] exI [of _ dflt]) (auto simp: inst_roles.meet_perms)
qed

subsection \<open>Replaced tokens\<close>

lemma bind_InrE:
  assumes "bind_op m k s = (Inr y, s2)"
  obtains x s1 where "m s = (Inr x, s1)" and "k x s1 = (Inr y, s2)"
  using bind_op_Inr [OF assms] by blast

lemma committed_Inr: "committed m s = (Inr x, s') \<Longrightarrow> m s = (Inr x, s')"
  by (auto simp: committed_def split: prod.splits sum.splits)

lemma or_status_Inr: "or_status f m s = (Inr x, s') \<Longrightarrow> m s = (Inr x, s')"
  by (auto simp: or_status_def split: prod.splits sum.splits)

lemma site_roles_frame: "kd_clients (snd (replaceAPIClientSiteRolesTx client roles s)) = kd_clients s"
proof -
  have "keeps (\<lambda>t. kd_clients t = kd_clients s) (replaceAPIClientSiteRolesTx client roles)"
    unfolding replaceAPIClientSiteRolesTx_def clear_key_roles_def insert_key_role_def
    by (intro prog_rules prog_keeps_writes case_prod_keeps prog_keeps_require) simp_all
  then show ?thesis by (simp add: keeps_def)
qed

lemma getAPIClient_frame: "snd (getAPIClient client ow s) = s"
  by (simp add: getAPIClient_def kd_ok_def bind_op_def require_def reads_def)

lemma rotatable_Inr: "rotatable client ow now s = (Inr x, s') \<Longrightarrow> s' = s \<and> client_row client ow s \<noteq> None"
  by (auto simp: rotatable_def kd_ok_def bind_op_def require_def reads_def split: if_splits option.splits)

lemma rotated_rows:
  assumes "rotate_for hash client ow now token audit s = (Inr x, d)"
  shows "client_row client ow s \<noteq> None
    \<and> kd_clients d = update_where (\<lambda>c. ak_ID c = client \<and> owned_by ow c) (\<lambda>c. c\<lparr>ak_Hash := hash token, ak_UpdatedAt := now\<rparr>) (kd_clients s)"
proof -
  let ?rows = "\<lambda>s'. kd_clients s' = update_where (\<lambda>c. ak_ID c = client \<and> owned_by ow c) (\<lambda>c. c\<lparr>ak_Hash := hash token, ak_UpdatedAt := now\<rparr>) (kd_clients s)"
  obtain r where r: "rotateAPIClient hash token client ow now s = (Inr r, d)"
  proof -
    obtain r s1 where r: "or_status rotated_status (rotateAPIClient hash token client ow now) s = (Inr r, s1)"
      and k: "(case r of (c, token) \<Rightarrow> case c of None \<Rightarrow> abort 404 | Some v \<Rightarrow> bind_op (audited audit) (\<lambda>_. ret (v, token))) s1 = (Inr x, d)"
      using bind_InrE [OF assms [unfolded rotate_for_def]] by blast
    have "s1 = d"
      using k by (auto simp: abort_def audited_def bind_op_def require_def ret_def split: prod.splits option.splits if_splits)
    with or_status_Inr [OF r] that show thesis by blast
  qed
  obtain y s1 where 1: "rotatable client ow now s = (Inr y, s1)" and k1: "bind_op (replaceAPIClientToken client ow (hash token) now)
         (\<lambda>_. bind_op (writes (invalidateAPIClientAuthCache client)) (\<lambda>_. bind_op (getAPIClient client ow) (\<lambda>c. ret (c, token)))) s1 = (Inr r, d)"
    using bind_InrE [OF r [unfolded rotateAPIClient_def]] by blast
  obtain z s2 where 2: "replaceAPIClientToken client ow (hash token) now s = (Inr z, s2)"
    and k2: "bind_op (writes (invalidateAPIClientAuthCache client)) (\<lambda>_. bind_op (getAPIClient client ow) (\<lambda>c. ret (c, token))) s2 = (Inr r, d)"
    using bind_InrE [OF k1] rotatable_Inr [OF 1] by blast
  have d: "kd_clients d = kd_clients s2"
    using k2 getAPIClient_frame [of client ow "invalidateAPIClientAuthCache client s2"]
    by (auto simp: bind_op_def writes_def ret_def split: prod.splits sum.splits)
  note m = committed_Inr [OF 2 [unfolded replaceAPIClientToken_def]]
  obtain w s3 where 3: "rotatable client ow now s = (Inr w, s3)" and k3: "bind_op (reads (\<lambda>s. Inr (apiClientSiteRolesTx client s)))
         (\<lambda>siteRoles. bind_op (clear_key_roles client)
           (\<lambda>_. bind_op (require (KeyDb DbFailure) (\<lambda>s. \<not> list_ex (\<lambda>c. ak_ID c \<noteq> client \<and> ak_Hash c = hash token) (kd_clients s)))
             (\<lambda>_. bind_op (update_clients client ow (\<lambda>c. c\<lparr>ak_Hash := hash token, ak_UpdatedAt := now\<rparr>))
               (\<lambda>_. if siteRoles = [] then ret () else replaceAPIClientSiteRolesTx client siteRoles)))) s3 = (Inr z, s2)"
    using bind_InrE [OF m] by blast
  define t where "t = s\<lparr>kd_roles := filter (\<lambda>r. kr_client r \<noteq> client) (kd_roles s),
      kd_clients := update_where (\<lambda>c. ak_ID c = client \<and> owned_by ow c) (\<lambda>c. c\<lparr>ak_Hash := hash token, ak_UpdatedAt := now\<rparr>) (kd_clients s)\<rparr>"
  have "(if apiClientSiteRolesTx client s = [] then ret () else replaceAPIClientSiteRolesTx client (apiClientSiteRolesTx client s)) t = (Inr z, s2)"
    using k3 rotatable_Inr [OF 3] unfolding t_def
    by (simp add: clear_key_roles_def update_clients_def writes_def reads_def require_def bind_op_def split: if_split_asm)
  then have "?rows s2" using site_roles_frame [of client "apiClientSiteRolesTx client s" t] by (auto simp: ret_def t_def split: if_split_asm)
  then show ?thesis using rotatable_Inr [OF 1] d by simp
qed

lemma deleted_rows:
  assumes "delete_for client ow audit s = (Inr x, d)"
  shows "client_row client ow s \<noteq> None \<and> kd_clients d = filter (\<lambda>c. \<not> (ak_ID c = client \<and> owned_by ow c)) (kd_clients s)"
  using assms unfolding delete_for_def deleteAPIClient_def
  by (elim bind_InrE) (auto dest!: or_status_Inr committed_Inr simp: getAPIClient_def abort_def audited_def clear_key_roles_def kd_ok_def writes_def reads_def require_def
      bind_op_def ret_def client_row_def split: if_splits option.splits prod.splits sum.splits)

text \<open>A client that is found by its owner is the one row with its identifier.\<close>

lemma client_row_is:
  assumes "distinct (map ak_ID (kd_clients s))" and "client_row (ak_ID c) ow s \<noteq> None" and "c \<in> set (kd_clients s)"
  shows "owned_by ow c"
  using assms by (auto simp: client_row_def find_Some_iff distinct_conv_nth in_set_conv_nth)

lemma replaced_hash_gone:
  assumes "key_ok H s" and "c \<in> set (kd_clients s)" and "hash token \<notin> H"
    and "rotate_for hash (ak_ID c) ow now token audit s = (Inr x, d) \<or> delete_for (ak_ID c) ow audit s = (Inr (), d)"
  shows "ak_Hash c \<notin> ak_Hash ` set (kd_clients d)"
proof -
  have ids: "distinct (map ak_ID (kd_clients s))" and hashes: "distinct (map ak_Hash (kd_clients s))" "ak_Hash ` set (kd_clients s) \<subseteq> H"
    using assms(1) by (simp_all add: key_ok_def)
  have one: "c' = c" if "c' \<in> set (kd_clients s)" "ak_Hash c' = ak_Hash c" for c'
    using hashes(1) assms(2) that by (auto simp: distinct_map dest: inj_onD)
  have h: "hash token \<noteq> ak_Hash c" using assms(2,3) hashes(2) by auto
  show ?thesis using assms(4)
  proof
    assume r: "rotate_for hash (ak_ID c) ow now token audit s = (Inr x, d)"
    note rows = rotated_rows [OF r]
    show ?thesis using conjunct2 [OF rows] client_row_is [OF ids conjunct1 [OF rows] assms(2)] h one
      by (auto elim!: update_whereE split: if_splits)
  next
    assume r: "delete_for (ak_ID c) ow audit s = (Inr (), d)"
    note rows = deleted_rows [OF r]
    show ?thesis using conjunct2 [OF rows] client_row_is [OF ids conjunct1 [OF rows] assms(2)] one by auto
  qed
qed

text \<open>
  C40. A replaced token is dead.  When, in any run of the handlers that starts without clients, a client's
  token is replaced or the client deleted, no later authentication with the old token succeeds, whatever
  other requests, changes of roles and losses of the cache follow.
\<close>

theorem replaced_key_is_dead:
  assumes "key_steps L hash pu (no_keys db) s" and "c \<in> set (kd_clients (ks_db s))" and "hash token \<notin> ks_issued s"
    and "rotate_for hash (ak_ID c) ow now token audit (ks_db s) = (Inr x, d) \<or> delete_for (ak_ID c) ow audit (ks_db s) = (Inr (), d)"
    and "key_steps L hash pu \<lparr>ks_db = d, ks_issued = insert (hash token) (ks_issued s)\<rparr> s'"
    and "hash (TrimSpace old) = ak_Hash c"
  shows "fst (GetAPIClientAuth L hash later old (ks_db s')) \<noteq> Inr (Some a)"
proof
  let ?s = "\<lparr>ks_db = d, ks_issued = insert (hash token) (ks_issued s)\<rparr>"
  have ok: "key_ok (ks_issued s) (ks_db s)"
    using key_steps_ok [OF assms(1), of "{}"] by (simp add: no_keys_def key_ok_def)
  have "key_ok (insert (hash token) (ks_issued s)) d"
    using assms(4) keepsD [OF rotate_for_keeps [of hash token], of "insert (hash token) (ks_issued s)" "ks_db s"]
      keepsD [OF delete_for_keeps, of "insert (hash token) (ks_issued s)" "ks_db s"] key_ok_mono [OF ok, of "insert (hash token) (ks_issued s)"]
    by (metis insertI1 snd_conv subset_insertI)
  moreover have gone: "ak_Hash c \<notin> ak_Hash ` set (kd_clients d)"
    by (rule replaced_hash_gone [OF ok assms(2-4)])
  ultimately have "key_ok (ks_issued ?s - {ak_Hash c}) (ks_db ?s)" by (simp add: key_ok_def subset_Diff_insert)
  moreover have "{ak_Hash c} \<subseteq> ks_issued ?s" using ok assms(2) by (auto simp: key_ok_def)
  ultimately have dead: "key_ok (ks_issued s' - {ak_Hash c}) (ks_db s')"
    using key_steps_ok [OF assms(5)] by blast
  assume "fst (GetAPIClientAuth L hash later old (ks_db s')) = Inr (Some a)"
  then have "fst (getAPIClientAuth L later (ak_Hash c) (ks_db s')) = Inr (Some a)"
    by (simp add: GetAPIClientAuth_def ret_def assms(6) split: if_splits)
  then obtain s2 where "getAPIClientAuth L later (ak_Hash c) (ks_db s') = (Inr (Some a), s2)" by (metis prod.collapse)
  then obtain c' where "c' \<in> set (kd_clients (ks_db s'))" "ak_Hash c' = ak_Hash c"
    using getAPIClientAuth_Some key_authority_Some by blast
  then show False using dead by (force simp: key_ok_def)
qed

subsection \<open>Examples\<close>

text \<open>The member of the sample team has a client that may edit site 4, and one that owns it on paper.\<close>

definition sample_key :: "APIClient" where
  "sample_key = \<lparr>ak_ID = 9, ak_UserID = Some 7, ak_TenantID = None, ak_Name = ''t'', ak_Description = [], ak_Hash = ''t'',
     ak_InstanceRole = ''user'', ak_ExpiresAt = None, ak_LastUsedAt = None, ak_RevokedAt = None, ak_CreatedAt = 1, ak_UpdatedAt = 1\<rparr>"

definition sample_keys :: "key_db" where
  "sample_keys = \<lparr>kd_db = sample_db, kd_clients = [sample_key], kd_roles = [\<lparr>kr_client = 9, kr_site = 4, kr_role = ''owner''\<rparr>],
     kd_by_token = [], kd_by_client = []\<rparr>"

lemma TrimSpace_t: "TrimSpace ''t'' = ''t''"
  by (simp add: TrimSpace_graphic graphic_def)

lemma sample_live: "live_memberships sample_db 7 = [\<lparr>tm_tenant = 3, tm_user = 7, tm_role = ''member'', tm_added_at = 0\<rparr>]"
  by (simp add: live_memberships_def sample_db_def tenant_exists_def archived_def)

lemma sample_personal_role:
  "personal_role bare_lib sample_db 3 7 \<lparr>kr_client = 9, kr_site = 4, kr_role = ''owner''\<rparr> = Some (4, ''editor'')"
proof -
  have db: "map_of (sites sample_db) 4 = Some 2" "site_tenant_or sample_db 3 4 = 3" "map_of (site_members sample_db) (4, 7) = Some ''editor''"
    by (simp_all add: sample_db_def site_tenant_or_def)
  show ?thesis
    by (simp add: personal_role_def sample_live db effectiveSiteRole_def tenantRoleSiteRole_member MinSiteRole_def siteRoleRank_def role_names)
qed

lemma sample_granted: "granted_roles bare_lib 3 sample_key sample_keys = [(4, ''editor'')]"
  using sample_personal_role
  by (simp add: granted_roles_def sample_keys_def sample_key_def List.map_filter_def)

lemma sample_authority:
  "GetAPIClientAuth bare_lib id 5 ''t'' sample_keys = (Inr (Some \<lparr>ac_ClientID = 9, ac_UserID = 7, ac_TenantID = uuid_Nil,
     ac_InstanceRole = ''user'', ac_SiteRoles = [(4, ''editor'')]\<rparr>), note_use 5 ''t'' sample_key sample_keys)"
proof -
  have d: "getDefaultTenantID sample_db = Inr 3" "db_ok sample_db" "GetInstanceRole sample_db 7 = Inr ''user''"
    by (simp_all add: getDefaultTenantID_def sample_db_def GetInstanceRole_def role_names)
  have "key_authority bare_lib 5 ''t'' sample_keys = Inr (Some (sample_key, \<lparr>ac_ClientID = 9, ac_UserID = 7, ac_TenantID = uuid_Nil,
     ac_InstanceRole = ''user'', ac_SiteRoles = [(4, ''editor'')]\<rparr>))"
    unfolding key_authority_def
    by (simp add: sample_keys_def d sample_granted [unfolded sample_keys_def] sample_key_def inactive_def)
      (simp add: d sample_granted [unfolded sample_keys_def sample_key_def] MinInstanceRole_def)
  then show ?thesis
    by (simp add: GetAPIClientAuth_def TrimSpace_t getAPIClientAuth_def getCachedAPIClientAuth_def) (simp add: sample_keys_def)
qed

theorem api_key_current_authority_witness:
  "\<exists>current. effectiveSiteRole bare_lib (Some ''editor'') False ''member'' = Inr current
     \<and> set (sitePermissions ''editor'') \<subseteq> set (sitePermissions current)"
  using api_key_current_authority [OF sample_authority]
  by (auto simp: sample_keys_def sample_key_def sample_live) (simp add: sample_db_def)

text \<open>The same member makes a client and deletes it.\<close>

definition sample_body :: apiClientRequest where
  "sample_body = \<lparr>kq_Name = ''t'', kq_Description = [], kq_InstanceRole = [], kq_ExpiresAt = None, kq_Revoked = None, kq_SiteRoles = []\<rparr>"

definition one_key :: key_sys where
  "one_key = \<lparr>ks_db = \<lparr>kd_db = sample_db, kd_clients = [sample_key], kd_roles = [], kd_by_token = [], kd_by_client = []\<rparr>, ks_issued = {''t''}\<rparr>"

lemma one_key_step: "key_steps bare_lib id sample_parse (no_keys sample_db) one_key"
proof -
  have d: "db_ok sample_db" "GetInstanceRole sample_db 7 = Inr ''user''"
    by (simp_all add: sample_db_def GetInstanceRole_def role_names)
  have "ks_db one_key = snd (handleCreateAPIClient bare_lib id sample_parse 7 (Some sample_body) 9 1 ''t'' True (ks_db (no_keys sample_db)))"
    by (simp add: handleCreateAPIClient_def named_def sample_body_def TrimSpace_t personal_request_def d no_keys_def
        CreateAPIClient_def createAPIClient_def uuid_Nil_def validateDelegatedSiteRoles_def db_here_def reads_def bind_op_def
        IsValidInstanceRole_def CanAssignInstanceRole_def instanceRoleRank_def role_names or_status_def committed_def kd_ok_def
        require_def writes_def replaceAPIClientSiteRolesTx_def clear_key_roles_def ret_def audited_def nullable_uuid_def Let_def d)
      (simp add: one_key_def sample_key_def)
  then show ?thesis
    using key_steps.more [OF key_steps.none key_step.create [where L = bare_lib and hash = id and pu = sample_parse
      and s = "no_keys sample_db" and token = "''t''" and user = 7 and body = "Some sample_body" and new = 9 and now = 1 and audit = True]]
    by (simp add: no_keys_def one_key_def)
qed

theorem replaced_key_is_dead_witness:
  "\<forall>a. fst (GetAPIClientAuth bare_lib id 6 ''t'' (invalidateAPIClientAuthCache 9 \<lparr>kd_db = sample_db, kd_clients = [], kd_roles = [],
     kd_by_token = [], kd_by_client = []\<rparr>)) \<noteq> Inr (Some a)"
proof -
  define d where "d = invalidateAPIClientAuthCache 9 \<lparr>kd_db = sample_db, kd_clients = [], kd_roles = [], kd_by_token = [], kd_by_client = []\<rparr>"
  have ok: "db_ok sample_db" by (simp add: sample_db_def)
  have "delete_for 9 (Personal 7) True (ks_db one_key) = (Inr (), d)"
    by (simp add: delete_for_def one_key_def getAPIClient_def deleteAPIClient_def kd_ok_def ok bind_op_def require_def reads_def
        or_status_def committed_def writes_def ret_def audited_def clear_key_roles_def client_row_def readable_by_def owned_by_def
        sample_key_def d_def)
  then have "delete_for (ak_ID sample_key) (Personal 7) True (ks_db one_key) = (Inr (), d)" by (simp add: sample_key_def)
  then have "fst (GetAPIClientAuth bare_lib id 6 ''t'' d) \<noteq> Inr (Some a)" for a
    using replaced_key_is_dead [OF one_key_step, where c = sample_key and token = "''u''" and ow = "Personal 7" and audit = True
        and d = d and later = 6 and old = "''t''" and a = a, OF _ _ disjI2 key_steps.none]
    by (simp add: one_key_def TrimSpace_t) (simp add: sample_key_def TrimSpace_t)
  then show ?thesis by (simp add: d_def)
qed

subsection \<open>What a team admin can delegate\<close>

text \<open>
  \<open>validateTeamDelegatedSiteRoles\<close> compares the requested role with nothing, unlike its counterpart
  for personal clients.  An admin of a team has the site role admin on its sites and no permission to
  delete them, but can make a client with the site role owner.
\<close>

definition admin_db :: roles_db where
  "admin_db = sample_db\<lparr>tenant_members := [\<lparr>tm_tenant = 3, tm_user = 7, tm_role = ''admin'', tm_added_at = 0\<rparr>], site_members := []\<rparr>"

lemma team_admin_makes_owner_key:
  "GetSiteRole bare_lib admin_db 7 4 = Inr ''admin''
   \<and> resolveTeamAPIClientScope bare_lib (\<lambda>_. Some 3) 7 ''3'' admin_db = Inr 3
   \<and> validateTeamDelegatedSiteRoles sample_parse admin_db 3 [(''4'', ''owner'')] = Inr [(4, ''owner'')]
   \<and> ''site.delete'' \<in> set (sitePermissions ''owner'') - set (sitePermissions ''admin'')"
proof -
  have lower: "ToLower bare_lib ''admin'' = ''admin''" "TrimSpace ''admin'' = ''admin''" "TrimSpace ''owner'' = ''owner''" "TrimSpace ''4'' = ''4''"
    by (simp_all add: ToLower_def is_ascii_def lower_byte_def TrimSpace_graphic graphic_def)
  have role: "tenantRoleSiteRole bare_lib ''admin'' = Some ''admin''"
    by (simp add: tenantRoleSiteRole_def lower tenant_role_names role_names)
  have db: "getDefaultTenantID admin_db = Inr 3" "db_ok admin_db" "live_memberships admin_db 7 = tenant_members admin_db"
    "sites admin_db = [(4, 2)]" "site_members admin_db = []" "site_tenants admin_db = [(4, 3)]" "tenant_archives admin_db = []"
    "tenant_members admin_db = [\<lparr>tm_tenant = 3, tm_user = 7, tm_role = ''admin'', tm_added_at = 0\<rparr>]"
    by (simp_all add: admin_db_def sample_db_def getDefaultTenantID_def live_memberships_def tenant_exists_def archived_def)
  have active: "getActiveTenantID admin_db 7 = Inr 3"
    by (simp add: getActiveTenantID_def getPrimaryTenantID_def live_memberships_def admin_db_def sample_db_def tenant_exists_def archived_def)
  have "GetSiteRole bare_lib admin_db 7 4 = Inr ''admin''"
    by (simp add: GetSiteRole_def active getSiteRoleForTenant_def db site_tenant_or_def archived_def effectiveSiteRole_def role)
  moreover have "resolveTeamAPIClientScope bare_lib (\<lambda>_. Some 3) 7 ''3'' admin_db = Inr 3"
    by (simp add: resolveTeamAPIClientScope_def uuid_Nil_def GetTenantRole_def db lower TeamRoleHasCapability_def roleAllows_def
        resource_kinds TeamCapabilities_def)
  moreover have "validateTeamDelegatedSiteRoles sample_parse admin_db 3 [(''4'', ''owner'')] = Inr [(4, ''owner'')]"
    by (simp add: validateTeamDelegatedSiteRoles_def ListSitesForTenant_def db site_tenant_or_def archived_def lower sample_parse_def
        IsValidSiteRole_def siteRoleRank_def role_names)
  moreover have "''site.delete'' \<in> set (sitePermissions ''owner'') - set (sitePermissions ''admin'')"
    by (simp add: sitePermissions_def policy_simps)
  ultimately show ?thesis by simp
qed

end
