(* ===== verification/Spec2Isabelle.thy ===== *)
theory Spec2Isabelle
  imports Access_Control Exclusion_Store Spam_Filter Webhook_Runs OAuth_Promises Team_Promises Report_Promises Realtime_Promises
    Ingest_Promises Ingest_Delivery API_Key_Promises
begin

text \<open>
  HitKeep is a web analytics server.  Browsers and servers send page views, events and web vitals to
  its ingest endpoints, which queue them; a consumer stores them in the database of the team that owns
  the site.  Users, API clients and OAuth clients read and manage sites through permission checks; teams,
  invitations, scheduled reports, live dashboards and webhooks stand around that.  This development
  models the Go code that decides: who may do what, what is stored, what is sent to whom, and what
  remains true whatever order the requests come in and whichever database statement fails.

  \<^bold>\<open>Foundations.\<close>  \<open>Prelude\<close> has the types for Go's strings, UUIDs and times, \<open>int64\<close> with its
  wrap-around, the functions of \<open>strings\<close> and \<open>strconv\<close> the source uses, and lemmas on tables kept as
  lists.  \<open>Programs\<close> has operations on a store that give an error or a result, transactions that forget
  their changes on an error, and the rules by which an invariant of the statements is one of the operation.
  \<open>Netip\<close> has IP addresses and prefixes as words, \<open>Calendar\<close> Go's dates and zones.

  \<^bold>\<open>Permissions.\<close>  \<open>Auth_Policy\<close> is package \<open>auth\<close>: the role tables and the decisions of \<open>Authorize\<close> and
  \<open>AuthorizeOAuth\<close>.  The locale \<open>role_order\<close> states what a rank and a meet of roles promise and is
  interpreted for instance and for site roles.  \<open>Role_Store\<close> has the tables of roles and memberships and
  the queries that resolve a role (\<open>database/store_permissions.go\<close>, \<open>store_tenant.go\<close>).  \<open>Access_Control\<close>
  is the middleware (\<open>server/shared/authz.go\<close>, \<open>context.go\<close>, \<open>oauth.go\<close>); it reads both.  Its theorems
  say when a request passes and that no credential exceeds its delegation.

  \<^bold>\<open>API clients.\<close>  \<open>API_Keys\<close> is \<open>database/store_api_client.go\<close> with its cache, \<open>API_Key_Handlers\<close> the
  handlers of \<open>server/user/api_clients_handlers.go\<close>, \<open>API_Key_Runs\<close> their runs with a cache that may
  forget at any time, \<open>API_Key_Promises\<close> the authority of a token and the end of a replaced one.

  \<^bold>\<open>OAuth.\<close>  \<open>OAuth_Store\<close> is \<open>database/store_oauth.go\<close> and \<open>store_oauth_clients.go\<close>; \<open>OAuth_Provider\<close> is
  the storage adapter and the token, revocation and authentication endpoints (\<open>oauth/storage.go\<close>,
  \<open>provider.go\<close>), \<open>OAuth_Consent\<close> the decision of the user (\<open>oauth/consent.go\<close>).  The protocol library is
  a parameter: what it does in an operation is a sequence of calls of the storage, and where a theorem
  needs its answer to a used credential that is the hypothesis \<open>reuse_handled\<close>.  \<open>OAuth_Runs\<close> has the
  runs and the locales \<open>storage_invariant\<close>, \<open>table_invariant\<close> and \<open>oauth_invariant\<close>: what an invariant of
  the tables must survive for all endpoints to keep it.  \<open>OAuth_Promises\<close> interprets them and proves the
  authority of a token, consent, replay and revocation.

  \<^bold>\<open>Teams.\<close>  \<open>Team_Store\<close> and \<open>Team_Invites\<close> are \<open>database/store_tenant_membership.go\<close>, the lifecycle and
  the tokens of invitations, with the handlers of \<open>server/user/team_membership_handlers.go\<close>.  \<open>Team_Runs\<close>
  has their runs.  The handler that removes a member checks first and deletes in a later transaction, so a
  removal takes two steps; in a serial run nothing comes between them, and only there a team keeps its
  owner.  \<open>Team_Promises\<close> has that theorem, the run of two concurrent removals that shows why it is needed,
  and the end of the access of a member who left.

  \<^bold>\<open>Traffic exclusion.\<close>  \<open>Traffic_Filter\<close> is \<open>blocking/cidr.go\<close> and \<open>ip_filter.go\<close>: rules are compiled when
  the filter is refreshed, and the compiled form blocks exactly what the rules say.  \<open>Exclusion_Store\<close> is the
  table of rules, \<open>Spam_Filter\<close> the feed of spam sources with its update.

  \<^bold>\<open>Ingest.\<close>  \<open>Client_IP\<close> finds the client's address and country; \<open>Ingest_Requests\<close>, \<open>Ingest_Handlers\<close> and
  \<open>Ingest_Server\<close> are \<open>server/ingest/handlers.go\<close> for browsers and servers; they ask the traffic and the spam
  filter, and server requests pass the permission middleware.  \<open>Ingest_Store\<close> and \<open>Ingest_Pipeline\<close> are the
  consumer (\<open>ingest/consumer.go\<close>, \<open>batcher.go\<close>, \<open>database/store_ingest_idempotent.go\<close>): batches, flushes and
  stored rows, then changes for the dashboards and conversions for webhooks.  The locale \<open>persisting\<close> is what
  the pipeline needs of a persist function, interpreted for hits, events and web vitals in \<open>Ingest_Delivery\<close>.
  \<open>Ingest_Promises\<close> and \<open>Ingest_Admission\<close> say whose address a request has and which requests are queued;
  \<open>Ingest_Samples\<close> has the environment their witnesses run in.

  \<^bold>\<open>Webhooks.\<close>  \<open>Webhook_Target\<close> says what may be subscribed to and which addresses may be dialed;
  \<open>Webhook_Store\<close> and \<open>Webhook_Delivery\<close> are \<open>database/store_webhooks.go\<close> and \<open>store_webhook_delivery.go\<close>
  statement by statement, with a script of failures; \<open>Webhook_Dispatch\<close> is package \<open>webhookdispatcher\<close>.
  \<open>Webhook_Enqueue\<close> and \<open>Webhook_Outbox\<close> prove that a batch is stored whole or not at all and the fate of the
  final event of a deleted site; \<open>Webhook_Lifecycle\<close> and \<open>Webhook_Runs\<close> have the runs of store, workers and
  sweeper.  The locale \<open>op_invariant\<close> is what a statement must keep for every operation to keep it.

  \<^bold>\<open>Reports.\<close>  \<open>Report_Schedule\<close> is \<open>reporting/schedule.go\<close>, \<open>Report_Store\<close> the definitions, recipients and
  confirmations, \<open>Report_Delivery\<close> the claims, deliveries and the round of the worker.  \<open>Report_Invariants\<close> has
  the locale \<open>worker_invariant\<close> and its interpretations; \<open>Report_Promises\<close> proves that claims end, the bound on
  mails and the consent of external recipients.

  \<^bold>\<open>Realtime.\<close>  \<open>Realtime\<close> is \<open>realtime/broker.go\<close>; \<open>Realtime_Runs\<close> and \<open>Realtime_Promises\<close> show its bounds, that a
  listening client misses no change without being told to load again, and that a reconnecting one gets
  exactly what it missed.

  \<^bold>\<open>How code becomes definitions.\<close>  A struct is a record, a table a list of rows or an association list, an
  operation a function from the state to a result or an error and the new state.  Where the code runs
  several transactions, or a statement may fail between others, the model has the same steps: failures are
  a script or an answer of the environment, and runs are inductive relations over the handlers, the workers
  and the failures.  Clocks, random identifiers, DNS, HTTP, mail servers and parsers of the standard
  library that are not modelled are arguments; theorems that need their documented behaviour name it as a
  hypothesis and have a witness.  New identifiers and tokens are assumed to be fresh where uniqueness is claimed.

  \<^bold>\<open>Bounds.\<close>  No definition runs on fuel of its own: the counters are the code's.  The search for the next
  report looks at 400 dates, which holds an occurrence of every valid schedule in a zone with a fixed offset,
  and at the 1800 minutes around a date.  A delivery of a report is mailed at most four times between manual
  retries.  A channel of the broker holds 16 events, a history 256.  A batch of the ingest pipeline is flushed
  at 64 items, and a message of its queue is attempted five times: at the sixth delivery the queue library
  finishes it without a row.  The loops that skip missed reports, trim strings or swap list ends are
  functions with a termination proof.

  \<^bold>\<open>Not modelled.\<close>  Analytics queries and rollups are SQL text; sign-in, single sign-on and passkeys are exchanges
  with libraries; opening, migrating and repairing database files, backups, imports, search data, assistants,
  billing, mail templates, configuration, command line tools and the dashboard (TypeScript) are outside.  Caches
  of roles are left out, as are columns that are only displayed and log records.  Concurrency is the order of
  steps: each transaction is one step, and the code between two of them may be interleaved wherever a run says so.
\<close>

end
